(* ===== verification/Prelude.thy ===== *)
theory Prelude
  imports Main "HOL-Library.State_Monad"
begin

text \<open>
  What every component shares: Go errors as values, the string and time helpers of the Go
  standard library that the source calls, table updates (a table is the list of its rows),
  and the state monad in which a Go method is a step on the state of its component.
  The locale \<open>state_preorder\<close> holds the rules by which a property of every store
  call is carried through a method that makes many of them.
\<close>

section \<open>Errors as values\<close>

text \<open>
  A Go \<open>error\<close>: a plain text, a failure reported by the database driver or by a remote
  peer, the sentinels the source compares with \<open>errors.Is\<close>, the
  constraint violations that the Postgres schema can raise, and \<open>fmt.Errorf\<close> with \<open>%w\<close>, kept
  as the text before and after the wrapped error.
\<close>

datatype go_error =
    ErrText string
  | ErrRemote string
  | ErrTimeout string
  | ErrNoRows
  | ErrUnique
  | ErrForeignKey
  | ErrCheck
  | ErrNoEligibleHost
  | ErrWorkflowLockHeld
  | ErrWorkflowLockNotFound
  | ErrOutcomeUnknown
  | ErrBrowserVMNotFound
  | Wrap string go_error string

text \<open>\<open>errors.Is(err, sentinel)\<close> walks the chain of wrapped errors.\<close>

fun errors_is :: "go_error \<Rightarrow> go_error \<Rightarrow> bool" where
  "errors_is (Wrap p e q) t = (Wrap p e q = t \<or> errors_is e t)"
| "errors_is e t = (e = t)"

fun error_text :: "go_error \<Rightarrow> string" where
  "error_text (ErrText s) = s"
| "error_text (ErrRemote s) = s"
| "error_text (ErrTimeout s) = s"
| "error_text ErrNoRows = ''no rows in result set''"
| "error_text ErrUnique = ''duplicate key value violates unique constraint''"
| "error_text ErrForeignKey = ''violates foreign key constraint''"
| "error_text ErrCheck = ''violates check constraint''"
| "error_text ErrNoEligibleHost = ''no host available with sufficient capacity''"
| "error_text ErrWorkflowLockHeld = ''workflow lock already held''"
| "error_text ErrWorkflowLockNotFound = ''workflow lock not found''"
| "error_text ErrOutcomeUnknown = ''agent operation outcome unknown''"
| "error_text ErrBrowserVMNotFound = ''browser VM not found on agent''"
| "error_text (Wrap p e q) = p @ error_text e @ q"

abbreviation wrap :: "string \<Rightarrow> go_error \<Rightarrow> go_error" where
  "wrap p e \<equiv> Wrap (p @ '': '') e ''''"

type_synonym 'a result = "go_error + 'a"

section \<open>Strings and time\<close>

fun digits_of :: "nat \<Rightarrow> nat \<Rightarrow> string" where
  "digits_of 0 n = []"
| "digits_of (Suc fuel) n =
     (if n < 10 then [char_of (48 + n)]
      else digits_of fuel (n div 10) @ [char_of (48 + n mod 10)])"

text \<open>\<open>%d\<close>: a number has at most as many digits as its value plus one.\<close>

definition show_nat :: "nat \<Rightarrow> string" where
  "show_nat n = digits_of (Suc n) n"

definition show_int :: "int \<Rightarrow> string" where
  "show_int i = (if i < 0 then CHR ''-'' # show_nat (nat (- i)) else show_nat (nat i))"

definition quoted :: "string \<Rightarrow> string" where
  "quoted s = [CHR 0x22] @ concat (map (\<lambda>c. if c = CHR 0x22 \<or> c = CHR 0x5C
                 then [CHR 0x5C, c] else [c]) s) @ [CHR 0x22]"

text \<open>The ASCII white space that \<open>strings.TrimSpace\<close> removes.\<close>

definition is_space :: "char \<Rightarrow> bool" where
  "is_space c \<longleftrightarrow> c \<in> set [CHR 0x20, CHR 0x09, CHR 0x0A, CHR 0x0B, CHR 0x0C, CHR 0x0D]"

definition trim_where :: "(char \<Rightarrow> bool) \<Rightarrow> string \<Rightarrow> string" where
  "trim_where p s = rev (dropWhile p (rev (dropWhile p s)))"

definition trim_space :: "string \<Rightarrow> string" where
  "trim_space s = trim_where is_space s"

fun has_prefix :: "string \<Rightarrow> string \<Rightarrow> bool" where
  "has_prefix s [] = True"
| "has_prefix [] (p # ps) = False"
| "has_prefix (c # cs) (p # ps) = (c = p \<and> has_prefix cs ps)"

definition trim_prefix :: "string \<Rightarrow> string \<Rightarrow> string" where
  "trim_prefix s p = (if has_prefix s p then drop (length p) s else s)"

text \<open>Strings are ordered by their bytes.\<close>

fun byte_less :: "string \<Rightarrow> string \<Rightarrow> bool" where
  "byte_less [] [] = False"
| "byte_less [] (b # bs) = True"
| "byte_less (a # as) [] = False"
| "byte_less (a # as) (b # bs) =
     ((of_char a :: nat) < of_char b \<or> a = b \<and> byte_less as bs)"

text \<open>\<open>strings.Contains\<close>.\<close>

fun contains_text :: "string \<Rightarrow> string \<Rightarrow> bool" where
  "contains_text [] t = (t = [])"
| "contains_text (c # cs) t = (has_prefix (c # cs) t \<or> contains_text cs t)"

definition newline :: char where
  "newline = CHR 0x0A"

text \<open>\<open>strings.Cut(line, sep)\<close> at a single character.\<close>

definition cut :: "char \<Rightarrow> string \<Rightarrow> (string \<times> string) option" where
  "cut sep s = (let a = takeWhile (\<lambda>c. c \<noteq> sep) s in
     if length a < length s then Some (a, drop (Suc (length a)) s) else None)"

text \<open>
  \<open>strconv.Atoi\<close>: an optional sign and at least one decimal digit, and a value that fits the
  64-bit \<open>int\<close>.
\<close>

definition is_digit :: "char \<Rightarrow> bool" where
  "is_digit c \<longleftrightarrow> (48::nat) \<le> of_char c \<and> of_char c \<le> (57::nat)"

definition alnum :: "char \<Rightarrow> bool" where
  "alnum c \<longleftrightarrow> is_digit c \<or> c \<in> set ''ABCDEFGHIJKLMNOPQRSTUVWXYZabcdefghijklmnopqrstuvwxyz''"

definition digits_value :: "string \<Rightarrow> int" where
  "digits_value s = foldl (\<lambda>acc c. 10 * acc + (of_char c - 48)) 0 s"

definition atoi :: "string \<Rightarrow> int option" where
  "atoi s = (let (neg, ds) = (case s of
                 c # cs \<Rightarrow> if c = CHR ''-'' then (True, cs) else if c = CHR ''+'' then (False, cs)
                           else (False, s)
               | [] \<Rightarrow> (False, []))
             in if ds = [] \<or> \<not> list_all is_digit ds then None
                else (let v = (if neg then - digits_value ds else digits_value ds)
                      in if v < - (2 ^ 63) \<or> 2 ^ 63 \<le> v then None else Some v))"

text \<open>\<open>strings.Split\<close> and \<open>strings.Join\<close> at a single character.\<close>

fun split_on :: "char \<Rightarrow> string \<Rightarrow> string list" where
  "split_on d [] = [[]]"
| "split_on d (c # cs) = (if c = d then [] # split_on d cs
                         else (case split_on d cs of w # ws \<Rightarrow> (c # w) # ws | [] \<Rightarrow> [[c]]))"

fun join_with :: "char \<Rightarrow> string list \<Rightarrow> string" where
  "join_with d [] = []"
| "join_with d [w] = w"
| "join_with d (w # ws) = w @ d # join_with d ws"

lemma split_on_word: "d \<notin> set a \<Longrightarrow> split_on d (a @ d # b) = a # split_on d b"
  by (induction a) auto

lemma split_on_last: "d \<notin> set a \<Longrightarrow> split_on d a = [a]"
  by (induction a) auto

lemma split_on_nonempty [simp]: "split_on d s \<noteq> []"
  by (cases s) (auto split: list.splits)

lemma split_on_append: "split_on d (a @ d # b) = split_on d a @ split_on d b"
  by (induction a) (auto split: list.splits)

lemma split_on_join:
  "ws \<noteq> [] \<Longrightarrow> \<forall>w \<in> set ws. d \<notin> set w \<Longrightarrow> split_on d (join_with d ws) = ws"
  by (induction d ws rule: join_with.induct) (simp_all add: split_on_word split_on_last)

lemma split_on_free: "w \<in> set (split_on d s) \<Longrightarrow> d \<notin> set w"
  by (induction d s arbitrary: w rule: split_on.induct) (auto split: list.splits if_splits)

text \<open>Printing a number and reading it back; so distinct numbers print differently.\<close>

lemma digit_char: "n < 10 \<Longrightarrow> (of_char (char_of (48 + n :: nat)) :: int) = 48 + int n"
  by (subst of_nat_of_char [symmetric]) simp

lemma digits_value_of: "n < 10 ^ fuel \<Longrightarrow> digits_value (digits_of fuel n) = int n"
proof (induction fuel arbitrary: n)
  case (Suc fuel)
  show ?case
  proof (cases "n < 10")
    case False
    have "n div 10 < 10 ^ fuel" using Suc.prems by auto
    then have "digits_value (digits_of fuel (n div 10)) = int (n div 10)" by (rule Suc.IH)
    then show ?thesis using False digit_char [of "n mod 10"]
      by (simp add: digits_value_def) presburger
  qed (simp add: digits_value_def digit_char)
qed (simp add: digits_value_def)

lemma digits_value_show_nat: "digits_value (show_nat n) = int n"
proof -
  have "Suc n < 10 ^ Suc n" by (rule power_gt_expt) simp
  then show ?thesis unfolding show_nat_def by (intro digits_value_of) simp
qed

lemma digits_of_digits: "list_all is_digit (digits_of fuel n)"
  by (induction fuel arbitrary: n) (auto simp: is_digit_def)

lemma show_nat_digits: "list_all is_digit (show_nat n)"
  unfolding show_nat_def by (rule digits_of_digits)

lemma show_nat_nonempty [simp]: "show_nat n \<noteq> []"
  by (simp add: show_nat_def)

lemma show_nat_inject [simp]: "show_nat m = show_nat n \<longleftrightarrow> m = n"
  by (metis digits_value_show_nat of_nat_eq_iff)

text \<open>Times and durations are nanosecond counts, as Go's \<open>time.Duration\<close> is.\<close>

type_synonym time = int

abbreviation second :: int where
  "second \<equiv> 1000000000"

abbreviation minute :: int where
  "minute \<equiv> 60 * second"

text \<open>\<open>NULLIF(x, '')\<close> and \<open>COALESCE\<close> of SQL, and a dereference with a default.\<close>

definition nullif_empty :: "string \<Rightarrow> string option" where
  "nullif_empty s = (if s = '''' then None else Some s)"

fun coalesce :: "'a option \<Rightarrow> 'a option \<Rightarrow> 'a option" where
  "coalesce None d = d"
| "coalesce (Some x) d = Some x"

definition deref_or :: "'a \<Rightarrow> 'a option \<Rightarrow> 'a" where
  "deref_or d p = (case p of None \<Rightarrow> d | Some x \<Rightarrow> x)"

section \<open>Tables\<close>

text \<open>
  \<open>UPDATE t SET f WHERE p\<close> maps the rows that satisfy \<open>p\<close>; \<open>matching\<close> is the
  set of rows a \<open>WHERE\<close> clause selects, whose length is \<open>RowsAffected\<close>.
\<close>

definition update_where :: "('r \<Rightarrow> bool) \<Rightarrow> ('r \<Rightarrow> 'r) \<Rightarrow> 'r list \<Rightarrow> 'r list" where
  "update_where p f rows = map (\<lambda>r. if p r then f r else r) rows"

definition matching :: "('r \<Rightarrow> bool) \<Rightarrow> 'r list \<Rightarrow> 'r list" where
  "matching p rows = filter p rows"

definition delete_where :: "('r \<Rightarrow> bool) \<Rightarrow> 'r list \<Rightarrow> 'r list" where
  "delete_where p rows = filter (\<lambda>r. \<not> p r) rows"

text \<open>\<open>QueryRow(...).Scan\<close>: the first row, or \<open>ErrNoRows\<close>.\<close>

definition one_row :: "'r list \<Rightarrow> 'r result" where
  "one_row rows = (case rows of [] \<Rightarrow> Inl ErrNoRows | r # _ \<Rightarrow> Inr r)"

text \<open>\<open>ORDER BY key DESC\<close> and \<open>ASC\<close>, stable in the order of the table.\<close>

fun insort_by :: "('r \<Rightarrow> 'r \<Rightarrow> bool) \<Rightarrow> 'r \<Rightarrow> 'r list \<Rightarrow> 'r list" where
  "insort_by lt x [] = [x]"
| "insort_by lt x (y # ys) = (if lt y x then y # insort_by lt x ys else x # y # ys)"

definition sort_by :: "('r \<Rightarrow> 'r \<Rightarrow> bool) \<Rightarrow> 'r list \<Rightarrow> 'r list" where
  "sort_by lt rows = foldr (insort_by lt) rows []"

lemma update_where_simps [simp]:
  "update_where p f [] = []"
  "update_where p f (r # rs) = (if p r then f r else r) # update_where p f rs"
  by (simp_all add: update_where_def)

lemma set_update_where:
  "x \<in> set (update_where p f rows) \<longleftrightarrow>
     (\<exists>r \<in> set rows. x = (if p r then f r else r))"
  by (auto simp: update_where_def)

lemma ball_update_where:
  "(\<forall>x \<in> set (update_where p f rows). Q x) \<longleftrightarrow> (\<forall>r \<in> set rows. if p r then Q (f r) else Q r)"
  by (auto simp: update_where_def)

lemma length_update_where [simp]: "length (update_where p f rows) = length rows"
  by (simp add: update_where_def)

lemma map_update_where [simp]:
  "(\<And>r. k (f r) = k r) \<Longrightarrow> map k (update_where p f rows) = map k rows"
  by (induction rows) auto

lemma update_where_twice:
  "(\<And>r. p (f r) = p r) \<Longrightarrow> update_where p g (update_where p f rows) = update_where p (\<lambda>r. g (f r)) rows"
  by (induction rows) auto

lemma update_where_ident: "(\<And>r. r \<in> set rows \<Longrightarrow> p r \<Longrightarrow> f r = r) \<Longrightarrow> update_where p f rows = rows"
  by (induction rows) auto

lemma update_where_none: "(\<And>r. r \<in> set rows \<Longrightarrow> \<not> p r) \<Longrightarrow> update_where p f rows = rows"
  by (induction rows) auto

lemma set_delete_where [simp]: "set (delete_where p rows) = {r \<in> set rows. \<not> p r}"
  by (simp add: delete_where_def)

lemma distinct_map_delete_where:
  "distinct (map k rows) \<Longrightarrow> distinct (map k (delete_where p rows))"
  by (simp add: delete_where_def distinct_map_filter)

lemma one_row_Inr: "one_row rows = Inr r \<Longrightarrow> r \<in> set rows"
  by (auto simp: one_row_def split: list.splits)

lemma one_row_Inl: "one_row rows = Inl e \<longleftrightarrow> rows = [] \<and> e = ErrNoRows"
  by (auto simp: one_row_def split: list.splits)

lemma set_insort_by [simp]: "set (insort_by lt x ys) = insert x (set ys)"
  by (induction ys) auto

lemma set_sort_by [simp]: "set (sort_by lt rows) = set rows"
  by (induction rows) (auto simp: sort_by_def)

lemma length_sort_by [simp]: "length (sort_by lt rows) = length rows"
proof -
  have ins: "length (insort_by lt x ys) = Suc (length ys)" for x ys
    by (induction ys) auto
  show ?thesis by (induction rows) (auto simp: sort_by_def ins)
qed

text \<open>
  A partial unique index: among the rows that satisfy the index predicate no two have the same
  key. The rules say when a statement leaves it intact.
\<close>

definition unique_among :: "('r \<Rightarrow> bool) \<Rightarrow> ('r \<Rightarrow> 'k) \<Rightarrow> 'r list \<Rightarrow> bool" where
  "unique_among q k rows \<longleftrightarrow> distinct (map k (filter q rows))"

named_theorems unique_intros

lemma unique_among_Nil [simp]: "unique_among q k []"
  by (simp add: unique_among_def)

lemma unique_among_Cons [simp]:
  "unique_among q k (r # rows) \<longleftrightarrow>
     unique_among q k rows \<and> (q r \<longrightarrow> (\<forall>x \<in> set rows. q x \<longrightarrow> k x \<noteq> k r))"
  by (auto simp: unique_among_def image_iff)

lemma unique_among_append [unique_intros]:
  assumes "unique_among q k rows" and "q r \<Longrightarrow> \<forall>x \<in> set rows. q x \<longrightarrow> k x \<noteq> k r"
  shows "unique_among q k (rows @ [r])"
  using assms by (auto simp: unique_among_def image_iff)

lemma unique_among_delete [unique_intros]:
  "unique_among q k rows \<Longrightarrow> unique_among q k (delete_where p rows)"
  by (induction rows) (auto simp: delete_where_def)

lemma unique_among_update [unique_intros]:
  assumes "unique_among q k rows" and "\<And>r. p r \<Longrightarrow> q (f r) \<Longrightarrow> q r \<and> k (f r) = k r"
  shows "unique_among q k (update_where p f rows)"
  using assms(1)
proof (induction rows)
  case (Cons r rows)
  have old: "\<exists>y \<in> set rows. q y \<and> k y = k x"
    if x: "x \<in> set (update_where p f rows)" "q x" for x
  proof -
    obtain y where "y \<in> set rows" "x = (if p y then f y else y)"
      using x(1) by (auto simp: set_update_where)
    then show ?thesis using assms(2) [of y] x(2) by (intro bexI [of _ y]) (auto split: if_splits)
  qed
  have head: "q r \<and> k (if p r then f r else r) = k r" if "q (if p r then f r else r)"
    using assms(2) [of r] that by (auto split: if_splits)
  show ?case
    using Cons.prems Cons.IH old head by (simp del: split_paired_All) metis
qed simp

text \<open>A statement that moves one row into the index, to a key that no other row there has.\<close>

lemma unique_among_update_one [unique_intros]:
  assumes "unique_among q k rows" "distinct (map key rows)" "\<And>r. p r \<Longrightarrow> key r = kval"
    and "\<And>r x. r \<in> set rows \<Longrightarrow> p r \<Longrightarrow> q (f r) \<Longrightarrow> x \<in> set rows \<Longrightarrow> key x \<noteq> kval \<Longrightarrow> q x \<Longrightarrow> k x \<noteq> k (f r)"
  shows "unique_among q k (update_where p f rows)"
  using assms
proof (induction rows)
  case (Cons r rows)
  have IH: "unique_among q k (update_where p f rows)"
    using Cons.prems by (intro Cons.IH) auto
  have other: "key x \<noteq> kval" if "p r" "x \<in> set rows" for x
    using Cons.prems(2) Cons.prems(3) [of r] that by force
  have only: "update_where p f rows = rows" if "p r"
    using other [OF that] Cons.prems(3) by (intro update_where_none) blast
  show ?case
  proof (cases "p r")
    case True
    then show ?thesis
      using Cons.prems(1,4) IH only other by auto
  next
    case False
    have "k x \<noteq> k r" if x: "x \<in> set (update_where p f rows)" "q x" "q r" for x
    proof -
      obtain y where y: "y \<in> set rows" "x = (if p y then f y else y)"
        using x(1) by (auto simp: set_update_where)
      show ?thesis
      proof (cases "p y")
        case True
        then have "key y = kval" by (rule Cons.prems(3))
        moreover have "key r \<noteq> key y" using Cons.prems(2) y(1) by (metis distinct.simps(2) image_eqI list.map(2) set_map)
        ultimately have "key r \<noteq> kval" by simp
        then show ?thesis using Cons.prems(4) [of y r] True x y by auto
      qed (use Cons.prems(1) x y in auto)
    qed
    then show ?thesis using IH False by auto
  qed
qed simp

section \<open>Methods as steps of a state monad\<close>

text \<open>
  A Go method that may fail is a step that returns a \<open>result\<close>. As in the source, an
  error is inspected where it is returned: nothing propagates by itself.
\<close>

abbreviation ret :: "'a \<Rightarrow> ('s, 'a) state" where
  "ret x \<equiv> State_Monad.return x"

abbreviation fail :: "go_error \<Rightarrow> ('s, 'a result) state" where
  "fail e \<equiv> State_Monad.return (Inl e)"

abbreviation ok :: "'a \<Rightarrow> ('s, 'a result) state" where
  "ok x \<equiv> State_Monad.return (Inr x)"

abbreviation final_state :: "('s, 'a) state \<Rightarrow> 's \<Rightarrow> 's" where
  "final_state m s \<equiv> snd (run_state m s)"

abbreviation outcome :: "('s, 'a) state \<Rightarrow> 's \<Rightarrow> 'a" where
  "outcome m s \<equiv> fst (run_state m s)"

text \<open>\<open>for _, x := range xs { body(x) }\<close> for a body whose errors are only logged.\<close>

fun for_each :: "('x \<Rightarrow> ('s, 'a) state) \<Rightarrow> 'x list \<Rightarrow> ('s, unit) state" where
  "for_each body [] = ret ()"
| "for_each body (x # xs) = do { _ \<leftarrow> body x; for_each body xs }"

text \<open>A step of a part of the state, run inside the whole.\<close>

definition zoom :: "('w \<Rightarrow> 's) \<Rightarrow> ('s \<Rightarrow> 'w \<Rightarrow> 'w) \<Rightarrow> ('s, 'a) state \<Rightarrow> ('w, 'a) state" where
  "zoom g u m = State (\<lambda>w. case run_state m (g w) of (a, s) \<Rightarrow> (a, u s w))"

lemma run_state_zoom [simp]:
  "run_state (zoom g u m) w = (outcome m (g w), u (final_state m (g w)) w)"
  by (simp add: zoom_def split_beta)

text \<open>
  \<open>state_io_rel R m\<close> says that every run of \<open>m\<close> goes from a state to an
  \<open>R\<close>-related one. For a preorder \<open>R\<close> the property is closed under the
  combinators of the monad, so a method inherits it from the calls it makes.
\<close>

locale state_preorder =
  fixes R :: "'s \<Rightarrow> 's \<Rightarrow> bool"
  assumes R_refl: "R s s"
    and R_trans: "R s t \<Longrightarrow> R t u \<Longrightarrow> R s u"
begin

lemma io_return: "state_io_rel R (ret x)"
  by (simp add: state_io_rel_def R_refl)

lemma io_bind:
  assumes "state_io_rel R m" and "\<And>x. state_io_rel R (f x)"
  shows "state_io_rel R (State_Monad.bind m f)"
  using assms by (auto simp: state_io_rel_def split_beta intro: R_trans)

lemma io_if:
  "(b \<Longrightarrow> state_io_rel R m) \<Longrightarrow> (\<not> b \<Longrightarrow> state_io_rel R n) \<Longrightarrow>
   state_io_rel R (if b then m else n)"
  by simp

lemma io_case_sum:
  "(\<And>e. x = Inl e \<Longrightarrow> state_io_rel R (f e)) \<Longrightarrow> (\<And>a. x = Inr a \<Longrightarrow> state_io_rel R (g a)) \<Longrightarrow>
   state_io_rel R (case x of Inl e \<Rightarrow> f e | Inr a \<Rightarrow> g a)"
  by (cases x) auto

lemma io_case_option:
  "(x = None \<Longrightarrow> state_io_rel R m) \<Longrightarrow> (\<And>a. x = Some a \<Longrightarrow> state_io_rel R (g a)) \<Longrightarrow>
   state_io_rel R (case x of None \<Rightarrow> m | Some a \<Rightarrow> g a)"
  by (cases x) auto

lemma io_case_prod:
  "(\<And>a b. x = (a, b) \<Longrightarrow> state_io_rel R (f a b)) \<Longrightarrow>
   state_io_rel R (case x of (a, b) \<Rightarrow> f a b)"
  by (cases x) auto

lemma io_let: "(\<And>x. x = v \<Longrightarrow> state_io_rel R (f x)) \<Longrightarrow> state_io_rel R (let x = v in f x)"
  by simp

lemma io_for_each:
  "(\<And>x. x \<in> set xs \<Longrightarrow> state_io_rel R (body x)) \<Longrightarrow> state_io_rel R (for_each body xs)"
  by (induction xs) (auto intro!: io_return io_bind)

lemmas io_rules = io_return io_bind io_if io_case_sum io_case_option io_case_prod io_let
  io_for_each

end

text \<open>An invariant is the preorder of the runs that keep it; an unchanged part is another.\<close>

definition keeps :: "('s \<Rightarrow> bool) \<Rightarrow> 's \<Rightarrow> 's \<Rightarrow> bool" where
  "keeps I s t \<longleftrightarrow> (I s \<longrightarrow> I t)"

definition same :: "('s \<Rightarrow> 'v) \<Rightarrow> 's \<Rightarrow> 's \<Rightarrow> bool" where
  "same g s t \<longleftrightarrow> g t = g s"

interpretation keeps_preorder: state_preorder "keeps I" for I :: "'s \<Rightarrow> bool"
  by unfold_locales (auto simp: keeps_def)

interpretation same_preorder: state_preorder "same g" for g :: "'s \<Rightarrow> 'v"
  by unfold_locales (auto simp: same_def)

lemma keepsD:
  "state_io_rel (keeps I) m \<Longrightarrow> I s \<Longrightarrow> I (final_state m s)"
  by (simp add: state_io_rel_def keeps_def)

lemma keepsI:
  "(\<And>s. I s \<Longrightarrow> I (final_state m s)) \<Longrightarrow> state_io_rel (keeps I) m"
  by (simp add: state_io_rel_def keeps_def)

lemma sameD: "state_io_rel (same g) m \<Longrightarrow> g (final_state m s) = g s"
  by (simp add: state_io_rel_def same_def)

lemma sameI: "(\<And>s. g (final_state m s) = g s) \<Longrightarrow> state_io_rel (same g) m"
  by (simp add: state_io_rel_def same_def)

text \<open>
  \<open>triple I m Q\<close>: from a state that satisfies the invariant, \<open>m\<close> ends in one that does and
  its result satisfies \<open>Q\<close>. The rules follow the shape of a method body, so that what a query
  returned is known in the branch that uses it.
\<close>

definition triple :: "('s \<Rightarrow> bool) \<Rightarrow> ('s, 'a) state \<Rightarrow> ('a \<Rightarrow> bool) \<Rightarrow> bool" where
  "triple I m Q \<longleftrightarrow> (\<forall>s. I s \<longrightarrow> I (final_state m s) \<and> Q (outcome m s))"

lemma tripleI:
  "(\<And>s. I s \<Longrightarrow> I (final_state m s)) \<Longrightarrow> (\<And>s. I s \<Longrightarrow> Q (outcome m s)) \<Longrightarrow> triple I m Q"
  by (simp add: triple_def)

lemma tripleD: "triple I m Q \<Longrightarrow> I s \<Longrightarrow> I (final_state m s)"
  by (simp add: triple_def)

lemma triple_post: "triple I m Q \<Longrightarrow> I s \<Longrightarrow> Q (outcome m s)"
  by (simp add: triple_def)

lemma triple_weaken: "triple I m P \<Longrightarrow> (\<And>x. P x \<Longrightarrow> Q x) \<Longrightarrow> triple I m Q"
  by (simp add: triple_def)

lemma triple_keeps: "state_io_rel (keeps I) m \<longleftrightarrow> triple I m (\<lambda>_. True)"
  by (simp add: triple_def state_io_rel_def keeps_def)

lemma triple_return: "Q x \<Longrightarrow> triple I (ret x) Q"
  by (simp add: triple_def)

lemma triple_bind:
  "triple I m P \<Longrightarrow> (\<And>x. P x \<Longrightarrow> triple I (f x) Q) \<Longrightarrow> triple I (State_Monad.bind m f) Q"
  by (simp add: triple_def split_beta)

text \<open>The same, forgetting what the first step returned.\<close>

lemma triple_seq:
  "triple I m (\<lambda>_. True) \<Longrightarrow> (\<And>x. triple I (f x) Q) \<Longrightarrow> triple I (State_Monad.bind m f) Q"
  by (rule triple_bind)

lemma triple_if:
  "(b \<Longrightarrow> triple I m Q) \<Longrightarrow> (\<not> b \<Longrightarrow> triple I n Q) \<Longrightarrow> triple I (if b then m else n) Q"
  by simp

lemma triple_case_sum:
  "(\<And>e. x = Inl e \<Longrightarrow> triple I (f e) Q) \<Longrightarrow> (\<And>a. x = Inr a \<Longrightarrow> triple I (g a) Q) \<Longrightarrow>
   triple I (case x of Inl e \<Rightarrow> f e | Inr a \<Rightarrow> g a) Q"
  by (cases x) auto

lemma triple_case_option:
  "(x = None \<Longrightarrow> triple I m Q) \<Longrightarrow> (\<And>a. x = Some a \<Longrightarrow> triple I (g a) Q) \<Longrightarrow>
   triple I (case x of None \<Rightarrow> m | Some a \<Rightarrow> g a) Q"
  by (cases x) auto

lemma triple_case_prod:
  "(\<And>a b. x = (a, b) \<Longrightarrow> triple I (f a b) Q) \<Longrightarrow> triple I (case x of (a, b) \<Rightarrow> f a b) Q"
  by (cases x) auto

lemma triple_let: "(\<And>x. x = v \<Longrightarrow> triple I (f x) Q) \<Longrightarrow> triple I (let x = v in f x) Q"
  by simp

lemma triple_for_each:
  "(\<And>x. x \<in> set xs \<Longrightarrow> triple I (body x) (\<lambda>_. True)) \<Longrightarrow>
   triple I (for_each body xs) (\<lambda>_. True)"
  by (induction xs) (auto intro!: triple_return triple_bind)

lemma triple_zoom:
  "triple I m Q \<Longrightarrow> (\<And>s w. g (u s w) = s) \<Longrightarrow> triple (\<lambda>w. I (g w)) (zoom g u m) Q"
  by (simp add: triple_def)

lemma triple_zoom_other:
  "(\<And>s w. I (u s w) = I w) \<Longrightarrow> triple I (zoom g u m) (\<lambda>_. True)"
  by (simp add: triple_def)

lemmas triple_rules = triple_return triple_seq triple_if triple_case_sum triple_case_option
  triple_case_prod triple_let triple_for_each

lemma zoom_io_rel:
  assumes "state_io_rel R m" and "\<And>s w. g (u s w) = s"
  shows "state_io_rel (\<lambda>w w'. R (g w) (g w')) (zoom g u m)"
  using assms by (simp add: state_io_rel_def)

end
