(* ===== verification/Go_Json.thy ===== *)
theory Go_Json
  imports Prelude
begin

text \<open>
  JSON documents and what \<open>encoding/json\<close> makes of them: decoding into the fields of a
  struct, as far as the source uses it.
\<close>

section \<open>JSON documents\<close>

text \<open>A \<open>json.RawMessage\<close> or \<open>jsonb\<close> value by its parsed form; numbers are integers.\<close>

datatype json =
    JNull
  | JBool bool
  | JNum int
  | JStr string
  | JArr "json list"
  | JObj "(string \<times> json) list"

definition json_get :: "string \<Rightarrow> json \<Rightarrow> json option" where
  "json_get k j = (case j of JObj kvs \<Rightarrow> map_of kvs k | _ \<Rightarrow> None)"

text \<open>The error of a document that does not fit the type it is decoded into.\<close>

abbreviation json_error :: go_error where
  "json_error \<equiv> ErrText ''json: cannot unmarshal''"

section \<open>Decoding into a struct\<close>

text \<open>
  A decoder takes the value that the variable has and returns the new value and whether the
  call fails. As in Go, \<open>null\<close> leaves a scalar alone, a mismatch leaves it alone and is
  reported when the rest of the document has been decoded, and a key matches a field when
  they are equal up to the case of ASCII letters.
\<close>

type_synonym 'a decoder = "'a \<Rightarrow> json \<Rightarrow> 'a \<times> bool"

definition lower :: "char \<Rightarrow> char" where
  "lower c = (let n = (of_char c :: nat) in if 65 \<le> n \<and> n \<le> 90 then char_of (n + 32) else c)"

definition equal_fold :: "string \<Rightarrow> string \<Rightarrow> bool" where
  "equal_fold a b \<longleftrightarrow> map lower a = map lower b"

fun decode_bool :: "bool decoder" where
  "decode_bool old (JBool b) = (b, False)"
| "decode_bool old JNull = (old, False)"
| "decode_bool old _ = (old, True)"

fun decode_string :: "string decoder" where
  "decode_string old (JStr s) = (s, False)"
| "decode_string old JNull = (old, False)"
| "decode_string old _ = (old, True)"

fun decode_int :: "int decoder" where
  "decode_int old (JNum n) = (n, False)"
| "decode_int old JNull = (old, False)"
| "decode_int old _ = (old, True)"

text \<open>A \<open>json.RawMessage\<close> takes any value; it is absent while no key matched.\<close>

definition decode_raw :: "json option decoder" where
  "decode_raw old j = (Some j, False)"

text \<open>A pointer is cleared by \<open>null\<close> and otherwise points to a decoded value.\<close>

definition decode_pointer :: "'a \<Rightarrow> 'a decoder \<Rightarrow> 'a option decoder" where
  "decode_pointer zero d old j = (if j = JNull then (None, False)
     else (case d (deref_or zero old) j of (v, bad) \<Rightarrow> (Some v, bad)))"

text \<open>A slice is cleared by \<open>null\<close>; its elements are decoded from their zero value.\<close>

fun decode_slice :: "'a \<Rightarrow> 'a decoder \<Rightarrow> 'a list decoder" where
  "decode_slice zero d old JNull = ([], False)"
| "decode_slice zero d old (JArr xs) =
     (map (\<lambda>x. fst (d zero x)) xs, list_ex (\<lambda>x. snd (d zero x)) xs)"
| "decode_slice zero d old _ = (old, True)"

definition decode_field :: "'a decoder \<Rightarrow> string \<Rightarrow> 'a \<Rightarrow> (string \<times> json) list \<Rightarrow> 'a \<times> bool" where
  "decode_field d name old kvs = foldl (\<lambda>(v, bad) (k, j).
     if equal_fold k name then (case d v j of (v', b) \<Rightarrow> (v', bad \<or> b)) else (v, bad))
     (old, False) kvs"

section \<open>Facts\<close>

lemma equal_fold_refl [simp]: "equal_fold a a"
  by (simp add: equal_fold_def)

lemma decode_field_Nil [simp]: "decode_field d name old [] = (old, False)"
  by (simp add: decode_field_def)

text \<open>A field that no key matches keeps its value; one exact key decides it.\<close>

lemma decode_field_none:
  "\<forall>kv \<in> set kvs. \<not> equal_fold (fst kv) name \<Longrightarrow> decode_field d name old kvs = (old, False)"
  unfolding decode_field_def by (induction kvs) (auto split: prod.splits)

end
