(* ===== verification/Store_Model.thy ===== *)
theory Store_Model
  imports Go_Json
begin

text \<open>
  The data of the control plane: the entity types of \<open>internal/store/store.go\<close> as
  records, and the database as a record of tables. A table is the list of its rows. A store
  method is one SQL statement or one transaction, so it is one atomic step; \<open>db_faults\<close>
  is the tape of the calls that the driver is going to fail (lost connection, cancelled
  context, a row locked by another session under \<open>SKIP LOCKED\<close>).
\<close>

section \<open>Entity types\<close>

record machine =
  m_ID :: string
  m_AccountID :: int
  m_WorkspaceID :: "string option"
  m_Kind :: string
  m_Name :: string
  m_Slug :: string
  m_PreferredRegion :: "string option"
  m_Status :: string
  m_StatusMessage :: "string option"
  m_VCPUs :: int
  m_MemoryMB :: int
  m_HostID :: "int option"
  m_VMIP :: "string option"
  m_TunnelHostname :: "string option"
  m_CustomDomain :: "string option"
  m_GatewayToken :: "string option"
  m_ProxyToken :: "string option"
  m_TokensValidAfter :: "time option"
  m_ProvisionStep :: "string option"
  m_ProvisioningStartedAt :: "time option"
  m_ProvisioningCompletedAt :: "time option"
  m_BudgetMicrocents :: "int option"
  m_CreatedAt :: time
  m_StartedAt :: "time option"
  m_StoppedAt :: "time option"
  m_DataVolumeGB :: int
  m_DesiredRootfsVersion :: "string option"
  m_DesiredOpenclawVersion :: "string option"
  m_DesiredChannel :: "string option"
  m_ResolvedRootfsVersion :: "string option"
  m_ResolvedOpenclawVersion :: "string option"
  m_ActualRootfsVersion :: "string option"
  m_ActualOpenclawVersion :: "string option"
  m_VersionSource :: "string option"
  m_RuntimeSource :: "string option"
  m_RootfsSnapshot :: "string option"
  m_OpenclawVersion :: "string option"
  m_LastStartedAt :: "time option"
  m_TunnelID :: "string option"
  m_SigningKey :: "string option"
  m_TunnelToken :: string
  m_HomeHostID :: "int option"
  m_StorageMode :: string
  m_BackupsEnabled :: bool
  m_BackupKey :: "string option"
  m_BrowserVMID :: "string option"

abbreviation "MachineKindOpenClaw \<equiv> ''openclaw''"
abbreviation "MachineKindHermes \<equiv> ''hermes''"

definition NormalizeMachineKind :: "string \<Rightarrow> string" where
  "NormalizeMachineKind kind = (if kind = '''' then MachineKindOpenClaw else kind)"

definition ValidMachineKind :: "string \<Rightarrow> bool" where
  "ValidMachineKind kind \<longleftrightarrow>
     NormalizeMachineKind kind = MachineKindOpenClaw \<or> NormalizeMachineKind kind = MachineKindHermes"

record host =
  h_ID :: int
  h_VMName :: string
  h_VMID :: "string option"
  h_Zone :: string
  h_Region :: string
  h_MachineType :: string
  h_ExternalIP :: "string option"
  h_InternalIP :: "string option"
  h_TunnelURL :: "string option"
  h_Status :: string
  h_StatusMessage :: "string option"
  h_SourceImage :: "string option"
  h_CapacityVCPUs :: int
  h_CapacityMemoryMB :: int
  h_CapacityDiskMB :: int
  h_UsedVCPUs :: int
  h_UsedMemoryMB :: int
  h_UsedDiskMB :: int
  h_MachineCount :: int
  h_AgentVersion :: "string option"
  h_OpenclawVersion :: "string option"
  h_RootfsVersion :: string
  h_BrowserRootfsVersion :: string
  h_LastHeartbeat :: "time option"
  h_CreatedAt :: time
  h_Provider :: string
  h_ProviderClass :: string
  h_LifecycleMode :: string
  h_AgentEndpoint :: "string option"
  h_AgentEndpointType :: string
  h_ProviderHostID :: "string option"
  h_ProviderMetadata :: "json option"
  h_Capabilities :: "json option"
  h_Labels :: "json option"
  h_AgentToken :: "string option"
  h_MaintenanceMode :: bool

record browser_vm =
  b_ID :: string
  b_AccountID :: int
  b_Slug :: string
  b_Name :: string
  b_HostID :: "int option"
  b_VMIP :: "string option"
  b_Status :: string
  b_VCPUs :: int
  b_MemoryMB :: int
  b_CDPPort :: int
  b_DesiredRootfsManifest :: "string option"
  b_DesiredRootfsVersion :: "string option"
  b_RootfsVersion :: "string option"
  b_ErrorMessage :: "string option"
  b_CreatedAt :: time
  b_UpdatedAt :: time
  b_PairedMachine :: "(string \<times> string) option"

record account =
  a_ID :: int
  a_Name :: string
  a_Slug :: string
  a_CreatedBy :: int
  a_CreatedAt :: time

record account_member =
  am_AccountID :: int
  am_UserID :: int
  am_Role :: string
  am_CreatedAt :: time

record user =
  u_ID :: int
  u_Email :: string
  u_Name :: string
  u_AvatarURL :: "string option"
  u_AuthProvider :: string
  u_AuthProviderID :: string
  u_CfSub :: "string option"
  u_IdentityIssuer :: "string option"
  u_IdentitySubject :: "string option"
  u_Status :: string
  u_CreatedAt :: time

record account_invitation =
  iv_ID :: int
  iv_AccountID :: int
  iv_Email :: string
  iv_Role :: string
  iv_Token :: string
  iv_Status :: string
  iv_InvitedBy :: int
  iv_AcceptedBy :: "int option"
  iv_ExpiresAt :: time
  iv_CreatedAt :: time
  iv_RespondedAt :: "time option"

record machine_operation =
  o_ID :: string
  o_MachineID :: string
  o_Kind :: string
  o_State :: string
  o_IdempotencyKey :: "string option"
  o_ErrorCode :: "string option"
  o_ErrorMessage :: "string option"
  o_CreatedAt :: time
  o_CompletedAt :: "time option"

record placement =
  p_ID :: string
  p_MachineID :: string
  p_HostID :: int
  p_VMIP :: string
  p_State :: string
  p_ReservedAt :: time
  p_ActivatedAt :: "time option"
  p_ReleasedAt :: "time option"
  p_CreatedByOperationID :: "string option"

text \<open>A row of \<open>browser_vm_placements\<close>; the source has no Go type for it.\<close>

record browser_placement =
  bp_BrowserVMID :: string
  bp_HostID :: int
  bp_VMIP :: "string option"
  bp_State :: string
  bp_ActivatedAt :: "time option"
  bp_ReleasedAt :: "time option"

record artifact_release =
  ar_ID :: int
  ar_Kind :: string
  ar_Version :: string
  ar_Channel :: string
  ar_URL :: string
  ar_SHA256 :: string
  ar_SizeBytes :: "int option"
  ar_Metadata :: "json option"
  ar_CreatedAt :: time
  ar_MinRootfsVersion :: "string option"

record enrollment_token =
  et_ID :: string
  et_Token :: string
  et_Provider :: string
  et_ProviderClass :: string
  et_Labels :: "json option"
  et_UsedByHostID :: "int option"
  et_ExpiresAt :: time
  et_CreatedAt :: time

record workflow_run =
  wr_ID :: string
  wr_Kind :: string
  wr_ScopeType :: string
  wr_ScopeID :: string
  wr_Status :: string
  wr_CurrentPhase :: "string option"
  wr_RequestedBy :: "int option"
  wr_AccountID :: "int option"
  wr_Priority :: string
  wr_InputJSON :: "json option"
  wr_OutputJSON :: "json option"
  wr_SummaryJSON :: "json option"
  wr_ErrorCode :: "string option"
  wr_ErrorMessage :: "string option"
  wr_StartedAt :: "time option"
  wr_CompletedAt :: "time option"
  wr_CreatedAt :: time
  wr_UpdatedAt :: time

record workflow_event =
  we_ID :: int
  we_WorkflowID :: string
  we_Phase :: "string option"
  we_Level :: string
  we_EventType :: string
  we_Message :: string
  we_DetailsJSON :: "json option"
  we_CreatedAt :: time

record workflow_lock =
  wl_ResourceType :: string
  wl_ResourceID :: string
  wl_LockKind :: string
  wl_WorkflowID :: string
  wl_LeaseExpiresAt :: time
  wl_CreatedAt :: time
  wl_UpdatedAt :: time

text \<open>A byte slice is a string; \<open>None\<close> is the nil slice.\<close>

record backup_record =
  br_ID :: int
  br_MachineID :: string
  br_Timestamp :: time
  br_GCSPath :: string
  br_SizeBytes :: int
  br_CompressedBytes :: int
  br_ChecksumSHA256 :: string
  br_HMACSHA256 :: "string option"
  br_Nonce :: "string option"
  br_Trigger :: string
  br_HostID :: "int option"
  br_CreatedAt :: time

record stalled_workflow =
  sw_ID :: string
  sw_Kind :: string
  sw_ScopeType :: string
  sw_ScopeID :: string
  sw_LastEventAt :: time

record host_filter =
  f_MinVCPUs :: int
  f_MinMemoryMB :: int
  f_MinDiskMB :: int
  f_Region :: string
  f_Image :: string
  f_RequireBrowserReflink :: bool

record route_data =
  rd_AccountSlug :: string
  rd_MachineID :: string
  rd_MachineSlug :: string
  rd_HostHostname :: string
  rd_ProxyToken :: string

record resolved_route =
  rr_AccountID :: int
  rr_MachineID :: string
  rr_HostHostname :: string
  rr_ProxyToken :: string
  rr_UserIDs :: "int list"

section \<open>Zero values\<close>

text \<open>\<open>Machine{}\<close> and \<open>Host{}\<close>: the zero values from which the source fills fields.\<close>

definition zero_machine :: machine where
  "zero_machine = \<lparr>m_ID = '''', m_AccountID = 0, m_WorkspaceID = None, m_Kind = '''', m_Name = '''',
     m_Slug = '''', m_PreferredRegion = None, m_Status = '''', m_StatusMessage = None, m_VCPUs = 0,
     m_MemoryMB = 0, m_HostID = None, m_VMIP = None, m_TunnelHostname = None, m_CustomDomain = None,
     m_GatewayToken = None, m_ProxyToken = None, m_TokensValidAfter = None, m_ProvisionStep = None,
     m_ProvisioningStartedAt = None, m_ProvisioningCompletedAt = None, m_BudgetMicrocents = None,
     m_CreatedAt = 0, m_StartedAt = None, m_StoppedAt = None, m_DataVolumeGB = 0,
     m_DesiredRootfsVersion = None, m_DesiredOpenclawVersion = None, m_DesiredChannel = None,
     m_ResolvedRootfsVersion = None, m_ResolvedOpenclawVersion = None, m_ActualRootfsVersion = None,
     m_ActualOpenclawVersion = None, m_VersionSource = None, m_RuntimeSource = None,
     m_RootfsSnapshot = None, m_OpenclawVersion = None, m_LastStartedAt = None, m_TunnelID = None,
     m_SigningKey = None, m_TunnelToken = '''', m_HomeHostID = None, m_StorageMode = '''',
     m_BackupsEnabled = False, m_BackupKey = None, m_BrowserVMID = None\<rparr>"

definition zero_host :: host where
  "zero_host = \<lparr>h_ID = 0, h_VMName = '''', h_VMID = None, h_Zone = '''', h_Region = '''',
     h_MachineType = '''', h_ExternalIP = None, h_InternalIP = None, h_TunnelURL = None,
     h_Status = '''', h_StatusMessage = None, h_SourceImage = None, h_CapacityVCPUs = 0,
     h_CapacityMemoryMB = 0, h_CapacityDiskMB = 0, h_UsedVCPUs = 0, h_UsedMemoryMB = 0,
     h_UsedDiskMB = 0, h_MachineCount = 0, h_AgentVersion = None, h_OpenclawVersion = None,
     h_RootfsVersion = '''', h_BrowserRootfsVersion = '''', h_LastHeartbeat = None, h_CreatedAt = 0,
     h_Provider = '''', h_ProviderClass = '''', h_LifecycleMode = '''', h_AgentEndpoint = None,
     h_AgentEndpointType = '''', h_ProviderHostID = None, h_ProviderMetadata = None,
     h_Capabilities = None, h_Labels = None, h_AgentToken = None, h_MaintenanceMode = False\<rparr>"

record host_artifact_state =
  has_ID :: int
  has_HostID :: int
  has_Kind :: string
  has_StagedVersion :: "string option"
  has_ActiveVersion :: "string option"
  has_DefaultVersion :: "string option"
  has_LastStagedAt :: "time option"
  has_LastActivatedAt :: "time option"
  has_UpdatedAt :: time

section \<open>The database\<close>

text \<open>A row of \<open>workspaces\<close>, as far as machines refer to it.\<close>

record workspace =
  ws_ID :: string
  ws_AccountID :: int
  ws_Slug :: string
  ws_Name :: string

record db =
  db_now :: time
  db_faults :: "bool list"
  db_uuids :: nat
  db_serial :: int
  accounts :: "account list"
  account_members :: "account_member list"
  workspaces :: "workspace list"
  machines :: "machine list"
  hosts :: "host list"
  machine_placements :: "placement list"
  browser_vms :: "browser_vm list"
  browser_vm_placements :: "browser_placement list"
  machine_operations :: "machine_operation list"
  workflow_runs :: "workflow_run list"
  workflow_events :: "workflow_event list"
  workflow_locks :: "workflow_lock list"
  host_enrollment_tokens :: "enrollment_token list"
  artifact_releases :: "artifact_release list"
  users :: "user list"
  account_invitations :: "account_invitation list"
  machine_backups :: "backup_record list"
  host_artifact_states :: "host_artifact_state list"

definition empty_db :: db where
  "empty_db = \<lparr>db_now = 0, db_faults = [], db_uuids = 0, db_serial = 1, accounts = [],
     account_members = [], workspaces = [], machines = [], hosts = [], machine_placements = [],
     browser_vms = [], browser_vm_placements = [], machine_operations = [], workflow_runs = [],
     workflow_events = [], workflow_locks = [], host_enrollment_tokens = [],
     artifact_releases = [], users = [], account_invitations = [], machine_backups = [],
     host_artifact_states = []\<rparr>"

text \<open>\<open>gen_random_uuid()\<close> and \<open>SERIAL\<close>: identifiers that were not drawn before.\<close>

definition uuid_of :: "nat \<Rightarrow> string" where
  "uuid_of n = ''uuid-'' @ show_nat n"

subsection \<open>How a store method reaches the database\<close>

text \<open>
  Every call takes the next entry of the tape; a failed call changes nothing and returns the
  driver's error.
\<close>

definition db_call :: "(db \<Rightarrow> 'a result \<times> db) \<Rightarrow> (db, 'a result) state" where
  "db_call f = State (\<lambda>s. case db_faults s of
       [] \<Rightarrow> f s
     | True # fs \<Rightarrow> (Inl (ErrRemote ''database error''), s\<lparr>db_faults := fs\<rparr>)
     | False # fs \<Rightarrow> f (s\<lparr>db_faults := fs\<rparr>))"

text \<open>A read; an \<open>UPDATE\<close>, \<open>INSERT\<close> or \<open>DELETE\<close> that reports no value.\<close>

definition query :: "(db \<Rightarrow> 'a result) \<Rightarrow> (db, 'a result) state" where
  "query f = db_call (\<lambda>s. (f s, s))"

definition exec :: "(db \<Rightarrow> db) \<Rightarrow> (db, unit result) state" where
  "exec f = db_call (\<lambda>s. (Inr (), f s))"

text \<open>
  \<open>Begin ... Commit\<close> with the deferred \<open>Rollback\<close>, and a single statement that
  raises: on an error nothing of the transaction remains.
\<close>

definition tx :: "(db \<Rightarrow> 'a result \<times> db) \<Rightarrow> (db, 'a result) state" where
  "tx f = db_call (\<lambda>s. case f s of (Inl e, _) \<Rightarrow> (Inl e, s) | (Inr a, s') \<Rightarrow> (Inr a, s'))"

text \<open>
  A relation that ignores the tape and holds of what a statement does holds of the call:
  the rule by which each store method's contract is reduced to its SQL.
\<close>

definition fault_blind :: "(db \<Rightarrow> db \<Rightarrow> bool) \<Rightarrow> bool" where
  "fault_blind R \<longleftrightarrow> (\<forall>s t fs. R s t \<longrightarrow> R s (t\<lparr>db_faults := fs\<rparr>)) \<and>
                    (\<forall>s t fs. R (s\<lparr>db_faults := fs\<rparr>) t \<longrightarrow> R s t)"

lemma fault_blind_keeps:
  "(\<And>s fs. I (s\<lparr>db_faults := fs\<rparr>) = I s) \<Longrightarrow> fault_blind (keeps I)"
  by (simp add: fault_blind_def keeps_def)

lemma fault_blind_same:
  "(\<And>s fs. g (s\<lparr>db_faults := fs\<rparr>) = g s) \<Longrightarrow> fault_blind (same g)"
  by (simp add: fault_blind_def same_def)

locale db_preorder = state_preorder R for R :: "db \<Rightarrow> db \<Rightarrow> bool" +
  assumes R_fault_blind: "fault_blind R"
begin

lemma io_db_call:
  assumes "\<And>s. R s (snd (f s))"
  shows "state_io_rel R (db_call f)"
  unfolding state_io_rel_def
proof
  fix s
  have tape: "R s (s\<lparr>db_faults := fs\<rparr>)" for fs
    using R_fault_blind R_refl [of s] unfolding fault_blind_def by blast
  have run: "R s (snd (f (s\<lparr>db_faults := fs\<rparr>)))" for fs
    using tape [of fs] assms R_trans by blast
  show "R s (final_state (db_call f) s)"
    using assms tape run by (auto simp: db_call_def split: list.splits bool.splits)
qed

lemma io_query: "state_io_rel R (query f)"
  unfolding query_def by (rule io_db_call) (simp add: R_refl)

lemma io_exec: "(\<And>s. R s (f s)) \<Longrightarrow> state_io_rel R (exec f)"
  unfolding exec_def by (rule io_db_call) simp

lemma io_tx: "(\<And>s a t. f s = (Inr a, t) \<Longrightarrow> R s t) \<Longrightarrow> state_io_rel R (tx f)"
  unfolding tx_def by (rule io_db_call) (auto split: prod.splits sum.splits simp: R_refl)

lemmas io_db = io_query io_exec io_tx

end

text \<open>Without faults a call is its statement.\<close>

lemma run_query [simp]: "db_faults s = [] \<Longrightarrow> run_state (query f) s = (f s, s)"
  by (simp add: query_def db_call_def)

lemma run_exec [simp]: "db_faults s = [] \<Longrightarrow> run_state (exec f) s = (Inr (), f s)"
  by (simp add: exec_def db_call_def)

lemma run_tx [simp]:
  "db_faults s = [] \<Longrightarrow>
   run_state (tx f) s = (case f s of (Inl e, _) \<Rightarrow> (Inl e, s) | (Inr a, s') \<Rightarrow> (Inr a, s'))"
  by (simp add: tx_def db_call_def)

end
