(* ===== verification/Store_Machines.thy ===== *)
theory Store_Machines
  imports Store_Model
begin

text \<open>
  The \<open>machines\<close> table: the methods of \<open>PostgresStore\<close> that read and write it
  (\<open>internal/store/postgres.go\<close>), one definition per method, each the meaning of its
  SQL statement on the rows. The facts at the end say which parts of the database each method
  leaves alone.
\<close>

section \<open>Creation and lookup\<close>

text \<open>The default workspace of an account, created when it is missing.\<close>

definition default_workspace :: "int \<Rightarrow> db \<Rightarrow> string \<times> db" where
  "default_workspace acct s =
     (case matching (\<lambda>w. ws_AccountID w = acct \<and> ws_Slug w = ''default'') (workspaces s) of
        w # _ \<Rightarrow> (ws_ID w, s)
      | [] \<Rightarrow> (uuid_of (db_uuids s),
               s\<lparr>workspaces := workspaces s @ [\<lparr>ws_ID = uuid_of (db_uuids s), ws_AccountID = acct,
                    ws_Slug = ''default'', ws_Name = ''Default''\<rparr>],
                 db_uuids := Suc (db_uuids s)\<rparr>))"

text \<open>
  \<open>INSERT INTO machines\<close>. The columns that the statement does not name take their
  defaults; \<open>(account_id, slug)\<close> is unique and \<open>runtime_source\<close> is checked to be
  \<open>artifact\<close>, the kind to be one of the two known ones and the channel, when there is
  one, to be a release channel.
\<close>

definition channel_check :: "string option \<Rightarrow> bool" where
  "channel_check ch \<longleftrightarrow> (case ch of None \<Rightarrow> True
     | Some c \<Rightarrow> c \<in> {''stable'', ''rc'', ''dev'', ''experimental''})"

definition machine_row :: "machine \<Rightarrow> string \<Rightarrow> db \<Rightarrow> machine" where
  "machine_row m wsid s = zero_machine\<lparr>m_ID := uuid_of (db_uuids s), m_AccountID := m_AccountID m,
     m_WorkspaceID := coalesce (m_WorkspaceID m) (Some wsid),
     m_Kind := (if m_Kind m = '''' then ''openclaw'' else m_Kind m),
     m_Name := m_Name m, m_Slug := m_Slug m, m_PreferredRegion := m_PreferredRegion m,
     m_Status := m_Status m, m_VCPUs := m_VCPUs m, m_MemoryMB := m_MemoryMB m,
     m_DataVolumeGB := m_DataVolumeGB m, m_GatewayToken := m_GatewayToken m,
     m_DesiredRootfsVersion := m_DesiredRootfsVersion m,
     m_DesiredOpenclawVersion := m_DesiredOpenclawVersion m,
     m_DesiredChannel := m_DesiredChannel m, m_VersionSource := m_VersionSource m,
     m_RuntimeSource := Some (deref_or ''auto'' (m_RuntimeSource m)), m_StorageMode := ''host_local'',
     m_CreatedAt := db_now s\<rparr>"

definition insert_machine :: "machine \<Rightarrow> db \<Rightarrow> machine result \<times> db" where
  "insert_machine m s0 =
     (let (wsid, s) = default_workspace (m_AccountID m) s0;
          row = machine_row m wsid s
      in if \<not> (\<exists>a \<in> set (accounts s). a_ID a = m_AccountID m) then (Inl ErrForeignKey, s0)
         else if m_RuntimeSource row \<noteq> Some ''artifact'' \<or> \<not> ValidMachineKind (m_Kind row) \<or>
                 \<not> channel_check (m_DesiredChannel row)
           then (Inl ErrCheck, s0)
         else if \<exists>r \<in> set (machines s). m_AccountID r = m_AccountID m \<and> m_Slug r = m_Slug m
           then (Inl ErrUnique, s0)
         else (Inr (m\<lparr>m_ID := m_ID row, m_CreatedAt := m_CreatedAt row\<rparr>),
               s\<lparr>machines := machines s @ [row], db_uuids := Suc (db_uuids s)\<rparr>))"

definition CreateMachine :: "machine \<Rightarrow> (db, machine result) state" where
  "CreateMachine m = tx (insert_machine m)"

definition find_machine :: "string \<Rightarrow> db \<Rightarrow> machine option" where
  "find_machine mid s = find (\<lambda>m. m_ID m = mid) (machines s)"

definition GetMachine :: "string \<Rightarrow> (db, machine result) state" where
  "GetMachine mid = query (\<lambda>s. case find_machine mid s of None \<Rightarrow> Inl ErrNoRows | Some m \<Rightarrow> Inr m)"

definition GetMachineBySlug :: "string \<Rightarrow> (db, machine result) state" where
  "GetMachineBySlug slug = query (\<lambda>s. one_row (matching (\<lambda>m. m_Slug m = slug) (machines s)))"

definition ListMachinesByAccount :: "int \<Rightarrow> (db, machine list result) state" where
  "ListMachinesByAccount acct = query (\<lambda>s. Inr (sort_by (\<lambda>a b. m_CreatedAt b < m_CreatedAt a)
      (matching (\<lambda>m. m_AccountID m = acct) (machines s))))"

definition ListMachinesByHost :: "int \<Rightarrow> (db, machine list result) state" where
  "ListMachinesByHost hid = query (\<lambda>s. Inr (matching (\<lambda>m. m_HostID m = Some hid) (machines s)))"

definition ListAllMachines :: "(db, machine list result) state" where
  "ListAllMachines = query (\<lambda>s. Inr (sort_by (\<lambda>a b. m_CreatedAt b < m_CreatedAt a) (machines s)))"

definition GetMachineByBrowserVMID :: "string \<Rightarrow> (db, machine result) state" where
  "GetMachineByBrowserVMID bid =
     query (\<lambda>s. one_row (matching (\<lambda>m. m_BrowserVMID m = Some bid) (machines s)))"

definition IsMachineActive :: "string \<Rightarrow> (db, bool result) state" where
  "IsMachineActive slug = query (\<lambda>s. Inr (\<exists>m \<in> set (machines s).
      m_Slug m = slug \<and> m_Status m \<in> {''running'', ''provisioning''}))"

text \<open>
  Machines in a transitional status whose provisioning began (or which were created) before
  the threshold, which the query passes in whole seconds. Only the selected columns are
  scanned; the other fields keep their zero values.
\<close>

definition stuck_before :: "time \<Rightarrow> machine \<Rightarrow> bool" where
  "stuck_before cutoff m \<longleftrightarrow>
     m_Status m \<in> {''provisioning'', ''starting'', ''stopping''} \<and>
     deref_or (m_CreatedAt m) (m_ProvisioningStartedAt m) < cutoff"

definition FindStuckMachines :: "time \<Rightarrow> (db, machine list result) state" where
  "FindStuckMachines threshold = query (\<lambda>s. Inr (map
      (\<lambda>m. zero_machine\<lparr>m_ID := m_ID m, m_Name := m_Name m, m_Slug := m_Slug m,
             m_AccountID := m_AccountID m, m_Status := m_Status m, m_HostID := m_HostID m\<rparr>)
      (matching (stuck_before (db_now s - (threshold div second) * second)) (machines s))))"

section \<open>Updates of one machine\<close>

definition on_machine :: "string \<Rightarrow> (machine \<Rightarrow> machine) \<Rightarrow> db \<Rightarrow> db" where
  "on_machine mid f s = s\<lparr>machines := update_where (\<lambda>m. m_ID m = mid) f (machines s)\<rparr>"

text \<open>A row that a statement does not find cannot violate a constraint.\<close>

definition UpdateMachine :: "machine \<Rightarrow> (db, unit result) state" where
  "UpdateMachine u = tx (\<lambda>s.
     if find_machine (m_ID u) s \<noteq> None \<and>
        (m_RuntimeSource u \<noteq> Some ''artifact'' \<or> \<not> channel_check (m_DesiredChannel u))
     then (Inl ErrCheck, s)
     else (Inr (), on_machine (m_ID u) (\<lambda>m. m\<lparr>m_Name := m_Name u, m_VCPUs := m_VCPUs u,
      m_MemoryMB := m_MemoryMB u, m_CustomDomain := m_CustomDomain u,
      m_DesiredRootfsVersion := m_DesiredRootfsVersion u,
      m_DesiredOpenclawVersion := m_DesiredOpenclawVersion u,
      m_DesiredChannel := m_DesiredChannel u, m_VersionSource := m_VersionSource u,
      m_RuntimeSource := m_RuntimeSource u\<rparr>) s))"

definition SetMachineTokens :: "string \<Rightarrow> string \<Rightarrow> string \<Rightarrow> (db, unit result) state" where
  "SetMachineTokens mid gw px =
     exec (on_machine mid (\<lambda>m. m\<lparr>m_GatewayToken := Some gw, m_ProxyToken := Some px\<rparr>))"

text \<open>The \<open>SET\<close> list that \<open>UpdateMachineStatus\<close> and its CAS variant share.\<close>

definition set_machine_status :: "time \<Rightarrow> string \<Rightarrow> string option \<Rightarrow> machine \<Rightarrow> machine" where
  "set_machine_status now status msg m = m\<lparr>m_Status := status, m_StatusMessage := msg,
      m_ProvisioningCompletedAt :=
        (if status = ''running'' \<and> m_ProvisioningCompletedAt m = None then Some now
         else m_ProvisioningCompletedAt m),
      m_StartedAt := (if status = ''running'' then Some now else m_StartedAt m),
      m_StoppedAt := (if status = ''stopped'' then Some now else m_StoppedAt m)\<rparr>"

definition UpdateMachineStatus :: "string \<Rightarrow> string \<Rightarrow> string option \<Rightarrow> (db, unit result) state" where
  "UpdateMachineStatus mid status msg =
     exec (\<lambda>s. on_machine mid (set_machine_status (db_now s) status msg) s)"

definition UpdateMachineStatusCAS ::
  "string \<Rightarrow> string \<Rightarrow> string \<Rightarrow> string option \<Rightarrow> (db, bool result) state" where
  "UpdateMachineStatusCAS mid expected new msg = tx (\<lambda>s.
     let p = (\<lambda>m. m_ID m = mid \<and> m_Status m = expected)
     in (Inr (matching p (machines s) \<noteq> []),
         s\<lparr>machines := update_where p (set_machine_status (db_now s) new msg) (machines s)\<rparr>))"

definition assign_machine :: "time \<Rightarrow> int \<Rightarrow> string \<Rightarrow> machine \<Rightarrow> machine" where
  "assign_machine now hid ip m = m\<lparr>m_HostID := Some hid, m_VMIP := Some ip,
      m_Status := ''provisioning'', m_ProvisioningStartedAt := Some now\<rparr>"

definition AssignMachineToHost :: "string \<Rightarrow> int \<Rightarrow> string \<Rightarrow> (db, unit result) state" where
  "AssignMachineToHost mid hid ip = tx (\<lambda>s.
     if find_machine mid s \<noteq> None \<and> \<not> (\<exists>h \<in> set (hosts s). h_ID h = hid) then (Inl ErrForeignKey, s)
     else (Inr (), on_machine mid (assign_machine (db_now s) hid ip) s))"

definition unassign_machine :: "time \<Rightarrow> machine \<Rightarrow> machine" where
  "unassign_machine now m = m\<lparr>m_HostID := None, m_VMIP := None, m_Status := ''stopped'',
      m_StoppedAt := Some now\<rparr>"

definition UnassignMachineFromHost :: "string \<Rightarrow> (db, unit result) state" where
  "UnassignMachineFromHost mid = exec (\<lambda>s. on_machine mid (unassign_machine (db_now s)) s)"

definition UpdateMachineHomeHost :: "string \<Rightarrow> int option \<Rightarrow> (db, unit result) state" where
  "UpdateMachineHomeHost mid home = tx (\<lambda>s.
     if find_machine mid s \<noteq> None \<and>
        (case home of None \<Rightarrow> False | Some hid \<Rightarrow> \<not> (\<exists>h \<in> set (hosts s). h_ID h = hid))
     then (Inl ErrForeignKey, s)
     else (Inr (), on_machine mid (\<lambda>m. m\<lparr>m_HomeHostID := home\<rparr>) s))"

definition UpdateMachineVersion :: "string \<Rightarrow> string \<Rightarrow> string \<Rightarrow> (db, unit result) state" where
  "UpdateMachineVersion mid snapshot version = exec (\<lambda>s. on_machine mid (\<lambda>m.
      m\<lparr>m_RootfsSnapshot := Some snapshot, m_OpenclawVersion := Some version,
        m_ResolvedRootfsVersion := nullif_empty snapshot,
        m_ResolvedOpenclawVersion := nullif_empty version,
        m_VersionSource := coalesce (m_VersionSource m) (Some ''legacy''),
        m_LastStartedAt := Some (db_now s)\<rparr>) s)"

definition UpdateMachineActualVersions ::
  "int \<Rightarrow> string \<Rightarrow> string \<Rightarrow> string \<Rightarrow> (db, unit result) state" where
  "UpdateMachineActualVersions hid mid rootfs openclaw = exec (\<lambda>s.
     s\<lparr>machines := update_where (\<lambda>m. m_ID m = mid \<and> m_HostID m = Some hid)
        (\<lambda>m. m\<lparr>m_ActualRootfsVersion := nullif_empty rootfs,
               m_ActualOpenclawVersion := nullif_empty openclaw,
               m_RootfsSnapshot := coalesce (nullif_empty rootfs) (m_RootfsSnapshot m),
               m_OpenclawVersion := coalesce (nullif_empty openclaw) (m_OpenclawVersion m)\<rparr>)
        (machines s)\<rparr>)"

definition UpdateMachineTunnel :: "string \<Rightarrow> string \<Rightarrow> string \<Rightarrow> (db, unit result) state" where
  "UpdateMachineTunnel mid tunnelID signingKey = exec (on_machine mid (\<lambda>m.
     m\<lparr>m_TunnelID := nullif_empty tunnelID, m_SigningKey := nullif_empty signingKey\<rparr>))"

definition ClearMachineTunnel :: "string \<Rightarrow> (db, unit result) state" where
  "ClearMachineTunnel mid =
     exec (on_machine mid (\<lambda>m. m\<lparr>m_TunnelID := None, m_SigningKey := None\<rparr>))"

text \<open>\<open>machines.browser_vm_id\<close> is unique among the machines that have one.\<close>

definition PairBrowserVM :: "string \<Rightarrow> string \<Rightarrow> (db, unit result) state" where
  "PairBrowserVM mid bid = tx (\<lambda>s.
     if \<exists>m \<in> set (machines s). m_ID m = mid \<and> \<not> (\<exists>b \<in> set (browser_vms s). b_ID b = bid)
       then (Inl ErrForeignKey, s)
     else if (\<exists>m \<in> set (machines s). m_ID m = mid) \<and>
             (\<exists>m \<in> set (machines s). m_ID m \<noteq> mid \<and> m_BrowserVMID m = Some bid)
       then (Inl ErrUnique, s)
     else (Inr (), on_machine mid (\<lambda>m. m\<lparr>m_BrowserVMID := Some bid\<rparr>) s))"

definition UnpairBrowserVM :: "string \<Rightarrow> (db, unit result) state" where
  "UnpairBrowserVM mid = exec (on_machine mid (\<lambda>m. m\<lparr>m_BrowserVMID := None\<rparr>))"

text \<open>
  Deleting a machine cascades to its operations and its placements, by the foreign keys of
  those tables.
\<close>

definition DeleteMachine :: "string \<Rightarrow> (db, unit result) state" where
  "DeleteMachine mid = exec (\<lambda>s.
     s\<lparr>machines := delete_where (\<lambda>m. m_ID m = mid) (machines s),
       machine_operations := delete_where (\<lambda>op. o_MachineID op = mid) (machine_operations s),
       machine_placements := delete_where (\<lambda>p. p_MachineID p = mid) (machine_placements s),
       machine_backups := delete_where (\<lambda>b. br_MachineID b = mid) (machine_backups s)\<rparr>)"

text \<open>The machines of a dead host; the identifiers that \<open>RETURNING\<close> reports.\<close>

definition MarkMachinesOnHostError :: "int \<Rightarrow> string \<Rightarrow> (db, string list result) state" where
  "MarkMachinesOnHostError hid msg = tx (\<lambda>s.
     let p = (\<lambda>m. m_HostID m = Some hid \<and> m_Status m \<in> {''running'', ''provisioning'', ''starting''})
     in (Inr (map m_ID (matching p (machines s))),
         s\<lparr>machines := update_where p
             (\<lambda>m. m\<lparr>m_Status := ''error'', m_StatusMessage := Some msg\<rparr>) (machines s)\<rparr>))"

section \<open>Routes of running machines\<close>

definition GetAccount :: "int \<Rightarrow> (db, account result) state" where
  "GetAccount mid = query (\<lambda>s. one_row (matching (\<lambda>a. a_ID a = mid) (accounts s)))"

text \<open>The three-way join of machines, accounts and hosts; the columns that must not be null.\<close>

definition route_of :: "db \<Rightarrow> machine \<Rightarrow> account \<Rightarrow> host \<Rightarrow> route_data list" where
  "route_of s m a h =
     (case (m_ProxyToken m, h_TunnelURL h) of
        (Some px, Some url) \<Rightarrow>
          if m_AccountID m = a_ID a \<and> m_HostID m = Some (h_ID h) \<and> m_Status m = ''running''
          then [\<lparr>rd_AccountSlug = a_Slug a, rd_MachineID = m_ID m, rd_MachineSlug = m_Slug m,
                  rd_HostHostname = url, rd_ProxyToken = px\<rparr>]
          else []
      | _ \<Rightarrow> [])"

definition running_routes :: "db \<Rightarrow> route_data list" where
  "running_routes s = concat (map (\<lambda>m. concat (map (\<lambda>a. concat (map (route_of s m a) (hosts s)))
                                  (accounts s))) (machines s))"

definition ListRunningRoutes :: "(db, route_data list result) state" where
  "ListRunningRoutes = query (\<lambda>s. Inr (running_routes s))"

definition ResolveRoute :: "string \<Rightarrow> string \<Rightarrow> (db, resolved_route result) state" where
  "ResolveRoute accountSlug machineSlug = do {
     r \<leftarrow> query (\<lambda>s. one_row (concat (map (\<lambda>a. concat (map (\<lambda>m. concat (map (\<lambda>h.
            if m_AccountID m = a_ID a \<and> m_HostID m = Some (h_ID h) \<and> a_Slug a = accountSlug \<and>
               m_Slug m = machineSlug \<and> m_Status m = ''running'' \<and> h_TunnelURL h \<noteq> None
            then [\<lparr>rr_AccountID = a_ID a, rr_MachineID = m_ID m,
                    rr_HostHostname = deref_or '''' (h_TunnelURL h),
                    rr_ProxyToken = deref_or '''' (m_ProxyToken m), rr_UserIDs = []\<rparr>]
            else []) (hosts s))) (machines s))) (accounts s))));
     case r of
       Inl e \<Rightarrow> fail e
     | Inr rr \<Rightarrow> do {
         us \<leftarrow> query (\<lambda>s. Inr (map am_UserID
                  (matching (\<lambda>x. am_AccountID x = rr_AccountID rr) (account_members s))));
         case us of
           Inl e \<Rightarrow> fail (wrap ''fetch account members'' e)
         | Inr ids \<Rightarrow> ok (rr\<lparr>rr_UserIDs := ids\<rparr>)
       }
   }"

section \<open>Facts\<close>

lemma on_machine_simps [simp]:
  "hosts (on_machine mid f s) = hosts s"
  "db_faults (on_machine mid f s) = db_faults s"
  "db_now (on_machine mid f s) = db_now s"
  "machine_placements (on_machine mid f s) = machine_placements s"
  "machine_operations (on_machine mid f s) = machine_operations s"
  "browser_vms (on_machine mid f s) = browser_vms s"
  "browser_vm_placements (on_machine mid f s) = browser_vm_placements s"
  "accounts (on_machine mid f s) = accounts s"
  "machines (on_machine mid f s) = update_where (\<lambda>m. m_ID m = mid) f (machines s)"
  by (simp_all add: on_machine_def)

lemma machine_row_simps [simp]:
  "m_ID (machine_row m wsid s) = uuid_of (db_uuids s)"
  "m_AccountID (machine_row m wsid s) = m_AccountID m" "m_Slug (machine_row m wsid s) = m_Slug m"
  "m_VCPUs (machine_row m wsid s) = m_VCPUs m" "m_MemoryMB (machine_row m wsid s) = m_MemoryMB m"
  "m_BrowserVMID (machine_row m wsid s) = None" "m_HostID (machine_row m wsid s) = None"
  "m_VMIP (machine_row m wsid s) = None"
  by (simp_all add: machine_row_def zero_machine_def)

lemma find_machine_Some: "find_machine mid s = Some m \<Longrightarrow> m \<in> set (machines s) \<and> m_ID m = mid"
  by (auto simp: find_machine_def find_Some_iff)

lemma find_update_where:
  assumes "\<And>r. key (f r) = key r"
  shows "find (\<lambda>r. key r = k) (update_where p f rows) =
         map_option (\<lambda>r. if p r then f r else r) (find (\<lambda>r. key r = k) rows)"
  using assms by (induction rows) auto

lemma find_machine_on_machine [simp]:
  "(\<And>m. m_ID (f m) = m_ID m) \<Longrightarrow>
   find_machine mid (on_machine k f s) =
     (if k = mid then map_option f (find_machine mid s) else find_machine mid s)"
proof (cases "find (\<lambda>m. m_ID m = mid) (machines s)")
  case (Some m)
  then have "m_ID m = mid" by (auto simp: find_Some_iff)
  moreover assume "\<And>m. m_ID (f m) = m_ID m"
  ultimately show ?thesis using Some by (simp add: find_machine_def find_update_where)
qed (simp add: find_machine_def find_update_where)

lemma set_machine_status_simps [simp]:
  "m_ID (set_machine_status now st msg m) = m_ID m"
  "m_HostID (set_machine_status now st msg m) = m_HostID m"
  "m_VMIP (set_machine_status now st msg m) = m_VMIP m"
  "m_HomeHostID (set_machine_status now st msg m) = m_HomeHostID m"
  "m_Status (set_machine_status now st msg m) = st"
  "m_StatusMessage (set_machine_status now st msg m) = msg"
  by (simp_all add: set_machine_status_def)

lemma assign_machine_simps [simp]:
  "m_ID (assign_machine now hid ip m) = m_ID m"
  "m_HostID (assign_machine now hid ip m) = Some hid"
  "m_VMIP (assign_machine now hid ip m) = Some ip"
  "m_Status (assign_machine now hid ip m) = ''provisioning''"
  by (simp_all add: assign_machine_def)

lemma unassign_machine_simps [simp]:
  "m_ID (unassign_machine now m) = m_ID m"
  "m_HostID (unassign_machine now m) = None"
  "m_VMIP (unassign_machine now m) = None"
  "m_Status (unassign_machine now m) = ''stopped''"
  by (simp_all add: unassign_machine_def)

end
