(* ===== verification/Store_Hosts.thy ===== *)
theory Store_Hosts
  imports Store_Machines
begin

text \<open>
  The \<open>hosts\<close> table: registration, heartbeats, status, the capacity counters and the
  queries that select hosts (\<open>internal/store/postgres.go\<close>). \<open>within_capacity\<close>
  is the invariant of the counters.
\<close>

section \<open>JSON operators of the queries\<close>

text \<open>\<open>capabilities @> '{"k":{"reflink_supported":true}}'\<close>\<close>

definition contains_reflink :: "string \<Rightarrow> json option \<Rightarrow> bool" where
  "contains_reflink k caps = (case caps of
      Some j \<Rightarrow> (case json_get k j of
                  Some inner \<Rightarrow> json_get ''reflink_supported'' inner = Some (JBool True)
                | None \<Rightarrow> False)
    | None \<Rightarrow> False)"

text \<open>
  \<open>a || b\<close> on \<open>jsonb\<close>: two objects are merged, the right one winning; any other
  operand counts as an array, a non-array as the array of itself.
\<close>

fun json_items :: "json \<Rightarrow> json list" where
  "json_items (JArr xs) = xs"
| "json_items j = [j]"

fun json_concat :: "json \<Rightarrow> json \<Rightarrow> json" where
  "json_concat (JObj xs) (JObj ys) = JObj (filter (\<lambda>(k, _). k \<notin> fst ` set ys) xs @ ys)"
| "json_concat a b = JArr (json_items a @ json_items b)"

text \<open>\<open>(capabilities->>'cpu_threads')::int\<close>: null, an integer, or a cast that raises.\<close>

definition cpu_threads :: "host \<Rightarrow> int option result" where
  "cpu_threads h = (case h_Capabilities h of
      None \<Rightarrow> Inr None
    | Some j \<Rightarrow> (case json_get ''cpu_threads'' j of
         None \<Rightarrow> Inr None
       | Some JNull \<Rightarrow> Inr None
       | Some (JNum n) \<Rightarrow> Inr (Some n)
       | Some (JStr t) \<Rightarrow> (case atoi (trim_space t) of
             Some n \<Rightarrow> Inr (Some n)
           | None \<Rightarrow> Inl (ErrRemote ''invalid input syntax for type integer''))
       | Some _ \<Rightarrow> Inl (ErrRemote ''invalid input syntax for type integer'')))"

section \<open>Registration and lookup\<close>

definition on_host :: "int \<Rightarrow> (host \<Rightarrow> host) \<Rightarrow> db \<Rightarrow> db" where
  "on_host hid f s = s\<lparr>hosts := update_where (\<lambda>h. h_ID h = hid) f (hosts s)\<rparr>"

definition add_host :: "host \<Rightarrow> db \<Rightarrow> db" where
  "add_host row s = s\<lparr>hosts := hosts s @ [row\<lparr>h_ID := db_serial s, h_CreatedAt := db_now s\<rparr>],
                      db_serial := db_serial s + 1\<rparr>"

definition CreateHost :: "host \<Rightarrow> (db, host result) state" where
  "CreateHost h = tx (\<lambda>s.
     let row = zero_host\<lparr>h_VMName := h_VMName h, h_VMID := h_VMID h, h_Zone := h_Zone h,
           h_Region := h_Region h, h_MachineType := h_MachineType h, h_ExternalIP := h_ExternalIP h,
           h_InternalIP := h_InternalIP h, h_TunnelURL := h_TunnelURL h, h_Status := h_Status h,
           h_SourceImage := h_SourceImage h, h_CapacityVCPUs := h_CapacityVCPUs h,
           h_CapacityMemoryMB := h_CapacityMemoryMB h, h_CapacityDiskMB := h_CapacityDiskMB h,
           h_Capabilities := coalesce (h_Capabilities h) (Some (JObj [])),
           h_Provider := ''gcp'', h_ProviderClass := ''managed'', h_LifecycleMode := ''provisioned'',
           h_AgentEndpointType := ''public_http'', h_ProviderMetadata := Some (JObj []),
           h_Labels := Some (JObj [])\<rparr>
     in (Inr (h\<lparr>h_Capabilities := coalesce (h_Capabilities h) (Some (JObj [])),
                h_ID := db_serial s, h_CreatedAt := db_now s\<rparr>), add_host row s))"

definition CreateRegisteredHost :: "host \<Rightarrow> (db, host result) state" where
  "CreateRegisteredHost h = tx (\<lambda>s.
     let row = zero_host\<lparr>h_VMName := h_VMName h, h_Zone := h_Zone h, h_Region := h_Region h,
           h_MachineType := h_MachineType h, h_Status := ''provisioning'',
           h_CapacityVCPUs := h_CapacityVCPUs h, h_CapacityMemoryMB := h_CapacityMemoryMB h,
           h_CapacityDiskMB := h_CapacityDiskMB h, h_SourceImage := h_SourceImage h,
           h_Provider := h_Provider h, h_ProviderClass := h_ProviderClass h,
           h_LifecycleMode := h_LifecycleMode h, h_AgentEndpoint := h_AgentEndpoint h,
           h_AgentEndpointType := h_AgentEndpointType h, h_ProviderHostID := h_ProviderHostID h,
           h_ProviderMetadata := h_ProviderMetadata h, h_Capabilities := h_Capabilities h,
           h_Labels := h_Labels h, h_AgentToken := h_AgentToken h\<rparr>
     in (Inr (h\<lparr>h_ID := db_serial s, h_CreatedAt := db_now s\<rparr>), add_host row s))"

text \<open>Every host query computes \<open>machine_count\<close> from the running machines.\<close>

definition with_machine_count :: "db \<Rightarrow> host \<Rightarrow> host" where
  "with_machine_count s h = h\<lparr>h_MachineCount :=
     int (length (matching (\<lambda>m. m_HostID m = Some (h_ID h) \<and> m_Status m = ''running'') (machines s)))\<rparr>"

definition find_host :: "int \<Rightarrow> db \<Rightarrow> host option" where
  "find_host hid s = find (\<lambda>h. h_ID h = hid) (hosts s)"

definition GetHost :: "int \<Rightarrow> (db, host result) state" where
  "GetHost hid = query (\<lambda>s. case find_host hid s of
     None \<Rightarrow> Inl ErrNoRows | Some h \<Rightarrow> Inr (with_machine_count s h))"

definition GetHostByAgentToken :: "string \<Rightarrow> (db, host result) state" where
  "GetHostByAgentToken token = query (\<lambda>s. map_sum (\<lambda>e. e) (with_machine_count s)
     (one_row (matching (\<lambda>h. h_AgentToken h = Some token) (hosts s))))"

definition ListHosts :: "(db, host list result) state" where
  "ListHosts = query (\<lambda>s. Inr (map (with_machine_count s)
     (sort_by (\<lambda>a b. h_CreatedAt b < h_CreatedAt a) (hosts s))))"

section \<open>Eligibility\<close>

text \<open>\<open>last_heartbeat > now() - interval '180 seconds'\<close>; a null heartbeat is not fresh.\<close>

definition fresh_heartbeat :: "time \<Rightarrow> host \<Rightarrow> bool" where
  "fresh_heartbeat now h = (case h_LastHeartbeat h of None \<Rightarrow> False | Some t \<Rightarrow> now - 180 * second < t)"

definition has_room :: "int \<Rightarrow> int \<Rightarrow> host \<Rightarrow> bool" where
  "has_room vcpus mem h \<longleftrightarrow> vcpus \<le> h_CapacityVCPUs h - h_UsedVCPUs h \<and>
                           mem \<le> h_CapacityMemoryMB h - h_UsedMemoryMB h"

definition has_disk :: "int \<Rightarrow> host \<Rightarrow> bool" where
  "has_disk disk h \<longleftrightarrow> h_CapacityDiskMB h = 0 \<or> disk \<le> h_CapacityDiskMB h - h_UsedDiskMB h"

definition reflink_clause :: "json option \<Rightarrow> bool" where
  "reflink_clause caps \<longleftrightarrow> contains_reflink ''browser_storage'' caps \<or>
     ((case caps of Some j \<Rightarrow> json_get ''browser_storage'' j = None | None \<Rightarrow> False) \<and>
      contains_reflink ''storage'' caps)"

definition eligible_host :: "time \<Rightarrow> host_filter \<Rightarrow> host \<Rightarrow> bool" where
  "eligible_host now f h \<longleftrightarrow> h_Status h = ''ready'' \<and> \<not> h_MaintenanceMode h \<and>
     fresh_heartbeat now h \<and> has_room (f_MinVCPUs f) (f_MinMemoryMB f) h \<and>
     has_disk (f_MinDiskMB f) h \<and> (f_Region f = '''' \<or> h_Region h = f_Region f) \<and>
     (f_RequireBrowserReflink f \<longrightarrow> reflink_clause (h_Capabilities h))"

definition ListEligibleHosts :: "host_filter \<Rightarrow> (db, host list result) state" where
  "ListEligibleHosts f = query (\<lambda>s. Inr (map (with_machine_count s)
     (matching (eligible_host (db_now s) f) (hosts s))))"

text \<open>The older selection, which ignores maintenance mode and disk.\<close>

definition FindHostWithCapacity :: "int \<Rightarrow> int \<Rightarrow> string \<Rightarrow> string \<Rightarrow> (db, host result) state" where
  "FindHostWithCapacity vcpus mem region img = query (\<lambda>s. map_sum (\<lambda>e. e) (with_machine_count s)
     (one_row (sort_by (\<lambda>a b. h_UsedMemoryMB b < h_UsedMemoryMB a)
       (matching (\<lambda>h. h_Status h = ''ready'' \<and> fresh_heartbeat (db_now s) h \<and> has_room vcpus mem h \<and>
                     h_Region h = region \<and> (h_SourceImage h = Some img \<or> img = '''')) (hosts s)))))"

definition ListStaleHosts :: "time \<Rightarrow> (db, host list result) state" where
  "ListStaleHosts threshold = query (\<lambda>s. Inr (map (with_machine_count s)
     (matching (\<lambda>h. h_Status h = ''ready'' \<and> \<not> h_MaintenanceMode h \<and>
        (case h_LastHeartbeat h of None \<Rightarrow> True | Some t \<Rightarrow> t < db_now s - threshold)) (hosts s))))"

definition ListUnreachableHosts :: "(db, host list result) state" where
  "ListUnreachableHosts = query (\<lambda>s. Inr (map (with_machine_count s)
     (matching (\<lambda>h. h_Status h = ''unreachable'') (hosts s))))"

section \<open>Updates of one host\<close>

definition UpdateHostStatus :: "int \<Rightarrow> string \<Rightarrow> (db, unit result) state" where
  "UpdateHostStatus hid status =
     exec (on_host hid (\<lambda>h. h\<lparr>h_Status := status, h_StatusMessage := None\<rparr>))"

definition UpdateHostStatusMessage :: "int \<Rightarrow> string \<Rightarrow> string \<Rightarrow> (db, unit result) state" where
  "UpdateHostStatusMessage hid status msg =
     exec (on_host hid (\<lambda>h. h\<lparr>h_Status := status, h_StatusMessage := Some msg\<rparr>))"

definition SetHostMaintenanceMode :: "int \<Rightarrow> bool \<Rightarrow> (db, unit result) state" where
  "SetHostMaintenanceMode hid enabled = exec (on_host hid (\<lambda>h. h\<lparr>h_MaintenanceMode := enabled\<rparr>))"

definition UpdateHostDetails :: "host \<Rightarrow> (db, unit result) state" where
  "UpdateHostDetails u = exec (on_host (h_ID u) (\<lambda>h. h\<lparr>h_VMID := h_VMID u,
      h_ExternalIP := h_ExternalIP u, h_InternalIP := h_InternalIP u, h_TunnelURL := h_TunnelURL u\<rparr>))"

definition UpdateHostSourceImage :: "int \<Rightarrow> string \<Rightarrow> (db, unit result) state" where
  "UpdateHostSourceImage hid img = exec (on_host hid (\<lambda>h. h\<lparr>h_SourceImage := Some img\<rparr>))"

definition UpdateHostVersions :: "int \<Rightarrow> string \<Rightarrow> string \<Rightarrow> (db, unit result) state" where
  "UpdateHostVersions hid agent openclaw = exec (on_host hid (\<lambda>h.
     h\<lparr>h_AgentVersion := Some agent, h_OpenclawVersion := Some openclaw\<rparr>))"

definition UpdateHostAgentEndpoint :: "int \<Rightarrow> string \<Rightarrow> string \<Rightarrow> (db, unit result) state" where
  "UpdateHostAgentEndpoint hid endpoint kind = exec (on_host hid (\<lambda>h.
     h\<lparr>h_AgentEndpoint := Some endpoint, h_AgentEndpointType := kind\<rparr>))"

definition UpdateHostProviderMetadata :: "int \<Rightarrow> json option \<Rightarrow> (db, unit result) state" where
  "UpdateHostProviderMetadata hid md = exec (on_host hid (\<lambda>h. h\<lparr>h_ProviderMetadata := md\<rparr>))"

text \<open>
  A heartbeat sets the liveness time, the address and the versions, merges the reported
  capabilities, and returns whether the address changed.
\<close>

definition heartbeat_host ::
  "time \<Rightarrow> string \<Rightarrow> string \<Rightarrow> string \<Rightarrow> string \<Rightarrow> string \<Rightarrow> json option \<Rightarrow> host \<Rightarrow> host" where
  "heartbeat_host now ip agent rootfs browser openclaw caps h = h\<lparr>h_LastHeartbeat := Some now,
      h_ExternalIP := Some ip, h_AgentVersion := Some agent, h_RootfsVersion := rootfs,
      h_BrowserRootfsVersion := browser,
      h_OpenclawVersion := (if openclaw = '''' then h_OpenclawVersion h else Some openclaw),
      h_Capabilities := (case caps of None \<Rightarrow> h_Capabilities h
                        | Some c \<Rightarrow> Some (json_concat (deref_or (JObj []) (h_Capabilities h)) c))\<rparr>"

definition UpdateHostHeartbeat ::
  "int \<Rightarrow> string \<Rightarrow> string \<Rightarrow> string \<Rightarrow> string \<Rightarrow> string \<Rightarrow> json option \<Rightarrow> (db, bool result) state" where
  "UpdateHostHeartbeat hid ip agent rootfs browser openclaw caps = tx (\<lambda>s.
     let arg = (if caps = Some JNull then None else caps)
     in case find_host hid s of
          None \<Rightarrow> (Inl ErrNoRows, s)
        | Some old \<Rightarrow> (Inr (h_ExternalIP old \<noteq> Some ip),
                       on_host hid (heartbeat_host (db_now s) ip agent rootfs browser openclaw arg) s))"

text \<open>
  Machines, placements, tokens and backups refer to hosts without an \<open>ON DELETE\<close> action, so a host they
  name cannot be deleted; home hosts and browser VMs lose the reference, browser placements
  and the states of artifacts go with the host.
\<close>

definition DeleteHost :: "int \<Rightarrow> (db, unit result) state" where
  "DeleteHost hid = tx (\<lambda>s.
     if (\<exists>h \<in> set (hosts s). h_ID h = hid) \<and>
        ((\<exists>m \<in> set (machines s). m_HostID m = Some hid) \<or>
         (\<exists>p \<in> set (machine_placements s). p_HostID p = hid) \<or>
         (\<exists>t \<in> set (host_enrollment_tokens s). et_UsedByHostID t = Some hid) \<or>
         (\<exists>b \<in> set (machine_backups s). br_HostID b = Some hid))
     then (Inl ErrForeignKey, s)
     else (Inr (), s\<lparr>hosts := delete_where (\<lambda>h. h_ID h = hid) (hosts s),
             machines := update_where (\<lambda>m. m_HomeHostID m = Some hid) (\<lambda>m. m\<lparr>m_HomeHostID := None\<rparr>)
                           (machines s),
             browser_vms := update_where (\<lambda>b. b_HostID b = Some hid) (\<lambda>b. b\<lparr>b_HostID := None\<rparr>)
                           (browser_vms s),
             browser_vm_placements := delete_where (\<lambda>p. bp_HostID p = hid)
                           (browser_vm_placements s),
             host_artifact_states := delete_where (\<lambda>a. has_HostID a = hid) (host_artifact_states s)\<rparr>))"

section \<open>Capacity counters\<close>

definition charge :: "int \<Rightarrow> int \<Rightarrow> int \<Rightarrow> host \<Rightarrow> host" where
  "charge vcpus mem disk h = h\<lparr>h_UsedVCPUs := h_UsedVCPUs h + vcpus,
      h_UsedMemoryMB := h_UsedMemoryMB h + mem, h_UsedDiskMB := h_UsedDiskMB h + disk\<rparr>"

text \<open>\<open>GREATEST(0, used - n)\<close>\<close>

definition credit :: "int \<Rightarrow> int \<Rightarrow> int \<Rightarrow> host \<Rightarrow> host" where
  "credit vcpus mem disk h = h\<lparr>h_UsedVCPUs := max 0 (h_UsedVCPUs h - vcpus),
      h_UsedMemoryMB := max 0 (h_UsedMemoryMB h - mem),
      h_UsedDiskMB := max 0 (h_UsedDiskMB h - disk)\<rparr>"

text \<open>The statements that leave the disk counter out of the \<open>SET\<close> list.\<close>

definition credit_cpu_mem :: "int \<Rightarrow> int \<Rightarrow> host \<Rightarrow> host" where
  "credit_cpu_mem vcpus mem h = h\<lparr>h_UsedVCPUs := max 0 (h_UsedVCPUs h - vcpus),
      h_UsedMemoryMB := max 0 (h_UsedMemoryMB h - mem)\<rparr>"

definition AllocateHostCapacity :: "int \<Rightarrow> int \<Rightarrow> int \<Rightarrow> (db, unit result) state" where
  "AllocateHostCapacity hid vcpus mem = exec (on_host hid (charge vcpus mem 0))"

definition ReleaseHostCapacity :: "int \<Rightarrow> int \<Rightarrow> int \<Rightarrow> (db, unit result) state" where
  "ReleaseHostCapacity hid vcpus mem = exec (on_host hid (credit_cpu_mem vcpus mem))"

definition ReleaseHostCapacityWithDisk :: "int \<Rightarrow> int \<Rightarrow> int \<Rightarrow> int \<Rightarrow> (db, unit result) state" where
  "ReleaseHostCapacityWithDisk hid vcpus mem disk = exec (on_host hid (credit vcpus mem disk))"

text \<open>
  \<open>capacity_vcpus = cpu_threads * ratio\<close> for every host that is not terminated and
  reports a positive thread count; the number of rows changed. A thread count that is not an
  integer makes the statement fail.
\<close>

definition recalibrates :: "int \<Rightarrow> host \<Rightarrow> bool" where
  "recalibrates ratio h \<longleftrightarrow> h_Status h \<noteq> ''terminated'' \<and>
     (case cpu_threads h of Inr (Some n) \<Rightarrow> 0 < n \<and> h_CapacityVCPUs h \<noteq> n * ratio | _ \<Rightarrow> False)"

definition recalibrate :: "int \<Rightarrow> host \<Rightarrow> host" where
  "recalibrate ratio h = (case cpu_threads h of
      Inr (Some n) \<Rightarrow> h\<lparr>h_CapacityVCPUs := n * ratio\<rparr> | _ \<Rightarrow> h)"

definition ReconcileHostCapacityVCPUs :: "int \<Rightarrow> (db, int result) state" where
  "ReconcileHostCapacityVCPUs ratio = tx (\<lambda>s.
     case filter (\<lambda>h. h_Status h \<noteq> ''terminated'' \<and> isl (cpu_threads h)) (hosts s) of
       _ # _ \<Rightarrow> (Inl (wrap ''reconcile host capacity''
                   (ErrRemote ''invalid input syntax for type integer'')), s)
     | [] \<Rightarrow> (Inr (int (length (matching (recalibrates ratio) (hosts s)))),
              s\<lparr>hosts := update_where (recalibrates ratio) (recalibrate ratio) (hosts s)\<rparr>))"

text \<open>
  The invariant of the counters: nothing negative, nothing above the capacity. A disk capacity
  of zero means that disk is not tracked.
\<close>

definition within_capacity :: "host \<Rightarrow> bool" where
  "within_capacity h \<longleftrightarrow> 0 \<le> h_UsedVCPUs h \<and> h_UsedVCPUs h \<le> h_CapacityVCPUs h \<and>
     0 \<le> h_UsedMemoryMB h \<and> h_UsedMemoryMB h \<le> h_CapacityMemoryMB h \<and>
     0 \<le> h_UsedDiskMB h \<and> (h_CapacityDiskMB h = 0 \<or> h_UsedDiskMB h \<le> h_CapacityDiskMB h)"

section \<open>Facts\<close>

lemma on_host_simps [simp]:
  "hosts (on_host hid f s) = update_where (\<lambda>h. h_ID h = hid) f (hosts s)"
  "machines (on_host hid f s) = machines s"
  "db_faults (on_host hid f s) = db_faults s"
  "db_now (on_host hid f s) = db_now s"
  "machine_placements (on_host hid f s) = machine_placements s"
  "machine_operations (on_host hid f s) = machine_operations s"
  "browser_vms (on_host hid f s) = browser_vms s"
  "browser_vm_placements (on_host hid f s) = browser_vm_placements s"
  by (simp_all add: on_host_def)

lemma find_host_Some: "find_host hid s = Some h \<Longrightarrow> h \<in> set (hosts s) \<and> h_ID h = hid"
  by (auto simp: find_host_def find_Some_iff)

lemma with_machine_count_simps [simp]:
  "h_ID (with_machine_count s h) = h_ID h"
  "h_Status (with_machine_count s h) = h_Status h"
  "h_MaintenanceMode (with_machine_count s h) = h_MaintenanceMode h"
  "h_LastHeartbeat (with_machine_count s h) = h_LastHeartbeat h"
  "h_Capabilities (with_machine_count s h) = h_Capabilities h"
  "h_UsedMemoryMB (with_machine_count s h) = h_UsedMemoryMB h"
  "h_TunnelURL (with_machine_count s h) = h_TunnelURL h"
  "h_SourceImage (with_machine_count s h) = h_SourceImage h"
  by (simp_all add: with_machine_count_def)

lemma counters_ID [simp]:
  "h_ID (charge a b c h) = h_ID h" "h_ID (credit a b c h) = h_ID h"
  "h_ID (credit_cpu_mem a b h) = h_ID h"
  by (simp_all add: charge_def credit_def credit_cpu_mem_def)

lemma charge_within:
  assumes "within_capacity h" "has_room v m h" "has_disk d h" "0 \<le> v" "0 \<le> m" "0 \<le> d"
  shows "within_capacity (charge v m d h)"
  using assms by (auto simp: within_capacity_def charge_def has_room_def has_disk_def)

lemma credit_within:
  assumes "within_capacity h" "0 \<le> v" "0 \<le> m" "0 \<le> d"
  shows "within_capacity (credit v m d h)" "within_capacity (credit_cpu_mem v m h)"
  using assms by (auto simp: within_capacity_def credit_def credit_cpu_mem_def)

text \<open>Crediting what was charged restores the counters, as long as none was negative.\<close>

lemma credit_charge:
  assumes "0 \<le> h_UsedVCPUs h" "0 \<le> h_UsedMemoryMB h" "0 \<le> h_UsedDiskMB h"
  shows "credit v m d (charge v m d h) = h"
  using assms by (simp add: credit_def charge_def)

end
