(* ===== verification/Store_Placement.thy ===== *)
theory Store_Placement
  imports Store_Hosts
begin

text \<open>
  Placing machines and browser VMs on hosts: the transactions that claim capacity and a VM
  address, the placement records and the browser VM table
  (\<open>internal/store/postgres.go\<close>).
\<close>

section \<open>VM addresses\<close>

definition vm_ip :: "nat \<Rightarrow> string" where
  "vm_ip n = ''192.168.100.'' @ show_nat n"

text \<open>The first address of a range that is not in use.\<close>

definition first_free_ip :: "nat \<Rightarrow> nat \<Rightarrow> string list \<Rightarrow> string option" where
  "first_free_ip lo hi used = find (\<lambda>ip. ip \<notin> set used) (map vm_ip [lo..<Suc hi])"

text \<open>\<open>SELECT vm_ip FROM machines WHERE host_id = $1 AND vm_ip IS NOT NULL\<close>\<close>

definition machine_ips :: "int \<Rightarrow> db \<Rightarrow> string list" where
  "machine_ips hid s = List.map_filter m_VMIP (matching (\<lambda>m. m_HostID m = Some hid) (machines s))"

text \<open>The \<open>used_ips\<close> union of both placement tables and the machines.\<close>

definition used_ips :: "int \<Rightarrow> db \<Rightarrow> string list" where
  "used_ips hid s =
     map p_VMIP (matching (\<lambda>p. p_HostID p = hid \<and> p_ReleasedAt p = None) (machine_placements s)) @
     List.map_filter bp_VMIP (matching (\<lambda>p. bp_HostID p = hid \<and> bp_ReleasedAt p = None)
        (browser_vm_placements s)) @
     machine_ips hid s"

section \<open>Placing a machine\<close>

definition host_available :: "time \<Rightarrow> int \<Rightarrow> int \<Rightarrow> int \<Rightarrow> host \<Rightarrow> bool" where
  "host_available now v m d h \<longleftrightarrow> h_Status h = ''ready'' \<and> \<not> h_MaintenanceMode h \<and>
     fresh_heartbeat now h \<and> has_room v m h \<and> has_disk d h"

definition place_on_host ::
  "int \<Rightarrow> string \<Rightarrow> int \<Rightarrow> int \<Rightarrow> int \<Rightarrow> db \<Rightarrow> string result \<times> db" where
  "place_on_host hid mid v m d s =
     (if \<not> (\<exists>h \<in> set (hosts s). h_ID h = hid \<and> host_available (db_now s) v m d h)
      then (Inl (wrap (''host '' @ show_int hid @ '' not available or insufficient capacity'')
                  ErrNoRows), s)
      else (case first_free_ip 10 250 (machine_ips hid s) of
          None \<Rightarrow> (Inl (ErrText (''no available VM IPs on host '' @ show_int hid)), s)
        | Some ip \<Rightarrow> (Inr ip, on_machine mid (assign_machine (db_now s) hid ip)
                               (on_host hid (charge v m d) s))))"

definition PlaceOnHost :: "int \<Rightarrow> string \<Rightarrow> int \<Rightarrow> int \<Rightarrow> int \<Rightarrow> (db, string result) state" where
  "PlaceOnHost hid mid v m d = tx (place_on_host hid mid v m d)"

text \<open>
  The older entry points: a host is picked by the query itself, the fullest first, or given;
  maintenance mode and disk are not looked at.
\<close>

definition claim_legacy :: "host \<Rightarrow> string \<Rightarrow> int \<Rightarrow> int \<Rightarrow> db \<Rightarrow> (host \<times> string) result \<times> db" where
  "claim_legacy h mid v m s =
     (case first_free_ip 10 250 (machine_ips (h_ID h) s) of
        None \<Rightarrow> (Inl (ErrText (''no available VM IPs on host '' @ show_int (h_ID h))), s)
      | Some ip \<Rightarrow> (Inr (with_machine_count s h, ip),
          on_machine mid (assign_machine (db_now s) (h_ID h) ip) (on_host (h_ID h) (charge v m 0) s)))"

definition PlaceMachineOnHost ::
  "string \<Rightarrow> int \<Rightarrow> int \<Rightarrow> string \<Rightarrow> string \<Rightarrow> (db, (host \<times> string) result) state" where
  "PlaceMachineOnHost mid v m region img = tx (\<lambda>s.
     case one_row (sort_by (\<lambda>a b. h_UsedMemoryMB b < h_UsedMemoryMB a)
            (matching (\<lambda>h. h_Status h = ''ready'' \<and> fresh_heartbeat (db_now s) h \<and> has_room v m h \<and>
               (region = '''' \<or> h_Region h = region) \<and> (img = '''' \<or> h_SourceImage h = Some img)) (hosts s)))
     of Inl e \<Rightarrow> (Inl (Wrap '''' ErrNoEligibleHost ('' (region='' @ quoted region @ '', image='' @ quoted img @ '')'')), s)
      | Inr h \<Rightarrow> claim_legacy h mid v m s)"

definition PlaceMachineOnSpecificHost ::
  "string \<Rightarrow> int \<Rightarrow> int \<Rightarrow> int \<Rightarrow> (db, (host \<times> string) result) state" where
  "PlaceMachineOnSpecificHost mid hid v m = tx (\<lambda>s.
     case one_row (matching (\<lambda>h. h_ID h = hid \<and> h_Status h = ''ready'' \<and>
            fresh_heartbeat (db_now s) h \<and> has_room v m h) (hosts s))
     of Inl e \<Rightarrow> (Inl (wrap (''target host '' @ show_int hid @ '' not ready or insufficient capacity'') e), s)
      | Inr h \<Rightarrow> claim_legacy h mid v m s)"

text \<open>Stopping keeps the host, the address and the disk of the machine.\<close>

definition stop_machine :: "time \<Rightarrow> machine \<Rightarrow> machine" where
  "stop_machine now m = m\<lparr>m_Status := ''stopped'', m_StoppedAt := Some now\<rparr>"

definition SoftStopMachine :: "string \<Rightarrow> int \<Rightarrow> int \<Rightarrow> int \<Rightarrow> int \<Rightarrow> (db, unit result) state" where
  "SoftStopMachine mid hid v m d = tx (\<lambda>s.
     (Inr (), on_machine mid (stop_machine (db_now s)) (on_host hid (credit_cpu_mem v m) s)))"

text \<open>
  Restarting on a given host: vCPU and memory are charged again (the disk never was released),
  and a machine without an address gets one that nothing on the host uses.
\<close>

definition restart_ip :: "int \<Rightarrow> machine \<Rightarrow> db \<Rightarrow> string result" where
  "restart_ip hid mc s =
     (if deref_or '''' (m_VMIP mc) \<noteq> '''' then Inr (deref_or '''' (m_VMIP mc))
      else (case first_free_ip 10 250 (used_ips hid s) of
          None \<Rightarrow> Inl (wrap (''no free VM IP on home host '' @ show_int hid) ErrNoRows)
        | Some ip \<Rightarrow> Inr ip))"

definition reallocate :: "string \<Rightarrow> int \<Rightarrow> int \<Rightarrow> int \<Rightarrow> db \<Rightarrow> string result \<times> db" where
  "reallocate mid hid v m s =
     (case one_row (matching (\<lambda>h. h_ID h = hid \<and> h_Status h = ''ready'' \<and> \<not> h_MaintenanceMode h \<and>
                      fresh_heartbeat (db_now s) h) (hosts s))
      of Inl e \<Rightarrow> (Inl (wrap (''home host '' @ show_int hid @ '' not eligible for affinity recovery'') e), s)
       | Inr h \<Rightarrow>
         if \<not> has_room v m h then (Inl (ErrText (''host '' @ show_int hid @
             '' has insufficient capacity (need '' @ show_int v @ '' vCPUs/'' @ show_int m @
             '' MB, have '' @ show_int (h_CapacityVCPUs h - h_UsedVCPUs h) @ ''/'' @
             show_int (h_CapacityMemoryMB h - h_UsedMemoryMB h) @ '')'')), s)
         else (case find_machine mid s of
             None \<Rightarrow> (Inl (wrap ''lock machine for affinity recovery'' ErrNoRows), s)
           | Some mc \<Rightarrow> (case restart_ip hid mc s of
                 Inl e \<Rightarrow> (Inl e, s)
               | Inr ip \<Rightarrow> (Inr ip, on_machine mid (assign_machine (db_now s) hid ip)
                                     (on_host hid (charge v m 0) s)))))"

definition ReAllocateHostCapacity ::
  "string \<Rightarrow> int \<Rightarrow> int \<Rightarrow> int \<Rightarrow> int \<Rightarrow> (db, string result) state" where
  "ReAllocateHostCapacity mid hid v m d = tx (reallocate mid hid v m)"

section \<open>Placement records\<close>

definition active_placement :: "placement \<Rightarrow> bool" where
  "active_placement p \<longleftrightarrow> p_ReleasedAt p = None"

text \<open>
  The insertion is guarded by the partial unique indexes (one unreleased placement per machine,
  one per host and address) and by the foreign keys.
\<close>

definition reserve_placement ::
  "string \<Rightarrow> int \<Rightarrow> string \<Rightarrow> string \<Rightarrow> db \<Rightarrow> placement result \<times> db" where
  "reserve_placement mid hid ip op s =
     (let p = \<lparr>p_ID = uuid_of (db_uuids s), p_MachineID = mid, p_HostID = hid, p_VMIP = ip,
                p_State = ''reserved'', p_ReservedAt = db_now s, p_ActivatedAt = None,
                p_ReleasedAt = None, p_CreatedByOperationID = nullif_empty op\<rparr>
      in if \<not> (\<exists>m \<in> set (machines s). m_ID m = mid) \<or> \<not> (\<exists>h \<in> set (hosts s). h_ID h = hid) \<or>
            (op \<noteq> '''' \<and> \<not> (\<exists>x \<in> set (machine_operations s). o_ID x = op))
         then (Inl (wrap ''reserve placement'' ErrForeignKey), s)
         else if \<exists>q \<in> set (machine_placements s). active_placement q \<and>
                   (p_MachineID q = mid \<or> (p_HostID q = hid \<and> p_VMIP q = ip))
         then (Inl (wrap ''reserve placement'' ErrUnique), s)
         else (Inr p, s\<lparr>machine_placements := machine_placements s @ [p],
                        db_uuids := Suc (db_uuids s)\<rparr>))"

definition ReservePlacement :: "string \<Rightarrow> int \<Rightarrow> string \<Rightarrow> string \<Rightarrow> (db, placement result) state" where
  "ReservePlacement mid hid ip op = tx (reserve_placement mid hid ip op)"

definition ActivatePlacement :: "string \<Rightarrow> (db, bool result) state" where
  "ActivatePlacement pid = tx (\<lambda>s.
     let sel = (\<lambda>p. p_ID p = pid \<and> p_State p = ''reserved'')
     in (Inr (matching sel (machine_placements s) \<noteq> []),
         s\<lparr>machine_placements := update_where sel
             (\<lambda>p. p\<lparr>p_State := ''active'', p_ActivatedAt := Some (db_now s)\<rparr>) (machine_placements s)\<rparr>))"

definition release_placements :: "string \<Rightarrow> db \<Rightarrow> db" where
  "release_placements mid s = s\<lparr>machine_placements := update_where
     (\<lambda>p. p_MachineID p = mid \<and> p_ReleasedAt p = None)
     (\<lambda>p. p\<lparr>p_State := ''released'', p_ReleasedAt := Some (db_now s)\<rparr>) (machine_placements s)\<rparr>"

definition ReleasePlacement :: "string \<Rightarrow> (db, unit result) state" where
  "ReleasePlacement mid = exec (release_placements mid)"

definition release_migration_source ::
  "string \<Rightarrow> int \<Rightarrow> int \<Rightarrow> int \<Rightarrow> bool \<Rightarrow> db \<Rightarrow> unit result \<times> db" where
  "release_migration_source mid expected v m releaseCapacity s =
     (case find_machine mid s of
        None \<Rightarrow> (Inl (wrap ''lock machine'' ErrNoRows), s)
      | Some mc \<Rightarrow>
          (let s1 = (if m_HostID mc = Some expected
                     then on_machine mid (\<lambda>r. (unassign_machine (db_now s) r)\<lparr>m_HomeHostID := None\<rparr>)
                       (if releaseCapacity then on_host expected (credit_cpu_mem v m) s else s)
                     else if m_HostID mc = None
                     then on_machine mid (\<lambda>r. r\<lparr>m_HomeHostID := None\<rparr>) s
                     else s)
           in (Inr (), release_placements mid s1)))"

definition ReleaseMigrationSource ::
  "string \<Rightarrow> int \<Rightarrow> int \<Rightarrow> int \<Rightarrow> bool \<Rightarrow> (db, unit result) state" where
  "ReleaseMigrationSource mid expected v m releaseCapacity =
     tx (release_migration_source mid expected v m releaseCapacity)"

definition GetActivePlacement :: "string \<Rightarrow> (db, placement result) state" where
  "GetActivePlacement mid = query (\<lambda>s. one_row (sort_by (\<lambda>a b. p_ReservedAt b < p_ReservedAt a)
     (matching (\<lambda>p. p_MachineID p = mid \<and> p_ReleasedAt p = None) (machine_placements s))))"

definition ListActivePlacementsByHost :: "int \<Rightarrow> (db, placement list result) state" where
  "ListActivePlacementsByHost hid = query (\<lambda>s. Inr
     (matching (\<lambda>p. p_HostID p = hid \<and> p_ReleasedAt p = None) (machine_placements s)))"

section \<open>Browser VMs\<close>

definition CreateBrowserVM :: "browser_vm \<Rightarrow> (db, browser_vm result) state" where
  "CreateBrowserVM b = tx (\<lambda>s.
     let row = b\<lparr>b_ID := uuid_of (db_uuids s), b_HostID := None, b_VMIP := None,
                 b_Status := ''stopped'', b_RootfsVersion := None, b_ErrorMessage := None,
                 b_CreatedAt := db_now s, b_UpdatedAt := db_now s, b_PairedMachine := None\<rparr>
     in if \<not> (\<exists>a \<in> set (accounts s). a_ID a = b_AccountID b) then (Inl ErrForeignKey, s)
        else if \<exists>r \<in> set (browser_vms s). b_AccountID r = b_AccountID b \<and> b_Slug r = b_Slug b
        then (Inl ErrUnique, s)
        else (Inr (b\<lparr>b_ID := b_ID row, b_CreatedAt := db_now s, b_UpdatedAt := db_now s\<rparr>),
              s\<lparr>browser_vms := browser_vms s @ [row], db_uuids := Suc (db_uuids s)\<rparr>))"

definition find_browser_vm :: "string \<Rightarrow> db \<Rightarrow> browser_vm option" where
  "find_browser_vm bid s = find (\<lambda>b. b_ID b = bid) (browser_vms s)"

definition GetBrowserVM :: "string \<Rightarrow> (db, browser_vm result) state" where
  "GetBrowserVM bid = query (\<lambda>s. case find_browser_vm bid s of
     None \<Rightarrow> Inl ErrNoRows | Some b \<Rightarrow> Inr b)"

text \<open>The left join with the machine that names the browser VM as its pair.\<close>

definition with_pair :: "db \<Rightarrow> browser_vm \<Rightarrow> browser_vm list" where
  "with_pair s b = (case matching (\<lambda>m. m_BrowserVMID m = Some (b_ID b)) (machines s) of
      [] \<Rightarrow> [b\<lparr>b_PairedMachine := None\<rparr>]
    | ms \<Rightarrow> map (\<lambda>m. b\<lparr>b_PairedMachine := Some (m_ID m, m_Name m)\<rparr>) ms)"

definition ListBrowserVMsByAccount :: "int \<Rightarrow> (db, browser_vm list result) state" where
  "ListBrowserVMsByAccount acct = query (\<lambda>s. Inr (concat (map (with_pair s)
     (sort_by (\<lambda>a b. b_CreatedAt b < b_CreatedAt a)
       (matching (\<lambda>b. b_AccountID b = acct) (browser_vms s))))))"

definition ListBrowserVMsRequiringReconciliation :: "(db, browser_vm list result) state" where
  "ListBrowserVMsRequiringReconciliation = query (\<lambda>s. Inr (sort_by (\<lambda>a b. b_UpdatedAt a < b_UpdatedAt b)
     (matching (\<lambda>b. b_Status b = ''error'' \<and> b_HostID b \<noteq> None \<and> b_VMIP b \<noteq> None \<and>
        (\<exists>p \<in> set (browser_vm_placements s). bp_BrowserVMID p = b_ID b \<and> bp_ReleasedAt p = None))
       (browser_vms s))))"

definition on_browser_vm :: "string \<Rightarrow> (browser_vm \<Rightarrow> browser_vm) \<Rightarrow> db \<Rightarrow> db" where
  "on_browser_vm bid f s = s\<lparr>browser_vms := update_where (\<lambda>b. b_ID b = bid)
      (\<lambda>b. (f b)\<lparr>b_UpdatedAt := db_now s\<rparr>) (browser_vms s)\<rparr>"

definition UpdateBrowserVMStatus :: "string \<Rightarrow> string \<Rightarrow> string option \<Rightarrow> (db, unit result) state" where
  "UpdateBrowserVMStatus bid status msg = tx (\<lambda>s.
     if find_browser_vm bid s \<noteq> None \<and>
        status \<notin> {''stopped'', ''provisioning'', ''running'', ''error''}
     then (Inl ErrCheck, s)
     else (Inr (), on_browser_vm bid (\<lambda>b. b\<lparr>b_Status := status, b_ErrorMessage := msg\<rparr>) s))"

definition AssignBrowserVMToHost :: "string \<Rightarrow> int \<Rightarrow> string \<Rightarrow> (db, unit result) state" where
  "AssignBrowserVMToHost bid hid ip = tx (\<lambda>s.
     if find_browser_vm bid s \<noteq> None \<and> find_host hid s = None then (Inl ErrForeignKey, s)
     else (Inr (), on_browser_vm bid (\<lambda>b. b\<lparr>b_HostID := Some hid, b_VMIP := Some ip\<rparr>) s))"

definition UnassignBrowserVMFromHost :: "string \<Rightarrow> (db, unit result) state" where
  "UnassignBrowserVMFromHost bid =
     exec (on_browser_vm bid (\<lambda>b. b\<lparr>b_HostID := None, b_VMIP := None\<rparr>))"

definition DeleteBrowserVM :: "string \<Rightarrow> (db, unit result) state" where
  "DeleteBrowserVM bid = exec (\<lambda>s.
     s\<lparr>browser_vms := delete_where (\<lambda>b. b_ID b = bid) (browser_vms s),
       browser_vm_placements := delete_where (\<lambda>p. bp_BrowserVMID p = bid) (browser_vm_placements s),
       machines := update_where (\<lambda>m. m_BrowserVMID m = Some bid) (\<lambda>m. m\<lparr>m_BrowserVMID := None\<rparr>)
                     (machines s)\<rparr>)"

definition validateBrowserVMTargetHostEligibility ::
  "int \<Rightarrow> string \<Rightarrow> bool \<Rightarrow> time option \<Rightarrow> time \<Rightarrow> go_error option" where
  "validateBrowserVMTargetHostEligibility hid status maintenance heartbeat now =
     (if status \<noteq> ''ready'' then Some (ErrText (''host '' @ show_int hid @ '' is '' @ status @ '', not ready''))
      else if maintenance then Some (ErrText (''host '' @ show_int hid @ '' is in maintenance mode''))
      else (case heartbeat of
          None \<Rightarrow> Some (ErrText (''host '' @ show_int hid @ '' has no heartbeat''))
        | Some t \<Rightarrow> if t < now - 180 * second
                    then Some (ErrText (''host '' @ show_int hid @ '' heartbeat is stale'')) else None))"

definition place_browser_vm ::
  "int \<Rightarrow> string \<Rightarrow> int \<Rightarrow> int \<Rightarrow> db \<Rightarrow> string result \<times> db" where
  "place_browser_vm hid bid v m s =
     (case find_host hid s of
        None \<Rightarrow> (Inl (wrap (''lock host '' @ show_int hid) ErrNoRows), s)
      | Some h \<Rightarrow>
          (case validateBrowserVMTargetHostEligibility hid (h_Status h) (h_MaintenanceMode h)
                  (h_LastHeartbeat h) (db_now s) of
             Some e \<Rightarrow> (Inl e, s)
           | None \<Rightarrow>
               if \<not> has_room v m h then (Inl (ErrText (''insufficient capacity on host '' @ show_int hid @
                  '' (need '' @ show_int v @ '' vCPUs/'' @ show_int m @ '' MB, have '' @
                  show_int (h_CapacityVCPUs h - h_UsedVCPUs h) @ ''/'' @
                  show_int (h_CapacityMemoryMB h - h_UsedMemoryMB h) @ '')'')), s)
               else (case first_free_ip 2 254 (used_ips hid s) of
                   None \<Rightarrow> (Inl (wrap (''no free IP on host '' @ show_int hid) ErrNoRows), s)
                 | Some ip \<Rightarrow>
                     if find_browser_vm bid s = None
                     then (Inl (wrap (''no free IP on host '' @ show_int hid) ErrForeignKey), s)
                     else if \<exists>q \<in> set (browser_vm_placements s).
                               bp_BrowserVMID q = bid \<and> bp_ReleasedAt q = None
                     then (Inl (wrap (''no free IP on host '' @ show_int hid) ErrUnique), s)
                     else (Inr ip, on_host hid (charge v m 0)
                        (s\<lparr>browser_vm_placements := browser_vm_placements s @
                            [\<lparr>bp_BrowserVMID = bid, bp_HostID = hid, bp_VMIP = Some ip,
                              bp_State = ''reserved'', bp_ActivatedAt = None, bp_ReleasedAt = None\<rparr>]\<rparr>)))))"

definition PlaceBrowserVMOnHost :: "int \<Rightarrow> string \<Rightarrow> int \<Rightarrow> int \<Rightarrow> (db, string result) state" where
  "PlaceBrowserVMOnHost hid bid v m = tx (place_browser_vm hid bid v m)"

definition ActivateBrowserVMPlacement :: "string \<Rightarrow> (db, unit result) state" where
  "ActivateBrowserVMPlacement bid = exec (\<lambda>s. s\<lparr>browser_vm_placements := update_where
     (\<lambda>p. bp_BrowserVMID p = bid \<and> bp_ReleasedAt p = None)
     (\<lambda>p. p\<lparr>bp_State := ''active'', bp_ActivatedAt := Some (db_now s)\<rparr>) (browser_vm_placements s)\<rparr>)"

text \<open>The credit of this statement is not clipped at zero.\<close>

definition credit_exact :: "int \<Rightarrow> int \<Rightarrow> host \<Rightarrow> host" where
  "credit_exact v m h = h\<lparr>h_UsedVCPUs := h_UsedVCPUs h - v, h_UsedMemoryMB := h_UsedMemoryMB h - m\<rparr>"

definition release_browser_placement :: "string \<Rightarrow> db \<Rightarrow> unit result \<times> db" where
  "release_browser_placement bid s =
     (let sel = (\<lambda>p. bp_BrowserVMID p = bid \<and> bp_ReleasedAt p = None)
      in case matching sel (browser_vm_placements s) of
           [] \<Rightarrow> (Inr (), s)
         | p # _ \<Rightarrow>
             (case find_browser_vm bid s of
                None \<Rightarrow> (Inl (wrap ''release browser VM placement'' (ErrText ''cannot scan NULL into int'')), s)
              | Some b \<Rightarrow> (Inr (), on_host (bp_HostID p) (credit_exact (b_VCPUs b) (b_MemoryMB b))
                  (s\<lparr>browser_vm_placements := update_where sel
                      (\<lambda>q. q\<lparr>bp_State := ''released'', bp_ReleasedAt := Some (db_now s)\<rparr>)
                      (browser_vm_placements s)\<rparr>))))"

definition ReleaseBrowserVMPlacement :: "string \<Rightarrow> (db, unit result) state" where
  "ReleaseBrowserVMPlacement bid = tx (release_browser_placement bid)"

end
