(* ===== verification/Store_Ops.thy ===== *)
theory Store_Ops
  imports Store_Placement
begin

text \<open>
  Operations in flight on machines, the workflow records with their leased locks, host
  enrollment tokens and the catalog of artifact releases
  (\<open>internal/store/postgres.go\<close>, \<open>internal/store/postgres_artifact_releases.go\<close>).
\<close>

section \<open>Machine operations\<close>

definition active_op :: "machine_operation \<Rightarrow> bool" where
  "active_op op \<longleftrightarrow> o_State op \<in> {''pending'', ''in_progress''}"

text \<open>
  The partial unique index allows one active operation per machine; the violation is
  reported as a plain text error.
\<close>

definition create_operation :: "machine_operation \<Rightarrow> db \<Rightarrow> machine_operation result \<times> db" where
  "create_operation op s =
     (let row = op\<lparr>o_ID := uuid_of (db_uuids s), o_State := ''in_progress'', o_ErrorCode := None,
                   o_ErrorMessage := None, o_CreatedAt := db_now s, o_CompletedAt := None\<rparr>
      in if \<not> (\<exists>m \<in> set (machines s). m_ID m = o_MachineID op) then (Inl ErrForeignKey, s)
         else if \<exists>x \<in> set (machine_operations s). active_op x \<and> o_MachineID x = o_MachineID op
         then (Inl (ErrText (''machine '' @ o_MachineID op @ '' already has an active operation'')), s)
         else (Inr (op\<lparr>o_ID := o_ID row, o_CreatedAt := db_now s\<rparr>),
               s\<lparr>machine_operations := machine_operations s @ [row], db_uuids := Suc (db_uuids s)\<rparr>))"

definition CreateMachineOperation ::
  "machine_operation \<Rightarrow> (db, machine_operation result) state" where
  "CreateMachineOperation op = tx (create_operation op)"

definition GetActiveMachineOperation :: "string \<Rightarrow> (db, machine_operation result) state" where
  "GetActiveMachineOperation mid = query (\<lambda>s. one_row (sort_by (\<lambda>a b. o_CreatedAt b < o_CreatedAt a)
     (matching (\<lambda>op. o_MachineID op = mid \<and> active_op op) (machine_operations s))))"

text \<open>
  The final state is the caller's; a caller that set an active state again would meet the
  unique index.
\<close>

definition finish_operation :: "time \<Rightarrow> string \<Rightarrow> string option \<Rightarrow> machine_operation \<Rightarrow> machine_operation" where
  "finish_operation now st msg op =
     op\<lparr>o_State := st, o_ErrorMessage := msg, o_CompletedAt := Some now\<rparr>"

definition complete_operation :: "string \<Rightarrow> string \<Rightarrow> string option \<Rightarrow> db \<Rightarrow> unit result \<times> db" where
  "complete_operation opid st msg s =
     (if st \<in> {''pending'', ''in_progress''} \<and>
         (\<exists>x \<in> set (machine_operations s). o_ID x = opid \<and>
            (\<exists>y \<in> set (machine_operations s). o_ID y \<noteq> opid \<and> active_op y \<and>
               o_MachineID y = o_MachineID x))
      then (Inl ErrUnique, s)
      else (Inr (), s\<lparr>machine_operations := update_where (\<lambda>x. o_ID x = opid)
              (finish_operation (db_now s) st msg) (machine_operations s)\<rparr>))"

definition CompleteMachineOperation ::
  "string \<Rightarrow> string \<Rightarrow> string option \<Rightarrow> (db, unit result) state" where
  "CompleteMachineOperation opid st msg = tx (complete_operation opid st msg)"

definition ExpireStaleOperations :: "time \<Rightarrow> (db, int result) state" where
  "ExpireStaleOperations olderThan = tx (\<lambda>s.
     let p = (\<lambda>op. active_op op \<and> o_CreatedAt op < db_now s - olderThan)
     in (Inr (int (length (matching p (machine_operations s)))),
         s\<lparr>machine_operations := update_where p
             (finish_operation (db_now s) ''failed'' (Some ''operation expired (stale)''))
             (machine_operations s)\<rparr>))"

section \<open>Workflow records\<close>

definition workflow_status_check :: "string \<Rightarrow> bool" where
  "workflow_status_check st \<longleftrightarrow> st \<in> {''queued'', ''running'', ''waiting'', ''completed'', ''failed'',
     ''cancelled'', ''manual_action_required''}"

definition CreateWorkflowRun :: "workflow_run \<Rightarrow> (db, workflow_run result) state" where
  "CreateWorkflowRun run = tx (\<lambda>s.
     let row = run\<lparr>wr_Priority := (if wr_Priority run = '''' then ''normal'' else wr_Priority run),
                   wr_Status := (if wr_Status run = '''' then ''queued'' else wr_Status run),
                   wr_CreatedAt := db_now s, wr_UpdatedAt := db_now s\<rparr>
     in if \<not> workflow_status_check (wr_Status row) then (Inl ErrCheck, s)
        else if \<exists>r \<in> set (workflow_runs s). wr_ID r = wr_ID run then (Inl ErrUnique, s)
        else if (case wr_AccountID run of None \<Rightarrow> False
                 | Some a \<Rightarrow> \<not> (\<exists>x \<in> set (accounts s). a_ID x = a)) then (Inl ErrForeignKey, s)
        else (Inr row, s\<lparr>workflow_runs := workflow_runs s @
                 [row\<lparr>wr_InputJSON := coalesce (wr_InputJSON run) (Some (JObj []))\<rparr>]\<rparr>))"

definition GetWorkflowRun :: "string \<Rightarrow> (db, workflow_run result) state" where
  "GetWorkflowRun wid = query (\<lambda>s. one_row (matching (\<lambda>r. wr_ID r = wid) (workflow_runs s)))"

definition UpdateWorkflowRunStatus ::
  "string \<Rightarrow> string \<Rightarrow> string option \<Rightarrow> json option \<Rightarrow> string option \<Rightarrow> string option \<Rightarrow>
   (db, unit result) state" where
  "UpdateWorkflowRunStatus wid status phase summary errCode errMsg = tx (\<lambda>s.
     if (\<exists>r \<in> set (workflow_runs s). wr_ID r = wid) \<and> \<not> workflow_status_check status
     then (Inl ErrCheck, s)
     else (Inr (), s\<lparr>workflow_runs := update_where (\<lambda>r. wr_ID r = wid)
        (\<lambda>r. r\<lparr>wr_Status := status, wr_CurrentPhase := phase, wr_SummaryJSON := summary,
               wr_ErrorCode := errCode, wr_ErrorMessage := errMsg,
               wr_StartedAt := (if wr_StartedAt r = None \<and> status \<noteq> ''queued'' then Some (db_now s)
                                else wr_StartedAt r),
               wr_UpdatedAt := db_now s\<rparr>) (workflow_runs s)\<rparr>))"

definition CompleteWorkflowRun ::
  "string \<Rightarrow> string \<Rightarrow> json option \<Rightarrow> string option \<Rightarrow> string option \<Rightarrow> (db, unit result) state" where
  "CompleteWorkflowRun wid status output errCode errMsg = tx (\<lambda>s.
     if (\<exists>r \<in> set (workflow_runs s). wr_ID r = wid) \<and> \<not> workflow_status_check status
     then (Inl ErrCheck, s)
     else (Inr (), s\<lparr>workflow_runs := update_where (\<lambda>r. wr_ID r = wid)
        (\<lambda>r. r\<lparr>wr_Status := status, wr_OutputJSON := output, wr_ErrorCode := errCode,
               wr_ErrorMessage := errMsg,
               wr_StartedAt := coalesce (wr_StartedAt r) (Some (db_now s)),
               wr_CompletedAt := Some (db_now s), wr_UpdatedAt := db_now s\<rparr>) (workflow_runs s)\<rparr>))"

definition ListWorkflowRunsByScope ::
  "string \<Rightarrow> string \<Rightarrow> int \<Rightarrow> (db, workflow_run list result) state" where
  "ListWorkflowRunsByScope scopeType scopeID limit = query (\<lambda>s. Inr
     (take (nat (if limit \<le> 0 then 20 else limit)) (sort_by (\<lambda>a b. wr_CreatedAt b < wr_CreatedAt a)
       (matching (\<lambda>r. wr_ScopeType r = scopeType \<and> wr_ScopeID r = scopeID) (workflow_runs s)))))"

definition ListAllWorkflowRuns :: "string \<Rightarrow> string \<Rightarrow> int \<Rightarrow> (db, workflow_run list result) state" where
  "ListAllWorkflowRuns kind status limit = query (\<lambda>s. Inr
     (take (nat (if limit \<le> 0 then 50 else limit)) (sort_by (\<lambda>a b. wr_CreatedAt b < wr_CreatedAt a)
       (matching (\<lambda>r. (kind = '''' \<or> wr_Kind r = kind) \<and> (status = '''' \<or> wr_Status r = status))
         (workflow_runs s)))))"

definition CreateWorkflowEvent :: "workflow_event \<Rightarrow> (db, workflow_event result) state" where
  "CreateWorkflowEvent ev = tx (\<lambda>s.
     let row = ev\<lparr>we_ID := db_serial s, we_CreatedAt := db_now s\<rparr>
     in if we_Level ev \<notin> {''info'', ''warn'', ''error''} then (Inl ErrCheck, s)
        else if \<not> (\<exists>r \<in> set (workflow_runs s). wr_ID r = we_WorkflowID ev) then (Inl ErrForeignKey, s)
        else (Inr row, s\<lparr>workflow_events := workflow_events s @ [row], db_serial := db_serial s + 1\<rparr>))"

definition ListWorkflowEvents :: "string \<Rightarrow> int \<Rightarrow> (db, workflow_event list result) state" where
  "ListWorkflowEvents wid limit = query (\<lambda>s. Inr
     (take (nat (if limit \<le> 0 then 100 else limit)) (sort_by (\<lambda>a b. we_CreatedAt a < we_CreatedAt b)
       (matching (\<lambda>e. we_WorkflowID e = wid) (workflow_events s)))))"

text \<open>The last event of a run, or its creation; the threshold is passed in whole seconds.\<close>

definition last_event_at :: "db \<Rightarrow> workflow_run \<Rightarrow> time" where
  "last_event_at s r =
     (case map we_CreatedAt (matching (\<lambda>e. we_WorkflowID e = wr_ID r) (workflow_events s)) of
        [] \<Rightarrow> wr_CreatedAt r | t # ts \<Rightarrow> foldl max t ts)"

definition FindStalledWorkflows :: "time \<Rightarrow> (db, stalled_workflow list result) state" where
  "FindStalledWorkflows threshold = query (\<lambda>s. Inr (map
      (\<lambda>r. \<lparr>sw_ID = wr_ID r, sw_Kind = wr_Kind r, sw_ScopeType = wr_ScopeType r,
             sw_ScopeID = wr_ScopeID r, sw_LastEventAt = last_event_at s r\<rparr>)
      (matching (\<lambda>r. wr_Status r \<in> {''running'', ''waiting''} \<and>
                    last_event_at s r < db_now s - (threshold div second) * second) (workflow_runs s))))"

section \<open>Workflow locks\<close>

text \<open>
  The primary key of a lock is its resource and kind. The foreign key to the run is checked
  when the upsert writes; an upsert whose \<open>WHERE\<close> excludes the row writes nothing and
  returns no row, which the method reports as a held lock.
\<close>

definition same_lock :: "workflow_lock \<Rightarrow> workflow_lock \<Rightarrow> bool" where
  "same_lock a b \<longleftrightarrow> wl_ResourceType a = wl_ResourceType b \<and> wl_ResourceID a = wl_ResourceID b \<and>
     wl_LockKind a = wl_LockKind b"

definition may_take :: "time \<Rightarrow> workflow_lock \<Rightarrow> workflow_lock \<Rightarrow> bool" where
  "may_take now l held \<longleftrightarrow> wl_WorkflowID held = wl_WorkflowID l \<or> wl_LeaseExpiresAt held < now"

definition acquire_lock :: "workflow_lock \<Rightarrow> db \<Rightarrow> workflow_lock result \<times> db" where
  "acquire_lock l s =
     (let run_exists = (\<exists>r \<in> set (workflow_runs s). wr_ID r = wl_WorkflowID l)
      in (case matching (same_lock l) (workflow_locks s) of
          [] \<Rightarrow> if \<not> run_exists then (Inl ErrForeignKey, s)
                else (let row = l\<lparr>wl_CreatedAt := db_now s, wl_UpdatedAt := db_now s\<rparr>
                      in (Inr row, s\<lparr>workflow_locks := workflow_locks s @ [row]\<rparr>))
        | held # _ \<Rightarrow>
            if may_take (db_now s) l held \<and> \<not> run_exists then (Inl ErrForeignKey, s)
            else if may_take (db_now s) l held
            then (Inr (l\<lparr>wl_CreatedAt := wl_CreatedAt held, wl_UpdatedAt := db_now s\<rparr>),
                  s\<lparr>workflow_locks := update_where (same_lock l)
                      (\<lambda>h. h\<lparr>wl_WorkflowID := wl_WorkflowID l, wl_LeaseExpiresAt := wl_LeaseExpiresAt l,
                            wl_UpdatedAt := db_now s\<rparr>) (workflow_locks s)\<rparr>)
            else (Inl ErrWorkflowLockHeld, s)))"

definition AcquireWorkflowLock :: "workflow_lock \<Rightarrow> (db, workflow_lock result) state" where
  "AcquireWorkflowLock l = tx (acquire_lock l)"

definition RenewWorkflowLock ::
  "string \<Rightarrow> string \<Rightarrow> string \<Rightarrow> string \<Rightarrow> time \<Rightarrow> (db, unit result) state" where
  "RenewWorkflowLock wid rtype rid kind leaseUntil = tx (\<lambda>s.
     let p = (\<lambda>l. wl_WorkflowID l = wid \<and> wl_ResourceType l = rtype \<and> wl_ResourceID l = rid \<and>
                 wl_LockKind l = kind)
     in if matching p (workflow_locks s) = [] then (Inl ErrWorkflowLockNotFound, s)
        else (Inr (), s\<lparr>workflow_locks := update_where p
               (\<lambda>l. l\<lparr>wl_LeaseExpiresAt := leaseUntil, wl_UpdatedAt := db_now s\<rparr>) (workflow_locks s)\<rparr>))"

definition ReleaseWorkflowLocks :: "string \<Rightarrow> (db, unit result) state" where
  "ReleaseWorkflowLocks wid =
     exec (\<lambda>s. s\<lparr>workflow_locks := delete_where (\<lambda>l. wl_WorkflowID l = wid) (workflow_locks s)\<rparr>)"

section \<open>Backups\<close>

text \<open>The columns of the authentication code and of the nonce may not be null, which a nil slice is.\<close>

definition create_backup :: "backup_record \<Rightarrow> db \<Rightarrow> backup_record result \<times> db" where
  "create_backup b s =
     (if br_HMACSHA256 b = None \<or> br_Nonce b = None
      then (Inl (ErrRemote ''null value violates not-null constraint''), s)
      else if \<not> (\<exists>m \<in> set (machines s). m_ID m = br_MachineID b) then (Inl ErrForeignKey, s)
      else if (case br_HostID b of None \<Rightarrow> False | Some hid \<Rightarrow> \<not> (\<exists>h \<in> set (hosts s). h_ID h = hid)) then (Inl ErrForeignKey, s)
      else (let row = b\<lparr>br_ID := db_serial s, br_CreatedAt := db_now s\<rparr>
            in (Inr row, s\<lparr>machine_backups := machine_backups s @ [row], db_serial := db_serial s + 1\<rparr>)))"

definition CreateBackupRecord :: "backup_record \<Rightarrow> (db, backup_record result) state" where
  "CreateBackupRecord b = tx (create_backup b)"

definition ListBackupRecords :: "string \<Rightarrow> (db, backup_record list result) state" where
  "ListBackupRecords mid = query (\<lambda>s. Inr (sort_by (\<lambda>a b. br_Timestamp b < br_Timestamp a)
     (matching (\<lambda>b. br_MachineID b = mid) (machine_backups s))))"

definition GetBackupRecord :: "int \<Rightarrow> (db, backup_record result) state" where
  "GetBackupRecord bid = query (\<lambda>s. one_row (matching (\<lambda>b. br_ID b = bid) (machine_backups s)))"

definition DeleteBackupRecord :: "int \<Rightarrow> (db, unit result) state" where
  "DeleteBackupRecord bid = exec (\<lambda>s. s\<lparr>machine_backups := delete_where (\<lambda>b. br_ID b = bid) (machine_backups s)\<rparr>)"

definition DeleteAllBackupRecords :: "string \<Rightarrow> (db, unit result) state" where
  "DeleteAllBackupRecords mid = exec (\<lambda>s. s\<lparr>machine_backups := delete_where (\<lambda>b. br_MachineID b = mid) (machine_backups s)\<rparr>)"

definition EnableBackups :: "string \<Rightarrow> string option \<Rightarrow> (db, unit result) state" where
  "EnableBackups mid key = exec (on_machine mid (\<lambda>m. m\<lparr>m_BackupsEnabled := True, m_BackupKey := key\<rparr>))"

section \<open>Artifacts of a host\<close>

text \<open>\<open>INSERT ... ON CONFLICT (host_id, kind) DO UPDATE\<close>: a number is drawn in either case.\<close>

definition upsert_artifact_state :: "host_artifact_state \<Rightarrow> db \<Rightarrow> host_artifact_state result \<times> db" where
  "upsert_artifact_state a s =
     (if has_Kind a \<notin> {''rootfs'', ''openclaw'', ''hermes-rootfs'', ''hermes''} then (Inl ErrCheck, s)
      else if \<not> (\<exists>h \<in> set (hosts s). h_ID h = has_HostID a) then (Inl ErrForeignKey, s)
      else (case matching (\<lambda>x. has_HostID x = has_HostID a \<and> has_Kind x = has_Kind a) (host_artifact_states s) of
          [] \<Rightarrow> (let row = a\<lparr>has_ID := db_serial s, has_UpdatedAt := db_now s\<rparr>
                 in (Inr row, s\<lparr>host_artifact_states := host_artifact_states s @ [row], db_serial := db_serial s + 1\<rparr>))
        | old # _ \<Rightarrow> (Inr (a\<lparr>has_ID := has_ID old, has_UpdatedAt := db_now s\<rparr>),
            s\<lparr>host_artifact_states := update_where (\<lambda>x. has_HostID x = has_HostID a \<and> has_Kind x = has_Kind a)
                (\<lambda>x. a\<lparr>has_ID := has_ID x, has_UpdatedAt := db_now s\<rparr>) (host_artifact_states s),
              db_serial := db_serial s + 1\<rparr>)))"

definition UpsertHostArtifactState :: "host_artifact_state \<Rightarrow> (db, host_artifact_state result) state" where
  "UpsertHostArtifactState a = tx (upsert_artifact_state a)"

definition GetHostArtifactState :: "int \<Rightarrow> string \<Rightarrow> (db, host_artifact_state result) state" where
  "GetHostArtifactState hid kind = do {
     r \<leftarrow> query (\<lambda>s. one_row (matching (\<lambda>x. has_HostID x = hid \<and> has_Kind x = kind) (host_artifact_states s)));
     case r of Inl e \<Rightarrow> fail (wrap ''get host artifact state'' e) | Inr x \<Rightarrow> ok x
   }"

definition ListHostArtifactStates :: "int \<Rightarrow> (db, host_artifact_state list result) state" where
  "ListHostArtifactStates hid = do {
     r \<leftarrow> query (\<lambda>s. Inr (sort_by (\<lambda>a b. byte_less (has_Kind a) (has_Kind b))
            (matching (\<lambda>x. has_HostID x = hid) (host_artifact_states s))));
     case r of Inl e \<Rightarrow> fail (wrap ''list host artifact states'' e) | Inr xs \<Rightarrow> ok xs
   }"

section \<open>Enrollment tokens\<close>

text \<open>
  \<open>fmt.Sprintf("%x", bytes)\<close>. The sixteen random bytes are an argument, and so is
  whether the entropy source failed.
\<close>

definition hex_digit :: "nat \<Rightarrow> char" where
  "hex_digit n = (if n < 10 then char_of (48 + n) else char_of (87 + n))"

definition hex_of :: "nat list \<Rightarrow> string" where
  "hex_of bs = concat (map (\<lambda>b. [hex_digit (b div 16), hex_digit (b mod 16)]) bs)"

definition CreateEnrollmentToken ::
  "nat list result \<Rightarrow> enrollment_token \<Rightarrow> (db, enrollment_token result) state" where
  "CreateEnrollmentToken random t = (case random of
     Inl e \<Rightarrow> fail (wrap ''generate token'' e)
   | Inr bytes \<Rightarrow> tx (\<lambda>s.
       let row = t\<lparr>et_ID := uuid_of (db_uuids s), et_Token := ''ocm_enroll_'' @ hex_of bytes,
                   et_UsedByHostID := None, et_CreatedAt := db_now s\<rparr>
       in if \<exists>x \<in> set (host_enrollment_tokens s). et_Token x = et_Token row then (Inl ErrUnique, s)
          else (Inr (t\<lparr>et_ID := et_ID row, et_Token := et_Token row, et_CreatedAt := db_now s\<rparr>),
                s\<lparr>host_enrollment_tokens := host_enrollment_tokens s @ [row],
                  db_uuids := Suc (db_uuids s)\<rparr>)))"

definition GetEnrollmentToken :: "string \<Rightarrow> (db, enrollment_token result) state" where
  "GetEnrollmentToken token =
     query (\<lambda>s. one_row (matching (\<lambda>t. et_Token t = token) (host_enrollment_tokens s)))"

definition ListEnrollmentTokens :: "(db, enrollment_token list result) state" where
  "ListEnrollmentTokens = query (\<lambda>s. Inr (sort_by (\<lambda>a b. et_CreatedAt b < et_CreatedAt a)
     (host_enrollment_tokens s)))"

definition usable_token :: "string \<Rightarrow> time \<Rightarrow> enrollment_token \<Rightarrow> bool" where
  "usable_token token now t \<longleftrightarrow> et_Token t = token \<and> et_UsedByHostID t = None \<and> now < et_ExpiresAt t"

definition MarkEnrollmentTokenUsed :: "string \<Rightarrow> int \<Rightarrow> (db, unit result) state" where
  "MarkEnrollmentTokenUsed token hid = tx (\<lambda>s.
     if matching (usable_token token (db_now s)) (host_enrollment_tokens s) = []
     then (Inl (ErrText ''enrollment token not found, already used, or expired''), s)
     else if \<not> (\<exists>h \<in> set (hosts s). h_ID h = hid) then (Inl ErrForeignKey, s)
     else (Inr (), s\<lparr>host_enrollment_tokens := update_where (usable_token token (db_now s))
                      (\<lambda>t. t\<lparr>et_UsedByHostID := Some hid\<rparr>) (host_enrollment_tokens s)\<rparr>))"

section \<open>Artifact releases\<close>

definition CreateArtifactRelease :: "artifact_release \<Rightarrow> (db, artifact_release result) state" where
  "CreateArtifactRelease r = tx (\<lambda>s.
     let row = r\<lparr>ar_ID := db_serial s, ar_CreatedAt := db_now s\<rparr>
     in if ar_Kind r \<notin> {''rootfs'', ''openclaw'', ''hermes-rootfs'', ''hermes''} \<or>
           \<not> channel_check (Some (ar_Channel r)) \<or> ar_Metadata r = None then (Inl ErrCheck, s)
        else if \<exists>x \<in> set (artifact_releases s). ar_Kind x = ar_Kind r \<and> ar_Version x = ar_Version r
        then (Inl ErrUnique, s)
        else (Inr row, s\<lparr>artifact_releases := artifact_releases s @ [row],
                         db_serial := db_serial s + 1\<rparr>))"

definition GetArtifactRelease :: "string \<Rightarrow> string \<Rightarrow> (db, artifact_release result) state" where
  "GetArtifactRelease kind version = do {
     r \<leftarrow> query (\<lambda>s. one_row (matching (\<lambda>x. ar_Kind x = kind \<and> ar_Version x = version)
                               (artifact_releases s)));
     case r of Inl e \<Rightarrow> fail (wrap ''get artifact release'' e) | Inr x \<Rightarrow> ok x
   }"

definition newest_first :: "artifact_release list \<Rightarrow> artifact_release list" where
  "newest_first rs = sort_by (\<lambda>a b. ar_CreatedAt b < ar_CreatedAt a) rs"

definition ListArtifactReleases ::
  "string \<Rightarrow> string \<Rightarrow> int \<Rightarrow> (db, artifact_release list result) state" where
  "ListArtifactReleases kind channel limit = do {
     r \<leftarrow> query (\<lambda>s. Inr (take (nat (if limit \<le> 0 then 50 else limit)) (newest_first
            (matching (\<lambda>x. ar_Kind x = kind \<and> ar_Channel x = channel) (artifact_releases s)))));
     case r of Inl e \<Rightarrow> fail (wrap ''list artifact releases'' e) | Inr xs \<Rightarrow> ok xs
   }"

definition GetLatestArtifactRelease ::
  "string \<Rightarrow> string \<Rightarrow> (db, artifact_release result) state" where
  "GetLatestArtifactRelease kind channel = do {
     r \<leftarrow> query (\<lambda>s. one_row (newest_first
            (matching (\<lambda>x. ar_Kind x = kind \<and> ar_Channel x = channel) (artifact_releases s))));
     case r of Inl e \<Rightarrow> fail (wrap ''get latest artifact release'' e) | Inr x \<Rightarrow> ok x
   }"

end
