(* ===== verification/Store_Invariants.thy ===== *)
theory Store_Invariants
  imports Store_Ops
begin

text \<open>
  The invariants of the database. \<open>schema_ok\<close> collects what the unique indexes of the
  schema stand for: identifiers are never reused, a machine has at most one operation in
  flight and at most one unreleased placement, an address of a host is placed at most once.
  \<open>capacity_ok\<close> says that no host is over-committed. The locale
  \<open>store_contract\<close> is the interface through which the services use the store.
\<close>

section \<open>Invariants under faults\<close>

locale db_invariant =
  fixes I :: "db \<Rightarrow> bool"
  assumes I_faults: "I s \<Longrightarrow> I (s\<lparr>db_faults := tl (db_faults s)\<rparr>)"
begin

lemma inv_db_call:
  assumes "\<And>s. I s \<Longrightarrow> I (snd (f s)) \<and> Q (fst (f s))" and "\<And>e. Q (Inl e)"
  shows "triple I (db_call f) Q"
  unfolding triple_def
proof (intro allI impI)
  fix s assume s: "I s"
  have tape: "I (s\<lparr>db_faults := fs\<rparr>)" if "db_faults s = x # fs" for x fs
    using I_faults [OF s] that by simp
  show "I (final_state (db_call f) s) \<and> Q (outcome (db_call f) s)"
    using assms(1) [OF s] assms(1) [OF tape] tape
    by (auto simp: db_call_def assms(2) split: list.splits bool.splits)
qed

lemma inv_query: "triple I (query f) (\<lambda>_. True)"
  unfolding query_def by (rule inv_db_call) auto

lemma inv_query_post:
  "(\<And>s. I s \<Longrightarrow> Q (f s)) \<Longrightarrow> (\<And>e. Q (Inl e)) \<Longrightarrow> triple I (query f) Q"
  unfolding query_def by (rule inv_db_call) auto

lemma inv_exec: "(\<And>s. I s \<Longrightarrow> I (f s)) \<Longrightarrow> triple I (exec f) (\<lambda>_. True)"
  unfolding exec_def by (rule inv_db_call) auto

lemma inv_tx:
  "(\<And>s a t. I s \<Longrightarrow> f s = (Inr a, t) \<Longrightarrow> I t) \<Longrightarrow> triple I (tx f) (\<lambda>_. True)"
  unfolding tx_def by (rule inv_db_call) (auto split: prod.splits sum.splits)

lemma inv_tx_post:
  assumes "\<And>s a t. I s \<Longrightarrow> f s = (Inr a, t) \<Longrightarrow> I t \<and> Q (Inr a)" and "\<And>e. Q (Inl e)"
  shows "triple I (tx f) Q"
  unfolding tx_def using assms
  by (intro inv_db_call) (auto split: prod.splits sum.splits)

end

section \<open>Unique identifiers and unique indexes\<close>

lemma uuid_of_inject [simp]: "uuid_of m = uuid_of n \<longleftrightarrow> m = n"
  by (simp add: uuid_of_def)

text \<open>Rows whose keys were drawn from the first \<open>n\<close> generated identifiers, without repetition.\<close>

definition keyed :: "nat \<Rightarrow> ('r \<Rightarrow> string) \<Rightarrow> 'r list \<Rightarrow> bool" where
  "keyed n k rows \<longleftrightarrow> distinct (map k rows) \<and> (\<forall>r \<in> set rows. \<exists>i < n. k r = uuid_of i)"

lemma keyed_update [unique_intros]:
  "keyed n k rows \<Longrightarrow> (\<And>r. k (f r) = k r) \<Longrightarrow> keyed n k (update_where p f rows)"
  by (auto simp: keyed_def set_update_where)

lemma keyed_delete [unique_intros]: "keyed n k rows \<Longrightarrow> keyed n k (delete_where p rows)"
  by (auto simp: keyed_def intro: distinct_map_delete_where)

lemma keyed_Suc [unique_intros]: "keyed n k rows \<Longrightarrow> keyed (Suc n) k rows"
  by (auto simp: keyed_def intro: less_SucI)

lemma keyed_append [unique_intros]:
  assumes "keyed n k rows" "k r = uuid_of n"
  shows "keyed (Suc n) k (rows @ [r])"
proof -
  have "k r \<notin> k ` set rows" using assms by (force simp: keyed_def)
  then show ?thesis using assms by (auto simp: keyed_def intro: less_SucI)
qed

definition machines_ok :: "nat \<Rightarrow> machine list \<Rightarrow> bool" where
  "machines_ok n ms \<longleftrightarrow> keyed n m_ID ms \<and>
     unique_among (\<lambda>_. True) (\<lambda>m. (m_AccountID m, m_Slug m)) ms \<and>
     unique_among (\<lambda>m. m_BrowserVMID m \<noteq> None) m_BrowserVMID ms"

definition operations_ok :: "nat \<Rightarrow> machine_operation list \<Rightarrow> bool" where
  "operations_ok n ops \<longleftrightarrow> keyed n o_ID ops \<and> unique_among active_op o_MachineID ops"

definition placements_ok :: "nat \<Rightarrow> placement list \<Rightarrow> bool" where
  "placements_ok n ps \<longleftrightarrow> keyed n p_ID ps \<and> unique_among active_placement p_MachineID ps \<and>
     unique_among active_placement (\<lambda>p. (p_HostID p, p_VMIP p)) ps"

definition browser_placements_ok :: "browser_placement list \<Rightarrow> bool" where
  "browser_placements_ok ps \<longleftrightarrow>
     unique_among (\<lambda>p. bp_ReleasedAt p = None) bp_BrowserVMID ps \<and>
     unique_among (\<lambda>p. bp_ReleasedAt p = None \<and> bp_VMIP p \<noteq> None) (\<lambda>p. (bp_HostID p, bp_VMIP p)) ps"

definition hosts_ok :: "int \<Rightarrow> host list \<Rightarrow> bool" where
  "hosts_ok n hs \<longleftrightarrow> unique_among (\<lambda>_. True) h_ID hs \<and> (\<forall>h \<in> set hs. h_ID h < n)"

definition lock_key :: "workflow_lock \<Rightarrow> string \<times> string \<times> string" where
  "lock_key l = (wl_ResourceType l, wl_ResourceID l, wl_LockKind l)"

definition schema_ok :: "db \<Rightarrow> bool" where
  "schema_ok s \<longleftrightarrow> machines_ok (db_uuids s) (machines s) \<and>
     operations_ok (db_uuids s) (machine_operations s) \<and>
     placements_ok (db_uuids s) (machine_placements s) \<and>
     keyed (db_uuids s) b_ID (browser_vms s) \<and>
     browser_placements_ok (browser_vm_placements s) \<and>
     hosts_ok (db_serial s) (hosts s) \<and>
     unique_among (\<lambda>_. True) lock_key (workflow_locks s) \<and>
     unique_among (\<lambda>_. True) et_Token (host_enrollment_tokens s)"

subsection \<open>Statements that keep the tables well formed\<close>

lemma machines_ok_update [unique_intros]:
  assumes "machines_ok n ms"
    and "\<And>m. m_ID (f m) = m_ID m" "\<And>m. m_AccountID (f m) = m_AccountID m"
    and "\<And>m. m_Slug (f m) = m_Slug m"
    and "\<And>m. p m \<Longrightarrow> m_BrowserVMID (f m) = m_BrowserVMID m \<or> m_BrowserVMID (f m) = None"
  shows "machines_ok n (update_where p f ms)"
  unfolding machines_ok_def
proof (intro conjI)
  show "unique_among (\<lambda>m. m_BrowserVMID m \<noteq> None) m_BrowserVMID (update_where p f ms)"
    using assms(1) by (intro unique_among_update) (use assms(5) in \<open>fastforce simp: machines_ok_def\<close>)+
qed (use assms in \<open>auto simp: machines_ok_def intro!: unique_intros\<close>)

lemma machines_ok_delete [unique_intros]: "machines_ok n ms \<Longrightarrow> machines_ok n (delete_where p ms)"
  by (simp add: machines_ok_def unique_intros)

lemma operations_ok_update [unique_intros]:
  assumes "operations_ok n ops" "\<And>x. o_ID (f x) = o_ID x" "\<And>x. p x \<Longrightarrow> active_op (f x) \<Longrightarrow> False"
  shows "operations_ok n (update_where p f ops)"
  using assms by (auto simp: operations_ok_def intro!: unique_intros)

lemma operations_ok_delete [unique_intros]:
  "operations_ok n ops \<Longrightarrow> operations_ok n (delete_where p ops)"
  by (simp add: operations_ok_def unique_intros)

lemma placements_ok_update [unique_intros]:
  assumes "placements_ok n ps" "\<And>p. p_ID (f p) = p_ID p" "\<And>p. p_MachineID (f p) = p_MachineID p"
    and "\<And>p. p_HostID (f p) = p_HostID p" "\<And>p. p_VMIP (f p) = p_VMIP p"
    and "\<And>p. sel p \<Longrightarrow> active_placement (f p) \<Longrightarrow> active_placement p"
  shows "placements_ok n (update_where sel f ps)"
  using assms by (auto simp: placements_ok_def intro!: unique_intros)

lemma placements_ok_delete [unique_intros]:
  "placements_ok n ps \<Longrightarrow> placements_ok n (delete_where p ps)"
  by (simp add: placements_ok_def unique_intros)

lemma browser_placements_ok_update [unique_intros]:
  assumes "browser_placements_ok ps" "\<And>p. bp_BrowserVMID (f p) = bp_BrowserVMID p"
    and "\<And>p. bp_HostID (f p) = bp_HostID p" "\<And>p. bp_VMIP (f p) = bp_VMIP p"
    and "\<And>p. sel p \<Longrightarrow> bp_ReleasedAt (f p) = None \<Longrightarrow> bp_ReleasedAt p = None"
  shows "browser_placements_ok (update_where sel f ps)"
  using assms by (auto simp: browser_placements_ok_def intro!: unique_intros)

lemma browser_placements_ok_delete [unique_intros]:
  "browser_placements_ok ps \<Longrightarrow> browser_placements_ok (delete_where p ps)"
  by (simp add: browser_placements_ok_def unique_intros)

lemma hosts_ok_update [unique_intros]:
  assumes "hosts_ok n hs" "\<And>h. h_ID (f h) = h_ID h"
  shows "hosts_ok n (update_where p f hs)"
  using assms by (auto simp: hosts_ok_def set_update_where intro!: unique_intros)

lemma hosts_ok_delete [unique_intros]: "hosts_ok n hs \<Longrightarrow> hosts_ok n (delete_where p hs)"
  by (auto simp: hosts_ok_def intro!: unique_intros)

lemma hosts_ok_append [unique_intros]:
  assumes "hosts_ok n hs" "h_ID h = n"
  shows "hosts_ok (n + 1) (hs @ [h])" "hosts_ok (n + 1) hs"
  using assms by (auto simp: hosts_ok_def intro!: unique_intros)

lemma rows_ok_Suc [unique_intros]:
  "machines_ok n ms \<Longrightarrow> machines_ok (Suc n) ms"
  "operations_ok n ops \<Longrightarrow> operations_ok (Suc n) ops"
  "placements_ok n ps \<Longrightarrow> placements_ok (Suc n) ps"
  by (auto simp: machines_ok_def operations_ok_def placements_ok_def intro: keyed_Suc)

end
