(* ===== verification/Store_Contract.thy ===== *)
theory Store_Contract
  imports Store_Invariants
begin

text \<open>
  The interface between the services and the store: an invariant that every store method which
  the services call keeps, whatever calls the driver fails. The services are verified against
  this interface; it is interpreted here for the unique indexes (\<open>schema_ok\<close>) and for the
  capacity of the hosts (\<open>capacity_ok\<close>).
\<close>

section \<open>The contract\<close>

text \<open>
  \<open>S v m d\<close> says that a size may be credited to a host: the rows of the machines satisfy
  it, for any disk size that is not negative. \<open>vm_session\<close> are the calls that a service makes
  while it holds the operation of a machine; \<open>store_session\<close> adds the deletion of the machine and
  \<open>store_contract\<close> the creation of operations and the status of hosts.
\<close>

locale vm_session = db_invariant I for I :: "db \<Rightarrow> bool" +
  fixes S :: "int \<Rightarrow> int \<Rightarrow> int \<Rightarrow> bool"
  assumes machine_sizes:
      "I s \<Longrightarrow> mc \<in> set (machines s) \<Longrightarrow> 0 \<le> d \<Longrightarrow> S (m_VCPUs mc) (m_MemoryMB mc) d"
    and PlaceOnHost_keeps: "triple I (PlaceOnHost hid mid v m d) (\<lambda>_. True)"
    and ReAllocate_keeps: "triple I (ReAllocateHostCapacity mid hid v m d) (\<lambda>_. True)"
    and SoftStop_keeps: "S v m d \<Longrightarrow> triple I (SoftStopMachine mid hid v m d) (\<lambda>_. True)"
    and ReleaseWithDisk_keeps:
      "S v m d \<Longrightarrow> triple I (ReleaseHostCapacityWithDisk hid v m d) (\<lambda>_. True)"
    and PlaceBrowserVM_keeps: "triple I (PlaceBrowserVMOnHost hid bid v m) (\<lambda>_. True)"
    and ReleaseBrowserVM_keeps: "triple I (ReleaseBrowserVMPlacement bid) (\<lambda>_. True)"
    and ReservePlacement_keeps: "triple I (ReservePlacement mid hid ip op) (\<lambda>_. True)"
    and ActivatePlacement_keeps: "triple I (ActivatePlacement pid) (\<lambda>_. True)"
    and ReleasePlacement_keeps: "triple I (ReleasePlacement mid) (\<lambda>_. True)"
    and Unassign_keeps: "triple I (UnassignMachineFromHost mid) (\<lambda>_. True)"
    and HomeHost_keeps: "triple I (UpdateMachineHomeHost mid home) (\<lambda>_. True)"
    and MachineStatus_keeps: "triple I (UpdateMachineStatus mid st msg) (\<lambda>_. True)"
    and Tokens_keeps: "triple I (SetMachineTokens mid gw px) (\<lambda>_. True)"
    and Version_keeps: "triple I (UpdateMachineVersion mid snap ver) (\<lambda>_. True)"
    and Tunnel_keeps: "triple I (UpdateMachineTunnel mid tid key) (\<lambda>_. True)"
    and ClearTunnel_keeps: "triple I (ClearMachineTunnel mid) (\<lambda>_. True)"
    and Unpair_keeps: "triple I (UnpairBrowserVM mid) (\<lambda>_. True)"
    and MarkError_keeps: "triple I (MarkMachinesOnHostError hid text) (\<lambda>_. True)"
    and CompleteOperation_keeps:
      "ost \<in> {''completed'', ''failed''} \<Longrightarrow> triple I (CompleteMachineOperation opid ost omsg) (\<lambda>_. True)"
    and ExpireOperations_keeps: "triple I (ExpireStaleOperations old) (\<lambda>_. True)"
begin

lemma GetMachine_sizes:
  "triple I (GetMachine mid)
     (\<lambda>r. \<forall>m d. r = Inr m \<longrightarrow> 0 \<le> d \<longrightarrow> S (m_VCPUs m) (m_MemoryMB m) d)"
  unfolding GetMachine_def
  by (rule inv_query_post) (auto split: option.splits dest!: find_machine_Some intro: machine_sizes)

text \<open>The reads that the services make.\<close>

lemma reads_keep:
  "triple I (GetMachine mid) (\<lambda>_. True)" "triple I (GetHost hid) (\<lambda>_. True)"
  "triple I (ListEligibleHosts f) (\<lambda>_. True)" "triple I (GetBrowserVM bid) (\<lambda>_. True)"
  "triple I (GetAccount a) (\<lambda>_. True)" "triple I (GetActiveMachineOperation mid) (\<lambda>_. True)"
  "triple I (ListMachinesByHost hid) (\<lambda>_. True)" "triple I (FindStuckMachines t) (\<lambda>_. True)"
  "triple I (ListStaleHosts t) (\<lambda>_. True)" "triple I ListUnreachableHosts (\<lambda>_. True)"
  "triple I (IsMachineActive slug) (\<lambda>_. True)" "triple I ListRunningRoutes (\<lambda>_. True)"
  by (simp_all add: GetMachine_def GetHost_def ListEligibleHosts_def GetBrowserVM_def GetAccount_def
      GetActiveMachineOperation_def ListMachinesByHost_def FindStuckMachines_def ListStaleHosts_def
      ListUnreachableHosts_def IsMachineActive_def ListRunningRoutes_def inv_query)

lemma latest_release_keeps: "triple I (GetLatestArtifactRelease kind ch) (\<lambda>_. True)"
  unfolding GetLatestArtifactRelease_def by (rule triple_rules inv_query | simp)+

lemma complete_keeps:
  "triple I (CompleteMachineOperation opid ''completed'' omsg) (\<lambda>_. True)"
  "triple I (CompleteMachineOperation opid ''failed'' omsg) (\<lambda>_. True)"
  by (simp_all add: CompleteOperation_keeps)

lemmas session_keeps = PlaceOnHost_keeps ReAllocate_keeps PlaceBrowserVM_keeps ReleaseBrowserVM_keeps
  ReservePlacement_keeps ActivatePlacement_keeps ReleasePlacement_keeps Unassign_keeps HomeHost_keeps
  MachineStatus_keeps Tokens_keeps Version_keeps Tunnel_keeps ClearTunnel_keeps Unpair_keeps
  MarkError_keeps complete_keeps ExpireOperations_keeps reads_keep
  latest_release_keeps

end

locale store_session = vm_session +
  assumes DeleteMachine_keeps: "triple I (DeleteMachine mid) (\<lambda>_. True)"

locale store_contract = store_session +
  assumes CreateOperation_keeps: "triple I (CreateMachineOperation opn) (\<lambda>_. True)"
    and HostStatus_keeps: "triple I (UpdateHostStatus hid hst) (\<lambda>_. True)"
begin

lemmas store_keeps = CreateOperation_keeps HostStatus_keeps DeleteMachine_keeps session_keeps

end

section \<open>The unique indexes\<close>

interpretation schema_inv: db_invariant schema_ok
  by unfold_locales (simp add: schema_ok_def)

lemma schema_on_machine:
  assumes "schema_ok s" "\<And>m. m_ID (f m) = m_ID m" "\<And>m. m_AccountID (f m) = m_AccountID m"
    and "\<And>m. m_Slug (f m) = m_Slug m"
    and "\<And>m. m_BrowserVMID (f m) = m_BrowserVMID m \<or> m_BrowserVMID (f m) = None"
  shows "schema_ok (on_machine mid f s)"
proof -
  have "machines_ok (db_uuids s) (update_where (\<lambda>m. m_ID m = mid) f (machines s))"
    using assms by (intro machines_ok_update) (auto simp: schema_ok_def)
  then show ?thesis using assms(1) by (simp add: schema_ok_def on_machine_def)
qed

lemma schema_on_host:
  "schema_ok s \<Longrightarrow> (\<And>h. h_ID (f h) = h_ID h) \<Longrightarrow> schema_ok (on_host hid f s)"
  by (simp add: schema_ok_def on_host_def hosts_ok_update)

lemma row_updates_keep_keys [simp]:
  "m_AccountID (assign_machine n hid ip m) = m_AccountID m"
  "m_Slug (assign_machine n hid ip m) = m_Slug m"
  "m_BrowserVMID (assign_machine n hid ip m) = m_BrowserVMID m"
  "m_AccountID (unassign_machine n m) = m_AccountID m"
  "m_Slug (unassign_machine n m) = m_Slug m"
  "m_BrowserVMID (unassign_machine n m) = m_BrowserVMID m"
  "m_AccountID (set_machine_status n st msg m) = m_AccountID m"
  "m_Slug (set_machine_status n st msg m) = m_Slug m"
  "m_BrowserVMID (set_machine_status n st msg m) = m_BrowserVMID m"
  "m_ID (stop_machine n m) = m_ID m" "m_AccountID (stop_machine n m) = m_AccountID m"
  "m_Slug (stop_machine n m) = m_Slug m" "m_BrowserVMID (stop_machine n m) = m_BrowserVMID m"
  "h_ID (credit_exact v mm h) = h_ID h"
  by (simp_all add: assign_machine_def unassign_machine_def set_machine_status_def stop_machine_def
      credit_exact_def)

lemmas schema_rows = schema_on_machine schema_on_host

lemma schema_PlaceOnHost: "triple schema_ok (PlaceOnHost hid mid v m d) (\<lambda>_. True)"
  unfolding PlaceOnHost_def
  by (rule schema_inv.inv_tx)
     (auto simp: place_on_host_def split: if_splits option.splits intro!: schema_rows)

lemma schema_ReAllocate: "triple schema_ok (ReAllocateHostCapacity mid hid v m d) (\<lambda>_. True)"
  unfolding ReAllocateHostCapacity_def
  by (rule schema_inv.inv_tx)
     (auto simp: reallocate_def split: if_splits option.splits sum.splits intro!: schema_rows)

lemma schema_SoftStop: "triple schema_ok (SoftStopMachine mid hid v m d) (\<lambda>_. True)"
  unfolding SoftStopMachine_def by (rule schema_inv.inv_tx) (auto intro!: schema_rows)

lemma schema_ReleaseWithDisk: "triple schema_ok (ReleaseHostCapacityWithDisk hid v m d) (\<lambda>_. True)"
  unfolding ReleaseHostCapacityWithDisk_def by (rule schema_inv.inv_exec) (auto intro!: schema_rows)

lemma find_not_in: "find P xs = Some x \<Longrightarrow> P x"
  by (auto simp: find_Some_iff)

lemma set_map_filter_iff: "x \<in> set (List.map_filter f xs) \<longleftrightarrow> (\<exists>y \<in> set xs. f y = Some x)"
  by (induction xs) (auto simp: map_filter_simps split: option.splits)

lemma unused_ip:
  assumes "first_free_ip lo hi (used_ips hid s) = Some ip"
  shows "ip \<notin> set (used_ips hid s)"
  using assms unfolding first_free_ip_def by (auto dest: find_not_in)

lemma schema_PlaceBrowserVM: "triple schema_ok (PlaceBrowserVMOnHost hid bid v m) (\<lambda>_. True)"
  unfolding PlaceBrowserVMOnHost_def
proof (rule schema_inv.inv_tx)
  fix s a t assume ok: "schema_ok s" and run: "place_browser_vm hid bid v m s = (Inr a, t)"
  let ?row = "\<lparr>bp_BrowserVMID = bid, bp_HostID = hid, bp_VMIP = Some a, bp_State = ''reserved'',
               bp_ActivatedAt = None, bp_ReleasedAt = None\<rparr>"
  from run have t: "t = on_host hid (charge v m 0)
        (s\<lparr>browser_vm_placements := browser_vm_placements s @ [?row]\<rparr>)"
    and free: "first_free_ip 2 254 (used_ips hid s) = Some a"
    and one: "\<not> (\<exists>q \<in> set (browser_vm_placements s). bp_BrowserVMID q = bid \<and> bp_ReleasedAt q = None)"
    by (auto simp: place_browser_vm_def split: option.splits if_splits)
  have "browser_placements_ok (browser_vm_placements s @ [?row])"
    using ok one unused_ip [OF free]
    by (auto simp: schema_ok_def browser_placements_ok_def used_ips_def set_map_filter_iff matching_def
        intro!: unique_among_append)
  then have "schema_ok (s\<lparr>browser_vm_placements := browser_vm_placements s @ [?row]\<rparr>)"
    using ok by (simp add: schema_ok_def)
  then show "schema_ok t" unfolding t by (rule schema_on_host) simp
qed

lemma schema_ReleaseBrowserVM: "triple schema_ok (ReleaseBrowserVMPlacement bid) (\<lambda>_. True)"
  unfolding ReleaseBrowserVMPlacement_def
  by (rule schema_inv.inv_tx)
     (auto simp: release_browser_placement_def Let_def schema_ok_def on_host_def
       split: list.splits option.splits intro!: browser_placements_ok_update hosts_ok_update)

lemma schema_ReservePlacement: "triple schema_ok (ReservePlacement mid hid ip op) (\<lambda>_. True)"
  unfolding ReservePlacement_def
proof (rule schema_inv.inv_tx)
  fix s a t assume ok: "schema_ok s" and run: "reserve_placement mid hid ip op s = (Inr a, t)"
  from run have t: "t = s\<lparr>machine_placements := machine_placements s @ [a], db_uuids := Suc (db_uuids s)\<rparr>"
    and a: "p_ID a = uuid_of (db_uuids s)" "p_MachineID a = mid" "p_HostID a = hid" "p_VMIP a = ip"
    and free: "\<forall>q \<in> set (machine_placements s). active_placement q \<longrightarrow>
                 p_MachineID q \<noteq> mid \<and> (p_HostID q, p_VMIP q) \<noteq> (hid, ip)"
    by (auto simp: reserve_placement_def Let_def split: if_splits)
  have "placements_ok (Suc (db_uuids s)) (machine_placements s @ [a])"
    using ok free a
    by (auto simp: schema_ok_def placements_ok_def intro!: keyed_append unique_among_append)
  then show "schema_ok t"
    using ok unfolding t by (simp add: schema_ok_def rows_ok_Suc keyed_Suc)
qed

lemma schema_placement_updates:
  "triple schema_ok (ActivatePlacement pid) (\<lambda>_. True)"
  "triple schema_ok (ReleasePlacement mid) (\<lambda>_. True)"
  unfolding ActivatePlacement_def ReleasePlacement_def
  by (rule schema_inv.inv_tx schema_inv.inv_exec,
      auto simp: release_placements_def Let_def schema_ok_def active_placement_def
        intro!: placements_ok_update)+

lemma schema_machine_updates:
  "triple schema_ok (UnassignMachineFromHost mid) (\<lambda>_. True)"
  "triple schema_ok (UpdateMachineStatus mid st msg) (\<lambda>_. True)"
  "triple schema_ok (SetMachineTokens mid gw px) (\<lambda>_. True)"
  "triple schema_ok (UpdateMachineVersion mid snap ver) (\<lambda>_. True)"
  "triple schema_ok (UpdateMachineTunnel mid tid key) (\<lambda>_. True)"
  "triple schema_ok (ClearMachineTunnel mid) (\<lambda>_. True)"
  "triple schema_ok (UnpairBrowserVM mid) (\<lambda>_. True)"
  unfolding UnassignMachineFromHost_def UpdateMachineStatus_def SetMachineTokens_def
    UpdateMachineVersion_def UpdateMachineTunnel_def ClearMachineTunnel_def UnpairBrowserVM_def
  by (rule schema_inv.inv_exec, auto intro!: schema_on_machine)+

lemma schema_HomeHost: "triple schema_ok (UpdateMachineHomeHost mid home) (\<lambda>_. True)"
  unfolding UpdateMachineHomeHost_def
  by (rule schema_inv.inv_tx) (auto split: if_splits intro!: schema_on_machine)

lemma schema_DeleteMachine: "triple schema_ok (DeleteMachine mid) (\<lambda>_. True)"
  unfolding DeleteMachine_def
  by (rule schema_inv.inv_exec)
     (simp add: schema_ok_def machines_ok_delete operations_ok_delete placements_ok_delete)

lemma schema_MarkError: "triple schema_ok (MarkMachinesOnHostError hid msg) (\<lambda>_. True)"
  unfolding MarkMachinesOnHostError_def
  by (rule schema_inv.inv_tx) (auto simp: schema_ok_def Let_def intro!: machines_ok_update)

lemma schema_HostStatus: "triple schema_ok (UpdateHostStatus hid st) (\<lambda>_. True)"
  unfolding UpdateHostStatus_def by (rule schema_inv.inv_exec) (auto intro!: schema_on_host)

lemma schema_CreateOperation: "triple schema_ok (CreateMachineOperation op) (\<lambda>_. True)"
  unfolding CreateMachineOperation_def
  by (rule schema_inv.inv_tx)
     (auto simp: create_operation_def Let_def schema_ok_def operations_ok_def rows_ok_Suc keyed_Suc
       split: if_splits intro!: keyed_append unique_among_append)

lemma finish_operation_simps [simp]:
  "o_ID (finish_operation n st msg op) = o_ID op"
  "o_MachineID (finish_operation n st msg op) = o_MachineID op"
  "active_op (finish_operation n st msg op) \<longleftrightarrow> st \<in> {''pending'', ''in_progress''}"
  by (simp_all add: finish_operation_def active_op_def)

lemma schema_CompleteOperation: "triple schema_ok (CompleteMachineOperation opid st msg) (\<lambda>_. True)"
  unfolding CompleteMachineOperation_def
proof (rule schema_inv.inv_tx)
  fix s a t assume ok: "schema_ok s" and run: "complete_operation opid st msg s = (Inr a, t)"
  let ?f = "finish_operation (db_now s) st msg"
  let ?ops = "machine_operations s"
  from run have t: "t = s\<lparr>machine_operations := update_where (\<lambda>x. o_ID x = opid) ?f ?ops\<rparr>"
    and guard: "st \<in> {''pending'', ''in_progress''} \<Longrightarrow> x \<in> set ?ops \<Longrightarrow> o_ID x = opid \<Longrightarrow>
       y \<in> set ?ops \<Longrightarrow> o_ID y \<noteq> opid \<Longrightarrow> active_op y \<Longrightarrow> o_MachineID y \<noteq> o_MachineID x" for x y
    by (auto simp: complete_operation_def split: if_splits)
  have "unique_among active_op o_MachineID (update_where (\<lambda>x. o_ID x = opid) ?f ?ops)"
  proof (rule unique_among_update_one [where key = o_ID and kval = opid])
    show "unique_among active_op o_MachineID ?ops" "distinct (map o_ID ?ops)"
      using ok by (simp_all add: schema_ok_def operations_ok_def keyed_def)
  qed (use guard in \<open>auto\<close>)
  then have "operations_ok (db_uuids s) (update_where (\<lambda>x. o_ID x = opid) ?f ?ops)"
    using ok by (simp add: schema_ok_def operations_ok_def keyed_update)
  then show "schema_ok t" using ok unfolding t by (simp add: schema_ok_def)
qed

lemma schema_ExpireOperations: "triple schema_ok (ExpireStaleOperations old) (\<lambda>_. True)"
  unfolding ExpireStaleOperations_def
  by (rule schema_inv.inv_tx) (auto simp: schema_ok_def Let_def intro!: operations_ok_update)

interpretation schema: store_contract schema_ok "\<lambda>_ _ _. True"
  by unfold_locales
     (simp_all add: schema_PlaceOnHost schema_ReAllocate schema_SoftStop schema_ReleaseWithDisk
       schema_PlaceBrowserVM schema_ReleaseBrowserVM schema_ReservePlacement schema_placement_updates
       schema_machine_updates schema_HomeHost schema_DeleteMachine schema_MarkError schema_HostStatus
       schema_CreateOperation schema_CompleteOperation schema_ExpireOperations)

section \<open>Capacity\<close>

text \<open>
  A host is not over-committed: what is in use does not exceed what there is. A disk capacity of
  zero means that disk is not tracked.
\<close>

definition not_overcommitted :: "host \<Rightarrow> bool" where
  "not_overcommitted h \<longleftrightarrow> 0 \<le> h_CapacityVCPUs h \<and> h_UsedVCPUs h \<le> h_CapacityVCPUs h \<and>
     0 \<le> h_CapacityMemoryMB h \<and> h_UsedMemoryMB h \<le> h_CapacityMemoryMB h \<and>
     0 \<le> h_CapacityDiskMB h \<and> (h_CapacityDiskMB h = 0 \<or> h_UsedDiskMB h \<le> h_CapacityDiskMB h)"

definition sized_rows :: "db \<Rightarrow> bool" where
  "sized_rows s \<longleftrightarrow> (\<forall>m \<in> set (machines s). 0 \<le> m_VCPUs m \<and> 0 \<le> m_MemoryMB m) \<and>
     (\<forall>b \<in> set (browser_vms s). 0 \<le> b_VCPUs b \<and> 0 \<le> b_MemoryMB b)"

definition capacity_ok :: "db \<Rightarrow> bool" where
  "capacity_ok s \<longleftrightarrow> (\<forall>h \<in> set (hosts s). not_overcommitted h) \<and> sized_rows s \<and>
     distinct (map h_ID (hosts s))"

interpretation capacity_inv: db_invariant capacity_ok
  by unfold_locales (simp add: capacity_ok_def sized_rows_def)

lemma capacity_on_machine:
  assumes "capacity_ok s" "\<And>m. m_VCPUs (f m) = m_VCPUs m" "\<And>m. m_MemoryMB (f m) = m_MemoryMB m"
  shows "capacity_ok (on_machine mid f s)"
  using assms by (auto simp: capacity_ok_def sized_rows_def on_machine_def set_update_where)

lemma capacity_on_host:
  assumes "capacity_ok s" "\<And>h. h_ID (f h) = h_ID h"
    and "\<And>h. h \<in> set (hosts s) \<Longrightarrow> h_ID h = hid \<Longrightarrow> not_overcommitted h \<Longrightarrow> not_overcommitted (f h)"
  shows "capacity_ok (on_host hid f s)"
  using assms by (auto simp: capacity_ok_def sized_rows_def on_host_def set_update_where)

lemma charge_not_overcommitted:
  "not_overcommitted h \<Longrightarrow> has_room v m h \<Longrightarrow> has_disk d h \<Longrightarrow> not_overcommitted (charge v m d h)"
  by (auto simp: not_overcommitted_def charge_def has_room_def has_disk_def)

lemma charge_no_disk:
  "not_overcommitted h \<Longrightarrow> has_room v m h \<Longrightarrow> not_overcommitted (charge v m 0 h)"
  by (auto simp: not_overcommitted_def charge_def has_room_def)

lemma credit_not_overcommitted:
  assumes "not_overcommitted h" "0 \<le> v" "0 \<le> m"
  shows "0 \<le> d \<Longrightarrow> not_overcommitted (credit v m d h)" "not_overcommitted (credit_cpu_mem v m h)"
    "not_overcommitted (credit_exact v m h)"
  using assms by (auto simp: not_overcommitted_def credit_def credit_cpu_mem_def credit_exact_def)

text \<open>Host identifiers are unique, so the host that a guard found is the one that is charged.\<close>

lemma guarded_host_unique:
  assumes "capacity_ok s" "h \<in> set (hosts s)" "h_ID h = hid" "k \<in> set (hosts s)" "h_ID k = hid"
  shows "k = h"
  using assms by (auto simp: capacity_ok_def distinct_map inj_on_def)

lemma row_updates_keep_sizes [simp]:
  "m_VCPUs (assign_machine n hid ip m) = m_VCPUs m"
  "m_MemoryMB (assign_machine n hid ip m) = m_MemoryMB m"
  "m_VCPUs (unassign_machine n m) = m_VCPUs m" "m_MemoryMB (unassign_machine n m) = m_MemoryMB m"
  "m_VCPUs (set_machine_status n st msg m) = m_VCPUs m"
  "m_MemoryMB (set_machine_status n st msg m) = m_MemoryMB m"
  "m_VCPUs (stop_machine n m) = m_VCPUs m" "m_MemoryMB (stop_machine n m) = m_MemoryMB m"
  by (simp_all add: assign_machine_def unassign_machine_def set_machine_status_def stop_machine_def)

lemma capacity_charge:
  assumes "capacity_ok s" "h \<in> set (hosts s)" "h_ID h = hid" "has_room v m h" "has_disk d h \<or> d = 0"
  shows "capacity_ok (on_machine mid (assign_machine n hid ip) (on_host hid (charge v m d) s))"
proof (intro capacity_on_machine capacity_on_host)
  fix k assume k: "k \<in> set (hosts s)" "h_ID k = hid" "not_overcommitted k"
  with assms have "k = h" by (blast intro: guarded_host_unique)
  then show "not_overcommitted (charge v m d k)"
    using k(3) assms(4,5) charge_not_overcommitted charge_no_disk by blast
qed (use assms in simp_all)

lemma capacity_PlaceOnHost: "triple capacity_ok (PlaceOnHost hid mid v m d) (\<lambda>_. True)"
  unfolding PlaceOnHost_def
  by (rule capacity_inv.inv_tx)
     (auto simp: place_on_host_def host_available_def split: if_splits option.splits
       intro: capacity_charge)

lemma capacity_ReAllocate: "triple capacity_ok (ReAllocateHostCapacity mid hid v m d) (\<lambda>_. True)"
  unfolding ReAllocateHostCapacity_def
proof (rule capacity_inv.inv_tx)
  fix s ip t assume ok: "capacity_ok s" and run: "reallocate mid hid v m s = (Inr ip, t)"
  from run obtain h where "h \<in> set (hosts s)" "h_ID h = hid" "has_room v m h"
    and t: "t = on_machine mid (assign_machine (db_now s) hid ip) (on_host hid (charge v m 0) s)"
    by (auto simp: reallocate_def matching_def dest!: one_row_Inr split: sum.splits if_splits option.splits)
  then show "capacity_ok t" unfolding t using ok by (intro capacity_charge) auto
qed

lemma capacity_SoftStop:
  "0 \<le> v \<and> 0 \<le> m \<and> 0 \<le> d \<Longrightarrow> triple capacity_ok (SoftStopMachine mid hid v m d) (\<lambda>_. True)"
  unfolding SoftStopMachine_def
  by (rule capacity_inv.inv_tx)
     (auto intro!: capacity_on_machine capacity_on_host credit_not_overcommitted)

lemma capacity_ReleaseWithDisk:
  "0 \<le> v \<and> 0 \<le> m \<and> 0 \<le> d \<Longrightarrow> triple capacity_ok (ReleaseHostCapacityWithDisk hid v m d) (\<lambda>_. True)"
  unfolding ReleaseHostCapacityWithDisk_def
  by (rule capacity_inv.inv_exec) (auto intro!: capacity_on_host credit_not_overcommitted)

lemma find_host_unique:
  assumes "capacity_ok s" "find_host hid s = Some h" "k \<in> set (hosts s)" "h_ID k = hid"
  shows "k = h"
  using guarded_host_unique [OF assms(1)] find_host_Some [OF assms(2)] assms(3,4) by blast

lemma capacity_PlaceBrowserVM: "triple capacity_ok (PlaceBrowserVMOnHost hid bid v m) (\<lambda>_. True)"
  unfolding PlaceBrowserVMOnHost_def
proof (rule capacity_inv.inv_tx)
  fix s ip t assume ok: "capacity_ok s" and run: "place_browser_vm hid bid v m s = (Inr ip, t)"
  from run obtain h row where h: "find_host hid s = Some h" "has_room v m h"
    and t: "t = on_host hid (charge v m 0) (s\<lparr>browser_vm_placements := browser_vm_placements s @ [row]\<rparr>)"
    by (auto simp: place_browser_vm_def split: option.splits if_splits)
  have room: "not_overcommitted (charge v m 0 k)"
    if "k \<in> set (hosts s)" "h_ID k = hid" "not_overcommitted k" for k
    using charge_no_disk [OF that(3)] find_host_unique [OF ok h(1) that(1,2)] h(2) by simp
  have "capacity_ok (s\<lparr>browser_vm_placements := browser_vm_placements s @ [row]\<rparr>)"
    using ok by (simp add: capacity_ok_def sized_rows_def)
  then show "capacity_ok t" unfolding t by (rule capacity_on_host) (use room in simp_all)
qed

lemma capacity_ReleaseBrowserVM: "triple capacity_ok (ReleaseBrowserVMPlacement bid) (\<lambda>_. True)"
  unfolding ReleaseBrowserVMPlacement_def
proof (rule capacity_inv.inv_tx)
  fix s a t assume ok: "capacity_ok s" and run: "release_browser_placement bid s = (Inr a, t)"
  show "capacity_ok t"
  proof (cases "matching (\<lambda>p. bp_BrowserVMID p = bid \<and> bp_ReleasedAt p = None) (browser_vm_placements s)")
    case Nil
    with run ok show ?thesis by (simp add: release_browser_placement_def)
  next
    case (Cons p ps)
    with run obtain b bps where b: "find_browser_vm bid s = Some b"
      and t: "t = on_host (bp_HostID p) (credit_exact (b_VCPUs b) (b_MemoryMB b))
                  (s\<lparr>browser_vm_placements := bps\<rparr>)"
      by (auto simp: release_browser_placement_def Let_def split: option.splits)
    have size: "0 \<le> b_VCPUs b" "0 \<le> b_MemoryMB b"
      using ok b by (auto simp: capacity_ok_def sized_rows_def find_browser_vm_def find_Some_iff)
    have "capacity_ok (s\<lparr>browser_vm_placements := bps\<rparr>)"
      using ok by (simp add: capacity_ok_def sized_rows_def)
    then show ?thesis unfolding t
      by (rule capacity_on_host) (use credit_not_overcommitted(3) size in simp_all)
  qed
qed

text \<open>The other methods change neither the counters nor the sizes.\<close>

lemma capacity_other_tables:
  "triple capacity_ok (ReservePlacement mid hid ip op) (\<lambda>_. True)"
  "triple capacity_ok (ActivatePlacement pid) (\<lambda>_. True)"
  "triple capacity_ok (ReleasePlacement mid) (\<lambda>_. True)"
  "triple capacity_ok (CreateMachineOperation opn) (\<lambda>_. True)"
  "triple capacity_ok (CompleteMachineOperation opid ost omsg) (\<lambda>_. True)"
  "triple capacity_ok (ExpireStaleOperations old) (\<lambda>_. True)"
  unfolding ReservePlacement_def ActivatePlacement_def ReleasePlacement_def
    CreateMachineOperation_def CompleteMachineOperation_def ExpireStaleOperations_def
  by (rule capacity_inv.inv_tx capacity_inv.inv_exec,
      auto simp: reserve_placement_def release_placements_def create_operation_def
        complete_operation_def Let_def capacity_ok_def sized_rows_def split: if_splits)+

lemma capacity_machine_updates:
  "triple capacity_ok (UnassignMachineFromHost mid) (\<lambda>_. True)"
  "triple capacity_ok (UpdateMachineStatus mid st msg) (\<lambda>_. True)"
  "triple capacity_ok (SetMachineTokens mid gw px) (\<lambda>_. True)"
  "triple capacity_ok (UpdateMachineVersion mid snap ver) (\<lambda>_. True)"
  "triple capacity_ok (UpdateMachineTunnel mid tid key) (\<lambda>_. True)"
  "triple capacity_ok (ClearMachineTunnel mid) (\<lambda>_. True)"
  "triple capacity_ok (UnpairBrowserVM mid) (\<lambda>_. True)"
  unfolding UnassignMachineFromHost_def UpdateMachineStatus_def SetMachineTokens_def
    UpdateMachineVersion_def UpdateMachineTunnel_def ClearMachineTunnel_def UnpairBrowserVM_def
  by (rule capacity_inv.inv_exec, auto intro!: capacity_on_machine)+

lemma capacity_HomeHost: "triple capacity_ok (UpdateMachineHomeHost mid home) (\<lambda>_. True)"
  unfolding UpdateMachineHomeHost_def
  by (rule capacity_inv.inv_tx) (auto split: if_splits intro!: capacity_on_machine)

lemma capacity_DeleteMachine: "triple capacity_ok (DeleteMachine mid) (\<lambda>_. True)"
  unfolding DeleteMachine_def
  by (rule capacity_inv.inv_exec) (auto simp: capacity_ok_def sized_rows_def)

lemma capacity_MarkError: "triple capacity_ok (MarkMachinesOnHostError hid msg) (\<lambda>_. True)"
  unfolding MarkMachinesOnHostError_def
  by (rule capacity_inv.inv_tx) (auto simp: capacity_ok_def sized_rows_def Let_def set_update_where)

lemma capacity_HostStatus: "triple capacity_ok (UpdateHostStatus hid st) (\<lambda>_. True)"
  unfolding UpdateHostStatus_def
  by (rule capacity_inv.inv_exec) (auto intro!: capacity_on_host simp: not_overcommitted_def)

interpretation capacity: store_contract capacity_ok "\<lambda>v m d. 0 \<le> v \<and> 0 \<le> m \<and> 0 \<le> d"
proof unfold_locales
  fix s mc d assume "capacity_ok s" "mc \<in> set (machines s)" "0 \<le> (d :: int)"
  then show "0 \<le> m_VCPUs mc \<and> 0 \<le> m_MemoryMB mc \<and> 0 \<le> d"
    by (simp add: capacity_ok_def sized_rows_def)
qed (simp_all add: capacity_PlaceOnHost capacity_ReAllocate capacity_SoftStop capacity_ReleaseWithDisk
    capacity_PlaceBrowserVM capacity_ReleaseBrowserVM capacity_other_tables capacity_machine_updates
    capacity_HomeHost capacity_DeleteMachine capacity_MarkError capacity_HostStatus)

end
