(* ===== verification/Store_Steps.thy ===== *)
theory Store_Steps
  imports Store_Contract
begin

text \<open>
  Interleavings. Requests, background pollers and reconcilers run concurrently; what they share
  is the database, and a store method is one statement or one transaction. \<open>store_step\<close> is
  one such method, called by anybody with any arguments, failing or not: its reachable states
  include every interleaving of the services.
\<close>

section \<open>The remaining methods\<close>

lemma default_workspace_frame:
  assumes "default_workspace acct s = (wsid, t)"
  shows "t = s \<or> (\<exists>ws. t = s\<lparr>workspaces := ws, db_uuids := Suc (db_uuids s)\<rparr>)"
  using assms unfolding default_workspace_def by (auto split: list.splits)

lemma insert_machine_result:
  assumes "insert_machine m s = (Inr r, t)"
  obtains wsid s1 where "s1 = s \<or> (\<exists>ws. s1 = s\<lparr>workspaces := ws, db_uuids := Suc (db_uuids s)\<rparr>)"
    and "t = s1\<lparr>machines := machines s @ [machine_row m wsid s1], db_uuids := Suc (db_uuids s1)\<rparr>"
    and "\<not> (\<exists>x \<in> set (machines s). m_AccountID x = m_AccountID m \<and> m_Slug x = m_Slug m)"
proof -
  obtain wsid s1 where dw: "default_workspace (m_AccountID m) s = (wsid, s1)" by force
  have frame: "s1 = s \<or> (\<exists>ws. s1 = s\<lparr>workspaces := ws, db_uuids := Suc (db_uuids s)\<rparr>)"
    using dw by (rule default_workspace_frame)
  then have "machines s1 = machines s" by auto
  then show ?thesis
    using assms that [OF frame, of wsid] by (auto simp: insert_machine_def dw Let_def split: if_splits)
qed

lemma schema_CreateMachine: "triple schema_ok (CreateMachine m) (\<lambda>_. True)"
  unfolding CreateMachine_def
proof (rule schema_inv.inv_tx)
  fix s r t assume ok: "schema_ok s" and run: "insert_machine m s = (Inr r, t)"
  obtain wsid s1 where s1: "s1 = s \<or> (\<exists>ws. s1 = s\<lparr>workspaces := ws, db_uuids := Suc (db_uuids s)\<rparr>)"
    and t: "t = s1\<lparr>machines := machines s @ [machine_row m wsid s1], db_uuids := Suc (db_uuids s1)\<rparr>"
    and fresh: "\<not> (\<exists>x \<in> set (machines s). m_AccountID x = m_AccountID m \<and> m_Slug x = m_Slug m)"
    using run by (rule insert_machine_result)
  have ok1: "schema_ok s1" "machines s1 = machines s"
    using s1 ok by (auto simp: schema_ok_def rows_ok_Suc keyed_Suc)
  have "machines_ok (Suc (db_uuids s1)) (machines s @ [machine_row m wsid s1])"
    using ok1 fresh
    by (auto simp: schema_ok_def machines_ok_def intro!: keyed_append unique_among_append)
  then show "schema_ok t"
    using ok1(1) unfolding t by (simp add: schema_ok_def rows_ok_Suc keyed_Suc)
qed

lemma schema_UpdateMachine: "triple schema_ok (UpdateMachine u) (\<lambda>_. True)"
  unfolding UpdateMachine_def
  by (rule schema_inv.inv_tx) (auto split: if_splits intro!: schema_on_machine)

lemma schema_StatusCAS: "triple schema_ok (UpdateMachineStatusCAS mid old new msg) (\<lambda>_. True)"
  unfolding UpdateMachineStatusCAS_def
  by (rule schema_inv.inv_tx) (auto simp: schema_ok_def Let_def intro!: machines_ok_update)

lemma schema_ActualVersions: "triple schema_ok (UpdateMachineActualVersions hid mid r v) (\<lambda>_. True)"
  unfolding UpdateMachineActualVersions_def
  by (rule schema_inv.inv_exec) (auto simp: schema_ok_def intro!: machines_ok_update)

lemma schema_PairBrowserVM: "triple schema_ok (PairBrowserVM mid bid) (\<lambda>_. True)"
  unfolding PairBrowserVM_def
proof (rule schema_inv.inv_tx)
  fix s r t assume ok: "schema_ok s"
    and run: "(if \<exists>m \<in> set (machines s). m_ID m = mid \<and> \<not> (\<exists>b \<in> set (browser_vms s). b_ID b = bid)
       then (Inl ErrForeignKey, s)
     else if (\<exists>m \<in> set (machines s). m_ID m = mid) \<and>
             (\<exists>m \<in> set (machines s). m_ID m \<noteq> mid \<and> m_BrowserVMID m = Some bid)
       then (Inl ErrUnique, s)
     else (Inr (), on_machine mid (\<lambda>m. m\<lparr>m_BrowserVMID := Some bid\<rparr>) s)) = (Inr r, t)"
  let ?f = "\<lambda>m. m\<lparr>m_BrowserVMID := Some bid\<rparr>"
  from run have t: "t = on_machine mid ?f s"
    and free: "m \<in> set (machines s) \<Longrightarrow> m_ID m = mid \<Longrightarrow> x \<in> set (machines s) \<Longrightarrow> m_ID x \<noteq> mid \<Longrightarrow>
               m_BrowserVMID x \<noteq> Some bid" for m x
    by (auto split: if_splits)
  have "unique_among (\<lambda>m. m_BrowserVMID m \<noteq> None) m_BrowserVMID
          (update_where (\<lambda>m. m_ID m = mid) ?f (machines s))"
    by (rule unique_among_update_one [where key = m_ID and kval = mid])
       (use ok free in \<open>auto simp: schema_ok_def machines_ok_def keyed_def\<close>)
  then show "schema_ok t"
    using ok unfolding t
    by (auto simp: schema_ok_def machines_ok_def on_machine_def intro!: keyed_update unique_among_update)
qed

lemma schema_hosts:
  "triple schema_ok (CreateHost h) (\<lambda>_. True)"
  "triple schema_ok (CreateRegisteredHost h) (\<lambda>_. True)"
  unfolding CreateHost_def CreateRegisteredHost_def
  by (rule schema_inv.inv_tx, auto simp: add_host_def Let_def schema_ok_def intro!: hosts_ok_append(1))+

lemma schema_host_updates:
  "triple schema_ok (SetHostMaintenanceMode hid b) (\<lambda>_. True)"
  "triple schema_ok (UpdateHostStatusMessage hid st txt) (\<lambda>_. True)"
  "triple schema_ok (UpdateHostDetails h) (\<lambda>_. True)"
  "triple schema_ok (UpdateHostAgentEndpoint hid ep kind) (\<lambda>_. True)"
  "triple schema_ok (UpdateHostProviderMetadata hid md) (\<lambda>_. True)"
  "triple schema_ok (UpdateHostSourceImage hid img) (\<lambda>_. True)"
  unfolding SetHostMaintenanceMode_def UpdateHostStatusMessage_def UpdateHostDetails_def UpdateHostAgentEndpoint_def
    UpdateHostProviderMetadata_def UpdateHostSourceImage_def
  by (rule schema_inv.inv_exec, auto intro!: schema_on_host)+

lemma schema_Heartbeat:
  "triple schema_ok (UpdateHostHeartbeat hid ip ag rf br oc caps) (\<lambda>_. True)"
  unfolding UpdateHostHeartbeat_def
  by (rule schema_inv.inv_tx)
     (auto simp: heartbeat_host_def Let_def split: option.splits intro!: schema_on_host)

lemma schema_DeleteHost: "triple schema_ok (DeleteHost hid) (\<lambda>_. True)"
  unfolding DeleteHost_def
  by (rule schema_inv.inv_tx)
     (auto simp: schema_ok_def split: if_splits
       intro!: machines_ok_update keyed_update browser_placements_ok_delete hosts_ok_delete)

lemma schema_browser_vms:
  "triple schema_ok (CreateBrowserVM b) (\<lambda>_. True)"
  "triple schema_ok (UpdateBrowserVMStatus bid st msg) (\<lambda>_. True)"
  "triple schema_ok (AssignBrowserVMToHost bid hid ip) (\<lambda>_. True)"
  "triple schema_ok (UnassignBrowserVMFromHost bid) (\<lambda>_. True)"
  "triple schema_ok (ActivateBrowserVMPlacement bid) (\<lambda>_. True)"
  unfolding CreateBrowserVM_def UpdateBrowserVMStatus_def AssignBrowserVMToHost_def
    UnassignBrowserVMFromHost_def ActivateBrowserVMPlacement_def
  by (rule schema_inv.inv_tx schema_inv.inv_exec,
      auto simp: schema_ok_def on_browser_vm_def Let_def split: if_splits
        intro!: keyed_append keyed_update rows_ok_Suc browser_placements_ok_update)+

lemma schema_DeleteBrowserVM: "triple schema_ok (DeleteBrowserVM bid) (\<lambda>_. True)"
  unfolding DeleteBrowserVM_def
  by (rule schema_inv.inv_exec)
     (auto simp: schema_ok_def intro!: machines_ok_update keyed_delete browser_placements_ok_delete)

lemma schema_release_placements: "schema_ok s \<Longrightarrow> schema_ok (release_placements mid s)"
  by (auto simp: release_placements_def schema_ok_def active_placement_def intro!: placements_ok_update)

lemma schema_ReleaseMigration:
  "triple schema_ok (ReleaseMigrationSource mid hid v m rel) (\<lambda>_. True)"
  unfolding ReleaseMigrationSource_def
  by (rule schema_inv.inv_tx)
     (auto simp: release_migration_source_def Let_def split: option.splits if_splits
       intro!: schema_release_placements schema_rows)

lemma schema_locks:
  "triple schema_ok (AcquireWorkflowLock l) (\<lambda>_. True)"
  "triple schema_ok (RenewWorkflowLock wid rt rid k until) (\<lambda>_. True)"
  "triple schema_ok (ReleaseWorkflowLocks wid) (\<lambda>_. True)"
  unfolding AcquireWorkflowLock_def RenewWorkflowLock_def ReleaseWorkflowLocks_def
  by (rule schema_inv.inv_tx schema_inv.inv_exec,
      auto simp: acquire_lock_def Let_def schema_ok_def lock_key_def same_lock_def matching_def
        split: list.splits if_splits
        intro!: unique_among_append unique_among_update unique_among_delete
        dest!: filter_empty_conv [THEN iffD1])+

lemma schema_enrollment:
  "triple schema_ok (CreateEnrollmentToken random tok) (\<lambda>_. True)"
  "triple schema_ok (MarkEnrollmentTokenUsed token hid) (\<lambda>_. True)"
  unfolding CreateEnrollmentToken_def MarkEnrollmentTokenUsed_def
  by ((rule triple_case_sum, rule triple_return, simp)?, rule schema_inv.inv_tx,
      auto simp: Let_def schema_ok_def split: if_splits
        intro!: unique_among_append unique_among_update rows_ok_Suc keyed_Suc)+

section \<open>Capacity\<close>

lemma capacity_CreateMachine:
  assumes "0 \<le> m_VCPUs m" "0 \<le> m_MemoryMB m"
  shows "triple capacity_ok (CreateMachine m) (\<lambda>_. True)"
  unfolding CreateMachine_def
proof (rule capacity_inv.inv_tx)
  fix s r t assume ok: "capacity_ok s" and run: "insert_machine m s = (Inr r, t)"
  obtain wsid s1 where "s1 = s \<or> (\<exists>ws. s1 = s\<lparr>workspaces := ws, db_uuids := Suc (db_uuids s)\<rparr>)"
    and "t = s1\<lparr>machines := machines s @ [machine_row m wsid s1], db_uuids := Suc (db_uuids s1)\<rparr>"
    using run by (rule insert_machine_result)
  then show "capacity_ok t"
    using ok assms by (auto simp: capacity_ok_def sized_rows_def)
qed

lemma capacity_UpdateMachine:
  "0 \<le> m_VCPUs u \<Longrightarrow> 0 \<le> m_MemoryMB u \<Longrightarrow> triple capacity_ok (UpdateMachine u) (\<lambda>_. True)"
  unfolding UpdateMachine_def
  by (rule capacity_inv.inv_tx)
     (auto simp: capacity_ok_def sized_rows_def on_machine_def set_update_where split: if_splits)

lemma capacity_machine_columns:
  "triple capacity_ok (UpdateMachineStatusCAS mid old new msg) (\<lambda>_. True)"
  "triple capacity_ok (UpdateMachineActualVersions hid mid r v) (\<lambda>_. True)"
  "triple capacity_ok (PairBrowserVM mid bid) (\<lambda>_. True)"
  unfolding UpdateMachineStatusCAS_def UpdateMachineActualVersions_def PairBrowserVM_def
  by (rule capacity_inv.inv_tx capacity_inv.inv_exec,
      auto simp: capacity_ok_def sized_rows_def Let_def set_update_where on_machine_def split: if_splits)+

text \<open>A host starts with nothing in use.\<close>

definition host_size_ok :: "host \<Rightarrow> bool" where
  "host_size_ok h \<longleftrightarrow> 0 \<le> h_CapacityVCPUs h \<and> 0 \<le> h_CapacityMemoryMB h \<and> 0 \<le> h_CapacityDiskMB h"

definition db_ok :: "db \<Rightarrow> bool" where
  "db_ok s \<longleftrightarrow> schema_ok s \<and> capacity_ok s"

lemma db_ok_triple:
  "triple schema_ok m (\<lambda>_. True) \<Longrightarrow> triple capacity_ok m (\<lambda>_. True) \<Longrightarrow> triple db_ok m (\<lambda>_. True)"
  by (simp add: triple_def db_ok_def)

interpretation db_ok_inv: db_invariant db_ok
  by unfold_locales (simp add: db_ok_def schema_inv.I_faults capacity_inv.I_faults)

lemma db_ok_add_host:
  assumes "db_ok s" "not_overcommitted row"
  shows "db_ok (add_host row s)"
proof -
  have "hosts_ok (db_serial s + 1) (hosts s @ [row\<lparr>h_ID := db_serial s, h_CreatedAt := db_now s\<rparr>])"
    using assms(1) by (intro hosts_ok_append) (auto simp: db_ok_def schema_ok_def)
  moreover have "not_overcommitted (row\<lparr>h_ID := db_serial s, h_CreatedAt := db_now s\<rparr>)"
    using assms(2) by (simp add: not_overcommitted_def)
  ultimately show ?thesis
    using assms(1)
    by (auto simp: db_ok_def schema_ok_def capacity_ok_def sized_rows_def add_host_def hosts_ok_def)
qed

lemma db_ok_hosts:
  assumes "host_size_ok h"
  shows "triple db_ok (CreateHost h) (\<lambda>_. True)" "triple db_ok (CreateRegisteredHost h) (\<lambda>_. True)"
  unfolding CreateHost_def CreateRegisteredHost_def using assms
  by (intro db_ok_inv.inv_tx;
      auto simp: Let_def zero_host_def not_overcommitted_def host_size_ok_def intro!: db_ok_add_host)+

lemma capacity_host_updates:
  "triple capacity_ok (SetHostMaintenanceMode hid b) (\<lambda>_. True)"
  "triple capacity_ok (UpdateHostStatusMessage hid st txt) (\<lambda>_. True)"
  "triple capacity_ok (UpdateHostDetails h) (\<lambda>_. True)"
  "triple capacity_ok (UpdateHostAgentEndpoint hid ep kind) (\<lambda>_. True)"
  "triple capacity_ok (UpdateHostProviderMetadata hid md) (\<lambda>_. True)"
  "triple capacity_ok (UpdateHostSourceImage hid img) (\<lambda>_. True)"
  unfolding SetHostMaintenanceMode_def UpdateHostStatusMessage_def UpdateHostDetails_def UpdateHostAgentEndpoint_def
    UpdateHostProviderMetadata_def UpdateHostSourceImage_def
  by (rule capacity_inv.inv_exec, auto simp: not_overcommitted_def intro!: capacity_on_host)+

lemma capacity_Heartbeat:
  "triple capacity_ok (UpdateHostHeartbeat hid ip ag rf br oc caps) (\<lambda>_. True)"
  unfolding UpdateHostHeartbeat_def
  by (rule capacity_inv.inv_tx)
     (auto simp: heartbeat_host_def not_overcommitted_def Let_def split: option.splits
       intro!: capacity_on_host)

lemma capacity_DeleteHost: "triple capacity_ok (DeleteHost hid) (\<lambda>_. True)"
  unfolding DeleteHost_def
  by (rule capacity_inv.inv_tx)
     (auto simp: capacity_ok_def sized_rows_def set_update_where split: if_splits
       intro: distinct_map_delete_where)

lemma capacity_browser_vms:
  "triple capacity_ok (UpdateBrowserVMStatus bid st msg) (\<lambda>_. True)"
  "triple capacity_ok (AssignBrowserVMToHost bid hid ip) (\<lambda>_. True)"
  "triple capacity_ok (UnassignBrowserVMFromHost bid) (\<lambda>_. True)"
  "triple capacity_ok (ActivateBrowserVMPlacement bid) (\<lambda>_. True)"
  "triple capacity_ok (DeleteBrowserVM bid) (\<lambda>_. True)"
  unfolding UpdateBrowserVMStatus_def AssignBrowserVMToHost_def UnassignBrowserVMFromHost_def
    ActivateBrowserVMPlacement_def DeleteBrowserVM_def
  by (rule capacity_inv.inv_tx capacity_inv.inv_exec,
      auto simp: capacity_ok_def sized_rows_def on_browser_vm_def set_update_where split: if_splits)+

lemma capacity_CreateBrowserVM:
  "0 \<le> b_VCPUs b \<Longrightarrow> 0 \<le> b_MemoryMB b \<Longrightarrow> triple capacity_ok (CreateBrowserVM b) (\<lambda>_. True)"
  unfolding CreateBrowserVM_def
  by (rule capacity_inv.inv_tx) (auto simp: capacity_ok_def sized_rows_def Let_def split: if_splits)

lemma capacity_release_placements: "capacity_ok s \<Longrightarrow> capacity_ok (release_placements mid s)"
  by (simp add: release_placements_def capacity_ok_def sized_rows_def)

lemma capacity_ReleaseMigration:
  "0 \<le> v \<Longrightarrow> 0 \<le> m \<Longrightarrow> triple capacity_ok (ReleaseMigrationSource mid hid v m rel) (\<lambda>_. True)"
  unfolding ReleaseMigrationSource_def
  by (rule capacity_inv.inv_tx)
     (auto simp: release_migration_source_def Let_def split: option.splits if_splits
       intro!: capacity_release_placements capacity_on_machine capacity_on_host credit_not_overcommitted)

lemma capacity_locks_tokens:
  "triple capacity_ok (AcquireWorkflowLock l) (\<lambda>_. True)"
  "triple capacity_ok (RenewWorkflowLock wid rt rid k until) (\<lambda>_. True)"
  "triple capacity_ok (ReleaseWorkflowLocks wid) (\<lambda>_. True)"
  "triple capacity_ok (CreateEnrollmentToken random tok) (\<lambda>_. True)"
  "triple capacity_ok (MarkEnrollmentTokenUsed token hid) (\<lambda>_. True)"
  unfolding AcquireWorkflowLock_def RenewWorkflowLock_def ReleaseWorkflowLocks_def
    CreateEnrollmentToken_def MarkEnrollmentTokenUsed_def
  by ((rule triple_case_sum, rule triple_return, simp)?, rule capacity_inv.inv_tx capacity_inv.inv_exec,
      auto simp: acquire_lock_def Let_def capacity_ok_def sized_rows_def split: list.splits if_splits)+

lemma workflow_runs_ok:
  "triple schema_ok (CreateWorkflowRun run) (\<lambda>_. True)"
  "triple schema_ok (CreateWorkflowEvent ev) (\<lambda>_. True)"
  "triple capacity_ok (CreateWorkflowRun run) (\<lambda>_. True)"
  "triple capacity_ok (CreateWorkflowEvent ev) (\<lambda>_. True)"
  unfolding CreateWorkflowRun_def CreateWorkflowEvent_def
  by (rule schema_inv.inv_tx capacity_inv.inv_tx,
      auto simp: Let_def schema_ok_def capacity_ok_def sized_rows_def hosts_ok_def split: if_splits)+

lemma workflow_updates_ok:
  "triple schema_ok (UpdateWorkflowRunStatus wid st ph sm ec em) (\<lambda>_. True)"
  "triple schema_ok (CompleteWorkflowRun wid st out ec em) (\<lambda>_. True)"
  "triple capacity_ok (UpdateWorkflowRunStatus wid st ph sm ec em) (\<lambda>_. True)"
  "triple capacity_ok (CompleteWorkflowRun wid st out ec em) (\<lambda>_. True)"
  unfolding UpdateWorkflowRunStatus_def CompleteWorkflowRun_def
  by (rule schema_inv.inv_tx capacity_inv.inv_tx,
      auto simp: schema_ok_def capacity_ok_def sized_rows_def hosts_ok_def split: if_splits)+

lemma backup_statements_ok:
  "triple schema_ok (CreateBackupRecord b) (\<lambda>_. True)"
  "triple schema_ok (DeleteBackupRecord bid) (\<lambda>_. True)"
  "triple schema_ok (DeleteAllBackupRecords mid) (\<lambda>_. True)"
  "triple capacity_ok (CreateBackupRecord b) (\<lambda>_. True)"
  "triple capacity_ok (DeleteBackupRecord bid) (\<lambda>_. True)"
  "triple capacity_ok (DeleteAllBackupRecords mid) (\<lambda>_. True)"
  unfolding CreateBackupRecord_def DeleteBackupRecord_def DeleteAllBackupRecords_def create_backup_def
  by (rule schema_inv.inv_tx capacity_inv.inv_tx schema_inv.inv_exec capacity_inv.inv_exec,
      auto simp: Let_def schema_ok_def capacity_ok_def sized_rows_def hosts_ok_def split: if_splits)+

lemma artifact_state_ok:
  "triple schema_ok (UpsertHostArtifactState a) (\<lambda>_. True)"
  "triple capacity_ok (UpsertHostArtifactState a) (\<lambda>_. True)"
  unfolding UpsertHostArtifactState_def upsert_artifact_state_def
  by (rule schema_inv.inv_tx capacity_inv.inv_tx,
      auto simp: Let_def schema_ok_def capacity_ok_def sized_rows_def hosts_ok_def split: if_splits list.splits)+

lemma EnableBackups_ok:
  "triple schema_ok (EnableBackups mid key) (\<lambda>_. True)"
  "triple capacity_ok (EnableBackups mid key) (\<lambda>_. True)"
  unfolding EnableBackups_def
  by (rule schema_inv.inv_exec capacity_inv.inv_exec, auto intro!: schema_rows capacity_on_machine)+

section \<open>Steps\<close>

inductive store_step :: "db \<Rightarrow> db \<Rightarrow> bool" where
  time_passes: "db_now s \<le> t \<Longrightarrow> store_step s (s\<lparr>db_now := t, db_faults := fs\<rparr>)"
| create_account: "store_step s (s\<lparr>accounts := accounts s @ [a]\<rparr>)"
| create_machine: "0 \<le> m_VCPUs m \<Longrightarrow> 0 \<le> m_MemoryMB m \<Longrightarrow>
    store_step s (final_state (CreateMachine m) s)"
| update_machine: "0 \<le> m_VCPUs m \<Longrightarrow> 0 \<le> m_MemoryMB m \<Longrightarrow>
    store_step s (final_state (UpdateMachine m) s)"
| machine_status: "store_step s (final_state (UpdateMachineStatus mid st msg) s)"
| machine_status_cas: "store_step s (final_state (UpdateMachineStatusCAS mid old new msg) s)"
| machine_tokens: "store_step s (final_state (SetMachineTokens mid gw px) s)"
| machine_version: "store_step s (final_state (UpdateMachineVersion mid snap ver) s)"
| actual_versions: "store_step s (final_state (UpdateMachineActualVersions hid mid r v) s)"
| machine_tunnel: "store_step s (final_state (UpdateMachineTunnel mid tid key) s)"
| clear_tunnel: "store_step s (final_state (ClearMachineTunnel mid) s)"
| home_host: "store_step s (final_state (UpdateMachineHomeHost mid home) s)"
| unassign: "store_step s (final_state (UnassignMachineFromHost mid) s)"
| delete_machine: "store_step s (final_state (DeleteMachine mid) s)"
| mark_error: "store_step s (final_state (MarkMachinesOnHostError hid txt) s)"
| pair: "store_step s (final_state (PairBrowserVM mid bid) s)"
| unpair: "store_step s (final_state (UnpairBrowserVM mid) s)"
| create_host: "host_size_ok h \<Longrightarrow> store_step s (final_state (CreateHost h) s)"
| register_host: "host_size_ok h \<Longrightarrow> store_step s (final_state (CreateRegisteredHost h) s)"
| heartbeat: "store_step s (final_state (UpdateHostHeartbeat hid ip ag rf br oc caps) s)"
| host_status: "store_step s (final_state (UpdateHostStatus hid st) s)"
| host_status_message: "store_step s (final_state (UpdateHostStatusMessage hid st txt) s)"
| maintenance: "store_step s (final_state (SetHostMaintenanceMode hid b) s)"
| host_details: "store_step s (final_state (UpdateHostDetails h) s)"
| delete_host: "store_step s (final_state (DeleteHost hid) s)"
| place: "store_step s (final_state (PlaceOnHost hid mid v m d) s)"
| reallocate_host: "store_step s (final_state (ReAllocateHostCapacity mid hid v m d) s)"
| soft_stop: "0 \<le> v \<and> 0 \<le> m \<and> 0 \<le> d \<Longrightarrow>
    store_step s (final_state (SoftStopMachine mid hid v m d) s)"
| release_capacity: "0 \<le> v \<and> 0 \<le> m \<and> 0 \<le> d \<Longrightarrow>
    store_step s (final_state (ReleaseHostCapacityWithDisk hid v m d) s)"
| release_migration: "0 \<le> v \<Longrightarrow> 0 \<le> m \<Longrightarrow>
    store_step s (final_state (ReleaseMigrationSource mid hid v m rel) s)"
| reserve_place: "store_step s (final_state (ReservePlacement mid hid ip opid) s)"
| activate_place: "store_step s (final_state (ActivatePlacement pid) s)"
| release_place: "store_step s (final_state (ReleasePlacement mid) s)"
| create_browser: "0 \<le> b_VCPUs bv \<Longrightarrow> 0 \<le> b_MemoryMB bv \<Longrightarrow>
    store_step s (final_state (CreateBrowserVM bv) s)"
| browser_status: "store_step s (final_state (UpdateBrowserVMStatus bid st msg) s)"
| assign_browser: "store_step s (final_state (AssignBrowserVMToHost bid hid ip) s)"
| unassign_browser: "store_step s (final_state (UnassignBrowserVMFromHost bid) s)"
| delete_browser: "store_step s (final_state (DeleteBrowserVM bid) s)"
| place_browser: "store_step s (final_state (PlaceBrowserVMOnHost hid bid v m) s)"
| activate_browser: "store_step s (final_state (ActivateBrowserVMPlacement bid) s)"
| release_browser: "store_step s (final_state (ReleaseBrowserVMPlacement bid) s)"
| create_operation: "store_step s (final_state (CreateMachineOperation opn) s)"
| complete_operation: "store_step s (final_state (CompleteMachineOperation opid st msg) s)"
| expire_operations: "store_step s (final_state (ExpireStaleOperations old_than) s)"
| create_run: "store_step s (final_state (CreateWorkflowRun run) s)"
| create_event: "store_step s (final_state (CreateWorkflowEvent ev) s)"
| run_status: "store_step s (final_state (UpdateWorkflowRunStatus wid st ph sm ec em) s)"
| complete_run: "store_step s (final_state (CompleteWorkflowRun wid st out ec em) s)"
| create_backup: "store_step s (final_state (CreateBackupRecord b) s)"
| delete_backup: "store_step s (final_state (DeleteBackupRecord bid) s)"
| delete_backups: "store_step s (final_state (DeleteAllBackupRecords mid) s)"
| enable_backups: "store_step s (final_state (EnableBackups mid key) s)"
| artifact_state: "store_step s (final_state (UpsertHostArtifactState a) s)"
| agent_endpoint: "store_step s (final_state (UpdateHostAgentEndpoint hid ep kind) s)"
| provider_metadata: "store_step s (final_state (UpdateHostProviderMetadata hid md) s)"
| source_image: "store_step s (final_state (UpdateHostSourceImage hid img) s)"
| acquire_lock: "store_step s (final_state (AcquireWorkflowLock l) s)"
| renew_lock: "store_step s (final_state (RenewWorkflowLock wid rt rid k until) s)"
| release_locks: "store_step s (final_state (ReleaseWorkflowLocks wid) s)"
| create_token: "store_step s (final_state (CreateEnrollmentToken random tok) s)"
| use_token: "store_step s (final_state (MarkEnrollmentTokenUsed token hid) s)"

abbreviation store_run :: "db \<Rightarrow> db \<Rightarrow> bool" where
  "store_run \<equiv> store_step\<^sup>*\<^sup>*"

lemmas schema_triples = schema.store_keeps schema_CompleteOperation schema_SoftStop schema_ReleaseWithDisk schema_CreateMachine
  schema_UpdateMachine schema_StatusCAS schema_ActualVersions schema_PairBrowserVM
  schema_host_updates schema_Heartbeat schema_DeleteHost schema_browser_vms schema_DeleteBrowserVM
  schema_ReleaseMigration schema_locks schema_enrollment workflow_runs_ok
  workflow_updates_ok backup_statements_ok EnableBackups_ok artifact_state_ok

lemmas capacity_triples = capacity.store_keeps capacity_other_tables capacity_SoftStop capacity_ReleaseWithDisk
  capacity_CreateMachine capacity_UpdateMachine capacity_machine_columns capacity_host_updates
  capacity_Heartbeat capacity_DeleteHost capacity_browser_vms capacity_CreateBrowserVM
  capacity_ReleaseMigration capacity_locks_tokens workflow_runs_ok
  workflow_updates_ok backup_statements_ok EnableBackups_ok artifact_state_ok

lemma store_step_ok: "store_step s t \<Longrightarrow> db_ok s \<Longrightarrow> db_ok t"
proof (induction rule: store_step.induct)
  case (time_passes s t fs)
  then show ?case by (simp add: db_ok_def schema_ok_def capacity_ok_def sized_rows_def)
next
  case (create_account s a)
  then show ?case by (simp add: db_ok_def schema_ok_def capacity_ok_def sized_rows_def)
next
  case (create_host h s)
  then show ?case using tripleD [OF db_ok_hosts(1)] by blast
next
  case (register_host h s)
  then show ?case using tripleD [OF db_ok_hosts(2)] by blast
qed (rule tripleD [OF db_ok_triple], rule schema_triples, rule capacity_triples; assumption)+

interpretation live: store_contract db_ok "\<lambda>v m d. 0 \<le> v \<and> 0 \<le> m \<and> 0 \<le> d"
proof unfold_locales
  fix s mc d assume "db_ok s" "mc \<in> set (machines s)" "0 \<le> (d :: int)"
  then show "0 \<le> m_VCPUs mc \<and> 0 \<le> m_MemoryMB mc \<and> 0 \<le> d"
    using capacity.machine_sizes [of s mc d] by (simp add: db_ok_def)
qed (rule db_ok_triple, rule schema_triples, rule capacity_triples; assumption)+

lemma store_run_ok: "store_run s t \<Longrightarrow> db_ok s \<Longrightarrow> db_ok t"
  by (induction rule: rtranclp_induct) (auto intro: store_step_ok)

lemma empty_db_ok: "db_ok empty_db"
  by (simp add: db_ok_def schema_ok_def capacity_ok_def sized_rows_def empty_db_def machines_ok_def
      operations_ok_def placements_ok_def keyed_def browser_placements_ok_def hosts_ok_def)

end
