(* ===== verification/Fleet_Placement.thy ===== *)
theory Fleet_Placement
  imports Store_Steps
begin

text \<open>
  \<open>internal/fleet/placement.go\<close>: choosing a host for a machine or a browser VM, the
  placement record that goes with it, soft and hard release, and the recovery of a stopped
  machine on its home host. Every database call is a store method, so a fault can strike
  between any two of them.
\<close>

section \<open>Requests and configuration\<close>

record placement_request =
  pr_VCPUs :: int
  pr_MemoryMB :: int
  pr_DiskMB :: int
  pr_Region :: string
  pr_ExpectedImage :: string
  pr_OperationID :: string
  pr_TargetHostID :: int
  pr_RequireBrowserReflink :: bool

datatype release_mode = ReleaseSoft | ReleaseHard

datatype strategy = Random | Spread | BinPack

abbreviation DefaultDiskPerVM :: int where
  "DefaultDiskPerVM \<equiv> 8192"

record placement_config =
  pc_DefaultRegion :: string
  pc_ExpectedImage :: string
  pc_Strategy :: strategy
  pc_DefaultDiskPerVM :: int

definition NewPlacementService :: "placement_config \<Rightarrow> placement_config" where
  "NewPlacementService c =
     (if pc_DefaultDiskPerVM c = 0 then c\<lparr>pc_DefaultDiskPerVM := DefaultDiskPerVM\<rparr> else c)"

section \<open>Ranking\<close>

text \<open>
  \<open>rand.Shuffle\<close> is the Fisher-Yates shuffle: position \<open>i\<close>, from the last down
  to the second, is swapped with a random position not above it. The random numbers are the
  argument \<open>draws\<close>; a missing draw leaves the position alone.
\<close>

definition swap_at :: "nat \<Rightarrow> nat \<Rightarrow> 'a list \<Rightarrow> 'a list" where
  "swap_at i j xs = xs[i := xs ! j, j := xs ! i]"

fun shuffle_from :: "nat \<Rightarrow> nat list \<Rightarrow> 'a list \<Rightarrow> 'a list" where
  "shuffle_from 0 ds xs = xs"
| "shuffle_from (Suc i) [] xs = xs"
| "shuffle_from (Suc i) (d # ds) xs = shuffle_from i ds (swap_at (Suc i) (d mod Suc (Suc i)) xs)"

definition shuffle :: "nat list \<Rightarrow> 'a list \<Rightarrow> 'a list" where
  "shuffle draws xs = shuffle_from (length xs - 1) draws xs"

text \<open>
  \<open>sort.Slice\<close> sorts but promises nothing about equal elements; the order among hosts
  with the same memory use is the one that \<open>draws\<close> puts them in before a stable sort.
\<close>

definition rank :: "strategy \<Rightarrow> nat list \<Rightarrow> host list \<Rightarrow> host list" where
  "rank st draws hs = (case st of
      Random \<Rightarrow> shuffle draws hs
    | Spread \<Rightarrow> sort_by (\<lambda>a b. h_UsedMemoryMB a < h_UsedMemoryMB b) (shuffle draws hs)
    | BinPack \<Rightarrow> sort_by (\<lambda>a b. h_UsedMemoryMB b < h_UsedMemoryMB a) (shuffle draws hs))"

section \<open>Reserving a host for a machine\<close>

definition disk_for :: "placement_config \<Rightarrow> placement_request \<Rightarrow> int" where
  "disk_for c req = (if pr_DiskMB req = 0 then pc_DefaultDiskPerVM c else pr_DiskMB req)"

definition region_for :: "placement_config \<Rightarrow> placement_request \<Rightarrow> string" where
  "region_for c req = (if pr_Region req = '''' then pc_DefaultRegion c else pr_Region req)"

text \<open>
  The loop over the ranked hosts: a refused attempt goes on to the next host; a placed machine
  whose placement record cannot be written is still reported as placed, without a record.
\<close>

fun try_hosts ::
  "string \<Rightarrow> placement_request \<Rightarrow> int \<Rightarrow> nat \<Rightarrow> host list \<Rightarrow>
   (db, (placement option \<times> host \<times> string) result) state" where
  "try_hosts mid req disk n [] = fail (Wrap '''' ErrNoEligibleHost
     ('': all '' @ show_nat n @ '' eligible hosts at capacity or contended''))"
| "try_hosts mid req disk n (h # hs) = do {
     r \<leftarrow> PlaceOnHost (h_ID h) mid (pr_VCPUs req) (pr_MemoryMB req) disk;
     case r of
       Inl e \<Rightarrow> try_hosts mid req disk n hs
     | Inr ip \<Rightarrow> do {
         p \<leftarrow> ReservePlacement mid (h_ID h) ip (pr_OperationID req);
         case p of
           Inl e \<Rightarrow> ok (None, h, ip)
         | Inr pl \<Rightarrow> ok (Some pl, h, ip)
       }
   }"

definition placeAutoSelect ::
  "placement_config \<Rightarrow> nat list \<Rightarrow> string \<Rightarrow> placement_request \<Rightarrow>
   (db, (placement option \<times> host \<times> string) result) state" where
  "placeAutoSelect c draws mid req = do {
     hs \<leftarrow> ListEligibleHosts \<lparr>f_MinVCPUs = pr_VCPUs req, f_MinMemoryMB = pr_MemoryMB req,
              f_MinDiskMB = disk_for c req, f_Region = region_for c req, f_Image = '''',
              f_RequireBrowserReflink = False\<rparr>;
     case hs of
       Inl e \<Rightarrow> fail (wrap ''list eligible hosts'' e)
     | Inr eligible \<Rightarrow>
         if eligible = [] then fail (Wrap '''' ErrNoEligibleHost ('' in region '' @ quoted (region_for c req)))
         else try_hosts mid req (disk_for c req) (length eligible)
                (rank (pc_Strategy c) draws eligible)
   }"

text \<open>
  A failed lookup after the placement gives the capacity back; the machine row keeps the host
  and the address that \<open>PlaceOnHost\<close> wrote.
\<close>

definition placeOnSpecificHost ::
  "placement_config \<Rightarrow> string \<Rightarrow> placement_request \<Rightarrow>
   (db, (placement option \<times> host \<times> string) result) state" where
  "placeOnSpecificHost c mid req = do {
     r \<leftarrow> PlaceOnHost (pr_TargetHostID req) mid (pr_VCPUs req) (pr_MemoryMB req) (disk_for c req);
     case r of
       Inl e \<Rightarrow> fail (wrap (''target host '' @ show_int (pr_TargetHostID req)) e)
     | Inr ip \<Rightarrow> do {
         g \<leftarrow> GetHost (pr_TargetHostID req);
         case g of
           Inl e \<Rightarrow> do {
             _ \<leftarrow> ReleaseHostCapacityWithDisk (pr_TargetHostID req) (pr_VCPUs req) (pr_MemoryMB req)
                    (disk_for c req);
             fail (wrap (''get target host '' @ show_int (pr_TargetHostID req) @ '' after placement'') e)
           }
         | Inr h \<Rightarrow> do {
             p \<leftarrow> ReservePlacement mid (pr_TargetHostID req) ip (pr_OperationID req);
             case p of
               Inl e \<Rightarrow> ok (None, h, ip)
             | Inr pl \<Rightarrow> ok (Some pl, h, ip)
           }
       }
   }"

definition Reserve ::
  "placement_config \<Rightarrow> nat list \<Rightarrow> string \<Rightarrow> placement_request \<Rightarrow>
   (db, (placement option \<times> host \<times> string) result) state" where
  "Reserve c draws mid req =
     (if pr_TargetHostID req \<noteq> 0 then placeOnSpecificHost c mid req
      else placeAutoSelect c draws mid req)"

section \<open>Reserving a host for a browser VM\<close>

text \<open>\<open>json.Unmarshal\<close> of the capabilities into the two optional structs.\<close>

fun decode_storage :: "bool decoder" where
  "decode_storage old (JObj kvs) = decode_field decode_bool ''reflink_supported'' old kvs"
| "decode_storage old _ = (old, True)"

fun decode_caps :: "json \<Rightarrow> (bool option \<times> bool option) option" where
  "decode_caps JNull = Some (None, None)"
| "decode_caps (JObj kvs) =
     (let (bs, bad1) = decode_field (decode_pointer False decode_storage) ''browser_storage'' None kvs;
          (st, bad2) = decode_field (decode_pointer False decode_storage) ''storage'' None kvs
      in if bad1 \<or> bad2 then None else Some (bs, st))"
| "decode_caps _ = None"

definition hostBrowserReflinkSupported :: "host \<Rightarrow> bool" where
  "hostBrowserReflinkSupported h = (case h_Capabilities h of
      None \<Rightarrow> False
    | Some j \<Rightarrow> (case decode_caps j of
         None \<Rightarrow> False
       | Some (bs, st) \<Rightarrow>
           (case bs of Some b \<Rightarrow> b | None \<Rightarrow> (case st of Some b \<Rightarrow> b | None \<Rightarrow> False))))"

fun try_browser_hosts ::
  "string \<Rightarrow> placement_request \<Rightarrow> host list \<Rightarrow> (db, (host \<times> string) result) state" where
  "try_browser_hosts bid req [] = fail (ErrText ''all eligible hosts exhausted for browser VM'')"
| "try_browser_hosts bid req (h # hs) =
     (if pr_RequireBrowserReflink req \<and> \<not> hostBrowserReflinkSupported h then try_browser_hosts bid req hs
      else do {
        r \<leftarrow> PlaceBrowserVMOnHost (h_ID h) bid (pr_VCPUs req) (pr_MemoryMB req);
        case r of
          Inl e \<Rightarrow> try_browser_hosts bid req hs
        | Inr ip \<Rightarrow> ok (h, ip)
      })"

definition browserOnTarget ::
  "string \<Rightarrow> placement_request \<Rightarrow> (db, (host \<times> string) result) state" where
  "browserOnTarget bid req = (let hid = pr_TargetHostID req in do {
     g \<leftarrow> GetHost hid;
     case g of
       Inl e \<Rightarrow> fail (wrap (''get target host '' @ show_int hid @ '' before browser placement'') e)
     | Inr h0 \<Rightarrow>
         if pr_RequireBrowserReflink req \<and> \<not> hostBrowserReflinkSupported h0
         then fail (ErrText (''target host '' @ show_int hid @
                '' does not report reflink-capable browser storage''))
         else do {
           r \<leftarrow> PlaceBrowserVMOnHost hid bid (pr_VCPUs req) (pr_MemoryMB req);
           case r of
             Inl e \<Rightarrow> fail (wrap (''target host '' @ show_int hid) e)
           | Inr ip \<Rightarrow> do {
               g2 \<leftarrow> GetHost hid;
               case g2 of
                 Inl e \<Rightarrow> do {
                   _ \<leftarrow> ReleaseBrowserVMPlacement bid;
                   fail (wrap (''get target host '' @ show_int hid @ '' after browser placement'') e)
                 }
               | Inr h \<Rightarrow> ok (h, ip)
             }
         }
   })"

definition ReserveBrowserVM ::
  "placement_config \<Rightarrow> nat list \<Rightarrow> string \<Rightarrow> placement_request \<Rightarrow>
   (db, (host \<times> string) result) state" where
  "ReserveBrowserVM c draws bid req =
     (if pr_TargetHostID req \<noteq> 0 then browserOnTarget bid req
      else do {
        hs \<leftarrow> ListEligibleHosts \<lparr>f_MinVCPUs = pr_VCPUs req, f_MinMemoryMB = pr_MemoryMB req,
                 f_MinDiskMB = 0, f_Region = region_for c req, f_Image = '''',
                 f_RequireBrowserReflink = pr_RequireBrowserReflink req\<rparr>;
        case hs of
          Inl e \<Rightarrow> fail (wrap ''list eligible hosts'' e)
        | Inr eligible \<Rightarrow>
            if eligible = [] then fail (ErrText ''no eligible hosts for browser VM'')
            else try_browser_hosts bid req (rank (pc_Strategy c) draws eligible)
      })"

section \<open>Activation and release\<close>

definition Activate :: "string \<Rightarrow> (db, unit result) state" where
  "Activate pid = do {
     r \<leftarrow> ActivatePlacement pid;
     case r of
       Inl e \<Rightarrow> fail (wrap ''activate placement'' e)
     | Inr done \<Rightarrow> if done then ok ()
         else fail (ErrText (''placement '' @ pid @ '' not in reserved state''))
   }"

text \<open>The data volume plus about three gigabytes of root file system, or the default.\<close>

definition release_disk :: "placement_config \<Rightarrow> machine \<Rightarrow> int" where
  "release_disk c m = (if 0 < m_DataVolumeGB m then (m_DataVolumeGB m + 3) * 1024
                       else pc_DefaultDiskPerVM c)"

definition release_soft :: "placement_config \<Rightarrow> machine \<Rightarrow> int \<Rightarrow> (db, unit result) state" where
  "release_soft c m hid = do {
     r \<leftarrow> SoftStopMachine (m_ID m) hid (m_VCPUs m) (m_MemoryMB m) (release_disk c m);
     case r of
       Inl e \<Rightarrow> fail (wrap ''soft stop'' e)
     | Inr _ \<Rightarrow> do { _ \<leftarrow> UpdateMachineHomeHost (m_ID m) (Some hid); ok () }
   }"

definition release_hard :: "placement_config \<Rightarrow> machine \<Rightarrow> int \<Rightarrow> (db, unit result) state" where
  "release_hard c m hid = do {
     r \<leftarrow> ReleaseHostCapacityWithDisk hid (m_VCPUs m) (m_MemoryMB m) (release_disk c m);
     case r of
       Inl e \<Rightarrow> fail (wrap ''release capacity'' e)
     | Inr _ \<Rightarrow> do {
         u \<leftarrow> UnassignMachineFromHost (m_ID m);
         case u of
           Inl e \<Rightarrow> fail (wrap ''unassign'' e)
         | Inr _ \<Rightarrow> do { _ \<leftarrow> UpdateMachineHomeHost (m_ID m) None; ok () }
       }
   }"

definition Release :: "placement_config \<Rightarrow> string \<Rightarrow> release_mode \<Rightarrow> (db, unit result) state" where
  "Release c mid mode = do {
     g \<leftarrow> GetMachine mid;
     case g of
       Inl e \<Rightarrow> fail (wrap ''get machine'' e)
     | Inr m \<Rightarrow> do {
         _ \<leftarrow> ReleasePlacement mid;
         case m_HostID m of
           None \<Rightarrow> ok ()
         | Some hid \<Rightarrow> if mode = ReleaseSoft then release_soft c m hid else release_hard c m hid
       }
   }"

section \<open>Restart on the home host\<close>

definition validateHostPlacementEligibility :: "host \<Rightarrow> time \<Rightarrow> go_error option" where
  "validateHostPlacementEligibility h now =
     (if h_Status h \<noteq> ''ready'' then Some (ErrText (''host is '' @ h_Status h @ '', not ready''))
      else if h_MaintenanceMode h then Some (ErrText ''host is in maintenance mode'')
      else (case h_LastHeartbeat h of
          None \<Rightarrow> Some (ErrText ''host has no heartbeat'')
        | Some t \<Rightarrow> if t < now - 180 * second then Some (ErrText ''host heartbeat is stale'') else None))"

text \<open>
  \<open>time.Now()\<close>; the control plane and the database are taken to share one clock. The long
  dashes of the error texts are written as hyphens.
\<close>

definition clock :: "(db, time) state" where
  "clock = State (\<lambda>s. (db_now s, s))"

definition RecoverAffinity ::
  "placement_config \<Rightarrow> string \<Rightarrow> placement_request \<Rightarrow>
   (db, (placement option \<times> host \<times> string) result) state" where
  "RecoverAffinity c mid req = do {
     g \<leftarrow> GetMachine mid;
     case g of
       Inl e \<Rightarrow> fail (wrap ''get machine'' e)
     | Inr m \<Rightarrow>
         (case coalesce (m_HomeHostID m) (m_HostID m) of
            None \<Rightarrow> fail (ErrText ''machine has no home host - cannot recover affinity'')
          | Some home \<Rightarrow> do {
              gh \<leftarrow> GetHost home;
              case gh of
                Inl e \<Rightarrow> fail (wrap ''home host lookup failed'' e)
              | Inr h \<Rightarrow> do {
                  now \<leftarrow> clock;
                  case validateHostPlacementEligibility h now of
                    Some e \<Rightarrow> fail (wrap (''home host '' @ show_int (h_ID h) @
                                 '' is not eligible - migration required'') e)
                  | None \<Rightarrow> do {
                      r \<leftarrow> ReAllocateHostCapacity mid (h_ID h) (pr_VCPUs req) (pr_MemoryMB req)
                             (disk_for c req);
                      case r of
                        Inl e \<Rightarrow> fail (wrap (''home host '' @ show_int (h_ID h) @
                                   '' has insufficient capacity - migration required'') e)
                      | Inr ip \<Rightarrow> do {
                          p \<leftarrow> ReservePlacement mid (h_ID h) ip (pr_OperationID req);
                          ok (case p of Inl _ \<Rightarrow> None | Inr pl \<Rightarrow> Some pl, h, ip)
                        }
                    }
                }
            })
   }"

section \<open>Placement keeps the contract of the store\<close>

text \<open>What a service may assume of the store it may promise itself, whichever calls fail.\<close>

context vm_session
begin

lemma try_hosts_keeps: "triple I (try_hosts mid req disk n hs) (\<lambda>_. True)"
  by (induction hs) (simp, (rule triple_rules session_keeps | assumption | simp)+)

lemma placeAutoSelect_keeps: "triple I (placeAutoSelect c draws mid req) (\<lambda>_. True)"
  unfolding placeAutoSelect_def by (rule triple_rules session_keeps try_hosts_keeps | simp)+

lemma placeOnSpecificHost_keeps:
  assumes "S (pr_VCPUs req) (pr_MemoryMB req) (disk_for c req)"
  shows "triple I (placeOnSpecificHost c mid req) (\<lambda>_. True)"
  unfolding placeOnSpecificHost_def
  by (rule triple_rules session_keeps ReleaseWithDisk_keeps [OF assms] | simp)+

lemma Reserve_keeps:
  assumes "pr_TargetHostID req \<noteq> 0 \<Longrightarrow> S (pr_VCPUs req) (pr_MemoryMB req) (disk_for c req)"
  shows "triple I (Reserve c draws mid req) (\<lambda>_. True)"
  unfolding Reserve_def using assms placeOnSpecificHost_keeps placeAutoSelect_keeps by simp

lemma try_browser_hosts_keeps: "triple I (try_browser_hosts bid req hs) (\<lambda>_. True)"
  by (induction hs) (simp, (rule triple_rules session_keeps impI | assumption | simp)+)

lemma ReserveBrowserVM_keeps: "triple I (ReserveBrowserVM c draws bid req) (\<lambda>_. True)"
  unfolding ReserveBrowserVM_def browserOnTarget_def
  by (rule triple_rules session_keeps try_browser_hosts_keeps | simp)+

lemma Activate_keeps: "triple I (Activate pid) (\<lambda>_. True)"
  unfolding Activate_def by (rule triple_rules session_keeps | simp)+

lemma release_disk_nonneg: "0 \<le> pc_DefaultDiskPerVM c \<Longrightarrow> 0 \<le> release_disk c mc"
  by (simp add: release_disk_def)

lemma Release_keeps:
  assumes "0 \<le> pc_DefaultDiskPerVM c"
  shows "triple I (Release c mid mode) (\<lambda>_. True)"
proof -
  have sized: "triple I (release_soft c m hid) (\<lambda>_. True)" "triple I (release_hard c m hid) (\<lambda>_. True)"
    if "S (m_VCPUs m) (m_MemoryMB m) (release_disk c m)" for m hid
    unfolding release_soft_def release_hard_def
    by (rule triple_rules session_keeps SoftStop_keeps [OF that] ReleaseWithDisk_keeps [OF that] | simp)+
  show ?thesis
    unfolding Release_def
    by (rule triple_bind [OF GetMachine_sizes] triple_rules session_keeps sized
        | simp add: release_disk_nonneg [OF assms])+
qed

lemma clock_keeps: "triple I clock (\<lambda>_. True)"
  by (simp add: triple_def clock_def)

lemma RecoverAffinity_keeps: "triple I (RecoverAffinity c mid req) (\<lambda>_. True)"
  unfolding RecoverAffinity_def by (rule triple_rules session_keeps clock_keeps | simp)+

lemmas placement_keeps = Activate_keeps ReserveBrowserVM_keeps RecoverAffinity_keeps

end

end
