(* ===== verification/Net.thy ===== *)
theory Net
  imports Go_Json
begin

text \<open>
  HTTP as the program uses it. The peers (Cloudflare, the host agents) are not part of the
  model: what they answer is the tape \<open>net_tape\<close>, which a statement leaves arbitrary, and
  what the program asked them is the log \<open>net_log\<close>.
\<close>

section \<open>Requests and replies\<close>

text \<open>The token of the \<open>Authorization\<close> header is empty when there is none.\<close>

record http_request =
  rq_Method :: string
  rq_URL :: string
  rq_Token :: string
  rq_Body :: "json option"

text \<open>
  A request has no reply (refused, reset), runs into its deadline or is cancelled, or has a
  reply with a status, the text of the body and the document that the text parses to, if it
  parses.
\<close>

datatype http_reply =
    NoReply string
  | TimedOut string
  | Reply int string "json option"

record net =
  net_tape :: "http_reply list"
  net_log :: "(http_request \<times> http_reply) list"

text \<open>
  \<open>http.NewRequest\<close> refuses a URL with control characters or with a malformed escape.
\<close>

definition is_hex :: "char \<Rightarrow> bool" where
  "is_hex c \<longleftrightarrow> is_digit c \<or> c \<in> set ''abcdefABCDEF''"

fun escapes_ok :: "string \<Rightarrow> bool" where
  "escapes_ok [] = True"
| "escapes_ok (c # cs) =
     (if c = CHR ''%'' then (case cs of a # b # _ \<Rightarrow> is_hex a \<and> is_hex b | _ \<Rightarrow> False) \<and> escapes_ok cs
      else escapes_ok cs)"

definition url_ok :: "string \<Rightarrow> bool" where
  "url_ok u \<longleftrightarrow> list_all (\<lambda>c. 32 \<le> (of_char c :: nat) \<and> of_char c \<noteq> (127 :: nat)) u \<and> escapes_ok u"

text \<open>\<open>client.Do\<close>: the next reply of the tape; an exhausted tape is a peer that is gone.\<close>

definition http_do :: "http_request \<Rightarrow> (net, (int \<times> string \<times> json option) result) state" where
  "http_do rq = State (\<lambda>n.
     if \<not> url_ok (rq_URL rq) then (Inl (ErrRemote ''net/url: invalid URL''), n)
     else (let r = (case net_tape n of [] \<Rightarrow> NoReply ''connection refused'' | x # _ \<Rightarrow> x)
           in (case r of NoReply e \<Rightarrow> Inl (ErrRemote e) | TimedOut e \<Rightarrow> Inl (ErrTimeout e) | Reply st txt j \<Rightarrow> Inr (st, txt, j),
               n\<lparr>net_tape := tl (net_tape n), net_log := net_log n @ [(rq, r)]\<rparr>)))"

section \<open>URL escapes\<close>

definition escape_char :: "char \<Rightarrow> string" where
  "escape_char c = (let n = of_char c in
     [CHR ''%'', ''0123456789ABCDEF'' ! (n div 16), ''0123456789ABCDEF'' ! (n mod 16)])"

definition unreserved :: "char \<Rightarrow> bool" where
  "unreserved c \<longleftrightarrow> c \<in> set ''ABCDEFGHIJKLMNOPQRSTUVWXYZabcdefghijklmnopqrstuvwxyz0123456789-_.~''"

text \<open>\<open>url.PathEscape\<close> leaves a few reserved characters alone; \<open>url.QueryEscape\<close> turns a space into a plus.\<close>

definition path_escape :: "string \<Rightarrow> string" where
  "path_escape s = concat (map (\<lambda>c. if unreserved c \<or> c \<in> set ''$&+=:@'' then [c] else escape_char c) s)"

definition query_escape :: "string \<Rightarrow> string" where
  "query_escape s = concat (map (\<lambda>c. if unreserved c then [c] else if c = CHR 0x20 then ''+''
                                    else escape_char c) s)"

section \<open>Facts\<close>

text \<open>Requests are only ever appended to the log.\<close>

definition log_grows :: "net \<Rightarrow> net \<Rightarrow> bool" where
  "log_grows n n' \<longleftrightarrow> (\<exists>more. net_log n' = net_log n @ more)"

interpretation log_preorder: state_preorder log_grows
  by unfold_locales (auto simp: log_grows_def)

lemma http_do_log: "state_io_rel log_grows (http_do rq)"
  by (auto simp: state_io_rel_def http_do_def log_grows_def Let_def)

end
