(* ===== verification/World.thy ===== *)
theory World
  imports Net Store_Ops
begin

text \<open>
  The state that the services of the control plane share: the database and the network. A
  method of one of them is a step of its part, run inside the whole.
\<close>

section \<open>State shared by the services\<close>

record world =
  w_db :: db
  w_net :: net

definition in_db :: "(db, 'a) state \<Rightarrow> (world, 'a) state" where
  "in_db m = zoom w_db (\<lambda>d w. w\<lparr>w_db := d\<rparr>) m"

definition in_net :: "(net, 'a) state \<Rightarrow> (world, 'a) state" where
  "in_net m = zoom w_net (\<lambda>n w. w\<lparr>w_net := n\<rparr>) m"

lemma run_in_db [simp]:
  "run_state (in_db m) w = (outcome m (w_db w), w\<lparr>w_db := final_state m (w_db w)\<rparr>)"
  by (simp add: in_db_def)

lemma run_in_net [simp]:
  "run_state (in_net m) w = (outcome m (w_net w), w\<lparr>w_net := final_state m (w_net w)\<rparr>)"
  by (simp add: in_net_def)

text \<open>A step of the network leaves the database alone, and the other way round.\<close>

lemma triple_in_db: "triple I m Q \<Longrightarrow> triple (\<lambda>w. I (w_db w)) (in_db m) Q"
  by (simp add: triple_def)

lemma triple_in_net: "triple (\<lambda>w. I (w_db w)) (in_net m) (\<lambda>_. True)"
  by (simp add: triple_def)

lemma in_net_same_db: "state_io_rel (same w_db) (in_net m)"
  by (simp add: sameI)

lemma in_db_same_net: "state_io_rel (same w_net) (in_db m)"
  by (simp add: sameI)

end
