(* ===== verification/Tunnel.thy ===== *)
theory Tunnel
  imports World
begin

text \<open>
  \<open>internal/tunnel\<close>: the Cloudflare Tunnel manager (\<open>tunnel.go\<close>), as the requests it
  sends and what it makes of the replies, and the reaper of orphaned tunnels
  (\<open>reaper.go\<close>).
\<close>

section \<open>The tunnel manager\<close>

record tunnel_manager =
  tm_apiToken :: string
  tm_accountID :: string
  tm_zoneID :: string

text \<open>\<open>New\<close> returns nil when the configuration is missing.\<close>

definition New :: "string \<Rightarrow> string \<Rightarrow> string \<Rightarrow> tunnel_manager option" where
  "New apiToken accountID zoneID =
     (if apiToken = '''' \<or> accountID = '''' then None
      else Some \<lparr>tm_apiToken = apiToken, tm_accountID = accountID, tm_zoneID = zoneID\<rparr>)"

record cf_response =
  cf_Success :: bool
  cf_Result :: "json option"
  cf_Errors :: "string list"

definition zero_cf_response :: cf_response where
  "zero_cf_response = \<lparr>cf_Success = False, cf_Result = None, cf_Errors = []\<rparr>"

fun decode_message :: "string decoder" where
  "decode_message old (JObj kvs) = decode_field decode_string ''message'' old kvs"
| "decode_message old JNull = (old, False)"
| "decode_message old _ = (old, True)"

fun decode_cf :: "json option \<Rightarrow> cf_response \<times> bool" where
  "decode_cf (Some (JObj kvs)) =
     (let (ok1, b1) = decode_field decode_bool ''success'' False kvs;
          (res, b2) = decode_field decode_raw ''result'' None kvs;
          (es, b3) = decode_field (decode_slice '''' decode_message) ''errors'' [] kvs
      in (\<lparr>cf_Success = ok1, cf_Result = res, cf_Errors = es\<rparr>, b1 \<or> b2 \<or> b3))"
| "decode_cf (Some JNull) = (zero_cf_response, False)"
| "decode_cf _ = (zero_cf_response, True)"

definition cf_err :: "cf_response \<Rightarrow> string \<Rightarrow> int \<Rightarrow> go_error" where
  "cf_err r action status = ErrText (case cf_Errors r of
      m # _ \<Rightarrow> action @ '': '' @ m @ '' (status '' @ show_int status @ '')''
    | [] \<Rightarrow> action @ '': status '' @ show_int status)"

definition api_accounts :: "tunnel_manager \<Rightarrow> string" where
  "api_accounts m = ''https://api.cloudflare.com/client/v4/accounts/'' @ tm_accountID m @ ''/cfd_tunnel''"

definition cf_request :: "tunnel_manager \<Rightarrow> string \<Rightarrow> string \<Rightarrow> json option \<Rightarrow> http_request" where
  "cf_request m method url body =
     \<lparr>rq_Method = method, rq_URL = url, rq_Token = tm_apiToken m, rq_Body = body\<rparr>"

text \<open>
  Building the request and sending it. A request that cannot be built is reported as it is, a
  request without a reply under the name of the action.
\<close>

definition cf_send ::
  "tunnel_manager \<Rightarrow> string \<Rightarrow> string \<Rightarrow> string \<Rightarrow> json option \<Rightarrow>
   (net, (int \<times> string \<times> json option) result) state" where
  "cf_send m action method url body = do {
     r \<leftarrow> http_do (cf_request m method url body);
     case r of
       Inl e \<Rightarrow> fail (if url_ok url then wrap action e else e)
     | Inr reply \<Rightarrow> ok reply
   }"

text \<open>A result object \<open>{id, token}\<close> and a result list of objects with an \<open>id\<close>.\<close>

definition decode_id_token :: "json option \<Rightarrow> (string \<times> string) result" where
  "decode_id_token r = (case r of
      Some (JObj kvs) \<Rightarrow>
        (let (i, b1) = decode_field decode_string ''id'' '''' kvs;
             (t, b2) = decode_field decode_string ''token'' '''' kvs
         in if b1 \<or> b2 then Inl json_error else Inr (i, t))
    | Some JNull \<Rightarrow> Inr ('''', '''')
    | _ \<Rightarrow> Inl json_error)"

fun decode_id :: "string decoder" where
  "decode_id old (JObj kvs) = decode_field decode_string ''id'' old kvs"
| "decode_id old JNull = (old, False)"
| "decode_id old _ = (old, True)"

definition decode_ids :: "json option \<Rightarrow> string list result" where
  "decode_ids r = (case r of
      None \<Rightarrow> Inl json_error
    | Some j \<Rightarrow> (case decode_slice '''' decode_id [] j of (xs, bad) \<Rightarrow> if bad then Inl json_error else Inr xs))"

definition tunnel_body :: "string \<Rightarrow> json" where
  "tunnel_body name = JObj [(''config_src'', JStr ''cloudflare''), (''name'', JStr name)]"

definition CreateTunnel :: "tunnel_manager \<Rightarrow> string \<Rightarrow> (net, (string \<times> string) result) state" where
  "CreateTunnel m name = do {
     r \<leftarrow> cf_send m ''create tunnel'' ''POST'' (api_accounts m) (Some (tunnel_body (''ocm-'' @ name)));
     case r of
       Inl e \<Rightarrow> fail e
     | Inr (st, txt, j) \<Rightarrow>
         (case decode_cf j of (cf, bad) \<Rightarrow>
            if bad then fail (wrap ''decode create tunnel response'' json_error)
            else if \<not> cf_Success cf then fail (cf_err cf ''create tunnel'' st)
            else (case decode_id_token (cf_Result cf) of
                Inl e \<Rightarrow> fail (wrap ''unmarshal tunnel result'' e)
              | Inr p \<Rightarrow> ok p))
   }"

definition ingress_body :: "(string \<times> string) list \<Rightarrow> json" where
  "ingress_body rules = JObj [(''config'', JObj [(''ingress'', JArr
     (map (\<lambda>(h, svc). JObj [(''hostname'', JStr h), (''service'', JStr svc)]) rules @
      [JObj [(''service'', JStr ''http_status:404'')]]))])]"

definition put_ingress :: "tunnel_manager \<Rightarrow> string \<Rightarrow> string \<Rightarrow> json \<Rightarrow> (net, unit result) state" where
  "put_ingress m action tunnelID body = do {
     r \<leftarrow> cf_send m action ''PUT'' (api_accounts m @ ''/'' @ tunnelID @ ''/configurations'') (Some body);
     case r of
       Inl e \<Rightarrow> fail e
     | Inr (st, txt, j) \<Rightarrow> if 400 \<le> st then fail (cf_err (fst (decode_cf j)) action st) else ok ()
   }"

definition ConfigureTunnel :: "tunnel_manager \<Rightarrow> string \<Rightarrow> string \<Rightarrow> (net, unit result) state" where
  "ConfigureTunnel m tunnelID hostname = put_ingress m ''configure tunnel'' tunnelID
     (ingress_body [(hostname, ''http://localhost:9091'')])"

definition ConfigureVMTunnel ::
  "tunnel_manager \<Rightarrow> string \<Rightarrow> string \<Rightarrow> string \<Rightarrow> (net, unit result) state" where
  "ConfigureVMTunnel m tunnelID httpHost sshHost = put_ingress m ''configure VM tunnel'' tunnelID
     (ingress_body [(httpHost, ''http://localhost:8080''), (sshHost, ''ssh://localhost:22'')])"

definition dns_records_url :: "tunnel_manager \<Rightarrow> string" where
  "dns_records_url m = ''https://api.cloudflare.com/client/v4/zones/'' @ tm_zoneID m @ ''/dns_records''"

definition CreateDNSRoute :: "tunnel_manager \<Rightarrow> string \<Rightarrow> string \<Rightarrow> (net, unit result) state" where
  "CreateDNSRoute m tunnelID hostname =
     (if tm_zoneID m = '''' then fail (ErrText ''zone ID not configured - cannot create DNS record'')
      else do {
        r \<leftarrow> cf_send m ''create DNS'' ''POST'' (dns_records_url m) (Some (JObj
               [(''content'', JStr (tunnelID @ ''.cfargotunnel.com'')), (''name'', JStr hostname),
                (''proxied'', JBool True), (''ttl'', JNum 1), (''type'', JStr ''CNAME'')]));
        case r of
          Inl e \<Rightarrow> fail e
        | Inr (st, txt, j) \<Rightarrow>
            if 400 \<le> st then fail (cf_err (fst (decode_cf j)) ''create DNS record'' st) else ok ()
      })"

definition delete_tunnel_as :: "tunnel_manager \<Rightarrow> string \<Rightarrow> string \<Rightarrow> (net, unit result) state" where
  "delete_tunnel_as m action tunnelID = do {
     r \<leftarrow> cf_send m action ''DELETE'' (api_accounts m @ ''/'' @ tunnelID @ ''?cascade=true'') None;
     case r of
       Inl e \<Rightarrow> fail e
     | Inr (st, txt, j) \<Rightarrow>
         if 400 \<le> st \<and> st \<noteq> 404
         then fail (ErrText (action @ '': status '' @ show_int st @ '': '' @ txt)) else ok ()
   }"

definition DeleteTunnel :: "tunnel_manager \<Rightarrow> string \<Rightarrow> (net, unit result) state" where
  "DeleteTunnel m tunnelID =
     (if tunnelID = '''' then ok () else delete_tunnel_as m ''delete tunnel'' tunnelID)"

text \<open>The loop over the records that the search found; the status of a delete is not read.\<close>

fun delete_records :: "tunnel_manager \<Rightarrow> string list \<Rightarrow> (net, unit result) state" where
  "delete_records m [] = ok ()"
| "delete_records m (rid # rids) = do {
     r \<leftarrow> cf_send m ''delete DNS record'' ''DELETE'' (dns_records_url m @ ''/'' @ rid) None;
     case r of
       Inl e \<Rightarrow> fail e
     | Inr _ \<Rightarrow> delete_records m rids
   }"

definition DeleteDNSRoute :: "tunnel_manager \<Rightarrow> string \<Rightarrow> (net, unit result) state" where
  "DeleteDNSRoute m hostname =
     (if tm_zoneID m = '''' \<or> hostname = '''' then ok ()
      else do {
        r \<leftarrow> cf_send m ''find DNS record'' ''GET'' (dns_records_url m @ ''?name='' @ hostname @ ''&type=CNAME'') None;
        case r of
          Inl e \<Rightarrow> fail e
        | Inr (st, txt, j) \<Rightarrow>
            (case decode_cf j of (cf, bad) \<Rightarrow>
               if bad then fail (wrap ''decode DNS list'' json_error)
               else (case decode_ids (cf_Result cf) of
                   Inl e \<Rightarrow> fail (wrap ''unmarshal DNS records'' e)
                 | Inr rids \<Rightarrow> delete_records m rids))
      })"

definition find_tunnels :: "tunnel_manager \<Rightarrow> string \<Rightarrow> (net, string list result) state" where
  "find_tunnels m tunnelName = do {
     r \<leftarrow> cf_send m ''list tunnels'' ''GET'' (api_accounts m @ ''?name='' @ tunnelName @ ''&is_deleted=false'') None;
     case r of
       Inl e \<Rightarrow> fail e
     | Inr (st, txt, j) \<Rightarrow>
         (case decode_cf j of (cf, bad) \<Rightarrow>
            if bad then fail (wrap ''decode tunnel list'' json_error)
            else (case decode_ids (cf_Result cf) of
                Inl e \<Rightarrow> fail (wrap ''unmarshal tunnels'' e)
              | Inr xs \<Rightarrow> ok xs))
   }"

definition deleteOrphanedTunnel :: "tunnel_manager \<Rightarrow> string \<Rightarrow> (net, unit result) state" where
  "deleteOrphanedTunnel m tunnelName = do {
     r \<leftarrow> find_tunnels m tunnelName;
     case r of
       Inl e \<Rightarrow> fail e
     | Inr [] \<Rightarrow> ok ()
     | Inr (tid # _) \<Rightarrow> delete_tunnel_as m ''delete orphaned tunnel'' tid
   }"

text \<open>One attempt; on a name conflict the orphan is deleted and the attempt repeated once.\<close>

fun createVMTunnelOnce :: "tunnel_manager \<Rightarrow> string \<Rightarrow> nat \<Rightarrow> (net, (string \<times> string) result) state" where
  "createVMTunnelOnce m tunnelName retries = do {
     r \<leftarrow> cf_send m ''create VM tunnel'' ''POST'' (api_accounts m) (Some (tunnel_body tunnelName));
     case r of
       Inl e \<Rightarrow> fail e
     | Inr (st, txt, j) \<Rightarrow>
         (case decode_cf j of (cf, bad) \<Rightarrow>
            if bad then fail (wrap ''decode create VM tunnel response'' json_error)
            else if st = 409 \<and> 0 < retries then do {
              d \<leftarrow> deleteOrphanedTunnel m tunnelName;
              case d of
                Inl e \<Rightarrow> fail (cf_err cf ''create VM tunnel'' st)
              | Inr _ \<Rightarrow> (case retries of 0 \<Rightarrow> fail (cf_err cf ''create VM tunnel'' st)
                          | Suc k \<Rightarrow> createVMTunnelOnce m tunnelName k)
            }
            else if \<not> cf_Success cf then fail (cf_err cf ''create VM tunnel'' st)
            else (case decode_id_token (cf_Result cf) of
                Inl e \<Rightarrow> fail (wrap ''unmarshal VM tunnel result'' e)
              | Inr p \<Rightarrow> ok p))
   }"

definition CreateVMTunnel :: "tunnel_manager \<Rightarrow> string \<Rightarrow> (net, (string \<times> string) result) state" where
  "CreateVMTunnel m slug = createVMTunnelOnce m (''ocm-vm-'' @ slug) 1"

fun delete_dns_routes :: "tunnel_manager \<Rightarrow> string list \<Rightarrow> (net, unit result) state" where
  "delete_dns_routes m [] = ok ()"
| "delete_dns_routes m (h # hs) = do {
     r \<leftarrow> DeleteDNSRoute m h;
     case r of
       Inl e \<Rightarrow> fail (wrap (''delete DNS route for '' @ h) e)
     | Inr _ \<Rightarrow> delete_dns_routes m hs
   }"

definition DeleteTunnelAndDNS ::
  "tunnel_manager \<Rightarrow> string \<Rightarrow> string list \<Rightarrow> (net, unit result) state" where
  "DeleteTunnelAndDNS m tunnelID hostnames = do {
     r \<leftarrow> delete_dns_routes m hostnames;
     case r of
       Inl e \<Rightarrow> fail e
     | Inr _ \<Rightarrow> do {
         d \<leftarrow> DeleteTunnel m tunnelID;
         case d of Inl e \<Rightarrow> fail (wrap ''delete tunnel'' e) | Inr _ \<Rightarrow> ok ()
       }
   }"

definition FindTunnelIDByName :: "tunnel_manager \<Rightarrow> string \<Rightarrow> (net, string result) state" where
  "FindTunnelIDByName m name = do {
     r \<leftarrow> find_tunnels m (''ocm-'' @ name);
     case r of
       Inl e \<Rightarrow> fail e
     | Inr [] \<Rightarrow> fail (ErrText (''tunnel ocm-'' @ name @ '' not found''))
     | Inr (tid # _) \<Rightarrow> ok tid
   }"

declare createVMTunnelOnce.simps [simp del]

section \<open>Listing tunnels\<close>

text \<open>
  The creation time of a tunnel is decoded as an RFC 3339 time, and a text that is not one makes
  the call fail; its value is not used, so the text is kept.
\<close>

definition two_digits :: "nat \<Rightarrow> nat \<Rightarrow> string \<Rightarrow> bool" where
  "two_digits lo hi s \<longleftrightarrow> length s = 2 \<and> list_all is_digit s \<and>
     int lo \<le> digits_value s \<and> digits_value s \<le> int hi"

definition days_in :: "int \<Rightarrow> int \<Rightarrow> nat" where
  "days_in y mth = (if mth = 2 then (if (y mod 4 = 0 \<and> y mod 100 \<noteq> 0) \<or> y mod 400 = 0 then 29 else 28)
                    else if mth \<in> {4, 6, 9, 11} then 30 else 31)"

definition zone_ok :: "string \<Rightarrow> bool" where
  "zone_ok z \<longleftrightarrow> z = ''Z'' \<or>
     (length z = 6 \<and> z ! 0 \<in> set ''+-'' \<and> z ! 3 = CHR '':'' \<and>
      two_digits 0 23 (take 2 (drop 1 z)) \<and> two_digits 0 59 (drop 4 z))"

definition fraction_zone_ok :: "string \<Rightarrow> bool" where
  "fraction_zone_ok r = (case r of
      [] \<Rightarrow> False
    | c # cs \<Rightarrow> if c = CHR ''.'' then takeWhile is_digit cs \<noteq> [] \<and> zone_ok (dropWhile is_digit cs)
                else zone_ok r)"

definition rfc3339_ok :: "string \<Rightarrow> bool" where
  "rfc3339_ok t \<longleftrightarrow> 19 < length t \<and> list_all is_digit (take 4 t) \<and> t ! 4 = CHR ''-'' \<and>
     two_digits 1 12 (take 2 (drop 5 t)) \<and> t ! 7 = CHR ''-'' \<and>
     two_digits 1 (days_in (digits_value (take 4 t)) (digits_value (take 2 (drop 5 t))))
       (take 2 (drop 8 t)) \<and> t ! 10 = CHR ''T'' \<and> two_digits 0 23 (take 2 (drop 11 t)) \<and>
     t ! 13 = CHR '':'' \<and> two_digits 0 59 (take 2 (drop 14 t)) \<and> t ! 16 = CHR '':'' \<and>
     two_digits 0 59 (take 2 (drop 17 t)) \<and> fraction_zone_ok (drop 19 t)"

record tunnel_info =
  ti_ID :: string
  ti_Name :: string
  ti_CreatedAt :: string

fun decode_time :: "string decoder" where
  "decode_time old (JStr s) = (if rfc3339_ok s then (s, False) else (old, True))"
| "decode_time old JNull = (old, False)"
| "decode_time old _ = (old, True)"

fun decode_tunnel_info :: "tunnel_info decoder" where
  "decode_tunnel_info old (JObj kvs) =
     (let (i, b1) = decode_field decode_string ''id'' (ti_ID old) kvs;
          (n, b2) = decode_field decode_string ''name'' (ti_Name old) kvs;
          (t, b3) = decode_field decode_time ''created_at'' (ti_CreatedAt old) kvs
      in (\<lparr>ti_ID = i, ti_Name = n, ti_CreatedAt = t\<rparr>, b1 \<or> b2 \<or> b3))"
| "decode_tunnel_info old JNull = (old, False)"
| "decode_tunnel_info old _ = (old, True)"

definition ListTunnels :: "tunnel_manager \<Rightarrow> (net, tunnel_info list result) state" where
  "ListTunnels m = do {
     r \<leftarrow> cf_send m ''list tunnels'' ''GET''
            (api_accounts m @ ''?is_deleted=false&per_page=1000'') None;
     case r of
       Inl e \<Rightarrow> fail e
     | Inr (st, txt, j) \<Rightarrow>
         (case decode_cf j of (cf, bad) \<Rightarrow>
            if bad then fail (wrap ''decode tunnel list'' json_error)
            else if \<not> cf_Success cf then fail (cf_err cf ''list tunnels'' st)
            else (case cf_Result cf of
                None \<Rightarrow> fail (wrap ''unmarshal tunnel list'' json_error)
              | Some res \<Rightarrow>
                  (case decode_slice \<lparr>ti_ID = '''', ti_Name = '''', ti_CreatedAt = ''''\<rparr> decode_tunnel_info [] res of
                     (ts, bad2) \<Rightarrow> if bad2 then fail (wrap ''unmarshal tunnel list'' json_error) else ok ts)))
   }"

section \<open>The reaper\<close>

definition trim_domain :: "string \<Rightarrow> string" where
  "trim_domain d = trim_where (\<lambda>c. c = CHR ''.'') (trim_space d)"

definition reap_one :: "tunnel_manager \<Rightarrow> string \<Rightarrow> tunnel_info \<Rightarrow> (world, unit) state" where
  "reap_one m domain t =
     (if \<not> has_prefix (ti_Name t) ''ocm-vm-'' then ret ()
      else (let slug = trim_prefix (ti_Name t) ''ocm-vm-'' in do {
        a \<leftarrow> in_db (IsMachineActive slug);
        case a of
          Inl e \<Rightarrow> ret ()
        | Inr active \<Rightarrow>
            if active then ret ()
            else do {
              _ \<leftarrow> in_net (DeleteTunnelAndDNS m (ti_ID t)
                     [''m-'' @ slug @ ''.'' @ domain, ''ssh-'' @ slug @ ''.'' @ domain]);
              ret ()
            }
      }))"

definition reapWithDomain :: "tunnel_manager \<Rightarrow> string \<Rightarrow> (world, unit) state" where
  "reapWithDomain m dataPlaneDomain =
     (let domain = trim_domain dataPlaneDomain in
      if domain = '''' then ret ()
      else do {
        ts \<leftarrow> in_net (ListTunnels m);
        case ts of
          Inl e \<Rightarrow> ret ()
        | Inr tunnels \<Rightarrow> for_each (reap_one m domain) tunnels
      })"

end
