(* ===== verification/Kv_Store.thy ===== *)
theory Kv_Store
  imports Net
begin

text \<open>
  \<open>internal/kvstore/cloudflare.go\<close>: the cache of routes and accounts in Cloudflare KV, as
  the requests that write and delete its entries.
\<close>

section \<open>The route cache\<close>

record kv_store =
  kv_accountID :: string
  kv_namespaceID :: string
  kv_apiToken :: string

record kv_route_entry =
  kr_MachineID :: string
  kr_HostHostname :: string
  kr_ProxyToken :: string

definition route_key :: "string \<Rightarrow> string \<Rightarrow> string" where
  "route_key accountSlug machineSlug = ''route:'' @ accountSlug @ '':'' @ machineSlug"

definition kv_base :: "kv_store \<Rightarrow> string" where
  "kv_base kv = ''https://api.cloudflare.com/client/v4/accounts/'' @ kv_accountID kv @
     ''/storage/kv/namespaces/'' @ kv_namespaceID kv"

definition kv_put_url :: "kv_store \<Rightarrow> string \<Rightarrow> int \<Rightarrow> string" where
  "kv_put_url kv key ttl = kv_base kv @ ''/values/'' @ path_escape key @ ''?expiration_ttl='' @ show_int ttl"

definition kv_del_url :: "kv_store \<Rightarrow> string \<Rightarrow> string" where
  "kv_del_url kv key = kv_base kv @ ''/values/'' @ path_escape key"

definition kv_put :: "kv_store \<Rightarrow> string \<Rightarrow> json \<Rightarrow> int \<Rightarrow> (net, unit result) state" where
  "kv_put kv key value ttl = do {
     r \<leftarrow> http_do \<lparr>rq_Method = ''PUT'', rq_URL = kv_put_url kv key ttl, rq_Token = kv_apiToken kv,
                    rq_Body = Some value\<rparr>;
     case r of
       Inl e \<Rightarrow> fail e
     | Inr (st, txt, j) \<Rightarrow>
         if 400 \<le> st then fail (ErrText (''KV PUT '' @ key @ '': status '' @ show_int st)) else ok ()
   }"

definition kv_del :: "kv_store \<Rightarrow> string \<Rightarrow> (net, unit result) state" where
  "kv_del kv key = do {
     r \<leftarrow> http_do \<lparr>rq_Method = ''DELETE'', rq_URL = kv_del_url kv key, rq_Token = kv_apiToken kv,
                    rq_Body = None\<rparr>;
     case r of
       Inl e \<Rightarrow> fail e
     | Inr (st, txt, j) \<Rightarrow>
         if 400 \<le> st \<and> st \<noteq> 404 then fail (ErrText (''KV DELETE '' @ key @ '': status '' @ show_int st))
         else ok ()
   }"

text \<open>Up to \<open>n\<close> more attempts; the error of the last one is the result.\<close>

fun with_retry :: "nat \<Rightarrow> (net, unit result) state \<Rightarrow> go_error \<Rightarrow> (net, unit result) state" where
  "with_retry 0 call lastErr = fail lastErr"
| "with_retry (Suc n) call lastErr = do {
     r \<leftarrow> call;
     case r of Inr _ \<Rightarrow> ok () | Inl e \<Rightarrow> with_retry n call e
   }"

definition putWithRetry :: "kv_store \<Rightarrow> string \<Rightarrow> json \<Rightarrow> int \<Rightarrow> (net, unit result) state" where
  "putWithRetry kv key value ttl = with_retry 3 (kv_put kv key value ttl) (ErrText '''')"

definition delWithRetry :: "kv_store \<Rightarrow> string \<Rightarrow> (net, unit result) state" where
  "delWithRetry kv key = with_retry 3 (kv_del kv key) (ErrText '''')"

definition route_value :: "kv_route_entry \<Rightarrow> json" where
  "route_value e = JObj [(''machine_id'', JStr (kr_MachineID e)),
     (''host_hostname'', JStr (kr_HostHostname e)), (''proxy_token'', JStr (kr_ProxyToken e))]"

definition PutRouteSync :: "kv_store \<Rightarrow> string \<Rightarrow> string \<Rightarrow> kv_route_entry \<Rightarrow> (net, unit result) state" where
  "PutRouteSync kv accountSlug machineSlug e =
     putWithRetry kv (route_key accountSlug machineSlug) (route_value e) 3600"

definition DeleteRouteSync :: "kv_store \<Rightarrow> string \<Rightarrow> string \<Rightarrow> (net, unit result) state" where
  "DeleteRouteSync kv accountSlug machineSlug = delWithRetry kv (route_key accountSlug machineSlug)"

definition PutAccount :: "kv_store \<Rightarrow> string \<Rightarrow> int \<Rightarrow> int list \<Rightarrow> (net, unit result) state" where
  "PutAccount kv slug accountID userIDs = putWithRetry kv (''account:'' @ slug)
     (JObj [(''account_id'', JNum accountID), (''user_ids'', JArr (map JNum userIDs))]) 86400"

definition PutRevocation :: "kv_store \<Rightarrow> time \<Rightarrow> int \<Rightarrow> (net, unit result) state" where
  "PutRevocation kv now userID = putWithRetry kv (''revoked:'' @ show_int userID)
     (JObj [(''revoked_at'', JNum (now div second))]) 86400"

section \<open>Calls that are retried\<close>

text \<open>
  What the retry loop needs of a call: with a URL that can be sent, one request goes out and the
  call succeeds exactly if the reply is accepted; otherwise nothing is sent and the call fails.
\<close>

locale remote_call =
  fixes call :: "(net, unit result) state" and rq :: http_request and accepted :: "http_reply \<Rightarrow> bool"
  assumes sent: "url_ok (rq_URL rq) \<Longrightarrow>
      \<exists>r. net_log (final_state call n) = net_log n @ [(rq, r)] \<and> (outcome call n = Inr () \<longleftrightarrow> accepted r)"
    and unsendable: "\<not> url_ok (rq_URL rq) \<Longrightarrow> net_log (final_state call n) = net_log n \<and> isl (outcome call n)"
begin

text \<open>The attempts of the loop: at most \<open>k\<close>, all refused but perhaps the last.\<close>

lemma retry_attempts:
  assumes "url_ok (rq_URL rq)"
  shows "\<exists>rs. net_log (final_state (with_retry (Suc k) call e) n) = net_log n @ map (Pair rq) rs \<and> rs \<noteq> [] \<and>
     length rs \<le> Suc k \<and> (\<forall>r \<in> set (butlast rs). \<not> accepted r) \<and>
     (outcome (with_retry (Suc k) call e) n = Inr () \<longleftrightarrow> accepted (last rs)) \<and>
     (\<not> accepted (last rs) \<longrightarrow> length rs = Suc k)"
proof (induction k arbitrary: n e)
  case 0
  obtain r where "net_log (final_state call n) = net_log n @ [(rq, r)]" "outcome call n = Inr () \<longleftrightarrow> accepted r"
    using sent [OF assms] by blast
  then show ?case by (intro exI [of _ "[r]"]) (auto simp: split_beta split: sum.splits)
next
  case (Suc k)
  obtain r where r: "net_log (final_state call n) = net_log n @ [(rq, r)]" "outcome call n = Inr () \<longleftrightarrow> accepted r"
    using sent [OF assms] by blast
  show ?case
  proof (cases "outcome call n")
    case (Inr u)
    then show ?thesis using r by (intro exI [of _ "[r]"]) (simp add: split_beta)
  next
    case (Inl e1)
    obtain rs where "net_log (final_state (with_retry (Suc k) call e1) (final_state call n)) =
          net_log (final_state call n) @ map (Pair rq) rs" "rs \<noteq> []" "length rs \<le> Suc k"
        "\<forall>r \<in> set (butlast rs). \<not> accepted r"
        "outcome (with_retry (Suc k) call e1) (final_state call n) = Inr () \<longleftrightarrow> accepted (last rs)"
        "\<not> accepted (last rs) \<longrightarrow> length rs = Suc k"
      using Suc.IH [of e1 "final_state call n"] by blast
    then show ?thesis using r Inl
      by (intro exI [of _ "r # rs"]) (simp add: split_beta del: with_retry.simps(2) add: with_retry.simps(2) [of "Suc k"])
  qed
qed

lemma retry_unsendable:
  assumes "\<not> url_ok (rq_URL rq)"
  shows "net_log (final_state (with_retry k call e) n) = net_log n \<and> isl (outcome (with_retry k call e) n)"
proof (induction k arbitrary: n e)
  case (Suc k)
  obtain e1 where e1: "outcome call n = Inl e1" "net_log (final_state call n) = net_log n"
    using unsendable [OF assms, of n] by (auto simp: isl_def)
  show ?case using Suc.IH [of e1 "final_state call n"] e1 by (simp add: split_beta)
qed simp

text \<open>So the loop sends nothing but the request, and it succeeds only if some reply was accepted.\<close>

lemma retry_log:
  "\<exists>rs. net_log (final_state (with_retry k call e) n) = net_log n @ map (Pair rq) rs \<and>
     (outcome (with_retry k call e) n = Inr () \<longrightarrow> (\<exists>r \<in> set rs. accepted r)) \<and>
     (url_ok (rq_URL rq) \<and> 0 < k \<longrightarrow> rs \<noteq> [])"
proof (cases "url_ok (rq_URL rq) \<and> 0 < k")
  case True
  then obtain k' where "k = Suc k'" by (cases k) auto
  then show ?thesis using retry_attempts [of k' e n] True by (metis last_in_set)
next
  case False
  have "net_log (final_state (with_retry k call e) n) = net_log n \<and> isl (outcome (with_retry k call e) n)"
    using False retry_unsendable [of k e n] by (cases "url_ok (rq_URL rq)") auto
  then show ?thesis using False by (intro exI [of _ "[]"]) (auto simp: isl_def)
qed

end

definition put_request :: "kv_store \<Rightarrow> string \<Rightarrow> json \<Rightarrow> int \<Rightarrow> http_request" where
  "put_request kv key value ttl = \<lparr>rq_Method = ''PUT'', rq_URL = kv_put_url kv key ttl,
     rq_Token = kv_apiToken kv, rq_Body = Some value\<rparr>"

definition del_request :: "kv_store \<Rightarrow> string \<Rightarrow> http_request" where
  "del_request kv key = \<lparr>rq_Method = ''DELETE'', rq_URL = kv_del_url kv key,
     rq_Token = kv_apiToken kv, rq_Body = None\<rparr>"

definition put_accepted :: "http_reply \<Rightarrow> bool" where
  "put_accepted r = (case r of Reply st txt j \<Rightarrow> st < 400 | _ \<Rightarrow> False)"

definition del_accepted :: "http_reply \<Rightarrow> bool" where
  "del_accepted r = (case r of Reply st txt j \<Rightarrow> st < 400 \<or> st = 404 | _ \<Rightarrow> False)"

interpretation kv_puts: remote_call "kv_put kv key value ttl" "put_request kv key value ttl" put_accepted
  for kv key "value" ttl
  by unfold_locales
     (auto simp: kv_put_def put_request_def put_accepted_def http_do_def Let_def split_beta split: http_reply.splits)

interpretation kv_dels: remote_call "kv_del kv key" "del_request kv key" del_accepted for kv key
  by unfold_locales
     (auto simp: kv_del_def del_request_def del_accepted_def http_do_def Let_def split_beta split: http_reply.splits)

end
