(* ===== verification/Routing.thy ===== *)
theory Routing
  imports Tunnel Kv_Store Store_Contract
begin

text \<open>
  \<open>internal/routing\<close>: the routing service (\<open>service.go\<close>), which owns the tunnel, the DNS
  names, the route cache and the tunnel columns of a machine; the projector, which writes every
  running route to the cache (\<open>projector.go\<close>); and the reconciler, which deletes the
  entries of the cache that no running machine has (\<open>reconciler.go\<close>).
\<close>

section \<open>The service\<close>

text \<open>The tunnel manager and the cache may be missing; the store never is here.\<close>

record routing_service =
  sv_tunnel :: "tunnel_manager option"
  sv_kv :: "kv_store option"
  sv_dataPlaneDomain :: string

definition NewWithDomain ::
  "tunnel_manager option \<Rightarrow> kv_store option \<Rightarrow> string \<Rightarrow> routing_service" where
  "NewWithDomain tm kv dataPlaneDomain =
     (let domain = trim_domain dataPlaneDomain
      in \<lparr>sv_tunnel = tm, sv_kv = kv,
           sv_dataPlaneDomain = (if domain = '''' then ''localhost'' else domain)\<rparr>)"

definition hostnames :: "routing_service \<Rightarrow> string \<Rightarrow> string \<times> string" where
  "hostnames sv slug = (''m-'' @ slug @ ''.'' @ sv_dataPlaneDomain sv,
                        ''ssh-'' @ slug @ ''.'' @ sv_dataPlaneDomain sv)"

record setup_result =
  sr_TunnelID :: string
  sr_TunnelToken :: string
  sr_SigningKey :: string
  sr_VMHostname :: string
  sr_SSHHostname :: string

definition persistRouteState :: "string \<Rightarrow> string \<Rightarrow> string \<Rightarrow> (world, unit result) state" where
  "persistRouteState mid signingKey tunnelID = do {
     r \<leftarrow> in_db (UpdateMachineTunnel mid tunnelID signingKey);
     case r of Inl e \<Rightarrow> fail (wrap ''persist route signing key'' e) | Inr _ \<Rightarrow> ok ()
   }"

text \<open>The thirty-two random bytes of the signing key are an argument.\<close>

definition SetupRoute ::
  "routing_service \<Rightarrow> nat list result \<Rightarrow> string \<Rightarrow> string \<Rightarrow> (world, setup_result result) state" where
  "SetupRoute sv random mid slug = (case random of
     Inl e \<Rightarrow> fail (wrap ''generate signing key'' e)
   | Inr bytes \<Rightarrow>
       (let (vmHost, sshHost) = hostnames sv slug;
            key = hex_of bytes;
            partial = \<lparr>sr_TunnelID = '''', sr_TunnelToken = '''', sr_SigningKey = key,
                        sr_VMHostname = vmHost, sr_SSHHostname = sshHost\<rparr>;
            without_tunnel = do {
              p \<leftarrow> persistRouteState mid key '''';
              case p of Inl e \<Rightarrow> fail e | Inr _ \<Rightarrow> ok partial
            }
        in case sv_tunnel sv of
             None \<Rightarrow> without_tunnel
           | Some tm \<Rightarrow> do {
               t \<leftarrow> in_net (CreateVMTunnel tm slug);
               case t of
                 Inl e \<Rightarrow> without_tunnel
               | Inr (tunnelID, token) \<Rightarrow> do {
                   _ \<leftarrow> in_net (ConfigureVMTunnel tm tunnelID vmHost sshHost);
                   _ \<leftarrow> in_net (CreateDNSRoute tm tunnelID vmHost);
                   _ \<leftarrow> in_net (CreateDNSRoute tm tunnelID sshHost);
                   p \<leftarrow> persistRouteState mid key tunnelID;
                   case p of
                     Inl e \<Rightarrow> fail e
                   | Inr _ \<Rightarrow> ok (partial\<lparr>sr_TunnelID := tunnelID, sr_TunnelToken := token\<rparr>)
                 }
             }))"

definition delete_kv_route :: "routing_service \<Rightarrow> string \<Rightarrow> string \<Rightarrow> (world, unit) state" where
  "delete_kv_route sv accountSlug slug = (case sv_kv sv of
     None \<Rightarrow> ret ()
   | Some kv \<Rightarrow>
       if accountSlug \<noteq> '''' \<and> slug \<noteq> '''' then do {
         _ \<leftarrow> in_net (DeleteRouteSync kv accountSlug slug); ret () }
       else ret ())"

definition delete_tunnel_of :: "routing_service \<Rightarrow> string \<Rightarrow> string \<Rightarrow> (world, unit) state" where
  "delete_tunnel_of sv slug tunnelID = (case sv_tunnel sv of
     None \<Rightarrow> ret ()
   | Some tm \<Rightarrow>
       if tunnelID \<noteq> '''' then do {
         _ \<leftarrow> in_net (DeleteTunnelAndDNS tm tunnelID [fst (hostnames sv slug), snd (hostnames sv slug)]);
         ret () }
       else ret ())"

text \<open>Every step is attempted whatever became of the one before; the result is always nil.\<close>

definition TeardownRoute ::
  "routing_service \<Rightarrow> string \<Rightarrow> string \<Rightarrow> string \<Rightarrow> string \<Rightarrow> (world, unit result) state" where
  "TeardownRoute sv mid slug accountSlug tunnelID = do {
     _ \<leftarrow> delete_kv_route sv accountSlug slug;
     _ \<leftarrow> delete_tunnel_of sv slug tunnelID;
     _ \<leftarrow> in_db (ClearMachineTunnel mid);
     ok ()
   }"

definition SyncRouteToKV ::
  "routing_service \<Rightarrow> string \<Rightarrow> string \<Rightarrow> string \<Rightarrow> string \<Rightarrow> string \<Rightarrow> (world, unit result) state" where
  "SyncRouteToKV sv accountSlug slug mid hostHostname proxyToken = (case sv_kv sv of
     None \<Rightarrow> ok ()
   | Some kv \<Rightarrow> in_net (PutRouteSync kv accountSlug slug
       \<lparr>kr_MachineID = mid, kr_HostHostname = hostHostname, kr_ProxyToken = proxyToken\<rparr>))"

definition SyncAccountToKV ::
  "routing_service \<Rightarrow> string \<Rightarrow> int \<Rightarrow> int list \<Rightarrow> (world, unit result) state" where
  "SyncAccountToKV sv slug accountID userIDs = (case sv_kv sv of
     None \<Rightarrow> ok ()
   | Some kv \<Rightarrow> in_net (PutAccount kv slug accountID userIDs))"

section \<open>The projector\<close>

definition entry_of :: "route_data \<Rightarrow> kv_route_entry" where
  "entry_of r = \<lparr>kr_MachineID = rd_MachineID r, kr_HostHostname = rd_HostHostname r,
                  kr_ProxyToken = rd_ProxyToken r\<rparr>"

fun put_routes :: "kv_store \<Rightarrow> route_data list \<Rightarrow> nat \<Rightarrow> (net, nat) state" where
  "put_routes kv [] synced = ret synced"
| "put_routes kv (r # rs) synced = do {
     p \<leftarrow> PutRouteSync kv (rd_AccountSlug r) (rd_MachineSlug r) (entry_of r);
     put_routes kv rs (case p of Inl _ \<Rightarrow> synced | Inr _ \<Rightarrow> Suc synced)
   }"

definition SyncOnce :: "kv_store \<Rightarrow> (world, nat result) state" where
  "SyncOnce kv = do {
     rs \<leftarrow> in_db ListRunningRoutes;
     case rs of
       Inl e \<Rightarrow> fail e
     | Inr routes \<Rightarrow> do { n \<leftarrow> in_net (put_routes kv routes 0); ok n }
   }"

section \<open>The reconciler of the cache\<close>

text \<open>
  The keys of \<open>kvRoutes\<close>, in the order in which the range over the map visits them. A key
  is split at its first colon; one without a colon is left alone.
\<close>

definition db_key :: "route_data \<Rightarrow> string" where
  "db_key r = rd_AccountSlug r @ '':'' @ rd_MachineSlug r"

definition split_key :: "string \<Rightarrow> (string \<times> string) option" where
  "split_key key = (let a = takeWhile (\<lambda>c. c \<noteq> CHR '':'') key in
     if length a < length key then Some (a, drop (Suc (length a)) key) else None)"

fun delete_stale :: "kv_store \<Rightarrow> string list \<Rightarrow> string list \<Rightarrow> nat \<Rightarrow> (net, nat) state" where
  "delete_stale kv valid [] stale = ret stale"
| "delete_stale kv valid (key # ks) stale =
     (if key \<in> set valid then delete_stale kv valid ks stale
      else (case split_key key of
          None \<Rightarrow> delete_stale kv valid ks stale
        | Some (a, m) \<Rightarrow> do {
            r \<leftarrow> DeleteRouteSync kv a m;
            delete_stale kv valid ks (case r of Inl _ \<Rightarrow> stale | Inr _ \<Rightarrow> Suc stale)
          }))"

definition ReconcileOnce :: "kv_store \<Rightarrow> string list \<Rightarrow> (world, nat result) state" where
  "ReconcileOnce kv kvKeys = do {
     rs \<leftarrow> in_db ListRunningRoutes;
     case rs of
       Inl e \<Rightarrow> fail e
     | Inr routes \<Rightarrow> do { n \<leftarrow> in_net (delete_stale kv (map db_key routes) kvKeys 0); ok n }
   }"

section \<open>Routing keeps the contract of the store\<close>

context vm_session
begin

lemma keeps_in_db: "triple I m Q \<Longrightarrow> triple (\<lambda>w. I (w_db w)) (in_db m) Q"
  by (rule triple_in_db)

lemma keeps_in_net: "triple (\<lambda>w. I (w_db w)) (in_net m) (\<lambda>_. True)"
  by (rule triple_in_net)

lemma TeardownRoute_keeps:
  "triple (\<lambda>w. I (w_db w)) (TeardownRoute sv mid slug acct tid) (\<lambda>_. True)"
  unfolding TeardownRoute_def delete_kv_route_def delete_tunnel_of_def
  by (rule triple_rules keeps_in_net keeps_in_db session_keeps | simp)+

lemma SetupRoute_keeps:
  "triple (\<lambda>w. I (w_db w)) (SetupRoute sv random mid slug) (\<lambda>_. True)"
  unfolding SetupRoute_def persistRouteState_def
  by (rule triple_rules keeps_in_net keeps_in_db session_keeps | simp)+

lemma SyncRouteToKV_keeps:
  "triple (\<lambda>w. I (w_db w)) (SyncRouteToKV sv acct slug mid host px) (\<lambda>_. True)"
  unfolding SyncRouteToKV_def by (rule triple_rules keeps_in_net | simp)+

lemmas routing_keeps = TeardownRoute_keeps SetupRoute_keeps SyncRouteToKV_keeps

end

end
