(* ===== verification/Agent_Client.thy ===== *)
theory Agent_Client
  imports Net Store_Model
begin

text \<open>
  \<open>internal/agentclient/client.go\<close>: the calls that the control plane makes on the agent of
  a host, as the request each one sends and how it reads the reply.
\<close>

section \<open>Addresses and tokens\<close>

record agent_client =
  ac_agentToken :: string

text \<open>
  \<open>url.Parse\<close> of \<open>scheme://authority...\<close>, as far as the source looks at it: the scheme
  and the host with its port. A text of another shape has no host.
\<close>

fun split_scheme :: "string \<Rightarrow> string \<Rightarrow> (string \<times> string) option" where
  "split_scheme acc (c # cs) =
     (if has_prefix (c # cs) ''://'' then Some (rev acc, drop 3 (c # cs))
      else split_scheme (c # acc) cs)"
| "split_scheme acc [] = None"

definition after_last :: "char \<Rightarrow> string \<Rightarrow> string" where
  "after_last c s = rev (takeWhile (\<lambda>x. x \<noteq> c) (rev s))"

definition url_host :: "string \<Rightarrow> (string \<times> string) option" where
  "url_host u = (if \<not> url_ok u then None else
     (case split_scheme [] u of
        None \<Rightarrow> None
      | Some (scheme, rest) \<Rightarrow>
          Some (map lower scheme, after_last (CHR ''@'') (takeWhile (\<lambda>c. c \<notin> set ''/?#'') rest))))"

definition hostname_of :: "string \<Rightarrow> string" where
  "hostname_of h =
     (if has_prefix h ''['' then takeWhile (\<lambda>c. c \<noteq> CHR '']'') (tl h)
      else if CHR '':'' \<in> set h then rev (tl (dropWhile (\<lambda>c. c \<noteq> CHR '':'') (rev h)))
      else h)"

definition blocked_hosts :: "string list" where
  "blocked_hosts = [''metadata.google.internal'', ''169.254.169.254'', ''localhost'', ''127.0.0.1'']"

definition usable_endpoint :: "string \<Rightarrow> bool" where
  "usable_endpoint ep = (case url_host ep of
      None \<Rightarrow> False
    | Some (scheme, h) \<Rightarrow> scheme \<in> {''http'', ''https''} \<and> h \<noteq> '''' \<and> hostname_of h \<notin> set blocked_hosts)"

definition agentURL :: "host \<Rightarrow> string" where
  "agentURL h =
     (let ep = deref_or '''' (h_AgentEndpoint h) in
      if ep \<noteq> '''' \<and> usable_endpoint ep then ep
      else ''http://'' @ deref_or '''' (coalesce (h_ExternalIP h) (h_InternalIP h)) @ '':9090'')"

definition tokenForHost :: "agent_client \<Rightarrow> host \<Rightarrow> string" where
  "tokenForHost c h =
     (let t = deref_or '''' (h_AgentToken h) in if t \<noteq> '''' then t else ac_agentToken c)"

definition doRequest ::
  "agent_client \<Rightarrow> host \<Rightarrow> string \<Rightarrow> string \<Rightarrow> json option \<Rightarrow>
   (net, (int \<times> string \<times> json option) result) state" where
  "doRequest c h method path body = http_do \<lparr>rq_Method = method, rq_URL = agentURL h @ path,
     rq_Token = tokenForHost c h, rq_Body = body\<rparr>"

definition status_error :: "string \<Rightarrow> int \<Rightarrow> string \<Rightarrow> go_error" where
  "status_error what st txt = ErrText (what @ '': status '' @ show_int st @ '': '' @ txt)"

text \<open>A call that reports nothing but success: the statuses that count as success are given.\<close>

definition agent_exec ::
  "agent_client \<Rightarrow> host \<Rightarrow> string \<Rightarrow> string \<Rightarrow> json option \<Rightarrow> string \<Rightarrow> string \<Rightarrow> int list \<Rightarrow>
   (net, unit result) state" where
  "agent_exec c h method path body doing what oks = do {
     r \<leftarrow> doRequest c h method path body;
     case r of
       Inl e \<Rightarrow> fail (wrap doing e)
     | Inr (st, txt, j) \<Rightarrow> if st \<in> set oks then ok () else fail (status_error what st txt)
   }"

section \<open>The request that boots a VM\<close>

record runtime_selection =
  rs_Kind :: string
  rs_ResolvedRootfsVersion :: string
  rs_ResolvedOpenClawVersion :: string
  rs_ResolvedHermesVersion :: string
  rs_VersionSource :: string
  rs_RuntimeSource :: string
  rs_RootfsManifestURI :: string
  rs_OpenClawBin :: string
  rs_OpenClawBundledPluginsDir :: string
  rs_OpenClawManifestURI :: string
  rs_HermesBin :: string
  rs_HermesVenvDir :: string
  rs_HermesManifestURI :: string

text \<open>
  What the phases of the boot collect for the request; a field is absent when the Go value is
  empty, and otherwise given as it is marshalled.
\<close>

record vm_payload =
  vp_Secrets :: "json option"
  vp_LLMKeys :: "json option"
  vp_OwnerEmails :: "string list"
  vp_OpenClawConf :: "json option"
  vp_HermesConfigYAML :: "json option"
  vp_HermesEnv :: "json option"
  vp_HermesAuthJSON :: "json option"
  vp_HermesSoul :: "json option"
  vp_CustomProviders :: "json option"
  vp_Souls :: "json option"

text \<open>\<open>omitempty\<close>\<close>

definition opt_field :: "string \<Rightarrow> json option \<Rightarrow> (string \<times> json) list" where
  "opt_field k v = (case v of None \<Rightarrow> [] | Some j \<Rightarrow> [(k, j)])"

definition str_field :: "string \<Rightarrow> string \<Rightarrow> (string \<times> json) list" where
  "str_field k v = (if v = '''' then [] else [(k, JStr v)])"

definition selection_json :: "runtime_selection \<Rightarrow> json" where
  "selection_json r = JObj (str_field ''kind'' (rs_Kind r) @
     str_field ''resolved_rootfs_version'' (rs_ResolvedRootfsVersion r) @
     str_field ''resolved_openclaw_version'' (rs_ResolvedOpenClawVersion r) @
     str_field ''resolved_hermes_version'' (rs_ResolvedHermesVersion r) @
     str_field ''version_source'' (rs_VersionSource r) @
     str_field ''runtime_source'' (rs_RuntimeSource r) @
     str_field ''rootfs_manifest_uri'' (rs_RootfsManifestURI r) @
     str_field ''openclaw_bin'' (rs_OpenClawBin r) @
     str_field ''openclaw_bundled_plugins_dir'' (rs_OpenClawBundledPluginsDir r) @
     str_field ''openclaw_manifest_uri'' (rs_OpenClawManifestURI r) @
     str_field ''hermes_bin'' (rs_HermesBin r) @ str_field ''hermes_venv_dir'' (rs_HermesVenvDir r) @
     str_field ''hermes_manifest_uri'' (rs_HermesManifestURI r))"

definition buildVMRequest ::
  "machine \<Rightarrow> string \<Rightarrow> int \<Rightarrow> string \<Rightarrow> vm_payload \<Rightarrow> runtime_selection option \<Rightarrow> json result" where
  "buildVMRequest m vmIP dataVersion cfCaPubKey vp sel =
     (if deref_or '''' (m_GatewayToken m) = ''''
      then Inl (ErrText ''gateway token is required for VM creation'')
      else if deref_or '''' (m_ProxyToken m) = ''''
      then Inl (ErrText ''proxy token is required for VM creation'')
      else Inr (JObj ([(''machine_id'', JStr (m_ID m))] @
        str_field ''machine_kind'' (NormalizeMachineKind (m_Kind m)) @
        [(''machine_name'', JStr (m_Name m)), (''machine_slug'', JStr (m_Slug m)),
         (''vcpus'', JNum (m_VCPUs m)), (''memory_mb'', JNum (m_MemoryMB m)), (''vm_ip'', JStr vmIP),
         (''gateway_token'', JStr (deref_or '''' (m_GatewayToken m))),
         (''proxy_token'', JStr (deref_or '''' (m_ProxyToken m)))] @
        opt_field ''openclaw_config'' (vp_OpenClawConf vp) @
        opt_field ''hermes_config_yaml'' (vp_HermesConfigYAML vp) @
        opt_field ''hermes_env'' (vp_HermesEnv vp) @
        opt_field ''hermes_auth_json'' (vp_HermesAuthJSON vp) @
        opt_field ''hermes_soul'' (vp_HermesSoul vp) @
        opt_field ''secrets'' (vp_Secrets vp) @ opt_field ''llm_keys'' (vp_LLMKeys vp) @
        [(''account_id'', JNum (m_AccountID m))] @
        opt_field ''budget_microcents'' (map_option JNum (m_BudgetMicrocents m)) @
        [(''data_volume_gb'', JNum (m_DataVolumeGB m)), (''data_version'', JNum dataVersion)] @
        str_field ''signing_key'' (deref_or '''' (m_SigningKey m)) @
        str_field ''tunnel_token'' (m_TunnelToken m) @
        str_field ''vm_hostname'' (deref_or '''' (m_TunnelHostname m)) @
        (if vp_OwnerEmails vp = [] then [] else [(''owner_emails'', JArr (map JStr (vp_OwnerEmails vp)))]) @
        str_field ''cf_ca_pubkey'' cfCaPubKey @
        opt_field ''custom_providers'' (vp_CustomProviders vp) @ opt_field ''souls'' (vp_Souls vp) @
        opt_field ''runtime_selection'' (map_option selection_json sel))))"

section \<open>Calls on VMs\<close>

record vm_response =
  vr_MachineID :: string
  vr_VMIP :: string
  vr_Status :: string
  vr_ErrorMessage :: string
  vr_VCPUs :: int
  vr_MemoryMB :: int
  vr_ProxyToken :: "string option"

definition decode_vm_response :: "json option \<Rightarrow> vm_response result" where
  "decode_vm_response j = (case j of
      Some (JObj kvs) \<Rightarrow>
        (let (a, b1) = decode_field decode_string ''machine_id'' '''' kvs;
             (b, b2) = decode_field decode_string ''vm_ip'' '''' kvs;
             (c, b3) = decode_field decode_string ''status'' '''' kvs;
             (d, b4) = decode_field decode_string ''error_message'' '''' kvs;
             (e, b5) = decode_field decode_int ''vcpus'' 0 kvs;
             (f, b6) = decode_field decode_int ''memory_mb'' 0 kvs;
             (g, b7) = decode_field (decode_pointer '''' decode_string) ''proxy_token'' None kvs
         in if b1 \<or> b2 \<or> b3 \<or> b4 \<or> b5 \<or> b6 \<or> b7 then Inl json_error
            else Inr \<lparr>vr_MachineID = a, vr_VMIP = b, vr_Status = c, vr_ErrorMessage = d,
                        vr_VCPUs = e, vr_MemoryMB = f, vr_ProxyToken = g\<rparr>)
    | Some JNull \<Rightarrow> Inr \<lparr>vr_MachineID = '''', vr_VMIP = '''', vr_Status = '''', vr_ErrorMessage = '''',
                         vr_VCPUs = 0, vr_MemoryMB = 0, vr_ProxyToken = None\<rparr>
    | _ \<Rightarrow> Inl json_error)"

definition CreateVM ::
  "agent_client \<Rightarrow> host \<Rightarrow> machine \<Rightarrow> string \<Rightarrow> int \<Rightarrow> string \<Rightarrow> vm_payload \<Rightarrow>
   runtime_selection option \<Rightarrow> (net, vm_response result) state" where
  "CreateVM c h m vmIP dataVersion cfCaPubKey vp sel =
     (case buildVMRequest m vmIP dataVersion cfCaPubKey vp sel of
        Inl e \<Rightarrow> fail e
      | Inr body \<Rightarrow> do {
          r \<leftarrow> doRequest c h ''POST'' ''/vms'' (Some body);
          case r of
            Inl e \<Rightarrow> fail (wrap ''create VM on agent'' e)
          | Inr (st, txt, j) \<Rightarrow>
              if st \<noteq> 201 then fail (status_error ''create VM'' st txt)
              else (case decode_vm_response j of
                  Inl e \<Rightarrow> fail (wrap ''decode create VM response'' e) | Inr vm \<Rightarrow> ok vm)
        })"

definition UpgradeVM ::
  "agent_client \<Rightarrow> host \<Rightarrow> machine \<Rightarrow> string \<Rightarrow> int \<Rightarrow> string \<Rightarrow> vm_payload \<Rightarrow>
   runtime_selection option \<Rightarrow> (net, vm_response result) state" where
  "UpgradeVM c h m vmIP dataVersion cfCaPubKey vp sel =
     (case buildVMRequest m vmIP dataVersion cfCaPubKey vp sel of
        Inl e \<Rightarrow> fail e
      | Inr body \<Rightarrow> do {
          r \<leftarrow> doRequest c h ''POST'' (''/vms/'' @ m_ID m @ ''/upgrade'') (Some body);
          case r of
            Inl e \<Rightarrow> fail (wrap ''upgrade VM on agent'' e)
          | Inr (st, txt, j) \<Rightarrow>
              if st \<noteq> 202 then fail (status_error ''upgrade VM'' st txt)
              else (case decode_vm_response j of
                  Inl e \<Rightarrow> fail (wrap ''decode upgrade VM response'' e) | Inr vm \<Rightarrow> ok vm)
        })"

text \<open>A VM that the agent does not know counts as destroyed or stopped.\<close>

definition DestroyVM :: "agent_client \<Rightarrow> host \<Rightarrow> string \<Rightarrow> (net, unit result) state" where
  "DestroyVM c h mid = agent_exec c h ''DELETE'' (''/vms/'' @ mid) None
     ''destroy VM on agent'' ''destroy VM'' [404, 204]"

definition StopVM :: "agent_client \<Rightarrow> host \<Rightarrow> string \<Rightarrow> (net, unit result) state" where
  "StopVM c h mid = agent_exec c h ''POST'' (''/vms/'' @ mid @ ''/stop'') None
     ''stop VM on agent'' ''stop VM'' [404, 204]"

definition SetCDPTarget :: "agent_client \<Rightarrow> host \<Rightarrow> string \<Rightarrow> string \<Rightarrow> (net, unit result) state" where
  "SetCDPTarget c h mid target = agent_exec c h ''POST'' (''/vms/'' @ mid @ ''/cdp-target'')
     (Some (JObj [(''target'', JStr target)])) ''set CDP target on agent'' ''set CDP target'' [200]"

definition ResetCDPTarget :: "agent_client \<Rightarrow> host \<Rightarrow> string \<Rightarrow> (net, unit result) state" where
  "ResetCDPTarget c h mid = agent_exec c h ''DELETE'' (''/vms/'' @ mid @ ''/cdp-target'') None
     ''reset CDP target on agent'' ''reset CDP target'' [200]"

definition RollbackVM :: "agent_client \<Rightarrow> host \<Rightarrow> string \<Rightarrow> (net, unit result) state" where
  "RollbackVM c h mid = agent_exec c h ''POST'' (''/vms/'' @ mid @ ''/rollback'') None
     ''rollback VM on agent'' ''rollback VM'' [200]"

definition DeleteBackupObject :: "agent_client \<Rightarrow> host \<Rightarrow> string \<Rightarrow> string \<Rightarrow> (net, unit result) state" where
  "DeleteBackupObject c h mid gcsPath = do {
     r \<leftarrow> doRequest c h ''DELETE''
            (''/vms/'' @ mid @ ''/backup-object?gcs_path='' @ query_escape gcsPath) None;
     case r of
       Inl e \<Rightarrow> fail (if url_ok (agentURL h @ ''/vms/'' @ mid @ ''/backup-object?gcs_path='' @ query_escape gcsPath)
                   then wrap ''delete backup object'' e else wrap ''create delete request'' e)
     | Inr (st, txt, j) \<Rightarrow> if st = 204 then ok ()
         else fail (ErrText (''agent returned '' @ show_int st @ '': '' @ txt))
   }"

text \<open>A byte slice travels as text in \<open>base64.StdEncoding\<close>: groups of three bytes, the last one padded.\<close>

definition base64_digit :: "nat \<Rightarrow> char" where
  "base64_digit n = ''ABCDEFGHIJKLMNOPQRSTUVWXYZabcdefghijklmnopqrstuvwxyz0123456789+/'' ! n"

fun base64_groups :: "nat list \<Rightarrow> string" where
  "base64_groups [] = []"
| "base64_groups [a] = [base64_digit (a div 4), base64_digit (16 * (a mod 4)), CHR ''='', CHR ''='']"
| "base64_groups [a, b] = [base64_digit (a div 4), base64_digit (16 * (a mod 4) + b div 16), base64_digit (4 * (b mod 16)), CHR ''='']"
| "base64_groups (a # b # c # r) = base64_digit (a div 4) # base64_digit (16 * (a mod 4) + b div 16) #
     base64_digit (4 * (b mod 16) + c div 64) # base64_digit (c mod 64) # base64_groups r"

definition base64_encode :: "string \<Rightarrow> string" where
  "base64_encode s = base64_groups (map of_char s)"

definition base64_value :: "char \<Rightarrow> nat option" where
  "base64_value c = (let n = (of_char c :: nat) in
     if 65 \<le> n \<and> n \<le> 90 then Some (n - 65) else if 97 \<le> n \<and> n \<le> 122 then Some (n - 71)
     else if 48 \<le> n \<and> n \<le> 57 then Some (n + 4) else if n = 43 then Some 62 else if n = 47 then Some 63 else None)"

text \<open>The bits that a padded group leaves over are not looked at.\<close>

fun base64_bytes :: "string \<Rightarrow> nat list option" where
  "base64_bytes [] = Some []"
| "base64_bytes (w # x # y # z # r) = (case (base64_value w, base64_value x) of
      (Some a, Some b) \<Rightarrow>
        if y = CHR ''='' then (if z = CHR ''='' \<and> r = [] then Some [4 * a + b div 16] else None)
        else (case base64_value y of
            None \<Rightarrow> None
          | Some c \<Rightarrow>
              if z = CHR ''='' then (if r = [] then Some [4 * a + b div 16, 16 * (b mod 16) + c div 4] else None)
              else (case (base64_value z, base64_bytes r) of
                  (Some d, Some bs) \<Rightarrow> Some ((4 * a + b div 16) # (16 * (b mod 16) + c div 4) # (64 * (c mod 4) + d) # bs)
                | _ \<Rightarrow> None))
    | _ \<Rightarrow> None)"
| "base64_bytes _ = None"

definition base64_decode :: "string \<Rightarrow> string option" where
  "base64_decode s = map_option (map char_of) (base64_bytes (filter (\<lambda>c. c \<notin> {CHR 0x0D, CHR 0x0A}) s))"

fun decode_byte :: "nat decoder" where
  "decode_byte old (JNum n) = (if 0 \<le> n \<and> n < 256 then (nat n, False) else (old, True))"
| "decode_byte old JNull = (old, False)"
| "decode_byte old _ = (old, True)"

fun decode_bytes :: "string option decoder" where
  "decode_bytes old JNull = (None, False)"
| "decode_bytes old (JStr s) = (case base64_decode s of None \<Rightarrow> (old, True) | Some b \<Rightarrow> (Some b, False))"
| "decode_bytes old (JArr xs) = (case decode_slice 0 decode_byte [] (JArr xs) of (bs, bad) \<Rightarrow> (Some (map char_of bs), bad))"
| "decode_bytes old _ = (old, True)"

definition bytes_json :: "string option \<Rightarrow> json" where
  "bytes_json b = (case b of None \<Rightarrow> JNull | Some s \<Rightarrow> JStr (base64_encode s))"

record backup_response =
  bk_GCSPath :: string
  bk_SizeBytes :: int
  bk_CompressedBytes :: int
  bk_ChecksumSHA256 :: string
  bk_HMAC :: "string option"
  bk_Nonce :: "string option"
  bk_Timestamp :: string

definition decode_backup_response :: "json option \<Rightarrow> backup_response result" where
  "decode_backup_response j = (case j of
      Some (JObj kvs) \<Rightarrow>
        (let (a, b1) = decode_field decode_string ''gcs_path'' '''' kvs;
             (b, b2) = decode_field decode_int ''size_bytes'' 0 kvs;
             (c, b3) = decode_field decode_int ''compressed_bytes'' 0 kvs;
             (d, b4) = decode_field decode_string ''checksum_sha256'' '''' kvs;
             (e, b5) = decode_field decode_bytes ''hmac'' None kvs;
             (f, b6) = decode_field decode_bytes ''nonce'' None kvs;
             (g, b7) = decode_field decode_string ''timestamp'' '''' kvs
         in if b1 \<or> b2 \<or> b3 \<or> b4 \<or> b5 \<or> b6 \<or> b7 then Inl json_error
            else Inr \<lparr>bk_GCSPath = a, bk_SizeBytes = b, bk_CompressedBytes = c, bk_ChecksumSHA256 = d,
                        bk_HMAC = e, bk_Nonce = f, bk_Timestamp = g\<rparr>)
    | Some JNull \<Rightarrow> Inr \<lparr>bk_GCSPath = '''', bk_SizeBytes = 0, bk_CompressedBytes = 0, bk_ChecksumSHA256 = '''',
                        bk_HMAC = None, bk_Nonce = None, bk_Timestamp = ''''\<rparr>
    | _ \<Rightarrow> Inl json_error)"

definition backup_path :: "string \<Rightarrow> string" where
  "backup_path mid = ''/vms/'' @ mid @ ''/backup''"

definition BackupVM :: "agent_client \<Rightarrow> host \<Rightarrow> string \<Rightarrow> string option \<Rightarrow> (net, backup_response result) state" where
  "BackupVM c h mid key = do {
     r \<leftarrow> doRequest c h ''POST'' (backup_path mid) (Some (JObj [(''encryption_key'', bytes_json key)]));
     case r of
       Inl e \<Rightarrow> fail (if url_ok (agentURL h @ backup_path mid) then wrap ''backup VM on agent'' e else wrap ''create backup request'' e)
     | Inr (st, txt, j) \<Rightarrow>
         if st \<noteq> 200 then fail (status_error ''backup VM'' st txt)
         else (case decode_backup_response j of
             Inl e \<Rightarrow> fail (wrap ''decode backup response'' e) | Inr b \<Rightarrow> ok b)
   }"

definition restore_path :: "string \<Rightarrow> string" where
  "restore_path mid = ''/vms/'' @ mid @ ''/restore''"

definition restore_body :: "string \<Rightarrow> string option \<Rightarrow> string option \<Rightarrow> string option \<Rightarrow> json" where
  "restore_body gcsPath key nonce hmac = JObj [(''gcs_path'', JStr gcsPath), (''encryption_key'', bytes_json key),
     (''nonce'', bytes_json nonce), (''expected_hmac'', bytes_json hmac)]"

definition RestoreVM ::
  "agent_client \<Rightarrow> host \<Rightarrow> string \<Rightarrow> string \<Rightarrow> string option \<Rightarrow> string option \<Rightarrow> string option \<Rightarrow> (net, unit result) state" where
  "RestoreVM c h mid gcsPath key nonce hmac = do {
     r \<leftarrow> doRequest c h ''POST'' (restore_path mid) (Some (restore_body gcsPath key nonce hmac));
     case r of
       Inl e \<Rightarrow> fail (if url_ok (agentURL h @ restore_path mid) then wrap ''restore VM on agent'' e else wrap ''create restore request'' e)
     | Inr (st, txt, j) \<Rightarrow> if st = 204 then ok () else fail (status_error ''restore VM'' st txt)
   }"

definition GetVM :: "agent_client \<Rightarrow> host \<Rightarrow> string \<Rightarrow> (net, vm_response result) state" where
  "GetVM c h mid = do {
     r \<leftarrow> doRequest c h ''GET'' (''/vms/'' @ mid) None;
     case r of
       Inl e \<Rightarrow> fail (wrap ''get VM from agent'' e)
     | Inr (st, txt, j) \<Rightarrow>
         if st \<noteq> 200 then fail (ErrText (''get VM: status '' @ show_int st))
         else (case decode_vm_response j of
             Inl e \<Rightarrow> fail (wrap ''decode VM response'' e) | Inr vm \<Rightarrow> ok vm)
   }"

definition RefreshRootfs :: "agent_client \<Rightarrow> host \<Rightarrow> (net, unit result) state" where
  "RefreshRootfs c h = agent_exec c h ''POST'' ''/refresh-rootfs'' None
     ''refresh rootfs on agent'' ''refresh rootfs'' [200]"

definition TriggerUpdate :: "agent_client \<Rightarrow> host \<Rightarrow> (net, unit result) state" where
  "TriggerUpdate c h = agent_exec c h ''POST'' ''/trigger-update'' None
     ''trigger update on agent'' ''trigger update'' [202, 409]"

definition ConfigureBrowserStorage ::
  "agent_client \<Rightarrow> host \<Rightarrow> string \<Rightarrow> string \<Rightarrow> bool \<Rightarrow> bool \<Rightarrow> (net, unit result) state" where
  "ConfigureBrowserStorage c h device mountPoint format restartAgent =
     agent_exec c h ''POST'' ''/configure-browser-storage''
       (Some (JObj [(''device'', JStr device), (''format'', JBool format),
          (''mount_point'', JStr mountPoint), (''restart_agent'', JBool restartAgent)]))
       ''configure browser storage on agent'' ''configure browser storage'' [200]"

section \<open>Calls on browser VMs\<close>

text \<open>A create call that ran into its deadline may still be running on the agent.\<close>

definition CreateBrowserVM_agent ::
  "agent_client \<Rightarrow> host \<Rightarrow> string \<Rightarrow> string \<Rightarrow> int \<Rightarrow> int \<Rightarrow> string \<Rightarrow> string \<Rightarrow> (net, unit result) state" where
  "CreateBrowserVM_agent c h bid vmIP vcpus memoryMB manifest version = do {
     r \<leftarrow> doRequest c h ''POST'' ''/browser-vms'' (Some (JObj
            ([(''browser_vm_id'', JStr bid), (''memory_mb'', JNum memoryMB)] @
             str_field ''rootfs_manifest'' (trim_space manifest) @
             str_field ''rootfs_version'' (trim_space version) @
             [(''vcpus'', JNum vcpus), (''vm_ip'', JStr vmIP)])));
     case r of
       Inl (ErrTimeout t) \<Rightarrow> fail (Wrap '''' ErrOutcomeUnknown ('': create browser VM on agent: '' @ t))
     | Inl e \<Rightarrow> fail (if url_ok (agentURL h @ ''/browser-vms'') then wrap ''create browser VM on agent'' e
                      else wrap ''create browser VM request'' e)
     | Inr (st, txt, j) \<Rightarrow> if st \<in> {201, 202} then ok () else fail (status_error ''create browser VM'' st txt)
   }"

definition DestroyBrowserVM :: "agent_client \<Rightarrow> host \<Rightarrow> string \<Rightarrow> (net, unit result) state" where
  "DestroyBrowserVM c h bid = agent_exec c h ''DELETE'' (''/browser-vms/'' @ bid) None
     ''destroy browser VM on agent'' ''destroy browser VM'' [404, 200]"

definition PairBrowserVM_agent :: "agent_client \<Rightarrow> host \<Rightarrow> string \<Rightarrow> string \<Rightarrow> (net, unit result) state" where
  "PairBrowserVM_agent c h bid machineVMIP = do {
     r \<leftarrow> doRequest c h ''POST'' (''/browser-vms/'' @ bid @ ''/pair'')
            (Some (JObj [(''machine_vm_ip'', JStr machineVMIP)]));
     case r of
       Inl e \<Rightarrow> fail (wrap ''pair browser VM on agent'' e)
     | Inr (st, txt, j) \<Rightarrow>
         if st = 404 then fail ErrBrowserVMNotFound
         else if st = 200 then ok () else fail (status_error ''pair browser VM'' st txt)
   }"

definition UnpairBrowserVM_agent :: "agent_client \<Rightarrow> host \<Rightarrow> string \<Rightarrow> string \<Rightarrow> (net, unit result) state" where
  "UnpairBrowserVM_agent c h bid machineVMIP = agent_exec c h ''POST'' (''/browser-vms/'' @ bid @ ''/unpair'')
     (Some (JObj [(''machine_vm_ip'', JStr machineVMIP)]))
     ''unpair browser VM on agent'' ''unpair browser VM'' [200]"

end
