(* ===== verification/Version_Resolver.thy ===== *)
theory Version_Resolver
  imports Agent_Client Store_Ops
begin

text \<open>
  Which runtime a machine boots with: \<open>internal/machines/version_resolver.go\<close>, the
  artifact lookups of \<open>internal/machines/runtime.go\<close>, the compatibility check of
  \<open>internal/store/compat.go\<close> and the version parser \<open>internal/openclawver\<close>.
\<close>

section \<open>OpenClaw versions\<close>

text \<open>The year and month of a version, if it starts with such a pair.\<close>

definition Parse :: "string \<Rightarrow> (int \<times> int) option" where
  "Parse version =
     (let v = takeWhile (\<lambda>c. c \<notin> set ''-+'') (trim_prefix (trim_space version) ''v'') in
      case split_on (CHR ''.'') v of
        y # m # _ \<Rightarrow>
          (case atoi y of
             None \<Rightarrow> None
           | Some year \<Rightarrow>
               if year < 2000 then None
               else (case atoi m of
                   None \<Rightarrow> None
                 | Some month \<Rightarrow> if month < 1 \<or> 12 < month then None else Some (year, month)))
      | _ \<Rightarrow> None)"

definition AtLeast :: "string \<Rightarrow> int \<Rightarrow> int \<Rightarrow> bool option" where
  "AtLeast version wantYear wantMonth = (case Parse version of
      None \<Rightarrow> None
    | Some (year, month) \<Rightarrow>
        if year \<noteq> wantYear then Some (wantYear < year) else Some (wantMonth \<le> month))"

section \<open>Compatibility of a release with a root file system\<close>

record incompatible_rootfs =
  ir_OpenclawVersion :: string
  ir_MinRootfsVersion :: string
  ir_CurrentRootfsVersion :: string

definition CheckOpenClawRootfsCompat ::
  "artifact_release option \<Rightarrow> string \<Rightarrow> time \<Rightarrow> time \<Rightarrow> incompatible_rootfs option" where
  "CheckOpenClawRootfsCompat release current minCreatedAt currentCreatedAt =
     (case release of
        None \<Rightarrow> None
      | Some r \<Rightarrow>
          (case ar_MinRootfsVersion r of
             None \<Rightarrow> None
           | Some mn \<Rightarrow>
               if current = '''' \<or> current = mn then None
               else if currentCreatedAt < minCreatedAt
               then Some \<lparr>ir_OpenclawVersion = ar_Version r, ir_MinRootfsVersion = mn,
                           ir_CurrentRootfsVersion = current\<rparr>
               else None))"

section \<open>Resolution\<close>

record runtime_defaults =
  rd_DefaultRootfsVersion :: string
  rd_DefaultOpenClawVersion :: string
  rd_MachineKind :: string

record runtime_resolution =
  rx_ResolvedRootfsVersion :: string
  rx_ResolvedOpenClawVersion :: string
  rx_MachineKind :: string
  rx_VersionSource :: string
  rx_RuntimeSource :: string

fun firstNonEmptyPtr :: "string option list \<Rightarrow> string" where
  "firstNonEmptyPtr [] = ''''"
| "firstNonEmptyPtr (None # vs) = firstNonEmptyPtr vs"
| "firstNonEmptyPtr (Some v # vs) = (if trim_space v \<noteq> '''' then trim_space v else firstNonEmptyPtr vs)"

definition deriveRuntimeVersionSource ::
  "string option \<Rightarrow> string option \<Rightarrow> string option \<Rightarrow> string" where
  "deriveRuntimeVersionSource rootfs openclaw channel =
     (if trim_space (firstNonEmptyPtr [rootfs, openclaw]) \<noteq> '''' then ''pinned''
      else if channel \<noteq> None \<and> trim_space (deref_or '''' channel) \<noteq> '''' then ''channel''
      else ''default'')"

text \<open>
  The order in which the sources of a version are asked: the pin, what the channel resolved to,
  what last booted, what was recorded (unless the version source is the default), the default.
\<close>

definition resolve_version ::
  "bool \<Rightarrow> bool \<Rightarrow> string option \<Rightarrow> string option \<Rightarrow> string option \<Rightarrow> string option \<Rightarrow> string \<Rightarrow> string" where
  "resolve_version hasChannel hasDefaultSource desired resolved actual recorded dflt =
     (let v1 = firstNonEmptyPtr [desired];
          v2 = (if v1 = '''' \<and> hasChannel then firstNonEmptyPtr [resolved] else v1);
          v3 = (if v2 = '''' then firstNonEmptyPtr [actual] else v2);
          v4 = (if v3 = '''' \<and> \<not> hasDefaultSource then firstNonEmptyPtr [resolved, recorded] else v3)
      in if v4 = '''' then trim_space dflt else v4)"

definition ResolveMachineRuntime :: "machine \<Rightarrow> runtime_defaults \<Rightarrow> runtime_resolution" where
  "ResolveMachineRuntime m d =
     (let hasChannel = (trim_space (firstNonEmptyPtr [m_DesiredChannel m]) \<noteq> '''');
          hasDefaultSource = (m_VersionSource m \<noteq> None \<and>
                              trim_space (deref_or '''' (m_VersionSource m)) = ''default'');
          derived = deriveRuntimeVersionSource (m_DesiredRootfsVersion m) (m_DesiredOpenclawVersion m)
                      (m_DesiredChannel m);
          stored = trim_space (deref_or '''' (m_VersionSource m))
      in \<lparr>rx_ResolvedRootfsVersion = resolve_version hasChannel hasDefaultSource
             (m_DesiredRootfsVersion m) (m_ResolvedRootfsVersion m) (m_ActualRootfsVersion m)
             (m_RootfsSnapshot m) (rd_DefaultRootfsVersion d),
           rx_ResolvedOpenClawVersion = resolve_version hasChannel hasDefaultSource
             (m_DesiredOpenclawVersion m) (m_ResolvedOpenclawVersion m) (m_ActualOpenclawVersion m)
             (m_OpenclawVersion m) (rd_DefaultOpenClawVersion d),
           rx_MachineKind = NormalizeMachineKind (rd_MachineKind d),
           rx_VersionSource = (if derived = ''default'' \<and> m_VersionSource m \<noteq> None \<and> stored \<noteq> ''''
                               then stored else derived),
           rx_RuntimeSource = ''artifact''\<rparr>)"

definition MetadataSelection :: "runtime_resolution \<Rightarrow> runtime_selection" where
  "MetadataSelection r =
     (let hermes = (NormalizeMachineKind (rx_MachineKind r) = MachineKindHermes)
      in \<lparr>rs_Kind = (if hermes then MachineKindHermes else ''''),
           rs_ResolvedRootfsVersion = rx_ResolvedRootfsVersion r,
           rs_ResolvedOpenClawVersion = (if hermes then '''' else rx_ResolvedOpenClawVersion r),
           rs_ResolvedHermesVersion = (if hermes then rx_ResolvedOpenClawVersion r else ''''),
           rs_VersionSource = rx_VersionSource r, rs_RuntimeSource = rx_RuntimeSource r,
           rs_RootfsManifestURI = '''', rs_OpenClawBin = '''', rs_OpenClawBundledPluginsDir = '''',
           rs_OpenClawManifestURI = '''', rs_HermesBin = '''', rs_HermesVenvDir = '''',
           rs_HermesManifestURI = ''''\<rparr>)"

section \<open>Artifact lookups\<close>

definition latestArtifactVersion :: "string \<Rightarrow> string \<Rightarrow> (db, string) state" where
  "latestArtifactVersion kind channel = do {
     r \<leftarrow> GetLatestArtifactRelease kind channel;
     ret (case r of Inl _ \<Rightarrow> '''' | Inr a \<Rightarrow> trim_space (ar_Version a))
   }"

definition rootfsArtifactKind :: "string \<Rightarrow> string" where
  "rootfsArtifactKind kind =
     (if NormalizeMachineKind kind = MachineKindHermes then ''hermes-rootfs'' else ''rootfs'')"

definition runtimeArtifactKind :: "string \<Rightarrow> string" where
  "runtimeArtifactKind kind =
     (if NormalizeMachineKind kind = MachineKindHermes then ''hermes'' else ''openclaw'')"

record manifest_uris =
  mu_OpenClaw :: string
  mu_Hermes :: string
  mu_HermesRootfs :: string

definition resolveRuntimeSelection ::
  "manifest_uris \<Rightarrow> machine \<Rightarrow> string \<Rightarrow> (db, runtime_selection) state" where
  "resolveRuntimeSelection uris m rootfsDefault = do {
     r \<leftarrow> GetLatestArtifactRelease (runtimeArtifactKind (NormalizeMachineKind (m_Kind m))) ''stable'';
     let kind = NormalizeMachineKind (m_Kind m);
         dflt = (case r of Inl _ \<Rightarrow> '''' | Inr a \<Rightarrow> ar_Version a);
         sel = MetadataSelection (ResolveMachineRuntime m
                 \<lparr>rd_DefaultRootfsVersion = rootfsDefault, rd_DefaultOpenClawVersion = dflt,
                   rd_MachineKind = kind\<rparr>)
     in ret (if kind = MachineKindHermes
             then sel\<lparr>rs_Kind := kind, rs_RootfsManifestURI := mu_HermesRootfs uris,
                       rs_HermesManifestURI := mu_Hermes uris\<rparr>
             else sel\<lparr>rs_Kind := kind, rs_OpenClawManifestURI := mu_OpenClaw uris\<rparr>)
   }"

end
