(* ===== verification/Machine_Runtime.thy ===== *)
theory Machine_Runtime
  imports Fleet_Placement Routing Version_Resolver
begin

text \<open>
  \<open>internal/machines/runtime.go\<close>: the lifecycle of a machine (start, stop, upgrade, delete)
  and the poller that follows a VM until it runs. The phases that assemble the content of the
  boot request (secrets, credentials, seed configuration) write none of the tables of the model;
  what they return is the argument \<open>boot\<close>. The background poller is a job that
  \<open>start\<close> hands out and \<open>pollVMStatus\<close> runs later.
\<close>

section \<open>The service and its inputs\<close>

record runtime_service =
  rt_placement :: placement_config
  rt_agent :: "agent_client option"
  rt_tunnel :: "tunnel_manager option"
  rt_routing :: "routing_service option"
  rt_rootfsDataVersion :: int
  rt_cfSSHCAPubKey :: string
  rt_enableResolver :: bool
  rt_uris :: manifest_uris
  rt_version :: string

record start_options =
  so_TargetHostID :: int
  so_SkipPoll :: bool
  so_SkipVersionPersist :: bool

text \<open>What the boot phases return, and the random bytes that the call draws.\<close>

record seed_files =
  sd_OpenClawConf :: "json option"
  sd_HermesConfigYAML :: "json option"
  sd_HermesEnv :: "json option"
  sd_HermesAuthJSON :: "json option"
  sd_HermesSoul :: "json option"
  sd_Souls :: "json option"

definition no_seed :: seed_files where
  "no_seed = \<lparr>sd_OpenClawConf = None, sd_HermesConfigYAML = None, sd_HermesEnv = None,
     sd_HermesAuthJSON = None, sd_HermesSoul = None, sd_Souls = None\<rparr>"

record boot_phases =
  bt_loadSecrets :: "json option result"
  bt_loadCredentials :: "json option result"
  bt_loadOwnerEmails :: "string list"
  bt_assembleSeedConfig :: "seed_files result"
  bt_buildCustomProviders :: "json option result"

record entropy =
  en_draws :: "nat list"
  en_gateway :: "nat list result"
  en_proxy :: "nat list result"
  en_signing :: "nat list result"

record poll_job =
  pj_Host :: host
  pj_MachineID :: string
  pj_OperationID :: string
  pj_PlacementID :: string
  pj_IsRestart :: bool

section \<open>Operations\<close>

definition new_operation :: "string \<Rightarrow> string \<Rightarrow> machine_operation" where
  "new_operation mid kind = \<lparr>o_ID = '''', o_MachineID = mid, o_Kind = kind, o_State = '''',
     o_IdempotencyKey = None, o_ErrorCode = None, o_ErrorMessage = None, o_CreatedAt = 0,
     o_CompletedAt = None\<rparr>"

definition in_flight :: "machine_operation \<Rightarrow> go_error" where
  "in_flight op = ErrText (''machine has in-flight '' @ o_Kind op @ '' operation (id='' @ o_ID op @ '')'')"

definition requireActiveOperation ::
  "string \<Rightarrow> string \<Rightarrow> (world, machine_operation result) state" where
  "requireActiveOperation mid opid = do {
     r \<leftarrow> in_db (GetActiveMachineOperation mid);
     case r of
       Inl e \<Rightarrow> fail (wrap (''failed to get active operation for machine '' @ mid) e)
     | Inr op \<Rightarrow>
         if o_ID op \<noteq> opid
         then fail (ErrText (''machine '' @ mid @ '' active operation is '' @ o_Kind op @ '' ('' @ o_ID op @
                ''), expected '' @ opid))
         else ok op
   }"

text \<open>The operation of a start: created here, or the caller's, which must be the active one.\<close>

definition start_operation :: "string \<Rightarrow> string \<Rightarrow> (world, machine_operation result) state" where
  "start_operation mid callerOp =
     (if callerOp = '''' then do {
        r \<leftarrow> in_db (GetActiveMachineOperation mid);
        case r of
          Inr op \<Rightarrow> fail (in_flight op)
        | Inl _ \<Rightarrow> do {
            c \<leftarrow> in_db (CreateMachineOperation (new_operation mid ''start''));
            case c of Inl e \<Rightarrow> fail (wrap ''failed to create start operation'' e) | Inr op \<Rightarrow> ok op
          }
      }
      else requireActiveOperation mid callerOp)"

section \<open>Tokens and routes\<close>

definition ensure_tokens :: "entropy \<Rightarrow> machine \<Rightarrow> (world, machine result) state" where
  "ensure_tokens en m =
     (if m_GatewayToken m \<noteq> None \<and> m_ProxyToken m \<noteq> None then ok m
      else (case (case m_GatewayToken m of Some t \<Rightarrow> Inr t
                  | None \<Rightarrow> map_sum (wrap ''failed to generate gateway token'') hex_of (en_gateway en)) of
          Inl e \<Rightarrow> fail e
        | Inr gw \<Rightarrow>
            (case (case m_ProxyToken m of Some t \<Rightarrow> Inr t
                   | None \<Rightarrow> map_sum (wrap ''failed to generate proxy token'') hex_of (en_proxy en)) of
               Inl e \<Rightarrow> fail e
             | Inr px \<Rightarrow> do {
                 r \<leftarrow> in_db (SetMachineTokens (m_ID m) gw px);
                 case r of
                   Inl e \<Rightarrow> fail (wrap ''failed to store tokens'' e)
                 | Inr _ \<Rightarrow> ok (m\<lparr>m_GatewayToken := Some gw, m_ProxyToken := Some px\<rparr>)
               })))"

definition with_route :: "setup_result \<Rightarrow> machine \<Rightarrow> machine" where
  "with_route r m = m\<lparr>m_TunnelToken := sr_TunnelToken r,
     m_SigningKey := (if sr_SigningKey r \<noteq> '''' then Some (sr_SigningKey r) else m_SigningKey m),
     m_TunnelID := (if sr_TunnelID r \<noteq> '''' then Some (sr_TunnelID r) else m_TunnelID m),
     m_TunnelHostname := (if sr_VMHostname r \<noteq> '''' then Some (sr_VMHostname r) else m_TunnelHostname m)\<rparr>"

definition setup_machine_route ::
  "runtime_service \<Rightarrow> entropy \<Rightarrow> machine \<Rightarrow> (world, machine result) state" where
  "setup_machine_route rt en m = (case rt_routing rt of
     None \<Rightarrow> ok m
   | Some sv \<Rightarrow> do {
       r \<leftarrow> SetupRoute sv (en_signing en) (m_ID m) (m_Slug m);
       case r of
         Inl e \<Rightarrow> fail (wrap ''failed to setup route'' e)
       | Inr res \<Rightarrow> ok (with_route res m)
     })"

section \<open>Placement of a start\<close>

definition start_request :: "machine \<Rightarrow> string \<Rightarrow> int \<Rightarrow> placement_request" where
  "start_request m opid target =
     \<lparr>pr_VCPUs = m_VCPUs m, pr_MemoryMB = m_MemoryMB m,
       pr_DiskMB = (if 0 < m_DataVolumeGB m then (m_DataVolumeGB m + 3) * 1024 else 0),
       pr_Region = deref_or '''' (m_PreferredRegion m), pr_ExpectedImage = '''', pr_OperationID = opid,
       pr_TargetHostID = target, pr_RequireBrowserReflink = False\<rparr>"

definition start_selection ::
  "runtime_service \<Rightarrow> machine \<Rightarrow> (world, runtime_selection option) state" where
  "start_selection rt m =
     (let kind = NormalizeMachineKind (m_Kind m) in
      if rt_enableResolver rt \<or> kind = MachineKindHermes then do {
        rootfs \<leftarrow> in_db (latestArtifactVersion (rootfsArtifactKind kind) ''stable'');
        sel \<leftarrow> in_db (resolveRuntimeSelection (rt_uris rt) m rootfs);
        ret (Some sel)
      }
      else ret None)"

definition requireMigration :: "string \<Rightarrow> string \<Rightarrow> (world, 'a result) state" where
  "requireMigration mid reason = do {
     _ \<leftarrow> in_db (UpdateMachineStatus mid ''error'' (Some (''migration required: '' @ reason)));
     fail (ErrText (''migration required: '' @ reason))
   }"

text \<open>
  A targeted start goes to its host; a machine with a host restarts there or needs a migration;
  a machine that never ran is placed afresh.
\<close>

definition start_placement ::
  "runtime_service \<Rightarrow> entropy \<Rightarrow> machine \<Rightarrow> placement_request \<Rightarrow>
   (world, (placement option \<times> host \<times> string) result) state" where
  "start_placement rt en m req =
     (if pr_TargetHostID req \<noteq> 0 then do {
        r \<leftarrow> in_db (Reserve (rt_placement rt) (en_draws en) (m_ID m) req);
        case r of
          Inl e \<Rightarrow> fail (wrap (''failed to place on target host '' @ show_int (pr_TargetHostID req)) e)
        | Inr x \<Rightarrow> ok x
      }
      else (case m_HostID m of
          Some hid \<Rightarrow> do {
            g \<leftarrow> in_db (GetHost hid);
            case g of
              Inl e \<Rightarrow> fail (wrap (''failed to look up home host '' @ show_int hid) e)
            | Inr prev \<Rightarrow>
                if h_Status prev = ''terminated''
                then requireMigration (m_ID m) (''home host '' @ show_int hid @ '' terminated'')
                else if h_Status prev \<in> {''unreachable'', ''error'', ''draining''}
                then requireMigration (m_ID m) (''home host '' @ show_int hid @ '' is '' @ h_Status prev)
                else in_db (RecoverAffinity (rt_placement rt) (m_ID m) req)
          }
        | None \<Rightarrow>
            if m_ProvisioningCompletedAt m \<noteq> None
            then requireMigration (m_ID m) ''no host assigned to provisioned machine''
            else in_db (Reserve (rt_placement rt) (en_draws en) (m_ID m) req)))"

section \<open>A browser VM left behind\<close>

definition unpair_on_agent ::
  "runtime_service \<Rightarrow> machine \<Rightarrow> browser_vm option \<Rightarrow> (world, unit) state" where
  "unpair_on_agent rt m bvm = (case (rt_agent rt, bvm) of
     (Some c, Some b) \<Rightarrow>
       (case b_HostID b of
          None \<Rightarrow> ret ()
        | Some hid \<Rightarrow> do {
            g \<leftarrow> in_db (GetHost hid);
            case g of
              Inl e \<Rightarrow> ret ()
            | Inr old \<Rightarrow> do {
                _ \<leftarrow> (case (m_VMIP m, b_VMIP b) of
                        (Some ip, Some _) \<Rightarrow> in_net (UnpairBrowserVM_agent c old (b_ID b) ip)
                      | _ \<Rightarrow> ok ());
                _ \<leftarrow> in_net (ResetCDPTarget c old (m_ID m));
                ret ()
              }
          })
   | _ \<Rightarrow> ret ())"

definition auto_unpair :: "runtime_service \<Rightarrow> machine \<Rightarrow> host \<Rightarrow> (world, unit result) state" where
  "auto_unpair rt m h = (case m_BrowserVMID m of
     None \<Rightarrow> ok ()
   | Some bid \<Rightarrow> do {
       g \<leftarrow> in_db (GetBrowserVM bid);
       case g of
         Inl e \<Rightarrow>
           if \<not> errors_is e ErrNoRows
           then fail (wrap (''machine.start: look up paired browser VM '' @ bid) e)
           else do {
             _ \<leftarrow> unpair_on_agent rt m None;
             u \<leftarrow> in_db (UnpairBrowserVM (m_ID m));
             case u of
               Inl e2 \<Rightarrow> fail (wrap (''machine.start: auto-unpair browser VM '' @ bid) e2)
             | Inr _ \<Rightarrow> ok ()
           }
       | Inr b \<Rightarrow>
           if b_HostID b = Some (h_ID h) then ok ()
           else do {
             _ \<leftarrow> unpair_on_agent rt m (Some b);
             u \<leftarrow> in_db (UnpairBrowserVM (m_ID m));
             case u of
               Inl e2 \<Rightarrow> fail (wrap (''machine.start: auto-unpair browser VM '' @ bid) e2)
             | Inr _ \<Rightarrow> ok ()
           }
     })"

section \<open>Booting the VM\<close>

definition payload_of ::
  "json option \<Rightarrow> json option \<Rightarrow> string list \<Rightarrow> seed_files \<Rightarrow> json option \<Rightarrow> vm_payload" where
  "payload_of secrets keys emails sd providers =
     \<lparr>vp_Secrets = secrets, vp_LLMKeys = keys, vp_OwnerEmails = emails,
       vp_OpenClawConf = sd_OpenClawConf sd, vp_HermesConfigYAML = sd_HermesConfigYAML sd,
       vp_HermesEnv = sd_HermesEnv sd, vp_HermesAuthJSON = sd_HermesAuthJSON sd,
       vp_HermesSoul = sd_HermesSoul sd, vp_CustomProviders = providers, vp_Souls = sd_Souls sd\<rparr>"

text \<open>
  A refused creation gives the placement back, softly for a restart; the route of a first boot
  is removed with it.
\<close>

definition create_failed :: "runtime_service \<Rightarrow> machine \<Rightarrow> bool \<Rightarrow> (world, unit) state" where
  "create_failed rt m isRestart = do {
     _ \<leftarrow> in_db (Release (rt_placement rt) (m_ID m) (if isRestart then ReleaseSoft else ReleaseHard));
     (case (rt_tunnel rt, m_TunnelID m, rt_routing rt) of
        (Some tm, Some tid, Some sv) \<Rightarrow>
          if isRestart then ret () else do {
            _ \<leftarrow> in_net (DeleteTunnelAndDNS tm tid [fst (hostnames sv (m_Slug m)), snd (hostnames sv (m_Slug m))]);
            _ \<leftarrow> in_db (ClearMachineTunnel (m_ID m));
            ret ()
          }
      | _ \<Rightarrow> ret ())
   }"

definition boot_snapshot :: "runtime_selection option \<Rightarrow> host \<Rightarrow> string" where
  "boot_snapshot sel h = (case sel of
      Some s \<Rightarrow> if rs_ResolvedRootfsVersion s \<noteq> '''' then rs_ResolvedRootfsVersion s
                else deref_or '''' (h_SourceImage h)
    | None \<Rightarrow> deref_or '''' (h_SourceImage h))"

definition boot_version :: "string \<Rightarrow> runtime_selection option \<Rightarrow> string" where
  "boot_version build sel = (case sel of
      None \<Rightarrow> build
    | Some s \<Rightarrow> if rs_Kind s = MachineKindHermes \<and> rs_ResolvedHermesVersion s \<noteq> '''' then rs_ResolvedHermesVersion s
                else if rs_ResolvedOpenClawVersion s \<noteq> '''' then rs_ResolvedOpenClawVersion s else build)"

definition boot_vm ::
  "runtime_service \<Rightarrow> start_options \<Rightarrow> machine \<Rightarrow> string \<Rightarrow> string \<Rightarrow> runtime_selection option \<Rightarrow>
   vm_payload \<Rightarrow> placement option \<Rightarrow> host \<Rightarrow> string \<Rightarrow> (world, poll_job option result) state" where
  "boot_vm rt opts m callerOp opid sel vp pl h vmIP = (case rt_agent rt of
     None \<Rightarrow> ok None
   | Some c \<Rightarrow> do {
       _ \<leftarrow> in_net (DestroyVM c h (m_ID m));
       r \<leftarrow> in_net (CreateVM c h m vmIP (rt_rootfsDataVersion rt) (rt_cfSSHCAPubKey rt) vp sel);
       case r of
         Inl e \<Rightarrow> do {
           _ \<leftarrow> create_failed rt m (m_HostID m \<noteq> None);
           fail (wrap ''failed to create VM'' e)
         }
       | Inr _ \<Rightarrow> do {
           _ \<leftarrow> (if so_SkipVersionPersist opts then ok ()
                 else in_db (UpdateMachineVersion (m_ID m) (boot_snapshot sel h) (boot_version (rt_version rt) sel)));
           if so_SkipPoll opts then do {
             _ \<leftarrow> (if callerOp = '''' then in_db (CompleteMachineOperation opid ''completed'' None) else ok ());
             ok None
           }
           else ok (Some \<lparr>pj_Host = h, pj_MachineID = m_ID m,
                   pj_OperationID = (if callerOp = '''' then opid else ''''),
                   pj_PlacementID = (case pl of None \<Rightarrow> '''' | Some p \<Rightarrow> p_ID p),
                   pj_IsRestart = (m_HostID m \<noteq> None)\<rparr>)
         }
     })"

section \<open>Start\<close>

text \<open>What follows the placement: unpairing, the status, the boot.\<close>

definition start_on_host ::
  "runtime_service \<Rightarrow> boot_phases \<Rightarrow> start_options \<Rightarrow> machine \<Rightarrow> string \<Rightarrow> string \<Rightarrow> json option \<Rightarrow>
   json option \<Rightarrow> runtime_selection option \<Rightarrow> placement option \<Rightarrow> host \<Rightarrow> string \<Rightarrow>
   (world, (host \<times> string \<times> poll_job option) result) state" where
  "start_on_host rt boot opts m callerOp opid secrets keys sel pl h vmIP = do {
     u \<leftarrow> auto_unpair rt m h;
     case u of
       Inl e \<Rightarrow> fail e
     | Inr _ \<Rightarrow> do {
         _ \<leftarrow> (if m_HostID m \<noteq> None then in_db (UpdateMachineStatus (m_ID m) ''starting'' None) else ok ());
         case (if m_HostID m \<noteq> None then Inr no_seed else bt_assembleSeedConfig boot) of
           Inl e \<Rightarrow> fail e
         | Inr sd \<Rightarrow>
             (case bt_buildCustomProviders boot of
                Inl e \<Rightarrow> fail e
              | Inr providers \<Rightarrow> do {
                  b \<leftarrow> boot_vm rt opts m callerOp opid sel
                         (payload_of secrets keys (bt_loadOwnerEmails boot) sd providers) pl h vmIP;
                  case b of Inl e \<Rightarrow> fail e | Inr job \<Rightarrow> ok (h, vmIP, job)
                })
       }
   }"

definition start_body ::
  "runtime_service \<Rightarrow> entropy \<Rightarrow> boot_phases \<Rightarrow> start_options \<Rightarrow> machine \<Rightarrow> string \<Rightarrow> string \<Rightarrow>
   (world, (host \<times> string \<times> poll_job option) result) state" where
  "start_body rt en boot opts m0 callerOp opid = (case bt_loadSecrets boot of
     Inl e \<Rightarrow> fail e
   | Inr secrets \<Rightarrow> (case bt_loadCredentials boot of
       Inl e \<Rightarrow> fail e
     | Inr keys \<Rightarrow> do {
         t \<leftarrow> ensure_tokens en m0;
         case t of
           Inl e \<Rightarrow> fail e
         | Inr m1 \<Rightarrow> do {
             r \<leftarrow> setup_machine_route rt en m1;
             case r of
               Inl e \<Rightarrow> fail e
             | Inr m \<Rightarrow> do {
                 sel \<leftarrow> start_selection rt m;
                 p \<leftarrow> start_placement rt en m ((start_request m opid (so_TargetHostID opts))
                        \<lparr>pr_ExpectedImage := (case sel of None \<Rightarrow> '''' | Some s \<Rightarrow> rs_ResolvedRootfsVersion s)\<rparr>);
                 case p of
                   Inl e \<Rightarrow> fail e
                 | Inr (pl, h, vmIP) \<Rightarrow>
                     start_on_host rt boot opts m callerOp opid secrets keys sel pl h vmIP
               }
           }
       }))"

text \<open>The deferred function: a start that created its operation completes it when it fails.\<close>

definition start ::
  "runtime_service \<Rightarrow> entropy \<Rightarrow> boot_phases \<Rightarrow> machine \<Rightarrow> string \<Rightarrow> start_options \<Rightarrow>
   (world, (host \<times> string \<times> poll_job option) result) state" where
  "start rt en boot m callerOp opts = do {
     o1 \<leftarrow> start_operation (m_ID m) callerOp;
     case o1 of
       Inl e \<Rightarrow> fail e
     | Inr op \<Rightarrow> do {
         r \<leftarrow> start_body rt en boot opts m callerOp (o_ID op);
         case r of
           Inr x \<Rightarrow> ok x
         | Inl e \<Rightarrow> do {
             _ \<leftarrow> (if callerOp = '''' then in_db (CompleteMachineOperation (o_ID op) ''failed'' (Some (error_text e)))
                   else ok ());
             fail e
           }
       }
   }"

section \<open>Stop\<close>

definition account_slug :: "int \<Rightarrow> (world, string) state" where
  "account_slug acct = do {
     a \<leftarrow> in_db (GetAccount acct);
     ret (case a of Inl _ \<Rightarrow> '''' | Inr x \<Rightarrow> a_Slug x)
   }"

definition teardown_machine_route :: "runtime_service \<Rightarrow> machine \<Rightarrow> (world, unit) state" where
  "teardown_machine_route rt m = (case rt_routing rt of
     None \<Rightarrow> ret ()
   | Some sv \<Rightarrow> do {
       acct \<leftarrow> account_slug (m_AccountID m);
       _ \<leftarrow> TeardownRoute sv (m_ID m) (m_Slug m) acct (deref_or '''' (m_TunnelID m));
       ret ()
     })"

text \<open>
  A VM that could not be stopped on a reachable host keeps its resources; on a host that is
  unreachable or terminated the cleanup goes on.
\<close>

definition may_clean_up :: "host \<Rightarrow> bool" where
  "may_clean_up h \<longleftrightarrow> h_Status h \<in> {''unreachable'', ''terminated''}"

definition stop_vm_on_host :: "runtime_service \<Rightarrow> machine \<Rightarrow> (world, unit result) state" where
  "stop_vm_on_host rt m = (case (rt_agent rt, m_HostID m) of
     (Some c, Some hid) \<Rightarrow> do {
       g \<leftarrow> in_db (GetHost hid);
       case g of
         Inl _ \<Rightarrow> ok ()
       | Inr h \<Rightarrow> do {
           s \<leftarrow> in_net (StopVM c h (m_ID m));
           case s of
             Inr _ \<Rightarrow> ok ()
           | Inl e \<Rightarrow> if may_clean_up h then ok () else fail (wrap ''failed to stop VM (host reachable)'' e)
         }
     }
   | _ \<Rightarrow> ok ())"

definition stop_body :: "runtime_service \<Rightarrow> machine \<Rightarrow> (world, unit result) state" where
  "stop_body rt m = do {
     s \<leftarrow> stop_vm_on_host rt m;
     case s of
       Inl e \<Rightarrow> fail e
     | Inr _ \<Rightarrow> do {
         r \<leftarrow> in_db (Release (rt_placement rt) (m_ID m) ReleaseSoft);
         case r of
           Inl e \<Rightarrow> fail (wrap ''failed to release machine'' e)
         | Inr _ \<Rightarrow> do {
             _ \<leftarrow> teardown_machine_route rt m;
             u \<leftarrow> in_db (UpdateMachineStatus (m_ID m) ''stopped'' None);
             case u of
               Inl e \<Rightarrow> fail (wrap ''failed to set machine status to stopped'' e)
             | Inr _ \<Rightarrow> ok ()
           }
       }
   }"

text \<open>The deferred completion records the outcome of the body.\<close>

definition complete_with :: "string \<Rightarrow> unit result \<Rightarrow> (world, unit result) state" where
  "complete_with opid r = do {
     _ \<leftarrow> in_db (case r of
              Inl e \<Rightarrow> CompleteMachineOperation opid ''failed'' (Some (error_text e))
            | Inr _ \<Rightarrow> CompleteMachineOperation opid ''completed'' None);
     ret r
   }"

definition stop :: "runtime_service \<Rightarrow> machine \<Rightarrow> string \<Rightarrow> (world, unit result) state" where
  "stop rt m callerOp =
     (if callerOp = '''' then do {
        r \<leftarrow> in_db (GetActiveMachineOperation (m_ID m));
        case r of
          Inr op \<Rightarrow>
            if o_Kind op = ''stop'' then do {
              _ \<leftarrow> (if m_Status m \<noteq> ''stopped'' then in_db (UpdateMachineStatus (m_ID m) ''stopped'' None)
                    else ok ());
              ok ()
            }
            else fail (in_flight op)
        | Inl _ \<Rightarrow> do {
            c \<leftarrow> in_db (CreateMachineOperation (new_operation (m_ID m) ''stop''));
            case c of
              Inl e \<Rightarrow> fail (wrap ''failed to create stop operation'' e)
            | Inr op \<Rightarrow> do { b \<leftarrow> stop_body rt m; complete_with (o_ID op) b }
          }
      }
      else do {
        o1 \<leftarrow> requireActiveOperation (m_ID m) callerOp;
        case o1 of Inl e \<Rightarrow> fail e | Inr _ \<Rightarrow> stop_body rt m
      })"

definition StopForUpdate :: "runtime_service \<Rightarrow> machine \<Rightarrow> (world, unit result) state" where
  "StopForUpdate rt m = do {
     s \<leftarrow> (case (rt_agent rt, m_HostID m) of
        (Some c, Some hid) \<Rightarrow> do {
          g \<leftarrow> in_db (GetHost hid);
          case g of
            Inl e \<Rightarrow> fail (wrap ''failed to look up host for VM stop'' e)
          | Inr h \<Rightarrow> do {
              v \<leftarrow> in_net (StopVM c h (m_ID m));
              case v of
                Inr _ \<Rightarrow> ok ()
              | Inl e \<Rightarrow> if may_clean_up h then ok () else fail (wrap ''failed to stop VM (host reachable)'' e)
            }
        }
      | _ \<Rightarrow> ok ());
     case s of
       Inl e \<Rightarrow> fail e
     | Inr _ \<Rightarrow> do {
         r \<leftarrow> in_db (Release (rt_placement rt) (m_ID m) ReleaseSoft);
         case r of
           Inl e \<Rightarrow> fail (wrap ''failed to release machine'' e)
         | Inr _ \<Rightarrow> do {
             u \<leftarrow> in_db (UpdateMachineStatus (m_ID m) ''stopped'' None);
             case u of
               Inl e \<Rightarrow> fail (wrap ''failed to set machine status to stopped'' e)
             | Inr _ \<Rightarrow> ok ()
           }
       }
   }"

section \<open>Upgrade in place\<close>

definition upgrade_selection ::
  "runtime_service \<Rightarrow> machine \<Rightarrow> (world, runtime_selection option) state" where
  "upgrade_selection rt m =
     (let kind = NormalizeMachineKind (m_Kind m);
          known = firstNonEmptyPtr [m_ActualRootfsVersion m, m_ResolvedRootfsVersion m, m_RootfsSnapshot m] in
      if rt_enableResolver rt \<or> kind = MachineKindHermes then do {
        rootfs \<leftarrow> (if known \<noteq> '''' then ret known
                    else in_db (latestArtifactVersion (rootfsArtifactKind kind) ''stable''));
        sel \<leftarrow> in_db (resolveRuntimeSelection (rt_uris rt) m rootfs);
        ret (Some sel)
      }
      else ret None)"

text \<open>The last steps: the status goes to \<open>starting\<close>, and back when the agent refuses.\<close>

definition upgrade_vm ::
  "runtime_service \<Rightarrow> machine \<Rightarrow> host \<Rightarrow> string \<Rightarrow> vm_payload \<Rightarrow> runtime_selection option \<Rightarrow>
   (world, (host \<times> string) result) state" where
  "upgrade_vm rt m h vmIP vp sel = do {
     _ \<leftarrow> in_db (UpdateMachineStatus (m_ID m) ''starting'' None);
     case rt_agent rt of
       None \<Rightarrow> ok (h, vmIP)
     | Some c \<Rightarrow> do {
         r \<leftarrow> in_net (UpgradeVM c h m vmIP (rt_rootfsDataVersion rt) (rt_cfSSHCAPubKey rt) vp sel);
         case r of
           Inr _ \<Rightarrow> ok (h, vmIP)
         | Inl e \<Rightarrow> do {
             _ \<leftarrow> in_db (UpdateMachineStatus (m_ID m) (m_Status m) None);
             fail (wrap ''failed to upgrade VM'' e)
           }
       }
   }"

definition upgrade_on_host ::
  "runtime_service \<Rightarrow> entropy \<Rightarrow> boot_phases \<Rightarrow> machine \<Rightarrow> host \<Rightarrow> string \<Rightarrow>
   (world, (host \<times> string) result) state" where
  "upgrade_on_host rt en boot m0 h vmIP = (case bt_loadSecrets boot of
     Inl e \<Rightarrow> fail e
   | Inr secrets \<Rightarrow> (case bt_loadCredentials boot of
       Inl e \<Rightarrow> fail e
     | Inr keys \<Rightarrow> do {
         t \<leftarrow> ensure_tokens en m0;
         case t of
           Inl e \<Rightarrow> fail e
         | Inr m1 \<Rightarrow> do {
             r \<leftarrow> (if m_TunnelToken m1 = '''' then setup_machine_route rt en m1 else ok m1);
             case r of
               Inl e \<Rightarrow> fail e
             | Inr m \<Rightarrow>
                 (case bt_buildCustomProviders boot of
                    Inl e \<Rightarrow> fail e
                  | Inr providers \<Rightarrow> do {
                      sel \<leftarrow> upgrade_selection rt m;
                      upgrade_vm rt m h vmIP
                        (payload_of secrets keys (bt_loadOwnerEmails boot) no_seed providers) sel
                    })
           }
       }))"

definition UpgradeWithOperation ::
  "runtime_service \<Rightarrow> entropy \<Rightarrow> boot_phases \<Rightarrow> machine \<Rightarrow> string \<Rightarrow>
   (world, (host \<times> string) result) state" where
  "UpgradeWithOperation rt en boot m opid = (case m_HostID m of
     None \<Rightarrow> fail (ErrText ''machine has no host assignment'')
   | Some hid \<Rightarrow>
       if deref_or '''' (m_VMIP m) = '''' then fail (ErrText ''machine has no VM IP assignment'')
       else do {
         o1 \<leftarrow> requireActiveOperation (m_ID m) opid;
         case o1 of
           Inl e \<Rightarrow> fail e
         | Inr _ \<Rightarrow> do {
             g \<leftarrow> in_db (GetHost hid);
             case g of
               Inl e \<Rightarrow> fail (wrap ''look up host'' e)
             | Inr h \<Rightarrow>
                 if h_Status h \<in> {''terminated'', ''unreachable'', ''error'', ''draining''}
                 then fail (ErrText (''host '' @ show_int (h_ID h) @ '' is '' @ h_Status h))
                 else upgrade_on_host rt en boot m h (deref_or '''' (m_VMIP m))
           }
       })"

section \<open>Delete\<close>

text \<open>
  The backup objects of the machine, which the store lists, are the argument \<open>backups\<close>; the
  objects are removed through the agent before the row goes.
\<close>

definition delete_operation :: "machine \<Rightarrow> (world, machine_operation result) state" where
  "delete_operation m = do {
     r \<leftarrow> in_db (GetActiveMachineOperation (m_ID m));
     blocked \<leftarrow> (case r of
        Inl _ \<Rightarrow> ret None
      | Inr op \<Rightarrow>
          if o_Kind op = ''stop'' \<and> m_Status m = ''stopped'' then do {
            _ \<leftarrow> in_db (CompleteMachineOperation (o_ID op) ''completed'' None);
            ret None
          }
          else ret (Some (in_flight op)));
     case blocked of
       Some e \<Rightarrow> fail e
     | None \<Rightarrow> do {
         c \<leftarrow> in_db (CreateMachineOperation (new_operation (m_ID m) ''delete''));
         case c of Inl e \<Rightarrow> fail (wrap ''failed to create delete operation'' e) | Inr op \<Rightarrow> ok op
       }
   }"

definition destroy_on_host :: "runtime_service \<Rightarrow> machine \<Rightarrow> (world, unit result) state" where
  "destroy_on_host rt m = (case m_HostID m of
     None \<Rightarrow> ok ()
   | Some hid \<Rightarrow> do {
       d \<leftarrow> (case rt_agent rt of
          None \<Rightarrow> ok ()
        | Some c \<Rightarrow> do {
            g \<leftarrow> in_db (GetHost hid);
            case g of
              Inl _ \<Rightarrow> ok ()
            | Inr h \<Rightarrow> do {
                v \<leftarrow> in_net (DestroyVM c h (m_ID m));
                case v of
                  Inr _ \<Rightarrow> ok ()
                | Inl e \<Rightarrow> if may_clean_up h then ok () else fail (wrap ''failed to destroy VM (host reachable)'' e)
              }
          });
       case d of
         Inl e \<Rightarrow> fail e
       | Inr _ \<Rightarrow> do { _ \<leftarrow> in_db (Release (rt_placement rt) (m_ID m) ReleaseHard); ok () }
     })"

definition delete_backups :: "runtime_service \<Rightarrow> machine \<Rightarrow> string list result \<Rightarrow> (world, unit) state" where
  "delete_backups rt m backups = (case (rt_agent rt, m_HostID m) of
     (Some c, Some hid) \<Rightarrow> do {
       g \<leftarrow> in_db (GetHost hid);
       case g of
         Inl _ \<Rightarrow> ret ()
       | Inr h \<Rightarrow> (case backups of
           Inl _ \<Rightarrow> ret ()
         | Inr paths \<Rightarrow> for_each (\<lambda>p. in_net (DeleteBackupObject c h (m_ID m) p)) paths)
     }
   | _ \<Rightarrow> ret ())"

definition delete_body ::
  "runtime_service \<Rightarrow> string list result \<Rightarrow> machine \<Rightarrow> (world, unit result) state" where
  "delete_body rt backups m = do {
     d \<leftarrow> destroy_on_host rt m;
     case d of
       Inl e \<Rightarrow> fail e
     | Inr _ \<Rightarrow> do {
         _ \<leftarrow> teardown_machine_route rt m;
         _ \<leftarrow> delete_backups rt m backups;
         in_db (DeleteMachine (m_ID m))
       }
   }"

definition Delete ::
  "runtime_service \<Rightarrow> string list result \<Rightarrow> machine \<Rightarrow> (world, unit result) state" where
  "Delete rt backups m = do {
     o1 \<leftarrow> delete_operation m;
     case o1 of
       Inl e \<Rightarrow> fail e
     | Inr op \<Rightarrow> do { b \<leftarrow> delete_body rt backups m; complete_with (o_ID op) b }
   }"

section \<open>The poller\<close>

definition completeOperation :: "string \<Rightarrow> string \<Rightarrow> string option \<Rightarrow> (world, unit) state" where
  "completeOperation opid st msg =
     (if opid = '''' then ret () else do { _ \<leftarrow> in_db (CompleteMachineOperation opid st msg); ret () })"

definition releaseMachine :: "runtime_service \<Rightarrow> poll_job \<Rightarrow> (world, unit) state" where
  "releaseMachine rt job = do {
     _ \<leftarrow> in_db (Release (rt_placement rt) (pj_MachineID job)
            (if pj_IsRestart job then ReleaseSoft else ReleaseHard));
     ret ()
   }"

definition cleanupTunnel :: "runtime_service \<Rightarrow> poll_job \<Rightarrow> (world, unit) state" where
  "cleanupTunnel rt job =
     (if pj_IsRestart job then ret ()
      else (case rt_routing rt of
          None \<Rightarrow> ret ()
        | Some sv \<Rightarrow> do {
            g \<leftarrow> in_db (GetMachine (pj_MachineID job));
            case g of
              Inl _ \<Rightarrow> ret ()
            | Inr m \<Rightarrow> teardown_machine_route rt m
          }))"

text \<open>The four failure paths end alike: record the operation, release, remove the route.\<close>

definition poll_give_up :: "runtime_service \<Rightarrow> poll_job \<Rightarrow> string \<Rightarrow> (world, unit) state" where
  "poll_give_up rt job msg = do {
     _ \<leftarrow> completeOperation (pj_OperationID job) ''failed'' (Some msg);
     _ \<leftarrow> releaseMachine rt job;
     cleanupTunnel rt job
   }"

definition poll_failed :: "runtime_service \<Rightarrow> poll_job \<Rightarrow> string \<Rightarrow> string \<Rightarrow> (world, unit) state" where
  "poll_failed rt job status msg = do {
     _ \<leftarrow> in_db (UpdateMachineStatus (pj_MachineID job) status (Some msg));
     poll_give_up rt job msg
   }"

text \<open>
  The deadline has passed: the status update uses the expired context, so the driver returns
  without reaching the database; the other calls use a fresh one.
\<close>

definition poll_timeout :: "runtime_service \<Rightarrow> poll_job \<Rightarrow> go_error option \<Rightarrow> (world, unit) state" where
  "poll_timeout rt job lastErr = poll_give_up rt job
     (case lastErr of
        None \<Rightarrow> ''timeout waiting for VM to become running''
      | Some e \<Rightarrow> ''timeout: last error was: '' @ error_text e)"

text \<open>Publishing the route of a running machine; nothing to do without a route or a tunnel URL.\<close>

definition publish_route :: "runtime_service \<Rightarrow> poll_job \<Rightarrow> (world, unit result) state" where
  "publish_route rt job = (case rt_routing rt of
     None \<Rightarrow> ok ()
   | Some sv \<Rightarrow> do {
       g \<leftarrow> in_db (GetMachine (pj_MachineID job));
       case g of
         Inl _ \<Rightarrow> ok ()
       | Inr m \<Rightarrow> (case h_TunnelURL (pj_Host job) of
           None \<Rightarrow> ok ()
         | Some url \<Rightarrow> do {
             a \<leftarrow> in_db (GetAccount (m_AccountID m));
             case a of
               Inl _ \<Rightarrow> ok ()
             | Inr acct \<Rightarrow> SyncRouteToKV sv (a_Slug acct) (m_Slug m) (m_ID m) url
                              (deref_or '''' (m_ProxyToken m))
           })
     })"

definition poll_running :: "runtime_service \<Rightarrow> agent_client \<Rightarrow> poll_job \<Rightarrow> (world, unit) state" where
  "poll_running rt c job = do {
     s \<leftarrow> publish_route rt job;
     case s of
       Inl e \<Rightarrow> do {
         _ \<leftarrow> in_db (UpdateMachineStatus (pj_MachineID job) ''error'' (Some (''KV sync failed: '' @ error_text e)));
         _ \<leftarrow> completeOperation (pj_OperationID job) ''failed'' (Some (''KV sync failed: '' @ error_text e));
         _ \<leftarrow> in_net (StopVM c (pj_Host job) (pj_MachineID job));
         _ \<leftarrow> releaseMachine rt job;
         cleanupTunnel rt job
       }
     | Inr _ \<Rightarrow> do {
         _ \<leftarrow> (if pj_PlacementID job \<noteq> '''' then in_db (Activate (pj_PlacementID job)) else ok ());
         _ \<leftarrow> in_db (UpdateMachineStatus (pj_MachineID job) ''running'' None);
         completeOperation (pj_OperationID job) ''completed'' None
       }
   }"

text \<open>
  The loop. \<open>n\<close> is the number of polls that fit before the deadline of three minutes: with
  three seconds between polls never more than sixty, and fewer when the agent is slow. The loop
  ends with the deadline when they are used up.
\<close>

fun poll_loop ::
  "runtime_service \<Rightarrow> agent_client \<Rightarrow> poll_job \<Rightarrow> nat \<Rightarrow> nat \<Rightarrow> go_error option \<Rightarrow> (world, unit) state" where
  "poll_loop rt c job 0 errs lastErr = poll_timeout rt job lastErr"
| "poll_loop rt c job (Suc n) errs lastErr = do {
     v \<leftarrow> in_net (GetVM c (pj_Host job) (pj_MachineID job));
     case v of
       Inl e \<Rightarrow>
         if 30 \<le> Suc errs
         then poll_failed rt job ''error'' (''failed to poll VM status: '' @ error_text e)
         else poll_loop rt c job n (Suc errs) (Some e)
     | Inr vm \<Rightarrow>
         if vr_Status vm = ''running'' then poll_running rt c job
         else if vr_Status vm = ''error''
         then poll_failed rt job ''error''
                (if vr_ErrorMessage vm = '''' then ''VM creation failed'' else vr_ErrorMessage vm)
         else if vr_Status vm = ''stopped''
         then poll_failed rt job ''stopped'' ''VM stopped unexpectedly during creation''
         else poll_loop rt c job n 0 lastErr
   }"

definition pollVMStatus ::
  "runtime_service \<Rightarrow> agent_client \<Rightarrow> nat \<Rightarrow> poll_job \<Rightarrow> (world, unit) state" where
  "pollVMStatus rt c n job = poll_loop rt c job n 0 None"

section \<open>Cleanup for the reconciler\<close>

definition CleanupMachineRouteAndTunnel ::
  "runtime_service \<Rightarrow> string \<Rightarrow> (world, unit result) state" where
  "CleanupMachineRouteAndTunnel rt mid = do {
     g \<leftarrow> in_db (GetMachine mid);
     case g of
       Inl e \<Rightarrow> fail (wrap ''get machine'' e)
     | Inr m \<Rightarrow> do { _ \<leftarrow> teardown_machine_route rt m; ok () }
   }"

section \<open>The lifecycle keeps the contract of the store\<close>

context vm_session
begin

lemma lookups_keep:
  "triple (\<lambda>w. I (w_db w)) (in_db (latestArtifactVersion k ch)) (\<lambda>_. True)"
  "triple (\<lambda>w. I (w_db w)) (in_db (resolveRuntimeSelection uris m rootfs)) (\<lambda>_. True)"
  unfolding latestArtifactVersion_def resolveRuntimeSelection_def
  by (rule triple_rules keeps_in_db session_keeps | simp)+

lemmas world_keeps = triple_rules keeps_in_net lookups_keep keeps_in_db session_keeps
  placement_keeps routing_keeps

lemma teardown_machine_route_keeps:
  "triple (\<lambda>w. I (w_db w)) (teardown_machine_route rt m) (\<lambda>_. True)"
  unfolding teardown_machine_route_def account_slug_def by (rule world_keeps | simp)+

lemma requireActiveOperation_keeps:
  "triple (\<lambda>w. I (w_db w)) (requireActiveOperation mid opid) (\<lambda>_. True)"
  unfolding requireActiveOperation_def by (rule world_keeps | simp)+

text \<open>Tokens and route leave the size of the machine record alone.\<close>

abbreviation same_size :: "machine \<Rightarrow> machine \<Rightarrow> bool" where
  "same_size a b \<equiv> m_VCPUs b = m_VCPUs a \<and> m_MemoryMB b = m_MemoryMB a \<and>
     m_DataVolumeGB b = m_DataVolumeGB a"

lemma ensure_tokens_keeps:
  "triple (\<lambda>w. I (w_db w)) (ensure_tokens en m) (\<lambda>r. \<forall>m'. r = Inr m' \<longrightarrow> same_size m m')"
  unfolding ensure_tokens_def by (rule world_keeps | simp)+

lemma setup_machine_route_keeps:
  "triple (\<lambda>w. I (w_db w)) (setup_machine_route rt en m) (\<lambda>r. \<forall>m'. r = Inr m' \<longrightarrow> same_size m m')"
  unfolding setup_machine_route_def by (rule world_keeps | simp add: with_route_def)+

lemma start_selection_keeps: "triple (\<lambda>w. I (w_db w)) (start_selection rt m) (\<lambda>_. True)"
  unfolding start_selection_def by (rule world_keeps | simp)+

lemma auto_unpair_keeps: "triple (\<lambda>w. I (w_db w)) (auto_unpair rt m h) (\<lambda>_. True)"
  unfolding auto_unpair_def unpair_on_agent_def by (rule world_keeps | simp)+

lemma start_placement_keeps:
  assumes "pr_TargetHostID req \<noteq> 0 \<Longrightarrow> S (pr_VCPUs req) (pr_MemoryMB req) (disk_for (rt_placement rt) req)"
  shows "triple (\<lambda>w. I (w_db w)) (start_placement rt en m req) (\<lambda>_. True)"
  unfolding start_placement_def requireMigration_def
  by (rule world_keeps Reserve_keeps [OF assms] | simp)+

lemma boot_vm_keeps:
  assumes "0 \<le> pc_DefaultDiskPerVM (rt_placement rt)"
  shows "triple (\<lambda>w. I (w_db w)) (boot_vm rt opts m callerOp opid sel vp pl h vmIP) (\<lambda>_. True)"
  unfolding boot_vm_def create_failed_def
  by (rule world_keeps Release_keeps [OF assms] | simp)+

lemma start_on_host_keeps:
  assumes "0 \<le> pc_DefaultDiskPerVM (rt_placement rt)"
  shows "triple (\<lambda>w. I (w_db w))
    (start_on_host rt boot opts m callerOp opid secrets keys sel pl h vmIP) (\<lambda>_. True)"
  unfolding start_on_host_def
  by (rule world_keeps auto_unpair_keeps boot_vm_keeps [OF assms] | simp)+

text \<open>A size that a start may hand to a targeted placement.\<close>

abbreviation placeable :: "machine \<Rightarrow> bool" where
  "placeable m \<equiv> (\<forall>d. 0 \<le> d \<longrightarrow> S (m_VCPUs m) (m_MemoryMB m) d)"

lemma start_body_keeps:
  assumes disk: "0 \<le> pc_DefaultDiskPerVM (rt_placement rt)"
    and size: "so_TargetHostID opts \<noteq> 0 \<Longrightarrow> placeable m0"
  shows "triple (\<lambda>w. I (w_db w)) (start_body rt en boot opts m0 callerOp opid) (\<lambda>_. True)"
proof -
  have place: "triple (\<lambda>w. I (w_db w)) (start_placement rt en m
      ((start_request m opid (so_TargetHostID opts))\<lparr>pr_ExpectedImage := img\<rparr>)) (\<lambda>_. True)"
    if "same_size m0 m" for m img
    using that disk size
    by (intro start_placement_keeps) (auto simp: start_request_def disk_for_def)
  show ?thesis
    unfolding start_body_def
    by (rule triple_bind [OF ensure_tokens_keeps] triple_bind [OF setup_machine_route_keeps]
        place start_selection_keeps start_on_host_keeps [OF disk] world_keeps | simp)+
qed

lemma StopForUpdate_keeps:
  assumes "0 \<le> pc_DefaultDiskPerVM (rt_placement rt)"
  shows "triple (\<lambda>w. I (w_db w)) (StopForUpdate rt m) (\<lambda>_. True)"
  unfolding StopForUpdate_def by (rule world_keeps Release_keeps [OF assms] | simp)+

lemma any_tokens_route_keeps:
  "triple (\<lambda>w. I (w_db w)) (ensure_tokens en m) (\<lambda>_. True)"
  "triple (\<lambda>w. I (w_db w)) (setup_machine_route rt en m) (\<lambda>_. True)"
  by (rule triple_weaken [OF ensure_tokens_keeps] triple_weaken [OF setup_machine_route_keeps], rule TrueI)+

lemma Upgrade_keeps:
  "triple (\<lambda>w. I (w_db w)) (UpgradeWithOperation rt en boot m opid) (\<lambda>_. True)"
  unfolding UpgradeWithOperation_def upgrade_on_host_def upgrade_selection_def upgrade_vm_def
  by (rule world_keeps any_tokens_route_keeps requireActiveOperation_keeps | simp)+

lemma poll_exits_keep:
  assumes "0 \<le> pc_DefaultDiskPerVM (rt_placement rt)"
  shows "triple (\<lambda>w. I (w_db w)) (poll_give_up rt job msg) (\<lambda>_. True)"
    and "triple (\<lambda>w. I (w_db w)) (poll_failed rt job st msg) (\<lambda>_. True)"
    and "triple (\<lambda>w. I (w_db w)) (poll_running rt c job) (\<lambda>_. True)"
  unfolding poll_failed_def poll_running_def poll_give_up_def completeOperation_def
    releaseMachine_def cleanupTunnel_def publish_route_def
  by (rule world_keeps Release_keeps [OF assms] teardown_machine_route_keeps | simp)+

lemma pollVMStatus_keeps:
  assumes "0 \<le> pc_DefaultDiskPerVM (rt_placement rt)"
  shows "triple (\<lambda>w. I (w_db w)) (pollVMStatus rt c n job) (\<lambda>_. True)"
proof -
  have "triple (\<lambda>w. I (w_db w)) (poll_loop rt c job n errs lastErr) (\<lambda>_. True)" for errs lastErr
    by (induction n arbitrary: errs lastErr)
       (simp_all only: poll_loop.simps poll_timeout_def poll_exits_keep [OF assms],
        (rule triple_rules keeps_in_net poll_exits_keep [OF assms] | assumption)+)
  then show ?thesis unfolding pollVMStatus_def .
qed

lemma CleanupMachineRouteAndTunnel_keeps:
  "triple (\<lambda>w. I (w_db w)) (CleanupMachineRouteAndTunnel rt mid) (\<lambda>_. True)"
  unfolding CleanupMachineRouteAndTunnel_def
  by (rule world_keeps teardown_machine_route_keeps | simp)+

lemma complete_with_keeps: "triple (\<lambda>w. I (w_db w)) (complete_with opid r) (\<lambda>_. True)"
  unfolding complete_with_def by (cases r) (simp, (rule world_keeps | simp)+)+

lemma stop_body_keeps:
  assumes "0 \<le> pc_DefaultDiskPerVM (rt_placement rt)"
  shows "triple (\<lambda>w. I (w_db w)) (stop_body rt m) (\<lambda>_. True)"
  unfolding stop_body_def stop_vm_on_host_def
  by (rule world_keeps Release_keeps [OF assms] teardown_machine_route_keeps | simp)+

text \<open>Calls that run under the operation of their caller.\<close>

lemma start_under_operation_keeps:
  assumes "0 \<le> pc_DefaultDiskPerVM (rt_placement rt)" "callerOp \<noteq> ''''"
    and "so_TargetHostID opts \<noteq> 0 \<Longrightarrow> placeable m"
  shows "triple (\<lambda>w. I (w_db w)) (start rt en boot m callerOp opts) (\<lambda>_. True)"
  unfolding start_def start_operation_def
  by (rule start_body_keeps [OF assms(1,3)] requireActiveOperation_keeps world_keeps | simp add: assms(2))+

lemma stop_under_operation_keeps:
  assumes "0 \<le> pc_DefaultDiskPerVM (rt_placement rt)" "callerOp \<noteq> ''''"
  shows "triple (\<lambda>w. I (w_db w)) (stop rt m callerOp) (\<lambda>_. True)"
  unfolding stop_def
  by (rule stop_body_keeps [OF assms(1)] requireActiveOperation_keeps world_keeps | simp add: assms(2))+

end

context store_session
begin

lemma delete_body_keeps:
  assumes "0 \<le> pc_DefaultDiskPerVM (rt_placement rt)"
  shows "triple (\<lambda>w. I (w_db w)) (delete_body rt backups m) (\<lambda>_. True)"
  unfolding delete_body_def destroy_on_host_def delete_backups_def
  by (rule keeps_in_db [OF DeleteMachine_keeps] world_keeps Release_keeps [OF assms] teardown_machine_route_keeps | simp)+

end

text \<open>The handlers that open an operation of their own.\<close>

context store_contract
begin

lemma start_operation_keeps:
  "triple (\<lambda>w. I (w_db w)) (start_operation mid callerOp) (\<lambda>_. True)"
  unfolding start_operation_def by (rule keeps_in_db store_keeps world_keeps requireActiveOperation_keeps | simp)+

lemma start_keeps:
  assumes "0 \<le> pc_DefaultDiskPerVM (rt_placement rt)"
    and "so_TargetHostID opts \<noteq> 0 \<Longrightarrow> placeable m"
  shows "triple (\<lambda>w. I (w_db w)) (start rt en boot m callerOp opts) (\<lambda>_. True)"
  unfolding start_def
  by (rule start_operation_keeps start_body_keeps [OF assms] world_keeps | simp)+

lemma stop_keeps:
  assumes "0 \<le> pc_DefaultDiskPerVM (rt_placement rt)"
  shows "triple (\<lambda>w. I (w_db w)) (stop rt m callerOp) (\<lambda>_. True)"
  unfolding stop_def
  by (rule keeps_in_db store_keeps world_keeps stop_body_keeps [OF assms] complete_with_keeps
      requireActiveOperation_keeps | simp)+

lemma Delete_keeps:
  assumes "0 \<le> pc_DefaultDiskPerVM (rt_placement rt)"
  shows "triple (\<lambda>w. I (w_db w)) (Delete rt backups m) (\<lambda>_. True)"
  unfolding Delete_def delete_operation_def
  by (rule keeps_in_db store_keeps world_keeps delete_body_keeps [OF assms] complete_with_keeps | simp)+

end

end
