(* ===== verification/Samples.thy ===== *)
theory Samples
  imports Store_Steps Machine_Runtime
begin

text \<open>
  A small control plane on which the statements of the development are instantiated: one account,
  one host with room and one stopped machine, with the services that run on them.
\<close>

section \<open>Sample data\<close>

definition sample_host :: host where
  "sample_host = zero_host\<lparr>h_ID := 1, h_Status := ''ready'', h_Region := ''us'', h_Provider := ''gcp'',
     h_CapacityVCPUs := 8, h_CapacityMemoryMB := 16384, h_CapacityDiskMB := 100000,
     h_LastHeartbeat := Some 0, h_ExternalIP := Some ''10.0.0.1''\<rparr>"

definition sample_machine :: machine where
  "sample_machine = zero_machine\<lparr>m_ID := uuid_of 0, m_AccountID := 7, m_Kind := ''openclaw'',
     m_Slug := ''web'', m_Status := ''stopped'', m_VCPUs := 2, m_MemoryMB := 4096, m_DataVolumeGB := 5,
     m_RuntimeSource := Some ''artifact'', m_GatewayToken := Some ''g'', m_ProxyToken := Some ''p''\<rparr>"

definition sample_account :: account where
  "sample_account = \<lparr>a_ID = 7, a_Name = ''Acme'', a_Slug = ''acme'', a_CreatedBy = 1, a_CreatedAt = 0\<rparr>"

definition sample_db :: db where
  "sample_db = empty_db\<lparr>hosts := [sample_host], machines := [sample_machine],
     accounts := [sample_account], db_uuids := 1, db_serial := 2\<rparr>"

definition sample_config :: placement_config where
  "sample_config = \<lparr>pc_DefaultRegion = ''us'', pc_ExpectedImage = '''', pc_Strategy = Spread,
     pc_DefaultDiskPerVM = 8192\<rparr>"

definition sample_request :: placement_request where
  "sample_request = \<lparr>pr_VCPUs = 2, pr_MemoryMB = 4096, pr_DiskMB = 8192, pr_Region = '''',
     pr_ExpectedImage = '''', pr_OperationID = '''', pr_TargetHostID = 0, pr_RequireBrowserReflink = False\<rparr>"

definition sample_service :: runtime_service where
  "sample_service = \<lparr>rt_placement = sample_config, rt_agent = None, rt_tunnel = None, rt_routing = None,
     rt_rootfsDataVersion = 1, rt_cfSSHCAPubKey = '''', rt_enableResolver = False,
     rt_uris = \<lparr>mu_OpenClaw = '''', mu_Hermes = '''', mu_HermesRootfs = ''''\<rparr>, rt_version = ''dev''\<rparr>"

definition sample_boot :: boot_phases where
  "sample_boot = \<lparr>bt_loadSecrets = Inr None, bt_loadCredentials = Inr None, bt_loadOwnerEmails = [],
     bt_assembleSeedConfig = Inr no_seed, bt_buildCustomProviders = Inr None\<rparr>"

definition sample_entropy :: entropy where
  "sample_entropy = \<lparr>en_draws = [], en_gateway = Inr [], en_proxy = Inr [], en_signing = Inr []\<rparr>"

definition sample_options :: start_options where
  "sample_options = \<lparr>so_TargetHostID = 0, so_SkipPoll = False, so_SkipVersionPersist = False\<rparr>"

definition quiet_net :: net where
  "quiet_net = \<lparr>net_tape = [], net_log = []\<rparr>"

definition sample_world :: world where
  "sample_world = \<lparr>w_db = sample_db, w_net = quiet_net\<rparr>"

text \<open>The same control plane with the machine running on the host.\<close>

definition placed_machine :: machine where
  "placed_machine = sample_machine\<lparr>m_HostID := Some 1, m_VMIP := Some (vm_ip 10), m_Status := ''running''\<rparr>"

definition placed_host :: host where
  "placed_host = sample_host\<lparr>h_UsedVCPUs := 2, h_UsedMemoryMB := 4096, h_UsedDiskMB := 8192\<rparr>"

definition placed_db :: db where
  "placed_db = sample_db\<lparr>machines := [placed_machine], hosts := [placed_host]\<rparr>"

definition placed_world :: world where
  "placed_world = \<lparr>w_db = placed_db, w_net = quiet_net\<rparr>"

lemmas sample_defs = sample_host_def sample_machine_def sample_account_def sample_db_def zero_host_def
  zero_machine_def empty_db_def

lemma sample_sizes [simp]:
  "pc_DefaultDiskPerVM sample_config = 8192"
  "m_ID sample_machine = uuid_of 0" "m_HostID sample_machine = None" "m_VCPUs sample_machine = 2"
  "m_MemoryMB sample_machine = 4096" "rt_agent sample_service = None" "rt_tunnel sample_service = None"
  "rt_routing sample_service = None" "rt_placement sample_service = sample_config"
  "rt_enableResolver sample_service = False"
  "w_db sample_world = sample_db" "w_net sample_world = quiet_net"
  by (simp_all add: sample_service_def sample_config_def sample_machine_def zero_machine_def sample_world_def)

lemma sample_db_ok [simp]: "db_ok sample_db"
  by (simp add: db_ok_def schema_ok_def capacity_ok_def sized_rows_def machines_ok_def operations_ok_def
      placements_ok_def keyed_def browser_placements_ok_def hosts_ok_def not_overcommitted_def sample_defs)

lemmas placed_defs = placed_machine_def placed_host_def placed_db_def

end
