(* ===== verification/Placement_Properties.thy ===== *)
theory Placement_Properties
  imports Samples "HOL-Library.Multiset"
begin

text \<open>
  What placing and releasing do: the address that is chosen, the capacity that is charged and
  given back, the effect of failures, and the ranking of hosts.
\<close>

section \<open>Addresses\<close>

lemma vm_ip_inject [simp]: "vm_ip m = vm_ip n \<longleftrightarrow> m = n"
  by (simp add: vm_ip_def)

lemma first_free_ip_Some:
  assumes "first_free_ip lo hi used = Some ip"
  shows "\<exists>n. lo \<le> n \<and> n \<le> hi \<and> ip = vm_ip n \<and> ip \<notin> set used \<and> (\<forall>k. lo \<le> k \<and> k < n \<longrightarrow> vm_ip k \<in> set used)"
proof -
  obtain i where i: "i < length [lo..<Suc hi]" "vm_ip ([lo..<Suc hi] ! i) = ip" "ip \<notin> set used"
    and below: "\<forall>j<i. vm_ip ([lo..<Suc hi] ! j) \<in> set used"
    using assms unfolding first_free_ip_def by (auto simp: find_Some_iff)
  have n: "[lo..<Suc hi] ! i = lo + i" "lo + i \<le> hi" using i(1) by (auto simp del: upt_Suc)
  have "vm_ip k \<in> set used" if "lo \<le> k" "k < lo + i" for k
  proof -
    have "[lo..<Suc hi] ! (k - lo) = k" using that n by (subst nth_upt) auto
    then show ?thesis using below [rule_format, of "k - lo"] that by simp
  qed
  then show ?thesis using i n by (intro exI [of _ "lo + i"]) auto
qed

lemma first_free_ip_None:
  "first_free_ip lo hi used = None \<longleftrightarrow> (\<forall>n. lo \<le> n \<and> n \<le> hi \<longrightarrow> vm_ip n \<in> set used)"
  unfolding first_free_ip_def by (auto simp: find_None_iff simp del: upt_Suc)

lemma first_free_ip_first [simp]:
  "lo \<le> hi \<Longrightarrow> vm_ip lo \<notin> set used \<Longrightarrow> first_free_ip lo hi used = Some (vm_ip lo)"
proof (cases "first_free_ip lo hi used")
  case (Some ip)
  then obtain n where "lo \<le> n" "ip = vm_ip n" "\<forall>k. lo \<le> k \<and> k < n \<longrightarrow> vm_ip k \<in> set used"
    by (blast dest: first_free_ip_Some)
  moreover assume "vm_ip lo \<notin> set used"
  ultimately have "n = lo" by (metis le_neq_implies_less order_refl)
  then show ?thesis using Some \<open>ip = vm_ip n\<close> by simp
qed (auto simp: first_free_ip_None)

text \<open>Fewer addresses in use than the range has: one of the range is free.\<close>

lemma first_free_ip_room:
  assumes "length used < Suc hi - lo"
  shows "first_free_ip lo hi used \<noteq> None"
proof
  assume "first_free_ip lo hi used = None"
  then have "vm_ip ` {lo..hi} \<subseteq> set used" by (auto simp: first_free_ip_None)
  then have "card (vm_ip ` {lo..hi}) \<le> card (set used)" by (intro card_mono) auto
  also have "\<dots> \<le> length used" by (rule card_length)
  finally show False using assms by (simp add: card_image inj_on_def)
qed

lemma machine_ips_iff:
  "ip \<in> set (machine_ips hid s) \<longleftrightarrow>
     (\<exists>m \<in> set (machines s). m_HostID m = Some hid \<and> m_VMIP m = Some ip)"
  by (auto simp: machine_ips_def set_map_filter_iff matching_def)

text \<open>No two machines of a host have the same address.\<close>

definition ips_unique :: "db \<Rightarrow> bool" where
  "ips_unique s \<longleftrightarrow> (\<forall>a \<in> set (machines s). \<forall>b \<in> set (machines s).
     m_HostID a \<noteq> None \<longrightarrow> m_HostID a = m_HostID b \<longrightarrow> m_VMIP a \<noteq> None \<longrightarrow> m_VMIP a = m_VMIP b \<longrightarrow>
     m_ID a = m_ID b)"

lemma ips_uniqueD:
  assumes "ips_unique s" "a \<in> set (machines s)" "b \<in> set (machines s)"
    and "m_HostID a \<noteq> None" "m_HostID a = m_HostID b" "m_VMIP a \<noteq> None" "m_VMIP a = m_VMIP b"
  shows "m_ID a = m_ID b"
  using assms unfolding ips_unique_def by blast

lemma ips_unique_assign:
  assumes "ips_unique s"
    and "\<And>m. m \<in> set (machines s) \<Longrightarrow> m_ID m \<noteq> mid \<Longrightarrow> m_HostID m = Some hid \<Longrightarrow> m_VMIP m \<noteq> Some ip"
  shows "ips_unique (on_machine mid (assign_machine n hid ip) (on_host hid f s))"
proof -
  have fresh: "m_ID r = mid" if "r \<in> set (machines s)" "m_HostID r = Some hid" "m_VMIP r = Some ip" for r
    using assms(2) that by blast
  have "m_ID a = m_ID b"
    if ab: "a \<in> set (machines (on_machine mid (assign_machine n hid ip) (on_host hid f s)))"
      "b \<in> set (machines (on_machine mid (assign_machine n hid ip) (on_host hid f s)))"
      and same: "m_HostID a \<noteq> None" "m_HostID a = m_HostID b" "m_VMIP a \<noteq> None" "m_VMIP a = m_VMIP b" for a b
  proof -
    obtain x y where x: "x \<in> set (machines s)" "a = (if m_ID x = mid then assign_machine n hid ip x else x)"
      and y: "y \<in> set (machines s)" "b = (if m_ID y = mid then assign_machine n hid ip y else y)"
      using ab by (auto simp: set_update_where)
    show ?thesis
    proof (cases "m_ID x = mid"; cases "m_ID y = mid")
      assume "m_ID x = mid" "m_ID y \<noteq> mid"
      then show ?thesis using x y same fresh [of y] by simp
    next
      assume "m_ID x \<noteq> mid" "m_ID y = mid"
      then show ?thesis using x y same fresh [of x] by simp
    next
      assume "m_ID x \<noteq> mid" "m_ID y \<noteq> mid"
      then have "a = x" "b = y" using x(2) y(2) by simp_all
      then show ?thesis using ips_uniqueD [OF assms(1) x(1) y(1)] same by simp
    qed (use x y in simp)
  qed
  then show ?thesis unfolding ips_unique_def by blast
qed

section \<open>Properties\<close>


text \<open>The witness: the sample machine gets the first address of the sample host.\<close>

lemma sample_place:
  "run_state (PlaceOnHost 1 (uuid_of 0) 2 4096 8192) sample_db =
     (Inr (vm_ip 10), on_machine (uuid_of 0) (assign_machine 0 1 (vm_ip 10)) (on_host 1 (charge 2 4096 8192) sample_db))"
  by (simp add: PlaceOnHost_def place_on_host_def host_available_def fresh_heartbeat_def has_room_def
      has_disk_def machine_ips_def matching_def sample_defs map_filter_simps)


lemma place_succeeds:
  assumes "db_faults s = []" "h \<in> set (hosts s)" "h_ID h = hid" "host_available (db_now s) v m d h"
    and "length (machine_ips hid s) \<le> 240"
  shows "\<exists>ip. outcome (PlaceOnHost hid mid v m d) s = Inr ip"
proof -
  obtain ip where "first_free_ip 10 250 (machine_ips hid s) = Some ip"
    using first_free_ip_room [of "machine_ips hid s" 250 10] assms(5) by auto
  then show ?thesis
    using assms(1-4) by (auto simp: PlaceOnHost_def place_on_host_def)
qed

text \<open>
  A placement succeeds when the host is available for the machine and has at most 240
  machines with an address: neither the search for an address nor anything else can fail then.
\<close>
theorem PlaceOnHost_succeeds:
  assumes "db_faults s = []" "h \<in> set (hosts s)" "h_ID h = hid" "host_available (db_now s) v m d h"
    and "length (machine_ips hid s) \<le> 240"
  shows "\<exists>ip. outcome (PlaceOnHost hid mid v m d) s = Inr ip"
  using assms by (rule place_succeeds)

theorem PlaceOnHost_succeeds_witness:
  "\<exists>ip. outcome (PlaceOnHost 1 (uuid_of 0) 2 4096 8192) sample_db = Inr ip"
  by (rule PlaceOnHost_succeeds [where h = sample_host])
     (simp_all add: host_available_def fresh_heartbeat_def has_room_def has_disk_def machine_ips_def
       matching_def sample_defs map_filter_simps)

lemma tx_ips_unique:
  assumes "\<And>s a t. ips_unique s \<Longrightarrow> f s = (Inr a, t) \<Longrightarrow> P s \<Longrightarrow> ips_unique t"
    and "\<And>s fs. P (s\<lparr>db_faults := fs\<rparr>) = P s" "ips_unique s" "P s"
  shows "ips_unique (final_state (tx f) s)"
proof -
  have tape: "ips_unique (s\<lparr>db_faults := fs\<rparr>) = ips_unique s" for s fs
    by (simp add: ips_unique_def)
  have run: "ips_unique (snd (case f u of (Inl e, _) \<Rightarrow> (Inl e, u) | (Inr a, t) \<Rightarrow> (Inr a, t)))"
    if "ips_unique u" "P u" for u
    using assms(1) [of u] that by (auto split: prod.splits sum.splits)
  have "ips_unique (snd (case f (s\<lparr>db_faults := fs\<rparr>) of
      (Inl e, _) \<Rightarrow> (Inl e, s\<lparr>db_faults := fs\<rparr>) | (Inr a, t) \<Rightarrow> (Inr a, t)))" for fs
    using assms(2-4) by (intro run) (simp_all add: tape)
  then show ?thesis
    using run [of s] assms(3,4)
    by (auto simp: tx_def db_call_def tape split: list.splits bool.splits)
qed

lemma place_ips_unique:
  assumes "ips_unique s" "place_on_host hid mid v m d s = (Inr ip, t)"
  shows "ips_unique t"
proof -
  obtain ip' where "first_free_ip 10 250 (machine_ips hid s) = Some ip'"
    and t: "t = on_machine mid (assign_machine (db_now s) hid ip') (on_host hid (charge v m d) s)"
    using assms(2) by (auto simp: place_on_host_def split: if_splits option.splits)
  then have "ip' \<notin> set (machine_ips hid s)" by (blast dest: first_free_ip_Some)
  then show ?thesis
    unfolding t using assms(1) by (intro ips_unique_assign) (auto simp: machine_ips_iff)
qed

lemma reallocate_ips_unique:
  assumes uniq: "ips_unique s" and run: "reallocate mid hid v m s = (Inr ip, t)"
    and home: "\<forall>r \<in> set (machines s). m_ID r = mid \<longrightarrow> m_HostID r = Some hid \<or> m_VMIP r = None"
  shows "ips_unique t"
proof -
  obtain mc where mc: "find_machine mid s = Some mc" and ip: "restart_ip hid mc s = Inr ip"
    and t: "t = on_machine mid (assign_machine (db_now s) hid ip) (on_host hid (charge v m 0) s)"
    using run by (auto simp: reallocate_def split: sum.splits if_splits option.splits)
  have row: "mc \<in> set (machines s)" "m_ID mc = mid" using mc by (auto dest: find_machine_Some)
  have "m_VMIP r \<noteq> Some ip" if r: "r \<in> set (machines s)" "m_ID r \<noteq> mid" "m_HostID r = Some hid" for r
  proof (cases "m_VMIP mc")
    case None
    then have "first_free_ip 10 250 (used_ips hid s) = Some ip"
      using ip by (auto simp: restart_ip_def deref_or_def split: option.splits)
    then have "ip \<notin> set (machine_ips hid s)"
      by (auto simp: used_ips_def dest!: first_free_ip_Some)
    then show ?thesis using r by (auto simp: machine_ips_iff)
  next
    case (Some old)
    then have host: "m_HostID mc = Some hid" using home row by auto
    show ?thesis
    proof (cases "old = ''''")
      case True
      then have "ip \<notin> set (machine_ips hid s)"
        using ip Some by (auto simp: restart_ip_def deref_or_def used_ips_def
            split: option.splits dest!: first_free_ip_Some)
      then show ?thesis using r by (auto simp: machine_ips_iff)
    next
      case False
      then have "ip = old" using ip Some by (simp add: restart_ip_def deref_or_def)
      then show ?thesis
        using ips_uniqueD [OF uniq r(1) row(1)] r(2,3) host Some row(2) by auto
    qed
  qed
  then show ?thesis unfolding t using uniq by (intro ips_unique_assign) auto
qed

text \<open>
  Placing a machine never gives two machines of a host the same address, whatever calls fail;
  restarting one keeps this as well when it restarts on the host it has, or has no address.
\<close>
theorem addresses_stay_unique:
  assumes "ips_unique s"
  shows "ips_unique (final_state (PlaceOnHost hid mid v m d) s) \<and>
    ((\<forall>r \<in> set (machines s). m_ID r = mid \<longrightarrow> m_HostID r = Some hid \<or> m_VMIP r = None) \<longrightarrow>
     ips_unique (final_state (ReAllocateHostCapacity mid hid v m d) s))"
proof (intro conjI impI)
  show "ips_unique (final_state (PlaceOnHost hid mid v m d) s)"
    unfolding PlaceOnHost_def
    by (rule tx_ips_unique [where P = "\<lambda>_. True"]) (auto intro: place_ips_unique assms)
next
  assume home: "\<forall>r \<in> set (machines s). m_ID r = mid \<longrightarrow> m_HostID r = Some hid \<or> m_VMIP r = None"
  show "ips_unique (final_state (ReAllocateHostCapacity mid hid v m d) s)"
    unfolding ReAllocateHostCapacity_def
  proof (rule tx_ips_unique [where P = "\<lambda>s. \<forall>r \<in> set (machines s). m_ID r = mid \<longrightarrow>
               m_HostID r = Some hid \<or> m_VMIP r = None"])
    fix s a t assume "ips_unique s" "reallocate mid hid v m s = (Inr a, t)"
      "\<forall>r \<in> set (machines s). m_ID r = mid \<longrightarrow> m_HostID r = Some hid \<or> m_VMIP r = None"
    then show "ips_unique t" by (rule reallocate_ips_unique)
  qed (use assms home in simp_all)
qed

theorem addresses_stay_unique_witness:
  "ips_unique (final_state (PlaceOnHost 1 (uuid_of 0) 2 4096 8192) sample_db) \<and>
   ips_unique (final_state (ReAllocateHostCapacity (uuid_of 0) 1 2 4096 8192) sample_db)"
  using addresses_stay_unique [of sample_db 1 "uuid_of 0" 2 4096 8192]
  by (simp add: ips_unique_def sample_defs)

section \<open>Reserving a host\<close>

text \<open>A call that only used up entries of the tape of faults.\<close>

definition only_faults :: "db \<Rightarrow> db \<Rightarrow> bool" where
  "only_faults s t \<longleftrightarrow> (\<exists>fs. t = s\<lparr>db_faults := fs\<rparr>)"

lemma only_faults_refl [simp]: "only_faults s s"
  unfolding only_faults_def by (intro exI [of _ "db_faults s"]) simp

lemma only_faults_trans: "only_faults s t \<Longrightarrow> only_faults t u \<Longrightarrow> only_faults s u"
  by (auto simp: only_faults_def)

lemma only_faults_parts:
  "only_faults s t \<Longrightarrow> hosts t = hosts s \<and> machines t = machines s \<and> db_now t = db_now s \<and>
     machine_placements t = machine_placements s \<and> machine_operations t = machine_operations s \<and>
     browser_vm_placements t = browser_vm_placements s \<and> db_uuids t = db_uuids s"
  by (auto simp: only_faults_def)

lemma query_only_faults: "only_faults s (final_state (query f) s)"
  by (auto simp: query_def db_call_def only_faults_def split: list.splits bool.splits intro: exI [of _ "[]"])

text \<open>What a placement of the machine on host \<open>hid\<close> with address \<open>ip\<close> changes.\<close>

definition placed_on :: "db \<Rightarrow> int \<Rightarrow> string \<Rightarrow> int \<Rightarrow> int \<Rightarrow> int \<Rightarrow> string \<Rightarrow> db \<Rightarrow> bool" where
  "placed_on s hid mid v m d ip t \<longleftrightarrow>
     hosts t = update_where (\<lambda>h. h_ID h = hid) (charge v m d) (hosts s) \<and>
     machines t = update_where (\<lambda>r. m_ID r = mid) (assign_machine (db_now s) hid ip) (machines s) \<and>
     machine_operations t = machine_operations s \<and> browser_vm_placements t = browser_vm_placements s"

definition recorded :: "db \<Rightarrow> string \<Rightarrow> int \<Rightarrow> string \<Rightarrow> placement option \<Rightarrow> db \<Rightarrow> bool" where
  "recorded s mid hid ip pl t \<longleftrightarrow> (case pl of
      None \<Rightarrow> machine_placements t = machine_placements s
    | Some p \<Rightarrow> machine_placements t = machine_placements s @ [p] \<and> p_MachineID p = mid \<and>
        p_HostID p = hid \<and> p_VMIP p = ip \<and> p_State p = ''reserved'' \<and> p_ReleasedAt p = None)"

lemma PlaceOnHost_cases:
  "case run_state (PlaceOnHost hid mid v m d) s of
     (Inl e, t) \<Rightarrow> only_faults s t
   | (Inr ip, t) \<Rightarrow> placed_on s hid mid v m d ip t \<and> machine_placements t = machine_placements s"
  by (auto simp: PlaceOnHost_def place_on_host_def tx_def db_call_def placed_on_def only_faults_def
      machine_ips_def split: prod.splits sum.splits list.splits bool.splits option.splits intro: exI [of _ "[]"])

lemma ReservePlacement_cases:
  "case run_state (ReservePlacement mid hid ip op) s of
     (Inl e, t) \<Rightarrow> only_faults s t
   | (Inr p, t) \<Rightarrow> recorded s mid hid ip (Some p) t \<and> hosts t = hosts s \<and> machines t = machines s \<and>
       machine_operations t = machine_operations s \<and> browser_vm_placements t = browser_vm_placements s"
  by (auto simp: ReservePlacement_def reserve_placement_def tx_def db_call_def recorded_def only_faults_def
      Let_def split: prod.splits sum.splits list.splits bool.splits if_splits intro: exI [of _ "[]"])

lemma placed_on_base: "only_faults s u \<Longrightarrow> placed_on u hid mid v m d ip t = placed_on s hid mid v m d ip t"
  by (auto simp: placed_on_def dest!: only_faults_parts)

lemma recorded_base: "only_faults s u \<Longrightarrow> recorded u mid hid ip pl t = recorded s mid hid ip pl t"
  by (auto simp: recorded_def dest!: only_faults_parts split: option.splits)

text \<open>A placement followed by its record: the pair of calls that both ways of reserving make.\<close>

lemma place_and_record:
  assumes "placed_on s hid mid v m d ip t" "machine_placements t = machine_placements s"
  shows "case run_state (ReservePlacement mid hid ip op) t of
     (Inl e, u) \<Rightarrow> placed_on s hid mid v m d ip u \<and> recorded s mid hid ip None u
   | (Inr p, u) \<Rightarrow> placed_on s hid mid v m d ip u \<and> recorded s mid hid ip (Some p) u"
  using ReservePlacement_cases [where s = t and mid = mid and hid = hid and ip = ip and op = op] assms
  by (auto simp: placed_on_def recorded_def dest!: only_faults_parts split: prod.splits sum.splits)

lemma try_hosts_spec:
  "case run_state (try_hosts mid req disk n hs) s of
     (Inl e, t) \<Rightarrow> only_faults s t
   | (Inr (pl, h, ip), t) \<Rightarrow> h \<in> set hs \<and>
       placed_on s (h_ID h) mid (pr_VCPUs req) (pr_MemoryMB req) disk ip t \<and> recorded s mid (h_ID h) ip pl t"
proof (induction hs arbitrary: s)
  case (Cons h hs)
  let ?place = "PlaceOnHost (h_ID h) mid (pr_VCPUs req) (pr_MemoryMB req) disk"
  let ?t = "final_state ?place s"
  show ?case
  proof (cases "outcome ?place s")
    case (Inl e)
    then have "only_faults s ?t"
      using PlaceOnHost_cases [where s = s and hid = "h_ID h" and mid = mid and v = "pr_VCPUs req" and
          m = "pr_MemoryMB req" and d = disk] by (simp add: split_beta)
    then show ?thesis
      using Inl Cons.IH [of ?t]
      by (auto simp: split_beta placed_on_base recorded_base intro: only_faults_trans split: sum.splits)
  next
    case (Inr ip)
    then have placed: "placed_on s (h_ID h) mid (pr_VCPUs req) (pr_MemoryMB req) disk ip ?t"
      "machine_placements ?t = machine_placements s"
      using PlaceOnHost_cases [where s = s and hid = "h_ID h" and mid = mid and v = "pr_VCPUs req" and
          m = "pr_MemoryMB req" and d = disk] by (simp_all add: split_beta)
    show ?thesis
      using place_and_record [OF placed, where op = "pr_OperationID req"] Inr
      by (auto simp: split_beta split: sum.splits)
  qed
qed simp

section \<open>Ranking\<close>

lemma mset_swap_at: "i < length xs \<Longrightarrow> j < length xs \<Longrightarrow> mset (swap_at i j xs) = mset xs"
  by (simp add: swap_at_def mset_swap)

lemma mset_shuffle_from: "i < length xs \<or> i = 0 \<Longrightarrow> mset (shuffle_from i ds xs) = mset xs"
proof (induction i ds xs rule: shuffle_from.induct)
  case (3 i d ds xs)
  have "d mod Suc (Suc i) < Suc (Suc i)" by simp
  then have "d mod Suc (Suc i) < length xs" using 3(2) by linarith
  then have same: "mset (swap_at (Suc i) (d mod Suc (Suc i)) xs) = mset xs"
    using 3(2) by (intro mset_swap_at) auto
  then have "length (swap_at (Suc i) (d mod Suc (Suc i)) xs) = length xs" by (rule mset_eq_length)
  then show ?case using 3 same by simp
qed simp_all

lemma mset_shuffle: "mset (shuffle draws xs) = mset xs"
  unfolding shuffle_def by (rule mset_shuffle_from) auto

lemma mset_sort_by: "mset (sort_by lt xs) = mset xs"
proof -
  have "mset (insort_by lt x ys) = add_mset x (mset ys)" for x ys by (induction ys) auto
  then show ?thesis by (induction xs) (simp_all add: sort_by_def)
qed

lemma sorted_sort_by_key:
  fixes k :: "'r \<Rightarrow> int"
  shows "sorted (map k (sort_by (\<lambda>a b. k a < k b) xs))"
proof -
  have "sorted (map k (insort_by (\<lambda>a b. k a < k b) x ys))" if "sorted (map k ys)" for x ys
    using that by (induction ys) auto
  then show ?thesis by (induction xs) (simp_all add: sort_by_def)
qed

text \<open>
  Ranking neither loses nor invents a host, whatever the random numbers and the order that
  the sort leaves among equals; \<open>Spread\<close> lists the hosts by increasing and \<open>BinPack\<close> by
  decreasing memory in use.
\<close>
theorem rank_spec:
  "mset (rank st draws hs) = mset hs \<and>
   sorted (map h_UsedMemoryMB (rank Spread draws hs)) \<and>
   sorted (rev (map h_UsedMemoryMB (rank BinPack draws hs)))"
proof -
  have "sorted (map (\<lambda>h. - h_UsedMemoryMB h) (rank BinPack draws hs))"
    using sorted_sort_by_key [of "\<lambda>h. - h_UsedMemoryMB h" "shuffle draws hs"] by (simp add: rank_def)
  then have "sorted_wrt (\<lambda>x y. h_UsedMemoryMB x \<ge> h_UsedMemoryMB y) (rank BinPack draws hs)"
    by (simp add: sorted_wrt_map)
  then have "sorted (rev (map h_UsedMemoryMB (rank BinPack draws hs)))"
    by (simp add: sorted_wrt_rev sorted_wrt_map)
  moreover have "sorted (map h_UsedMemoryMB (rank Spread draws hs))"
    unfolding rank_def by (simp only: strategy.case sorted_sort_by_key)
  moreover have "mset (rank st draws hs) = mset hs"
    by (simp add: rank_def mset_sort_by mset_shuffle split: strategy.splits)
  ultimately show ?thesis by blast
qed

lemma set_rank: "set (rank st draws hs) = set hs"
proof -
  have "mset (rank st draws hs) = mset hs"
    by (simp add: rank_def mset_sort_by mset_shuffle split: strategy.splits)
  then show ?thesis by (rule mset_eq_setD)
qed

section \<open>Choosing a host\<close>

definition auto_filter :: "placement_config \<Rightarrow> placement_request \<Rightarrow> host_filter" where
  "auto_filter c req = \<lparr>f_MinVCPUs = pr_VCPUs req, f_MinMemoryMB = pr_MemoryMB req,
     f_MinDiskMB = disk_for c req, f_Region = region_for c req, f_Image = '''', f_RequireBrowserReflink = False\<rparr>"

text \<open>
  C14: an automatic placement, whatever calls fail on the way, either changes nothing, or it ends
  on a host that is ready, out of maintenance, alive, in the wanted region and with room, charges
  exactly that host, assigns exactly that machine and appends at most its placement record.
\<close>
theorem Reserve_auto_spec:
  assumes "pr_TargetHostID req = 0"
  shows "case run_state (Reserve c draws mid req) s of
     (Inl e, t) \<Rightarrow> only_faults s t
   | (Inr (pl, h, ip), t) \<Rightarrow>
       (\<exists>h0 \<in> set (hosts s). h_ID h0 = h_ID h \<and> eligible_host (db_now s) (auto_filter c req) h0) \<and>
       placed_on s (h_ID h) mid (pr_VCPUs req) (pr_MemoryMB req) (disk_for c req) ip t \<and>
       recorded s mid (h_ID h) ip pl t"
proof -
  let ?list = "ListEligibleHosts (auto_filter c req)"
  let ?t = "final_state ?list s"
  have faults: "only_faults s ?t" unfolding ListEligibleHosts_def by (rule query_only_faults)
  have rows: "\<exists>h0 \<in> set (hosts s). h_ID h0 = h_ID h \<and> eligible_host (db_now s) (auto_filter c req) h0"
    if "outcome ?list s = Inr hs" "h \<in> set hs" for hs h
    using that by (auto simp: ListEligibleHosts_def query_def db_call_def matching_def
        split: list.splits bool.splits) blast+
  show ?thesis
  proof (cases "outcome ?list s")
    case (Inl e)
    then show ?thesis
      using faults assms by (simp add: Reserve_def placeAutoSelect_def auto_filter_def [symmetric] split_beta)
  next
    case (Inr hs)
    then show ?thesis
      using faults assms rows [OF Inr]
        try_hosts_spec [where s = ?t and mid = mid and req = req and disk = "disk_for c req" and n = "length hs"
          and hs = "rank (pc_Strategy c) draws hs"]
      by (auto simp: Reserve_def placeAutoSelect_def auto_filter_def [symmetric] split_beta set_rank
          placed_on_base recorded_base intro: only_faults_trans split: sum.splits)
  qed
qed

definition sample_eligible :: host where
  "sample_eligible = with_machine_count sample_db sample_host"

lemma sample_list:
  "run_state (ListEligibleHosts (auto_filter sample_config sample_request)) sample_db = (Inr [sample_eligible], sample_db)"
  by (simp add: ListEligibleHosts_def eligible_host_def auto_filter_def sample_config_def sample_request_def
      fresh_heartbeat_def has_room_def has_disk_def disk_for_def region_for_def matching_def sample_eligible_def
      sample_defs)

lemma sample_request_simps [simp]:
  "pr_VCPUs sample_request = 2" "pr_MemoryMB sample_request = 4096" "disk_for sample_config sample_request = 8192"
  "pr_OperationID sample_request = ''''" "pr_TargetHostID sample_request = 0"
  by (simp_all add: sample_request_def disk_for_def)

lemma rank_single [simp]: "rank st draws [h] = [h]"
  by (simp add: rank_def shuffle_def sort_by_def split: strategy.splits)

lemma sample_reserve:
  "\<exists>p t. run_state (Reserve sample_config draws (uuid_of 0) sample_request) sample_db =
     (Inr (Some p, sample_eligible, vm_ip 10), t)"
proof -
  have id: "h_ID sample_eligible = 1" by (simp add: sample_eligible_def sample_host_def)
  let ?t = "on_machine (uuid_of 0) (assign_machine 0 1 (vm_ip 10)) (on_host 1 (charge 2 4096 8192) sample_db)"
  have "\<exists>p u. run_state (ReservePlacement (uuid_of 0) 1 (vm_ip 10) '''') ?t = (Inr p, u)"
    by (simp add: ReservePlacement_def reserve_placement_def Let_def sample_defs)
  then show ?thesis
    using sample_list sample_place unfolding Reserve_def placeAutoSelect_def auto_filter_def [symmetric]
    by (auto simp: id)
qed

theorem Reserve_auto_spec_witness:
  "\<exists>p t. run_state (Reserve sample_config [] (uuid_of 0) sample_request) sample_db =
       (Inr (Some p, sample_eligible, vm_ip 10), t) \<and>
     placed_on sample_db (h_ID sample_eligible) (uuid_of 0) 2 4096 8192 (vm_ip 10) t"
proof -
  obtain p t where run: "run_state (Reserve sample_config [] (uuid_of 0) sample_request) sample_db =
       (Inr (Some p, sample_eligible, vm_ip 10), t)"
    using sample_reserve by blast
  then show ?thesis
    using Reserve_auto_spec [where req = sample_request and c = sample_config and draws = "[]" and
        mid = "uuid_of 0" and s = sample_db]
    by auto
qed

lemma try_hosts_succeeds:
  assumes "db_faults s = []" "h \<in> set hs" "h0 \<in> set (hosts s)" "h_ID h0 = h_ID h"
    and "host_available (db_now s) (pr_VCPUs req) (pr_MemoryMB req) disk h0"
    and "length (machine_ips (h_ID h) s) \<le> 240"
  shows "\<not> isl (outcome (try_hosts mid req disk n hs) s)"
  using assms(2)
proof (induction hs)
  case (Cons k hs)
  let ?place = "PlaceOnHost (h_ID k) mid (pr_VCPUs req) (pr_MemoryMB req) disk"
  show ?case
  proof (cases "outcome ?place s")
    case (Inl e)
    have same: "final_state ?place s = s"
      using Inl assms(1)
      by (auto simp: PlaceOnHost_def place_on_host_def split: option.splits if_splits)
    have "h \<noteq> k"
      using place_succeeds [OF assms(1,3) _ assms(5), of "h_ID k" mid] assms(4,6) Inl by auto
    then show ?thesis using Inl same Cons by (simp add: split_beta)
  qed (auto simp: split_beta split: sum.splits)
qed simp

lemma reserve_succeeds:
  assumes "db_faults s = []" "pr_TargetHostID req = 0" "h \<in> set (hosts s)"
    and "eligible_host (db_now s) (auto_filter c req) h" "length (machine_ips (h_ID h) s) \<le> 240"
  shows "\<exists>x. outcome (Reserve c draws mid req) s = Inr x"
proof -
  let ?hs = "map (with_machine_count s) (matching (eligible_host (db_now s) (auto_filter c req)) (hosts s))"
  have run: "run_state (ListEligibleHosts (auto_filter c req)) s = (Inr ?hs, s)"
    using assms(1) by (simp add: ListEligibleHosts_def)
  have mem: "with_machine_count s h \<in> set (rank (pc_Strategy c) draws ?hs)"
    using assms(3,4) by (simp add: set_rank matching_def)
  have avail: "host_available (db_now s) (pr_VCPUs req) (pr_MemoryMB req) (disk_for c req) h"
    using assms(4) by (simp add: eligible_host_def host_available_def auto_filter_def)
  have "\<not> isl (outcome (try_hosts mid req (disk_for c req) (length ?hs) (rank (pc_Strategy c) draws ?hs)) s)"
    by (rule try_hosts_succeeds [OF assms(1) mem assms(3) _ avail]) (use assms(5) in simp_all)
  then obtain x where "outcome (try_hosts mid req (disk_for c req) (length ?hs) (rank (pc_Strategy c) draws ?hs)) s = Inr x"
    by (cases "outcome (try_hosts mid req (disk_for c req) (length ?hs) (rank (pc_Strategy c) draws ?hs)) s") auto
  moreover have "?hs \<noteq> []" using mem by (auto simp: set_rank)
  ultimately show ?thesis
    using assms(2) run unfolding Reserve_def placeAutoSelect_def auto_filter_def [symmetric]
    by (cases x) auto
qed



section \<open>Release\<close>

lemma release_placements_simps [simp]:
  "hosts (release_placements mid s) = hosts s" "machines (release_placements mid s) = machines s"
  "db_faults (release_placements mid s) = db_faults s" "db_now (release_placements mid s) = db_now s"
  "find_machine k (release_placements mid s) = find_machine k s"
  by (simp_all add: release_placements_def find_machine_def)

lemma image_update_where: "(\<And>r. k (f r) = k r) \<Longrightarrow> k ` set (update_where p f rows) = k ` set rows"
  by (metis list.set_map map_update_where)

lemma find_machine_on_host [simp]: "find_machine k (on_host hid f s) = find_machine k s"
  by (simp add: find_machine_def)

lemma Release_hard_run:
  assumes "db_faults s = []" "find_machine mid s = Some m" "m_HostID m = Some hid"
  shows "run_state (Release c mid ReleaseHard) s = (Inr (),
     on_machine mid (\<lambda>r. r\<lparr>m_HomeHostID := None\<rparr>) (on_machine mid (unassign_machine (db_now s))
       (on_host hid (credit (m_VCPUs m) (m_MemoryMB m) (release_disk c m)) (release_placements mid s))))"
  using assms find_machine_Some [OF assms(2)]
  by (simp add: Release_def release_hard_def GetMachine_def ReleasePlacement_def
      ReleaseHostCapacityWithDisk_def UnassignMachineFromHost_def UpdateMachineHomeHost_def)

lemma Release_soft_run:
  assumes "db_faults s = []" "find_machine mid s = Some m" "m_HostID m = Some hid" "find_host hid s = Some h"
  shows "run_state (Release c mid ReleaseSoft) s = (Inr (),
     on_machine mid (\<lambda>r. r\<lparr>m_HomeHostID := Some hid\<rparr>) (on_machine mid (stop_machine (db_now s))
       (on_host hid (credit_cpu_mem (m_VCPUs m) (m_MemoryMB m)) (release_placements mid s))))"
proof -
  have "h_ID ` set (update_where (\<lambda>h. h_ID h = hid) (credit_cpu_mem (m_VCPUs m) (m_MemoryMB m)) (hosts s)) = h_ID ` set (hosts s)"
    by (rule image_update_where) simp
  then have "\<exists>k \<in> set (update_where (\<lambda>h. h_ID h = hid) (credit_cpu_mem (m_VCPUs m) (m_MemoryMB m)) (hosts s)). h_ID k = hid"
    using find_host_Some [OF assms(4)] by (metis (no_types, lifting) imageE imageI)
  then show ?thesis
    using assms find_machine_Some [OF assms(2)]
    by (auto simp: Release_def release_soft_def GetMachine_def ReleasePlacement_def SoftStopMachine_def
        UpdateMachineHomeHost_def)
qed

text \<open>The request of a start asks for the disk that the release gives back.\<close>

lemma start_request_simps [simp]:
  "pr_VCPUs (start_request m op t) = m_VCPUs m" "pr_MemoryMB (start_request m op t) = m_MemoryMB m"
  "disk_for c (start_request m op t) = release_disk c m" "pr_TargetHostID (start_request m op t) = t"
  "pr_OperationID (start_request m op t) = op"
  by (simp_all add: start_request_def disk_for_def release_disk_def)

lemma reserve_faults:
  assumes "db_faults s = []"
  shows "db_faults (final_state (Reserve c draws mid req) s) = []"
proof -
  have place: "db_faults (final_state (PlaceOnHost hid mid v m d) s) = []" if "db_faults s = []" for hid v m d s
    using that by (auto simp: PlaceOnHost_def place_on_host_def split: option.splits)
  have rec: "db_faults (final_state (ReservePlacement mid hid ip op) s) = []" if "db_faults s = []" for hid ip op s
    using that by (auto simp: ReservePlacement_def reserve_placement_def Let_def)
  have hosts: "db_faults (final_state (try_hosts mid req disk n hs) s) = []" if "db_faults s = []" for disk n hs s
    using that by (induction hs arbitrary: s) (auto simp: split_beta place rec split: sum.splits)
  show ?thesis
    using assms
    by (auto simp: Reserve_def placeAutoSelect_def placeOnSpecificHost_def ListEligibleHosts_def GetHost_def
        ReleaseHostCapacityWithDisk_def split_beta place rec hosts split: sum.splits option.splits)
qed

lemma reserve_placed:
  assumes "db_faults s = []" "run_state (Reserve c draws mid req) s = (Inr (pl, h, ip), t)"
  shows "\<exists>hid. placed_on s hid mid (pr_VCPUs req) (pr_MemoryMB req) (disk_for c req) ip t"
proof (cases "pr_TargetHostID req = 0")
  case True
  let ?hs = "map (with_machine_count s) (matching (eligible_host (db_now s) (auto_filter c req)) (hosts s))"
  have "run_state (try_hosts mid req (disk_for c req) (length ?hs) (rank (pc_Strategy c) draws ?hs)) s = (Inr (pl, h, ip), t)"
    using assms True unfolding Reserve_def placeAutoSelect_def auto_filter_def [symmetric]
    by (simp add: ListEligibleHosts_def split: if_splits)
  then show ?thesis
    using try_hosts_spec [where s = s and mid = mid and req = req and disk = "disk_for c req" and
        n = "length ?hs" and hs = "rank (pc_Strategy c) draws ?hs"] by auto
next
  case False
  let ?hid = "pr_TargetHostID req"
  let ?place = "PlaceOnHost ?hid mid (pr_VCPUs req) (pr_MemoryMB req) (disk_for c req)"
  have "db_faults (final_state ?place s) = []"
    using assms(1) by (auto simp: PlaceOnHost_def place_on_host_def split: option.splits)
  then have get: "final_state (GetHost ?hid) (final_state ?place s) = final_state ?place s"
    by (simp add: GetHost_def)
  show ?thesis
  proof (cases "outcome ?place s")
    case (Inl e)
    then show ?thesis using assms(2) False by (simp add: Reserve_def placeOnSpecificHost_def split_beta)
  next
    case (Inr ip')
    have placed: "placed_on s ?hid mid (pr_VCPUs req) (pr_MemoryMB req) (disk_for c req) ip' (final_state ?place s)"
      "machine_placements (final_state ?place s) = machine_placements s"
      using PlaceOnHost_cases [where s = s and hid = ?hid and mid = mid and v = "pr_VCPUs req" and
          m = "pr_MemoryMB req" and d = "disk_for c req"] Inr by (simp_all add: split_beta)
    show ?thesis
      using place_and_record [OF placed, where op = "pr_OperationID req"] assms(2) False Inr get
      by (auto simp: Reserve_def placeOnSpecificHost_def split_beta split: sum.splits)
  qed
qed

text \<open>
  C16: a hard release undoes a reservation. If the machine row is placed, automatically or on a
  target host, with the request that a start makes, a hard release afterwards restores every
  capacity counter of every host, takes the machine off its host and its address, and leaves no
  unreleased placement of the machine.
\<close>
theorem reserve_release_roundtrip:
  assumes "db_faults s = []" "find_machine (m_ID m) s = Some m"
    and "run_state (Reserve c draws (m_ID m) (start_request m opid target)) s = (Inr (pl, h, ip), t)"
    and "\<forall>k \<in> set (hosts s). 0 \<le> h_UsedVCPUs k \<and> 0 \<le> h_UsedMemoryMB k \<and> 0 \<le> h_UsedDiskMB k"
    and "u = final_state (Release c (m_ID m) ReleaseHard) t"
  shows "hosts u = hosts s \<and>
    (\<forall>r \<in> set (machines u). m_ID r = m_ID m \<longrightarrow> m_HostID r = None \<and> m_VMIP r = None) \<and>
    (\<forall>p \<in> set (machine_placements u). p_MachineID p = m_ID m \<longrightarrow> p_ReleasedAt p \<noteq> None)"
proof -
  obtain hid where placed: "placed_on s hid (m_ID m) (m_VCPUs m) (m_MemoryMB m) (release_disk c m) ip t"
    using reserve_placed [OF assms(1,3)] by auto
  have faults: "db_faults t = []" using reserve_faults [OF assms(1)] assms(3) by (metis snd_conv)
  have "machines t = machines (on_machine (m_ID m) (assign_machine (db_now s) hid ip) s)"
    using placed by (simp add: placed_on_def)
  then have "find_machine (m_ID m) t = find_machine (m_ID m) (on_machine (m_ID m) (assign_machine (db_now s) hid ip) s)"
    by (simp only: find_machine_def)
  then have row: "find_machine (m_ID m) t = Some (assign_machine (db_now s) hid ip m)" using assms(2) by simp
  have disk: "release_disk c (assign_machine (db_now s) hid ip m) = release_disk c m"
    by (simp add: release_disk_def assign_machine_def)
  have run: "u = on_machine (m_ID m) (\<lambda>r. r\<lparr>m_HomeHostID := None\<rparr>) (on_machine (m_ID m) (unassign_machine (db_now t))
       (on_host hid (credit (m_VCPUs m) (m_MemoryMB m) (release_disk c m)) (release_placements (m_ID m) t)))"
    using Release_hard_run [OF faults row] assms(5) by (simp add: disk)
  have "hosts u = hosts s"
    using placed assms(4) by (simp add: run placed_on_def update_where_twice credit_charge update_where_ident)
  moreover have "machines u = update_where (\<lambda>r. m_ID r = m_ID m)
      (\<lambda>r. (unassign_machine (db_now t) r)\<lparr>m_HomeHostID := None\<rparr>) (machines t)"
    by (simp add: run update_where_twice)
  then have "\<forall>r \<in> set (machines u). m_ID r = m_ID m \<longrightarrow> m_HostID r = None \<and> m_VMIP r = None"
    by (simp add: ball_update_where)
  moreover have "machine_placements u = machine_placements (release_placements (m_ID m) t)"
    by (simp add: run)
  then have "\<forall>p \<in> set (machine_placements u). p_MachineID p = m_ID m \<longrightarrow> p_ReleasedAt p \<noteq> None"
    by (simp add: release_placements_def ball_update_where)
  ultimately show ?thesis by blast
qed

theorem reserve_release_roundtrip_witness:
  "\<exists>pl h ip t. run_state (Reserve sample_config [] (m_ID sample_machine) (start_request sample_machine '''' 0)) sample_db =
       (Inr (pl, h, ip), t) \<and>
     hosts (final_state (Release sample_config (m_ID sample_machine) ReleaseHard) t) = hosts sample_db"
proof -
  let ?req = "start_request sample_machine '''' 0"
  have "\<exists>x. outcome (Reserve sample_config [] (m_ID sample_machine) ?req) sample_db = Inr x"
    by (rule reserve_succeeds [where h = sample_host])
       (simp_all add: eligible_host_def auto_filter_def fresh_heartbeat_def has_room_def has_disk_def
         region_for_def machine_ips_def matching_def sample_defs sample_config_def start_request_def
         disk_for_def deref_or_def map_filter_simps)
  then obtain pl h ip t where run:
    "run_state (Reserve sample_config [] (m_ID sample_machine) ?req) sample_db = (Inr (pl, h, ip), t)"
    by (metis prod.collapse)
  have "hosts (final_state (Release sample_config (m_ID sample_machine) ReleaseHard) t) = hosts sample_db"
    by (rule conjunct1 [OF reserve_release_roundtrip [OF _ _ run _ refl]])
       (simp_all add: find_machine_def sample_defs)
  then show ?thesis using run by blast
qed

lemma matching_unique:
  assumes "distinct (map k rows)" "h \<in> set rows" "P h"
  shows "matching (\<lambda>r. k r = k h \<and> P r) rows = [h]"
  using assms(1,2)
proof (induction rows)
  case (Cons r rows)
  show ?case
  proof (cases "r = h")
    case True
    then have "k x \<noteq> k h" if "x \<in> set rows" for x using Cons.prems(1) that by (auto simp: image_iff)
    then have "filter (\<lambda>r. k r = k h \<and> P r) rows = []" by (auto simp: filter_empty_conv)
    then show ?thesis using True assms(3) by (simp add: matching_def)
  next
    case False
    then have "h \<in> set rows" "k r \<noteq> k h" using Cons.prems by force+
    then show ?thesis using Cons by (simp add: matching_def)
  qed
qed simp

lemma find_unique:
  assumes "distinct (map k rows)" "h \<in> set rows"
  shows "find (\<lambda>r. k r = k h) rows = Some h"
  using assms by (induction rows) (auto simp: image_iff)

lemma credit_cpu_mem_charge:
  assumes "v \<le> h_UsedVCPUs h" "m \<le> h_UsedMemoryMB h"
  shows "charge v m 0 (credit_cpu_mem v m h) = h"
  using assms by (simp add: charge_def credit_cpu_mem_def)

text \<open>
  A stop and a restart. A machine that was softly released while it ran on a ready, alive host
  with its counters in order is restarted on the same host with the same address, and every
  counter of every host is what it was before the stop.
\<close>
theorem stop_restart_roundtrip:
  assumes "db_faults s = []" "distinct (map h_ID (hosts s))" "find_machine (m_ID m) s = Some m"
    and "h \<in> set (hosts s)" "m_HostID m = Some (h_ID h)" "m_VMIP m = Some ip" "ip \<noteq> ''''"
    and "h_Status h = ''ready''" "\<not> h_MaintenanceMode h" "fresh_heartbeat (db_now s) h"
    and "m_VCPUs m \<le> h_UsedVCPUs h" "m_MemoryMB m \<le> h_UsedMemoryMB h" "not_overcommitted h"
    and "t = final_state (Release c (m_ID m) ReleaseSoft) s"
    and "u = final_state (RecoverAffinity c (m_ID m) (start_request m opid 0)) t"
  shows "(\<exists>pl h'. outcome (RecoverAffinity c (m_ID m) (start_request m opid 0)) t = Inr (pl, h', ip) \<and>
            h_ID h' = h_ID h) \<and> hosts u = hosts s"
proof -
  let ?f = "credit_cpu_mem (m_VCPUs m) (m_MemoryMB m)"
  have find: "find_host (h_ID h) s = Some h" unfolding find_host_def by (rule find_unique [OF assms(2,4)])
  have t: "t = on_machine (m_ID m) (\<lambda>r. r\<lparr>m_HomeHostID := Some (h_ID h)\<rparr>) (on_machine (m_ID m) (stop_machine (db_now s))
       (on_host (h_ID h) ?f (release_placements (m_ID m) s)))"
    using Release_soft_run [OF assms(1,3,5) find] assms(14) by simp
  have hs: "hosts t = update_where (\<lambda>k. h_ID k = h_ID h) ?f (hosts s)" by (simp add: t)
  have dist: "distinct (map h_ID (hosts t))" using assms(2) by (simp add: hs)
  have mem: "?f h \<in> set (hosts t)" using assms(4) by (force simp: hs set_update_where)
  have row: "find_machine (m_ID m) t = Some ((stop_machine (db_now s) m)\<lparr>m_HomeHostID := Some (h_ID h)\<rparr>)"
    using assms(3) by (simp add: t)
  have tf: "db_faults t = []" "db_now t = db_now s" using assms(1) by (simp_all add: t)
  have get: "find_host (h_ID h) t = Some (?f h)"
    using find_unique [OF dist mem] by (simp add: find_host_def)
  have ready: "matching (\<lambda>k. h_ID k = h_ID h \<and> h_Status k = ''ready'' \<and> \<not> h_MaintenanceMode k \<and>
      fresh_heartbeat (db_now t) k) (hosts t) = [?f h]"
    using matching_unique [OF dist mem, where P = "\<lambda>k. h_Status k = ''ready'' \<and> \<not> h_MaintenanceMode k \<and>
      fresh_heartbeat (db_now t) k"] assms(8-10)
    by (simp add: tf credit_cpu_mem_def fresh_heartbeat_def)
  have room: "has_room (m_VCPUs m) (m_MemoryMB m) (?f h)"
    using assms(11-13) by (simp add: has_room_def credit_cpu_mem_def not_overcommitted_def)
  have valid: "validateHostPlacementEligibility (with_machine_count t (?f h)) (db_now t) = None"
    using assms(8-10) by (auto simp: validateHostPlacementEligibility_def credit_cpu_mem_def tf fresh_heartbeat_def
        split: option.splits)
  have re: "run_state (ReAllocateHostCapacity (m_ID m) (h_ID h) (m_VCPUs m) (m_MemoryMB m) d) t =
      (Inr ip, on_machine (m_ID m) (assign_machine (db_now t) (h_ID h) ip) (on_host (h_ID h) (charge (m_VCPUs m) (m_MemoryMB m) 0) t))" for d
    using tf(1) ready room row assms(6,7)
    by (simp add: ReAllocateHostCapacity_def reallocate_def one_row_def restart_ip_def deref_or_def stop_machine_def)
  have rec: "hosts (final_state (ReservePlacement mid hid ip' op) v) = hosts v" for mid hid ip' op v
    using ReservePlacement_cases [where s = v and mid = mid and hid = hid and ip = ip' and op = op]
    by (auto simp: split_beta dest!: only_faults_parts split: sum.splits)
  have restored: "hosts (on_machine (m_ID m) (assign_machine (db_now t) (h_ID h) ip)
      (on_host (h_ID h) (charge (m_VCPUs m) (m_MemoryMB m) 0) t)) = hosts s"
  proof -
    have "k = h" if "k \<in> set (hosts s)" "h_ID k = h_ID h" for k
      using that assms(2,4) by (auto simp: distinct_map inj_on_def)
    then show ?thesis
      by (simp add: hs update_where_twice) (rule update_where_ident, use credit_cpu_mem_charge assms(11,12) in blast)
  qed
  show ?thesis
    using tf row get valid re rec restored assms(15)
    by (simp add: RecoverAffinity_def GetMachine_def GetHost_def clock_def split_beta)
qed

theorem stop_restart_roundtrip_witness:
  "hosts (final_state (RecoverAffinity sample_config (m_ID placed_machine) (start_request placed_machine '''' 0))
     (final_state (Release sample_config (m_ID placed_machine) ReleaseSoft) placed_db)) = hosts placed_db"
  by (rule conjunct2 [OF stop_restart_roundtrip [where h = placed_host and ip = "vm_ip 10", OF _ _ _ _ _ _ _ _ _ _ _ _ _ refl refl]])
     (simp_all add: find_machine_def fresh_heartbeat_def not_overcommitted_def vm_ip_def placed_defs sample_defs)

section \<open>Where the books go wrong\<close>

text \<open>
  Deleting a stopped machine returns its vCPUs and memory twice. A soft release followed by a
  hard release, which is what a stop followed by a deletion makes, credits the host twice, so with
  other machines on the host the counters end below what they use.
\<close>
theorem stop_then_delete_credits_twice:
  assumes "db_faults s = []" "find_machine (m_ID m) s = Some m" "m_HostID m = Some hid" "find_host hid s = Some h"
    and "t = final_state (Release c (m_ID m) ReleaseHard) (final_state (Release c (m_ID m) ReleaseSoft) s)"
  shows "hosts t = update_where (\<lambda>k. h_ID k = hid)
    (\<lambda>k. credit (m_VCPUs m) (m_MemoryMB m) (release_disk c m) (credit_cpu_mem (m_VCPUs m) (m_MemoryMB m) k)) (hosts s)"
proof -
  let ?s = "on_machine (m_ID m) (\<lambda>r. r\<lparr>m_HomeHostID := Some hid\<rparr>) (on_machine (m_ID m) (stop_machine (db_now s))
       (on_host hid (credit_cpu_mem (m_VCPUs m) (m_MemoryMB m)) (release_placements (m_ID m) s)))"
  have soft: "final_state (Release c (m_ID m) ReleaseSoft) s = ?s"
    using Release_soft_run [OF assms(1-4)] by simp
  have row: "find_machine (m_ID m) ?s = Some ((stop_machine (db_now s) m)\<lparr>m_HomeHostID := Some hid\<rparr>)"
    using assms(2) by simp
  have "release_disk c ((stop_machine (db_now s) m)\<lparr>m_HomeHostID := Some hid\<rparr>) = release_disk c m"
    by (simp add: release_disk_def stop_machine_def)
  then show ?thesis
    using Release_hard_run [OF _ row, where hid = hid and c = c] assms(1,3,5)
    by (simp add: soft update_where_twice stop_machine_def)
qed

text \<open>Two machines of two vCPUs on the host: after one was stopped and deleted nothing is in use.\<close>

definition shared_db :: db where
  "shared_db = placed_db\<lparr>machines := [placed_machine, placed_machine\<lparr>m_ID := uuid_of 1, m_Slug := ''db'', m_VMIP := Some (vm_ip 11)\<rparr>],
     hosts := [placed_host\<lparr>h_UsedVCPUs := 4, h_UsedMemoryMB := 8192, h_UsedDiskMB := 16384\<rparr>]\<rparr>"

theorem stop_then_delete_credits_twice_witness:
  "map h_UsedVCPUs (hosts (final_state (Release sample_config (m_ID placed_machine) ReleaseHard)
     (final_state (Release sample_config (m_ID placed_machine) ReleaseSoft) shared_db))) = [0]"
  by (subst stop_then_delete_credits_twice [where hid = 1 and h = "hd (hosts shared_db)", OF _ _ _ _ refl])
     (simp_all add: shared_db_def find_machine_def find_host_def credit_def credit_cpu_mem_def placed_defs sample_defs)

definition browser_db :: db where
  "browser_db = sample_db\<lparr>browser_vm_placements := [\<lparr>bp_BrowserVMID = uuid_of 0, bp_HostID = 1,
     bp_VMIP = Some (vm_ip 10), bp_State = ''active'', bp_ActivatedAt = Some 0, bp_ReleasedAt = None\<rparr>]\<rparr>"

text \<open>
  A machine can be given the address of a browser VM. \<open>PlaceOnHost\<close> looks only at the
  addresses of machines, while browser VMs take addresses from a range that includes the range of
  the machines: there is a well-formed database in which a running browser VM has an address of the
  host and a placement of a machine returns the same address on the same host.
\<close>
theorem machine_takes_browser_address:
  "db_ok browser_db \<and>
   (\<exists>p \<in> set (browser_vm_placements browser_db). bp_HostID p = 1 \<and> bp_VMIP p = Some (vm_ip 10) \<and> bp_ReleasedAt p = None) \<and>
   outcome (PlaceOnHost 1 (uuid_of 0) 2 4096 8192) browser_db = Inr (vm_ip 10)"
proof (intro conjI)
  show "db_ok browser_db"
    by (simp add: browser_db_def db_ok_def schema_ok_def capacity_ok_def sized_rows_def machines_ok_def operations_ok_def
        placements_ok_def keyed_def browser_placements_ok_def hosts_ok_def not_overcommitted_def sample_defs)
  show "outcome (PlaceOnHost 1 (uuid_of 0) 2 4096 8192) browser_db = Inr (vm_ip 10)"
    by (simp add: browser_db_def PlaceOnHost_def place_on_host_def host_available_def fresh_heartbeat_def has_room_def
        has_disk_def machine_ips_def matching_def sample_defs map_filter_simps)
qed (simp add: browser_db_def)

definition moved_db :: db where
  "moved_db = sample_db\<lparr>hosts := [sample_host, sample_host\<lparr>h_ID := 2\<rparr>], db_serial := 3, db_uuids := 2,
     machines := [placed_machine\<lparr>m_Status := ''stopped'', m_HostID := Some 2, m_HomeHostID := Some 1\<rparr>,
       placed_machine\<lparr>m_ID := uuid_of 1, m_Slug := ''db''\<rparr>]\<rparr>"

text \<open>
  A restart can duplicate an address. A restart keeps the address of the machine row without
  looking at the host it restarts on, so when the home host is not the host that the row names, the
  machine can get the address of another machine.
\<close>
theorem restart_duplicates_address:
  "db_ok moved_db \<and> ips_unique moved_db \<and>
   \<not> ips_unique (final_state (RecoverAffinity sample_config (uuid_of 0) sample_request) moved_db)"
proof (intro conjI)
  show "db_ok moved_db"
    by (simp add: moved_db_def db_ok_def schema_ok_def capacity_ok_def sized_rows_def machines_ok_def operations_ok_def
        placements_ok_def keyed_def browser_placements_ok_def hosts_ok_def not_overcommitted_def placed_defs sample_defs)
  show "ips_unique moved_db"
    by (simp add: moved_db_def ips_unique_def placed_defs sample_defs)
  let ?re = "ReAllocateHostCapacity (uuid_of 0) 1 2 4096 8192"
  have re: "run_state ?re moved_db = (Inr (vm_ip 10), on_machine (uuid_of 0) (assign_machine 0 1 (vm_ip 10))
      (on_host 1 (charge 2 4096 0) moved_db))"
    by (simp add: moved_db_def ReAllocateHostCapacity_def reallocate_def one_row_def matching_def fresh_heartbeat_def
        has_room_def find_machine_def restart_ip_def deref_or_def vm_ip_def placed_defs sample_defs)
  have rec: "machines (final_state (ReservePlacement mid hid ip op) v) = machines v" for mid hid ip op v
    using ReservePlacement_cases [where s = v and mid = mid and hid = hid and ip = ip and op = op]
    by (auto simp: split_beta dest!: only_faults_parts split: sum.splits)
  have get: "\<exists>m. run_state (GetMachine (uuid_of 0)) moved_db = (Inr m, moved_db) \<and> m_HomeHostID m = Some 1"
    by (simp add: GetMachine_def find_machine_def moved_db_def placed_defs sample_defs)
  have gh: "\<exists>h. run_state (GetHost 1) moved_db = (Inr h, moved_db) \<and> h_ID h = 1 \<and>
      validateHostPlacementEligibility h (db_now moved_db) = None"
    by (simp add: GetHost_def find_host_def moved_db_def validateHostPlacementEligibility_def with_machine_count_def
        sample_defs)
  have "machines (final_state (RecoverAffinity sample_config (uuid_of 0) sample_request) moved_db) =
      machines (final_state ?re moved_db)"
    using re rec get gh by (auto simp: RecoverAffinity_def clock_def split_beta)
  then show "\<not> ips_unique (final_state (RecoverAffinity sample_config (uuid_of 0) sample_request) moved_db)"
    unfolding re by (simp add: ips_unique_def moved_db_def placed_defs sample_defs)
qed

end
