(* ===== verification/Host_Reconciler.thy ===== *)
theory Host_Reconciler
  imports Machine_Runtime
begin

text \<open>
  \<open>internal/reconciler\<close>: the pass that expires operations, resets stuck machines, marks
  hosts unreachable and terminated, and cleans up after them (\<open>host.go\<close>,
  \<open>heartbeat_checker.go\<close>). The activity log that the pass writes is not modelled.
\<close>

section \<open>Configuration\<close>

text \<open>
  The provider API that tells whether an instance exists is an argument: a function of zone and
  name, with errors. \<open>hr_cleanup\<close> is the runtime service, or absent.
\<close>

type_synonym instance_checker = "string \<Rightarrow> string \<Rightarrow> bool result"

record host_reconciler =
  hr_instanceCheck :: instance_checker
  hr_cleanup :: "runtime_service option"
  hr_staleThreshold :: time

definition HeartbeatOnlyChecker :: instance_checker where
  "HeartbeatOnlyChecker zone name = Inr True"

definition checker_for :: "host_reconciler \<Rightarrow> host \<Rightarrow> instance_checker" where
  "checker_for hr h = (if h_Provider h \<noteq> '''' \<and> h_Provider h \<noteq> ''gcp'' then HeartbeatOnlyChecker
                       else hr_instanceCheck hr)"

section \<open>Stuck machines\<close>

abbreviation stuckMachineThreshold :: time where
  "stuckMachineThreshold \<equiv> 5 * minute"

definition machine_cleanup :: "host_reconciler \<Rightarrow> string \<Rightarrow> (world, unit) state" where
  "machine_cleanup hr mid = (case hr_cleanup hr of
     None \<Rightarrow> ret ()
   | Some rt \<Rightarrow> do { _ \<leftarrow> CleanupMachineRouteAndTunnel rt mid; ret () })"

definition reset_stuck_machine :: "host_reconciler \<Rightarrow> machine \<Rightarrow> (world, unit) state" where
  "reset_stuck_machine hr m = do {
     o1 \<leftarrow> in_db (GetActiveMachineOperation (m_ID m));
     _ \<leftarrow> (case o1 of
        Inl _ \<Rightarrow> ok ()
      | Inr op \<Rightarrow> in_db (CompleteMachineOperation (o_ID op) ''failed''
          (Some (''auto-expired by reconciler (machine stuck in '' @ m_Status m @ '')''))));
     _ \<leftarrow> (if m_HostID m \<noteq> None then in_db (ReleasePlacement (m_ID m)) else ok ());
     _ \<leftarrow> machine_cleanup hr (m_ID m);
     _ \<leftarrow> in_db (UpdateMachineStatus (m_ID m) ''error''
            (Some (''auto-reset by reconciler: stuck in '' @ m_Status m @ '' for >5m0s'')));
     ret ()
   }"

definition reconcileStuckMachines :: "host_reconciler \<Rightarrow> (world, unit) state" where
  "reconcileStuckMachines hr = do {
     r \<leftarrow> in_db (FindStuckMachines stuckMachineThreshold);
     case r of
       Inl _ \<Rightarrow> ret ()
     | Inr stuck \<Rightarrow> for_each (reset_stuck_machine hr) stuck
   }"

section \<open>Machines of a terminated host\<close>

definition mark_data_lost :: "machine \<Rightarrow> (world, unit) state" where
  "mark_data_lost m =
     (if m_Status m = ''stopped'' then do {
        _ \<leftarrow> in_db (UpdateMachineStatus (m_ID m) ''stopped'' (Some ''data volume lost (host terminated)''));
        ret ()
      }
      else ret ())"

definition cleanup_affected :: "host_reconciler \<Rightarrow> string \<Rightarrow> (world, unit) state" where
  "cleanup_affected hr mid = do {
     _ \<leftarrow> in_db (ReleasePlacement mid);
     machine_cleanup hr mid
   }"

definition cleanupMachinesOnHost :: "host_reconciler \<Rightarrow> host \<Rightarrow> (world, unit) state" where
  "cleanupMachinesOnHost hr h = do {
     a \<leftarrow> in_db (MarkMachinesOnHostError (h_ID h) ''host terminated unexpectedly'');
     _ \<leftarrow> for_each (cleanup_affected hr) (case a of Inl _ \<Rightarrow> [] | Inr ids \<Rightarrow> ids);
     l \<leftarrow> in_db (ListMachinesByHost (h_ID h));
     case l of
       Inl _ \<Rightarrow> ret ()
     | Inr ms \<Rightarrow> for_each mark_data_lost ms
   }"

section \<open>The pass\<close>

definition mark_unreachable :: "host \<Rightarrow> (world, unit) state" where
  "mark_unreachable h =
     (if h_MaintenanceMode h then ret ()
      else do { _ \<leftarrow> in_db (UpdateHostStatus (h_ID h) ''unreachable''); ret () })"

definition check_unreachable :: "host_reconciler \<Rightarrow> host \<Rightarrow> (world, unit) state" where
  "check_unreachable hr h = (case checker_for hr h (h_Zone h) (h_VMName h) of
     Inl _ \<Rightarrow> ret ()
   | Inr True \<Rightarrow> ret ()
   | Inr False \<Rightarrow> do {
       u \<leftarrow> in_db (UpdateHostStatus (h_ID h) ''terminated'');
       case u of
         Inl _ \<Rightarrow> ret ()
       | Inr _ \<Rightarrow> cleanupMachinesOnHost hr h
     })"

definition reconcileOnce :: "host_reconciler \<Rightarrow> (world, unit) state" where
  "reconcileOnce hr = do {
     _ \<leftarrow> in_db (ExpireStaleOperations (30 * minute));
     _ \<leftarrow> reconcileStuckMachines hr;
     s \<leftarrow> in_db (ListStaleHosts (hr_staleThreshold hr));
     _ \<leftarrow> (case s of Inl _ \<Rightarrow> ret () | Inr hs \<Rightarrow> for_each mark_unreachable hs);
     u \<leftarrow> in_db ListUnreachableHosts;
     case u of
       Inl _ \<Rightarrow> ret ()
     | Inr hs \<Rightarrow> for_each (check_unreachable hr) hs
   }"

section \<open>The pass keeps the contract of the store\<close>

context store_session
begin

lemma machine_cleanup_keeps: "triple (\<lambda>w. I (w_db w)) (machine_cleanup hr mid) (\<lambda>_. True)"
  unfolding machine_cleanup_def by (rule world_keeps CleanupMachineRouteAndTunnel_keeps | simp)+

lemma reset_stuck_machine_keeps: "triple (\<lambda>w. I (w_db w)) (reset_stuck_machine hr m) (\<lambda>_. True)"
  unfolding reset_stuck_machine_def by (rule world_keeps machine_cleanup_keeps | simp)+

lemma cleanupMachinesOnHost_keeps:
  "triple (\<lambda>w. I (w_db w)) (cleanupMachinesOnHost hr h) (\<lambda>_. True)"
  unfolding cleanupMachinesOnHost_def cleanup_affected_def mark_data_lost_def
  by (rule world_keeps machine_cleanup_keeps | simp)+

end

context store_contract
begin

lemma check_unreachable_keeps: "triple (\<lambda>w. I (w_db w)) (check_unreachable hr h) (\<lambda>_. True)"
  unfolding check_unreachable_def
  by (auto split: sum.splits bool.splits intro!: triple_rules keeps_in_db store_keeps
      cleanupMachinesOnHost_keeps)

lemma reconcileOnce_keeps: "triple (\<lambda>w. I (w_db w)) (reconcileOnce hr) (\<lambda>_. True)"
  unfolding reconcileOnce_def reconcileStuckMachines_def mark_unreachable_def
  by (rule keeps_in_db store_keeps world_keeps reset_stuck_machine_keeps check_unreachable_keeps | simp)+

end

end
