(* ===== verification/Lifecycle_Properties.thy ===== *)
theory Lifecycle_Properties
  imports Placement_Properties Host_Reconciler
begin

text \<open>
  What the lifecycle handlers of \<open>internal/machines/runtime.go\<close> do: who holds the operation of a
  machine and when it is given back, what a stop, a deletion and the poller leave behind, and the
  paths on which a failure leaves the books of a host wrong.
\<close>

section \<open>Holding the operation of a machine\<close>

text \<open>
  While a handler holds operation \<open>opid\<close> of machine \<open>mid\<close>, no other operation of the machine
  is in flight. The calls are taken to reach the database: the tape of faults is empty.
\<close>

definition no_op_but :: "string \<Rightarrow> string \<Rightarrow> db \<Rightarrow> bool" where
  "no_op_but mid opid s \<longleftrightarrow> db_faults s = [] \<and>
     (\<forall>x \<in> set (machine_operations s). active_op x \<longrightarrow> o_MachineID x = mid \<longrightarrow> o_ID x = opid)"

definition no_op :: "string \<Rightarrow> db \<Rightarrow> bool" where
  "no_op mid s \<longleftrightarrow> db_faults s = [] \<and>
     (\<forall>x \<in> set (machine_operations s). active_op x \<longrightarrow> o_MachineID x \<noteq> mid)"

interpretation held_inv: db_invariant "no_op_but mid opid" for mid opid
  by unfold_locales (simp add: no_op_but_def)

lemma held_hosts_machines [simp]:
  "no_op_but mid opid (on_machine k f s) = no_op_but mid opid s"
  "no_op_but mid opid (on_host j g s) = no_op_but mid opid s"
  "no_op_but mid opid (s\<lparr>machines := ms\<rparr>) = no_op_but mid opid s"
  "no_op_but mid opid (s\<lparr>machine_backups := bks\<rparr>) = no_op_but mid opid s"
  "no_op_but mid opid (s\<lparr>machine_placements := ps\<rparr>) = no_op_but mid opid s"
  "no_op_but mid opid (s\<lparr>browser_vm_placements := bs\<rparr>) = no_op_but mid opid s"
  "no_op_but mid opid (s\<lparr>db_uuids := u\<rparr>) = no_op_but mid opid s"
  by (simp_all add: no_op_but_def)

lemmas held_txs = PlaceOnHost_def place_on_host_def ReAllocateHostCapacity_def reallocate_def
  SoftStopMachine_def PlaceBrowserVMOnHost_def place_browser_vm_def ReleaseBrowserVMPlacement_def
  release_browser_placement_def ReservePlacement_def reserve_placement_def ActivatePlacement_def
  UpdateMachineHomeHost_def MarkMachinesOnHostError_def

lemma held_transactions:
  "triple (no_op_but mid opid) (PlaceOnHost hid k v m d) (\<lambda>_. True)"
  "triple (no_op_but mid opid) (ReAllocateHostCapacity k hid v m d) (\<lambda>_. True)"
  "triple (no_op_but mid opid) (SoftStopMachine k hid v m d) (\<lambda>_. True)"
  "triple (no_op_but mid opid) (PlaceBrowserVMOnHost hid bid v m) (\<lambda>_. True)"
  "triple (no_op_but mid opid) (ReleaseBrowserVMPlacement bid) (\<lambda>_. True)"
  "triple (no_op_but mid opid) (ReservePlacement k hid ip op) (\<lambda>_. True)"
  "triple (no_op_but mid opid) (ActivatePlacement pid) (\<lambda>_. True)"
  "triple (no_op_but mid opid) (UpdateMachineHomeHost k home) (\<lambda>_. True)"
  "triple (no_op_but mid opid) (MarkMachinesOnHostError hid txt) (\<lambda>_. True)"
  unfolding held_txs
  by (rule held_inv.inv_tx,
      auto simp: Let_def split: if_splits option.splits sum.splits list.splits)+

lemma held_statements:
  "triple (no_op_but mid opid) (ReleaseHostCapacityWithDisk hid v m d) (\<lambda>_. True)"
  "triple (no_op_but mid opid) (ReleasePlacement k) (\<lambda>_. True)"
  "triple (no_op_but mid opid) (UnassignMachineFromHost k) (\<lambda>_. True)"
  "triple (no_op_but mid opid) (UpdateMachineStatus k st msg) (\<lambda>_. True)"
  "triple (no_op_but mid opid) (SetMachineTokens k gw px) (\<lambda>_. True)"
  "triple (no_op_but mid opid) (UpdateMachineVersion k snap ver) (\<lambda>_. True)"
  "triple (no_op_but mid opid) (UpdateMachineTunnel k tid key) (\<lambda>_. True)"
  "triple (no_op_but mid opid) (ClearMachineTunnel k) (\<lambda>_. True)"
  "triple (no_op_but mid opid) (UnpairBrowserVM k) (\<lambda>_. True)"
  unfolding ReleaseHostCapacityWithDisk_def ReleasePlacement_def UnassignMachineFromHost_def
    UpdateMachineStatus_def SetMachineTokens_def UpdateMachineVersion_def UpdateMachineTunnel_def
    ClearMachineTunnel_def UnpairBrowserVM_def
  by (rule held_inv.inv_exec, simp add: release_placements_def)+

lemma held_operations:
  "triple (no_op_but mid opid) (DeleteMachine k) (\<lambda>_. True)"
  "st \<in> {''completed'', ''failed''} \<Longrightarrow>
   triple (no_op_but mid opid) (CompleteMachineOperation j st msg) (\<lambda>_. True)"
  "triple (no_op_but mid opid) (ExpireStaleOperations old) (\<lambda>_. True)"
  unfolding DeleteMachine_def CompleteMachineOperation_def ExpireStaleOperations_def
  by (rule held_inv.inv_tx held_inv.inv_exec,
      auto simp: complete_operation_def Let_def no_op_but_def set_update_where active_op_def
        finish_operation_def split: if_splits)+

interpretation held: store_session "no_op_but mid opid" "\<lambda>_ _ _. True" for mid opid
  by unfold_locales (simp_all add: held_transactions held_statements held_operations)

text \<open>Ending the operation that is held leaves none.\<close>

lemma end_operation:
  assumes "no_op_but mid opid s" "st \<notin> {''pending'', ''in_progress''}"
  shows "no_op mid (final_state (CompleteMachineOperation opid st msg) s)"
proof -
  have ended: "\<not> active_op (finish_operation n st msg r)" for n r using assms(2) by simp
  have "o_MachineID x \<noteq> mid"
    if x: "x \<in> set (update_where (\<lambda>y. o_ID y = opid) (finish_operation (db_now s) st msg) (machine_operations s))"
      "active_op x" for x
  proof -
    obtain r where r: "r \<in> set (machine_operations s)"
      "x = (if o_ID r = opid then finish_operation (db_now s) st msg r else r)"
      using x(1) by (auto simp: set_update_where)
    then have "o_ID r \<noteq> opid" "x = r" using x(2) ended by (auto split: if_splits)
    then show ?thesis using assms(1) r(1) x(2) by (auto simp: no_op_but_def)
  qed
  then show ?thesis
    using assms by (simp add: CompleteMachineOperation_def complete_operation_def no_op_but_def no_op_def)
qed



lemma held_of_no_op: "no_op mid s \<Longrightarrow> no_op_but mid opid s"
  by (simp add: no_op_def no_op_but_def)

lemma no_op_lookup:
  assumes "no_op mid s"
  shows "run_state (GetActiveMachineOperation mid) s = (Inl ErrNoRows, s)"
proof -
  have "matching (\<lambda>op. o_MachineID op = mid \<and> active_op op) (machine_operations s) = []"
    using assms by (auto simp: no_op_def matching_def filter_empty_conv)
  then show ?thesis
    using assms by (simp add: GetActiveMachineOperation_def no_op_def one_row_def sort_by_def)
qed

lemma no_op_create:
  assumes "no_op mid s"
  shows "case run_state (CreateMachineOperation (new_operation mid kind)) s of
           (Inl e, t) \<Rightarrow> no_op mid t | (Inr op, t) \<Rightarrow> no_op_but mid (o_ID op) t"
  using assms
  by (auto simp: CreateMachineOperation_def create_operation_def new_operation_def no_op_def
      no_op_but_def Let_def)

section \<open>Properties of operations\<close>

text \<open>
  C6: an operation never outlives its handler. With no operation of the machine in flight and the
  database answering, a start that fails, a stop and a deletion all end with no operation of the
  machine in flight, whatever the agents and Cloudflare answer.
\<close>
theorem handlers_end_their_operation:
  assumes "no_op (m_ID m) (w_db w)" "0 \<le> pc_DefaultDiskPerVM (rt_placement rt)"
  shows "(isl (outcome (start rt en boot m '''' opts) w) \<longrightarrow>
            no_op (m_ID m) (w_db (final_state (start rt en boot m '''' opts) w))) \<and>
         no_op (m_ID m) (w_db (final_state (stop rt m '''') w)) \<and>
         no_op (m_ID m) (w_db (final_state (Delete rt backups m) w))"
proof (intro conjI impI)
  let ?mid = "m_ID m"
  have create: "no_op_but ?mid (o_ID op) (final_state (CreateMachineOperation (new_operation ?mid kind)) (w_db w))"
    if "outcome (CreateMachineOperation (new_operation ?mid kind)) (w_db w) = Inr op" for kind op
    using no_op_create [OF assms(1), of kind] that by (simp add: split_beta)
  have refused: "no_op ?mid (final_state (CreateMachineOperation (new_operation ?mid kind)) (w_db w))"
    if "isl (outcome (CreateMachineOperation (new_operation ?mid kind)) (w_db w))" for kind
    using no_op_create [OF assms(1), of kind] that by (auto simp: split_beta isl_def)
  note lookup = no_op_lookup [OF assms(1)]
  note body = tripleD [OF held.start_body_keeps [OF assms(2)]] tripleD [OF held.stop_body_keeps [OF assms(2)]]
    tripleD [OF held.delete_body_keeps [OF assms(2)]]
  show "no_op ?mid (w_db (final_state (stop rt m '''') w))"
    by (auto simp: stop_def complete_with_def lookup split_beta split: sum.splits prod.splits
        intro!: end_operation body create refused)
  show "no_op ?mid (w_db (final_state (Delete rt backups m) w))"
    by (auto simp: Delete_def delete_operation_def complete_with_def lookup split_beta
        split: sum.splits prod.splits intro!: end_operation body create refused)
  assume "isl (outcome (start rt en boot m '''' opts) w)"
  then show "no_op ?mid (w_db (final_state (start rt en boot m '''' opts) w))"
    by (auto simp: start_def start_operation_def lookup split_beta
        split: sum.splits prod.splits intro!: end_operation body create refused)
qed

theorem handlers_end_their_operation_witness:
  "no_op (m_ID sample_machine) (w_db (final_state (stop sample_service sample_machine '''') sample_world)) \<and>
   no_op (m_ID sample_machine) (w_db (final_state (Delete sample_service (Inr []) sample_machine) sample_world))"
  using handlers_end_their_operation [of sample_machine sample_world sample_service sample_entropy
      sample_boot sample_options "Inr []"]
  by (simp add: no_op_def sample_db_def empty_db_def)













definition sample_agent :: agent_client where
  "sample_agent = \<lparr>ac_agentToken = ''t''\<rparr>"


section \<open>Refusals\<close>

lemma active_lookup:
  assumes "db_faults s = []" "x \<in> set (machine_operations s)" "active_op x" "o_MachineID x = mid"
  obtains op where "run_state (GetActiveMachineOperation mid) s = (Inr op, s)"
    "op \<in> set (machine_operations s)" "active_op op" "o_MachineID op = mid"
proof -
  let ?rows = "sort_by (\<lambda>a b. o_CreatedAt b < o_CreatedAt a)
     (matching (\<lambda>op. o_MachineID op = mid \<and> active_op op) (machine_operations s))"
  have "x \<in> set ?rows" using assms by (simp add: matching_def)
  then obtain op rest where rows: "?rows = op # rest" by (cases ?rows) auto
  then have "op \<in> set ?rows" by simp
  then show thesis
    using that [of op] rows assms(1)
    by (simp add: GetActiveMachineOperation_def one_row_def matching_def)
qed

text \<open>
  C8: one lifecycle operation at a time. While an operation of the machine is in flight and the
  database answers, a start is refused, a stop is refused unless the operation is a stop, and a
  deletion is refused unless the operation is a stop of a stopped machine; a refusal changes
  neither the database nor the network: no agent is asked anything.
\<close>
theorem one_operation_at_a_time:
  assumes "db_faults (w_db w) = []" "x \<in> set (machine_operations (w_db w))" "active_op x"
    and "o_MachineID x = m_ID m" "unique_among active_op o_MachineID (machine_operations (w_db w))"
  shows "run_state (start rt en boot m '''' opts) w = (Inl (in_flight x), w) \<and>
    (o_Kind x \<noteq> ''stop'' \<longrightarrow> run_state (stop rt m '''') w = (Inl (in_flight x), w)) \<and>
    (\<not> (o_Kind x = ''stop'' \<and> m_Status m = ''stopped'') \<longrightarrow>
       run_state (Delete rt backups m) w = (Inl (in_flight x), w))"
proof -
  obtain op where look: "run_state (GetActiveMachineOperation (m_ID m)) (w_db w) = (Inr op, w_db w)"
    and op: "op \<in> set (machine_operations (w_db w))" "active_op op" "o_MachineID op = m_ID m"
    using active_lookup [OF assms(1-4)] by blast
  have "op = x"
    using assms(2-5) op by (auto simp: unique_among_def distinct_map inj_on_def)
  then show ?thesis
    using look by (simp add: start_def start_operation_def stop_def Delete_def delete_operation_def)
qed

definition busy_world :: world where
  "busy_world = sample_world\<lparr>w_db := sample_db\<lparr>machine_operations :=
     [(new_operation (uuid_of 0) ''upgrade'')\<lparr>o_ID := uuid_of 7, o_State := ''in_progress''\<rparr>]\<rparr>\<rparr>"

theorem one_operation_at_a_time_witness:
  "run_state (start sample_service sample_entropy sample_boot sample_machine '''' sample_options) busy_world =
     (Inl (in_flight ((new_operation (uuid_of 0) ''upgrade'')\<lparr>o_ID := uuid_of 7, o_State := ''in_progress''\<rparr>)), busy_world)"
  by (rule conjunct1 [OF one_operation_at_a_time])
     (simp_all add: busy_world_def new_operation_def active_op_def sample_defs)

definition rows_of :: "world \<Rightarrow> machine list \<times> host list \<times> placement list" where
  "rows_of w = (machines (w_db w), hosts (w_db w), machine_placements (w_db w))"

lemma rows_of_operations:
  "rows_of (w\<lparr>w_db := final_state (CreateMachineOperation opn) (w_db w)\<rparr>) = rows_of w"
  "rows_of (w\<lparr>w_db := final_state (CompleteMachineOperation opid st msg) (w_db w)\<rparr>) = rows_of w"
  by (auto simp: rows_of_def CreateMachineOperation_def CompleteMachineOperation_def create_operation_def
      complete_operation_def tx_def db_call_def Let_def split: list.splits bool.splits)

lemma failed_agent_body:
  assumes "db_faults (w_db w) = []" "rt_agent rt = Some c" "m_HostID m = Some hid"
    and "find_host hid (w_db w) = Some h" "\<not> may_clean_up h"
  shows "isl (outcome (StopVM c (with_machine_count (w_db w) h) (m_ID m)) (w_net w)) \<Longrightarrow>
            isl (outcome (stop_body rt m) w) \<and> w_db (final_state (stop_body rt m) w) = w_db w"
    and "isl (outcome (DestroyVM c (with_machine_count (w_db w) h) (m_ID m)) (w_net w)) \<Longrightarrow>
            isl (outcome (delete_body rt backups m) w) \<and> w_db (final_state (delete_body rt backups m) w) = w_db w"
  using assms
  by (auto simp: stop_body_def stop_vm_on_host_def delete_body_def destroy_on_host_def GetHost_def
      may_clean_up_def isl_def)

lemma create_frame:
  assumes "db_faults s = []"
  shows "db_faults (final_state (CreateMachineOperation opn) s) = []"
    and "find_host hid (final_state (CreateMachineOperation opn) s) = find_host hid s"
    and "with_machine_count (final_state (CreateMachineOperation opn) s) = with_machine_count s"
  using assms
  by (auto simp: CreateMachineOperation_def create_operation_def Let_def find_host_def
      with_machine_count_def fun_eq_iff split: if_splits)

lemma rows_of_cong: "w_db v = w_db w \<Longrightarrow> rows_of v = rows_of w"
  by (simp add: rows_of_def)

text \<open>
  C9: resources of a VM that may still run are kept. When the agent of a host that is neither
  unreachable nor terminated cannot stop (or destroy) the VM, a stop (a deletion) fails and leaves
  the machines, the hosts and the placements as they were.
\<close>
theorem failed_stop_keeps_resources:
  assumes "no_op (m_ID m) (w_db w)" "rt_agent rt = Some c" "m_HostID m = Some hid"
    and "find_host hid (w_db w) = Some h" "h_Status h \<notin> {''unreachable'', ''terminated''}"
  shows "(isl (outcome (StopVM c (with_machine_count (w_db w) h) (m_ID m)) (w_net w)) \<longrightarrow>
            isl (outcome (stop rt m '''') w) \<and> rows_of (final_state (stop rt m '''') w) = rows_of w) \<and>
         (isl (outcome (DestroyVM c (with_machine_count (w_db w) h) (m_ID m)) (w_net w)) \<longrightarrow>
            isl (outcome (Delete rt backups m) w) \<and> rows_of (final_state (Delete rt backups m) w) = rows_of w)"
proof -
  have nf: "db_faults (w_db w) = []" using assms(1) by (simp add: no_op_def)
  have bad: "\<not> may_clean_up h" using assms(5) by (simp add: may_clean_up_def)
  let ?v = "\<lambda>kind. w\<lparr>w_db := final_state (CreateMachineOperation (new_operation (m_ID m) kind)) (w_db w)\<rparr>"
  have body: "isl (outcome (StopVM c (with_machine_count (w_db w) h) (m_ID m)) (w_net w)) \<Longrightarrow>
      isl (outcome (stop_body rt m) (?v kind)) \<and> w_db (final_state (stop_body rt m) (?v kind)) = w_db (?v kind)"
    "isl (outcome (DestroyVM c (with_machine_count (w_db w) h) (m_ID m)) (w_net w)) \<Longrightarrow>
      isl (outcome (delete_body rt backups m) (?v kind)) \<and> w_db (final_state (delete_body rt backups m) (?v kind)) = w_db (?v kind)" for kind
    using failed_agent_body [of "?v kind", OF _ assms(2,3) _ bad] by (simp_all add: create_frame nf assms(4))
  have ended: "rows_of (v\<lparr>w_db := final_state (CompleteMachineOperation opid st msg) (w_db (?v kind))\<rparr>) = rows_of w"
    for v kind opid st msg
    using rows_of_operations(1) [where w = w and opn = "new_operation (m_ID m) kind"]
      rows_of_operations(2) [where w = "?v kind" and opid = opid and st = st and msg = msg]
    by (simp add: rows_of_def)
  note look = no_op_lookup [OF assms(1)]
  show ?thesis
  proof (intro conjI [OF impI impI])
    assume "isl (outcome (StopVM c (with_machine_count (w_db w) h) (m_ID m)) (w_net w))"
    note b = body(1) [OF this, of "''stop''"]
    show "isl (outcome (stop rt m '''') w) \<and> rows_of (final_state (stop rt m '''') w) = rows_of w"
      using b ended rows_of_operations(1)
      by (cases "outcome (CreateMachineOperation (new_operation (m_ID m) ''stop'')) (w_db w)")
         (auto simp: stop_def complete_with_def look split_beta isl_def)
  next
    assume "isl (outcome (DestroyVM c (with_machine_count (w_db w) h) (m_ID m)) (w_net w))"
    note b = body(2) [OF this, of "''delete''"]
    show "isl (outcome (Delete rt backups m) w) \<and> rows_of (final_state (Delete rt backups m) w) = rows_of w"
      using b ended rows_of_operations(1)
      by (cases "outcome (CreateMachineOperation (new_operation (m_ID m) ''delete'')) (w_db w)")
         (auto simp: Delete_def delete_operation_def complete_with_def look split_beta isl_def)
  qed
qed

text \<open>The agent does not answer: the tape of the network is empty.\<close>

definition agent_service :: runtime_service where
  "agent_service = sample_service\<lparr>rt_agent := Some sample_agent\<rparr>"

theorem failed_stop_keeps_resources_witness:
  "isl (outcome (stop agent_service placed_machine '''') placed_world) \<and>
   rows_of (final_state (stop agent_service placed_machine '''') placed_world) = rows_of placed_world"
proof -
  have "isl (outcome (StopVM sample_agent (with_machine_count (w_db placed_world) placed_host) (m_ID placed_machine))
      (w_net placed_world))"
    by (simp add: StopVM_def agent_exec_def doRequest_def http_do_def quiet_net_def placed_world_def split_beta)
  then show ?thesis
    using failed_stop_keeps_resources [of placed_machine placed_world agent_service sample_agent 1 placed_host]
    by (simp add: no_op_def placed_world_def agent_service_def find_host_def placed_defs sample_defs)
qed

section \<open>What a handler leaves behind\<close>

lemma DeleteMachine_gone:
  assumes "outcome (DeleteMachine mid) s = Inr ()"
  shows "let t = final_state (DeleteMachine mid) s in
     (\<forall>r \<in> set (machines t). m_ID r \<noteq> mid) \<and> (\<forall>x \<in> set (machine_operations t). o_MachineID x \<noteq> mid) \<and>
     (\<forall>p \<in> set (machine_placements t). p_MachineID p \<noteq> mid)"
  using assms by (auto simp: DeleteMachine_def exec_def db_call_def Let_def split: list.splits bool.splits)

lemma CompleteOperation_frame:
  "machines (final_state (CompleteMachineOperation opid st msg) s) = machines s"
  "machine_placements (final_state (CompleteMachineOperation opid st msg) s) = machine_placements s"
  "o_MachineID ` set (machine_operations (final_state (CompleteMachineOperation opid st msg) s)) =
     o_MachineID ` set (machine_operations s)"
proof -
  have ids: "o_MachineID ` set (update_where p (finish_operation n st msg) ops) = o_MachineID ` set ops" for p n ops
    by (rule image_update_where) simp
  then show "machines (final_state (CompleteMachineOperation opid st msg) s) = machines s"
    "machine_placements (final_state (CompleteMachineOperation opid st msg) s) = machine_placements s"
    "o_MachineID ` set (machine_operations (final_state (CompleteMachineOperation opid st msg) s)) =
       o_MachineID ` set (machine_operations s)"
    by (auto simp: CompleteMachineOperation_def complete_operation_def tx_def db_call_def ids
        split: list.splits bool.splits)
qed

text \<open>
  C10: a deletion that reports success deleted. Whichever database calls fail on the way, after a
  successful \<open>Delete\<close> no row of the machine, no operation and no placement of it is left.
\<close>
theorem Delete_success:
  assumes "outcome (Delete rt backups m) w = Inr ()" "s = w_db (final_state (Delete rt backups m) w)"
  shows "(\<forall>r \<in> set (machines s). m_ID r \<noteq> m_ID m) \<and> (\<forall>x \<in> set (machine_operations s). o_MachineID x \<noteq> m_ID m) \<and>
     (\<forall>p \<in> set (machine_placements s). p_MachineID p \<noteq> m_ID m)"
proof -
  let ?v = "final_state (delete_operation m) w"
  obtain opid where body: "outcome (delete_body rt backups m) ?v = Inr ()"
    and s: "s = final_state (CompleteMachineOperation opid ''completed'' None) (w_db (final_state (delete_body rt backups m) ?v))"
    using assms by (auto simp: Delete_def complete_with_def split_beta split: sum.splits)
  obtain u where last: "outcome (DeleteMachine (m_ID m)) u = Inr ()"
    and t: "w_db (final_state (delete_body rt backups m) ?v) = final_state (DeleteMachine (m_ID m)) u"
    using body by (auto simp: delete_body_def split_beta split: sum.splits)
  let ?t = "final_state (DeleteMachine (m_ID m)) u"
  have "m_ID m \<notin> o_MachineID ` set (machine_operations s)"
    using DeleteMachine_gone [OF last] by (auto simp: s t CompleteOperation_frame(3) Let_def)
  then have "\<forall>x \<in> set (machine_operations s). o_MachineID x \<noteq> m_ID m" by force
  moreover have "machines s = machines ?t" "machine_placements s = machine_placements ?t"
    by (simp_all add: s t CompleteOperation_frame)
  ultimately show ?thesis using DeleteMachine_gone [OF last] by (simp add: Let_def)
qed

theorem Delete_success_witness:
  "outcome (Delete sample_service (Inr []) sample_machine) sample_world = Inr () \<and>
   uuid_of 0 \<notin> m_ID ` set (machines (w_db (final_state (Delete sample_service (Inr []) sample_machine) sample_world)))"
proof -
  have idle: "no_op (m_ID sample_machine) sample_db" by (simp add: no_op_def sample_defs)
  have "\<exists>op t. run_state (CreateMachineOperation (new_operation (m_ID sample_machine) ''delete'')) sample_db = (Inr op, t) \<and>
      db_faults t = []"
    by (simp add: CreateMachineOperation_def create_operation_def new_operation_def Let_def sample_defs)
  then have "outcome (Delete sample_service (Inr []) sample_machine) sample_world = Inr ()"
    using no_op_lookup [OF idle]
    by (auto simp: Delete_def delete_operation_def delete_body_def destroy_on_host_def teardown_machine_route_def
        delete_backups_def DeleteMachine_def complete_with_def split_beta)
  then show ?thesis
    using Delete_success [where rt = sample_service and backups = "Inr []" and m = sample_machine and
        w = sample_world, OF _ refl] by auto
qed

lemma teardown_frame:
  assumes "db_faults (w_db w) = []"
  shows "\<exists>f. w_db (final_state (teardown_machine_route rt m) w) = on_machine (m_ID m) f (w_db w) \<and>
     (\<forall>r. m_ID (f r) = m_ID r \<and> m_HostID (f r) = m_HostID r \<and> m_VMIP (f r) = m_VMIP r \<and> m_HomeHostID (f r) = m_HomeHostID r)"
proof (cases "rt_routing rt")
  case None
  have "on_machine (m_ID m) (\<lambda>r. r) (w_db w) = w_db w"
    by (simp add: on_machine_def update_where_ident)
  then show ?thesis using None by (intro exI [of _ "\<lambda>r. r"]) (simp add: teardown_machine_route_def)
next
  case (Some sv)
  have kv: "w_db (final_state (delete_kv_route sv a sl) v) = w_db v" for a sl v
    by (simp add: delete_kv_route_def split_beta split: option.splits)
  have tun: "w_db (final_state (delete_tunnel_of sv sl tid) v) = w_db v" for sl tid v
    by (simp add: delete_tunnel_of_def split_beta split: option.splits)
  show ?thesis
    using Some assms
    by (intro exI [of _ "\<lambda>r. r\<lparr>m_TunnelID := None, m_SigningKey := None\<rparr>"])
       (simp add: teardown_machine_route_def account_slug_def TeardownRoute_def GetAccount_def
         ClearMachineTunnel_def kv tun split_beta)
qed

lemma stop_vm_db: "db_faults (w_db w) = [] \<Longrightarrow> w_db (final_state (stop_vm_on_host rt m) w) = w_db w"
  by (auto simp: stop_vm_on_host_def GetHost_def split_beta split: option.splits sum.splits)

text \<open>
  A stop that succeeds stopped. With the database answering, after a successful stop of a
  machine on a host the row of the machine says stopped and keeps its host and address for the
  restart, the host is its home host, its vCPUs and memory (not its disk) are given back, and no
  placement of the machine is left unreleased.
\<close>
theorem stop_success:
  assumes "db_faults (w_db w) = []" "find_machine (m_ID m) (w_db w) = Some r" "m_HostID r = Some hid"
    and "find_host hid (w_db w) = Some h" "outcome (stop_body rt m) w = Inr ()"
    and "s = w_db (final_state (stop_body rt m) w)"
  shows "(\<exists>r'. find_machine (m_ID m) s = Some r' \<and> m_Status r' = ''stopped'' \<and> m_HostID r' = Some hid \<and>
            m_VMIP r' = m_VMIP r \<and> m_HomeHostID r' = Some hid) \<and>
    hosts s = update_where (\<lambda>k. h_ID k = hid) (credit_cpu_mem (m_VCPUs r) (m_MemoryMB r)) (hosts (w_db w)) \<and>
    (\<forall>p \<in> set (machine_placements s). p_MachineID p = m_ID m \<longrightarrow> p_ReleasedAt p \<noteq> None)"
proof -
  let ?w1 = "final_state (stop_vm_on_host rt m) w"
  let ?rel = "on_machine (m_ID m) (\<lambda>r. r\<lparr>m_HomeHostID := Some hid\<rparr>) (on_machine (m_ID m) (stop_machine (db_now (w_db w)))
       (on_host hid (credit_cpu_mem (m_VCPUs r) (m_MemoryMB r)) (release_placements (m_ID m) (w_db w))))"
  have db1: "w_db ?w1 = w_db w" by (rule stop_vm_db [OF assms(1)])
  have rel: "run_state (Release (rt_placement rt) (m_ID m) ReleaseSoft) (w_db w) = (Inr (), ?rel)"
    by (rule Release_soft_run [OF assms(1-4)])
  obtain f where f: "w_db (final_state (teardown_machine_route rt m) (?w1\<lparr>w_db := ?rel\<rparr>)) = on_machine (m_ID m) f ?rel"
    "\<forall>r. m_ID (f r) = m_ID r \<and> m_HostID (f r) = m_HostID r \<and> m_VMIP (f r) = m_VMIP r \<and> m_HomeHostID (f r) = m_HomeHostID r"
    using teardown_frame [of "?w1\<lparr>w_db := ?rel\<rparr>" rt m] assms(1) by auto
  have s: "s = on_machine (m_ID m) (set_machine_status (db_now (w_db w)) ''stopped'' None) (on_machine (m_ID m) f ?rel)"
    using assms(1,5,6) rel f(1)
    by (auto simp: stop_body_def db1 UpdateMachineStatus_def split_beta split: sum.splits)
  let ?r = "set_machine_status (db_now (w_db w)) ''stopped'' None (f ((stop_machine (db_now (w_db w)) r)\<lparr>m_HomeHostID := Some hid\<rparr>))"
  have "find_machine (m_ID m) s = Some ?r" using assms(2) f(2) by (simp add: s)
  moreover have "m_Status ?r = ''stopped''" "m_HostID ?r = Some hid" "m_VMIP ?r = m_VMIP r" "m_HomeHostID ?r = Some hid"
    using assms(3) f(2) by (simp_all add: stop_machine_def)
  moreover have "hosts s = update_where (\<lambda>k. h_ID k = hid) (credit_cpu_mem (m_VCPUs r) (m_MemoryMB r)) (hosts (w_db w))"
    by (simp add: s)
  moreover have "machine_placements s = machine_placements (release_placements (m_ID m) (w_db w))" by (simp add: s)
  then have "\<forall>p \<in> set (machine_placements s). p_MachineID p = m_ID m \<longrightarrow> p_ReleasedAt p \<noteq> None"
    by (simp add: release_placements_def ball_update_where)
  ultimately show ?thesis by blast
qed

theorem stop_success_witness:
  "outcome (stop_body sample_service placed_machine) placed_world = Inr () \<and>
   hosts (w_db (final_state (stop_body sample_service placed_machine) placed_world)) =
     update_where (\<lambda>k. h_ID k = 1) (credit_cpu_mem 2 4096) (hosts placed_db)"
proof -
  have row: "find_machine (m_ID placed_machine) placed_db = Some placed_machine" "m_HostID placed_machine = Some 1"
    "find_host 1 placed_db = Some placed_host" "db_faults placed_db = []" "m_VCPUs placed_machine = 2"
    "m_MemoryMB placed_machine = 4096"
    by (simp_all add: find_machine_def find_host_def placed_defs sample_defs)
  have "outcome (stop_body sample_service placed_machine) placed_world = Inr ()"
    using Release_soft_run [OF row(4,1,2,3), of sample_config]
    by (simp add: stop_body_def stop_vm_on_host_def teardown_machine_route_def sample_service_def placed_world_def
        UpdateMachineStatus_def row(4))
  then show ?thesis
    using stop_success [where w = placed_world and m = placed_machine and rt = sample_service and hid = 1 and
        r = placed_machine and h = placed_host, OF _ _ _ _ _ refl] row
    by (simp add: placed_world_def)
qed

section \<open>Failures that leave the books wrong\<close>

text \<open>
  A start that fails after the placement keeps the placement. When a first start has placed
  the machine and then the assembly of the seed configuration or of the custom providers fails,
  the start returns the error with the database exactly as the placement left it: the capacity
  stays charged, the placement reserved and the machine in provisioning.
\<close>
theorem failed_assembly_keeps_placement:
  assumes "rt_routing rt = None" "rt_enableResolver rt = False" "NormalizeMachineKind (m_Kind m) \<noteq> MachineKindHermes"
    and "m_GatewayToken m \<noteq> None" "m_ProxyToken m \<noteq> None" "m_HostID m = None" "m_BrowserVMID m = None"
    and "m_ProvisioningCompletedAt m = None" "so_TargetHostID opts = 0"
    and "bt_loadSecrets boot = Inr secrets" "bt_loadCredentials boot = Inr keys"
    and "bt_assembleSeedConfig boot = Inl e \<or> (bt_assembleSeedConfig boot = Inr sd \<and> bt_buildCustomProviders boot = Inl e)"
    and "run_state (Reserve (rt_placement rt) (en_draws en) (m_ID m) (start_request m opid 0)) (w_db w) = (Inr (pl, h, ip), t)"
  shows "run_state (start_body rt en boot opts m callerOp opid) w = (Inl e, w\<lparr>w_db := t\<rparr>)"
proof -
  have "(start_request m opid 0)\<lparr>pr_ExpectedImage := ''''\<rparr> = start_request m opid 0"
    by (simp add: start_request_def)
  then show ?thesis
    using assms
    by (auto simp: start_body_def ensure_tokens_def setup_machine_route_def start_selection_def start_placement_def
        start_on_host_def auto_unpair_def Let_def)
qed

theorem failed_assembly_keeps_placement_witness:
  "\<exists>t hid ip. run_state (start_body sample_service sample_entropy (sample_boot\<lparr>bt_buildCustomProviders := Inl ErrNoRows\<rparr>)
      sample_options sample_machine '''' '''') sample_world = (Inl ErrNoRows, sample_world\<lparr>w_db := t\<rparr>) \<and>
     placed_on sample_db hid (uuid_of 0) 2 4096 8192 ip t"
proof -
  let ?req = "start_request sample_machine '''' 0"
  have "\<exists>x. outcome (Reserve sample_config [] (uuid_of 0) ?req) sample_db = Inr x"
    by (rule reserve_succeeds [where h = sample_host])
       (simp_all add: eligible_host_def auto_filter_def fresh_heartbeat_def has_room_def has_disk_def
         region_for_def machine_ips_def matching_def sample_defs sample_config_def start_request_def
         disk_for_def deref_or_def map_filter_simps)
  then obtain pl h ip t where run: "run_state (Reserve sample_config [] (uuid_of 0) ?req) sample_db = (Inr (pl, h, ip), t)"
    by (metis prod.collapse)
  have disk: "release_disk sample_config sample_machine = 8192" by (simp add: release_disk_def sample_machine_def)
  have faults: "db_faults sample_db = []" by (simp add: sample_defs)
  obtain hid where placed: "placed_on sample_db hid (uuid_of 0) 2 4096 8192 ip t"
    using reserve_placed [OF faults run] by (auto simp: disk)
  have fixed: "rt_routing sample_service = None" "NormalizeMachineKind (m_Kind sample_machine) \<noteq> MachineKindHermes"
    "m_GatewayToken sample_machine \<noteq> None" "m_ProxyToken sample_machine \<noteq> None" "m_BrowserVMID sample_machine = None"
    "m_ProvisioningCompletedAt sample_machine = None" "so_TargetHostID sample_options = 0"
    by (simp_all add: sample_machine_def zero_machine_def sample_options_def NormalizeMachineKind_def)
  have "run_state (start_body sample_service sample_entropy (sample_boot\<lparr>bt_buildCustomProviders := Inl ErrNoRows\<rparr>)
      sample_options sample_machine '''' '''') sample_world = (Inl ErrNoRows, sample_world\<lparr>w_db := t\<rparr>)"
    by (rule failed_assembly_keeps_placement [where pl = pl and h = h and ip = ip and secrets = None and keys = None and sd = no_seed])
       (use run fixed in \<open>simp_all add: sample_boot_def sample_entropy_def\<close>)
  then show ?thesis using placed by blast
qed

end
