(* ===== verification/Reconciler_Properties.thy ===== *)
theory Reconciler_Properties
  imports Lifecycle_Properties
begin

text \<open>
  What the background passes do: the host reconciler never gives up a host that it cannot check,
  cleans up after a host that is gone, and resets machines that are stuck.
\<close>

section \<open>Hosts that only heartbeats tell about\<close>

text \<open>Host \<open>k\<close> has provider \<open>p\<close> and is not terminated.\<close>

definition alive_host :: "int \<Rightarrow> string \<Rightarrow> db \<Rightarrow> bool" where
  "alive_host k p s \<longleftrightarrow> (\<forall>h \<in> set (hosts s). h_ID h = k \<longrightarrow> h_Provider h = p \<and> h_Status h \<noteq> ''terminated'')"

interpretation alive_inv: db_invariant "alive_host k p" for k p
  by unfold_locales (simp add: alive_host_def)

lemma alive_updates [simp]:
  "alive_host k p (on_machine j f s) = alive_host k p s"
  "alive_host k p (s\<lparr>machines := ms\<rparr>) = alive_host k p s"
  "alive_host k p (s\<lparr>machine_placements := ps\<rparr>) = alive_host k p s"
  "alive_host k p (s\<lparr>browser_vm_placements := bs\<rparr>) = alive_host k p s"
  "alive_host k p (s\<lparr>machine_operations := ops\<rparr>) = alive_host k p s"
  "alive_host k p (s\<lparr>machine_backups := bks\<rparr>) = alive_host k p s"
  "alive_host k p (s\<lparr>db_uuids := u\<rparr>) = alive_host k p s"
  by (simp_all add: alive_host_def)

lemma alive_counters:
  assumes "alive_host k p s" "\<And>h. h_Provider (f h) = h_Provider h" "\<And>h. h_Status (f h) = h_Status h"
    "\<And>h. h_ID (f h) = h_ID h"
  shows "alive_host k p (on_host j f s)"
  using assms unfolding alive_host_def by (simp add: ball_update_where)

lemma counters_keep_status [simp]:
  "h_Provider (charge v m d h) = h_Provider h" "h_Status (charge v m d h) = h_Status h"
  "h_Provider (credit v m d h) = h_Provider h" "h_Status (credit v m d h) = h_Status h"
  "h_Provider (credit_cpu_mem v m h) = h_Provider h" "h_Status (credit_cpu_mem v m h) = h_Status h"
  "h_Provider (credit_exact v m h) = h_Provider h" "h_Status (credit_exact v m h) = h_Status h"
  by (simp_all add: charge_def credit_def credit_cpu_mem_def credit_exact_def)

lemma alive_transactions:
  "triple (alive_host k p) (PlaceOnHost hid j v m d) (\<lambda>_. True)"
  "triple (alive_host k p) (ReAllocateHostCapacity j hid v m d) (\<lambda>_. True)"
  "triple (alive_host k p) (SoftStopMachine j hid v m d) (\<lambda>_. True)"
  "triple (alive_host k p) (PlaceBrowserVMOnHost hid bid v m) (\<lambda>_. True)"
  "triple (alive_host k p) (ReleaseBrowserVMPlacement bid) (\<lambda>_. True)"
  "triple (alive_host k p) (ReservePlacement j hid ip op) (\<lambda>_. True)"
  "triple (alive_host k p) (ActivatePlacement pid) (\<lambda>_. True)"
  "triple (alive_host k p) (UpdateMachineHomeHost j home) (\<lambda>_. True)"
  "triple (alive_host k p) (MarkMachinesOnHostError hid txt) (\<lambda>_. True)"
  unfolding held_txs
  by (rule alive_inv.inv_tx,
      auto simp: Let_def split: if_splits option.splits sum.splits list.splits intro!: alive_counters)+

lemma alive_statements:
  "triple (alive_host k p) (ReleaseHostCapacityWithDisk hid v m d) (\<lambda>_. True)"
  "triple (alive_host k p) (ReleasePlacement j) (\<lambda>_. True)"
  "triple (alive_host k p) (UnassignMachineFromHost j) (\<lambda>_. True)"
  "triple (alive_host k p) (UpdateMachineStatus j st msg) (\<lambda>_. True)"
  "triple (alive_host k p) (SetMachineTokens j gw px) (\<lambda>_. True)"
  "triple (alive_host k p) (UpdateMachineVersion j snap ver) (\<lambda>_. True)"
  "triple (alive_host k p) (UpdateMachineTunnel j tid key) (\<lambda>_. True)"
  "triple (alive_host k p) (ClearMachineTunnel j) (\<lambda>_. True)"
  "triple (alive_host k p) (UnpairBrowserVM j) (\<lambda>_. True)"
  "triple (alive_host k p) (DeleteMachine j) (\<lambda>_. True)"
  unfolding ReleaseHostCapacityWithDisk_def ReleasePlacement_def UnassignMachineFromHost_def
    UpdateMachineStatus_def SetMachineTokens_def UpdateMachineVersion_def UpdateMachineTunnel_def
    ClearMachineTunnel_def UnpairBrowserVM_def DeleteMachine_def
  by (rule alive_inv.inv_exec, simp add: release_placements_def alive_counters)+

lemma alive_operations:
  "triple (alive_host k p) (CompleteMachineOperation j st msg) (\<lambda>_. True)"
  "triple (alive_host k p) (ExpireStaleOperations old) (\<lambda>_. True)"
  unfolding CompleteMachineOperation_def ExpireStaleOperations_def
  by (rule alive_inv.inv_tx, auto simp: complete_operation_def Let_def split: if_splits)+

interpretation alive: store_session "alive_host k p" "\<lambda>_ _ _. True" for k p
  by unfold_locales (simp_all add: alive_transactions alive_statements alive_operations)

lemma alive_status:
  assumes "j \<noteq> k \<or> st \<noteq> ''terminated''"
  shows "triple (alive_host k p) (UpdateHostStatus j st) (\<lambda>_. True)"
  unfolding UpdateHostStatus_def
  by (rule alive_inv.inv_exec) (use assms in \<open>auto simp: alive_host_def ball_update_where\<close>)

lemma alive_unreachable:
  "triple (alive_host k p) ListUnreachableHosts
     (\<lambda>r. \<forall>hs h. r = Inr hs \<longrightarrow> h \<in> set hs \<longrightarrow> h_ID h = k \<longrightarrow> h_Provider h = p)"
  unfolding ListUnreachableHosts_def
  by (rule alive_inv.inv_query_post) (auto simp: alive_host_def matching_def with_machine_count_def)

lemma alive_check:
  assumes "p \<noteq> ''''" "p \<noteq> ''gcp''" "h_ID h = k \<Longrightarrow> h_Provider h = p"
  shows "triple (\<lambda>w. alive_host k p (w_db w)) (check_unreachable hr h) (\<lambda>_. True)"
proof (cases "h_ID h = k")
  case True
  then have "check_unreachable hr h = ret ()"
    using assms by (simp add: check_unreachable_def checker_for_def HeartbeatOnlyChecker_def)
  then show ?thesis by (simp add: triple_return)
next
  case False
  then show ?thesis
    unfolding check_unreachable_def
    by (auto split: sum.splits bool.splits intro!: triple_rules alive.keeps_in_db alive_status
        alive.cleanupMachinesOnHost_keeps)
qed

text \<open>
  C17: a host that no provider API can vouch for is never declared terminated. A pass of the
  reconciler, whatever calls fail and whatever the instance checker says of other hosts, leaves a
  registered host (its provider is not GCP) that was not terminated not terminated, so its machines
  are not marked as lost.
\<close>
theorem registered_host_survives:
  assumes "alive_host k p (w_db w)" "p \<noteq> ''''" "p \<noteq> ''gcp''"
  shows "alive_host k p (w_db (final_state (reconcileOnce hr) w))"
proof -
  have "triple (\<lambda>w. alive_host k p (w_db w)) (reconcileOnce hr) (\<lambda>_. True)"
    unfolding reconcileOnce_def reconcileStuckMachines_def mark_unreachable_def
    by (rule triple_bind [OF alive.keeps_in_db [OF alive_unreachable]] alive_check [OF assms(2,3)]
        alive.world_keeps alive.keeps_in_db alive_status alive.reset_stuck_machine_keeps | simp)+
  then show ?thesis using assms(1) by (rule tripleD)
qed

definition registered_world :: world where
  "registered_world = sample_world\<lparr>w_db := sample_db\<lparr>hosts :=
     [sample_host\<lparr>h_Provider := ''hetzner'', h_Status := ''unreachable''\<rparr>]\<rparr>\<rparr>"

definition sample_reconciler :: host_reconciler where
  "sample_reconciler = \<lparr>hr_instanceCheck = (\<lambda>_ _. Inr False), hr_cleanup = Some sample_service,
     hr_staleThreshold = 180 * second\<rparr>"

theorem registered_host_survives_witness:
  "alive_host 1 ''hetzner'' (w_db (final_state (reconcileOnce sample_reconciler) registered_world))"
  by (rule registered_host_survives) (simp_all add: alive_host_def registered_world_def sample_defs)

section \<open>Cleaning up after a host\<close>

text \<open>No machine of the host is in a live status; the fact is kept by what follows the marking.\<close>

definition live_status :: "string \<Rightarrow> bool" where
  "live_status st \<longleftrightarrow> st \<in> {''running'', ''provisioning'', ''starting''}"

definition quiet_host :: "int \<Rightarrow> db \<Rightarrow> bool" where
  "quiet_host hid s \<longleftrightarrow> db_faults s = [] \<and>
     (\<forall>m \<in> set (machines s). m_HostID m = Some hid \<longrightarrow> \<not> live_status (m_Status m))"

interpretation quiet_inv: db_invariant "quiet_host hid" for hid
  by unfold_locales (simp add: quiet_host_def)

lemma quiet_steps:
  "triple (quiet_host hid) (ReleasePlacement j) (\<lambda>_. True)"
  "triple (quiet_host hid) (ClearMachineTunnel j) (\<lambda>_. True)"
  "triple (quiet_host hid) (UpdateMachineStatus j ''stopped'' msg) (\<lambda>_. True)"
  unfolding ReleasePlacement_def ClearMachineTunnel_def UpdateMachineStatus_def
  by (rule quiet_inv.inv_exec,
      auto simp: quiet_host_def release_placements_def ball_update_where live_status_def)+

lemma quiet_cleanup: "triple (\<lambda>w. quiet_host hid (w_db w)) (machine_cleanup hr j) (\<lambda>_. True)"
  unfolding machine_cleanup_def CleanupMachineRouteAndTunnel_def teardown_machine_route_def account_slug_def
    TeardownRoute_def delete_kv_route_def delete_tunnel_of_def GetMachine_def GetAccount_def
  by (rule triple_rules triple_in_db triple_in_net quiet_inv.inv_query quiet_steps | simp)+

lemma marked_quiet:
  assumes "db_faults s = []"
  shows "quiet_host hid (final_state (MarkMachinesOnHostError hid txt) s)"
  using assms
  by (simp add: MarkMachinesOnHostError_def quiet_host_def Let_def ball_update_where live_status_def)

text \<open>
  After a host is gone no machine claims to run on it. With the database answering, the
  cleanup of a host leaves no machine of it running, provisioning or starting.
\<close>
theorem cleanup_leaves_nothing_live:
  assumes "db_faults (w_db w) = []"
  shows "\<forall>m \<in> set (machines (w_db (final_state (cleanupMachinesOnHost hr h) w))).
     m_HostID m = Some (h_ID h) \<longrightarrow> m_Status m \<notin> {''running'', ''provisioning'', ''starting''}"
proof -
  let ?rest = "\<lambda>a. for_each (cleanup_affected hr) (case a of Inl _ \<Rightarrow> [] | Inr ids \<Rightarrow> ids) \<bind>
     (\<lambda>_. in_db (ListMachinesByHost (h_ID h)) \<bind> (\<lambda>l. case l of Inl _ \<Rightarrow> ret () | Inr ms \<Rightarrow> for_each mark_data_lost ms))"
  let ?mark = "MarkMachinesOnHostError (h_ID h) ''host terminated unexpectedly''"
  have rest: "triple (\<lambda>w. quiet_host (h_ID h) (w_db w)) (?rest a) (\<lambda>_. True)" for a
    unfolding cleanup_affected_def mark_data_lost_def ListMachinesByHost_def
    by (rule triple_rules triple_in_db triple_in_net quiet_inv.inv_query quiet_steps quiet_cleanup | simp)+
  have run: "final_state (cleanupMachinesOnHost hr h) w =
      final_state (?rest (outcome ?mark (w_db w))) (w\<lparr>w_db := final_state ?mark (w_db w)\<rparr>)"
    unfolding cleanupMachinesOnHost_def by (simp only: run_state_bind run_in_db prod.case)
  have "quiet_host (h_ID h) (w_db (final_state (cleanupMachinesOnHost hr h) w))"
    unfolding run by (rule tripleD [OF rest]) (simp add: marked_quiet assms)
  then show ?thesis by (auto simp: quiet_host_def live_status_def)
qed

theorem cleanup_leaves_nothing_live_witness:
  "(1, ''running'') \<notin> (\<lambda>m. (deref_or 0 (m_HostID m), m_Status m)) `
     set (machines (w_db (final_state (cleanupMachinesOnHost sample_reconciler placed_host) placed_world)))"
proof -
  have "db_faults (w_db placed_world) = []" by (simp add: placed_world_def placed_defs sample_defs)
  from cleanup_leaves_nothing_live [OF this, of sample_reconciler placed_host] show ?thesis
    by (auto simp: deref_or_def placed_host_def sample_host_def split: option.splits)
qed

section \<open>Stuck machines\<close>

lemma same_hosts_statements:
  "state_io_rel (same hosts) (ReleasePlacement j)" "state_io_rel (same hosts) (ClearMachineTunnel j)"
  "state_io_rel (same hosts) (UpdateMachineStatus j st msg)"
  "state_io_rel (same hosts) (CompleteMachineOperation opid st msg)"
  "state_io_rel (same hosts) (query f)"
  unfolding ReleasePlacement_def ClearMachineTunnel_def UpdateMachineStatus_def CompleteMachineOperation_def query_def
  by (auto simp: state_io_rel_def same_def exec_def tx_def db_call_def release_placements_def complete_operation_def
      split: list.splits bool.splits)

lemma same_hosts_in_db: "state_io_rel (same hosts) m \<Longrightarrow> state_io_rel (same (\<lambda>w. hosts (w_db w))) (in_db m)"
  by (simp add: state_io_rel_def same_def)

lemma same_hosts_in_net: "state_io_rel (same (\<lambda>w. hosts (w_db w))) (in_net m)"
  by (simp add: state_io_rel_def same_def)

text \<open>
  Resetting a stuck machine leaves the capacity that it holds charged. The reconciler releases
  the placement record of a stuck machine, sets the machine to error and changes no counter of any
  host, whatever calls fail.
\<close>
theorem stuck_reset_keeps_capacity:
  "hosts (w_db (final_state (reset_stuck_machine hr m) w)) = hosts (w_db w)"
proof -
  have "state_io_rel (same (\<lambda>w. hosts (w_db w))) (reset_stuck_machine hr m)"
    unfolding reset_stuck_machine_def machine_cleanup_def CleanupMachineRouteAndTunnel_def teardown_machine_route_def
      account_slug_def TeardownRoute_def delete_kv_route_def delete_tunnel_of_def GetMachine_def GetAccount_def
      GetActiveMachineOperation_def
    by (rule same_preorder.io_rules same_hosts_in_db same_hosts_in_net same_hosts_statements)+
  then show ?thesis by (rule sameD)
qed

end
