(* ===== verification/Routing_Properties.thy ===== *)
theory Routing_Properties
  imports Samples Routing
begin

text \<open>
  What the routing side promises: the bounded retries of the route cache, the projector that
  publishes every running route, the reconciler that deletes stale entries only, the set-up and the
  teardown of a route, and the reaper of orphaned tunnels.
\<close>

section \<open>The route cache\<close>

definition route_request :: "kv_store \<Rightarrow> route_data \<Rightarrow> http_request" where
  "route_request kv r = put_request kv (route_key (rd_AccountSlug r) (rd_MachineSlug r)) (route_value (entry_of r)) 3600"

definition sample_kv :: kv_store where
  "sample_kv = \<lparr>kv_accountID = ''acc'', kv_namespaceID = ''ns'', kv_apiToken = ''t''\<rparr>"

definition flaky_net :: net where
  "flaky_net = \<lparr>net_tape = [TimedOut ''deadline'', Reply 503 '''' None, Reply 200 '''' None, Reply 200 '''' None], net_log = []\<rparr>"

definition sample_entry :: kv_route_entry where
  "sample_entry = \<lparr>kr_MachineID = uuid_of 0, kr_HostHostname = ''h.example.org'', kr_ProxyToken = ''p''\<rparr>"

text \<open>
  A key is escaped, so whatever it holds the URL can be sent if the base of the URLs can.
\<close>

lemma escapes_ok_append: "escapes_ok a \<Longrightarrow> escapes_ok b \<Longrightarrow> escapes_ok (a @ b)"
  by (induction a rule: escapes_ok.induct) (auto split: list.splits)

lemma url_ok_append: "url_ok a \<Longrightarrow> url_ok b \<Longrightarrow> url_ok (a @ b)"
  by (simp add: url_ok_def escapes_ok_append)

lemma url_ok_concat: "\<forall>x \<in> set xs. url_ok x \<Longrightarrow> url_ok (concat xs)"
  by (induction xs) (simp_all add: url_ok_append, simp add: url_ok_def)

lemma url_ok_unreserved:
  assumes "unreserved c \<or> c \<in> set ''$&+=:@''"
  shows "url_ok [c]"
proof -
  have "list_all (\<lambda>c. url_ok [c])
      (''ABCDEFGHIJKLMNOPQRSTUVWXYZabcdefghijklmnopqrstuvwxyz0123456789-_.~'' @ ''$&+=:@'')"
    by code_simp
  then show ?thesis using assms unfolding unreserved_def list_all_iff set_append by blast
qed

lemma hex_digits: "n < 16 \<Longrightarrow> ''0123456789ABCDEF'' ! n \<in> set ''0123456789ABCDEF''"
  by (rule nth_mem) simp

lemma hex_plain:
  assumes "x \<in> set ''0123456789ABCDEF''"
  shows "is_hex x \<and> x \<noteq> CHR ''%'' \<and> 32 \<le> (of_char x :: nat) \<and> of_char x \<noteq> (127 :: nat)"
proof -
  have "\<forall>x \<in> set ''0123456789ABCDEF''.
      is_hex x \<and> x \<noteq> CHR ''%'' \<and> 32 \<le> (of_char x :: nat) \<and> of_char x \<noteq> (127 :: nat)"
    by code_simp
  then show ?thesis using assms by (rule bspec)
qed

lemma url_ok_hex:
  assumes "x \<in> set ''0123456789ABCDEF''" "y \<in> set ''0123456789ABCDEF''"
  shows "url_ok [CHR ''%'', x, y]"
proof -
  note x = hex_plain [OF assms(1)] and y = hex_plain [OF assms(2)]
  show ?thesis using x y unfolding url_ok_def by simp
qed

lemma url_ok_escape_char: "url_ok (escape_char c)"
proof -
  have "(of_char c :: nat) < 256" by (rule nat_of_char_less_256)
  then have "(of_char c :: nat) div 16 < 16" "(of_char c :: nat) mod 16 < 16" by linarith+
  then show ?thesis unfolding escape_char_def Let_def
    by (intro url_ok_hex hex_digits)
qed

lemma url_ok_path_escape: "url_ok (path_escape s)"
  unfolding path_escape_def by (rule url_ok_concat) (auto simp: url_ok_escape_char intro: url_ok_unreserved)

lemma url_ok_digits: "list_all is_digit s \<Longrightarrow> url_ok s"
  by (induction s) (auto simp: url_ok_def is_digit_def)

lemma url_ok_parts: "url_ok ''/values/''" "url_ok (''?expiration_ttl='' @ show_int 3600)"
proof -
  have "url_ok (show_int 3600)"
    by (rule url_ok_digits) (simp add: show_int_def show_nat_def digits_of_digits del: digits_of.simps)
  then show "url_ok (''?expiration_ttl='' @ show_int 3600)"
    by (rule url_ok_append [rotated]) code_simp
qed code_simp

lemma url_ok_put: "url_ok (kv_base kv) \<Longrightarrow> url_ok (kv_put_url kv key 3600)"
  unfolding kv_put_url_def by (intro url_ok_append [OF _ url_ok_append [OF _ url_ok_append]] url_ok_path_escape url_ok_parts)

lemma url_ok_del: "url_ok (kv_base kv) \<Longrightarrow> url_ok (kv_del_url kv key)"
  unfolding kv_del_url_def by (intro url_ok_append url_ok_path_escape url_ok_parts)

lemma tries: "Suc 2 = 3" "rs \<noteq> [] \<longleftrightarrow> 1 \<le> length rs"
  by (auto simp: Suc_le_eq)

text \<open>
  Writing a route to the cache is retried with a bound. At least one and at most three
  identical PUT requests are sent, every one but perhaps the last is refused, the call succeeds
  exactly if the last one was accepted, and it gives up only after three.
\<close>
theorem PutRouteSync_attempts:
  assumes "url_ok (kv_base kv)"
  shows "\<exists>rs. net_log (final_state (PutRouteSync kv a m e) n) =
        net_log n @ map (Pair (put_request kv (route_key a m) (route_value e) 3600)) rs \<and>
     1 \<le> length rs \<and> length rs \<le> 3 \<and> (\<forall>r \<in> set (butlast rs). \<not> put_accepted r) \<and>
     (outcome (PutRouteSync kv a m e) n = Inr () \<longleftrightarrow> put_accepted (last rs)) \<and>
     (\<not> put_accepted (last rs) \<longrightarrow> length rs = 3)"
proof -
  have "url_ok (rq_URL (put_request kv (route_key a m) (route_value e) 3600))"
    using url_ok_put [OF assms] by (simp add: put_request_def)
  from kv_puts.retry_attempts [OF this, of 2 "ErrText ''''" n, unfolded tries] show ?thesis
    unfolding PutRouteSync_def putWithRetry_def by (rule exE) blast
qed

lemma sample_kv_base: "url_ok (kv_base sample_kv)"
  by (simp add: kv_base_def sample_kv_def url_ok_def)

theorem PutRouteSync_attempts_witness:
  "\<exists>rs. net_log (final_state (PutRouteSync sample_kv ''acme'' ''web'' sample_entry) flaky_net) =
        map (Pair (put_request sample_kv (route_key ''acme'' ''web'') (route_value sample_entry) 3600)) rs \<and>
     1 \<le> length rs \<and> length rs \<le> 3"
  using PutRouteSync_attempts [OF sample_kv_base, of "''acme''" "''web''" sample_entry flaky_net]
  by (auto simp: flaky_net_def)

section \<open>The projector\<close>

lemma put_route_log:
  "\<exists>rs. net_log (final_state (PutRouteSync kv (rd_AccountSlug r) (rd_MachineSlug r) (entry_of r)) n) =
        net_log n @ map (Pair (route_request kv r)) rs \<and>
     (outcome (PutRouteSync kv (rd_AccountSlug r) (rd_MachineSlug r) (entry_of r)) n = Inr () \<longrightarrow>
        (\<exists>x \<in> set rs. put_accepted x)) \<and>
     (url_ok (kv_base kv) \<longrightarrow> rs \<noteq> [])"
  using kv_puts.retry_log [of 3 kv "route_key (rd_AccountSlug r) (rd_MachineSlug r)" "route_value (entry_of r)" 3600 "ErrText ''''" n]
    url_ok_put [of kv "route_key (rd_AccountSlug r) (rd_MachineSlug r)"]
  by (auto simp: PutRouteSync_def putWithRetry_def route_request_def put_request_def)

lemma put_routes_log:
  assumes "url_ok (kv_base kv)"
  shows "\<exists>more. net_log (final_state (put_routes kv rs k) n) = net_log n @ more \<and>
     fst ` set more = route_request kv ` set rs \<and> outcome (put_routes kv rs k) n \<le> k + length rs \<and>
     (outcome (put_routes kv rs k) n = k + length rs \<longrightarrow>
        (\<forall>r \<in> set rs. \<exists>x. (route_request kv r, x) \<in> set more \<and> put_accepted x))"
proof (induction rs arbitrary: k n)
  case (Cons r rs)
  let ?put = "PutRouteSync kv (rd_AccountSlug r) (rd_MachineSlug r) (entry_of r)"
  let ?n = "final_state ?put n" and ?k = "case outcome ?put n of Inl _ \<Rightarrow> k | Inr _ \<Rightarrow> Suc k"
  obtain xs where xs: "net_log ?n = net_log n @ map (Pair (route_request kv r)) xs" "xs \<noteq> []"
      "outcome ?put n = Inr () \<longrightarrow> (\<exists>x \<in> set xs. put_accepted x)"
    using put_route_log [of kv r n] assms by blast
  obtain more where more: "net_log (final_state (put_routes kv rs ?k) ?n) = net_log ?n @ more"
      "fst ` set more = route_request kv ` set rs" "outcome (put_routes kv rs ?k) ?n \<le> ?k + length rs"
      "outcome (put_routes kv rs ?k) ?n = ?k + length rs \<longrightarrow>
        (\<forall>r \<in> set rs. \<exists>x. (route_request kv r, x) \<in> set more \<and> put_accepted x)"
    using Cons.IH [of ?k ?n] by blast
  have all: "?k = Suc k \<and> outcome ?put n = Inr ()" if "outcome (put_routes kv rs ?k) ?n = k + Suc (length rs)"
    using that more(3) by (cases "outcome ?put n") simp_all
  have run: "run_state (put_routes kv (r # rs) k) n = run_state (put_routes kv rs ?k) ?n"
    by (simp add: split_beta)
  have "\<exists>x. (route_request kv q, x) \<in> set (map (Pair (route_request kv r)) xs @ more) \<and> put_accepted x"
    if synced: "outcome (put_routes kv rs ?k) ?n = k + Suc (length rs)" and q: "q \<in> set (r # rs)" for q
  proof (cases "q = r")
    case True
    then show ?thesis using all [OF synced] xs(3) by auto
  next
    case False
    have "outcome (put_routes kv rs ?k) ?n = ?k + length rs" using all [OF synced] synced by simp
    then show ?thesis using False q more(4) by auto
  qed
  moreover have "fst ` set (map (Pair (route_request kv r)) xs @ more) = route_request kv ` set (r # rs)"
    using xs(2) more(2) by (simp add: image_Un image_image image_constant_conv)
  moreover have "outcome (put_routes kv rs ?k) ?n \<le> k + Suc (length rs)"
    using more(3) by (auto split: sum.splits)
  ultimately show ?case unfolding run using xs(1) more(1)
    by (intro exI [of _ "map (Pair (route_request kv r)) xs @ more"]) simp
qed simp

text \<open>
  A pass of the projector publishes the running routes and nothing else. With the database
  answering, the requests it sends are exactly PUTs of the running routes, one at least of each
  whatever became of the others, and when it reports as many routes synced as there are, the cache
  accepted every one.
\<close>
theorem SyncOnce_publishes:
  assumes "db_faults (w_db w) = []" "url_ok (kv_base kv)"
  shows "\<exists>k more. outcome (SyncOnce kv) w = Inr k \<and> k \<le> length (running_routes (w_db w)) \<and>
     net_log (w_net (final_state (SyncOnce kv) w)) = net_log (w_net w) @ more \<and>
     fst ` set more = route_request kv ` set (running_routes (w_db w)) \<and>
     (k = length (running_routes (w_db w)) \<longrightarrow>
        (\<forall>r \<in> set (running_routes (w_db w)). \<exists>x. (route_request kv r, x) \<in> set more \<and> put_accepted x))"
  using put_routes_log [OF assms(2), of "running_routes (w_db w)" 0 "w_net w"] assms(1)
  by (auto simp: SyncOnce_def ListRunningRoutes_def split_beta)

definition routed_world :: world where
  "routed_world = \<lparr>w_db = placed_db\<lparr>hosts := [placed_host\<lparr>h_TunnelURL := Some ''h.example.org''\<rparr>]\<rparr>, w_net = flaky_net\<rparr>"

definition sample_route :: route_data where
  "sample_route = \<lparr>rd_AccountSlug = ''acme'', rd_MachineID = uuid_of 0, rd_MachineSlug = ''web'',
     rd_HostHostname = ''h.example.org'', rd_ProxyToken = ''p''\<rparr>"

lemma routed_routes: "running_routes (w_db routed_world) = [sample_route]"
  by (simp add: routed_world_def placed_defs sample_defs running_routes_def route_of_def sample_route_def)

lemma routed_faults: "db_faults (w_db routed_world) = []"
  by (simp add: routed_world_def placed_defs sample_defs)

theorem SyncOnce_publishes_witness:
  "\<exists>k more. outcome (SyncOnce sample_kv) routed_world = Inr k \<and> k \<le> 1 \<and>
     net_log (w_net (final_state (SyncOnce sample_kv) routed_world)) = net_log (w_net routed_world) @ more \<and>
     fst ` set more = {route_request sample_kv sample_route}"
  using SyncOnce_publishes [OF routed_faults sample_kv_base] by (auto simp: routed_routes)

section \<open>The reconciler of the cache\<close>

lemma split_key_Some:
  assumes "split_key key = Some (a, m)"
  shows "key = a @ '':'' @ m"
proof -
  let ?a = "takeWhile (\<lambda>c. c \<noteq> CHR '':'') key"
  have len: "length ?a < length key" and am: "a = ?a" "m = drop (Suc (length ?a)) key"
    using assms by (auto simp: split_key_def Let_def split: if_splits)
  have "key = ?a @ key ! length ?a # drop (Suc (length ?a)) key"
    using id_take_nth_drop [OF len] takeWhile_eq_take [of "\<lambda>c. c \<noteq> CHR '':''" key] by simp
  then show ?thesis using nth_length_takeWhile [OF len] am by simp
qed

lemma split_key_None: "split_key key = None \<longleftrightarrow> CHR '':'' \<notin> set key"
proof -
  have "length (takeWhile (\<lambda>c. c \<noteq> CHR '':'') key) < length key \<longleftrightarrow> CHR '':'' \<in> set key"
    using length_takeWhile_le [of "\<lambda>c. c \<noteq> CHR '':''" key] takeWhile_eq_all_conv [of "\<lambda>c. c \<noteq> CHR '':''" key]
    by (metis (mono_tags, lifting) append_Nil2 le_neq_implies_less less_irrefl takeWhile_dropWhile_id
        append_eq_conv_conj take_all_iff le_refl)
  then show ?thesis by (simp add: split_key_def Let_def)
qed

lemma split_key_route: "split_key key = Some (a, m) \<Longrightarrow> route_key a m = ''route:'' @ key"
  by (drule split_key_Some) (simp add: route_key_def)

lemma delete_route_log:
  "\<exists>rs. net_log (final_state (DeleteRouteSync kv a m) n) = net_log n @ map (Pair (del_request kv (route_key a m))) rs \<and>
     (url_ok (kv_base kv) \<longrightarrow> rs \<noteq> [])"
  using kv_dels.retry_log [of 3 kv "route_key a m" "ErrText ''''" n] url_ok_del [of kv "route_key a m"]
  by (auto simp: DeleteRouteSync_def delWithRetry_def del_request_def)

definition stale_key :: "db \<Rightarrow> string \<Rightarrow> bool" where
  "stale_key s key \<longleftrightarrow> CHR '':'' \<in> set key \<and> key \<notin> db_key ` set (running_routes s)"

lemma delete_stale_log:
  assumes "url_ok (kv_base kv)"
  shows "\<exists>more. net_log (final_state (delete_stale kv valid keys k) n) = net_log n @ more \<and>
     fst ` set more = (\<lambda>key. del_request kv (''route:'' @ key)) ` {key \<in> set keys. CHR '':'' \<in> set key \<and> key \<notin> set valid}"
proof (induction keys arbitrary: k n)
  case (Cons key keys)
  show ?case
  proof (cases "key \<in> set valid \<or> split_key key = None")
    case True
    then have "run_state (delete_stale kv valid (key # keys) k) n = run_state (delete_stale kv valid keys k) n"
      by auto
    moreover have "{x \<in> set (key # keys). CHR '':'' \<in> set x \<and> x \<notin> set valid} = {x \<in> set keys. CHR '':'' \<in> set x \<and> x \<notin> set valid}"
      using True by (auto simp: split_key_None)
    ultimately show ?thesis using Cons.IH by simp
  next
    case False
    then obtain a m where am: "split_key key = Some (a, m)" by auto
    let ?del = "DeleteRouteSync kv a m" and ?rq = "del_request kv (''route:'' @ key)"
    obtain xs where xs: "net_log (final_state ?del n) = net_log n @ map (Pair ?rq) xs" "xs \<noteq> []"
      using delete_route_log [of kv a m n] assms split_key_route [OF am] by auto
    let ?k = "case outcome ?del n of Inl _ \<Rightarrow> k | Inr _ \<Rightarrow> Suc k"
    obtain more where more: "net_log (final_state (delete_stale kv valid keys ?k) (final_state ?del n)) = net_log (final_state ?del n) @ more"
        "fst ` set more = (\<lambda>key. del_request kv (''route:'' @ key)) ` {key \<in> set keys. CHR '':'' \<in> set key \<and> key \<notin> set valid}"
      using Cons.IH by blast
    have run: "run_state (delete_stale kv valid (key # keys) k) n = run_state (delete_stale kv valid keys ?k) (final_state ?del n)"
      using False am by (simp add: split_beta)
    have "{x \<in> set (key # keys). CHR '':'' \<in> set x \<and> x \<notin> set valid} = insert key {x \<in> set keys. CHR '':'' \<in> set x \<and> x \<notin> set valid}"
      using False by (auto simp: split_key_None)
    then show ?thesis unfolding run using xs more
      by (intro exI [of _ "map (Pair ?rq) xs @ more"]) (simp add: image_Un image_image image_constant_conv)
  qed
qed simp

text \<open>
  A pass of the reconciler of the cache deletes exactly the stale entries. With the database
  answering, the requests it sends are DELETEs of the keys that no running route has, of every one
  of them whatever became of the others, and it never deletes the entry of a running machine.
\<close>
theorem ReconcileOnce_deletes_stale:
  assumes "db_faults (w_db w) = []" "url_ok (kv_base kv)"
  shows "\<exists>k more. outcome (ReconcileOnce kv keys) w = Inr k \<and>
     net_log (w_net (final_state (ReconcileOnce kv keys) w)) = net_log (w_net w) @ more \<and>
     fst ` set more = (\<lambda>key. del_request kv (''route:'' @ key)) ` {key \<in> set keys. stale_key (w_db w) key}"
  using delete_stale_log [OF assms(2), of "map db_key (running_routes (w_db w))" keys 0 "w_net w"] assms(1)
  by (auto simp: ReconcileOnce_def ListRunningRoutes_def split_beta stale_key_def)

theorem ReconcileOnce_deletes_stale_witness:
  "\<exists>k more. outcome (ReconcileOnce sample_kv [''acme:web'', ''acme:old'']) routed_world = Inr k \<and>
     net_log (w_net (final_state (ReconcileOnce sample_kv [''acme:web'', ''acme:old'']) routed_world)) =
       net_log (w_net routed_world) @ more \<and>
     fst ` set more = {del_request sample_kv ''route:acme:old''}"
proof -
  have "{key \<in> set [''acme:web'', ''acme:old'']. stale_key (w_db routed_world) key} = {''acme:old''}"
    by (auto simp: stale_key_def routed_routes sample_route_def db_key_def)
  then show ?thesis
    using ReconcileOnce_deletes_stale [OF routed_faults sample_kv_base, of "[''acme:web'', ''acme:old'']"] by simp
qed

section \<open>Setting up and tearing down a route\<close>

text \<open>
  The row remembers the route that a set-up hands out. With the database answering, whatever
  Cloudflare answers, \<open>SetupRoute\<close> succeeds if the random bytes could be drawn, and it leaves in the
  row of the machine the tunnel (none if there is none) and the signing key that it returns, and
  changes no other machine and no other table.
\<close>
theorem SetupRoute_persists:
  assumes "db_faults (w_db w) = []" "bytes \<noteq> []"
  shows "\<exists>r. outcome (SetupRoute sv (Inr bytes) mid slug) w = Inr r \<and> sr_SigningKey r = hex_of bytes \<and>
     w_db (final_state (SetupRoute sv (Inr bytes) mid slug) w) =
       on_machine mid (\<lambda>m. m\<lparr>m_TunnelID := nullif_empty (sr_TunnelID r), m_SigningKey := Some (sr_SigningKey r)\<rparr>) (w_db w)"
proof -
  have key: "nullif_empty (hex_of bytes) = Some (hex_of bytes)"
    using assms(2) by (cases bytes) (simp_all add: nullif_empty_def hex_of_def)
  show ?thesis
    using assms(1)
    by (auto simp: SetupRoute_def persistRouteState_def UpdateMachineTunnel_def Let_def split_beta key
        split: option.splits sum.splits prod.splits)
qed

definition sample_routing :: routing_service where
  "sample_routing = NewWithDomain (New ''tok'' ''acc'' ''zone'') (Some sample_kv) ''example.org''"

theorem SetupRoute_persists_witness:
  "\<exists>r. outcome (SetupRoute sample_routing (Inr [171]) (uuid_of 0) ''web'') routed_world = Inr r \<and> sr_SigningKey r = ''ab''"
proof -
  have "hex_of [171] = ''ab''" by code_simp
  then show ?thesis
    using SetupRoute_persists [OF routed_faults, of "[171]" sample_routing "uuid_of 0" "''web''"] by auto
qed

text \<open>
  Tearing a route down never fails and always forgets it. Whatever the cache and Cloudflare
  answer, \<open>TeardownRoute\<close> reports no error and, with the database answering, clears the tunnel and
  the signing key of the machine and nothing else.
\<close>
theorem TeardownRoute_clears:
  assumes "db_faults (w_db w) = []"
  shows "outcome (TeardownRoute sv mid slug acct tid) w = Inr () \<and>
     w_db (final_state (TeardownRoute sv mid slug acct tid) w) =
       on_machine mid (\<lambda>m. m\<lparr>m_TunnelID := None, m_SigningKey := None\<rparr>) (w_db w)"
  using assms
  by (auto simp: TeardownRoute_def delete_kv_route_def delete_tunnel_of_def ClearMachineTunnel_def split_beta
      split: option.splits)


theorem TeardownRoute_clears_witness:
  "outcome (TeardownRoute sample_routing (uuid_of 0) ''web'' ''acme'' ''t1'') routed_world = Inr () \<and>
   w_db (final_state (TeardownRoute sample_routing (uuid_of 0) ''web'' ''acme'' ''t1'') routed_world) =
     on_machine (uuid_of 0) (\<lambda>m. m\<lparr>m_TunnelID := None, m_SigningKey := None\<rparr>) (w_db routed_world)"
  by (rule TeardownRoute_clears [OF routed_faults])

section \<open>The reaper\<close>

definition slug_of :: "tunnel_info \<Rightarrow> string" where
  "slug_of t = trim_prefix (ti_Name t) ''ocm-vm-''"

definition orphan :: "db \<Rightarrow> tunnel_info \<Rightarrow> bool" where
  "orphan s t \<longleftrightarrow> has_prefix (ti_Name t) ''ocm-vm-'' \<and>
     \<not> (\<exists>m \<in> set (machines s). m_Slug m = slug_of t \<and> m_Status m \<in> {''running'', ''provisioning''})"

definition delete_orphan :: "tunnel_manager \<Rightarrow> string \<Rightarrow> tunnel_info \<Rightarrow> (net, unit result) state" where
  "delete_orphan tm domain t = DeleteTunnelAndDNS tm (ti_ID t)
     [''m-'' @ slug_of t @ ''.'' @ domain, ''ssh-'' @ slug_of t @ ''.'' @ domain]"

lemma reap_one_run:
  assumes "db_faults (w_db w) = []"
  shows "final_state (reap_one tm domain t) w =
     (if orphan (w_db w) t then w\<lparr>w_net := final_state (delete_orphan tm domain t) (w_net w)\<rparr> else w)"
  using assms
  by (auto simp: reap_one_def orphan_def IsMachineActive_def delete_orphan_def slug_of_def Let_def split_beta)

lemma reap_all_run:
  assumes "db_faults (w_db w) = []"
  shows "final_state (for_each (reap_one tm domain) ts) w =
     w\<lparr>w_net := final_state (for_each (delete_orphan tm domain) (filter (orphan (w_db w)) ts)) (w_net w)\<rparr>"
  using assms
  by (induction ts arbitrary: w) (simp_all add: split_beta reap_one_run)

text \<open>
  C18: the reaper deletes the orphans and only them. With the database answering, a pass that got
  the list of the tunnels does on the network exactly the deletion of the VM tunnels of the list
  that no running or provisioning machine has the name of, in the order of the list and going on
  after a failure; it leaves the database alone, and every other tunnel.
\<close>
theorem reaper_deletes_orphans:
  assumes "db_faults (w_db w) = []" "trim_domain dp \<noteq> ''''" "run_state (ListTunnels tm) (w_net w) = (Inr ts, n)"
  shows "final_state (reapWithDomain tm dp) w =
     w\<lparr>w_net := final_state (for_each (delete_orphan tm (trim_domain dp)) (filter (orphan (w_db w)) ts)) n\<rparr>"
  using assms reap_all_run [of "w\<lparr>w_net := n\<rparr>" tm "trim_domain dp" ts]
  by (simp add: reapWithDomain_def Let_def split_beta)

definition sample_tunnels :: tunnel_manager where
  "sample_tunnels = \<lparr>tm_apiToken = ''tok'', tm_accountID = ''acc'', tm_zoneID = ''zone''\<rparr>"

definition listing :: json where
  "listing = JObj [(''success'', JBool True), (''result'', JArr
     [JObj [(''id'', JStr ''t1''), (''name'', JStr ''ocm-vm-web'')], JObj [(''id'', JStr ''t2''), (''name'', JStr ''ocm-host-1'')]])]"

definition reaper_world :: world where
  "reaper_world = \<lparr>w_db = placed_db, w_net = \<lparr>net_tape = [Reply 200 '''' (Some listing)], net_log = []\<rparr>\<rparr>"


lemma url_ok_list: "url_ok (api_accounts sample_tunnels @ ''?is_deleted=false&per_page=1000'')"
  by (simp add: api_accounts_def sample_tunnels_def url_ok_def)

definition sample_listing :: "tunnel_info list" where
  "sample_listing = [\<lparr>ti_ID = ''t1'', ti_Name = ''ocm-vm-web'', ti_CreatedAt = ''''\<rparr>,
     \<lparr>ti_ID = ''t2'', ti_Name = ''ocm-host-1'', ti_CreatedAt = ''''\<rparr>]"

lemma decode_listing:
  "(case decode_cf (Some listing) of (cf, bad) \<Rightarrow> \<not> bad \<and> cf_Success cf \<and>
     (case cf_Result cf of None \<Rightarrow> False | Some res \<Rightarrow>
        decode_slice \<lparr>ti_ID = '''', ti_Name = '''', ti_CreatedAt = ''''\<rparr> decode_tunnel_info [] res = (sample_listing, False)))"
  by code_simp

lemma listed_tunnels: "outcome (ListTunnels sample_tunnels) (w_net reaper_world) = Inr sample_listing"
  using url_ok_list decode_listing
  by (auto simp: ListTunnels_def cf_send_def http_do_def cf_request_def reaper_world_def Let_def split_beta split: option.splits)

lemma sample_orphans: "filter (orphan (w_db reaper_world)) sample_listing = []"
  by (simp add: orphan_def slug_of_def sample_listing_def reaper_world_def placed_defs sample_defs trim_prefix_def)

theorem reaper_deletes_orphans_witness:
  "w_net (final_state (reapWithDomain sample_tunnels ''example.org'') reaper_world) =
     final_state (ListTunnels sample_tunnels) (w_net reaper_world)"
proof -
  have "run_state (ListTunnels sample_tunnels) (w_net reaper_world) =
      (Inr sample_listing, final_state (ListTunnels sample_tunnels) (w_net reaper_world))"
    using listed_tunnels by (simp add: prod_eq_iff)
  moreover have "trim_domain ''example.org'' \<noteq> ''''" by code_simp
  moreover have "db_faults (w_db reaper_world) = []" by (simp add: reaper_world_def placed_defs sample_defs)
  ultimately show ?thesis
    using reaper_deletes_orphans [of reaper_world "''example.org''" sample_tunnels sample_listing] by (simp add: sample_orphans)
qed

text \<open>
  The reaper takes the tunnel of a machine that is being restarted. The check counts only
  running and provisioning machines as active, so with the database answering a VM tunnel whose
  machine is \<open>starting\<close>, the status of every restart until the VM is up, is deleted as an orphan.
\<close>
theorem reaper_takes_starting_tunnel:
  assumes "db_faults (w_db w) = []" "ti_Name t = ''ocm-vm-'' @ slug"
    and "\<forall>r \<in> set (machines (w_db w)). m_Slug r = slug \<longrightarrow> m_Status r = ''starting''"
  shows "final_state (reap_one tm domain t) w =
     w\<lparr>w_net := final_state (DeleteTunnelAndDNS tm (ti_ID t)
        [''m-'' @ slug @ ''.'' @ domain, ''ssh-'' @ slug @ ''.'' @ domain]) (w_net w)\<rparr>"
proof -
  have slug: "slug_of t = slug" "has_prefix (ti_Name t) ''ocm-vm-''"
    by (simp_all add: slug_of_def assms(2) trim_prefix_def)
  have "orphan (w_db w) t" using slug assms(3) by (auto simp: orphan_def)
  then show ?thesis using reap_one_run [OF assms(1), of tm domain t] by (simp add: delete_orphan_def slug)
qed

definition starting_world :: world where
  "starting_world = \<lparr>w_db = placed_db\<lparr>machines := [placed_machine\<lparr>m_Status := ''starting''\<rparr>]\<rparr>, w_net = quiet_net\<rparr>"

theorem reaper_takes_starting_tunnel_witness:
  "final_state (reap_one sample_tunnels ''example.org'' (hd sample_listing)) starting_world =
     starting_world\<lparr>w_net := final_state (DeleteTunnelAndDNS sample_tunnels ''t1''
        [''m-web.example.org'', ''ssh-web.example.org'']) quiet_net\<rparr>"
  using reaper_takes_starting_tunnel [of starting_world "hd sample_listing" "''web''" sample_tunnels "''example.org''"]
  by (simp add: starting_world_def placed_defs sample_defs sample_listing_def)

end
