(* ===== verification/Catalog_Properties.thy ===== *)
theory Catalog_Properties
  imports Samples Version_Resolver
begin

text \<open>
  What the version parser, the runtime resolution, the catalog of releases, the workflow locks and
  the enrollment tokens promise.
\<close>

section \<open>Versions\<close>

lemma digit_not:
  assumes "is_digit c"
  shows "\<not> is_space c" "c \<notin> set ''-+''" "c \<noteq> CHR ''.''" "c \<noteq> CHR ''v''" "c \<noteq> CHR ''-''" "c \<noteq> CHR ''+''"
  using assms by (auto simp: is_digit_def is_space_def)

lemma atoi_show_nat: "n < 2 ^ 63 \<Longrightarrow> atoi (show_nat n) = Some (int n)"
proof -
  assume n: "n < 2 ^ 63"
  obtain c cs where digits: "show_nat n = c # cs" using show_nat_nonempty by (cases "show_nat n") auto
  then have "c \<noteq> CHR ''-''" "c \<noteq> CHR ''+''" using show_nat_digits [of n] digit_not [of c] by simp_all
  moreover have "int n < 2 ^ 63" using n by (metis of_nat_less_iff of_nat_numeral of_nat_power)
  ultimately show ?thesis using show_nat_digits [of n] digits_value_show_nat [of n]
    by (simp add: atoi_def digits Let_def)
qed

lemma trim_space_id: "list_all (\<lambda>c. \<not> is_space c) s \<Longrightarrow> trim_space s = s"
proof -
  have drop: "list_all (\<lambda>c. \<not> is_space c) xs \<Longrightarrow> dropWhile is_space xs = xs" for xs
    by (cases xs) simp_all
  show "list_all (\<lambda>c. \<not> is_space c) s \<Longrightarrow> trim_space s = s"
    by (simp add: trim_space_def trim_where_def drop)
qed

lemma digit_word: "CHR ''.'' \<notin> set (show_nat n)" "takeWhile (\<lambda>c. c \<notin> set ''-+'') (show_nat n @ r) = show_nat n @ takeWhile (\<lambda>c. c \<notin> set ''-+'') r"
  using show_nat_digits [of n] digit_not(2,3) by (auto simp: list_all_iff intro!: takeWhile_append2)

lemma drop_v: "pre = '''' \<or> pre = ''v'' \<Longrightarrow> trim_prefix (pre @ show_nat y @ r) ''v'' = show_nat y @ r"
proof -
  obtain c cs where digits: "show_nat y = c # cs" by (cases "show_nat y") auto
  then have "c \<noteq> CHR ''v''" using show_nat_digits [of y] digit_not [of c] by simp
  then show "pre = '''' \<or> pre = ''v'' \<Longrightarrow> trim_prefix (pre @ show_nat y @ r) ''v'' = show_nat y @ r"
    by (auto simp: trim_prefix_def digits)
qed

lemma version_words:
  assumes "rest = [] \<or> hd rest \<in> set ''.-+''"
  shows "\<exists>ws. split_on (CHR ''.'') (takeWhile (\<lambda>c. c \<notin> set ''-+'') (show_nat y @ CHR ''.'' # show_nat m @ rest)) =
     show_nat y # show_nat m # ws"
proof -
  have "takeWhile (\<lambda>c. c \<notin> set ''-+'') rest = [] \<or> (\<exists>r. takeWhile (\<lambda>c. c \<notin> set ''-+'') rest = CHR ''.'' # r)"
    using assms by (cases rest) auto
  then show ?thesis
    by (auto simp: digit_word [simplified] split_on_word split_on_last)
qed

text \<open>
  Versions are read back. A version written as a year from 2000 on, a dot and a month, with or
  without a leading v, and followed by nothing or by a patch, a revision, a pre-release or a build
  part, parses to that year and month; whatever parses is a year from 2000 on and a month from 1 to
  12; and \<open>AtLeast\<close> compares the pair with the wanted train, the year first.
\<close>
theorem Parse_roundtrip:
  assumes "2000 \<le> y" "y < 2 ^ 63" "1 \<le> m" "m \<le> 12" "pre = '''' \<or> pre = ''v''"
    and "rest = [] \<or> hd rest \<in> set ''.-+''" "list_all (\<lambda>c. \<not> is_space c) rest"
  shows "Parse (pre @ show_nat y @ ''.'' @ show_nat m @ rest) = Some (int y, int m) \<and>
    AtLeast (pre @ show_nat y @ ''.'' @ show_nat m @ rest) wy wm =
      Some (wy < int y \<or> wy = int y \<and> wm \<le> int m)"
proof -
  let ?v = "pre @ show_nat y @ CHR ''.'' # show_nat m @ rest"
  have "list_all (\<lambda>c. \<not> is_space c) (show_nat k)" for k
    using show_nat_digits [of k] digit_not(1) by (auto simp: list_all_iff)
  then have trim: "trim_space ?v = ?v"
    using assms(5,7) by (intro trim_space_id) (auto simp: is_space_def)
  obtain ws where words: "split_on (CHR ''.'') (takeWhile (\<lambda>c. c \<notin> set ''-+'') (show_nat y @ CHR ''.'' # show_nat m @ rest)) =
     show_nat y # show_nat m # ws" using version_words [OF assms(6)] by blast
  have "m < 2 ^ 63" using assms(4) by simp
  then have "Parse ?v = Some (int y, int m)"
    unfolding Parse_def Let_def trim drop_v [OF assms(5)] words
    using assms(1-4) by (simp add: atoi_show_nat)
  then show ?thesis by (auto simp: AtLeast_def)
qed

theorem Parse_roundtrip_witness:
  "AtLeast (''v'' @ show_nat 2026 @ ''.'' @ show_nat 6 @ ''.5-r1'') 2026 5 = Some True"
  using Parse_roundtrip [of 2026 6 "''v''" "''.5-r1''" 2026 5] by (simp add: is_space_def)

section \<open>Resolution\<close>

lemma trim_keeps: "c \<in> set s \<Longrightarrow> \<not> is_space c \<Longrightarrow> c \<in> set (trim_space s)"
proof -
  have "c \<in> set s \<Longrightarrow> \<not> p c \<Longrightarrow> c \<in> set (dropWhile p s)" for p and s :: string
    by (induction s) auto
  then show "c \<in> set s \<Longrightarrow> \<not> is_space c \<Longrightarrow> c \<in> set (trim_space s)"
    by (simp add: trim_space_def trim_where_def)
qed

lemma trim_space_empty: "trim_space s = '''' \<longleftrightarrow> (\<forall>c \<in> set s. is_space c)"
proof
  assume "\<forall>c \<in> set s. is_space c"
  then have blank: "dropWhile is_space s = []" by simp
  show "trim_space s = ''''" unfolding trim_space_def trim_where_def blank by simp
qed (use trim_keeps [of _ s] in fastforce)

lemma trim_space_subset: "c \<in> set (trim_space s) \<Longrightarrow> c \<in> set s"
  by (auto simp: trim_space_def trim_where_def dest!: set_dropWhileD)

lemma trim_space_twice: "trim_space (trim_space s) = '''' \<longleftrightarrow> trim_space s = ''''"
  unfolding trim_space_empty using trim_keeps trim_space_subset by blast

text \<open>The sources of a version, in the order in which they are asked.\<close>

definition version_sources ::
  "machine \<Rightarrow> string option \<Rightarrow> string option \<Rightarrow> string option \<Rightarrow> string option \<Rightarrow> string \<Rightarrow> string option list" where
  "version_sources m desired resolved actual recorded dflt =
     [desired] @ (if firstNonEmptyPtr [m_DesiredChannel m] = '''' then [] else [resolved]) @ [actual] @
     (if firstNonEmptyPtr [m_VersionSource m] = ''default'' then [] else [resolved, recorded]) @ [Some dflt]"

lemma first_append: "firstNonEmptyPtr (xs @ ys) = (if firstNonEmptyPtr xs = '''' then firstNonEmptyPtr ys else firstNonEmptyPtr xs)"
  by (induction xs rule: firstNonEmptyPtr.induct) auto

lemma first_trimmed: "trim_space (firstNonEmptyPtr [p]) = '''' \<longleftrightarrow> firstNonEmptyPtr [p] = ''''"
proof (cases p)
  case None
  then show ?thesis by (simp add: trim_space_empty)
next
  case (Some v)
  then show ?thesis using trim_space_twice [of v] by (simp add: trim_space_empty)
qed

lemma first_single: "firstNonEmptyPtr [Some v] = trim_space v"
  by simp

lemma resolve_version_first:
  "resolve_version chan byDefault desired resolved actual recorded dflt =
     firstNonEmptyPtr ([desired] @ (if chan then [resolved] else []) @ [actual] @
       (if byDefault then [] else [resolved, recorded]) @ [Some dflt])"
  unfolding resolve_version_def Let_def by (simp only: first_append first_single [symmetric]) simp

text \<open>
  The resolution of a version is the first non-blank of its sources, in order: the pin; what
  the channel resolved to, if the machine has a channel; what last booted; what was resolved and
  recorded, unless the version source is the default; the default of the deployment. The root file
  system and the runtime are resolved alike and the source always is an artifact.
\<close>
theorem ResolveMachineRuntime_order:
  "rx_ResolvedRootfsVersion (ResolveMachineRuntime m d) = firstNonEmptyPtr (version_sources m (m_DesiredRootfsVersion m)
       (m_ResolvedRootfsVersion m) (m_ActualRootfsVersion m) (m_RootfsSnapshot m) (rd_DefaultRootfsVersion d)) \<and>
   rx_ResolvedOpenClawVersion (ResolveMachineRuntime m d) = firstNonEmptyPtr (version_sources m (m_DesiredOpenclawVersion m)
       (m_ResolvedOpenclawVersion m) (m_ActualOpenclawVersion m) (m_OpenclawVersion m) (rd_DefaultOpenClawVersion d)) \<and>
   rx_RuntimeSource (ResolveMachineRuntime m d) = ''artifact''"
proof -
  have "(m_VersionSource m \<noteq> None \<and> trim_space (deref_or '''' (m_VersionSource m)) = ''default'') =
      (firstNonEmptyPtr [m_VersionSource m] = ''default'')"
    by (cases "m_VersionSource m") (simp_all add: deref_or_def)
  then show ?thesis
    by (simp add: ResolveMachineRuntime_def Let_def version_sources_def resolve_version_first first_trimmed)
qed

section \<open>The catalog of releases\<close>

lemma newest_insort: "\<forall>x \<in> set xs. ar_CreatedAt x \<le> ar_CreatedAt r \<Longrightarrow>
   hd (insort_by (\<lambda>a b. ar_CreatedAt b < ar_CreatedAt a) r xs) = r"
  by (cases xs) auto

lemma insort_hd_max:
  assumes "xs \<noteq> [] \<Longrightarrow> \<forall>x \<in> set xs. ar_CreatedAt x \<le> ar_CreatedAt (hd xs)"
  shows "\<forall>x \<in> set (insort_by (\<lambda>a b. ar_CreatedAt b < ar_CreatedAt a) r xs).
     ar_CreatedAt x \<le> ar_CreatedAt (hd (insort_by (\<lambda>a b. ar_CreatedAt b < ar_CreatedAt a) r xs))"
  using assms by (cases xs) force+

lemma newest_first_hd:
  "xs \<noteq> [] \<Longrightarrow> \<forall>x \<in> set (newest_first xs). ar_CreatedAt x \<le> ar_CreatedAt (hd (newest_first xs))"
proof (induction xs)
  case (Cons r xs)
  show ?case using insort_hd_max [of "newest_first xs" r] Cons.IH
    by (cases xs) (auto simp: newest_first_def sort_by_def)
qed simp

text \<open>
  The latest release is the latest. With the database answering, \<open>GetLatestArtifactRelease\<close>
  returns a release of the kind and the channel asked for that no release of that kind and channel
  is newer than, and an error only if there is none; it changes nothing.
\<close>
theorem GetLatestArtifactRelease_newest:
  assumes "db_faults s = []"
  shows "case run_state (GetLatestArtifactRelease kind channel) s of
     (Inr r, t) \<Rightarrow> t = s \<and> r \<in> set (artifact_releases s) \<and> ar_Kind r = kind \<and> ar_Channel r = channel \<and>
       (\<forall>x \<in> set (artifact_releases s). ar_Kind x = kind \<and> ar_Channel x = channel \<longrightarrow> ar_CreatedAt x \<le> ar_CreatedAt r)
   | (Inl e, t) \<Rightarrow> t = s \<and> (\<forall>x \<in> set (artifact_releases s). \<not> (ar_Kind x = kind \<and> ar_Channel x = channel))"
proof -
  let ?xs = "matching (\<lambda>x. ar_Kind x = kind \<and> ar_Channel x = channel) (artifact_releases s)"
  have members: "set (newest_first ?xs) = {x \<in> set (artifact_releases s). ar_Kind x = kind \<and> ar_Channel x = channel}"
    by (simp add: newest_first_def matching_def)
  show ?thesis
  proof (cases "newest_first ?xs")
    case Nil
    then show ?thesis using assms members by (auto simp: GetLatestArtifactRelease_def one_row_def)
  next
    case (Cons r rs)
    then have "?xs \<noteq> []" by (auto simp: newest_first_def sort_by_def)
    then show ?thesis using assms members newest_first_hd [of ?xs] Cons
      by (auto simp: GetLatestArtifactRelease_def one_row_def)
  qed
qed

section \<open>Workflow locks\<close>

lemma same_faults: "db_faults s = fs \<Longrightarrow> s\<lparr>db_faults := fs\<rparr> = s"
  by (cases s) simp

lemma db_call_Inr:
  assumes "run_state (db_call f) s = (Inr x, t)"
  shows "\<exists>fs. f (s\<lparr>db_faults := fs\<rparr>) = (Inr x, t)"
proof (cases "db_faults s")
  case Nil
  have "f (s\<lparr>db_faults := []\<rparr>) = f s" using same_faults [OF Nil] by (rule arg_cong)
  then have "f (s\<lparr>db_faults := []\<rparr>) = (Inr x, t)" using assms Nil by (simp only:) (simp add: db_call_def)
  then show ?thesis by blast
next
  case (Cons b fs)
  then show ?thesis using assms by (intro exI [of _ fs]) (cases b, simp_all add: db_call_def)
qed

lemma tx_Inr:
  assumes "run_state (tx f) s = (Inr x, t)"
  shows "\<exists>fs. f (s\<lparr>db_faults := fs\<rparr>) = (Inr x, t)"
proof -
  obtain fs where "(case f (s\<lparr>db_faults := fs\<rparr>) of (Inl e, _) \<Rightarrow> (Inl e, s\<lparr>db_faults := fs\<rparr>) | (Inr a, s') \<Rightarrow> (Inr a, s')) = (Inr x, t)"
    using db_call_Inr [OF assms [unfolded tx_def]] by blast
  then show ?thesis by (intro exI [of _ fs]) (cases "f (s\<lparr>db_faults := fs\<rparr>)"; cases "fst (f (s\<lparr>db_faults := fs\<rparr>))"; simp)
qed

lemma acquired_rows:
  assumes "run_state (AcquireWorkflowLock a) s = (Inr got, t)"
  shows "(\<exists>x \<in> set (workflow_locks t). same_lock a x) \<and>
     (\<forall>x \<in> set (workflow_locks t). same_lock a x \<longrightarrow>
        wl_WorkflowID x = wl_WorkflowID a \<and> wl_LeaseExpiresAt x = wl_LeaseExpiresAt a)"
proof -
  obtain fs where run: "acquire_lock a (s\<lparr>db_faults := fs\<rparr>) = (Inr got, t)"
    using tx_Inr [OF assms [unfolded AcquireWorkflowLock_def]] by blast
  show ?thesis
  proof (cases "matching (same_lock a) (workflow_locks s)")
    case Nil
    then have none: "\<forall>x \<in> set (workflow_locks s). \<not> same_lock a x" by (simp add: matching_def filter_empty_conv)
    have "workflow_locks t = workflow_locks s @ [a\<lparr>wl_CreatedAt := db_now s, wl_UpdatedAt := db_now s\<rparr>]"
      using run Nil by (auto simp: acquire_lock_def Let_def split: if_splits)
    then show ?thesis using none by (auto simp: same_lock_def)
  next
    case (Cons h hs)
    then have h: "h \<in> set (workflow_locks s)" "same_lock a h"
      using filter_set [of "same_lock a" "workflow_locks s"] by (auto simp: matching_def)
    have t: "workflow_locks t = update_where (same_lock a) (\<lambda>h. h\<lparr>wl_WorkflowID := wl_WorkflowID a,
        wl_LeaseExpiresAt := wl_LeaseExpiresAt a, wl_UpdatedAt := db_now s\<rparr>) (workflow_locks s)"
      using run Cons by (auto simp: acquire_lock_def Let_def split: if_splits)
    have "\<exists>x \<in> set (workflow_locks t). same_lock a x"
      using h unfolding t by (intro bexI [of _ "h\<lparr>wl_WorkflowID := wl_WorkflowID a,
        wl_LeaseExpiresAt := wl_LeaseExpiresAt a, wl_UpdatedAt := db_now s\<rparr>"])
        (auto simp: same_lock_def set_update_where)
    then show ?thesis by (auto simp: t ball_update_where)
  qed
qed

text \<open>
  A workflow lock is exclusive while its lease lasts. After one workflow has acquired a lock,
  another workflow that asks for the same resource and kind is told that it is held, and changes
  nothing, in every later state in which the lock table is as the acquisition left it and the lease
  has not run out.
\<close>
theorem lock_is_exclusive:
  assumes "run_state (AcquireWorkflowLock a) s = (Inr got, t)"
    and "workflow_locks u = workflow_locks t" "db_now u \<le> wl_LeaseExpiresAt a" "db_faults u = []"
    and "same_lock b a" "wl_WorkflowID b \<noteq> wl_WorkflowID a"
  shows "run_state (AcquireWorkflowLock b) u = (Inl ErrWorkflowLockHeld, u)"
proof -
  have key: "same_lock b = same_lock a" using assms(5) by (auto simp: same_lock_def)
  note rows = acquired_rows [OF assms(1), folded assms(2)]
  then obtain h hs where held: "matching (same_lock b) (workflow_locks u) = h # hs"
    unfolding key by (cases "matching (same_lock a) (workflow_locks u)") (auto simp: matching_def filter_empty_conv)
  then have "h \<in> set (matching (same_lock b) (workflow_locks u))" by simp
  then have "h \<in> set (workflow_locks u)" "same_lock a h" by (simp_all add: matching_def key)
  then have "\<not> may_take (db_now u) b h" using rows assms(3,6) by (auto simp: may_take_def)
  then show ?thesis using assms(4) held by (simp add: AcquireWorkflowLock_def acquire_lock_def Let_def)
qed

definition sample_run_row :: workflow_run where
  "sample_run_row = \<lparr>wr_ID = ''w1'', wr_Kind = ''upgrade'', wr_ScopeType = ''machine'', wr_ScopeID = uuid_of 0,
     wr_Status = ''running'', wr_CurrentPhase = None, wr_RequestedBy = None, wr_AccountID = None,
     wr_Priority = ''normal'', wr_InputJSON = None, wr_OutputJSON = None, wr_SummaryJSON = None,
     wr_ErrorCode = None, wr_ErrorMessage = None, wr_StartedAt = None, wr_CompletedAt = None,
     wr_CreatedAt = 0, wr_UpdatedAt = 0\<rparr>"

definition sample_lock :: "string \<Rightarrow> workflow_lock" where
  "sample_lock wid = \<lparr>wl_ResourceType = ''machine'', wl_ResourceID = uuid_of 0, wl_LockKind = ''lifecycle'',
     wl_WorkflowID = wid, wl_LeaseExpiresAt = minute, wl_CreatedAt = 0, wl_UpdatedAt = 0\<rparr>"

definition workflow_db :: db where
  "workflow_db = sample_db\<lparr>workflow_runs := [sample_run_row]\<rparr>"

definition locked_db :: db where
  "locked_db = workflow_db\<lparr>workflow_locks := [sample_lock ''w1'']\<rparr>"

theorem lock_is_exclusive_witness:
  "run_state (AcquireWorkflowLock (sample_lock ''w2'')) locked_db = (Inl ErrWorkflowLockHeld, locked_db)"
proof -
  have "run_state (AcquireWorkflowLock (sample_lock ''w1'')) workflow_db = (Inr (sample_lock ''w1''), locked_db)"
    by (simp add: AcquireWorkflowLock_def acquire_lock_def matching_def workflow_db_def locked_db_def sample_run_row_def
        sample_lock_def sample_defs Let_def)
  then show ?thesis
    by (rule lock_is_exclusive [where u = locked_db])
       (simp_all add: locked_db_def workflow_db_def sample_lock_def same_lock_def sample_defs)
qed

theorem GetLatestArtifactRelease_newest_witness:
  "case run_state (GetLatestArtifactRelease ''rootfs'' ''stable'') sample_db of
     (Inr r, t) \<Rightarrow> False | (Inl e, t) \<Rightarrow> t = sample_db"
  using GetLatestArtifactRelease_newest [of sample_db "''rootfs''" "''stable''"]
  by (auto simp: sample_defs split: prod.splits sum.splits)

section \<open>Enrollment tokens\<close>

text \<open>
  A token is spent when a row has it and none that has it can be used any more. Only the two
  statements on tokens, and time, change the part of the database on which this depends.
\<close>

definition spent :: "string \<Rightarrow> db \<Rightarrow> bool" where
  "spent token s \<longleftrightarrow> token \<in> et_Token ` set (host_enrollment_tokens s) \<and>
     (\<forall>t \<in> set (host_enrollment_tokens s). \<not> usable_token token (db_now s) t)"

definition token_view :: "db \<Rightarrow> enrollment_token list \<times> time" where
  "token_view s = (host_enrollment_tokens s, db_now s)"

interpretation tokens: db_preorder "same token_view"
  by unfold_locales (rule fault_blind_same, simp add: token_view_def)

lemmas statement_defs = on_browser_vm_def on_machine_def on_host_def Let_def

lemma machine_statements_keep_tokens:
  "state_io_rel (same token_view) (CreateMachine m)"
  "state_io_rel (same token_view) (UpdateMachine m)"
  "state_io_rel (same token_view) (UpdateMachineStatus mid st msg)"
  "state_io_rel (same token_view) (UpdateMachineStatusCAS mid old new msg)"
  "state_io_rel (same token_view) (SetMachineTokens mid gw px)"
  "state_io_rel (same token_view) (UpdateMachineVersion mid snap ver)"
  "state_io_rel (same token_view) (UpdateMachineActualVersions hid mid r v)"
  "state_io_rel (same token_view) (UpdateMachineTunnel mid tid key)"
  "state_io_rel (same token_view) (ClearMachineTunnel mid)"
  "state_io_rel (same token_view) (UpdateMachineHomeHost mid home)"
  "state_io_rel (same token_view) (UnassignMachineFromHost mid)"
  "state_io_rel (same token_view) (DeleteMachine mid)"
  "state_io_rel (same token_view) (MarkMachinesOnHostError hid txt)"
  "state_io_rel (same token_view) (PairBrowserVM mid bid)"
  "state_io_rel (same token_view) (UnpairBrowserVM mid)"
  unfolding CreateMachine_def UpdateMachine_def UpdateMachineStatus_def UpdateMachineStatusCAS_def SetMachineTokens_def
    UpdateMachineVersion_def UpdateMachineActualVersions_def UpdateMachineTunnel_def ClearMachineTunnel_def
    UpdateMachineHomeHost_def UnassignMachineFromHost_def DeleteMachine_def MarkMachinesOnHostError_def
    PairBrowserVM_def UnpairBrowserVM_def
  by (rule tokens.io_db same_preorder.io_rules |
      auto simp: same_def token_view_def statement_defs insert_machine_def default_workspace_def split: if_splits option.splits prod.splits list.splits)+

lemma host_statements_keep_tokens:
  "state_io_rel (same token_view) (CreateHost h)"
  "state_io_rel (same token_view) (CreateRegisteredHost h)"
  "state_io_rel (same token_view) (UpdateHostHeartbeat hid ip ag rf br oc caps)"
  "state_io_rel (same token_view) (UpdateHostStatus hid st)"
  "state_io_rel (same token_view) (UpdateHostStatusMessage hid st txt)"
  "state_io_rel (same token_view) (SetHostMaintenanceMode hid b)"
  "state_io_rel (same token_view) (UpdateHostDetails h)"
  "state_io_rel (same token_view) (DeleteHost hid)"
  "state_io_rel (same token_view) (UpdateHostAgentEndpoint hid ep kind)"
  "state_io_rel (same token_view) (UpdateHostProviderMetadata hid md)"
  "state_io_rel (same token_view) (UpdateHostSourceImage hid img)"
  "state_io_rel (same token_view) (UpsertHostArtifactState a)"
  unfolding CreateHost_def CreateRegisteredHost_def UpdateHostHeartbeat_def UpdateHostStatus_def UpdateHostStatusMessage_def
    SetHostMaintenanceMode_def UpdateHostDetails_def DeleteHost_def UpdateHostAgentEndpoint_def UpdateHostProviderMetadata_def
    UpdateHostSourceImage_def UpsertHostArtifactState_def upsert_artifact_state_def
  by (rule tokens.io_db same_preorder.io_rules |
      auto simp: same_def token_view_def statement_defs add_host_def Let_def
        split: if_splits option.splits prod.splits list.splits)+

lemma placement_statements_keep_tokens:
  "state_io_rel (same token_view) (PlaceOnHost hid mid v m d)"
  "state_io_rel (same token_view) (ReAllocateHostCapacity mid hid v m d)"
  "state_io_rel (same token_view) (SoftStopMachine mid hid v m d)"
  "state_io_rel (same token_view) (ReleaseHostCapacityWithDisk hid v m d)"
  "state_io_rel (same token_view) (ReleaseMigrationSource mid hid v m rel)"
  "state_io_rel (same token_view) (ReservePlacement mid hid ip opid)"
  "state_io_rel (same token_view) (ActivatePlacement pid)"
  "state_io_rel (same token_view) (ReleasePlacement mid)"
  unfolding PlaceOnHost_def ReAllocateHostCapacity_def SoftStopMachine_def ReleaseHostCapacityWithDisk_def
    ReleaseMigrationSource_def ReservePlacement_def ActivatePlacement_def ReleasePlacement_def
  by (rule tokens.io_db same_preorder.io_rules |
      auto simp: same_def token_view_def statement_defs place_on_host_def reallocate_def stop_machine_def release_migration_source_def
        reserve_placement_def release_placements_def split: if_splits option.splits prod.splits sum.splits)+

lemma browser_statements_keep_tokens:
  "state_io_rel (same token_view) (CreateBrowserVM bv)"
  "state_io_rel (same token_view) (UpdateBrowserVMStatus bid st msg)"
  "state_io_rel (same token_view) (AssignBrowserVMToHost bid hid ip)"
  "state_io_rel (same token_view) (UnassignBrowserVMFromHost bid)"
  "state_io_rel (same token_view) (DeleteBrowserVM bid)"
  "state_io_rel (same token_view) (PlaceBrowserVMOnHost hid bid v m)"
  "state_io_rel (same token_view) (ActivateBrowserVMPlacement bid)"
  "state_io_rel (same token_view) (ReleaseBrowserVMPlacement bid)"
  unfolding CreateBrowserVM_def UpdateBrowserVMStatus_def AssignBrowserVMToHost_def UnassignBrowserVMFromHost_def
    DeleteBrowserVM_def PlaceBrowserVMOnHost_def ActivateBrowserVMPlacement_def ReleaseBrowserVMPlacement_def
  by (rule tokens.io_db same_preorder.io_rules |
      auto simp: same_def token_view_def statement_defs place_browser_vm_def release_browser_placement_def
        split: if_splits option.splits prod.splits sum.splits list.splits)+

lemma operation_statements_keep_tokens:
  "state_io_rel (same token_view) (CreateMachineOperation opn)"
  "state_io_rel (same token_view) (CompleteMachineOperation opid st msg)"
  "state_io_rel (same token_view) (ExpireStaleOperations old)"
  "state_io_rel (same token_view) (CreateWorkflowRun run)"
  "state_io_rel (same token_view) (CreateWorkflowEvent ev)"
  "state_io_rel (same token_view) (AcquireWorkflowLock l)"
  "state_io_rel (same token_view) (RenewWorkflowLock wid rt rid k until)"
  "state_io_rel (same token_view) (ReleaseWorkflowLocks wid)"
  unfolding CreateMachineOperation_def CompleteMachineOperation_def ExpireStaleOperations_def CreateWorkflowRun_def
    CreateWorkflowEvent_def AcquireWorkflowLock_def RenewWorkflowLock_def ReleaseWorkflowLocks_def
  by (rule tokens.io_db same_preorder.io_rules |
      auto simp: same_def token_view_def statement_defs create_operation_def complete_operation_def acquire_lock_def
        split: if_splits option.splits prod.splits sum.splits list.splits)+

lemma backup_statements_keep_tokens:
  "state_io_rel (same token_view) (UpdateWorkflowRunStatus wid st ph sm ec em)"
  "state_io_rel (same token_view) (CompleteWorkflowRun wid st out ec em)"
  "state_io_rel (same token_view) (CreateBackupRecord b)"
  "state_io_rel (same token_view) (DeleteBackupRecord bid)"
  "state_io_rel (same token_view) (DeleteAllBackupRecords mid)"
  "state_io_rel (same token_view) (EnableBackups mid key)"
  unfolding UpdateWorkflowRunStatus_def CompleteWorkflowRun_def CreateBackupRecord_def DeleteBackupRecord_def
    DeleteAllBackupRecords_def EnableBackups_def
  by (rule tokens.io_db same_preorder.io_rules |
      auto simp: same_def token_view_def statement_defs create_backup_def
        split: if_splits option.splits prod.splits sum.splits list.splits)+

lemmas statements_keep_tokens = machine_statements_keep_tokens host_statements_keep_tokens
  placement_statements_keep_tokens browser_statements_keep_tokens operation_statements_keep_tokens
  backup_statements_keep_tokens

lemma spent_view: "token_view t = token_view s \<Longrightarrow> spent token s \<Longrightarrow> spent token t"
  by (simp add: spent_def token_view_def)

lemma spent_keeps: "state_io_rel (same token_view) m \<Longrightarrow> spent token s \<Longrightarrow> spent token (final_state m s)"
  using spent_view sameD by metis

lemma tokens_update [simp]:
  "et_Token ` set (update_where p (\<lambda>t. t\<lparr>et_UsedByHostID := h\<rparr>) ts) = et_Token ` set ts"
  by (induction ts) auto

lemma usable_after:
  assumes "t \<in> set (update_where (usable_token tok now) (\<lambda>t. t\<lparr>et_UsedByHostID := Some h\<rparr>) ts)" "usable_token token now t"
  shows "t \<in> set ts \<and> token \<noteq> tok"
proof -
  obtain r where "r \<in> set ts" "t = (if usable_token tok now r then r\<lparr>et_UsedByHostID := Some h\<rparr> else r)"
    using assms(1) by (auto simp: set_update_where)
  then show ?thesis using assms(2) by (auto simp: usable_token_def split: if_splits)
qed

interpretation spent_inv: db_invariant "spent token" for token
  by unfold_locales (simp add: spent_def)

lemma spent_create: "triple (spent token) (CreateEnrollmentToken random tok) (\<lambda>_. True)"
  unfolding CreateEnrollmentToken_def
  by (rule triple_rules spent_inv.inv_tx | auto simp: spent_def usable_token_def Let_def split: if_splits)+

lemma spent_use: "triple (spent token) (MarkEnrollmentTokenUsed tok hid) (\<lambda>_. True)"
  unfolding MarkEnrollmentTokenUsed_def
  by (rule spent_inv.inv_tx)
     (auto simp: spent_def split: if_splits dest!: usable_after)

lemma spent_step: "store_step s t \<Longrightarrow> spent token s \<Longrightarrow> spent token t"
proof (induction rule: store_step.induct)
  case (time_passes s t fs)
  then show ?case by (auto simp: spent_def usable_token_def)
next
  case (create_account s a)
  then show ?case by (simp add: spent_def)
next
  case (create_token s random tok)
  then show ?case by (rule tripleD [OF spent_create])
next
  case (use_token s tok hid)
  then show ?case by (rule tripleD [OF spent_use])
qed (rule spent_keeps, rule statements_keep_tokens, assumption)+

lemma spent_run: "store_run s t \<Longrightarrow> spent token s \<Longrightarrow> spent token t"
  by (induction rule: rtranclp_induct) (auto intro: spent_step)

text \<open>
  An enrollment token enrolls one host. Once a token has been used, every later attempt to use
  it fails, whatever store calls, by whomever and with whichever of them failing, happen in between
  and however much time passes.
\<close>
theorem token_enrolls_once:
  assumes "run_state (MarkEnrollmentTokenUsed token hid) s = (Inr (), t)" "store_run t u"
  shows "isl (outcome (MarkEnrollmentTokenUsed token hid') u)"
proof -
  have "spent token t"
    using tx_Inr [OF assms(1) [unfolded MarkEnrollmentTokenUsed_def]]
    by (auto simp: spent_def matching_def filter_empty_conv split: if_splits dest!: usable_after) (auto simp: usable_token_def)
  then have "spent token u" using assms(2) spent_run by blast
  then have "matching (usable_token token (db_now u)) (host_enrollment_tokens u) = []"
    by (simp add: spent_def matching_def)
  then show ?thesis
    by (simp add: MarkEnrollmentTokenUsed_def tx_def db_call_def split: list.splits bool.splits)
qed


definition token_db :: db where
  "token_db = sample_db\<lparr>host_enrollment_tokens := [\<lparr>et_ID = uuid_of 5, et_Token = ''tok'', et_Provider = ''hetzner'',
     et_ProviderClass = '''', et_Labels = None, et_UsedByHostID = None, et_ExpiresAt = minute, et_CreatedAt = 0\<rparr>]\<rparr>"

theorem token_enrolls_once_witness:
  "isl (outcome (MarkEnrollmentTokenUsed ''tok'' 2) (final_state (MarkEnrollmentTokenUsed ''tok'' 1) token_db))"
proof -
  let ?t = "final_state (MarkEnrollmentTokenUsed ''tok'' 1) token_db"
  have "outcome (MarkEnrollmentTokenUsed ''tok'' 1) token_db = Inr ()"
    by (simp add: MarkEnrollmentTokenUsed_def matching_def usable_token_def token_db_def sample_defs)
  then have "run_state (MarkEnrollmentTokenUsed ''tok'' 1) token_db = (Inr (), ?t)" by (simp add: prod_eq_iff)
  then show ?thesis by (rule token_enrolls_once) simp
qed

end
