(* ===== verification/Vm_Metrics.thy ===== *)
theory Vm_Metrics
  imports Prelude "HOL-Library.Sublist"
begin

text \<open>
  \<open>internal/vmmetrics\<close>: reading the cgroup files of a VM (\<open>cgroup/cgroup.go\<close>), the sampling loop
  with its bounded buffer and its backoff (\<open>sampler/sampler.go\<close>), and the names of the daily
  partitions (\<open>maint/parser.go\<close>). What the kernel's files hold and what the backend answers are
  arguments of the operations.
\<close>

section \<open>Reading cgroup files\<close>

datatype vm_kind = KindMachine | KindBrowser

record vm_sample =
  s_Wall :: time
  s_UsageUsec :: int
  s_MemBytes :: int

record vm_ref =
  r_UnitName :: string
  r_VMID :: string
  r_Kind :: vm_kind

text \<open>The lines of a file, as \<open>bufio.Scanner\<close> splits it: the newline and a carriage return before it are dropped.\<close>

definition drop_cr :: "string \<Rightarrow> string" where
  "drop_cr l = (if l \<noteq> [] \<and> last l = CHR 0x0D then butlast l else l)"

fun scan_lines :: "nat \<Rightarrow> string \<Rightarrow> string list" where
  "scan_lines 0 s = []"
| "scan_lines (Suc fuel) s =
     (if s = [] then []
      else drop_cr (takeWhile (\<lambda>c. c \<noteq> newline) s) #
           scan_lines fuel (drop (Suc (length (takeWhile (\<lambda>c. c \<noteq> newline) s))) s))"

definition lines_of :: "string \<Rightarrow> string list" where
  "lines_of s = scan_lines (length s) s"

fun usage_line :: "string list \<Rightarrow> int result" where
  "usage_line [] = Inl (Wrap '''' (ErrText ''required cgroup field missing'') '': usage_usec'')"
| "usage_line (l # ls) = (case cut (CHR '' '') l of
      None \<Rightarrow> usage_line ls
    | Some (key, v) \<Rightarrow>
        if key \<noteq> ''usage_usec'' then usage_line ls
        else (case atoi (trim_space v) of
            None \<Rightarrow> Inl (wrap (''parse usage_usec '' @ quoted v) (ErrText ''strconv.ParseInt''))
          | Some n \<Rightarrow> Inr n))"

definition ParseCPUStat :: "string \<Rightarrow> int result" where
  "ParseCPUStat content = usage_line (lines_of content)"

definition ParseMemoryCurrent :: "string \<Rightarrow> int result" where
  "ParseMemoryCurrent content = (let s = trim_space content in
     if s = '''' then Inl (Wrap '''' (ErrText ''required cgroup field missing'') '': memory.current empty'')
     else (case atoi s of
         None \<Rightarrow> Inl (wrap (''parse memory.current '' @ quoted s) (ErrText ''strconv.ParseInt''))
       | Some n \<Rightarrow> Inr n))"

text \<open>The two files of a unit, or the error of opening or reading them.\<close>

type_synonym unit_files = "string result \<times> string result"

definition ReadSample :: "unit_files \<Rightarrow> time \<Rightarrow> vm_sample result" where
  "ReadSample files now = (case fst files of
      Inl e \<Rightarrow> Inl (wrap ''open cpu.stat'' e)
    | Inr cpu \<Rightarrow> (case ParseCPUStat cpu of
        Inl e \<Rightarrow> Inl e
      | Inr usage \<Rightarrow> (case snd files of
          Inl e \<Rightarrow> Inl (wrap ''open memory.current'' e)
        | Inr memory \<Rightarrow> (case ParseMemoryCurrent memory of
            Inl e \<Rightarrow> Inl e
          | Inr mem \<Rightarrow> Inr \<lparr>s_Wall = now, s_UsageUsec = usage, s_MemBytes = mem\<rparr>))))"

text \<open>
  \<open>CPUPercent\<close>: the CPU time and the wall time, in microseconds, of which the source takes the
  quotient times 100 as a \<open>float32\<close>. The zero time is 0.
\<close>

definition CPUPercent :: "vm_sample \<Rightarrow> vm_sample \<Rightarrow> (int \<times> int) option" where
  "CPUPercent prev cur =
     (if s_Wall prev = 0 then None
      else if s_UsageUsec cur < s_UsageUsec prev then None
      else (let wallDelta = (s_Wall cur - s_Wall prev) div 1000 in
        if wallDelta \<le> 0 then None else Some (s_UsageUsec cur - s_UsageUsec prev, wallDelta)))"

text \<open>
  \<open>unitRe\<close>: the prefix, an optional \<open>browser-\<close> and a UUID of lower-case hexadecimal digits in
  groups of 8, 4, 4, 4 and 12.
\<close>

definition lower_hex :: "char \<Rightarrow> bool" where
  "lower_hex c \<longleftrightarrow> is_digit c \<or> c \<in> set ''abcdef''"

definition uuid_shape :: "string \<Rightarrow> bool" where
  "uuid_shape u \<longleftrightarrow> length u = 36 \<and> u ! 8 = CHR ''-'' \<and> u ! 13 = CHR ''-'' \<and> u ! 18 = CHR ''-'' \<and> u ! 23 = CHR ''-'' \<and>
     list_all lower_hex (take 8 u) \<and> list_all lower_hex (take 4 (drop 9 u)) \<and> list_all lower_hex (take 4 (drop 14 u)) \<and>
     list_all lower_hex (take 4 (drop 19 u)) \<and> list_all lower_hex (drop 24 u)"

definition strip_suffix :: "string \<Rightarrow> string \<Rightarrow> string option" where
  "strip_suffix s suf = (if length suf \<le> length s \<and> drop (length s - length suf) s = suf
     then Some (take (length s - length suf) s) else None)"

definition match_unit :: "string \<Rightarrow> vm_ref option" where
  "match_unit name = (case strip_suffix name ''.service'' of
      None \<Rightarrow> None
    | Some stem \<Rightarrow>
        if has_prefix stem ''ocm-vm-'' \<and> uuid_shape (drop 7 stem)
        then Some \<lparr>r_UnitName = name, r_VMID = drop 7 stem, r_Kind = KindMachine\<rparr>
        else if has_prefix stem ''ocm-browser-vm-'' \<and> uuid_shape (drop 15 stem)
        then Some \<lparr>r_UnitName = name, r_VMID = drop 15 stem, r_Kind = KindBrowser\<rparr>
        else None)"

text \<open>The entries of the directory are their names with whether they are directories.\<close>

definition Discover :: "(string \<times> bool) list result \<Rightarrow> vm_ref list result" where
  "Discover entries = (case entries of
      Inl e \<Rightarrow> Inl (wrap ''read system.slice'' e)
    | Inr es \<Rightarrow> Inr (sort_by (\<lambda>a b. byte_less (r_VMID a) (r_VMID b))
        (List.map_filter (\<lambda>(name, isDir). if isDir then match_unit name else None) es)))"

section \<open>The sampler\<close>

record point =
  pt_VMID :: string
  pt_Kind :: vm_kind
  pt_Timestamp :: time
  pt_CPUPct :: "(int \<times> int) option"
  pt_MemBytes :: int

record sampler =
  sa_BufferCap :: int
  sa_prev :: "string \<rightharpoonup> vm_sample"
  sa_refs :: "vm_ref list"
  sa_buffer :: "point list"
  sa_dropped :: int
  sa_backoff :: time
  sa_backoffUntil :: time

text \<open>
  \<open>New\<close> sets a missing capacity to 30 seconds of 32 VMs. The zero time of \<open>backoffUntil\<close> is before
  every clock reading; it is 0 here.
\<close>

definition NewSampler :: "int \<Rightarrow> sampler" where
  "NewSampler cap = \<lparr>sa_BufferCap = (if cap = 0 then 30 * 32 else cap), sa_prev = Map.empty, sa_refs = [],
     sa_buffer = [], sa_dropped = 0, sa_backoff = 0, sa_backoffUntil = 0\<rparr>"

definition appendPoint :: "point \<Rightarrow> sampler \<Rightarrow> sampler" where
  "appendPoint p s =
     (if sa_BufferCap s \<le> int (length (sa_buffer s))
      then s\<lparr>sa_dropped := sa_dropped s + 1, sa_buffer := tl (sa_buffer s) @ [p]\<rparr>
      else s\<lparr>sa_buffer := sa_buffer s @ [p]\<rparr>)"

text \<open>\<open>files\<close> is what the cgroup directory of each unit holds at the moment.\<close>

definition sampleOne :: "(string \<Rightarrow> unit_files) \<Rightarrow> time \<Rightarrow> vm_ref \<Rightarrow> sampler \<Rightarrow> sampler" where
  "sampleOne files now ref s = (case ReadSample (files (r_UnitName ref)) now of
      Inl e \<Rightarrow> s
    | Inr cur \<Rightarrow>
        (let prev = sa_prev s (r_UnitName ref);
             s1 = s\<lparr>sa_prev := (sa_prev s)(r_UnitName ref \<mapsto> cur)\<rparr>
         in case prev of
              Some p \<Rightarrow>
                if s_UsageUsec cur < s_UsageUsec p then s1
                else appendPoint \<lparr>pt_VMID = r_VMID ref, pt_Kind = r_Kind ref, pt_Timestamp = now,
                       pt_CPUPct = CPUPercent p cur, pt_MemBytes = s_MemBytes cur\<rparr> s1
            | None \<Rightarrow> appendPoint \<lparr>pt_VMID = r_VMID ref, pt_Kind = r_Kind ref, pt_Timestamp = now,
                       pt_CPUPct = None, pt_MemBytes = s_MemBytes cur\<rparr> s1))"

definition tick :: "(string \<Rightarrow> unit_files) \<Rightarrow> time \<Rightarrow> sampler \<Rightarrow> sampler" where
  "tick files now s = foldl (\<lambda>t ref. sampleOne files now ref t) s (sa_refs s)"

definition discover :: "(string \<times> bool) list result \<Rightarrow> sampler \<Rightarrow> sampler" where
  "discover entries s = (case Discover entries of
      Inl e \<Rightarrow> s
    | Inr refs \<Rightarrow> s\<lparr>sa_prev := (\<lambda>u. if u \<in> r_UnitName ` set refs then sa_prev s u else None), sa_refs := refs\<rparr>)"

definition requeue :: "point list \<Rightarrow> sampler \<Rightarrow> sampler" where
  "requeue batch s =
     (let merged = batch @ sa_buffer s; excess = int (length merged) - sa_BufferCap s
      in if 0 < excess then s\<lparr>sa_dropped := sa_dropped s + excess, sa_buffer := drop (nat excess) merged\<rparr>
         else s\<lparr>sa_buffer := merged\<rparr>)"

text \<open>
  \<open>push\<close> is what the backend answered. The result is the error, if any, and the batch that the
  backend took.
\<close>

definition flush :: "unit result \<Rightarrow> sampler \<Rightarrow> (unit result \<times> point list) \<times> sampler" where
  "flush push s =
     (if sa_buffer s = [] then ((Inr (), []), s)
      else (let batch = sa_buffer s; s1 = s\<lparr>sa_buffer := []\<rparr>
            in case push of
                 Inl e \<Rightarrow> ((Inl (wrap ''push'' e), []), requeue batch s1)
               | Inr _ \<Rightarrow> ((Inr (), batch), s1)))"

definition advanceBackoff :: "time \<Rightarrow> sampler \<Rightarrow> sampler" where
  "advanceBackoff now s =
     (let b = (if sa_backoff s = 0 then second
               else if 60 * second < 2 * sa_backoff s then 60 * second else 2 * sa_backoff s)
      in s\<lparr>sa_backoff := b, sa_backoffUntil := now + b\<rparr>)"

definition resetBackoff :: "sampler \<Rightarrow> sampler" where
  "resetBackoff s = s\<lparr>sa_backoff := 0, sa_backoffUntil := 0\<rparr>"

text \<open>The batch timer of \<open>Run\<close>.\<close>

definition batch_tick :: "time \<Rightarrow> unit result \<Rightarrow> sampler \<Rightarrow> point list \<times> sampler" where
  "batch_tick now push s =
     (if now < sa_backoffUntil s then ([], s)
      else (case flush push s of
          ((Inl e, sent), t) \<Rightarrow> (sent, advanceBackoff now t)
        | ((Inr _, sent), t) \<Rightarrow> (sent, resetBackoff t)))"

text \<open>
  The loop of \<open>Run\<close>: one goroutine that takes the events of its timers one at a time, until
  the cancellation, with its final flush.
\<close>

datatype sampler_event =
    SampleTick "string \<Rightarrow> unit_files" time
  | DiscoverTick "(string \<times> bool) list result"
  | BatchTick time "unit result"
  | Cancelled "unit result"

fun handle_event :: "sampler_event \<Rightarrow> sampler \<Rightarrow> point list \<times> sampler" where
  "handle_event (SampleTick files now) s = ([], tick files now s)"
| "handle_event (DiscoverTick entries) s = ([], discover entries s)"
| "handle_event (BatchTick now push) s = batch_tick now push s"
| "handle_event (Cancelled push) s = (case flush push s of ((_, sent), t) \<Rightarrow> (sent, t))"

fun cancels :: "sampler_event \<Rightarrow> bool" where
  "cancels (Cancelled _) \<longleftrightarrow> True"
| "cancels _ \<longleftrightarrow> False"

fun run_events :: "sampler_event list \<Rightarrow> point list \<times> sampler \<Rightarrow> point list \<times> sampler" where
  "run_events [] st = st"
| "run_events (e # es) (sent, s) =
     (case handle_event e s of (now_sent, t) \<Rightarrow>
        if cancels e then (sent @ now_sent, t) else run_events es (sent @ now_sent, t))"

definition sampler_Run :: "(string \<times> bool) list result \<Rightarrow> sampler_event list \<Rightarrow> sampler \<Rightarrow> point list \<times> sampler" where
  "sampler_Run entries es s = run_events es ([], discover entries s)"

section \<open>Names of partitions\<close>

text \<open>\<open>%04d\<close> and \<open>%02d\<close> of a number that is not negative.\<close>

definition padded :: "nat \<Rightarrow> nat \<Rightarrow> string" where
  "padded w n = replicate (w - length (show_nat n)) (CHR ''0'') @ show_nat n"

text \<open>A date is its year, month and day in UTC.\<close>

type_synonym civil_date = "nat \<times> nat \<times> nat"

fun partitionName :: "string \<Rightarrow> civil_date \<Rightarrow> string" where
  "partitionName table (y, m, d) = table @ ''_y'' @ padded 4 y @ ''m'' @ padded 2 m @ ''d'' @ padded 2 d"

definition month_days :: "nat \<Rightarrow> nat \<Rightarrow> nat" where
  "month_days y m = (if m = 2 then (if (4 dvd y \<and> \<not> 100 dvd y) \<or> 400 dvd y then 29 else 28)
                     else if m \<in> {4, 6, 9, 11} then 30 else 31)"

text \<open>\<open>time.Date\<close> carries the days beyond the end of a month into the next one.\<close>

definition normalize_date :: "civil_date \<Rightarrow> civil_date" where
  "normalize_date = (\<lambda>(y, m, d). if d \<le> month_days y m then (y, m, d) else (y, m + 1, d - month_days y m))"

text \<open>
  The expression is anchored at the end, so the last twelve characters of the name decide: two
  literals, four digits, and twice a letter with two digits.
\<close>

definition parsePartitionDate :: "string \<Rightarrow> civil_date option" where
  "parsePartitionDate name =
     (let t = drop (length name - 12) name in
      if length name < 12 \<or> take 2 t \<noteq> ''_y'' \<or> t ! 6 \<noteq> CHR ''m'' \<or> t ! 9 \<noteq> CHR ''d'' \<or>
         \<not> list_all is_digit (take 4 (drop 2 t) @ take 2 (drop 7 t) @ drop 10 t) then None
      else (let y = nat (digits_value (take 4 (drop 2 t)));
                m = nat (digits_value (take 2 (drop 7 t)));
                d = nat (digits_value (drop 10 t))
            in if y < 2000 \<or> 9999 < y \<or> m < 1 \<or> 12 < m \<or> d < 1 \<or> 31 < d then None
               else Some (normalize_date (y, m, d))))"

end
