(* ===== verification/Metrics_Properties.thy ===== *)
theory Metrics_Properties
  imports Vm_Metrics
begin

text \<open>
  What the metrics sampler promises, against a reference of the points that a run produces, and the
  round trip of the partition names.
\<close>

section \<open>The points that a run produces\<close>

text \<open>
  The reference: every readable unit gives a point at every tick, unless its CPU counter went
  backwards. There is no buffer here.
\<close>

fun produced_by :: "(string \<Rightarrow> unit_files) \<Rightarrow> time \<Rightarrow> vm_ref list \<Rightarrow> (string \<rightharpoonup> vm_sample) \<Rightarrow> point list" where
  "produced_by files now [] prev = []"
| "produced_by files now (ref # refs) prev = (case ReadSample (files (r_UnitName ref)) now of
      Inl e \<Rightarrow> produced_by files now refs prev
    | Inr cur \<Rightarrow>
        (case prev (r_UnitName ref) of
           Some p \<Rightarrow> if s_UsageUsec cur < s_UsageUsec p then []
                     else [\<lparr>pt_VMID = r_VMID ref, pt_Kind = r_Kind ref, pt_Timestamp = now,
                             pt_CPUPct = CPUPercent p cur, pt_MemBytes = s_MemBytes cur\<rparr>]
         | None \<Rightarrow> [\<lparr>pt_VMID = r_VMID ref, pt_Kind = r_Kind ref, pt_Timestamp = now,
                      pt_CPUPct = None, pt_MemBytes = s_MemBytes cur\<rparr>]) @
        produced_by files now refs (prev(r_UnitName ref \<mapsto> cur)))"

fun produced :: "sampler_event list \<Rightarrow> sampler \<Rightarrow> point list" where
  "produced [] s = []"
| "produced (e # es) s =
     (case e of SampleTick files now \<Rightarrow> produced_by files now (sa_refs s) (sa_prev s) | _ \<Rightarrow> []) @
     (if cancels e then [] else produced es (snd (handle_event e s)))"

text \<open>
  \<open>accounts_for made sent s\<close>: what was sent and what the buffer holds are points of \<open>made\<close> in their
  order, all but as many as are counted as dropped, and the buffer is within its capacity.
\<close>

definition accounts_for :: "point list \<Rightarrow> point list \<Rightarrow> sampler \<Rightarrow> bool" where
  "accounts_for made sent s \<longleftrightarrow> subseq (sent @ sa_buffer s) made \<and>
     int (length made) = int (length sent) + int (length (sa_buffer s)) + sa_dropped s \<and>
     int (length (sa_buffer s)) \<le> sa_BufferCap s \<and> 0 < sa_BufferCap s \<and> 0 \<le> sa_dropped s"

lemma append_accounts:
  assumes "accounts_for made sent s"
  shows "accounts_for (made @ [p]) sent (appendPoint p s)"
proof (cases "sa_BufferCap s \<le> int (length (sa_buffer s))")
  case True
  then obtain q qs where b: "sa_buffer s = q # qs" using assms by (cases "sa_buffer s") (auto simp: accounts_for_def)
  have "subseq (sent @ qs) (sent @ q # qs)" by (simp add: list_emb_append_mono subseq_Cons')
  then have "subseq (sent @ qs) made" using assms b by (auto simp: accounts_for_def intro: subseq_order.trans)
  then have "subseq ((sent @ qs) @ [p]) (made @ [p])" by (rule list_emb_append_mono) simp
  then show ?thesis using assms True b by (simp add: accounts_for_def appendPoint_def)
next
  case False
  have "subseq ((sent @ sa_buffer s) @ [p]) (made @ [p])"
    using assms by (intro list_emb_append_mono) (simp_all add: accounts_for_def)
  then show ?thesis using assms False by (simp add: accounts_for_def appendPoint_def)
qed

lemma prev_accounts [simp]: "accounts_for made sent (s\<lparr>sa_prev := v\<rparr>) = accounts_for made sent s"
  "accounts_for made sent (s\<lparr>sa_prev := v, sa_refs := r\<rparr>) = accounts_for made sent s"
  "accounts_for made sent (s\<lparr>sa_backoff := b, sa_backoffUntil := u\<rparr>) = accounts_for made sent s"
  by (simp_all add: accounts_for_def)

lemma append_prev [simp]: "sa_prev (appendPoint p s) = sa_prev s" "sa_refs (appendPoint p s) = sa_refs s"
  "sa_BufferCap (appendPoint p s) = sa_BufferCap s" "sa_backoff (appendPoint p s) = sa_backoff s"
  by (simp_all add: appendPoint_def)

lemma tick_accounts:
  assumes "accounts_for made sent s"
  shows "accounts_for (made @ produced_by files now refs (sa_prev s)) sent (foldl (\<lambda>t ref. sampleOne files now ref t) s refs)"
  using assms
proof (induction refs arbitrary: s made)
  case (Cons ref refs)
  show ?case
  proof (cases "ReadSample (files (r_UnitName ref)) now")
    case (Inl e)
    then have same: "sampleOne files now ref s = s" by (simp add: sampleOne_def)
    show ?thesis using Cons.IH [OF Cons.prems] Inl by (simp add: same)
  next
    case (Inr cur)
    let ?s = "sampleOne files now ref s"
    let ?new = "case sa_prev s (r_UnitName ref) of
           Some p \<Rightarrow> if s_UsageUsec cur < s_UsageUsec p then []
                     else [\<lparr>pt_VMID = r_VMID ref, pt_Kind = r_Kind ref, pt_Timestamp = now,
                             pt_CPUPct = CPUPercent p cur, pt_MemBytes = s_MemBytes cur\<rparr>]
         | None \<Rightarrow> [\<lparr>pt_VMID = r_VMID ref, pt_Kind = r_Kind ref, pt_Timestamp = now,
                      pt_CPUPct = None, pt_MemBytes = s_MemBytes cur\<rparr>]"
    have prev: "sa_prev ?s = (sa_prev s)(r_UnitName ref \<mapsto> cur)"
      using Inr by (auto simp: sampleOne_def Let_def split: option.splits)
    have "accounts_for (made @ ?new) sent ?s"
      using Inr Cons.prems by (auto simp: sampleOne_def Let_def intro!: append_accounts split: option.splits)
    from Cons.IH [OF this, unfolded prev] show ?thesis using Inr by (simp del: fun_upd_apply)
  qed
qed simp

lemma discover_accounts: "accounts_for made sent s \<Longrightarrow> accounts_for made sent (discover entries s)"
  by (auto simp: discover_def split: sum.splits)

lemma flush_accounts:
  assumes "accounts_for made sent s" "flush push s = ((r, out), t)"
  shows "accounts_for made (sent @ out) t"
  using assms by (auto simp: flush_def requeue_def accounts_for_def Let_def split: if_splits sum.splits)

lemma event_accounts:
  assumes "accounts_for made sent s" "handle_event e s = (out, t)"
  shows "accounts_for (made @ produced [e] s) (sent @ out) t"
proof (cases e)
  case (SampleTick files now)
  then show ?thesis using assms tick_accounts by (auto simp: tick_def)
next
  case (DiscoverTick entries)
  then show ?thesis using assms discover_accounts by auto
next
  case (BatchTick now push)
  show ?thesis
  proof (cases "now < sa_backoffUntil s")
    case False
    obtain r out' t' where f: "flush push s = ((r, out'), t')" by (metis prod.exhaust)
    have "accounts_for made (sent @ out') t'" using flush_accounts [OF assms(1) f] .
    then show ?thesis using assms(2) BatchTick False f
      by (auto simp: batch_tick_def advanceBackoff_def resetBackoff_def Let_def split: sum.splits)
  qed (use assms BatchTick in \<open>simp add: batch_tick_def\<close>)
next
  case (Cancelled push)
  then show ?thesis using assms flush_accounts by (auto split: prod.splits)
qed

lemma run_accounts:
  "accounts_for made sent s \<Longrightarrow> run_events es (sent, s) = (out, t) \<Longrightarrow> accounts_for (made @ produced es s) out t"
proof (induction es arbitrary: made sent s)
  case (Cons e es)
  obtain o1 s1 where e: "handle_event e s = (o1, s1)" by (metis prod.exhaust)
  have ok: "accounts_for (made @ produced [e] s) (sent @ o1) s1" using event_accounts [OF Cons.prems(1) e] .
  show ?case using Cons.IH [OF ok] ok Cons.prems(2) e by (cases "cancels e") simp_all
qed simp

definition settings_ok :: "int \<Rightarrow> sampler \<Rightarrow> bool" where
  "settings_ok cap s \<longleftrightarrow> sa_BufferCap s = cap \<and>
     (sa_backoff s = 0 \<or> second \<le> sa_backoff s \<and> sa_backoff s \<le> 60 * second)"

lemma sample_settings: "sa_backoff (foldl (\<lambda>t ref. sampleOne files now ref t) s refs) = sa_backoff s \<and>
   sa_BufferCap (foldl (\<lambda>t ref. sampleOne files now ref t) s refs) = sa_BufferCap s"
proof (induction refs arbitrary: s)
  case (Cons ref refs)
  have "sa_backoff (sampleOne files now ref s) = sa_backoff s \<and> sa_BufferCap (sampleOne files now ref s) = sa_BufferCap s"
    by (auto simp: sampleOne_def Let_def split: sum.splits option.splits)
  then show ?case using Cons.IH by simp
qed simp

lemma flush_settings: "flush push s = ((r, out), t) \<Longrightarrow> sa_backoff t = sa_backoff s \<and> sa_BufferCap t = sa_BufferCap s"
  by (auto simp: flush_def requeue_def Let_def split: if_splits sum.splits)

lemma event_settings: "settings_ok cap s \<Longrightarrow> handle_event e s = (out, t) \<Longrightarrow> settings_ok cap t"
proof (cases e)
  case (BatchTick now push)
  assume ok: "settings_ok cap s" and run: "handle_event e s = (out, t)"
  obtain r out' t' where f: "flush push s = ((r, out'), t')" by (metis prod.exhaust)
  then have "settings_ok cap t'" using ok flush_settings [OF f] by (simp add: settings_ok_def)
  then show ?thesis using ok run BatchTick f
    by (auto simp: batch_tick_def advanceBackoff_def resetBackoff_def settings_ok_def Let_def split: if_splits sum.splits)
qed (auto simp: settings_ok_def tick_def sample_settings discover_def flush_settings split: sum.splits prod.splits dest: flush_settings)

lemma run_settings: "settings_ok cap s \<Longrightarrow> run_events es (sent, s) = (out, t) \<Longrightarrow> settings_ok cap t"
proof (induction es arbitrary: sent s)
  case (Cons e es)
  obtain o1 s1 where e: "handle_event e s = (o1, s1)" by (metis prod.exhaust)
  then show ?case using Cons event_settings [OF Cons.prems(1) e] by (cases "cancels e") simp_all
qed simp

text \<open>
  The sampler loses no point silently. After any sequence of ticks, discoveries, batches with
  any answers of the backend and a cancellation, the points sent and the points buffered are, in
  order, points that were produced; exactly as many as the counter of dropped points says are
  missing; the buffer never exceeds its capacity; and the backoff is zero or between one second
  and a minute.
\<close>
theorem sampler_accounts_for_points:
  assumes "0 \<le> cap" "sampler_Run entries es (NewSampler cap) = (sent, s)"
  shows "subseq (sent @ sa_buffer s) (produced es (discover entries (NewSampler cap))) \<and>
     int (length (produced es (discover entries (NewSampler cap)))) = int (length sent) + int (length (sa_buffer s)) + sa_dropped s \<and>
     int (length (sa_buffer s)) \<le> (if cap = 0 then 960 else cap) \<and>
     (sa_backoff s = 0 \<or> second \<le> sa_backoff s \<and> sa_backoff s \<le> 60 * second)"
proof -
  have "accounts_for [] [] (NewSampler cap)" "settings_ok (if cap = 0 then 960 else cap) (NewSampler cap)"
    using assms(1) by (simp_all add: accounts_for_def NewSampler_def settings_ok_def)
  then have "accounts_for [] [] (discover entries (NewSampler cap))"
    "settings_ok (if cap = 0 then 960 else cap) (discover entries (NewSampler cap))"
    by (auto simp: discover_accounts settings_ok_def discover_def split: sum.splits)
  then have "accounts_for (produced es (discover entries (NewSampler cap))) sent s" "settings_ok (if cap = 0 then 960 else cap) s"
    using run_accounts [of "[]" "[]"] run_settings assms(2) unfolding sampler_Run_def by fastforce+
  then show ?thesis by (auto simp: accounts_for_def settings_ok_def NewSampler_def)
qed


definition sample_files :: "string \<Rightarrow> unit_files" where
  "sample_files u = (Inr ''usage_usec 12'', Inr ''4096'')"

definition sample_unit :: string where
  "sample_unit = ''ocm-vm-01234567-89ab-cdef-0123-456789abcdef.service''"

definition sample_entries :: "(string \<times> bool) list result" where
  "sample_entries = Inr [(sample_unit, True), (''ssh.service'', True)]"

definition sample_events :: "sampler_event list" where
  "sample_events = [SampleTick sample_files 5, SampleTick sample_files 6, SampleTick sample_files 7]"

lemma sample_events_run:
  "length (sa_buffer (snd (sampler_Run sample_entries sample_events (NewSampler 2)))) = 2 \<and>
   sa_dropped (snd (sampler_Run sample_entries sample_events (NewSampler 2))) = 1"
  by code_simp

theorem sampler_accounts_for_points_witness:
  "length (produced sample_events (discover sample_entries (NewSampler 2))) =
     length (fst (sampler_Run sample_entries sample_events (NewSampler 2))) + 3"
  using sampler_accounts_for_points [of 2 sample_entries sample_events, OF _ surjective_pairing] sample_events_run by simp

section \<open>Round trips of names\<close>

lemma show_nat_length: "length (show_nat n) \<le> w" if "n < 10 ^ w" "0 < w"
proof -
  have "length (digits_of fuel k) \<le> v" if "k < 10 ^ v" "0 < v" for fuel k v
    using that
  proof (induction fuel arbitrary: k v)
    case (Suc fuel)
    show ?case
    proof (cases "k < 10")
      case False
      then have v: "1 < v" using Suc.prems by (cases v; cases "v - 1") auto
      then have "k div 10 < 10 ^ (v - 1)" using Suc.prems by (cases v) (auto simp: less_mult_imp_div_less mult.commute)
      then have "length (digits_of fuel (k div 10)) \<le> v - 1" using v by (intro Suc.IH) auto
      then show ?thesis using False v by simp
    qed (use Suc.prems in simp)
  qed simp
  then show ?thesis using that by (simp add: show_nat_def del: digits_of.simps)
qed

lemma padded_length: "n < 10 ^ w \<Longrightarrow> 0 < w \<Longrightarrow> length (padded w n) = w"
  using show_nat_length [of n w] by (simp add: padded_def)

lemma digits_value_append_zero: "digits_value (replicate k (CHR ''0'') @ s) = digits_value s"
  by (induction k) (simp_all add: digits_value_def)

lemma padded_value: "digits_value (padded w n) = int n"
  by (simp add: padded_def digits_value_append_zero digits_value_show_nat)

lemma padded_digits: "list_all is_digit (padded w n)"
  using show_nat_digits [of n] by (auto simp: padded_def list_all_iff is_digit_def)

text \<open>
  The date of a partition is read back from its name: for every table and every date from the
  year 2000 to 9999, \<open>parsePartitionDate\<close> of the name that \<open>partitionName\<close> gives is the date; and the
  cgroup units of a machine and of a browser VM are recognised with their kind and UUID.
\<close>
theorem names_roundtrip:
  assumes "2000 \<le> y" "y \<le> 9999" "1 \<le> m" "m \<le> 12" "1 \<le> d" "d \<le> month_days y m" "uuid_shape u"
  shows "parsePartitionDate (partitionName table (y, m, d)) = Some (y, m, d) \<and>
    match_unit (''ocm-vm-'' @ u @ ''.service'') =
      Some \<lparr>r_UnitName = ''ocm-vm-'' @ u @ ''.service'', r_VMID = u, r_Kind = KindMachine\<rparr> \<and>
    match_unit (''ocm-browser-vm-'' @ u @ ''.service'') =
      Some \<lparr>r_UnitName = ''ocm-browser-vm-'' @ u @ ''.service'', r_VMID = u, r_Kind = KindBrowser\<rparr>"
proof -
  have d: "d \<le> 31" using assms(6) by (auto simp: month_days_def split: if_splits)
  have len: "length (padded 4 y) = 4" "length (padded 2 m) = 2" "length (padded 2 d) = 2"
    using padded_length [of y 4] padded_length [of m 2] padded_length [of d 2] assms d by auto
  let ?t = "''_y'' @ padded 4 y @ ''m'' @ padded 2 m @ ''d'' @ padded 2 d"
  have t: "drop (length (table @ ?t) - 12) (table @ ?t) = ?t" "length ?t = 12" by (simp_all add: len)
  have parts: "take 2 ?t = ''_y''" "take 4 (drop 2 ?t) = padded 4 y" "?t ! 6 = CHR ''m''" "take 2 (drop 7 ?t) = padded 2 m"
    "?t ! 9 = CHR ''d''" "drop 10 ?t = padded 2 d"
    by (simp_all add: len nth_append)
  have "parsePartitionDate (table @ ?t) = Some (normalize_date (y, m, d))"
    unfolding parsePartitionDate_def Let_def t(1) parts using t(2) assms d
    by (simp add: padded_value padded_digits list_all_append)
  then have "parsePartitionDate (partitionName table (y, m, d)) = Some (y, m, d)"
    using assms(6) by (simp add: normalize_date_def)
  moreover have "\<not> has_prefix (''ocm-browser-vm-'' @ u) ''ocm-vm-''" by simp
  ultimately show ?thesis using assms(7) by (simp add: match_unit_def strip_suffix_def)
qed

theorem names_roundtrip_witness:
  "parsePartitionDate (partitionName ''vm_metrics_1s'' (2024, 2, 29)) = Some (2024, 2, 29)"
  using names_roundtrip [of 2024 2 29 "''01234567-89ab-cdef-0123-456789abcdef''" "''vm_metrics_1s''"]
  by (simp add: month_days_def uuid_shape_def lower_hex_def is_digit_def)

end
