(* ===== verification/Go_Path.thy ===== *)
theory Go_Path
  imports Prelude
begin

text \<open>
  \<open>path/filepath\<close> on Unix, as far as the source uses it: \<open>Clean\<close>, \<open>Join\<close>, \<open>Dir\<close>, \<open>Base\<close>, \<open>IsAbs\<close>,
  \<open>Abs\<close> and \<open>Rel\<close>, with the facts by which a check of a cleaned path confines it to a directory.
\<close>

section \<open>Cleaning a path\<close>

abbreviation slash :: char where
  "slash \<equiv> CHR ''/''"

definition IsAbs :: "string \<Rightarrow> bool" where
  "IsAbs p \<longleftrightarrow> has_prefix p ''/''"

text \<open>
  The elements of the cleaned path, kept in reverse: empty elements and dots vanish, and a
  double dot removes the element before it, vanishes at the root, and otherwise stays.
\<close>

fun clean_elements :: "bool \<Rightarrow> string list \<Rightarrow> string list \<Rightarrow> string list" where
  "clean_elements rooted [] out = rev out"
| "clean_elements rooted (c # cs) out =
     (if c = '''' \<or> c = ''.'' then clean_elements rooted cs out
      else if c = ''..'' then
        (case out of
           prev # rest \<Rightarrow> if prev = ''..'' then clean_elements rooted cs (c # out) else clean_elements rooted cs rest
         | [] \<Rightarrow> if rooted then clean_elements rooted cs [] else clean_elements rooted cs [c])
      else clean_elements rooted cs (c # out))"

definition elements :: "string \<Rightarrow> string list" where
  "elements p = clean_elements (IsAbs p) (split_on slash p) []"

definition Clean :: "string \<Rightarrow> string" where
  "Clean p = (if IsAbs p then slash # join_with slash (elements p)
              else if elements p = [] then ''.'' else join_with slash (elements p))"

definition Join :: "string list \<Rightarrow> string" where
  "Join es = (case dropWhile (\<lambda>e. e = '''') es of [] \<Rightarrow> '''' | ps \<Rightarrow> Clean (join_with slash ps))"

text \<open>The path up to and with its last slash, and the rest.\<close>

definition up_to_slash :: "string \<Rightarrow> string" where
  "up_to_slash p = rev (dropWhile (\<lambda>c. c \<noteq> slash) (rev p))"

definition after_slash :: "string \<Rightarrow> string" where
  "after_slash p = rev (takeWhile (\<lambda>c. c \<noteq> slash) (rev p))"

definition Dir :: "string \<Rightarrow> string" where
  "Dir p = Clean (up_to_slash p)"

definition Base :: "string \<Rightarrow> string" where
  "Base p = (if p = '''' then ''.''
     else (let q = rev (dropWhile (\<lambda>c. c = slash) (rev p)) in if q = '''' then ''/'' else after_slash q))"

definition Abs_path :: "string \<Rightarrow> string \<Rightarrow> string" where
  "Abs_path cwd p = (if IsAbs p then Clean p else Join [cwd, p])"

fun drop_common :: "string list \<Rightarrow> string list \<Rightarrow> string list \<times> string list" where
  "drop_common (b # bs) (t # ts) = (if b = t then drop_common bs ts else (b # bs, t # ts))"
| "drop_common bs ts = (bs, ts)"

text \<open>
  A relative path between a rooted and an unrooted one, or out of an unknown directory, is an
  error.
\<close>

definition Rel :: "string \<Rightarrow> string \<Rightarrow> string result" where
  "Rel base target =
     (if Clean base = Clean target then Inr ''.''
      else if IsAbs base \<noteq> IsAbs target
      then Inl (ErrText (''Rel: can't make '' @ target @ '' relative to '' @ base))
      else (case drop_common (elements base) (elements target) of (bs, ts) \<Rightarrow>
        if bs \<noteq> [] \<and> hd bs = ''..'' then Inl (ErrText (''Rel: can't make '' @ target @ '' relative to '' @ base))
        else Inr (join_with slash (replicate (length bs) ''..'' @ ts))))"

section \<open>Facts\<close>

text \<open>A proper element is a name: not empty, not a dot or two, and without a slash.\<close>

definition proper :: "string \<Rightarrow> bool" where
  "proper c \<longleftrightarrow> c \<noteq> '''' \<and> c \<noteq> ''.'' \<and> c \<noteq> ''..'' \<and> slash \<notin> set c"

lemma element_cases:
  assumes "slash \<notin> set c"
  obtains (skip) "c = '''' \<or> c = ''.''" | (up) "c = ''..''" | (name) "proper c"
  using assms unfolding proper_def by blast

lemma clean_skip: "c = '''' \<or> c = ''.'' \<Longrightarrow> clean_elements r (c # cs) out = clean_elements r cs out"
  by simp

lemma clean_name: "proper c \<Longrightarrow> clean_elements r (c # cs) out = clean_elements r cs (c # out)"
  by (simp add: proper_def)

lemma clean_up:
  "clean_elements r (''..'' # cs) (prev # out) =
     (if prev = ''..'' then clean_elements r cs (''..'' # prev # out) else clean_elements r cs out)"
  "clean_elements r (''..'' # cs) [] = (if r then clean_elements r cs [] else clean_elements r cs [''..''])"
  by simp_all

declare clean_elements.simps(2) [simp del]

lemma clean_rooted:
  "\<forall>c \<in> set cs. slash \<notin> set c \<Longrightarrow> \<forall>c \<in> set out. proper c \<Longrightarrow> \<forall>c \<in> set (clean_elements True cs out). proper c"
proof (induction cs arbitrary: out)
  case (Cons c cs)
  have "slash \<notin> set c" using Cons.prems by simp
  then show ?case
  proof (cases rule: element_cases)
    case skip
    then show ?thesis using Cons by (simp only: clean_skip) simp
  next
    case name
    then have "\<forall>e \<in> set (c # out). proper e" using Cons.prems(2) by simp
    moreover have "\<forall>e \<in> set cs. slash \<notin> set e" using Cons.prems(1) by simp
    ultimately show ?thesis using Cons.IH [of "c # out"] unfolding clean_name [OF name] by blast
  next
    case up
    show ?thesis
    proof (cases out)
      case (Cons e es)
      then have "e \<noteq> ''..''" using Cons.prems(2) by (simp add: proper_def)
      moreover have "\<forall>e \<in> set es. proper e" "\<forall>e \<in> set cs. slash \<notin> set e" using Cons Cons.prems by simp_all
      then have "\<forall>e \<in> set (clean_elements True cs es). proper e" using Cons.IH [of es] by blast
      ultimately show ?thesis using up Cons by (simp add: clean_up)
    qed (use up Cons.IH [of "[]"] Cons.prems in \<open>simp add: clean_up\<close>)
  qed
qed simp

text \<open>Without a root, double dots may remain, but only in front.\<close>

definition dots_first :: "string list \<Rightarrow> bool" where
  "dots_first es \<longleftrightarrow> (\<exists>k rest. es = replicate k ''..'' @ rest \<and> (\<forall>c \<in> set rest. proper c))"

lemma dots_first_rev_Cons: "proper c \<Longrightarrow> dots_first (rev out) \<Longrightarrow> dots_first (rev (c # out))"
  unfolding dots_first_def by (elim exE conjE, rule_tac x = k in exI, rule_tac x = "rest @ [c]" in exI) auto

lemma dots_first_pop:
  assumes "dots_first (rev (prev # out))" "prev \<noteq> ''..''"
  shows "dots_first (rev out)"
proof -
  obtain k rest where es: "rev (prev # out) = replicate k ''..'' @ rest" "\<forall>c \<in> set rest. proper c"
    using assms(1) by (auto simp: dots_first_def)
  then have "rest \<noteq> []" using assms(2) by (cases k) (auto simp: replicate_append_same [symmetric])
  then obtain r where "rest = r @ [prev]" "rev out = replicate k ''..'' @ r"
    using es(1) by (cases rest rule: rev_cases) auto
  then show ?thesis using es(2) by (auto simp: dots_first_def)
qed

lemma dots_first_push:
  assumes "dots_first (rev (''..'' # out))"
  shows "dots_first (rev (''..'' # ''..'' # out))"
proof -
  obtain k rest where es: "rev (''..'' # out) = replicate k ''..'' @ rest" "\<forall>c \<in> set rest. proper c"
    using assms by (auto simp: dots_first_def)
  have "rest = []"
  proof (cases rest rule: rev_cases)
    case (snoc r x)
    then have "x = ''..''" using es(1) by simp
    then show ?thesis using es(2) snoc by (simp add: proper_def)
  qed simp
  then have "rev (''..'' # ''..'' # out) = replicate (Suc k) ''..''"
    using es(1) by (simp add: replicate_append_same)
  then show ?thesis unfolding dots_first_def by (metis append_Nil2 empty_iff empty_set)
qed

lemma dots_first_one: "dots_first [''..'']"
  unfolding dots_first_def by (intro exI [of _ 1] exI [of _ "[]"]) simp

lemma dots_first_Nil: "dots_first []"
  unfolding dots_first_def by (intro exI [of _ 0] exI [of _ "[]"]) simp

lemma clean_relative:
  "\<forall>c \<in> set cs. slash \<notin> set c \<Longrightarrow> dots_first (rev out) \<Longrightarrow> dots_first (clean_elements False cs out)"
proof (induction cs arbitrary: out)
  case (Cons c cs)
  have "slash \<notin> set c" using Cons.prems by simp
  then show ?case
  proof (cases rule: element_cases)
    case skip
    then show ?thesis using Cons by (simp only: clean_skip) simp
  next
    case name
    then show ?thesis using Cons.IH [of "c # out"] Cons.prems dots_first_rev_Cons [OF name] by (simp add: clean_name)
  next
    case up
    show ?thesis
    proof (cases out)
      case Nil
      then show ?thesis using up Cons.IH [of "[''..'']"] Cons.prems dots_first_one by (simp add: clean_up)
    next
      case (Cons e es)
      show ?thesis
      proof (cases "e = ''..''")
        case True
        then have "dots_first (rev (''..'' # ''..'' # es))" using Cons.prems(2) Cons dots_first_push by simp
        then show ?thesis using up True Cons Cons.IH [of "''..'' # out"] Cons.prems(1) by (simp add: clean_up)
      next
        case False
        then have "dots_first (rev es)" using Cons.prems(2) Cons dots_first_pop by simp
        then show ?thesis using up False Cons Cons.IH [of es] Cons.prems(1) by (simp add: clean_up)
      qed
    qed
  qed
qed simp

lemma split_slash_free: "\<forall>c \<in> set (split_on slash p). slash \<notin> set c"
  using split_on_free by blast

lemma elements_rooted: "IsAbs p \<Longrightarrow> \<forall>c \<in> set (elements p). proper c"
  unfolding elements_def using clean_rooted [OF split_slash_free, of "[]" p] by simp

lemma elements_relative: "\<not> IsAbs p \<Longrightarrow> dots_first (elements p)"
  unfolding elements_def using clean_relative [OF split_slash_free, of "[]" p] dots_first_Nil by simp

lemma clean_append: "clean_elements r (xs @ ys) out = clean_elements r ys (rev (clean_elements r xs out))"
proof (induction xs arbitrary: out r)
  case (Cons c xs)
  show ?case by (cases out) (simp_all add: clean_elements.simps(2) Cons.IH)
qed simp

lemma clean_proper: "\<forall>c \<in> set es. proper c \<Longrightarrow> clean_elements r es out = rev out @ es"
  by (induction es arbitrary: out) (simp_all add: clean_name)

lemma clean_dots: "clean_elements False (replicate k ''..'') (replicate j ''..'') = replicate (j + k) ''..''"
proof (induction k arbitrary: j)
  case (Suc k)
  have "clean_elements False (replicate (Suc k) ''..'') (replicate j ''..'') =
      clean_elements False (replicate k ''..'') (replicate (Suc j) ''..'')"
    by (cases j) (simp_all add: clean_up)
  then show ?case using Suc.IH [of "Suc j"] by simp
qed simp

lemma clean_dots_first: "dots_first es \<Longrightarrow> clean_elements False es [] = es"
proof -
  assume "dots_first es"
  then obtain k rest where es: "es = replicate k ''..'' @ rest" "\<forall>c \<in> set rest. proper c" by (auto simp: dots_first_def)
  show ?thesis using clean_dots [of k 0] es(2) by (simp add: es(1) clean_append clean_proper)
qed

lemma dots_first_free:
  assumes "dots_first es"
  shows "\<forall>c \<in> set es. slash \<notin> set c \<and> c \<noteq> ''''"
proof -
  obtain k rest where es: "es = replicate k ''..'' @ rest" "\<forall>c \<in> set rest. proper c"
    using assms by (auto simp: dots_first_def)
  have "\<forall>c \<in> set (replicate k ''..''). slash \<notin> set c \<and> c \<noteq> ''''" by simp
  moreover have "\<forall>c \<in> set rest. slash \<notin> set c \<and> c \<noteq> ''''" using es(2) by (simp add: proper_def)
  ultimately show ?thesis unfolding es(1) set_append by blast
qed

lemma proper_free: "\<forall>c \<in> set es. proper c \<Longrightarrow> \<forall>c \<in> set es. slash \<notin> set c"
  by (auto simp: proper_def)

lemma IsAbs_simps [simp]: "IsAbs (slash # s)" "\<not> IsAbs []"
  by (simp_all add: IsAbs_def)

lemma IsAbs_join: "es \<noteq> [] \<Longrightarrow> dots_first es \<Longrightarrow> \<not> IsAbs (join_with slash es)"
proof (cases es)
  case (Cons e rest)
  assume "es \<noteq> []" "dots_first es"
  then have "slash \<notin> set e" "e \<noteq> ''''" using dots_first_free Cons by auto
  then show ?thesis using Cons by (cases e; cases rest) (auto simp: IsAbs_def)
qed simp

lemma IsAbs_Clean [simp]: "IsAbs (Clean p) = IsAbs p"
  using IsAbs_join elements_relative [of p] by (auto simp: Clean_def IsAbs_def)

text \<open>A cleaned path has the elements of the path.\<close>

lemma elements_Clean [simp]: "elements (Clean p) = elements p"
proof (cases "IsAbs p")
  case True
  note es = elements_rooted [OF True]
  have "elements (Clean p) = clean_elements True (split_on slash (slash # join_with slash (elements p))) []"
    using True by (simp add: elements_def [of "Clean p"]) (simp add: Clean_def)
  also have "\<dots> = clean_elements True (split_on slash (join_with slash (elements p))) []"
    by (simp add: clean_skip)
  also have "\<dots> = elements p"
  proof (cases "elements p = []")
    case False
    then show ?thesis using es by (simp add: split_on_join proper_free clean_proper)
  qed (simp add: clean_skip)
  finally show ?thesis .
next
  case False
  note es = elements_relative [OF False]
  show ?thesis
  proof (cases "elements p = []")
    case True
    then show ?thesis using False by (simp add: Clean_def elements_def [of "''.''"] IsAbs_def clean_skip)
  next
    case nonempty: False
    have "elements (Clean p) = clean_elements False (split_on slash (join_with slash (elements p))) []"
      using False nonempty by (simp add: elements_def [of "Clean p"]) (simp add: Clean_def)
    also have "split_on slash (join_with slash (elements p)) = elements p"
      using nonempty dots_first_free [OF es] by (intro split_on_join) auto
    finally show ?thesis using clean_dots_first [OF es] by simp
  qed
qed

lemma Clean_Clean [simp]: "Clean (Clean p) = Clean p"
  by (simp add: Clean_def [of "Clean p"]) (simp add: Clean_def)

text \<open>Joining a cleaned relative path without leading dots to a rooted directory stays below it.\<close>

lemma elements_below:
  assumes "IsAbs base" "\<not> IsAbs rel" "\<forall>c \<in> set (elements rel). proper c"
  shows "elements (Join [base, Clean rel]) = elements base @ elements rel" "IsAbs (Join [base, Clean rel])"
proof -
  have base: "base \<noteq> ''''" using assms(1) by auto
  have split: "split_on slash (Clean rel) = (if elements rel = [] then [''.''] else elements rel)"
    using assms by (auto simp: Clean_def split_on_last intro!: split_on_join proper_free)
  have abs: "IsAbs (base @ slash # Clean rel)" using assms(1) by (cases base) (auto simp: IsAbs_def)
  have "elements (base @ slash # Clean rel) = clean_elements True (split_on slash base @ split_on slash (Clean rel)) []"
    using abs by (simp add: elements_def split_on_append)
  also have "\<dots> = clean_elements True (split_on slash (Clean rel)) (rev (elements base))"
    using assms(1) by (simp add: clean_append elements_def)
  also have "\<dots> = elements base @ elements rel"
    using assms(3) by (simp add: split clean_skip clean_proper)
  finally have "elements (base @ slash # Clean rel) = elements base @ elements rel" .
  then show "elements (Join [base, Clean rel]) = elements base @ elements rel" "IsAbs (Join [base, Clean rel])"
    using base abs by (simp_all add: Join_def)
qed

section \<open>Clean absolute paths\<close>

definition clean_abs :: "string \<Rightarrow> bool" where
  "clean_abs p \<longleftrightarrow> IsAbs p \<and> Clean p = p"

lemma split_clean:
  assumes "clean_abs p"
  shows "split_on slash p = '''' # (if elements p = [] then [''''] else elements p)"
proof -
  have es: "\<forall>c \<in> set (elements p). proper c" using elements_rooted [of p] assms unfolding clean_abs_def by blast
  have "p = slash # join_with slash (elements p)" using assms by (auto simp: clean_abs_def Clean_def)
  then have "split_on slash p = '''' # split_on slash (join_with slash (elements p))"
    by (metis split_on.simps(2))
  then show ?thesis using es by (cases "elements p = []") (simp_all add: split_on_join proper_free)
qed

lemma has_prefix_append: "has_prefix s p \<longleftrightarrow> (\<exists>r. s = p @ r)"
  by (induction s p rule: has_prefix.induct) auto

text \<open>A clean path that extends a clean directory by a slash is below it.\<close>

lemma below_by_prefix:
  assumes "clean_abs base" "clean_abs p" "has_prefix p (base @ ''/'')"
  shows "take (length (elements base)) (elements p) = elements base"
proof (cases "elements base = []")
  case False
  obtain r where "p = base @ slash # r" using assms(3) by (auto simp: has_prefix_append)
  then have "split_on slash p = split_on slash base @ split_on slash r" by (simp add: split_on_append)
  then have "(if elements p = [] then [''''] else elements p) = elements base @ split_on slash r"
    unfolding split_clean [OF assms(1)] split_clean [OF assms(2)] using False by simp
  moreover have "hd (elements base) \<noteq> ''''"
    using False elements_rooted [of base] assms(1) by (cases "elements base") (auto simp: clean_abs_def proper_def)
  ultimately show ?thesis using False by (cases "elements base") (auto split: if_splits)
qed simp

lemma IsAbs_Join: "IsAbs d \<Longrightarrow> clean_abs (Join [d, p])"
proof -
  assume d: "IsAbs d"
  then have "d \<noteq> []" "IsAbs (d @ slash # p)" by (cases d; simp add: IsAbs_def)+
  then show ?thesis by (simp add: Join_def clean_abs_def)
qed

lemma up_to_slash_abs: "IsAbs p \<Longrightarrow> IsAbs (up_to_slash p)"
proof (cases p)
  case (Cons c r)
  assume "IsAbs p"
  then have "dropWhile (\<lambda>c. c \<noteq> slash) (rev p) = dropWhile (\<lambda>c. c \<noteq> slash) (rev r) @ [slash]"
    using Cons by (auto simp: IsAbs_def dropWhile_append)
  then show ?thesis by (simp add: up_to_slash_def)
qed (simp add: IsAbs_def)

lemma Dir_abs: "IsAbs p \<Longrightarrow> clean_abs (Dir p)"
  using up_to_slash_abs by (simp add: Dir_def clean_abs_def)

lemma Abs_path_abs: "IsAbs cwd \<Longrightarrow> clean_abs (Abs_path cwd p)"
  using IsAbs_Join [of cwd p] by (simp add: Abs_path_def clean_abs_def)

end
