(* ===== verification/Terminal.thy ===== *)
theory Terminal
  imports Go_Json Go_Path
begin

text \<open>
  The terminal daemon of a VM (\<open>internal/ptyd/server_linux.go\<close>): the ring buffer that a reconnecting
  client is replayed, the sessions with the goroutines that read the terminal and write to the
  current connection, the session manager, and the two HTTP endpoints that run a command and write
  a file. The processes, the file system and the entropy are arguments.
\<close>

section \<open>The ring buffer\<close>

record ring_buffer =
  rb_buf :: string
  rb_pos :: nat
  rb_full :: bool

definition newRingBuffer :: "nat \<Rightarrow> ring_buffer" where
  "newRingBuffer n = \<lparr>rb_buf = replicate n (CHR 0x00), rb_pos = 0, rb_full = False\<rparr>"

definition ring_put :: "ring_buffer \<Rightarrow> char \<Rightarrow> ring_buffer" where
  "ring_put rb b = (let buf = (rb_buf rb)[rb_pos rb := b]; pos = Suc (rb_pos rb) in
     if length buf \<le> pos then \<lparr>rb_buf = buf, rb_pos = 0, rb_full = True\<rparr>
     else rb\<lparr>rb_buf := buf, rb_pos := pos\<rparr>)"

definition ring_Write :: "ring_buffer \<Rightarrow> string \<Rightarrow> ring_buffer" where
  "ring_Write rb p = foldl ring_put rb p"

definition ring_Bytes :: "ring_buffer \<Rightarrow> string" where
  "ring_Bytes rb = (if \<not> rb_full rb then take (rb_pos rb) (rb_buf rb)
                    else drop (rb_pos rb) (rb_buf rb) @ take (rb_pos rb) (rb_buf rb))"

abbreviation ringBufferSize :: nat where
  "ringBufferSize \<equiv> 64 * 1024"

section \<open>Commands of a session\<close>

definition allowedCommands :: "(string \<times> string list) list" where
  "allowedCommands =
     [('''', [''/bin/bash'', ''--login'']),
      (''bash'', [''/bin/bash'', ''--login'']),
      (''openclaw'', [''openclaw'', ''tui'']),
      (''hermes'', [''/bin/bash'', ''-lc'',
         ''set -a; [ -f /opt/data/.env ] && . /opt/data/.env; set +a; exec '' @ [CHR 0x22] @
         ''${HERMES_BIN:-hermes}'' @ [CHR 0x22] @ '' --tui'']),
      (''logs'', [''tail'', ''-f'', ''/var/log/openclaw-gateway.log''])]"

text \<open>The environment is the value of each variable, empty when it is not set.\<close>

definition resolveAllowedCommand :: "(string \<Rightarrow> string) \<Rightarrow> string \<Rightarrow> string list option" where
  "resolveAllowedCommand env commandName = (case map_of allowedCommands commandName of
      None \<Rightarrow> None
    | Some argv \<Rightarrow>
        if commandName = ''logs'' \<and> trim_space (env ''HERMES_HOME'') \<noteq> ''''
        then Some [''tail'', ''-f'', ''/var/log/hermes-gateway.log'', ''/var/log/hermes-dashboard.log'']
        else Some argv)"

definition ptyCommandEnv :: "string \<Rightarrow> string list \<Rightarrow> string list" where
  "ptyCommandEnv commandName base = base @ [''TERM=xterm-256color''] @
     (if commandName = ''hermes'' then [''HERMES_TUI_DISABLE_MOUSE=1''] else [])"

definition defaultShellWorkdir :: "(string \<Rightarrow> string) \<Rightarrow> (string \<Rightarrow> bool) \<Rightarrow> string" where
  "defaultShellWorkdir env is_dir =
     (let hermes = trim_space (env ''HERMES_HOME'');
          candidates = [env ''OCM_PTY_WORKDIR''] @ (if hermes = '''' then [] else [Join [hermes, ''workspace'']]) @
            [''/home/openclaw/.openclaw/workspace'', ''/workspace'', env ''HOME'', ''/'']
      in case find (\<lambda>c. c \<noteq> '''' \<and> is_dir c) (map trim_space candidates) of None \<Rightarrow> ''/'' | Some c \<Rightarrow> c)"

section \<open>A session and its pumps\<close>

text \<open>
  Connections are numbered. Of a session the model keeps its fields, the state of the goroutine
  that reads the terminal (a chunk that it has put in the ring and not yet in the queue), the queue
  between the pumps, the pending bytes of the goroutine that writes and the connection that it has
  picked for the frame it is about to send; of the connections, the messages that each was sent and
  the ones to which writes fail.
\<close>

record pty_session =
  ps_id :: string
  ps_commandName :: string
  ps_ring :: ring_buffer
  ps_conn :: "nat option"
  ps_done :: bool
  ps_held :: "string option"
  ps_queue :: "string list"
  ps_pending :: string
  ps_target :: "nat option option"
  ps_sent :: "nat \<Rightarrow> string list"
  ps_broken :: "nat set"

definition new_session :: "string \<Rightarrow> string \<Rightarrow> pty_session" where
  "new_session sid commandName = \<lparr>ps_id = sid, ps_commandName = commandName, ps_ring = newRingBuffer ringBufferSize,
     ps_conn = None, ps_done = False, ps_held = None, ps_queue = [], ps_pending = [], ps_target = None,
     ps_sent = (\<lambda>_. []), ps_broken = {}\<rparr>"

definition replayBytes :: "pty_session \<Rightarrow> string" where
  "replayBytes s = ring_Bytes (ps_ring s)"

definition appendOutput :: "string \<Rightarrow> pty_session \<Rightarrow> pty_session" where
  "appendOutput dat s = s\<lparr>ps_ring := ring_Write (ps_ring s) dat\<rparr>"

text \<open>
  \<open>writeSessionMessageLocked\<close>: a connection that is no longer the current one is stale; a write to a
  broken connection fails.
\<close>

definition writeSessionMessageLocked :: "nat \<Rightarrow> string \<Rightarrow> pty_session \<Rightarrow> bool \<times> pty_session" where
  "writeSessionMessageLocked c msg s =
     (if ps_conn s \<noteq> Some c \<or> c \<in> ps_broken s then (False, s)
      else (True, s\<lparr>ps_sent := (ps_sent s)(c := ps_sent s c @ [msg])\<rparr>))"

definition markDisconnected :: "nat \<Rightarrow> pty_session \<Rightarrow> pty_session" where
  "markDisconnected c s = (if ps_conn s = Some c then s\<lparr>ps_conn := None\<rparr> else s)"

text \<open>
  The start of \<open>handleSession\<close>, which holds the write lock: the connection becomes the current one
  (and the old one is closed), is sent the identity of the session and, if there is any, the replay.
\<close>

definition attach :: "nat \<Rightarrow> pty_session \<Rightarrow> pty_session" where
  "attach c s0 =
     (let s = s0\<lparr>ps_conn := Some c, ps_broken := ps_broken s0 \<union> (case ps_conn s0 of None \<Rightarrow> {} | Some old \<Rightarrow> {old} - {c})\<rparr>
      in case writeSessionMessageLocked c (CHR ''s'' # ps_id s) s of
           (False, t) \<Rightarrow> markDisconnected c (t\<lparr>ps_broken := insert c (ps_broken t)\<rparr>)
         | (True, t) \<Rightarrow>
             if replayBytes t = [] then t
             else (case writeSessionMessageLocked c (CHR ''r'' # replayBytes t) t of
                 (False, u) \<Rightarrow> markDisconnected c (u\<lparr>ps_broken := insert c (ps_broken u)\<rparr>)
               | (True, u) \<Rightarrow> u))"

text \<open>\<open>readPTYOutput\<close>: a chunk that was read goes to the ring at once and then waits for room in the queue.\<close>

abbreviation ptyOutputQueueSize :: nat where
  "ptyOutputQueueSize \<equiv> 64"

abbreviation ptyOutputMaxFrame :: nat where
  "ptyOutputMaxFrame \<equiv> 32 * 1024"

definition read_chunk :: "string \<Rightarrow> pty_session \<Rightarrow> pty_session" where
  "read_chunk dat s = (appendOutput dat s)\<lparr>ps_held := Some dat\<rparr>"

definition enqueue_chunk :: "pty_session \<Rightarrow> pty_session" where
  "enqueue_chunk s = (case ps_held s of
      None \<Rightarrow> s
    | Some dat \<Rightarrow>
        if length (ps_queue s) < ptyOutputQueueSize then s\<lparr>ps_queue := ps_queue s @ [dat], ps_held := None\<rparr> else s)"

text \<open>
  \<open>writePTYOutput\<close>: a chunk of the queue joins the pending bytes; a flush picks the current
  connection (\<open>begin_flush\<close>), then takes the write lock and sends the frame if that connection is
  still the current one (\<open>end_flush\<close>); the pending bytes are dropped in every case.
\<close>

definition take_chunk :: "pty_session \<Rightarrow> pty_session" where
  "take_chunk s = (case ps_queue s of
      [] \<Rightarrow> s
    | dat # rest \<Rightarrow> s\<lparr>ps_queue := rest, ps_pending := ps_pending s @ dat\<rparr>)"

definition begin_flush :: "pty_session \<Rightarrow> pty_session" where
  "begin_flush s = (if ps_pending s = [] then s else s\<lparr>ps_target := Some (ps_conn s)\<rparr>)"

definition end_flush :: "pty_session \<Rightarrow> pty_session" where
  "end_flush s = (case ps_target s of
      None \<Rightarrow> s
    | Some None \<Rightarrow> s\<lparr>ps_target := None, ps_pending := []\<rparr>
    | Some (Some c) \<Rightarrow>
        (snd (writeSessionMessageLocked c (CHR ''0'' # ps_pending s) s))\<lparr>ps_target := None, ps_pending := []\<rparr>)"

text \<open>
  The interleavings of the goroutines of one session. The reader reads no chunk while it holds one;
  the writer takes no chunk during a flush, nor when the pending bytes fill a frame, which it
  flushes first. A connection is attached once.
\<close>

inductive pty_step :: "pty_session \<Rightarrow> pty_session \<Rightarrow> bool" where
  attached: "ps_sent s c = [] \<Longrightarrow> c \<notin> ps_broken s \<Longrightarrow> ps_conn s \<noteq> Some c \<Longrightarrow> ps_target s \<noteq> Some (Some c) \<Longrightarrow>
     pty_step s (attach c s)"
| chunk_read: "\<not> ps_done s \<Longrightarrow> ps_held s = None \<Longrightarrow> pty_step s (read_chunk dat s)"
| chunk_queued: "pty_step s (enqueue_chunk s)"
| chunk_taken: "ps_target s = None \<Longrightarrow> length (ps_pending s) < ptyOutputMaxFrame \<Longrightarrow> pty_step s (take_chunk s)"
| flush_begins: "ps_target s = None \<Longrightarrow> pty_step s (begin_flush s)"
| flush_ends: "pty_step s (end_flush s)"
| connection_breaks: "pty_step s (s\<lparr>ps_broken := insert c (ps_broken s)\<rparr>)"
| disconnected: "pty_step s (markDisconnected c (s\<lparr>ps_broken := insert c (ps_broken s)\<rparr>))"
| exited: "pty_step s (s\<lparr>ps_done := True\<rparr>)"

abbreviation pty_run :: "pty_session \<Rightarrow> pty_session \<Rightarrow> bool" where
  "pty_run \<equiv> pty_step\<^sup>*\<^sup>*"

section \<open>The session manager\<close>

type_synonym session_manager = "string \<rightharpoonup> pty_session"

text \<open>
  \<open>generateSessionID\<close>: sixteen random bytes in hexadecimal, or the hexadecimal text of the time if
  there is no entropy. \<open>spawn\<close> is whether the process could be started.
\<close>

definition create_session ::
  "(string \<Rightarrow> string) \<Rightarrow> string \<Rightarrow> unit result \<Rightarrow> string \<Rightarrow> session_manager \<Rightarrow> pty_session result \<times> session_manager" where
  "create_session env sid spawn commandName sm = (case resolveAllowedCommand env commandName of
      None \<Rightarrow> (Inl (ErrText (''unknown command: '' @ quoted commandName)), sm)
    | Some argv \<Rightarrow> (case spawn of
        Inl e \<Rightarrow> (Inl e, sm)
      | Inr _ \<Rightarrow> (Inr (new_session sid commandName), sm(sid \<mapsto> new_session sid commandName))))"

definition remove_session :: "string \<Rightarrow> session_manager \<Rightarrow> session_manager" where
  "remove_session sid sm = sm(sid := None)"

text \<open>A pass of the reaper destroys the sessions whose process has exited.\<close>

definition reap_sessions :: "session_manager \<Rightarrow> session_manager" where
  "reap_sessions sm = (\<lambda>sid. case sm sid of None \<Rightarrow> None | Some s \<Rightarrow> if ps_done s then None else Some s)"

text \<open>
  The WebSocket handler of \<open>Run\<close> up to \<open>handleSession\<close>: a session that still lives is continued, one
  that has exited is removed, and otherwise a session is created for the command.
\<close>

definition connect ::
  "(string \<Rightarrow> string) \<Rightarrow> string \<Rightarrow> unit result \<Rightarrow> string \<Rightarrow> string \<Rightarrow> nat \<Rightarrow> session_manager \<Rightarrow> string result \<times> session_manager" where
  "connect env fresh spawn sessionID commandName c sm =
     (let found = (if sessionID = '''' then None else sm sessionID);
          sm1 = (case found of Some s \<Rightarrow> if ps_done s then remove_session sessionID sm else sm | None \<Rightarrow> sm);
          live = (case found of Some s \<Rightarrow> if ps_done s then None else Some s | None \<Rightarrow> None)
      in case live of
           Some s \<Rightarrow> (Inr sessionID, sm1(sessionID \<mapsto> attach c s))
         | None \<Rightarrow> (case create_session env fresh spawn commandName sm1 of
             (Inl e, sm2) \<Rightarrow> (Inl e, sm2)
           | (Inr s, sm2) \<Rightarrow> (Inr fresh, sm2(fresh \<mapsto> attach c s))))"

section \<open>Running a command\<close>

definition allowedExecSubcommands :: "string list" where
  "allowedExecSubcommands = [''pairing'', ''status'', ''doctor'', ''gateway'', ''config'']"

fun isAllowedHermesConfigCommand :: "string list \<Rightarrow> bool" where
  "isAllowedHermesConfigCommand (p # sub # args) \<longleftrightarrow>
     p = ''ocm-hermes-config'' \<and> sub = ''sync'' \<and> list_all (\<lambda>a. a = ''--restart-gateway'') args"
| "isAllowedHermesConfigCommand _ \<longleftrightarrow> False"

text \<open>
  What \<open>handleExec\<close> does: an error reply, one of the built-in \<open>codex-auth\<close> calls (with the model or the
  callback URL), the reply to an unknown one, or a process.
\<close>

datatype exec_action =
    ExecError int string
  | CodexCheck
  | CodexTest string
  | CodexGenerateURL
  | CodexExchange string
  | CodexError string
  | RunCommand "string list"

definition decode_command :: "json option \<Rightarrow> string list option" where
  "decode_command body = (case body of
      Some (JObj kvs) \<Rightarrow> (case decode_field (decode_slice '''' decode_string) ''command'' [] kvs of
          (cmd, bad) \<Rightarrow> if bad then None else Some cmd)
    | Some JNull \<Rightarrow> Some []
    | _ \<Rightarrow> None)"

definition codex_auth :: "string list \<Rightarrow> exec_action" where
  "codex_auth cmd = (let sub = cmd ! 1 in
     if sub = ''check'' then CodexCheck
     else if sub = ''test'' then CodexTest (if 3 \<le> length cmd \<and> cmd ! 2 \<noteq> '''' then cmd ! 2 else ''gpt-5.5'')
     else if sub = ''generate-url'' then CodexGenerateURL
     else if sub = ''exchange'' then (if length cmd < 3 then CodexError ''missing callback URL argument'' else CodexExchange (cmd ! 2))
     else CodexError (''unknown codex-auth subcommand: '' @ sub))"

definition handleExec :: "string \<Rightarrow> json option \<Rightarrow> exec_action" where
  "handleExec httpMethod body =
     (if httpMethod \<noteq> ''POST'' then ExecError 405 ''method not allowed''
      else (case decode_command body of
          None \<Rightarrow> ExecError 400 ''invalid request body''
        | Some cmd \<Rightarrow>
            if length cmd < 2 then ExecError 400 ''command requires at least program and subcommand''
            else if hd cmd = ''codex-auth'' then codex_auth cmd
            else if hd cmd = ''ocm-hermes-config'' then
              (if isAllowedHermesConfigCommand cmd then RunCommand cmd
               else ExecError 403 ''ocm-hermes-config command is not allowed'')
            else if hd cmd \<noteq> ''openclaw'' then ExecError 403 ''only openclaw and ocm-hermes-config commands are allowed''
            else if cmd ! 1 \<notin> set allowedExecSubcommands then
              ExecError 403 (''subcommand '' @ quoted (cmd ! 1) @ '' is not allowed'')
            else RunCommand cmd))"

text \<open>How a process ends: with an exit code, by the deadline, or not started at all.\<close>

datatype process_end = Exited int | DeadlineExceeded | NotRun string

abbreviation maxExecOutputBytes :: nat where
  "maxExecOutputBytes \<equiv> 64 * 1024"

definition truncate_output :: "string \<Rightarrow> string" where
  "truncate_output out = (if maxExecOutputBytes < length out
     then take maxExecOutputBytes out @ [CHR 0x0A] @ ''... (truncated)'' else out)"

definition runExecCommand :: "process_end \<Rightarrow> string \<Rightarrow> string \<Rightarrow> int \<times> string \<times> string" where
  "runExecCommand fin out err =
     (let (code, err1) = (case fin of
          Exited n \<Rightarrow> (n, err)
        | DeadlineExceeded \<Rightarrow> (- 1, err @ ''command timed out after 30s'')
        | NotRun e \<Rightarrow> (- 1, err @ e))
      in (code, truncate_output out, truncate_output err1))"

section \<open>Restarting the gateway\<close>

text \<open>
  \<open>signalGatewayRestart\<close> with the results of its three steps: the latch, the marker, the helper. The
  effects are what was written and whether the helper ran.
\<close>

datatype restart_effect = WroteFile string string | RanHelper "string list"

definition signalGatewayRestart ::
  "nat \<Rightarrow> unit result \<Rightarrow> unit result \<Rightarrow> unit result \<Rightarrow> (string \<times> go_error) option \<times> restart_effect list" where
  "signalGatewayRestart now latch marker helper =
     (let w1 = WroteFile ''/run/ocm-gateway-crash-loop'' (''0'' @ [CHR 0x0A]);
          w2 = WroteFile ''/run/ocm-gateway-manual-restart'' (show_nat now @ '' 2'' @ [CHR 0x0A]);
          w3 = RanHelper [''sudo'', ''-n'', ''/usr/local/bin/ocm-restart-gateway'']
      in case latch of
           Inl e \<Rightarrow> (Some (''clear_crash_loop'', e), [])
         | Inr _ \<Rightarrow> (case marker of
             Inl e \<Rightarrow> (Some (''marker_write'', e), [w1])
           | Inr _ \<Rightarrow> (case helper of
               Inl e \<Rightarrow> (Some (''sv_restart'', e), [w1, w2, w3])
             | Inr _ \<Rightarrow> (None, [w1, w2, w3]))))"

definition handleRestartGateway ::
  "string \<Rightarrow> nat \<Rightarrow> unit result \<Rightarrow> unit result \<Rightarrow> unit result \<Rightarrow> (int \<times> string) \<times> restart_effect list" where
  "handleRestartGateway httpMethod now latch marker helper =
     (if httpMethod \<noteq> ''POST'' then ((405, ''method not allowed''), [])
      else (case signalGatewayRestart now latch marker helper of
          (None, es) \<Rightarrow> ((200, ''restart-signaled''), es)
        | (Some (step, e), es) \<Rightarrow>
            ((500, if step = ''clear_crash_loop'' then ''failed to clear crash-loop latch''
                   else if step = ''marker_write'' then ''failed to arm restart marker''
                   else ''failed to restart gateway''), es)))"

section \<open>Writing a file\<close>

text \<open>The file system as the handler sees it.\<close>

record file_view =
  fv_cwd :: string
  fv_EvalSymlinks :: "string \<Rightarrow> string option"
  fv_MkdirAll :: "string \<Rightarrow> bool"
  fv_is_symlink :: "string \<Rightarrow> bool"
  fv_WriteFile :: "string \<Rightarrow> bool"

datatype write_action = WriteError int string | Wrote string string

definition decode_write :: "json option \<Rightarrow> (string \<times> string) option" where
  "decode_write body = (case body of
      Some (JObj kvs) \<Rightarrow>
        (let (p, b1) = decode_field decode_string ''path'' '''' kvs;
             (c, b2) = decode_field decode_string ''content'' '''' kvs
         in if b1 \<or> b2 then None else Some (p, c))
    | Some JNull \<Rightarrow> Some ('''', '''')
    | _ \<Rightarrow> None)"

definition allowed_base :: "file_view \<Rightarrow> string" where
  "allowed_base fs = (case fv_EvalSymlinks fs ''/home/openclaw/.openclaw'' of
      Some r \<Rightarrow> r @ ''/'' | None \<Rightarrow> ''/home/openclaw/.openclaw/'')"

text \<open>The nearest ancestor that exists must lie in the base; the loop shortens the path each time.\<close>

fun ancestor_ok :: "nat \<Rightarrow> file_view \<Rightarrow> string \<Rightarrow> bool" where
  "ancestor_ok 0 fs a = True"
| "ancestor_ok (Suc fuel) fs a =
     (if a = ''/'' then True
      else (case fv_EvalSymlinks fs a of
          Some rp \<Rightarrow> has_prefix (rp @ ''/'') (allowed_base fs)
        | None \<Rightarrow> ancestor_ok fuel fs (Dir a)))"

definition real_parent :: "file_view \<Rightarrow> string \<Rightarrow> string option" where
  "real_parent fs parentDir = (case fv_EvalSymlinks fs parentDir of
      Some rp \<Rightarrow> Some rp
    | None \<Rightarrow> if ancestor_ok (length parentDir) fs parentDir then Some parentDir else None)"

definition handleWriteFile :: "file_view \<Rightarrow> string \<Rightarrow> json option \<Rightarrow> write_action" where
  "handleWriteFile fs httpMethod body =
     (if httpMethod \<noteq> ''POST'' then WriteError 405 ''method not allowed''
      else (case decode_write body of
          None \<Rightarrow> WriteError 400 ''invalid request body''
        | Some (path, content) \<Rightarrow>
            if path = '''' then WriteError 400 ''path is required''
            else if 1024 * 1024 < length content then WriteError 400 ''content too large (max 1MB)''
            else (let absPath = Abs_path (fv_cwd fs) (Clean path) in
              if Base absPath \<noteq> ''SOUL.md'' then WriteError 403 ''filename not allowed''
              else (case real_parent fs (Dir absPath) of
                  None \<Rightarrow> WriteError 403 ''path outside allowed directory''
                | Some realParent \<Rightarrow>
                    (let realPath = Join [realParent, Base absPath] in
                     if \<not> has_prefix realPath (allowed_base fs) then WriteError 403 ''path outside allowed directory''
                     else if \<not> fv_MkdirAll fs (Dir realPath) then WriteError 500 ''failed to create directory''
                     else if fv_is_symlink fs realPath then WriteError 403 ''target is a symlink''
                     else if \<not> fv_WriteFile fs realPath then WriteError 500 ''failed to write file''
                     else Wrote realPath content)))))"

end
