(* ===== verification/Terminal_Properties.thy ===== *)
theory Terminal_Properties
  imports Terminal
begin

text \<open>
  What the terminal daemon promises: the ring buffer keeps exactly the last bytes, a reconnecting
  client misses nothing that the ring still has, only allowed commands run and a file is written
  only below the directory of the user.
\<close>

section \<open>The ring buffer\<close>

definition ring_holds :: "nat \<Rightarrow> string \<Rightarrow> ring_buffer \<Rightarrow> bool" where
  "ring_holds n str rb \<longleftrightarrow> length (rb_buf rb) = n \<and> rb_pos rb < n \<and>
     (if rb_full rb then n \<le> length str \<and> drop (rb_pos rb) (rb_buf rb) @ take (rb_pos rb) (rb_buf rb) = drop (length str - n) str
      else rb_pos rb = length str \<and> take (rb_pos rb) (rb_buf rb) = str)"

lemma take_update: "i < length xs \<Longrightarrow> take (Suc i) (xs[i := b]) = take i xs @ [b]"
  by (simp add: take_Suc_conv_app_nth)

lemma put_holds:
  assumes "ring_holds n str rb"
  shows "ring_holds n (str @ [b]) (ring_put rb b)"
proof -
  let ?p = "rb_pos rb" and ?buf = "(rb_buf rb)[rb_pos rb := b]"
  have len: "length ?buf = n" "?p < n" using assms by (simp_all add: ring_holds_def)
  have front: "take (Suc ?p) ?buf = take ?p (rb_buf rb) @ [b]" using assms by (simp add: ring_holds_def take_update)
  have rest: "drop (Suc ?p) ?buf = drop (Suc ?p) (rb_buf rb)" by simp
  have whole: "Suc ?p = n \<Longrightarrow> ?buf = take ?p (rb_buf rb) @ [b]" using front len by simp
  show ?thesis
  proof (cases "rb_full rb")
    case False
    then have "?p = length str" "take (length str) (rb_buf rb) = str" using assms by (auto simp: ring_holds_def)
    then show ?thesis using False len front whole by (auto simp: ring_holds_def ring_put_def Let_def)
  next
    case True
    then have old: "n \<le> length str" "drop ?p (rb_buf rb) @ take ?p (rb_buf rb) = drop (length str - n) str"
      using assms by (simp_all add: ring_holds_def)
    have "drop ?p (rb_buf rb) = rb_buf rb ! ?p # drop (Suc ?p) (rb_buf rb)"
      using len by (simp add: Cons_nth_drop_Suc)
    then have "drop (Suc ?p) (rb_buf rb) @ take ?p (rb_buf rb) = tl (drop (length str - n) str)"
      using arg_cong [OF old(2), of tl] by simp
    then have tail: "drop (Suc ?p) (rb_buf rb) @ take ?p (rb_buf rb) = drop (Suc (length str) - n) str"
      using old(1) by (simp only: tl_drop drop_Suc [symmetric] Suc_diff_le)
    have new: "drop (Suc ?p) ?buf @ take (Suc ?p) ?buf = drop (length (str @ [b]) - n) (str @ [b])"
      using tail old(1) len(2) unfolding front rest by (simp add: append_assoc [symmetric] del: append_assoc)
    show ?thesis
    proof (cases "Suc ?p = n")
      case wrapped: True
      then have "?buf = drop (length (str @ [b]) - n) (str @ [b])" using new len by simp
      then show ?thesis using wrapped len old by (simp add: ring_holds_def ring_put_def Let_def)
    next
      case within: False
      then show ?thesis using True len old new by (simp add: ring_holds_def ring_put_def Let_def)
    qed
  qed
qed

lemma write_holds: "ring_holds n str rb \<Longrightarrow> ring_holds n (str @ p) (ring_Write rb p)"
  unfolding ring_Write_def
proof (induction p arbitrary: str rb)
  case (Cons b p)
  then show ?case using Cons.IH [OF put_holds [OF Cons.prems, of b]] by simp
qed simp

lemma new_holds: "0 < n \<Longrightarrow> ring_holds n [] (newRingBuffer n)"
  by (simp add: ring_holds_def newRingBuffer_def)

lemma holds_bytes: "ring_holds n str rb \<Longrightarrow> ring_Bytes rb = drop (length str - n) str"
  by (auto simp: ring_holds_def ring_Bytes_def split: if_splits)

text \<open>
  The ring buffer keeps the last bytes. However the output of a process is cut into writes,
  the bytes of a ring buffer of a positive size are exactly the last bytes of the output, all of it
  while it fits.
\<close>
theorem ring_keeps_last_bytes:
  assumes "0 < n"
  shows "ring_Bytes (foldl ring_Write (newRingBuffer n) chunks) = drop (length (concat chunks) - n) (concat chunks)"
proof -
  have "ring_holds n str rb \<Longrightarrow> ring_holds n (str @ concat chunks) (foldl ring_Write rb chunks)" for str rb
  proof (induction chunks arbitrary: str rb)
    case (Cons c chunks)
    then show ?case using Cons.IH [OF write_holds [OF Cons.prems, of c]] by simp
  qed simp
  from this [OF new_holds [OF assms]] show ?thesis using holds_bytes by fastforce
qed

theorem ring_keeps_last_bytes_witness:
  "ring_Bytes (foldl ring_Write (newRingBuffer 4) [''abc'', ''de'', ''f'']) = ''cdef''"
  using ring_keeps_last_bytes [of 4 "[''abc'', ''de'', ''f'']"] by simp

section \<open>What a connection is sent\<close>

text \<open>
  The history of a session, kept beside it: all that the process has written, how much of it has
  left the pending bytes of the writer, and for each connection how much had been written when it
  was attached and from which byte on it is sent frames.
\<close>

record history =
  hs_stream :: string
  hs_flushed :: nat
  hs_seen :: "nat \<Rightarrow> nat"
  hs_start :: "nat \<Rightarrow> nat"

definition held_bytes :: "pty_session \<Rightarrow> string" where
  "held_bytes s = (case ps_held s of None \<Rightarrow> [] | Some dat \<Rightarrow> dat)"

definition advance :: "pty_session \<Rightarrow> pty_session \<Rightarrow> history \<Rightarrow> history" where
  "advance s t h = \<lparr>
     hs_stream = hs_stream h @ (if ps_held s = None then held_bytes t else []),
     hs_flushed = hs_flushed h + (if ps_target s \<noteq> None \<and> ps_target t = None then length (ps_pending s) else 0),
     hs_seen = (\<lambda>c. if ps_conn t = Some c \<and> ps_conn s \<noteq> Some c then length (hs_stream h) else hs_seen h c),
     hs_start = (\<lambda>c. if ps_conn t = Some c \<and> ps_conn s \<noteq> Some c
                     then hs_flushed h + (if ps_target s = None then 0 else length (ps_pending s)) else hs_start h c)\<rparr>"

inductive pty_history :: "pty_session \<Rightarrow> history \<Rightarrow> bool" where
  begins: "pty_history (new_session sid cmd) \<lparr>hs_stream = [], hs_flushed = 0, hs_seen = (\<lambda>_. 0), hs_start = (\<lambda>_. 0)\<rparr>"
| continues: "pty_history s h \<Longrightarrow> pty_step s t \<Longrightarrow> pty_history t (advance s t h)"

definition replay_of :: "string \<Rightarrow> string" where
  "replay_of str = drop (length str - ringBufferSize) str"

text \<open>The bytes of the pumps are the part of the output that is not flushed, in order.\<close>

definition pumps_ok :: "pty_session \<Rightarrow> history \<Rightarrow> bool" where
  "pumps_ok s h \<longleftrightarrow> ring_holds ringBufferSize (hs_stream h) (ps_ring s) \<and> hs_flushed h \<le> length (hs_stream h) \<and>
     drop (hs_flushed h) (hs_stream h) = ps_pending s @ concat (ps_queue s) @ held_bytes s"

text \<open>What the current connection was sent.\<close>

definition sent_ok :: "pty_session \<Rightarrow> history \<Rightarrow> nat \<Rightarrow> bool" where
  "sent_ok s h c \<longleftrightarrow>
     (\<exists>frames. ps_sent s c = (CHR ''s'' # ps_id s) #
          (let replay = replay_of (take (hs_seen h c) (hs_stream h)) in if replay = [] then [] else [CHR ''r'' # replay]) @
          map (Cons (CHR ''0'')) frames \<and>
        concat frames = take (hs_flushed h - hs_start h c) (drop (hs_start h c) (hs_stream h))) \<and>
     hs_start h c \<le> hs_seen h c \<and> hs_seen h c \<le> length (hs_stream h) \<and>
     (if ps_target s = None \<or> ps_target s = Some (Some c) then hs_start h c \<le> hs_flushed h
      else hs_start h c = hs_flushed h + length (ps_pending s))"

definition delivery_ok :: "pty_session \<Rightarrow> history \<Rightarrow> bool" where
  "delivery_ok s h \<longleftrightarrow> pumps_ok s h \<and> (\<forall>c. ps_conn s = Some c \<and> c \<notin> ps_broken s \<longrightarrow> sent_ok s h c)"

lemma attach_pumps [simp]:
  "ps_ring (attach c s) = ps_ring s" "ps_pending (attach c s) = ps_pending s" "ps_queue (attach c s) = ps_queue s"
  "ps_held (attach c s) = ps_held s" "ps_target (attach c s) = ps_target s" "ps_id (attach c s) = ps_id s"
  by (auto simp: attach_def writeSessionMessageLocked_def markDisconnected_def Let_def)

lemma attach_sent:
  assumes "ps_sent s c = []" "c \<notin> ps_broken s"
  shows "ps_conn (attach c s) = Some c" "ps_sent (attach c s) c = (CHR ''s'' # ps_id s) #
     (if replayBytes s = [] then [] else [CHR ''r'' # replayBytes s])"
  using assms by (auto simp: attach_def writeSessionMessageLocked_def markDisconnected_def replayBytes_def Let_def split: option.splits)

lemma end_flush_pumps [simp]:
  "ps_ring (end_flush s) = ps_ring s" "ps_queue (end_flush s) = ps_queue s" "ps_held (end_flush s) = ps_held s"
  "ps_conn (end_flush s) = ps_conn s" "ps_broken (end_flush s) = ps_broken s" "ps_id (end_flush s) = ps_id s"
  "ps_target (end_flush s) = None" "ps_pending (end_flush s) = (if ps_target s = None then ps_pending s else [])"
  by (auto simp: end_flush_def writeSessionMessageLocked_def split: option.splits)

lemma end_flush_sent:
  assumes "ps_conn s = Some c" "c \<notin> ps_broken s"
  shows "ps_sent (end_flush s) c = ps_sent s c @ (if ps_target s = Some (Some c) then [CHR ''0'' # ps_pending s] else [])"
  using assms by (auto simp: end_flush_def writeSessionMessageLocked_def split: option.splits)

lemma flushed_bytes:
  assumes "drop f str = p @ r" "f \<le> length str"
  shows "drop (f + length p) str = r" "f + length p \<le> length str"
    "a \<le> f \<Longrightarrow> take (f + length p - a) (drop a str) = take (f - a) (drop a str) @ p"
proof -
  have str: "str = take f str @ p @ r" using assms(1) by (metis append_take_drop_id)
  have "length (take f str) = f" using assms(2) by simp
  then obtain q where q: "str = q @ p @ r" "length q = f" using str by blast
  show "drop (f + length p) str = r" "f + length p \<le> length str" using q by simp_all
  show "a \<le> f \<Longrightarrow> take (f + length p - a) (drop a str) = take (f - a) (drop a str) @ p" using q by simp
qed

lemma pumps_advance:
  assumes "pty_step s t" "pumps_ok s h"
  shows "pumps_ok t (advance s t h)"
  using assms(1)
proof cases
  case (attached c)
  then show ?thesis using assms(2) by (auto simp: pumps_ok_def advance_def held_bytes_def)
next
  case (chunk_read dat)
  then show ?thesis using assms(2) write_holds
    by (auto simp: pumps_ok_def advance_def held_bytes_def read_chunk_def appendOutput_def)
next
  case chunk_queued
  then show ?thesis using assms(2)
    by (auto simp: pumps_ok_def advance_def held_bytes_def enqueue_chunk_def split: option.splits)
next
  case chunk_taken
  then show ?thesis using assms(2)
    by (auto simp: pumps_ok_def advance_def held_bytes_def take_chunk_def split: list.splits)
next
  case flush_begins
  then show ?thesis using assms(2) by (auto simp: pumps_ok_def advance_def held_bytes_def begin_flush_def)
next
  case flush_ends
  show ?thesis
  proof (cases "ps_target s = None")
    case True
    then show ?thesis using assms(2) flush_ends by (simp add: pumps_ok_def advance_def held_bytes_def)
  next
    case False
    have "drop (hs_flushed h) (hs_stream h) = ps_pending s @ concat (ps_queue s) @ held_bytes s"
      "hs_flushed h \<le> length (hs_stream h)" using assms(2) by (simp_all add: pumps_ok_def)
    note flushed_bytes(1,2) [OF this]
    then show ?thesis using assms(2) flush_ends False
      by (auto simp: pumps_ok_def advance_def held_bytes_def)
  qed
qed (use assms(2) in \<open>auto simp: pumps_ok_def advance_def held_bytes_def markDisconnected_def\<close>)

text \<open>
  A step that sends nothing to a connection that stays, and at most adds to the output or starts a
  flush to this connection, keeps what the connection was sent.
\<close>

lemma sent_kept:
  assumes "delivery_ok s h" "ps_conn s = Some c" "c \<notin> ps_broken s" "ps_sent t c = ps_sent s c" "ps_id t = ps_id s"
    "ps_target t = ps_target s \<and> (ps_target s = None \<or> ps_pending t = ps_pending s) \<or>
     ps_target s = None \<and> ps_target t = Some (Some c)"
  shows "sent_ok t (advance s t h) c"
proof -
  have "pumps_ok s h" "sent_ok s h c" using assms(1-3) by (auto simp: delivery_ok_def)
  then show ?thesis using assms(2-) by (auto simp: sent_ok_def pumps_ok_def advance_def replay_of_def)
qed

lemma attach_ok:
  assumes "pumps_ok s h" "ps_sent s c = []" "c \<notin> ps_broken s" "ps_conn s \<noteq> Some c" "ps_target s \<noteq> Some (Some c)"
  shows "sent_ok (attach c s) (advance s (attach c s) h) c"
proof -
  have ring: "replayBytes s = replay_of (hs_stream h)"
    using assms(1) holds_bytes by (auto simp: pumps_ok_def replayBytes_def replay_of_def)
  have "hs_flushed h + length (ps_pending s) \<le> length (hs_stream h)"
    using assms(1) flushed_bytes(2) unfolding pumps_ok_def by blast
  then show ?thesis using assms attach_sent [OF assms(2,3)] ring by (auto simp: sent_ok_def advance_def held_bytes_def Let_def)
qed

lemma flush_ok:
  assumes "pumps_ok s h" "sent_ok s h c" "ps_conn s = Some c" "c \<notin> ps_broken s" "ps_target s \<noteq> None"
  shows "sent_ok (end_flush s) (advance s (end_flush s) h) c"
proof -
  let ?k = "advance s (end_flush s) h" and ?a = "hs_start h c" and ?f = "hs_flushed h" and ?p = "ps_pending s"
  have same: "hs_stream ?k = hs_stream h" "hs_flushed ?k = ?f + length ?p" "hs_seen ?k c = hs_seen h c" "hs_start ?k c = ?a"
    using assms(3,5) by (auto simp: advance_def held_bytes_def)
  have bytes: "drop ?f (hs_stream h) = ?p @ concat (ps_queue s) @ held_bytes s" "?f \<le> length (hs_stream h)"
    using assms(1) by (simp_all add: pumps_ok_def)
  obtain frames where sent: "ps_sent s c = (CHR ''s'' # ps_id s) #
      (let replay = replay_of (take (hs_seen h c) (hs_stream h)) in if replay = [] then [] else [CHR ''r'' # replay]) @
      map (Cons (CHR ''0'')) frames" "concat frames = take (?f - ?a) (drop ?a (hs_stream h))"
    using assms(2) by (auto simp: sent_ok_def)
  have rest: "?a \<le> hs_seen h c" "hs_seen h c \<le> length (hs_stream h)" using assms(2) by (simp_all add: sent_ok_def)
  show ?thesis
  proof (cases "ps_target s = Some (Some c)")
    case True
    then have "?a \<le> ?f" using assms(2) by (simp add: sent_ok_def)
    then have "concat (frames @ [?p]) = take (?f + length ?p - ?a) (drop ?a (hs_stream h))"
      using sent(2) flushed_bytes(3) [OF bytes] by simp
    moreover have "ps_sent (end_flush s) c = (CHR ''s'' # ps_id s) #
      (let replay = replay_of (take (hs_seen h c) (hs_stream h)) in if replay = [] then [] else [CHR ''r'' # replay]) @
      map (Cons (CHR ''0'')) (frames @ [?p])" using True sent(1) end_flush_sent [OF assms(3,4)] by simp
    ultimately show ?thesis unfolding sent_ok_def same using rest \<open>?a \<le> ?f\<close> by (auto intro!: exI [of _ "frames @ [?p]"])
  next
    case False
    then have "?a = ?f + length ?p" using assms(2,5) by (simp add: sent_ok_def)
    then show ?thesis unfolding sent_ok_def same using False rest sent end_flush_sent [OF assms(3,4)]
      by (auto intro!: exI [of _ frames])
  qed
qed

lemma delivery_advance:
  assumes "pty_step s t" "delivery_ok s h"
  shows "delivery_ok t (advance s t h)"
proof -
  have p: "pumps_ok s h" using assms(2) by (simp add: delivery_ok_def)
  have "sent_ok t (advance s t h) c" if c: "ps_conn t = Some c" "c \<notin> ps_broken t" for c
    using assms(1)
  proof cases
    case (attached d)
    have "d = c" using attached c attach_sent [OF attached(2,3)] by simp
    then show ?thesis using attached attach_ok [OF p] by simp
  next
    case (chunk_read dat)
    then show ?thesis using c by (intro sent_kept [OF assms(2)]) (auto simp: read_chunk_def appendOutput_def)
  next
    case chunk_queued
    then show ?thesis using c by (intro sent_kept [OF assms(2)]) (auto simp: enqueue_chunk_def split: option.splits if_splits)
  next
    case chunk_taken
    then show ?thesis using c by (intro sent_kept [OF assms(2)]) (auto simp: take_chunk_def split: list.splits)
  next
    case flush_begins
    then show ?thesis using c by (intro sent_kept [OF assms(2)]) (auto simp: begin_flush_def split: if_splits)
  next
    case flush_ends
    then have s: "ps_conn s = Some c" "c \<notin> ps_broken s" "sent_ok s h c" using c assms(2) by (simp_all add: delivery_ok_def)
    show ?thesis
    proof (cases "ps_target s = None")
      case True
      then show ?thesis using flush_ends s by (intro sent_kept [OF assms(2)]) (auto simp: end_flush_def)
    next
      case False
      then show ?thesis using flush_ends flush_ok [OF p s(3,1,2)] by simp
    qed
  next
    case (disconnected d)
    then show ?thesis using c by (intro sent_kept [OF assms(2)]) (auto simp: markDisconnected_def split: if_splits)
  qed (use c in \<open>auto intro!: sent_kept [OF assms(2)]\<close>)
  then show ?thesis using pumps_advance [OF assms(1) p] by (simp add: delivery_ok_def)
qed

lemma history_delivery: "pty_history s h \<Longrightarrow> delivery_ok s h"
proof (induction rule: pty_history.induct)
  case (begins sid cmd)
  then show ?case using new_holds [of ringBufferSize]
    by (simp add: delivery_ok_def pumps_ok_def new_session_def held_bytes_def)
next
  case (continues s h t)
  then show ?case using delivery_advance by blast
qed

text \<open>Every run of a session has a history.\<close>

lemma run_has_history: "pty_run (new_session sid cmd) s \<Longrightarrow> \<exists>h. pty_history s h"
  by (induction rule: rtranclp_induct) (blast intro: pty_history.intros)+

text \<open>A connection that arrives after the process wrote, while the bytes are still in the pumps.\<close>

definition late_connection :: "string \<Rightarrow> string \<Rightarrow> string \<Rightarrow> pty_session" where
  "late_connection sid cmd x =
     end_flush (begin_flush (take_chunk (enqueue_chunk (attach 1 (read_chunk x (new_session sid cmd))))))"

lemma late_run:
  "pty_run (new_session sid cmd) (late_connection sid cmd x)"
proof -
  let ?s1 = "read_chunk x (new_session sid cmd)"
  let ?s3 = "enqueue_chunk (attach 1 ?s1)"
  note defs = new_session_def read_chunk_def appendOutput_def
  have 1: "pty_step (new_session sid cmd) ?s1" by (rule chunk_read) (simp_all add: defs)
  have 2: "pty_step ?s1 (attach 1 ?s1)" by (rule attached) (simp_all add: defs)
  have held: "ps_pending ?s3 = []" "ps_target ?s3 = None"
    by (simp_all add: enqueue_chunk_def defs split: option.splits)
  have 3: "pty_step ?s3 (take_chunk ?s3)" using held by (intro chunk_taken) simp_all
  have 4: "pty_step (take_chunk ?s3) (begin_flush (take_chunk ?s3))"
    using held by (intro flush_begins) (simp add: take_chunk_def split: list.splits)
  note link = converse_rtranclp_into_rtranclp [where r = pty_step]
  show ?thesis unfolding late_connection_def
    by (rule link [OF 1], rule link [OF 2], rule link [OF chunk_queued], rule link [OF 3], rule link [OF 4],
        rule link [OF flush_ends], rule rtranclp.rtrancl_refl)
qed

lemma late_sent:
  assumes "x \<noteq> []" "length x \<le> ringBufferSize"
  shows "ps_conn (late_connection sid cmd x) = Some 1" "ps_broken (late_connection sid cmd x) = {}"
    "ps_sent (late_connection sid cmd x) 1 = [CHR ''s'' # sid, CHR ''r'' # x, CHR ''0'' # x]"
proof -
  let ?s1 = "read_chunk x (new_session sid cmd)"
  note defs = new_session_def read_chunk_def appendOutput_def
  have "ring_holds ringBufferSize ([] @ x) (ring_Write (newRingBuffer ringBufferSize) x)"
    by (intro write_holds new_holds) simp
  then have replay: "replayBytes ?s1 = x" using assms(2) by (simp add: defs replayBytes_def holds_bytes)
  have at: "ps_conn (attach 1 ?s1) = Some 1" "ps_sent (attach 1 ?s1) 1 = [CHR ''s'' # sid, CHR ''r'' # x]"
    using attach_sent [of ?s1 1] assms(1) replay by (simp_all add: defs)
  have br: "ps_broken (attach 1 ?s1) = {}" by (simp add: attach_def writeSessionMessageLocked_def defs Let_def)
  let ?s4 = "begin_flush (take_chunk (enqueue_chunk (attach 1 ?s1)))"
  have s4: "ps_conn ?s4 = Some 1" "ps_broken ?s4 = {}" "ps_target ?s4 = Some (Some 1)" "ps_pending ?s4 = x"
    "ps_sent ?s4 1 = [CHR ''s'' # sid, CHR ''r'' # x]"
    using assms(1) at br by (simp_all add: begin_flush_def take_chunk_def enqueue_chunk_def defs)
  show "ps_conn (late_connection sid cmd x) = Some 1" "ps_broken (late_connection sid cmd x) = {}"
    "ps_sent (late_connection sid cmd x) 1 = [CHR ''s'' # sid, CHR ''r'' # x, CHR ''0'' # x]"
    unfolding late_connection_def using s4 end_flush_sent [OF s4(1)] by simp_all
qed

text \<open>
  C37: a terminal loses no output. However the pumps, the clients and the process interleave, the
  current connection that works was sent the identity of the session, a replay of the last 64K of
  what the process had written when it arrived (nothing if that is empty), and then frames that are
  exactly the output from some byte written before it arrived up to the last flush; the rest is
  still in the pumps, in order. So nothing written after the replay is lost, reordered or sent
  twice as frames.
\<close>
theorem pty_delivery:
  assumes "pty_history s h" "ps_conn s = Some c" "c \<notin> ps_broken s"
  shows "(\<exists>frames. ps_sent s c = (CHR ''s'' # ps_id s) #
      (let replay = replay_of (take (hs_seen h c) (hs_stream h)) in if replay = [] then [] else [CHR ''r'' # replay]) @
      map (Cons (CHR ''0'')) frames \<and>
      concat frames = take (hs_flushed h - hs_start h c) (drop (hs_start h c) (hs_stream h))) \<and>
    hs_start h c \<le> hs_seen h c \<and> hs_seen h c \<le> length (hs_stream h) \<and>
    drop (hs_flushed h) (hs_stream h) = ps_pending s @ concat (ps_queue s) @ held_bytes s"
  using history_delivery [OF assms(1)] assms(2,3) by (auto simp: delivery_ok_def sent_ok_def pumps_ok_def)

theorem pty_delivery_witness:
  "\<exists>h frames. pty_history (late_connection ''1f'' ''bash'' ''ok'') h \<and>
     ps_sent (late_connection ''1f'' ''bash'' ''ok'') 1 = ''s1f'' # ''rok'' # map (Cons (CHR ''0'')) frames \<and> frames \<noteq> [] \<and>
     hs_start h 1 \<le> hs_seen h 1"
proof -
  obtain h where h: "pty_history (late_connection ''1f'' ''bash'' ''ok'') h" using run_has_history [OF late_run] by blast
  have "hs_start h 1 \<le> hs_seen h 1" using pty_delivery [OF h, of 1] late_sent [of "''ok''"] by simp
  then show ?thesis using h late_sent(3) [of "''ok''" "''1f''" "''bash''"] by (intro exI [of _ h] exI [of _ "[''ok'']"]) simp
qed

text \<open>
  A client that reconnects while output is in the pumps gets that output twice, once in the
  replay and once as a frame: the ring already has the bytes that the queue and the pending buffer
  still hold, and nothing tells the writer to leave them out.
\<close>
theorem reconnect_duplicates_output:
  "\<exists>s. pty_run (new_session ''1f'' ''bash'') s \<and> ps_sent s 1 = [''s1f'', ''rok'', ''0ok'']"
  using late_run [of "''1f''" "''bash''" "''ok''"] late_sent(3) [of "''ok''" "''1f''" "''bash''"] by fastforce

section \<open>What may run\<close>

lemma all_same: "list_all (\<lambda>a. a = x) xs \<longleftrightarrow> xs = replicate (length xs) x"
  by (induction xs) auto

lemma hermes_command: "isAllowedHermesConfigCommand argv \<longleftrightarrow>
    (\<exists>n. argv = ''ocm-hermes-config'' # ''sync'' # replicate n ''--restart-gateway'')"
proof (cases argv rule: isAllowedHermesConfigCommand.cases)
  case (1 p sub args)
  have "list_all (\<lambda>a. a = ''--restart-gateway'') args \<longleftrightarrow> (\<exists>n. args = replicate n ''--restart-gateway'')"
    unfolding all_same by (metis length_replicate)
  then show ?thesis unfolding 1 isAllowedHermesConfigCommand.simps by auto
qed auto

lemma codex_runs_nothing: "codex_auth cmd \<noteq> RunCommand argv"
  by (auto simp: codex_auth_def Let_def)

text \<open>
  The daemon runs only what is allowed. A process is started only for a POST request, and its
  arguments are those of one of the allowed subcommands of \<open>openclaw\<close>, or the configuration sync of
  Hermes with nothing but restart flags.
\<close>
theorem exec_allowed_only:
  assumes "handleExec httpMethod body = RunCommand argv"
  shows "httpMethod = ''POST'' \<and>
    ((\<exists>sub rest. argv = ''openclaw'' # sub # rest \<and> sub \<in> set allowedExecSubcommands) \<or>
     (\<exists>n. argv = ''ocm-hermes-config'' # ''sync'' # replicate n ''--restart-gateway''))"
proof -
  have post: "httpMethod = ''POST''" using assms by (simp add: handleExec_def split: if_splits)
  obtain cmd where cmd: "decode_command body = Some cmd" using assms post by (auto simp: handleExec_def split: option.splits)
  have two: "\<not> length cmd < 2" using assms post cmd by (auto simp: handleExec_def)
  then obtain p sub rest where c: "cmd = p # sub # rest" by (cases cmd rule: isAllowedHermesConfigCommand.cases) auto
  have "argv = cmd" "isAllowedHermesConfigCommand cmd \<or> p = ''openclaw'' \<and> sub \<in> set allowedExecSubcommands"
    using assms codex_runs_nothing unfolding handleExec_def post cmd by (simp_all add: c split: if_splits)
  then show ?thesis using post c unfolding hermes_command by blast
qed

theorem exec_allowed_only_witness:
  "handleExec ''POST'' (Some (JObj [(''command'', JArr [JStr ''openclaw'', JStr ''status''])])) =
     RunCommand [''openclaw'', ''status''] \<and> ''status'' \<in> set allowedExecSubcommands"
proof -
  have run: "handleExec ''POST'' (Some (JObj [(''command'', JArr [JStr ''openclaw'', JStr ''status''])])) =
     RunCommand [''openclaw'', ''status'']" by code_simp
  show ?thesis using exec_allowed_only [OF run] run by simp
qed

text \<open>The reply of a command is bounded.\<close>

lemma exec_output_bounded:
  "runExecCommand fin out err = (code, o1, e1) \<Longrightarrow>
     length o1 \<le> maxExecOutputBytes + 16 \<and> length e1 \<le> maxExecOutputBytes + 16"
  by (auto simp: runExecCommand_def truncate_output_def split: prod.splits)

text \<open>Every session runs an allowed command and is filed under its identity.\<close>

definition sessions_ok :: "(string \<Rightarrow> string) \<Rightarrow> session_manager \<Rightarrow> bool" where
  "sessions_ok env sm \<longleftrightarrow> (\<forall>sid s. sm sid = Some s \<longrightarrow> ps_id s = sid \<and> resolveAllowedCommand env (ps_commandName s) \<noteq> None)"

lemma attach_name [simp]: "ps_commandName (attach c s) = ps_commandName s"
  by (auto simp: attach_def writeSessionMessageLocked_def markDisconnected_def Let_def)

lemma step_name: "pty_step s t \<Longrightarrow> ps_id t = ps_id s \<and> ps_commandName t = ps_commandName s"
  by (cases rule: pty_step.cases, assumption)
     (auto simp: read_chunk_def appendOutput_def enqueue_chunk_def take_chunk_def begin_flush_def end_flush_def
        writeSessionMessageLocked_def markDisconnected_def split: option.splits list.splits)

lemma connect_sessions_ok: "sessions_ok env sm \<Longrightarrow> connect env fresh spawn sid cmd c sm = (r, sm') \<Longrightarrow> sessions_ok env sm'"
  by (auto simp: sessions_ok_def connect_def create_session_def remove_session_def new_session_def Let_def
      split: if_splits option.splits sum.splits)

lemma reap_sessions_ok: "sessions_ok env sm \<Longrightarrow> sessions_ok env (reap_sessions sm)"
  by (auto simp: sessions_ok_def reap_sessions_def split: if_splits option.splits)

section \<open>Where a file is written\<close>

definition base_dir :: "file_view \<Rightarrow> string" where
  "base_dir fs = (case fv_EvalSymlinks fs ''/home/openclaw/.openclaw'' of Some r \<Rightarrow> r | None \<Rightarrow> ''/home/openclaw/.openclaw'')"

text \<open>
  The daemon writes a file only below the directory of the user. If resolving symbolic links
  yields clean absolute paths and the working directory is absolute, then a file that was written
  has a clean absolute path whose elements start with those of the resolved directory
  \<open>/home/openclaw/.openclaw\<close> and contain no dots, its name is \<open>SOUL.md\<close> and it has at most a
  megabyte.
\<close>
theorem write_file_confined:
  assumes "handleWriteFile fs httpMethod body = Wrote p content"
    and "\<And>a r. IsAbs a \<Longrightarrow> fv_EvalSymlinks fs a = Some r \<Longrightarrow> clean_abs r" and "IsAbs (fv_cwd fs)"
  shows "clean_abs p \<and> last (elements p) = ''SOUL.md'' \<and>
    take (length (elements (base_dir fs))) (elements p) = elements (base_dir fs) \<and>
    (\<forall>c \<in> set (elements p). proper c) \<and> length content \<le> 1024 * 1024"
proof -
  let ?abs = "\<lambda>path. Abs_path (fv_cwd fs) (Clean path)"
  obtain path where path: "decode_write body = Some (path, content)" "length content \<le> 1024 * 1024"
      "Base (?abs path) = ''SOUL.md''"
    and par: "\<exists>parent. real_parent fs (Dir (?abs path)) = Some parent \<and> p = Join [parent, ''SOUL.md'']"
    and below: "has_prefix p (allowed_base fs)"
    using assms(1) by (auto simp: handleWriteFile_def Let_def split: if_splits option.splits)
  then obtain parent where parent: "real_parent fs (Dir (?abs path)) = Some parent" "p = Join [parent, ''SOUL.md'']" by blast
  have "clean_abs (Dir (?abs path))" using Dir_abs Abs_path_abs [OF assms(3)] unfolding clean_abs_def by blast
  then have abs: "IsAbs parent"
    using parent(1) assms(2) [of "Dir (?abs path)"] by (auto simp: real_parent_def clean_abs_def split: option.splits if_splits)
  have soul: "Clean ''SOUL.md'' = ''SOUL.md''" "elements ''SOUL.md'' = [''SOUL.md'']" "\<not> IsAbs ''SOUL.md''" "proper ''SOUL.md''"
    by code_simp+
  then have els: "elements p = elements parent @ [''SOUL.md'']"
    using elements_below(1) [OF abs, of "''SOUL.md''"] parent(2) by simp
  have p: "clean_abs p" unfolding parent(2) by (rule IsAbs_Join [OF abs])
  have "clean_abs ''/home/openclaw/.openclaw''" by code_simp
  then have base: "clean_abs (base_dir fs)" "allowed_base fs = base_dir fs @ ''/''"
    using assms(2) [of "''/home/openclaw/.openclaw''"]
    by (auto simp: base_dir_def allowed_base_def clean_abs_def split: option.splits)
  have "\<forall>c \<in> set (elements p). proper c" using elements_rooted p unfolding clean_abs_def by blast
  then show ?thesis using p els path(2) below_by_prefix [OF base(1) p] below base(2) by simp
qed

text \<open>A file system without links, in which everything that is looked at exists.\<close>

definition plain_files :: file_view where
  "plain_files = \<lparr>fv_cwd = ''/'', fv_EvalSymlinks = (\<lambda>p. Some (Clean p)), fv_MkdirAll = (\<lambda>_. True),
     fv_is_symlink = (\<lambda>_. False), fv_WriteFile = (\<lambda>_. True)\<rparr>"

theorem write_file_confined_witness:
  "handleWriteFile plain_files ''POST'' (Some (JObj [(''path'', JStr ''/home/openclaw/x/../.openclaw/workspace/SOUL.md''),
     (''content'', JStr ''be kind'')])) = Wrote ''/home/openclaw/.openclaw/workspace/SOUL.md'' ''be kind'' \<and>
   last (elements ''/home/openclaw/.openclaw/workspace/SOUL.md'') = ''SOUL.md''"
proof -
  have run: "handleWriteFile plain_files ''POST'' (Some (JObj [(''path'', JStr ''/home/openclaw/x/../.openclaw/workspace/SOUL.md''),
     (''content'', JStr ''be kind'')])) = Wrote ''/home/openclaw/.openclaw/workspace/SOUL.md'' ''be kind''"
  proof -
    let ?abs = "''/home/openclaw/.openclaw/workspace/SOUL.md''"
    have path: "Abs_path ''/'' (Clean ''/home/openclaw/x/../.openclaw/workspace/SOUL.md'') = ?abs" by code_simp
    have parent: "Dir ?abs = ''/home/openclaw/.openclaw/workspace''" by code_simp
    have name: "Base ?abs = ''SOUL.md''" by code_simp
    have join: "Join [Clean ''/home/openclaw/.openclaw/workspace'', ''SOUL.md''] = ?abs" by code_simp
    have base: "Clean ''/home/openclaw/.openclaw'' = ''/home/openclaw/.openclaw''" by code_simp
    have body: "decode_write (Some (JObj [(''path'', JStr ''/home/openclaw/x/../.openclaw/workspace/SOUL.md''),
      (''content'', JStr ''be kind'')])) = Some (''/home/openclaw/x/../.openclaw/workspace/SOUL.md'', ''be kind'')" by code_simp
    show ?thesis using path parent name join base unfolding handleWriteFile_def body
      by (simp add: plain_files_def real_parent_def allowed_base_def Let_def)
  qed
  have "IsAbs a \<Longrightarrow> fv_EvalSymlinks plain_files a = Some r \<Longrightarrow> clean_abs r" for a r
    by (auto simp: plain_files_def clean_abs_def)
  moreover have "IsAbs (fv_cwd plain_files)" by (simp add: plain_files_def)
  ultimately show ?thesis using write_file_confined [OF run] run by blast
qed

end
