(* ===== verification/Go_Url.thy ===== *)
theory Go_Url
  imports Net
begin

text \<open>
  \<open>net/url\<close> as far as the source uses it: parsing a URL into its host, path and query, percent
  escapes, and the query as a list of parameters; and \<open>net.ParseIP\<close> with the classification of
  addresses.
\<close>

section \<open>Percent escapes\<close>

definition hex_value :: "char \<Rightarrow> nat" where
  "hex_value c = (let n = of_char c in if n \<le> 57 then n - 48 else if n \<le> 70 then n - 55 else n - 87)"

text \<open>\<open>url.PathUnescape\<close>; with \<open>q\<close> a plus stands for a space, as in a query.\<close>

fun unescape :: "bool \<Rightarrow> string \<Rightarrow> string option" where
  "unescape q [] = Some []"
| "unescape q (c # cs) =
     (if c = CHR ''%'' then (case cs of
          a # b # rest \<Rightarrow> if is_hex a \<and> is_hex b
            then map_option (\<lambda>t. char_of (16 * hex_value a + hex_value b) # t) (unescape q rest) else None
        | _ \<Rightarrow> None)
      else map_option (\<lambda>t. (if q \<and> c = CHR ''+'' then CHR 0x20 else c) # t) (unescape q cs))"

section \<open>Parsing a URL\<close>

text \<open>The characters of user information, and those of a host name.\<close>

definition userinfo_char :: "char \<Rightarrow> bool" where
  "userinfo_char c \<longleftrightarrow> alnum c \<or> c \<in> set ''-._:~!$&'()*+,;=%@''"

definition host_char :: "char \<Rightarrow> bool" where
  "host_char c \<longleftrightarrow> alnum c \<or> c \<in> set ''-_.~!$&'()*+,;=:[]<>'' \<or> c = CHR 0x22 \<or> 128 \<le> (of_char c :: nat)"

text \<open>In a host only the escape of a percent sign and those of non-ASCII bytes are allowed.\<close>

fun unescape_host :: "string \<Rightarrow> string option" where
  "unescape_host [] = Some []"
| "unescape_host (c # cs) =
     (if c = CHR ''%'' then (case cs of
          a # b # rest \<Rightarrow> if is_hex a \<and> is_hex b \<and> (8 \<le> hex_value a \<or> [a, b] = ''25'')
            then map_option (\<lambda>t. char_of (16 * hex_value a + hex_value b) # t) (unescape_host rest) else None
        | _ \<Rightarrow> None)
      else if host_char c then map_option (\<lambda>t. c # t) (unescape_host cs) else None)"

text \<open>The parts before and after the last occurrence of a character.\<close>

definition cut_last :: "char \<Rightarrow> string \<Rightarrow> (string \<times> string) option" where
  "cut_last sep s = (if sep \<in> set s
     then Some (rev (tl (dropWhile (\<lambda>c. c \<noteq> sep) (rev s))), rev (takeWhile (\<lambda>c. c \<noteq> sep) (rev s))) else None)"

definition optional_port :: "string \<Rightarrow> bool" where
  "optional_port p \<longleftrightarrow> p = '''' \<or> (hd p = CHR '':'' \<and> list_all is_digit (tl p))"

text \<open>\<open>parseHost\<close>, without zones of IPv6 addresses.\<close>

definition parse_host :: "string \<Rightarrow> string option" where
  "parse_host h =
     (if has_prefix h ''['' then (case cut_last (CHR '']'') h of
          None \<Rightarrow> None
        | Some (_, port) \<Rightarrow> if optional_port port then unescape_host h else None)
      else (case cut_last (CHR '':'') h of
          None \<Rightarrow> unescape_host h
        | Some (_, port) \<Rightarrow> if list_all is_digit port then unescape_host h else None))"

text \<open>\<open>parseAuthority\<close>: what stands before the last at sign is user information.\<close>

definition parse_authority :: "string \<Rightarrow> string option" where
  "parse_authority a = (case cut_last (CHR ''@'') a of
      None \<Rightarrow> parse_host a
    | Some (user, h) \<Rightarrow> (case parse_host h of
        None \<Rightarrow> None
      | Some host \<Rightarrow> if list_all userinfo_char user \<and> escapes_ok user then Some host else None))"

record url =
  u_Scheme :: string
  u_Host :: string
  u_Path :: string
  u_RawQuery :: string

definition before :: "char \<Rightarrow> string \<Rightarrow> string" where
  "before sep s = takeWhile (\<lambda>c. c \<noteq> sep) s"

definition after :: "char \<Rightarrow> string \<Rightarrow> string" where
  "after sep s = tl (dropWhile (\<lambda>c. c \<noteq> sep) s)"

text \<open>
  \<open>url.Parse\<close> of a scheme (given apart) followed by \<open>://\<close> and the rest. The fragment is dropped, as it
  is when the URL is requested.
\<close>

definition ParseURL :: "string \<Rightarrow> string \<Rightarrow> url option" where
  "ParseURL scheme rest =
     (let u = before (CHR ''#'') rest;
          hier = before (CHR ''?'') u;
          authority = before (CHR ''/'') hier;
          path = drop (length authority) hier
      in if \<not> list_all (\<lambda>c. 32 \<le> (of_char c :: nat) \<and> of_char c \<noteq> (127 :: nat)) u then None
         else if \<not> escapes_ok (after (CHR ''#'') rest) then None
         else (case (parse_authority authority, unescape False path) of
             (Some host, Some p) \<Rightarrow> Some \<lparr>u_Scheme = scheme, u_Host = host, u_Path = p, u_RawQuery = after (CHR ''?'') u\<rparr>
           | _ \<Rightarrow> None))"

section \<open>Addresses\<close>

text \<open>An address as the eight groups of 16 bits of IPv6; an IPv4 address is mapped into it.\<close>

type_synonym ip = "nat list"

definition mapped :: "nat \<Rightarrow> nat \<Rightarrow> nat \<Rightarrow> nat \<Rightarrow> ip" where
  "mapped a b c d = [0, 0, 0, 0, 0, 65535, 256 * a + b, 256 * c + d]"

definition octet :: "string \<Rightarrow> nat option" where
  "octet s = (if s \<noteq> '''' \<and> length s \<le> 3 \<and> list_all is_digit s \<and> (length s = 1 \<or> hd s \<noteq> CHR ''0'') \<and> digits_value s \<le> 255
              then Some (nat (digits_value s)) else None)"

definition parse_ipv4 :: "string \<Rightarrow> (nat \<times> nat \<times> nat \<times> nat) option" where
  "parse_ipv4 s = (case map octet (split_on (CHR ''.'') s) of
      [Some a, Some b, Some c, Some d] \<Rightarrow> Some (a, b, c, d) | _ \<Rightarrow> None)"

definition hex_group :: "string \<Rightarrow> nat option" where
  "hex_group s = (if s \<noteq> '''' \<and> length s \<le> 4 \<and> list_all is_hex s then Some (foldl (\<lambda>n c. 16 * n + hex_value c) 0 s) else None)"

text \<open>Groups of an IPv6 address; the last may be an IPv4 address, which gives two.\<close>

fun parse_groups :: "string list \<Rightarrow> nat list option" where
  "parse_groups [] = Some []"
| "parse_groups [g] = (case parse_ipv4 g of
      Some (a, b, c, d) \<Rightarrow> Some [256 * a + b, 256 * c + d] | None \<Rightarrow> map_option (\<lambda>n. [n]) (hex_group g))"
| "parse_groups (g # gs) = (case (hex_group g, parse_groups gs) of (Some n, Some ns) \<Rightarrow> Some (n # ns) | _ \<Rightarrow> None)"

definition groups_of :: "string \<Rightarrow> nat list option" where
  "groups_of s = (if s = '''' then Some [] else parse_groups (split_on (CHR '':'') s))"

text \<open>The parts around the first double colon.\<close>

fun cut_double :: "string \<Rightarrow> (string \<times> string) option" where
  "cut_double (a # b # s) = (if a = CHR '':'' \<and> b = CHR '':'' then Some ('''', s)
     else map_option (\<lambda>(x, y). (a # x, y)) (cut_double (b # s)))"
| "cut_double _ = None"

definition parse_ipv6 :: "string \<Rightarrow> ip option" where
  "parse_ipv6 s = (case cut_double s of
      None \<Rightarrow> (case groups_of s of Some gs \<Rightarrow> if length gs = 8 then Some gs else None | None \<Rightarrow> None)
    | Some (l, r) \<Rightarrow>
        if CHR ''.'' \<in> set l then None
        else (case (groups_of l, groups_of r) of
          (Some ls, Some rs) \<Rightarrow> if length ls + length rs < 8 then Some (ls @ replicate (8 - length ls - length rs) 0 @ rs) else None
        | _ \<Rightarrow> None))"

definition ParseIP :: "string \<Rightarrow> ip option" where
  "ParseIP s = (if CHR '':'' \<in> set s then parse_ipv6 s
     else map_option (\<lambda>(a, b, c, d). mapped a b c d) (parse_ipv4 s))"

text \<open>\<open>To4\<close>: the four bytes of a mapped address.\<close>

definition to4 :: "ip \<Rightarrow> (nat \<times> nat \<times> nat \<times> nat) option" where
  "to4 x = (if take 6 x = [0, 0, 0, 0, 0, 65535] \<and> length x = 8
            then Some (x ! 6 div 256, x ! 6 mod 256, x ! 7 div 256, x ! 7 mod 256) else None)"

definition IsLoopback :: "ip \<Rightarrow> bool" where
  "IsLoopback x = (case to4 x of Some (a, _) \<Rightarrow> a = 127 | None \<Rightarrow> x = [0, 0, 0, 0, 0, 0, 0, 1])"

definition IsLinkLocalUnicast :: "ip \<Rightarrow> bool" where
  "IsLinkLocalUnicast x = (case to4 x of Some (a, b, _) \<Rightarrow> a = 169 \<and> b = 254 | None \<Rightarrow> hd x div 64 = 1018)"

definition IsLinkLocalMulticast :: "ip \<Rightarrow> bool" where
  "IsLinkLocalMulticast x = (case to4 x of Some (a, b, c, _) \<Rightarrow> a = 224 \<and> b = 0 \<and> c = 0
     | None \<Rightarrow> hd x div 256 = 255 \<and> hd x mod 16 = 2)"

definition IsPrivate :: "ip \<Rightarrow> bool" where
  "IsPrivate x = (case to4 x of
      Some (a, b, _) \<Rightarrow> a = 10 \<or> (a = 172 \<and> b div 16 = 1) \<or> (a = 192 \<and> b = 168)
    | None \<Rightarrow> hd x div 512 = 126)"

definition IsUnspecified :: "ip \<Rightarrow> bool" where
  "IsUnspecified x \<longleftrightarrow> x = mapped 0 0 0 0 \<or> x = [0, 0, 0, 0, 0, 0, 0, 0]"

end
