(* ===== verification/Metadata_Server.thy ===== *)
theory Metadata_Server
  imports Agent_Client Go_Path Go_Url
begin

text \<open>
  \<open>internal/metadata\<close>: the metadata service of a host, which tells a VM who it is and hands it its
  secrets (\<open>metadata.go\<close>, \<open>server_linux.go\<close>), and the client that pulls the secrets from the control
  plane (\<open>fetcher.go\<close>). A VM is known by its address; what it gets depends on a nonce.
\<close>

section \<open>The registry\<close>

record credential_entry =
  ce_Value :: string
  ce_CredentialType :: string
  ce_ExpiresAt :: "time option"

text \<open>A nil map of secrets is \<open>None\<close>.\<close>

type_synonym secrets = "string \<rightharpoonup> string"

record secret_cache =
  sc_Secrets :: "secrets option"
  sc_FetchedAt :: time

abbreviation SecretCacheTTL :: int where
  "SecretCacheTTL \<equiv> 60 * second"

text \<open>A provider that the account has registered for the API proxy.\<close>

record custom_provider_config =
  cp_Name :: string
  cp_UpstreamHost :: string
  cp_Scheme :: string
  cp_AuthMethod :: string
  cp_AuthHeader :: string
  cp_PathPrefix :: string
  cp_AllowedHosts :: "string list"
  cp_IsLLM :: bool

text \<open>
  The configuration of a VM, without the fields that neither this service nor the API proxy reads
  (machine name, souls, endpoint).
\<close>

record meta_config =
  mc_MachineID :: string
  mc_MachineKind :: string
  mc_MachineSlug :: string
  mc_GatewayToken :: string
  mc_OpenClawConf :: string
  mc_HermesConfigYAML :: string
  mc_HermesEnv :: string
  mc_HermesAuthJSON :: string
  mc_HermesSoul :: string
  mc_Secrets :: secrets
  mc_LLMKeys :: "string \<rightharpoonup> credential_entry"
  mc_Nonce :: string
  mc_AccountID :: int
  mc_BudgetMicrocents :: "int option"
  mc_SigningKey :: string
  mc_VmHostname :: string
  mc_TunnelToken :: string
  mc_OwnerEmails :: "string list"
  mc_CfCaPubKey :: string
  mc_CustomProviders :: "custom_provider_config list"
  mc_SecretCache :: secret_cache
  mc_RuntimeSelection :: "runtime_selection option"

record meta_server =
  mt_configs :: "string \<rightharpoonup> meta_config"
  mt_configVersions :: "string \<rightharpoonup> int"
  mt_browserTargets :: "string \<rightharpoonup> string"
  mt_BackendURL :: string
  mt_AgentToken :: string
  mt_AgentVersion :: string
  mt_LogCallback :: bool
  mt_SecretFetcher :: bool

definition new_server :: "string \<Rightarrow> string \<Rightarrow> string \<Rightarrow> bool \<Rightarrow> bool \<Rightarrow> meta_server" where
  "new_server backend token version logs fetcher = \<lparr>mt_configs = Map.empty, mt_configVersions = Map.empty,
     mt_browserTargets = Map.empty, mt_BackendURL = backend, mt_AgentToken = token, mt_AgentVersion = version,
     mt_LogCallback = logs, mt_SecretFetcher = fetcher\<rparr>"

definition RegisterMachine :: "string \<Rightarrow> meta_config \<Rightarrow> meta_server \<Rightarrow> meta_server" where
  "RegisterMachine vmIP config s = s\<lparr>mt_configs := (mt_configs s)(vmIP \<mapsto> config),
     mt_configVersions := (mt_configVersions s)(vmIP \<mapsto> 1)\<rparr>"

definition UnregisterMachine :: "string \<Rightarrow> meta_server \<Rightarrow> meta_server" where
  "UnregisterMachine vmIP s = s\<lparr>mt_browserTargets := (mt_browserTargets s)(vmIP := None),
     mt_configs := (mt_configs s)(vmIP := None), mt_configVersions := (mt_configVersions s)(vmIP := None)\<rparr>"

definition GetBrowserTarget :: "string \<Rightarrow> meta_server \<Rightarrow> string" where
  "GetBrowserTarget vmIP s = deref_or '''' (mt_browserTargets s vmIP)"

definition SetBrowserTarget :: "string \<Rightarrow> string \<Rightarrow> meta_server \<Rightarrow> meta_server" where
  "SetBrowserTarget vmIP target s = s\<lparr>mt_browserTargets := (mt_browserTargets s)(vmIP \<mapsto> target)\<rparr>"

definition ResetBrowserTarget :: "string \<Rightarrow> meta_server \<Rightarrow> meta_server" where
  "ResetBrowserTarget vmIP s = s\<lparr>mt_browserTargets := (mt_browserTargets s)(vmIP := None)\<rparr>"

text \<open>An update of a VM that is not registered only logs a warning. A missing version counts as zero.\<close>

definition update_config :: "bool \<Rightarrow> (meta_config \<Rightarrow> meta_config) \<Rightarrow> string \<Rightarrow> meta_server \<Rightarrow> meta_server" where
  "update_config bump f vmIP s = (case mt_configs s vmIP of
      None \<Rightarrow> s
    | Some cfg \<Rightarrow> s\<lparr>mt_configs := (mt_configs s)(vmIP \<mapsto> f cfg),
        mt_configVersions := (if bump then (mt_configVersions s)(vmIP \<mapsto> deref_or 0 (mt_configVersions s vmIP) + 1)
                              else mt_configVersions s)\<rparr>)"

definition UpdateMachineSecrets :: "string \<Rightarrow> secrets \<Rightarrow> meta_server \<Rightarrow> meta_server" where
  "UpdateMachineSecrets vmIP ss = update_config True (\<lambda>cfg. cfg\<lparr>mc_Secrets := ss\<rparr>) vmIP"

definition UpdateMachineConfig :: "string \<Rightarrow> string \<Rightarrow> meta_server \<Rightarrow> meta_server" where
  "UpdateMachineConfig vmIP conf = update_config True (\<lambda>cfg. cfg\<lparr>mc_OpenClawConf := conf\<rparr>) vmIP"

definition UpdateMachineLLMKeys :: "string \<Rightarrow> (string \<rightharpoonup> credential_entry) \<Rightarrow> meta_server \<Rightarrow> meta_server" where
  "UpdateMachineLLMKeys vmIP ks = update_config False (\<lambda>cfg. cfg\<lparr>mc_LLMKeys := mc_LLMKeys cfg ++ ks\<rparr>) vmIP"

definition ReplaceMachineLLMKeys :: "string \<Rightarrow> (string \<rightharpoonup> credential_entry) \<Rightarrow> meta_server \<Rightarrow> meta_server" where
  "ReplaceMachineLLMKeys vmIP ks = update_config False (\<lambda>cfg. cfg\<lparr>mc_LLMKeys := ks\<rparr>) vmIP"

definition GetConfig :: "string \<Rightarrow> meta_server \<Rightarrow> meta_config option" where
  "GetConfig vmIP s = mt_configs s vmIP"

definition GetConfigWithNonce :: "string \<Rightarrow> string \<Rightarrow> meta_server \<Rightarrow> meta_config option" where
  "GetConfigWithNonce vmIP nonce s = (case mt_configs s vmIP of
      None \<Rightarrow> None
    | Some cfg \<Rightarrow> if mc_Nonce cfg \<noteq> '''' \<and> (nonce = '''' \<or> nonce \<noteq> mc_Nonce cfg) then None else Some cfg)"

definition GetConfigVersion :: "string \<Rightarrow> meta_server \<Rightarrow> int" where
  "GetConfigVersion vmIP s = deref_or 0 (mt_configVersions s vmIP)"

section \<open>Who is calling\<close>

text \<open>\<open>net.SplitHostPort\<close>: the host part, or an error.\<close>

definition SplitHost :: "string \<Rightarrow> string option" where
  "SplitHost s = (case cut_last (CHR '':'') s of
      None \<Rightarrow> None
    | Some (front, port) \<Rightarrow>
        if CHR ''['' \<in> set port \<or> CHR '']'' \<in> set port then None
        else if s \<noteq> [] \<and> hd s = CHR ''[''
        then (let host = takeWhile (\<lambda>c. c \<noteq> CHR '']'') (tl front) in
              if front = CHR ''['' # host @ '']'' \<and> CHR ''['' \<notin> set host then Some host else None)
        else if CHR '':'' \<in> set front \<or> CHR ''['' \<in> set front \<or> CHR '']'' \<in> set front then None
        else Some front)"

definition extractSourceIP :: "string \<Rightarrow> string" where
  "extractSourceIP remoteAddr = (if CHR '':'' \<in> set remoteAddr
     then (case SplitHost remoteAddr of Some host \<Rightarrow> host | None \<Rightarrow> remoteAddr) else remoteAddr)"

record meta_request =
  mq_RemoteAddr :: string
  mq_Method :: string
  mq_Path :: string
  mq_Query :: "(string \<times> string) list"
  mq_Nonce :: string
  mq_Body :: "json option"

definition query_get :: "string \<Rightarrow> meta_request \<Rightarrow> string" where
  "query_get k r = deref_or '''' (map_of (mq_Query r) k)"

datatype meta_reply =
    MetaError int string
  | MetaFields "string \<rightharpoonup> string"
  | MetaText string
  | MetaAllowed
  | MetaNoContent
  | MetaProxied int string
  | MetaRedirect string

definition configFromRequest :: "meta_request \<Rightarrow> meta_server \<Rightarrow> meta_reply + meta_config" where
  "configFromRequest r s = (case GetConfig (extractSourceIP (mq_RemoteAddr r)) s of
      None \<Rightarrow> Inl (MetaError 404 ''unknown VM'')
    | Some cfg \<Rightarrow>
        (let nonce = (if mq_Nonce r = '''' then query_get ''nonce'' r else mq_Nonce r) in
         if mc_Nonce cfg = '''' then Inr cfg
         else if nonce = '''' then Inl (MetaError 403 ''metadata nonce required'')
         else if nonce \<noteq> mc_Nonce cfg then Inl (MetaError 403 ''invalid metadata nonce'')
         else Inr cfg))"

section \<open>The state of the service\<close>

text \<open>The server, the network to the control plane, the log lines handed to the callback, and the clock.\<close>

record meta_world =
  mw_server :: meta_server
  mw_net :: net
  mw_logs :: "(string \<times> string \<times> string) list"
  mw_now :: time

abbreviation meta_net :: "(net, 'a) state \<Rightarrow> (meta_world, 'a) state" where
  "meta_net \<equiv> zoom mw_net (\<lambda>n w. w\<lparr>mw_net := n\<rparr>)"

definition read_world :: "(meta_world \<Rightarrow> 'a) \<Rightarrow> (meta_world, 'a) state" where
  "read_world f = State (\<lambda>w. (f w, w))"

definition update_server :: "(meta_server \<Rightarrow> meta_server) \<Rightarrow> (meta_world, unit) state" where
  "update_server f = State (\<lambda>w. ((), w\<lparr>mw_server := f (mw_server w)\<rparr>))"

section \<open>Pulling secrets\<close>

text \<open>Decoding into a \<open>map[string]string\<close>.\<close>

fun decode_string_map :: "secrets option decoder" where
  "decode_string_map old JNull = (None, False)"
| "decode_string_map old (JObj kvs) =
     (Some (foldl (\<lambda>m (k, j). m(k \<mapsto> fst (decode_string '''' j))) (deref_or Map.empty old) kvs),
      list_ex (\<lambda>(k, j). snd (decode_string '''' j)) kvs)"
| "decode_string_map old _ = (old, True)"

definition secrets_url :: "string \<Rightarrow> string \<Rightarrow> string" where
  "secrets_url backendURL machineID = backendURL @ ''/api/agent/machines/'' @ machineID @ ''/secrets''"

definition FetchSecrets :: "string \<Rightarrow> string \<Rightarrow> string \<Rightarrow> (net, secrets option result) state" where
  "FetchSecrets backendURL agentToken machineID = do {
     r \<leftarrow> http_do \<lparr>rq_Method = ''GET'', rq_URL = secrets_url backendURL machineID, rq_Token = agentToken, rq_Body = None\<rparr>;
     case r of
       Inl e \<Rightarrow> fail (wrap (if url_ok (secrets_url backendURL machineID) then ''fetch secrets'' else ''create request'') e)
     | Inr (status, text, body) \<Rightarrow>
         if status \<noteq> 200 then fail (ErrText (''backend returned HTTP '' @ show_int status))
         else (case body of
             None \<Rightarrow> fail (wrap ''decode secrets'' json_error)
           | Some j \<Rightarrow> (case decode_string_map None j of
               (ss, bad) \<Rightarrow> if bad then fail (wrap ''decode secrets'' json_error) else ok ss))
   }"

text \<open>The two parts of \<open>getPulledSecrets\<close> around the request: the cached secrets, and the update of the cache.\<close>

definition fresh_secrets :: "bool \<Rightarrow> time \<Rightarrow> meta_config \<Rightarrow> secrets option" where
  "fresh_secrets force now cfg =
     (if \<not> force \<and> now - sc_FetchedAt (mc_SecretCache cfg) < SecretCacheTTL then sc_Secrets (mc_SecretCache cfg) else None)"

definition store_pulled :: "string \<Rightarrow> secrets option \<Rightarrow> time \<Rightarrow> meta_server \<Rightarrow> meta_server" where
  "store_pulled vmIP ss now s =
     update_config False (\<lambda>cfg. cfg\<lparr>mc_SecretCache := \<lparr>sc_Secrets = ss, sc_FetchedAt = now\<rparr>\<rparr>) vmIP s"

definition getPulledSecrets :: "string \<Rightarrow> string \<Rightarrow> bool \<Rightarrow> (meta_world, secrets option) state" where
  "getPulledSecrets vmIP machineID force = do {
     s \<leftarrow> read_world mw_server;
     now \<leftarrow> read_world mw_now;
     case mt_configs s vmIP of
       None \<Rightarrow> ret None
     | Some cfg \<Rightarrow> (case fresh_secrets force now cfg of
         Some ss \<Rightarrow> ret (Some ss)
       | None \<Rightarrow> do {
           r \<leftarrow> meta_net (FetchSecrets (mt_BackendURL s) (mt_AgentToken s) machineID);
           case r of
             Inl e \<Rightarrow> ret (sc_Secrets (mc_SecretCache cfg))
           | Inr ss \<Rightarrow> do { _ \<leftarrow> update_server (store_pulled vmIP ss now); ret ss }
         })
   }"

section \<open>The handlers\<close>

definition handleHealth :: "(meta_world, meta_reply) state" where
  "handleHealth = read_world (\<lambda>w.
     MetaFields [''status'' \<mapsto> ''ok'', ''agent_version'' \<mapsto> mt_AgentVersion (mw_server w)])"

definition machine_fields :: "string \<Rightarrow> meta_config \<Rightarrow> (string \<rightharpoonup> string)" where
  "machine_fields version cfg =
     [''machine_id'' \<mapsto> mc_MachineID cfg, ''machine_kind'' \<mapsto> mc_MachineKind cfg, ''machine_slug'' \<mapsto> mc_MachineSlug cfg,
      ''gateway_token'' \<mapsto> mc_GatewayToken cfg, ''signing_key'' \<mapsto> mc_SigningKey cfg, ''tunnel_token'' \<mapsto> mc_TunnelToken cfg,
      ''vm_hostname'' \<mapsto> mc_VmHostname cfg, ''agent_version'' \<mapsto> version] ++
     (case mc_RuntimeSelection cfg of
        None \<Rightarrow> Map.empty
      | Some rs \<Rightarrow>
         [''runtime_kind'' \<mapsto> rs_Kind rs, ''resolved_rootfs_version'' \<mapsto> rs_ResolvedRootfsVersion rs,
          ''resolved_openclaw_version'' \<mapsto> rs_ResolvedOpenClawVersion rs,
          ''resolved_hermes_version'' \<mapsto> rs_ResolvedHermesVersion rs, ''version_source'' \<mapsto> rs_VersionSource rs,
          ''runtime_source'' \<mapsto> rs_RuntimeSource rs, ''openclaw_bin'' \<mapsto> rs_OpenClawBin rs,
          ''openclaw_bundled_plugins_dir'' \<mapsto> rs_OpenClawBundledPluginsDir rs, ''hermes_bin'' \<mapsto> rs_HermesBin rs,
          ''hermes_venv_dir'' \<mapsto> rs_HermesVenvDir rs])"

text \<open>A handler that answers for the configuration of the caller.\<close>

definition with_config :: "meta_request \<Rightarrow> (meta_config \<Rightarrow> (meta_world, meta_reply) state) \<Rightarrow> (meta_world, meta_reply) state" where
  "with_config r body = do {
     s \<leftarrow> read_world mw_server;
     case configFromRequest r s of Inl e \<Rightarrow> ret e | Inr cfg \<Rightarrow> body cfg
   }"

definition handleMachine :: "meta_request \<Rightarrow> (meta_world, meta_reply) state" where
  "handleMachine r = with_config r (\<lambda>cfg. read_world (\<lambda>w. MetaFields (machine_fields (mt_AgentVersion (mw_server w)) cfg)))"

definition platform_secrets :: "meta_config \<Rightarrow> secrets" where
  "platform_secrets cfg = mc_Secrets cfg ++
     (if mc_HermesConfigYAML cfg = '''' then Map.empty else [''HERMES_CONFIG_YAML'' \<mapsto> mc_HermesConfigYAML cfg]) ++
     (if mc_HermesEnv cfg = '''' then Map.empty else [''HERMES_ENV'' \<mapsto> mc_HermesEnv cfg]) ++
     (if mc_HermesAuthJSON cfg = '''' then Map.empty else [''HERMES_AUTH_JSON'' \<mapsto> mc_HermesAuthJSON cfg]) ++
     (if mc_HermesSoul cfg = '''' then Map.empty else [''HERMES_SOUL_MD'' \<mapsto> mc_HermesSoul cfg])"

definition handleSecrets :: "meta_request \<Rightarrow> (meta_world, meta_reply) state" where
  "handleSecrets r = with_config r (\<lambda>cfg. do {
     s \<leftarrow> read_world mw_server;
     if \<not> mt_SecretFetcher s then ret (MetaFields (platform_secrets cfg))
     else do {
       pulled \<leftarrow> getPulledSecrets (extractSourceIP (mq_RemoteAddr r)) (mc_MachineID cfg)
         (query_get ''fresh'' r = ''1'' \<or> equal_fold (query_get ''fresh'' r) ''true'');
       ret (MetaFields (platform_secrets cfg ++ deref_or Map.empty pulled))
     }
   })"

text \<open>The full address or the part before the at sign, in any case.\<close>

definition ssh_allowed :: "string list \<Rightarrow> string \<Rightarrow> bool" where
  "ssh_allowed owners email \<longleftrightarrow> list_ex (\<lambda>e. equal_fold e email \<or>
     (case cut (CHR ''@'') e of Some (localPart, _) \<Rightarrow> equal_fold localPart email | None \<Rightarrow> False)) owners"

definition handleSSHCheck :: "meta_request \<Rightarrow> (meta_world, meta_reply) state" where
  "handleSSHCheck r = with_config r (\<lambda>cfg. ret
     (let email = query_get ''email'' r in
      if email = '''' then MetaError 400 ''email parameter required''
      else if ssh_allowed (mc_OwnerEmails cfg) email then MetaAllowed
      else MetaError 403 ''not authorized''))"

fun ssh_principals :: "string list \<Rightarrow> string list \<Rightarrow> string list" where
  "ssh_principals seen [] = []"
| "ssh_principals seen (e # es) =
     (let full = map lower e;
          seen1 = (if full \<in> set seen then seen else full # seen);
          part = (case cut (CHR ''@'') e of Some (localPart, _) \<Rightarrow> [map lower localPart] | None \<Rightarrow> []);
          new = filter (\<lambda>p. p \<notin> set seen1) part
      in (if full \<in> set seen then [] else [full]) @ new @ ssh_principals (new @ seen1) es)"

definition handleSSHPrincipals :: "meta_request \<Rightarrow> (meta_world, meta_reply) state" where
  "handleSSHPrincipals r = with_config r (\<lambda>cfg. ret
     (MetaText (concat (map (\<lambda>l. l @ [newline]) (ssh_principals [] (mc_OwnerEmails cfg))))))"

definition handleCfCaPubKey :: "meta_request \<Rightarrow> (meta_world, meta_reply) state" where
  "handleCfCaPubKey r = with_config r (\<lambda>cfg. ret
     (if mc_CfCaPubKey cfg = '''' then MetaError 404 ''not configured'' else MetaText (mc_CfCaPubKey cfg)))"

definition decode_log :: "json option \<Rightarrow> (string \<times> string) option" where
  "decode_log body = (case body of
      Some (JObj kvs) \<Rightarrow>
        (let (src, b1) = decode_field decode_string ''source'' '''' kvs;
             (line, b2) = decode_field decode_string ''line'' '''' kvs
         in if b1 \<or> b2 then None else Some (src, line))
    | Some JNull \<Rightarrow> Some ('''', '''')
    | _ \<Rightarrow> None)"

definition handleLogIngestion :: "meta_request \<Rightarrow> (meta_world, meta_reply) state" where
  "handleLogIngestion r =
     (if mq_Method r \<noteq> ''POST'' then ret (MetaError 405 ''method not allowed'')
      else with_config r (\<lambda>cfg. (case decode_log (mq_Body r) of
          None \<Rightarrow> ret (MetaError 400 ''invalid request body'')
        | Some (src, line) \<Rightarrow> State (\<lambda>w. (MetaNoContent,
            if mt_LogCallback (mw_server w) then w\<lparr>mw_logs := mw_logs w @ [(mc_MachineID cfg, src, line)]\<rparr> else w)))))"

definition admin_prefix :: string where
  "admin_prefix = ''/v1/admin/''"

definition admin_url :: "string \<Rightarrow> string \<Rightarrow> string \<Rightarrow> string" where
  "admin_url backend machineID path = backend @ ''/api/agent/machines/'' @ machineID @ ''/'' @ trim_prefix path admin_prefix"

definition handleAdminProxy :: "meta_request \<Rightarrow> (meta_world, meta_reply) state" where
  "handleAdminProxy r = with_config r (\<lambda>cfg. do {
     s \<leftarrow> read_world mw_server;
     if mt_BackendURL s = '''' \<or> mt_AgentToken s = '''' then ret (MetaError 503 ''admin proxy not configured'')
     else (let url = admin_url (mt_BackendURL s) (mc_MachineID cfg) (mq_Path r) in
       if \<not> url_ok url then ret (MetaError 500 ''failed to create proxy request'')
       else do {
         a \<leftarrow> meta_net (http_do \<lparr>rq_Method = mq_Method r, rq_URL = url, rq_Token = mt_AgentToken s, rq_Body = mq_Body r\<rparr>);
         case a of
           Inl e \<Rightarrow> ret (MetaError 502 ''backend unreachable'')
         | Inr (status, text, body) \<Rightarrow> ret (MetaProxied status text)
       })
   })"

section \<open>The multiplexer\<close>

text \<open>
  \<open>http.ServeMux\<close> redirects a request whose path is not clean (a final slash is kept), except for
  \<open>CONNECT\<close>, and a request for the subtree without its final slash.
\<close>

definition mux_clean :: "string \<Rightarrow> string" where
  "mux_clean p = (if p = '''' then ''/''
     else (let q = (if hd p = slash then p else slash # p); np = Clean q in
           if last p = slash \<and> np \<noteq> ''/'' then np @ ''/'' else np))"

definition serve :: "meta_request \<Rightarrow> (meta_world, meta_reply) state" where
  "serve r = (let p = mq_Path r in
     if mq_Method r \<noteq> ''CONNECT'' \<and> mux_clean p \<noteq> p then ret (MetaRedirect (mux_clean p))
     else if p = ''/health'' then handleHealth
     else if p = ''/v1/machine'' then handleMachine r
     else if p = ''/v1/secrets'' then handleSecrets r
     else if p = ''/v1/ssh-check'' then handleSSHCheck r
     else if p = ''/v1/ssh-principals'' then handleSSHPrincipals r
     else if p = ''/v1/cf-ca-pubkey'' then handleCfCaPubKey r
     else if p = ''/v1/logs'' then handleLogIngestion r
     else if has_prefix p admin_prefix then handleAdminProxy r
     else if p = ''/v1/admin'' then ret (MetaRedirect admin_prefix)
     else ret (MetaError 404 ''404 page not found''))"

end
