(* ===== verification/Metadata_Properties.thy ===== *)
theory Metadata_Properties
  imports Metadata_Server
begin

text \<open>
  What the metadata service promises: nothing without the nonce, nothing of another VM, requests to
  the control plane only on behalf of the caller, and secrets that are the caller's own as long as an
  address is not given to another machine.
\<close>

section \<open>Steps of the service\<close>

lemma run_read_world [simp]: "run_state (read_world f) w = (f w, w)"
  by (simp add: read_world_def)

lemma run_update_server [simp]: "run_state (update_server f) w = ((), w\<lparr>mw_server := f (mw_server w)\<rparr>)"
  by (simp add: update_server_def)

lemma with_config_error:
  "configFromRequest r (mw_server w) = Inl e \<Longrightarrow> run_state (with_config r body) w = (e, w)"
  by (simp add: with_config_def)

lemma with_config_ok:
  "configFromRequest r (mw_server w) = Inr cfg \<Longrightarrow> run_state (with_config r body) w = run_state (body cfg) w"
  by (simp add: with_config_def)

section \<open>The nonce\<close>

definition harmless :: "meta_reply \<Rightarrow> bool" where
  "harmless reply = (case reply of MetaError _ _ \<Rightarrow> True | MetaRedirect _ \<Rightarrow> True | _ \<Rightarrow> False)"

definition given_nonce :: "meta_request \<Rightarrow> string" where
  "given_nonce r = (if mq_Nonce r = '''' then query_get ''nonce'' r else mq_Nonce r)"

lemma config_error:
  assumes "configFromRequest r s = Inl e"
  shows "harmless e"
  using assms by (auto simp: configFromRequest_def harmless_def Let_def split: option.splits if_splits)

lemma config_known:
  "configFromRequest r s = Inr cfg \<longleftrightarrow> mt_configs s (extractSourceIP (mq_RemoteAddr r)) = Some cfg \<and>
     (mc_Nonce cfg = '''' \<or> given_nonce r = mc_Nonce cfg)"
  by (auto simp: configFromRequest_def given_nonce_def GetConfig_def Let_def split: option.splits)

lemma serve_refused:
  assumes "configFromRequest r (mw_server w) = Inl e" "mq_Path r \<noteq> ''/health''"
  shows "final_state (serve r) w = w \<and> harmless (outcome (serve r) w)"
proof -
  have h: "harmless e" using config_error assms(1) .
  have e: "harmless (MetaError a b)" "harmless (MetaRedirect c)" for a b c by (simp_all add: harmless_def)
  note wc = with_config_error [OF assms(1)]
  have logs: "final_state (handleLogIngestion r) w = w \<and> harmless (outcome (handleLogIngestion r) w)"
    using h e by (simp add: handleLogIngestion_def wc)
  show ?thesis unfolding serve_def Let_def using assms(2) h e logs
    by (auto simp: handleMachine_def handleSecrets_def handleSSHCheck_def handleSSHPrincipals_def handleCfCaPubKey_def
        handleAdminProxy_def wc)
qed


section \<open>Other VMs\<close>

text \<open>Two worlds that look the same from one address.\<close>

definition agree :: "string \<Rightarrow> meta_world \<Rightarrow> meta_world \<Rightarrow> bool" where
  "agree ip w v \<longleftrightarrow> mt_configs (mw_server w) ip = mt_configs (mw_server v) ip \<and>
     mt_BackendURL (mw_server w) = mt_BackendURL (mw_server v) \<and> mt_AgentToken (mw_server w) = mt_AgentToken (mw_server v) \<and>
     mt_AgentVersion (mw_server w) = mt_AgentVersion (mw_server v) \<and>
     mt_LogCallback (mw_server w) = mt_LogCallback (mw_server v) \<and>
     mt_SecretFetcher (mw_server w) = mt_SecretFetcher (mw_server v) \<and>
     mw_net w = mw_net v \<and> mw_logs w = mw_logs v \<and> mw_now w = mw_now v"

text \<open>A step for one address: worlds that agree stay so and see the same result, and nothing else of the registry changes.\<close>

definition local_step :: "string \<Rightarrow> (meta_world, 'a) state \<Rightarrow> bool" where
  "local_step ip m \<longleftrightarrow> (\<forall>w v. agree ip w v \<longrightarrow> outcome m w = outcome m v \<and> agree ip (final_state m w) (final_state m v)) \<and>
     (\<forall>w. (\<forall>a. a \<noteq> ip \<longrightarrow> mt_configs (mw_server (final_state m w)) a = mt_configs (mw_server w) a) \<and>
          mt_configVersions (mw_server (final_state m w)) = mt_configVersions (mw_server w) \<and>
          mt_browserTargets (mw_server (final_state m w)) = mt_browserTargets (mw_server w))"

lemma local_ret: "local_step ip (ret x)"
  by (simp add: local_step_def)

lemma local_read: "(\<And>w v. agree ip w v \<Longrightarrow> f w = f v) \<Longrightarrow> local_step ip (read_world f)"
  by (simp add: local_step_def)

lemma local_bind:
  assumes "local_step ip m" "\<And>x. local_step ip (f x)"
  shows "local_step ip (State_Monad.bind m f)"
  using assms unfolding local_step_def by (simp add: split_beta)

lemma local_net: "local_step ip (meta_net m)"
  by (simp add: local_step_def agree_def)

lemma local_if: "(b \<Longrightarrow> local_step ip m) \<Longrightarrow> (\<not> b \<Longrightarrow> local_step ip n) \<Longrightarrow> local_step ip (if b then m else n)"
  by simp

lemma local_option:
  "(x = None \<Longrightarrow> local_step ip m) \<Longrightarrow> (\<And>a. x = Some a \<Longrightarrow> local_step ip (g a)) \<Longrightarrow>
   local_step ip (case x of None \<Rightarrow> m | Some a \<Rightarrow> g a)"
  by (cases x) auto

lemma local_sum:
  "(\<And>e. x = Inl e \<Longrightarrow> local_step ip (f e)) \<Longrightarrow> (\<And>a. x = Inr a \<Longrightarrow> local_step ip (g a)) \<Longrightarrow>
   local_step ip (case x of Inl e \<Rightarrow> f e | Inr a \<Rightarrow> g a)"
  by (cases x) auto

lemma local_prod: "(\<And>a b. x = (a, b) \<Longrightarrow> local_step ip (f a b)) \<Longrightarrow> local_step ip (case x of (a, b) \<Rightarrow> f a b)"
  by (cases x) auto

text \<open>A step that looks at the server before it goes on.\<close>

lemma local_server:
  assumes "\<And>s t. agree ip s t \<Longrightarrow> f (g s) = f (g t)" "\<And>x. local_step ip (f x)"
  shows "local_step ip (State_Monad.bind (read_world g) f)"
  using assms unfolding local_step_def by simp

lemma local_store: "local_step ip (update_server (store_pulled ip ss now))"
  by (auto simp: local_step_def agree_def store_pulled_def update_config_def split: option.splits)

lemma local_pull: "local_step ip (getPulledSecrets ip mid force)"
  unfolding getPulledSecrets_def
  by (rule local_server)
     (auto simp: agree_def intro!: local_bind local_option local_sum local_ret local_net local_store local_read cong: option.case_cong)

lemma agree_config: "agree (extractSourceIP (mq_RemoteAddr r)) w v \<Longrightarrow>
    configFromRequest r (mw_server w) = configFromRequest r (mw_server v)"
  by (simp add: configFromRequest_def GetConfig_def agree_def)

lemma local_with_config:
  assumes "\<And>cfg. local_step (extractSourceIP (mq_RemoteAddr r)) (body cfg)"
  shows "local_step (extractSourceIP (mq_RemoteAddr r)) (with_config r body)"
  unfolding with_config_def
  by (rule local_server) (auto simp: agree_config intro!: local_sum local_ret assms)

lemma local_logs:
  "local_step ip (State (\<lambda>w. (x, if mt_LogCallback (mw_server w) then w\<lparr>mw_logs := mw_logs w @ [l]\<rparr> else w)))"
  by (simp add: local_step_def agree_def)

lemmas local_rules = local_bind local_if local_option local_sum local_prod local_ret local_net local_pull local_read local_with_config local_logs

lemma local_proxy: "local_step (extractSourceIP (mq_RemoteAddr r)) (handleAdminProxy r)"
  unfolding handleAdminProxy_def Let_def
  by (intro local_with_config local_server) (auto simp: agree_def intro!: local_rules cong: if_cong)

lemma local_secrets: "local_step (extractSourceIP (mq_RemoteAddr r)) (handleSecrets r)"
  unfolding handleSecrets_def Let_def
  by (intro local_with_config local_server) (auto simp: agree_def intro!: local_rules cong: if_cong)

text \<open>
  C31: a VM sees and changes nothing of the others. What a request is answered, and what is sent and
  logged for it, depends on the configuration of the caller alone: it is the same in every two
  worlds that differ in other VMs only. And the request changes the configuration of no other VM,
  no version and no browser target.
\<close>
theorem metadata_isolates_vms:
  "agree (extractSourceIP (mq_RemoteAddr r)) w v \<Longrightarrow>
     outcome (serve r) w = outcome (serve r) v \<and>
     agree (extractSourceIP (mq_RemoteAddr r)) (final_state (serve r) w) (final_state (serve r) v) \<and>
     mt_configVersions (mw_server (final_state (serve r) w)) = mt_configVersions (mw_server w) \<and>
     mt_browserTargets (mw_server (final_state (serve r) w)) = mt_browserTargets (mw_server w) \<and>
     (a = extractSourceIP (mq_RemoteAddr r) \<or> mt_configs (mw_server (final_state (serve r) w)) a = mt_configs (mw_server w) a)"
proof -
  have "local_step (extractSourceIP (mq_RemoteAddr r)) (serve r)"
    unfolding serve_def Let_def handleHealth_def handleMachine_def handleSSHCheck_def handleSSHPrincipals_def
      handleCfCaPubKey_def handleLogIngestion_def
    by (auto simp: agree_def intro!: local_rules local_proxy local_secrets)
  then show "agree (extractSourceIP (mq_RemoteAddr r)) w v \<Longrightarrow> ?thesis" unfolding local_step_def by blast
qed

section \<open>What is asked of the control plane\<close>

text \<open>A cleaned path has no double dots in it.\<close>

lemma clean_no_dots:
  assumes "clean_abs q"
  shows "''..'' \<notin> set (split_on slash q)"
proof -
  have "\<forall>c \<in> set (elements q). proper c" using assms elements_rooted unfolding clean_abs_def by blast
  then have "''..'' \<notin> set (elements q)" by (auto simp: proper_def)
  then show ?thesis by (simp add: split_clean [OF assms])
qed

lemma mux_clean_form: "p \<noteq> '''' \<Longrightarrow> \<exists>q. clean_abs q \<and> (mux_clean p = q \<or> mux_clean p = q @ ''/'')"
proof -
  let ?q = "if hd p = slash then p else slash # p"
  assume p: "p \<noteq> ''''"
  then have "IsAbs ?q" by (cases p) (auto simp: IsAbs_def)
  then have "clean_abs (Clean ?q)" by (simp add: clean_abs_def)
  moreover have "mux_clean p = Clean ?q \<or> mux_clean p = Clean ?q @ ''/''" using p by (auto simp: mux_clean_def Let_def)
  ultimately show ?thesis by blast
qed

lemma mux_no_dots:
  assumes "mux_clean p = p"
  shows "''..'' \<notin> set (split_on slash p)"
proof (cases "p = ''''")
  case False
  obtain q where q: "clean_abs q" "p = q \<or> p = q @ ''/''" using mux_clean_form [OF False] assms by auto
  have "split_on slash (q @ ''/'') = split_on slash q @ ['''']" using split_on_append [of slash q "[]"] by simp
  then show ?thesis using q(2) clean_no_dots [OF q(1)] by (elim disjE) simp_all
qed simp

lemma admin_path_no_dots:
  assumes "mux_clean p = p" "has_prefix p admin_prefix"
  shows "''..'' \<notin> set (split_on slash (trim_prefix p admin_prefix))"
proof -
  obtain sub where p: "p = ''/v1/admin'' @ slash # sub" using assms(2) by (auto simp: has_prefix_append admin_prefix_def)
  then have "split_on slash p = split_on slash ''/v1/admin'' @ split_on slash sub" by (simp only: split_on_append)
  moreover have "trim_prefix p admin_prefix = sub" using assms(2) by (simp add: trim_prefix_def p admin_prefix_def)
  ultimately show ?thesis using mux_no_dots [OF assms(1)] by simp
qed

text \<open>At most one request is sent, on behalf of the machine of the caller.\<close>

definition asks_for :: "meta_request \<Rightarrow> meta_world \<Rightarrow> (meta_world, 'a) state \<Rightarrow> bool" where
  "asks_for r w m \<longleftrightarrow> net_log (mw_net (final_state m w)) = net_log (mw_net w) \<or>
     (\<exists>cfg rq reply. configFromRequest r (mw_server w) = Inr cfg \<and>
        net_log (mw_net (final_state m w)) = net_log (mw_net w) @ [(rq, reply)] \<and>
        rq_Token rq = mt_AgentToken (mw_server w) \<and>
        (rq_URL rq = secrets_url (mt_BackendURL (mw_server w)) (mc_MachineID cfg) \<or>
         (\<exists>sub. rq_URL rq = mt_BackendURL (mw_server w) @ ''/api/agent/machines/'' @ mc_MachineID cfg @ ''/'' @ sub \<and>
            (mq_Method r = ''CONNECT'' \<or> ''..'' \<notin> set (split_on slash sub)))))"

lemma http_do_one: "net_log (final_state (http_do rq) n) = net_log n \<or> (\<exists>reply. net_log (final_state (http_do rq) n) = net_log n @ [(rq, reply)])"
  by (auto simp: http_do_def Let_def)

lemma fetch_log: "final_state (FetchSecrets b t mid) n =
    final_state (http_do \<lparr>rq_Method = ''GET'', rq_URL = secrets_url b mid, rq_Token = t, rq_Body = None\<rparr>) n"
  by (auto simp: FetchSecrets_def split_beta split: sum.splits option.splits prod.splits)

lemma pull_log:
  "net_log (mw_net (final_state (getPulledSecrets ip mid force) w)) = net_log (mw_net w) \<or>
   mw_net (final_state (getPulledSecrets ip mid force) w) =
     final_state (FetchSecrets (mt_BackendURL (mw_server w)) (mt_AgentToken (mw_server w)) mid) (mw_net w)"
  by (auto simp: getPulledSecrets_def split: option.splits sum.splits)

lemma asks_secrets:
  assumes "configFromRequest r (mw_server w) = Inr cfg"
  shows "asks_for r w (handleSecrets r)"
proof (cases "mt_SecretFetcher (mw_server w)")
  case True
  let ?ip = "extractSourceIP (mq_RemoteAddr r)"
  let ?rq = "\<lparr>rq_Method = ''GET'', rq_URL = secrets_url (mt_BackendURL (mw_server w)) (mc_MachineID cfg),
      rq_Token = mt_AgentToken (mw_server w), rq_Body = None\<rparr>"
  obtain force where pull: "mw_net (final_state (handleSecrets r) w) = mw_net (final_state (getPulledSecrets ?ip (mc_MachineID cfg) force) w)"
    using True by (auto simp: handleSecrets_def with_config_ok [OF assms] split_beta)
  have "net_log (mw_net (final_state (handleSecrets r) w)) = net_log (mw_net w) \<or>
      (\<exists>reply. net_log (mw_net (final_state (handleSecrets r) w)) = net_log (mw_net w) @ [(?rq, reply)])"
    using pull_log [of ?ip "mc_MachineID cfg" force w] http_do_one [of ?rq "mw_net w"] unfolding pull fetch_log by auto
  then show ?thesis using assms unfolding asks_for_def
    by (elim disjE exE) (simp, intro disjI2 exI [of _ cfg] exI [of _ ?rq], auto)
qed (simp add: asks_for_def handleSecrets_def with_config_ok [OF assms])

lemma asks_proxy:
  assumes "configFromRequest r (mw_server w) = Inr cfg" "mq_Method r \<noteq> ''CONNECT'' \<Longrightarrow> mux_clean (mq_Path r) = mq_Path r"
    "has_prefix (mq_Path r) admin_prefix"
  shows "asks_for r w (handleAdminProxy r)"
proof -
  let ?rq = "\<lparr>rq_Method = mq_Method r, rq_URL = admin_url (mt_BackendURL (mw_server w)) (mc_MachineID cfg) (mq_Path r),
      rq_Token = mt_AgentToken (mw_server w), rq_Body = mq_Body r\<rparr>"
  have "mw_net (final_state (handleAdminProxy r) w) = mw_net w \<or>
      mw_net (final_state (handleAdminProxy r) w) = final_state (http_do ?rq) (mw_net w)"
    by (auto simp: handleAdminProxy_def with_config_ok [OF assms(1)] Let_def split: sum.splits prod.splits)
  then have "net_log (mw_net (final_state (handleAdminProxy r) w)) = net_log (mw_net w) \<or>
      (\<exists>reply. net_log (mw_net (final_state (handleAdminProxy r) w)) = net_log (mw_net w) @ [(?rq, reply)])"
    using http_do_one [of ?rq "mw_net w"] by auto
  moreover have "mq_Method r = ''CONNECT'' \<or> ''..'' \<notin> set (split_on slash (trim_prefix (mq_Path r) admin_prefix))"
    using admin_path_no_dots assms(2,3) by blast
  ultimately show ?thesis using assms(1) unfolding asks_for_def
    by (elim disjE exE) (simp, intro disjI2 exI [of _ cfg] exI [of _ ?rq], auto simp: admin_url_def)
qed

lemma asks_nothing: "net_log (mw_net (final_state m w)) = net_log (mw_net w) \<Longrightarrow> asks_for r w m"
  by (simp add: asks_for_def)

lemma quiet_handlers:
  assumes "m \<in> {handleHealth, handleMachine r, handleSSHCheck r, handleSSHPrincipals r, handleCfCaPubKey r, handleLogIngestion r}"
  shows "mw_net (final_state m w) = mw_net w"
  using assms by (auto simp: handleHealth_def handleMachine_def handleSSHCheck_def handleSSHPrincipals_def handleCfCaPubKey_def
      handleLogIngestion_def with_config_def split: sum.splits option.splits)

text \<open>
  A VM acts on the control plane only as itself. A request makes the metadata service send at
  most one request to the control plane, with the token of the host, either for the secrets of the
  machine that the caller is registered as, or for a path below that machine; and this path has no
  double dots by which it could reach another machine, unless the method is \<open>CONNECT\<close>.
\<close>
theorem metadata_acts_as_caller:
  "asks_for r w (serve r)"
proof (cases "configFromRequest r (mw_server w)")
  case (Inl e)
  have "final_state (serve r) w = w"
  proof (cases "mq_Path r = ''/health''")
    case True
    then show ?thesis by (simp add: serve_def Let_def handleHealth_def)
  qed (use serve_refused [OF Inl] in blast)
  then show ?thesis by (intro asks_nothing) simp
next
  case (Inr cfg)
  have quiet: "asks_for r w m"
    if "m \<in> {handleHealth, handleMachine r, handleSSHCheck r, handleSSHPrincipals r, handleCfCaPubKey r, handleLogIngestion r}" for m
    using quiet_handlers [OF that] by (intro asks_nothing) simp
  have "asks_for r w (handleAdminProxy r)"
    if "mq_Method r = ''CONNECT'' \<or> mux_clean (mq_Path r) = mq_Path r" "has_prefix (mq_Path r) admin_prefix"
    using asks_proxy [OF Inr] that by blast
  moreover have "asks_for r w (ret x)" for x :: meta_reply by (intro asks_nothing) simp
  ultimately show ?thesis using quiet asks_secrets [OF Inr] unfolding serve_def Let_def by auto
qed

section \<open>SSH principals\<close>

definition owner_names :: "string \<Rightarrow> string list" where
  "owner_names e = map lower e # (case cut (CHR ''@'') e of Some (localPart, _) \<Rightarrow> [map lower localPart] | None \<Rightarrow> [])"

lemma principals_set: "set (ssh_principals seen es) \<union> set seen = set (concat (map owner_names es)) \<union> set seen"
proof (induction es arbitrary: seen)
  case (Cons e es)
  let ?seen1 = "if map lower e \<in> set seen then seen else map lower e # seen"
  let ?part = "case cut (CHR ''@'') e of Some (localPart, _) \<Rightarrow> [map lower localPart] | None \<Rightarrow> []"
  let ?new = "filter (\<lambda>p. p \<notin> set ?seen1) ?part"
  have "set (ssh_principals seen (e # es)) \<union> set seen =
      insert (map lower e) (set ?part) \<union> (set (ssh_principals (?new @ ?seen1) es) \<union> set (?new @ ?seen1))"
    by (auto simp: Let_def)
  also have "\<dots> = insert (map lower e) (set ?part) \<union> (set (concat (map owner_names es)) \<union> set (?new @ ?seen1))"
    by (simp only: Cons.IH)
  also have "\<dots> = set (concat (map owner_names (e # es))) \<union> set seen" by (auto simp: owner_names_def)
  finally show ?case .
qed simp

lemma principals_distinct: "distinct (ssh_principals seen es) \<and> set (ssh_principals seen es) \<inter> set seen = {}"
proof (induction es arbitrary: seen)
  case (Cons e es)
  let ?seen1 = "if map lower e \<in> set seen then seen else map lower e # seen"
  let ?part = "case cut (CHR ''@'') e of Some (localPart, _) \<Rightarrow> [map lower localPart] | None \<Rightarrow> []"
  obtain part where part: "?part = part" "distinct part" by (auto split: option.splits)
  show ?case using Cons.IH [of "filter (\<lambda>p. p \<notin> set ?seen1) part @ ?seen1"] part(2) unfolding ssh_principals.simps Let_def part(1)
    by auto
qed simp

lemma owner_allows:
  "(equal_fold e email \<or> (case cut (CHR ''@'') e of Some (localPart, _) \<Rightarrow> equal_fold localPart email | None \<Rightarrow> False)) \<longleftrightarrow>
     map lower email \<in> set (owner_names e)"
  by (auto simp: owner_names_def equal_fold_def split: option.splits)

text \<open>
  The two SSH endpoints agree. The legacy check allows a name exactly if the list of principals
  that newer VMs fetch contains it in lower case; the list has no duplicates.
\<close>
theorem ssh_endpoints_agree:
  "(ssh_allowed owners email \<longleftrightarrow> map lower email \<in> set (ssh_principals [] owners)) \<and> distinct (ssh_principals [] owners)"
proof -
  have "set (ssh_principals [] owners) = set (concat (map owner_names owners))" using principals_set [of "[]" owners] by simp
  then show ?thesis using principals_distinct [of "[]" owners]
    unfolding ssh_allowed_def owner_allows by (auto simp: list_ex_iff)
qed

section \<open>Interleavings of the requests\<close>

text \<open>
  The service is concurrent: a request for secrets reads the registry, waits for the control plane
  without a lock, and then writes the cache. The state of an interleaving is the server and the
  pulls in flight, each with the address and the machine it was begun for. \<open>answers mid\<close> is what the
  control plane may answer for a machine.
\<close>

type_synonym pulls = "(string \<times> string) list"

inductive meta_step :: "(string \<Rightarrow> secrets option set) \<Rightarrow> meta_server \<times> pulls \<Rightarrow> meta_server \<times> pulls \<Rightarrow> bool"
  for answers where
  registers: "mc_SecretCache cfg = \<lparr>sc_Secrets = None, sc_FetchedAt = t\<rparr> \<Longrightarrow>
     meta_step answers (s, ps) (RegisterMachine ip cfg s, ps)"
| unregisters: "meta_step answers (s, ps) (UnregisterMachine ip s, ps)"
| sets_target: "meta_step answers (s, ps) (SetBrowserTarget ip target s, ps)"
| resets_target: "meta_step answers (s, ps) (ResetBrowserTarget ip s, ps)"
| updates_secrets: "meta_step answers (s, ps) (UpdateMachineSecrets ip ss s, ps)"
| updates_config: "meta_step answers (s, ps) (UpdateMachineConfig ip conf s, ps)"
| updates_keys: "meta_step answers (s, ps) (UpdateMachineLLMKeys ip ks s, ps)"
| replaces_keys: "meta_step answers (s, ps) (ReplaceMachineLLMKeys ip ks s, ps)"
| pull_begins: "mt_configs s ip = Some cfg \<Longrightarrow> meta_step answers (s, ps) (s, (ip, mc_MachineID cfg) # ps)"
| pull_ends: "(ip, mid) \<in> set ps \<Longrightarrow> ss \<in> answers mid \<Longrightarrow>
     meta_step answers (s, ps) (store_pulled ip ss now s, remove1 (ip, mid) ps)"
| pull_fails: "meta_step answers (s, ps) (s, remove1 p ps)"

text \<open>Every registered VM has a version, and only they do; a version never is below one.\<close>

definition versions_ok :: "meta_server \<Rightarrow> bool" where
  "versions_ok s \<longleftrightarrow> dom (mt_configVersions s) = dom (mt_configs s) \<and> (\<forall>ip v. mt_configVersions s ip = Some v \<longrightarrow> 1 \<le> v)"

lemma update_versions: "versions_ok s \<Longrightarrow> versions_ok (update_config bump f ip s)"
proof (cases "mt_configs s ip")
  case (Some cfg)
  assume ok: "versions_ok s"
  then obtain v where v: "mt_configVersions s ip = Some v" "1 \<le> v" using Some unfolding versions_ok_def by blast
  then have "0 \<le> v" by simp
  then show ?thesis using ok Some v(1) by (auto simp: versions_ok_def update_config_def deref_or_def)
qed (simp add: update_config_def)

lemma step_versions: "meta_step answers (s, ps) (t, qs) \<Longrightarrow> versions_ok s \<Longrightarrow> versions_ok t"
  by (cases rule: meta_step.cases, assumption)
     (auto simp: RegisterMachine_def UnregisterMachine_def SetBrowserTarget_def ResetBrowserTarget_def UpdateMachineSecrets_def
       UpdateMachineConfig_def UpdateMachineLLMKeys_def ReplaceMachineLLMKeys_def store_pulled_def update_versions
       intro: update_versions, auto simp: versions_ok_def)

text \<open>
  The steps in which an address only ever is given to one machine, and what then holds: the cache of
  a VM has only what the control plane answered for its machine.
\<close>

definition owned_step :: "(string \<Rightarrow> string) \<Rightarrow> (string \<Rightarrow> secrets option set) \<Rightarrow> meta_server \<times> pulls \<Rightarrow> meta_server \<times> pulls \<Rightarrow> bool" where
  "owned_step owner answers x y \<longleftrightarrow> meta_step answers x y \<and>
     (\<forall>ip cfg. mt_configs (fst y) ip = Some cfg \<longrightarrow> mc_MachineID cfg = owner ip)"

definition own_secrets :: "(string \<Rightarrow> string) \<Rightarrow> (string \<Rightarrow> secrets option set) \<Rightarrow> meta_server \<times> pulls \<Rightarrow> bool" where
  "own_secrets owner answers x \<longleftrightarrow>
     (\<forall>ip cfg. mt_configs (fst x) ip = Some cfg \<longrightarrow> mc_MachineID cfg = owner ip \<and>
        (sc_Secrets (mc_SecretCache cfg) = None \<or> sc_Secrets (mc_SecretCache cfg) \<in> answers (owner ip))) \<and>
     (\<forall>p \<in> set (snd x). snd p = owner (fst p))"

lemma update_own:
  assumes "own_secrets owner answers (s, ps)"
    "\<And>cfg. mc_MachineID (f cfg) = mc_MachineID cfg \<and>
       (mc_SecretCache (f cfg) = mc_SecretCache cfg \<or> sc_Secrets (mc_SecretCache (f cfg)) \<in> answers (owner ip))"
  shows "own_secrets owner answers (update_config bump f ip s, ps)"
  using assms by (auto simp: own_secrets_def update_config_def split: option.splits) (metis)+

lemma step_own:
  assumes "owned_step owner answers x y" "own_secrets owner answers x"
  shows "own_secrets owner answers y"
proof -
  obtain s ps t qs where xy: "x = (s, ps)" "y = (t, qs)" by (metis prod.exhaust)
  have own: "mc_MachineID cfg = owner ip" if "mt_configs t ip = Some cfg" for ip cfg
    using assms(1) that by (auto simp: owned_step_def xy)
  have "meta_step answers (s, ps) (t, qs)" using assms(1) by (simp add: owned_step_def xy)
  then have "own_secrets owner answers (t, qs)"
  proof cases
    case (registers cfg c ip)
    then show ?thesis using assms(2) own [of ip cfg] by (auto simp: own_secrets_def xy RegisterMachine_def split: if_splits)
  next
    case (pull_begins ip cfg)
    then show ?thesis using assms(2) by (auto simp: own_secrets_def xy)
  next
    case (pull_ends ip mid ss now)
    then have "mid = owner ip" using assms(2) by (auto simp: own_secrets_def xy)
    then have "own_secrets owner answers (t, ps)" unfolding pull_ends(1) store_pulled_def
      using assms(2) pull_ends(4) by (intro update_own) (auto simp: xy)
    then show ?thesis using pull_ends(2) set_remove1_subset [of "(ip, mid)" ps] by (auto simp: own_secrets_def)
  next
    case (pull_fails p)
    then show ?thesis using assms(2) set_remove1_subset [of p ps] by (auto simp: own_secrets_def xy)
  qed (use assms(2) in \<open>auto simp: xy UnregisterMachine_def SetBrowserTarget_def ResetBrowserTarget_def UpdateMachineSecrets_def
       UpdateMachineConfig_def UpdateMachineLLMKeys_def ReplaceMachineLLMKeys_def intro!: update_own, auto simp: own_secrets_def split: if_splits\<close>)
  then show ?thesis by (simp add: xy)
qed

text \<open>
  C32: secrets stay with their machine. If an address never is given to a second machine, then
  however requests, updates and pulls interleave, the cached secrets of a VM are an answer of the
  control plane for its own machine; and always exactly the registered VMs have a configuration
  version, which is at least one.
\<close>
theorem cached_secrets_are_own:
  assumes "(owned_step owner answers)\<^sup>*\<^sup>* (new_server b t v l f, []) (s, ps)" "mt_configs s ip = Some cfg"
  shows "(sc_Secrets (mc_SecretCache cfg) = None \<or> sc_Secrets (mc_SecretCache cfg) \<in> answers (mc_MachineID cfg)) \<and>
    dom (mt_configVersions s) = dom (mt_configs s) \<and> 1 \<le> GetConfigVersion ip s"
proof -
  have "own_secrets owner answers (s, ps) \<and> versions_ok s"
    using assms(1)
  proof (induction "(s, ps)" arbitrary: s ps rule: rtranclp_induct)
    case base
    then show ?case by (simp add: own_secrets_def versions_ok_def new_server_def)
  next
    case (step x)
    obtain s' ps' where x: "x = (s', ps')" by (cases x)
    then have "own_secrets owner answers (s', ps')" "versions_ok s'" using step.hyps(3) by blast+
    then show ?case using step_own step.hyps(2) step_versions x unfolding owned_step_def by blast
  qed
  moreover have "\<exists>n. mt_configVersions s ip = Some n" if "versions_ok s" using that assms(2) unfolding versions_ok_def by blast
  ultimately show ?thesis using assms(2) by (auto simp: own_secrets_def versions_ok_def GetConfigVersion_def deref_or_def)
qed

section \<open>A host with VMs\<close>

definition vm_config :: "string \<Rightarrow> meta_config" where
  "vm_config mid = \<lparr>mc_MachineID = mid, mc_MachineKind = ''openclaw'', mc_MachineSlug = mid, mc_GatewayToken = ''gt'',
     mc_OpenClawConf = '''', mc_HermesConfigYAML = '''', mc_HermesEnv = '''', mc_HermesAuthJSON = '''', mc_HermesSoul = '''',
     mc_Secrets = Map.empty, mc_LLMKeys = Map.empty, mc_Nonce = ''n-'' @ mid,
     mc_AccountID = 1, mc_BudgetMicrocents = None, mc_SigningKey = ''sk'', mc_VmHostname = '''',
     mc_TunnelToken = '''', mc_OwnerEmails = [''Ann@x.org''], mc_CfCaPubKey = '''', mc_CustomProviders = [],
     mc_SecretCache = \<lparr>sc_Secrets = None, sc_FetchedAt = 0\<rparr>, mc_RuntimeSelection = None\<rparr>"

abbreviation vm_address :: string where
  "vm_address \<equiv> ''10.0.0.10''"

definition empty_host :: meta_server where
  "empty_host = new_server ''https://cp'' ''tok'' ''v1'' True True"

definition host_world :: "meta_server \<Rightarrow> meta_world" where
  "host_world s = \<lparr>mw_server = s, mw_net = \<lparr>net_tape = [], net_log = []\<rparr>, mw_logs = [], mw_now = 5 * second\<rparr>"

definition vm_request :: "string \<Rightarrow> string \<Rightarrow> meta_request" where
  "vm_request path nonce = \<lparr>mq_RemoteAddr = ''10.0.0.10:4321'', mq_Method = ''GET'', mq_Path = path, mq_Query = [],
     mq_Nonce = nonce, mq_Body = None\<rparr>"

lemma vm_request_source [simp]: "extractSourceIP (mq_RemoteAddr (vm_request path nonce)) = vm_address"
proof -
  have "extractSourceIP ''10.0.0.10:4321'' = vm_address" by code_simp
  then show ?thesis by (simp add: vm_request_def)
qed

lemma vm_request_simps [simp]: "given_nonce (vm_request path nonce) = nonce" "mq_Path (vm_request path nonce) = path"
  "mq_Method (vm_request path nonce) = ''GET''"
  by (simp_all add: vm_request_def given_nonce_def query_get_def deref_or_def)


theorem metadata_isolates_vms_witness:
  "outcome (serve (vm_request ''/v1/machine'' ''n-a'')) (host_world (RegisterMachine vm_address (vm_config ''a'') empty_host)) =
   outcome (serve (vm_request ''/v1/machine'' ''n-a''))
     (host_world (RegisterMachine ''10.0.0.11'' (vm_config ''b'') (RegisterMachine vm_address (vm_config ''a'') empty_host)))"
  using metadata_isolates_vms [of "vm_request ''/v1/machine'' ''n-a''" "host_world (RegisterMachine vm_address (vm_config ''a'') empty_host)"
      "host_world (RegisterMachine ''10.0.0.11'' (vm_config ''b'') (RegisterMachine vm_address (vm_config ''a'') empty_host))"]
  by (simp add: agree_def host_world_def RegisterMachine_def)

text \<open>What the control plane answers: one token per machine.\<close>

definition token_of :: "string \<Rightarrow> secrets option set" where
  "token_of mid = {Some [''TELEGRAM_TOKEN'' \<mapsto> ''token-of-'' @ mid]}"

definition pulled_host :: meta_server where
  "pulled_host = store_pulled vm_address (Some [''TELEGRAM_TOKEN'' \<mapsto> ''token-of-a'']) (4 * second)
     (RegisterMachine vm_address (vm_config ''a'') empty_host)"

lemma vm_config_cache: "mc_SecretCache (vm_config m) = \<lparr>sc_Secrets = None, sc_FetchedAt = 0\<rparr>"
  by (simp add: vm_config_def)

lemma pulled_run: "(owned_step (\<lambda>_. ''a'') token_of)\<^sup>*\<^sup>* (empty_host, []) (pulled_host, [])"
proof -
  let ?s = "RegisterMachine vm_address (vm_config ''a'') empty_host"
  have "owned_step (\<lambda>_. ''a'') token_of (empty_host, []) (?s, [])"
    using meta_step.registers [OF vm_config_cache, of token_of empty_host "[]" vm_address "''a''"]
    by (auto simp: owned_step_def RegisterMachine_def empty_host_def new_server_def vm_config_def split: if_splits)
  moreover have "owned_step (\<lambda>_. ''a'') token_of (?s, []) (?s, [(vm_address, ''a'')])"
    using meta_step.pull_begins [of ?s vm_address "vm_config ''a''" token_of "[]"]
    by (auto simp: owned_step_def RegisterMachine_def empty_host_def new_server_def vm_config_def split: if_splits)
  moreover have "owned_step (\<lambda>_. ''a'') token_of (?s, [(vm_address, ''a'')]) (pulled_host, [])"
    using meta_step.pull_ends [of vm_address "''a''" "[(vm_address, ''a'')]" "Some [''TELEGRAM_TOKEN'' \<mapsto> ''token-of-a'']" token_of ?s "4 * second"]
    by (auto simp: owned_step_def pulled_host_def store_pulled_def update_config_def RegisterMachine_def empty_host_def new_server_def
        vm_config_def token_of_def split: if_splits)
  ultimately show ?thesis by (meson converse_rtranclp_into_rtranclp rtranclp.rtrancl_refl)
qed

theorem cached_secrets_are_own_witness:
  "sc_Secrets (mc_SecretCache (the (mt_configs pulled_host vm_address))) \<in> token_of ''a'' \<and> 1 \<le> GetConfigVersion vm_address pulled_host"
  using cached_secrets_are_own [OF pulled_run [unfolded empty_host_def], of vm_address "the (mt_configs pulled_host vm_address)"]
  by (simp add: pulled_host_def store_pulled_def update_config_def RegisterMachine_def vm_config_def)

text \<open>The pull of one VM ends after its address was given to another machine.\<close>

definition reused_host :: meta_server where
  "reused_host = store_pulled vm_address (Some [''TELEGRAM_TOKEN'' \<mapsto> ''token-of-a'']) (4 * second)
     (RegisterMachine vm_address (vm_config ''b'') (UnregisterMachine vm_address
       (RegisterMachine vm_address (vm_config ''a'') empty_host)))"

lemma reused_run: "(meta_step token_of)\<^sup>*\<^sup>* (empty_host, []) (reused_host, [])"
proof -
  let ?s = "RegisterMachine vm_address (vm_config ''a'') empty_host"
  let ?t = "RegisterMachine vm_address (vm_config ''b'') (UnregisterMachine vm_address ?s)"
  note link = converse_rtranclp_into_rtranclp [where r = "meta_step token_of"]
  have 3: "meta_step token_of (?s, []) (?s, [(vm_address, ''a'')])"
    using meta_step.pull_begins [of ?s vm_address "vm_config ''a''" token_of "[]"] by (simp add: RegisterMachine_def vm_config_def)
  have 6: "meta_step token_of (?t, [(vm_address, ''a'')]) (reused_host, [])"
    using meta_step.pull_ends [of vm_address "''a''" "[(vm_address, ''a'')]" "Some [''TELEGRAM_TOKEN'' \<mapsto> ''token-of-a'']" token_of ?t "4 * second"]
    by (simp add: reused_host_def token_of_def)
  show ?thesis
    by (rule link [OF meta_step.registers [OF vm_config_cache]], rule link [OF 3], rule link [OF meta_step.unregisters],
        rule link [OF meta_step.registers [OF vm_config_cache]], rule link [OF 6], rule rtranclp.rtrancl_refl)
qed

text \<open>
  A pull that ends after its VM was replaced puts the secrets of the old machine into the cache
  of the new one. The answer of the control plane is stored under the address, without a look at
  which machine the address belongs to by now; for the next minute the new VM, with its own nonce,
  is served the secrets of the other machine.
\<close>
theorem stale_pull_leaks_secrets:
  "\<exists>s m. (meta_step token_of)\<^sup>*\<^sup>* (empty_host, []) (s, []) \<and>
     (\<exists>cfg. mt_configs s vm_address = Some cfg \<and> mc_MachineID cfg = ''b'' \<and> mc_Nonce cfg = ''n-b'') \<and>
     outcome (serve (vm_request ''/v1/secrets'' ''n-b'')) (host_world s) = MetaFields m \<and>
     m ''TELEGRAM_TOKEN'' = Some ''token-of-a''"
proof -
  let ?cfg = "(vm_config ''b'')\<lparr>mc_SecretCache := \<lparr>sc_Secrets = Some [''TELEGRAM_TOKEN'' \<mapsto> ''token-of-a''], sc_FetchedAt = 4 * second\<rparr>\<rparr>"
  let ?r = "vm_request ''/v1/secrets'' ''n-b''"
  have cfg: "mt_configs reused_host vm_address = Some ?cfg"
    by (simp add: reused_host_def store_pulled_def update_config_def RegisterMachine_def)
  have ok: "configFromRequest ?r (mw_server (host_world reused_host)) = Inr ?cfg"
    using cfg by (simp add: config_known host_world_def vm_config_def)
  have fetcher: "mt_SecretFetcher reused_host"
    by (simp add: reused_host_def store_pulled_def update_config_def RegisterMachine_def UnregisterMachine_def empty_host_def new_server_def)
  have fresh: "fresh_secrets False (5 * second) ?cfg = Some [''TELEGRAM_TOKEN'' \<mapsto> ''token-of-a'']" by (simp add: fresh_secrets_def)
  have force: "\<not> (query_get ''fresh'' ?r = ''1'' \<or> equal_fold (query_get ''fresh'' ?r) ''true'')"
    by (simp add: query_get_def vm_request_def deref_or_def equal_fold_def)
  have "mux_clean ''/v1/secrets'' = ''/v1/secrets''" by code_simp
  then have serve: "serve ?r = handleSecrets ?r" by (simp add: serve_def Let_def)
  have world: "mw_server (host_world reused_host) = reused_host" "mw_now (host_world reused_host) = 5 * second"
    by (simp_all add: host_world_def)
  have "outcome (serve ?r) (host_world reused_host) =
      MetaFields (platform_secrets ?cfg ++ [''TELEGRAM_TOKEN'' \<mapsto> ''token-of-a''])"
    unfolding serve handleSecrets_def with_config_ok [OF ok] using force fetcher cfg fresh
    by (simp add: getPulledSecrets_def world deref_or_def)
  then show ?thesis using reused_run cfg by (intro exI [of _ reused_host]) (auto simp: vm_config_def)
qed

end
