(* ===== verification/File_System.thy ===== *)
theory File_System
  imports Go_Json Go_Path
begin

text \<open>
  A file system with symbolic links, as the operating system and \<open>path/filepath\<close> walk it: a node for
  every absolute path, given by its names; the root always is a directory. Permissions are not
  modelled, and an operation fails only for the reasons that the tree gives.
\<close>

section \<open>The tree and walking it\<close>

text \<open>The content of a file: bytes, or the text of a JSON document by its parsed form and its length.\<close>

datatype file_content = Bytes string | JsonDoc json nat

datatype node = Directory | RegularFile file_content | SymLink string

type_synonym names = "string list"
type_synonym file_system = "names \<rightharpoonup> node"

definition node_at :: "file_system \<Rightarrow> names \<Rightarrow> node option" where
  "node_at fs p = (if p = [] then Some Directory else fs p)"

text \<open>
  Walking from a directory: a double dot goes up, a symbolic link is replaced by what it says, as
  often as the budget of links allows. With \<open>create\<close> the last name need not exist.
\<close>

fun walk :: "bool \<Rightarrow> nat \<Rightarrow> file_system \<Rightarrow> names \<Rightarrow> names \<Rightarrow> names option" where
  "walk create k fs cur [] = Some cur"
| "walk create k fs cur (c # cs) =
     (if c = '''' \<or> c = ''.'' then walk create k fs cur cs
      else if c = ''..'' then walk create k fs (butlast cur) cs
      else (case fs (cur @ [c]) of
          None \<Rightarrow> if create \<and> cs = [] then Some (cur @ [c]) else None
        | Some Directory \<Rightarrow> walk create k fs (cur @ [c]) cs
        | Some (RegularFile _) \<Rightarrow> if cs = [] then Some (cur @ [c]) else None
        | Some (SymLink l) \<Rightarrow> (case k of
            0 \<Rightarrow> None
          | Suc j \<Rightarrow> walk create j fs (if IsAbs l then [] else cur) (split_on slash l @ cs))))"

text \<open>
  \<open>filepath.EvalSymlinks\<close> follows at most 255 links, the kernel 40. Paths are absolute; the result of
  \<open>EvalSymlinks\<close> is given by its names.
\<close>

definition EvalSymlinks :: "file_system \<Rightarrow> string \<Rightarrow> names option" where
  "EvalSymlinks fs p = walk False 255 fs [] (split_on slash p)"

definition path_of :: "names \<Rightarrow> string" where
  "path_of ns = slash # join_with slash ns"

definition kernel_path :: "file_system \<Rightarrow> string \<Rightarrow> names option" where
  "kernel_path fs p = walk False 40 fs [] (split_on slash p)"

definition Stat :: "file_system \<Rightarrow> string \<Rightarrow> node option" where
  "Stat fs p = (case kernel_path fs p of None \<Rightarrow> None | Some ns \<Rightarrow> node_at fs ns)"

definition is_dir :: "file_system \<Rightarrow> string \<Rightarrow> bool" where
  "is_dir fs p \<longleftrightarrow> Stat fs p = Some Directory"

text \<open>The place of the last name of a path, without following it.\<close>

definition place_of :: "file_system \<Rightarrow> string \<Rightarrow> names option" where
  "place_of fs p = (case elements p of
      [] \<Rightarrow> Some []
    | es \<Rightarrow> (case walk False 40 fs [] (butlast es) of
        None \<Rightarrow> None
      | Some dir \<Rightarrow> if node_at fs dir = Some Directory then Some (dir @ [last es]) else None))"

definition Lstat :: "file_system \<Rightarrow> string \<Rightarrow> node option" where
  "Lstat fs p = (case place_of fs p of None \<Rightarrow> None | Some ns \<Rightarrow> node_at fs ns)"

section \<open>Operations\<close>

text \<open>\<open>os.ReadFile\<close> and \<open>os.Open\<close>; a directory cannot be read.\<close>

definition read_file :: "file_system \<Rightarrow> string \<Rightarrow> file_content option" where
  "read_file fs p = (case Stat fs p of Some (RegularFile c) \<Rightarrow> Some c | _ \<Rightarrow> None)"

text \<open>\<open>os.OpenFile\<close> with \<open>O_CREATE|O_WRONLY|O_TRUNC\<close> and then writing; a link at the end is followed.\<close>

definition write_file :: "file_system \<Rightarrow> string \<Rightarrow> file_content \<Rightarrow> file_system option" where
  "write_file fs p c = (case walk True 40 fs [] (split_on slash p) of
      None \<Rightarrow> None
    | Some ns \<Rightarrow> (case node_at fs ns of
        None \<Rightarrow> Some (fs(ns \<mapsto> RegularFile c))
      | Some (RegularFile _) \<Rightarrow> Some (fs(ns \<mapsto> RegularFile c))
      | _ \<Rightarrow> None))"

definition make_link :: "file_system \<Rightarrow> string \<Rightarrow> string \<Rightarrow> file_system option" where
  "make_link fs l p = (case place_of fs p of
      None \<Rightarrow> None
    | Some ns \<Rightarrow> if node_at fs ns = None then Some (fs(ns \<mapsto> SymLink l)) else None)"

text \<open>\<open>os.MkdirAll\<close>: every missing directory of the path is made; a link that leads nowhere is in the way.\<close>

definition mkdir :: "file_system \<Rightarrow> string \<Rightarrow> file_system option" where
  "mkdir fs p =
     (case Stat fs p of
        Some Directory \<Rightarrow> Some fs
      | Some _ \<Rightarrow> None
      | None \<Rightarrow> (case place_of fs p of
          None \<Rightarrow> None
        | Some ns \<Rightarrow> if node_at fs ns = None then Some (fs(ns \<mapsto> Directory)) else None))"

fun mkdir_prefixes :: "file_system \<Rightarrow> names \<Rightarrow> names \<Rightarrow> file_system option" where
  "mkdir_prefixes fs done [] = Some fs"
| "mkdir_prefixes fs done (c # cs) = (case mkdir fs (path_of (done @ [c])) of
      None \<Rightarrow> None
    | Some fs' \<Rightarrow> mkdir_prefixes fs' (done @ [c]) cs)"

definition MkdirAll :: "file_system \<Rightarrow> string \<Rightarrow> file_system option" where
  "MkdirAll fs p = mkdir_prefixes fs [] (elements p)"

text \<open>
  \<open>os.RemoveAll\<close> does not follow links; \<open>os.Rename\<close> moves a node to a place that is free, or a directory
  to an empty one.
\<close>

definition below :: "names \<Rightarrow> names \<Rightarrow> bool" where
  "below d p \<longleftrightarrow> take (length d) p = d"

definition RemoveAll :: "file_system \<Rightarrow> string \<Rightarrow> file_system" where
  "RemoveAll fs p = (case place_of fs p of None \<Rightarrow> fs | Some ns \<Rightarrow> (\<lambda>q. if below ns q then None else fs q))"

definition may_replace :: "file_system \<Rightarrow> names \<Rightarrow> names \<Rightarrow> bool" where
  "may_replace fs a b \<longleftrightarrow>
     node_at fs a = Some Directory \<and> node_at fs b = Some Directory \<and> (\<forall>x. x = [] \<or> fs (b @ x) = None) \<or>
     (\<exists>x y. node_at fs a = Some (RegularFile x) \<and> node_at fs b = Some (RegularFile y))"

declare may_replace_def [code del]

definition Rename :: "file_system \<Rightarrow> string \<Rightarrow> string \<Rightarrow> file_system option" where
  "Rename fs p q = (case (place_of fs p, place_of fs q) of
      (Some a, Some b) \<Rightarrow>
        if a \<noteq> b \<and> node_at fs a \<noteq> None \<and> (node_at fs b = None \<or> may_replace fs a b) \<and> \<not> below a b
        then Some (\<lambda>x. if below b x then fs (a @ drop (length b) x) else if below a x then None else fs x)
        else None
    | _ \<Rightarrow> None)"

section \<open>Facts about walking\<close>

declare walk.simps(2) [simp del]

definition ordinary :: "string \<Rightarrow> bool" where
  "ordinary c \<longleftrightarrow> c \<noteq> '''' \<and> c \<noteq> ''.'' \<and> c \<noteq> ''..''"

lemma walk_skip [simp]:
  "walk create k fs cur ('''' # cs) = walk create k fs cur cs" "walk create k fs cur (''.'' # cs) = walk create k fs cur cs"
  "walk create k fs cur (''..'' # cs) = walk create k fs (butlast cur) cs"
  by (simp_all add: walk.simps(2))

lemma walk_none: "ordinary c \<Longrightarrow> fs (cur @ [c]) = None \<Longrightarrow>
    walk create k fs cur (c # cs) = (if create \<and> cs = [] then Some (cur @ [c]) else None)"
  by (simp add: walk.simps(2) ordinary_def)

lemma walk_dir: "ordinary c \<Longrightarrow> fs (cur @ [c]) = Some Directory \<Longrightarrow>
    walk create k fs cur (c # cs) = walk create k fs (cur @ [c]) cs"
  by (simp add: walk.simps(2) ordinary_def)

lemma walk_file: "ordinary c \<Longrightarrow> fs (cur @ [c]) = Some (RegularFile x) \<Longrightarrow>
    walk create k fs cur (c # cs) = (if cs = [] then Some (cur @ [c]) else None)"
  by (simp add: walk.simps(2) ordinary_def)

lemma walk_link: "ordinary c \<Longrightarrow> fs (cur @ [c]) = Some (SymLink l) \<Longrightarrow>
    walk create k fs cur (c # cs) =
      (case k of 0 \<Rightarrow> None | Suc j \<Rightarrow> walk create j fs (if IsAbs l then [] else cur) (split_on slash l @ cs))"
  by (simp add: walk.simps(2) ordinary_def)

text \<open>The induction that follows the walk: one case for each kind of name.\<close>

lemma walk_cases [case_names skip up missing dir regular symlink]:
  assumes "c = '''' \<or> c = ''.'' \<Longrightarrow> P" "c = ''..'' \<Longrightarrow> P"
    "ordinary c \<Longrightarrow> fs (cur @ [c]) = None \<Longrightarrow> P" "ordinary c \<Longrightarrow> fs (cur @ [c]) = Some Directory \<Longrightarrow> P"
    "\<And>x. ordinary c \<Longrightarrow> fs (cur @ [c]) = Some (RegularFile x) \<Longrightarrow> P"
    "\<And>l. ordinary c \<Longrightarrow> fs (cur @ [c]) = Some (SymLink l) \<Longrightarrow> P"
  shows P
  using assms by (cases "fs (cur @ [c])"; cases "the (fs (cur @ [c]))") (auto simp: ordinary_def)

text \<open>The same on the measure of a walk: the budget of links, then the names left.\<close>

lemma walk_induct [case_names Nil skip up missing dir regular symlink]:
  fixes P :: "nat \<Rightarrow> names \<Rightarrow> names \<Rightarrow> bool"
  assumes nil: "\<And>k cur. P k cur []"
    and skip: "\<And>k cur c cs. c = '''' \<or> c = ''.'' \<Longrightarrow> P k cur cs \<Longrightarrow> P k cur (c # cs)"
    and up: "\<And>k cur cs. P k (butlast cur) cs \<Longrightarrow> P k cur (''..'' # cs)"
    and missing: "\<And>k cur c cs. ordinary c \<Longrightarrow> fs (cur @ [c]) = None \<Longrightarrow> P k cur (c # cs)"
    and dir: "\<And>k cur c cs. ordinary c \<Longrightarrow> fs (cur @ [c]) = Some Directory \<Longrightarrow> P k (cur @ [c]) cs \<Longrightarrow> P k cur (c # cs)"
    and regular: "\<And>k cur c cs x. ordinary c \<Longrightarrow> fs (cur @ [c]) = Some (RegularFile x) \<Longrightarrow> P k cur (c # cs)"
    and symlink: "\<And>k cur c cs l. ordinary c \<Longrightarrow> fs (cur @ [c]) = Some (SymLink l) \<Longrightarrow>
       (\<And>j. k = Suc j \<Longrightarrow> P j (if IsAbs l then [] else cur) (split_on slash l @ cs)) \<Longrightarrow> P k cur (c # cs)"
  shows "P k cur cs"
proof (induction "(k, length cs)" arbitrary: k cur cs rule: wf_induct_rule [OF wf_lex_prod [OF wf_less_than wf_less_than]])
  case (1 k cs cur)
  show ?case
  proof (cases cs)
    case (Cons c rest)
    show ?thesis unfolding Cons
    proof (rule walk_cases [of c _ fs cur])
      fix l assume "ordinary c" "fs (cur @ [c]) = Some (SymLink l)"
      then show "P k cur (c # rest)" by (rule symlink) (rule 1, simp)
    qed (use 1 Cons skip up missing dir regular in auto)
  qed (simp add: nil)
qed

lemma walk_more: "walk create j fs cur cs = Some q \<Longrightarrow> j \<le> k \<Longrightarrow> walk create k fs cur cs = Some q"
proof (induction j cur cs arbitrary: k rule: walk_induct [where fs = fs])
  case (symlink j cur c cs l)
  then show ?case by (cases j; cases k) (auto simp: walk_link)
qed (auto simp: walk_none walk_dir walk_file split: if_splits)

text \<open>All of a path are directories.\<close>

definition dirs_to :: "file_system \<Rightarrow> names \<Rightarrow> bool" where
  "dirs_to fs p \<longleftrightarrow> (\<forall>q r. p = q @ r \<longrightarrow> q = [] \<or> fs q = Some Directory)"

lemma dirs_to_Nil [simp]: "dirs_to fs []"
  by (simp add: dirs_to_def)

lemma dirs_to_prefix: "dirs_to fs (p @ r) \<Longrightarrow> p \<noteq> [] \<Longrightarrow> fs p = Some Directory"
  unfolding dirs_to_def by blast

lemma dirs_to_snoc: "dirs_to fs (p @ [c]) \<longleftrightarrow> dirs_to fs p \<and> fs (p @ [c]) = Some Directory"
proof
  assume all: "dirs_to fs (p @ [c])"
  have "dirs_to fs p" unfolding dirs_to_def
  proof (intro allI impI)
    fix q r assume "p = q @ r"
    then have "dirs_to fs (q @ (r @ [c]))" using all by simp
    then show "q = [] \<or> fs q = Some Directory" using dirs_to_prefix by blast
  qed
  moreover have "fs (p @ [c]) = Some Directory" using dirs_to_prefix [of fs "p @ [c]" "[]"] all by simp
  ultimately show "dirs_to fs p \<and> fs (p @ [c]) = Some Directory" by blast
next
  assume d: "dirs_to fs p \<and> fs (p @ [c]) = Some Directory"
  show "dirs_to fs (p @ [c])" unfolding dirs_to_def
  proof (intro allI impI)
    fix q r assume "p @ [c] = q @ r"
    then show "q = [] \<or> fs q = Some Directory" using d by (cases r rule: rev_cases) (auto simp: dirs_to_def)
  qed
qed

lemma dirs_to_butlast: "dirs_to fs p \<Longrightarrow> dirs_to fs (butlast p)"
  by (cases p rule: rev_cases) (simp_all add: dirs_to_snoc)

lemma dirs_to_node: "dirs_to fs p \<Longrightarrow> node_at fs p = Some Directory"
  by (cases p rule: rev_cases) (simp_all add: dirs_to_snoc node_at_def)

text \<open>Walking to a file is walking to its directory and then to its last name.\<close>

lemma walk_append:
  "walk create k fs cur (xs @ ys) = Some q \<Longrightarrow> ys \<noteq> [] \<Longrightarrow> dirs_to fs cur \<Longrightarrow>
   \<exists>j d. walk False k fs cur xs = Some d \<and> dirs_to fs d \<and> j \<le> k \<and> walk create j fs d ys = Some q"
proof (induction k cur xs rule: walk_induct [where fs = fs])
  case (symlink k cur c cs l)
  then obtain i where k: "k = Suc i" by (cases k) (auto simp: walk_link)
  then show ?case using symlink by (simp add: walk_link) (metis dirs_to_Nil le_SucI)
qed (auto simp: walk_none walk_dir walk_file dirs_to_butlast dirs_to_snoc split: if_splits)

lemma walk_dirs: "dirs_to fs (cur @ cs) \<Longrightarrow> \<forall>c \<in> set cs. ordinary c \<Longrightarrow> walk create k fs cur cs = Some (cur @ cs)"
proof (induction cs arbitrary: cur)
  case (Cons c cs)
  have "dirs_to fs ((cur @ [c]) @ cs)" using Cons.prems(1) by simp
  then have "fs (cur @ [c]) = Some Directory" by (rule dirs_to_prefix) simp
  then show ?case using Cons by (simp add: walk_dir)
qed simp

lemma ordinary_proper: "ordinary c \<Longrightarrow> slash \<notin> set c \<Longrightarrow> proper c"
  by (simp add: ordinary_def proper_def)

lemma walk_proper:
  "walk create k fs cur cs = Some q \<Longrightarrow> \<forall>c \<in> set cur. proper c \<Longrightarrow> \<forall>c \<in> set cs. slash \<notin> set c \<Longrightarrow> \<forall>c \<in> set q. proper c"
proof (induction k cur cs rule: walk_induct [where fs = fs])
  case (symlink k cur c cs l)
  have free: "\<forall>c \<in> set (split_on slash l @ cs). slash \<notin> set c" using symlink.prems(3) split_slash_free by auto
  obtain j where k: "k = Suc j" using symlink by (cases k) (auto simp: walk_link)
  then show ?case using symlink free by (intro symlink.IH [OF k]) (auto simp: walk_link)
next
  case (up k cur cs)
  have "\<forall>c \<in> set (butlast cur). proper c" using up.prems(2) in_set_butlastD by fast
  then show ?case using up by simp
next
  case (missing k cur c cs)
  then show ?case using ordinary_proper [of c] by (auto simp: walk_none split: if_splits)
next
  case (dir k cur c cs)
  then show ?case using ordinary_proper [of c] by (simp add: walk_dir)
next
  case (regular k cur c cs x)
  then show ?case using ordinary_proper [of c] by (auto simp: walk_file split: if_splits)
qed auto

section \<open>Facts about paths\<close>

lemma elements_path_of: "\<forall>c \<in> set es. proper c \<Longrightarrow> elements (path_of es) = es"
proof -
  assume es: "\<forall>c \<in> set es. proper c"
  have "elements (path_of es) = clean_elements True (split_on slash (join_with slash es)) []"
    by (simp add: elements_def path_of_def clean_skip)
  then show ?thesis using es by (cases "es = []") (simp_all add: clean_skip split_on_join proper_free clean_proper)
qed

lemma path_of_abs: "\<forall>c \<in> set es. proper c \<Longrightarrow> clean_abs (path_of es)"
  using elements_path_of [of es] by (simp add: clean_abs_def Clean_def) (simp add: path_of_def)

lemma clean_abs_path: "clean_abs p \<Longrightarrow> p = path_of (elements p)"
  by (auto simp: clean_abs_def Clean_def path_of_def)

lemma clean_abs_proper: "clean_abs p \<Longrightarrow> \<forall>c \<in> set (elements p). proper c"
  using elements_rooted unfolding clean_abs_def by blast

lemma split_path_of: "\<forall>c \<in> set es. proper c \<Longrightarrow> split_on slash (path_of es) = '''' # (if es = [] then [''''] else es)"
  using split_clean [OF path_of_abs] elements_path_of by simp

lemma walk_path_of: "\<forall>c \<in> set es. proper c \<Longrightarrow> walk create k fs [] (split_on slash (path_of es)) = walk create k fs [] es"
  by (simp add: split_path_of)

lemma join_snoc: "es \<noteq> [] \<Longrightarrow> join_with d (es @ [c]) = join_with d es @ d # c"
  by (induction d es rule: join_with.induct) auto

lemma path_of_snoc: "path_of (es @ [c]) = path_of es @ (if es = [] then c else slash # c)"
  by (simp add: path_of_def join_snoc)

lemma up_to_slash_snoc: "slash \<notin> set c \<Longrightarrow> up_to_slash (p @ slash # c) = p @ ''/''"
  by (simp add: up_to_slash_def dropWhile_append)

lemma Dir_path_of:
  assumes "\<forall>c \<in> set (es @ [c]). proper c"
  shows "Dir (path_of (es @ [c])) = path_of es"
proof -
  have c: "slash \<notin> set c" using assms by (simp add: proper_def)
  have up: "up_to_slash (path_of (es @ [c])) = (if es = [] then ''/'' else path_of es @ ''/'')"
    using up_to_slash_snoc [OF c, of "[]"] up_to_slash_snoc [OF c, of "path_of es"]
    unfolding path_of_snoc by (simp add: path_of_def)
  have abs: "IsAbs (path_of es @ ''/'')" by (simp add: path_of_def)
  have "split_on slash (path_of es @ ''/'') = split_on slash (path_of es) @ ['''']"
    using split_on_append [of slash "path_of es" "[]"] by simp
  then have "elements (path_of es @ ''/'') = es"
    using assms by (simp add: elements_def abs split_path_of clean_append clean_skip clean_proper)
  then have "Clean (path_of es @ ''/'') = path_of es" using abs by (simp add: Clean_def path_of_def)
  moreover have "Clean ''/'' = path_of []" by (simp add: Clean_def elements_def path_of_def clean_skip)
  ultimately show ?thesis using up by (simp add: Dir_def)
qed

text \<open>The names that a walk with ordinary names arrives at are ordinary, and so are those of a clean path.\<close>

lemma proper_ordinary: "proper c \<Longrightarrow> ordinary c"
  by (simp add: proper_def ordinary_def)

section \<open>Facts about operations\<close>

text \<open>
  \<open>grows fs fs'\<close>: directories and links stay as they are, and a file stays a file.
\<close>

definition grows :: "file_system \<Rightarrow> file_system \<Rightarrow> bool" where
  "grows fs fs' \<longleftrightarrow> (\<forall>p. case fs p of
      None \<Rightarrow> True | Some (RegularFile _) \<Rightarrow> (\<exists>c. fs' p = Some (RegularFile c)) | Some n \<Rightarrow> fs' p = Some n)"

text \<open>\<open>dirs_only fs fs'\<close>: nothing is changed, but directories may be new.\<close>

definition dirs_only :: "file_system \<Rightarrow> file_system \<Rightarrow> bool" where
  "dirs_only fs fs' \<longleftrightarrow> (\<forall>p. fs' p = fs p \<or> fs p = None \<and> fs' p = Some Directory)"

lemma grows_refl: "grows fs fs"
  by (auto simp: grows_def split: option.splits node.splits)

lemma grows_trans: "grows a b \<Longrightarrow> grows b c \<Longrightarrow> grows a c"
proof -
  assume ab: "grows a b" and bc: "grows b c"
  show ?thesis unfolding grows_def
  proof
    fix p
    show "case a p of None \<Rightarrow> True | Some (RegularFile _) \<Rightarrow> (\<exists>x. c p = Some (RegularFile x)) | Some n \<Rightarrow> c p = Some n"
      using ab [unfolded grows_def, rule_format, of p] bc [unfolded grows_def, rule_format, of p]
      by (auto split: option.splits node.splits)
  qed
qed

lemma dirs_only_refl: "dirs_only fs fs"
  by (simp add: dirs_only_def)

lemma dirs_only_trans: "dirs_only a b \<Longrightarrow> dirs_only b c \<Longrightarrow> dirs_only a c"
  unfolding dirs_only_def by metis

lemma dirs_only_grows: "dirs_only a b \<Longrightarrow> grows a b"
  unfolding dirs_only_def grows_def by (auto split: option.splits node.splits) (metis option.distinct(1) option.inject)+

lemma place_nonroot: "place_of fs p = Some ns \<Longrightarrow> node_at fs ns = None \<Longrightarrow> fs ns = None \<and> ns \<noteq> []"
  by (auto simp: node_at_def split: if_splits)

lemma mkdir_dirs: "mkdir fs p = Some fs' \<Longrightarrow> dirs_only fs fs'"
  by (auto simp: mkdir_def dirs_only_def node_at_def split: option.splits node.splits if_splits)

lemma mkdirs_dirs: "mkdir_prefixes fs done cs = Some fs' \<Longrightarrow> dirs_only fs fs'"
proof (induction cs arbitrary: fs "done")
  case (Cons c cs)
  then obtain fs1 where "mkdir fs (path_of (done @ [c])) = Some fs1" "mkdir_prefixes fs1 (done @ [c]) cs = Some fs'"
    by (auto split: option.splits)
  then show ?case using Cons.IH mkdir_dirs dirs_only_trans by blast
qed (simp add: dirs_only_refl)

lemma MkdirAll_dirs: "MkdirAll fs p = Some fs' \<Longrightarrow> dirs_only fs fs'"
  unfolding MkdirAll_def by (rule mkdirs_dirs)

lemma make_link_grows: "make_link fs l p = Some fs' \<Longrightarrow> grows fs fs'"
  by (auto simp: make_link_def grows_def node_at_def split: option.splits node.splits if_splits)

lemma write_file_grows: "write_file fs p c = Some fs' \<Longrightarrow> grows fs fs'"
  by (auto simp: write_file_def grows_def node_at_def split: option.splits node.splits if_splits)

end
