(* ===== verification/Artifact.thy ===== *)
theory Artifact
  imports File_System
begin

text \<open>
  \<open>internal/rootfs/openclaw_fetcher.go\<close>: staging a release of the OpenClaw runtime on a host. A
  release is described by a manifest; its archive is unpacked into a staging directory, checked and
  moved to its place. What the object store serves, the random names of the staging directories and
  the cancellation are arguments; the archive is given by its entries and the hash of its bytes.
\<close>

section \<open>Manifests\<close>

record release_paths =
  rp_EntrypointRelpath :: string
  rp_BundledPluginsRelpath :: string

record release_manifest =
  rm_SchemaVersion :: int
  rm_Kind :: string
  rm_Version :: string
  rm_Channel :: string
  rm_GitCommit :: string
  rm_ArtifactURL :: string
  rm_Compression :: string
  rm_SizeBytes :: int
  rm_SHA256 :: string
  rm_Runtime :: release_paths

abbreviation defaultOpenClawEntrypointRelpath :: string where
  "defaultOpenClawEntrypointRelpath \<equiv> ''bin/openclaw''"

abbreviation defaultOpenClawPluginsRelpath :: string where
  "defaultOpenClawPluginsRelpath \<equiv> ''dist/extensions''"

text \<open>\<open>openClawVersionRe\<close>.\<close>

definition version_shape :: "string \<Rightarrow> bool" where
  "version_shape v \<longleftrightarrow> v \<noteq> [] \<and> length v \<le> 128 \<and> alnum (hd v) \<and> alnum (last v) \<and>
     list_all (\<lambda>c. alnum c \<or> c \<in> set ''._-'') v"

definition ValidateOpenClawVersion :: "string \<Rightarrow> unit result" where
  "ValidateOpenClawVersion version = (let v = trim_space version in
     if v = '''' then Inl (ErrText ''openclaw version is required'')
     else if contains_text v ''..'' \<or> \<not> version_shape v then Inl (ErrText (''invalid openclaw version '' @ quoted v))
     else Inr ())"

fun decode_runtime :: "release_paths decoder" where
  "decode_runtime old JNull = (old, False)"
| "decode_runtime old (JObj kvs) =
     (let (e, b1) = decode_field decode_string ''entrypoint_relpath'' (rp_EntrypointRelpath old) kvs;
          (p, b2) = decode_field decode_string ''bundled_plugins_relpath'' (rp_BundledPluginsRelpath old) kvs
      in (\<lparr>rp_EntrypointRelpath = e, rp_BundledPluginsRelpath = p\<rparr>, b1 \<or> b2))"
| "decode_runtime old _ = (old, True)"

text \<open>The time of the build is not used; that it is well-formed is the argument \<open>time_ok\<close>.\<close>

definition decode_time :: "(string \<Rightarrow> bool) \<Rightarrow> unit decoder" where
  "decode_time time_ok old j = ((), case j of JNull \<Rightarrow> False | JStr s \<Rightarrow> \<not> time_ok s | _ \<Rightarrow> True)"

definition decode_manifest :: "(string \<Rightarrow> bool) \<Rightarrow> (string \<times> json) list \<Rightarrow> release_manifest \<times> bool" where
  "decode_manifest time_ok kvs =
     (let str = (\<lambda>k. decode_field decode_string k '''' kvs);
          (schema, b1) = decode_field decode_int ''schema_version'' 0 kvs;
          (kind, b2) = str ''kind''; (version, b3) = str ''version''; (channel, b4) = str ''channel'';
          (built, b5) = decode_field (decode_time time_ok) ''built_at'' () kvs;
          (commit, b6) = str ''git_commit''; (url, b7) = str ''artifact_url''; (compression, b8) = str ''compression'';
          (size, b9) = decode_field decode_int ''size_bytes'' 0 kvs; (sha, b10) = str ''sha256'';
          (runtime, b11) = decode_field decode_runtime ''runtime'' \<lparr>rp_EntrypointRelpath = '''', rp_BundledPluginsRelpath = ''''\<rparr> kvs
      in (\<lparr>rm_SchemaVersion = schema, rm_Kind = kind, rm_Version = version, rm_Channel = channel, rm_GitCommit = commit,
           rm_ArtifactURL = url, rm_Compression = compression, rm_SizeBytes = size, rm_SHA256 = sha, rm_Runtime = runtime\<rparr>,
          b1 \<or> b2 \<or> b3 \<or> b4 \<or> b5 \<or> b6 \<or> b7 \<or> b8 \<or> b9 \<or> b10 \<or> b11))"

definition blank :: "string \<Rightarrow> bool" where
  "blank s \<longleftrightarrow> trim_space s = ''''"

definition or_default :: "string \<Rightarrow> string \<Rightarrow> string" where
  "or_default d s = (if blank s then d else s)"

definition ParseOpenClawReleaseManifest :: "(string \<Rightarrow> bool) \<Rightarrow> json option \<Rightarrow> release_manifest result" where
  "ParseOpenClawReleaseManifest time_ok doc =
     (case (case doc of Some (JObj kvs) \<Rightarrow> decode_manifest time_ok kvs | Some JNull \<Rightarrow> decode_manifest time_ok []
            | _ \<Rightarrow> (fst (decode_manifest time_ok []), True)) of (m, bad) \<Rightarrow>
      if bad then Inl (wrap ''decode openclaw release manifest'' json_error)
      else if blank (rm_Version m) then Inl (ErrText ''manifest missing required field: version'')
      else (case ValidateOpenClawVersion (rm_Version m) of
          Inl e \<Rightarrow> Inl e
        | Inr _ \<Rightarrow>
            if blank (rm_ArtifactURL m) then Inl (ErrText ''manifest missing required field: artifact_url'')
            else if blank (rm_SHA256 m) then Inl (ErrText ''manifest missing required field: sha256'')
            else Inr (m\<lparr>rm_Compression := or_default ''zstd'' (rm_Compression m),
              rm_Runtime := \<lparr>rp_EntrypointRelpath = or_default defaultOpenClawEntrypointRelpath (rp_EntrypointRelpath (rm_Runtime m)),
                rp_BundledPluginsRelpath = or_default defaultOpenClawPluginsRelpath (rp_BundledPluginsRelpath (rm_Runtime m))\<rparr>\<rparr>)))"

section \<open>Paths\<close>

definition leaves_root :: "string \<Rightarrow> bool" where
  "leaves_root rel \<longleftrightarrow> rel = ''..'' \<or> has_prefix rel ''../''"

text \<open>\<open>Inr None\<close>: an entry for the root itself, which is skipped.\<close>

definition secureTarPath :: "string \<Rightarrow> string \<Rightarrow> string option result" where
  "secureTarPath dstDir name = (let cleaned = Clean (trim_prefix name ''./'') in
     if cleaned = ''.'' \<or> cleaned = '''' then Inr None
     else if cleaned = ''..'' \<or> IsAbs cleaned \<or> has_prefix cleaned ''../''
     then Inl (ErrText (''invalid openclaw artifact path '' @ quoted name))
     else (let target = Join [dstDir, cleaned] in
       case Rel dstDir target of
         Inl e \<Rightarrow> Inl (wrap (''resolve openclaw artifact path '' @ quoted name) e)
       | Inr rel \<Rightarrow> if leaves_root rel then Inl (ErrText (''invalid openclaw artifact path '' @ quoted name)) else Inr (Some target)))"

definition sanitizeRuntimeRelpath :: "string \<Rightarrow> string" where
  "sanitizeRuntimeRelpath v = (let value = Clean (trim_space v) in
     if value = '''' \<or> value = ''.'' \<or> IsAbs value \<or> leaves_root value then '''' else value)"

definition ensureParentResolvedWithinRoot :: "file_system \<Rightarrow> string \<Rightarrow> string \<Rightarrow> unit result" where
  "ensureParentResolvedWithinRoot fs root target = (case EvalSymlinks fs root of
      None \<Rightarrow> Inl (ErrText (''resolve root '' @ root))
    | Some resolvedRoot \<Rightarrow> (case EvalSymlinks fs (Dir target) of
        None \<Rightarrow> Inl (ErrText (''resolve parent dir for '' @ target))
      | Some resolvedParent \<Rightarrow> (case Rel (path_of resolvedRoot) (path_of resolvedParent) of
          Inl e \<Rightarrow> Inl (wrap (''resolve path for '' @ target) e)
        | Inr rel \<Rightarrow> if leaves_root rel then Inl (ErrText (''invalid openclaw artifact path '' @ quoted target)) else Inr ())))"

definition secureSymlinkTargetPath :: "file_system \<Rightarrow> string \<Rightarrow> string \<Rightarrow> string \<Rightarrow> string result" where
  "secureSymlinkTargetPath fs root linkPath linkname =
     (let bad = Inl (ErrText (''invalid openclaw artifact symlink target '' @ quoted linkname)) in
      if blank linkname \<or> IsAbs linkname then bad
      else (let cleanTarget = Clean (Join [Dir linkPath, linkname]) in
        case EvalSymlinks fs root of
          None \<Rightarrow> Inl (ErrText (''resolve root '' @ root))
        | Some resolvedRoot \<Rightarrow> (case Rel (path_of resolvedRoot) cleanTarget of
            Inl e \<Rightarrow> Inl (wrap (''resolve openclaw symlink target '' @ quoted linkname) e)
          | Inr rel \<Rightarrow> if leaves_root rel then bad else Inr cleanTarget)))"

section \<open>Unpacking\<close>

datatype tar_entry =
    TarDir string
  | TarReg string file_content
  | TarLink string string
  | TarSymlink string string
  | TarOther string
  | TarBroken go_error

abbreviation maxExtractedBytes :: int where
  "maxExtractedBytes \<equiv> 2 * 2 ^ 30"

abbreviation maxSingleFileBytes :: int where
  "maxSingleFileBytes \<equiv> 512 * 2 ^ 20"

fun content_size :: "file_content \<Rightarrow> int" where
  "content_size (Bytes s) = int (length s)"
| "content_size (JsonDoc j n) = int n"

text \<open>The product of 64-bit integers wraps around.\<close>

definition int64 :: "int \<Rightarrow> int" where
  "int64 x = (x + 2 ^ 63) mod 2 ^ 64 - 2 ^ 63"

definition extract_limit :: "release_manifest \<Rightarrow> int" where
  "extract_limit m = (if 0 < rm_SizeBytes m \<and> int64 (rm_SizeBytes m * 10) < maxExtractedBytes
     then int64 (rm_SizeBytes m * 10) else maxExtractedBytes)"

text \<open>The state of the loop: the file system and the bytes so far. An error leaves what was done.\<close>

type_synonym extraction = "file_system \<times> int"

definition io_fail :: "string \<Rightarrow> extraction \<Rightarrow> unit result \<times> extraction" where
  "io_fail msg st = (Inl (ErrText msg), st)"

text \<open>The start of every kind of entry: the parent directories are made, and then checked.\<close>

definition with_parent ::
  "string \<Rightarrow> string \<Rightarrow> extraction \<Rightarrow> (extraction \<Rightarrow> unit result \<times> extraction) \<Rightarrow> unit result \<times> extraction" where
  "with_parent dstDir target st body = (case MkdirAll (fst st) (Dir target) of
      None \<Rightarrow> io_fail (''create parent dir for '' @ target) st
    | Some fs \<Rightarrow> (case ensureParentResolvedWithinRoot fs dstDir target of
        Inl e \<Rightarrow> (Inl e, fs, snd st)
      | Inr _ \<Rightarrow> body (fs, snd st)))"

text \<open>The rest of each kind of entry, once the parent was checked.\<close>

definition place_dir :: "string \<Rightarrow> extraction \<Rightarrow> unit result \<times> extraction" where
  "place_dir target st = (case MkdirAll (fst st) target of
      None \<Rightarrow> io_fail (''create dir '' @ target) st
    | Some fs \<Rightarrow> (Inr (), fs, snd st))"

definition place_file :: "string \<Rightarrow> file_content \<Rightarrow> extraction \<Rightarrow> unit result \<times> extraction" where
  "place_file target content st = (case Lstat (fst st) target of
      Some (SymLink l) \<Rightarrow> io_fail (''refusing to overwrite symlink '' @ target) st
    | _ \<Rightarrow> (case write_file (fst st) target content of
        None \<Rightarrow> io_fail (''create file '' @ target) st
      | Some fs \<Rightarrow> (Inr (), fs, snd st + content_size content)))"

definition place_copy :: "string \<Rightarrow> string \<Rightarrow> extraction \<Rightarrow> unit result \<times> extraction" where
  "place_copy linkTarget target st = (case read_file (fst st) linkTarget of
      None \<Rightarrow> io_fail (''open hard link source '' @ linkTarget) st
    | Some content \<Rightarrow> (case write_file (fst st) target content of
        None \<Rightarrow> io_fail (''create hard link copy '' @ target) st
      | Some fs \<Rightarrow> (Inr (), fs, snd st + content_size content)))"

definition place_symlink :: "string \<Rightarrow> string \<Rightarrow> string \<Rightarrow> extraction \<Rightarrow> unit result \<times> extraction" where
  "place_symlink dstDir target linkname st = (case secureSymlinkTargetPath (fst st) dstDir target linkname of
      Inl e \<Rightarrow> (Inl e, st)
    | Inr _ \<Rightarrow> (case make_link (fst st) linkname target of
        None \<Rightarrow> io_fail (''create symlink '' @ target) st
      | Some fs \<Rightarrow> (Inr (), fs, snd st)))"

definition extract_reg :: "string \<Rightarrow> int \<Rightarrow> string \<Rightarrow> string \<Rightarrow> file_content \<Rightarrow> extraction \<Rightarrow> unit result \<times> extraction" where
  "extract_reg dstDir limit name target content st =
     (if maxSingleFileBytes < content_size content then io_fail (''file '' @ name @ '' exceeds max size'') st
      else if limit < snd st + content_size content then io_fail ''cumulative extracted size exceeds limit'' st
      else with_parent dstDir target st (place_file target content))"

text \<open>A hard link is unpacked as a copy of the file that it names.\<close>

definition extract_link :: "string \<Rightarrow> string \<Rightarrow> string \<Rightarrow> extraction \<Rightarrow> unit result \<times> extraction" where
  "extract_link dstDir target linkname st = (let linkTarget = Join [dstDir, Clean linkname] in
     case ensureParentResolvedWithinRoot (fst st) dstDir linkTarget of
       Inl e \<Rightarrow> (Inl (wrap (''hard link target '' @ linkname @ '' escapes root'') e), st)
     | Inr _ \<Rightarrow> with_parent dstDir target st (place_copy linkTarget target))"

fun entry_name :: "tar_entry \<Rightarrow> string" where
  "entry_name (TarDir n) = n"
| "entry_name (TarReg n _) = n"
| "entry_name (TarLink n _) = n"
| "entry_name (TarSymlink n _) = n"
| "entry_name (TarOther n) = n"
| "entry_name (TarBroken _) = ''''"

definition extract_entry :: "string \<Rightarrow> int \<Rightarrow> tar_entry \<Rightarrow> extraction \<Rightarrow> unit result \<times> extraction" where
  "extract_entry dstDir limit e st = (case e of
      TarBroken err \<Rightarrow> (Inl (wrap ''read openclaw artifact tar'' err), st)
    | _ \<Rightarrow> (case secureTarPath dstDir (entry_name e) of
        Inl err \<Rightarrow> (Inl err, st)
      | Inr None \<Rightarrow> (Inr (), st)
      | Inr (Some target) \<Rightarrow> (case e of
          TarDir _ \<Rightarrow> with_parent dstDir target st (place_dir target)
        | TarReg name content \<Rightarrow> extract_reg dstDir limit name target content st
        | TarLink _ linkname \<Rightarrow> extract_link dstDir target linkname st
        | TarSymlink _ linkname \<Rightarrow> with_parent dstDir target st (place_symlink dstDir target linkname)
        | _ \<Rightarrow> io_fail (''unsupported openclaw artifact entry '' @ entry_name e) st)))"

fun extract_entries :: "string \<Rightarrow> int \<Rightarrow> tar_entry list \<Rightarrow> extraction \<Rightarrow> unit result \<times> extraction" where
  "extract_entries dstDir limit [] st = (Inr (), st)"
| "extract_entries dstDir limit (e # es) st = (case extract_entry dstDir limit e st of
      (Inl err, st') \<Rightarrow> (Inl err, st')
    | (Inr _, st') \<Rightarrow> extract_entries dstDir limit es st')"

text \<open>An archive: its entries, and the hash of the bytes that were read.\<close>

type_synonym archive = "tar_entry list \<times> string"

definition extractOpenClawTarZstd :: "archive \<Rightarrow> release_manifest \<Rightarrow> string \<Rightarrow> file_system \<Rightarrow> unit result \<times> file_system" where
  "extractOpenClawTarZstd src manifest dstDir fs0 =
     (case extract_entries dstDir (extract_limit manifest) (fst src) (fs0, 0) of
        (Inl e, fs, _) \<Rightarrow> (Inl e, fs)
      | (Inr _, fs, _) \<Rightarrow>
          if snd src \<noteq> rm_SHA256 manifest
          then (Inl (ErrText (''openclaw artifact SHA256 mismatch: got '' @ snd src @ '', want '' @ rm_SHA256 manifest)), fs)
          else (case Stat fs (Join [dstDir, rp_EntrypointRelpath (rm_Runtime manifest)]) of
              None \<Rightarrow> (Inl (ErrText ''staged artifact missing entrypoint''), fs)
            | Some Directory \<Rightarrow> (Inl (ErrText ''staged artifact entrypoint is a directory''), fs)
            | Some _ \<Rightarrow>
                if is_dir fs (Join [dstDir, rp_BundledPluginsRelpath (rm_Runtime manifest)]) then (Inr (), fs)
                else (Inl (ErrText ''staged artifact missing bundled plugins dir''), fs)))"

section \<open>Releases\<close>

definition RuntimePathsForRelease :: "(string \<Rightarrow> bool) \<Rightarrow> file_system \<Rightarrow> string \<Rightarrow> release_paths" where
  "RuntimePathsForRelease time_ok fs releasePath =
     (let dflt = \<lparr>rp_EntrypointRelpath = defaultOpenClawEntrypointRelpath, rp_BundledPluginsRelpath = defaultOpenClawPluginsRelpath\<rparr> in
      case read_file fs (Join [releasePath, ''manifest.json'']) of
        None \<Rightarrow> dflt
      | Some content \<Rightarrow> (case ParseOpenClawReleaseManifest time_ok (case content of JsonDoc j _ \<Rightarrow> Some j | Bytes _ \<Rightarrow> None) of
          Inl _ \<Rightarrow> dflt
        | Inr m \<Rightarrow>
            (let ep = sanitizeRuntimeRelpath (rp_EntrypointRelpath (rm_Runtime m));
                 bp = sanitizeRuntimeRelpath (rp_BundledPluginsRelpath (rm_Runtime m))
             in \<lparr>rp_EntrypointRelpath = (if ep = '''' then defaultOpenClawEntrypointRelpath else ep),
                 rp_BundledPluginsRelpath = (if bp = '''' then defaultOpenClawPluginsRelpath else bp)\<rparr>)))"

definition openClawReleaseReady :: "(string \<Rightarrow> bool) \<Rightarrow> file_system \<Rightarrow> string \<Rightarrow> bool" where
  "openClawReleaseReady time_ok fs releasePath = (if releasePath = '''' then False
     else (let paths = RuntimePathsForRelease time_ok fs releasePath in
       (case Stat fs (Join [releasePath, rp_EntrypointRelpath paths]) of
          None \<Rightarrow> False | Some Directory \<Rightarrow> False | Some _ \<Rightarrow> True) \<and>
       is_dir fs (Join [releasePath, rp_BundledPluginsRelpath paths])))"

section \<open>Where a release comes from\<close>

text \<open>\<open>strings.ReplaceAll\<close> of a text that is not empty: the count is of characters still to be skipped.\<close>

fun replace_from :: "nat \<Rightarrow> string \<Rightarrow> string \<Rightarrow> string \<Rightarrow> string" where
  "replace_from skip old new [] = []"
| "replace_from skip old new (c # cs) =
     (if 0 < skip then replace_from (skip - 1) old new cs
      else if has_prefix (c # cs) old then new @ replace_from (length old - 1) old new cs
      else c # replace_from 0 old new cs)"

definition ParseGCSURI :: "string \<Rightarrow> (string \<times> string) result" where
  "ParseGCSURI uri =
     (if \<not> has_prefix uri ''gs://'' then Inl (ErrText (''invalid GCS URI (must start with gs://): '' @ uri))
      else (case cut slash (drop 5 uri) of
          Some (bucket, object) \<Rightarrow>
            if bucket = '''' \<or> object = '''' then Inl (ErrText (''invalid GCS URI (must be gs://bucket/path): '' @ uri))
            else Inr (bucket, object)
        | None \<Rightarrow> Inl (ErrText (''invalid GCS URI (must be gs://bucket/path): '' @ uri))))"

text \<open>The path of a \<open>file://\<close> URI as \<open>url.Parse\<close> gives it is an argument.\<close>

definition localPathFromURI :: "(string \<Rightarrow> string result) \<Rightarrow> string \<Rightarrow> string result" where
  "localPathFromURI url_path uri =
     (if has_prefix uri ''file://''
      then (case url_path uri of
          Inl e \<Rightarrow> Inl (wrap (''parse file URI '' @ uri) e)
        | Inr p \<Rightarrow> if p = '''' then Inl (ErrText (''file URI missing path: '' @ uri)) else Inr p)
      else Inr uri)"

definition releaseManifestURI :: "(string \<Rightarrow> string result) \<Rightarrow> string \<Rightarrow> string \<Rightarrow> string result" where
  "releaseManifestURI url_path configured version = (case ValidateOpenClawVersion version of
      Inl e \<Rightarrow> Inl e
    | Inr _ \<Rightarrow> (let uri = trim_space configured in
        if uri = '''' then Inl (ErrText ''openclaw manifest URI not configured'')
        else if contains_text uri ''{version}'' then Inr (replace_from 0 ''{version}'' version uri)
        else if has_prefix uri ''gs://'' then (case ParseGCSURI uri of
            Inl e \<Rightarrow> Inl e
          | Inr (bucket, object) \<Rightarrow> (let dir = (if Dir object = ''.'' then '''' else Dir object) in
              Inr (if dir = '''' then ''gs://'' @ bucket @ ''/releases/'' @ version @ ''/manifest.json''
                   else ''gs://'' @ bucket @ ''/'' @ trim_where (\<lambda>c. c = slash) dir @ ''/releases/'' @ version @ ''/manifest.json'')))
        else (case localPathFromURI url_path uri of
            Inl e \<Rightarrow> Inl e
          | Inr p \<Rightarrow> Inr (Join [Dir p, ''releases'', version, ''manifest.json'']))))"

text \<open>
  What the attempts of one call meet: the documents and archives behind the URIs, the name of the
  staging directory, whether the lock on the releases was given, and whether the call was cancelled
  while it waited before the attempt. Nobody else changes the releases while the lock is waited for.
\<close>

record release_source =
  rs_manifestURI :: string
  rs_attempts :: int
  rs_time_ok :: "string \<Rightarrow> bool"
  rs_url_path :: "string \<Rightarrow> string result"
  rs_document :: "nat \<Rightarrow> string \<Rightarrow> json option result"
  rs_archive :: "nat \<Rightarrow> string \<Rightarrow> archive result"
  rs_lock :: "unit result"
  rs_txn :: "nat \<Rightarrow> string result"
  rs_cancelled :: "nat \<Rightarrow> bool"
  rs_marshal :: "release_manifest \<Rightarrow> json \<times> nat"

definition fetchReleaseManifest :: "release_source \<Rightarrow> nat \<Rightarrow> string \<Rightarrow> release_manifest result" where
  "fetchReleaseManifest src i version = (case releaseManifestURI (rs_url_path src) (rs_manifestURI src) version of
      Inl e \<Rightarrow> Inl e
    | Inr uri \<Rightarrow> (case rs_document src i uri of
        Inl e \<Rightarrow> Inl e
      | Inr doc \<Rightarrow> ParseOpenClawReleaseManifest (rs_time_ok src) doc))"

text \<open>The part of an attempt during which the staging directory exists.\<close>

definition stage_release ::
  "release_source \<Rightarrow> nat \<Rightarrow> release_manifest \<Rightarrow> string \<Rightarrow> string \<Rightarrow> file_system \<Rightarrow> unit result \<times> file_system" where
  "stage_release src i manifest extractDir releasePath fs1 = (case rs_archive src i (rm_ArtifactURL manifest) of
      Inl e \<Rightarrow> (Inl (wrap ''open artifact'' e), fs1)
    | Inr arc \<Rightarrow> (case extractOpenClawTarZstd arc manifest extractDir fs1 of
        (Inl e, fs2) \<Rightarrow> (Inl e, fs2)
      | (Inr _, fs2) \<Rightarrow>
          (case write_file fs2 (Join [extractDir, ''manifest.json'']) (case rs_marshal src manifest of (j, n) \<Rightarrow> JsonDoc j n) of
             None \<Rightarrow> (Inl (ErrText ''write staged release manifest''), fs2)
           | Some fs3 \<Rightarrow> (case Rename fs3 extractDir releasePath of
               Some fs4 \<Rightarrow> (Inr (), fs4)
             | None \<Rightarrow> if openClawReleaseReady (rs_time_ok src) fs3 releasePath then (Inr (), fs3)
                       else (Inl (ErrText (''publish release '' @ rm_Version manifest)), fs3)))))"

definition ensureReleaseOnce ::
  "release_source \<Rightarrow> nat \<Rightarrow> string \<Rightarrow> string \<Rightarrow> string \<Rightarrow> file_system \<Rightarrow> unit result \<times> file_system" where
  "ensureReleaseOnce src i runtimeDir version releasePath fs = (case fetchReleaseManifest src i version of
      Inl e \<Rightarrow> (Inl (wrap ''fetch release manifest'' e), fs)
    | Inr manifest \<Rightarrow>
        if rm_Version manifest \<noteq> version
        then (Inl (ErrText (''release manifest version mismatch: got '' @ rm_Version manifest @ '', want '' @ version)), fs)
        else if rm_Compression manifest \<noteq> ''zstd''
        then (Inl (ErrText (''unsupported openclaw artifact compression: '' @ rm_Compression manifest)), fs)
        else (case rs_txn src i of
            Inl e \<Rightarrow> (Inl e, fs)
          | Inr txnID \<Rightarrow>
              (let txnDir = Join [runtimeDir, ''staging'', txnID]; extractDir = Join [txnDir, ''release''] in
               case MkdirAll fs extractDir of
                 None \<Rightarrow> (Inl (ErrText ''create openclaw staging txn dir''), fs)
               | Some fs1 \<Rightarrow> (case stage_release src i manifest extractDir releasePath fs1 of
                   (r, fs2) \<Rightarrow> (r, RemoveAll fs2 txnDir)))))"

fun try_releases ::
  "release_source \<Rightarrow> nat \<Rightarrow> nat \<Rightarrow> go_error \<Rightarrow> string \<Rightarrow> string \<Rightarrow> string \<Rightarrow> file_system \<Rightarrow> string result \<times> file_system" where
  "try_releases src 0 i lastErr runtimeDir version releasePath fs = (Inl (wrap (''stage openclaw release '' @ version) lastErr), fs)"
| "try_releases src (Suc n) i lastErr runtimeDir version releasePath fs =
     (if 1 < i \<and> rs_cancelled src i then (Inl (ErrText ''context canceled''), fs)
      else (case ensureReleaseOnce src i runtimeDir version releasePath fs of
          (Inr _, fs') \<Rightarrow> (Inr releasePath, fs')
        | (Inl e, fs') \<Rightarrow> try_releases src n (Suc i) e runtimeDir version releasePath fs'))"

definition EnsureRelease :: "release_source \<Rightarrow> string \<Rightarrow> string \<Rightarrow> file_system \<Rightarrow> string result \<times> file_system" where
  "EnsureRelease src runtimeDir0 version0 fs =
     (let version = trim_space version0; runtimeDir = trim_space runtimeDir0 in
      case ValidateOpenClawVersion version of
        Inl e \<Rightarrow> (Inl e, fs)
      | Inr _ \<Rightarrow>
          if runtimeDir = '''' then (Inl (ErrText ''openclaw runtime dir is required''), fs)
          else (case MkdirAll fs runtimeDir of
              None \<Rightarrow> (Inl (ErrText ''create openclaw runtime dir''), fs)
            | Some fs1 \<Rightarrow>
                (let releasePath = Join [runtimeDir, ''releases'', version] in
                 if openClawReleaseReady (rs_time_ok src) fs1 releasePath then (Inr releasePath, fs1)
                 else (case rs_lock src of
                     Inl e \<Rightarrow> (Inl (wrap ''acquire openclaw artifact lock'' e), fs1)
                   | Inr _ \<Rightarrow> (case MkdirAll fs1 (Join [runtimeDir, ''releases'']) of
                       None \<Rightarrow> (Inl (ErrText ''create openclaw releases dir''), fs1)
                     | Some fs2 \<Rightarrow> (case MkdirAll fs2 (Join [runtimeDir, ''staging'']) of
                         None \<Rightarrow> (Inl (ErrText ''create openclaw staging dir''), fs2)
                       | Some fs3 \<Rightarrow> try_releases src (if rs_attempts src \<le> 0 then 1 else nat (rs_attempts src)) 1
                           (ErrText '''') runtimeDir version releasePath fs3))))))"

end
