(* ===== verification/Artifact_Properties.thy ===== *)
theory Artifact_Properties
  imports Artifact
begin

text \<open>
  What staging a release promises: the paths that come from versions, manifests and archives stay in
  their directory, the unpacking changes nothing outside of the staging directory, and only checked
  archives are published.
\<close>

section \<open>Relative paths\<close>

lemma drop_common_split: "drop_common xs ys = (bs, ts) \<Longrightarrow> \<exists>common. xs = common @ bs \<and> ys = common @ ts"
proof (induction xs ys rule: drop_common.induct)
  case (1 b bs' t ts')
  then show ?case by (auto split: if_splits)
qed auto

lemma dots_leave: "leaves_root (join_with slash (replicate (Suc n) ''..'' @ ts))"
  by (cases "replicate n ''..'' @ ts") (auto simp: leaves_root_def)

lemma Rel_below:
  assumes "\<forall>c \<in> set root. proper c" "\<forall>c \<in> set p. proper c" "Rel (path_of root) (path_of p) = Inr rel" "\<not> leaves_root rel"
  shows "below root p"
proof (cases "Clean (path_of root) = Clean (path_of p)")
  case True
  then have "elements (path_of root) = elements (path_of p)" by (metis elements_Clean)
  then show ?thesis using assms(1,2) by (simp add: elements_path_of below_def)
next
  case False
  obtain bs ts where d: "drop_common root p = (bs, ts)" by (metis prod.exhaust)
  have "rel = join_with slash (replicate (length bs) ''..'' @ ts)"
    using assms(3) False d by (auto simp: Rel_def elements_path_of [OF assms(1)] elements_path_of [OF assms(2)] split: if_splits)
  then have "bs = []" using dots_leave [of "length bs - 1" ts] assms(4) by (cases bs) auto
  then show ?thesis using drop_common_split [OF d] by (auto simp: below_def)
qed

lemma below_iff: "below d p \<longleftrightarrow> (\<exists>r. p = d @ r)"
  unfolding below_def by (metis append_eq_conv_conj append_take_drop_id)

lemma below_snoc: "below root p \<Longrightarrow> below root (p @ x)"
  by (auto simp: below_iff)

section \<open>Versions and manifests\<close>

lemma version_chars: "\<not> (alnum slash \<or> slash \<in> set ''._-'')" "\<not> alnum (CHR ''.'')"
  by code_simp+

lemma version_proper:
  assumes "ValidateOpenClawVersion v = Inr ()"
  shows "proper (trim_space v)"
proof -
  have shape: "version_shape (trim_space v)" using assms by (simp add: ValidateOpenClawVersion_def Let_def split: if_splits)
  then have "slash \<notin> set (trim_space v)" using version_chars(1) unfolding version_shape_def list_all_iff by blast
  moreover have "hd (trim_space v) \<noteq> CHR ''.''" using shape version_chars(2) unfolding version_shape_def by metis
  ultimately show ?thesis using shape by (auto simp: proper_def version_shape_def)
qed

text \<open>A relative path that does not start with double dots has none.\<close>

lemma relative_proper:
  assumes "\<not> IsAbs p" "\<not> leaves_root (Clean p)"
  shows "\<forall>c \<in> set (elements p). proper c"
proof -
  obtain k rest where es: "elements p = replicate k ''..'' @ rest" "\<forall>c \<in> set rest. proper c"
    using elements_relative [OF assms(1)] unfolding dots_first_def by blast
  have "k = 0"
  proof (cases k)
    case (Suc n)
    then have "Clean p = join_with slash (replicate (Suc n) ''..'' @ rest)" using es(1) assms(1) by (simp add: Clean_def)
    then show ?thesis using dots_leave assms(2) by metis
  qed
  then show ?thesis using es by simp
qed

lemma elements_join:
  assumes "es \<noteq> []" "\<forall>c \<in> set es. proper c"
  shows "elements (join_with slash es) = es" "Clean (join_with slash es) = join_with slash es" "\<not> IsAbs (join_with slash es)"
proof -
  have d: "dots_first es" unfolding dots_first_def using assms(2) by (metis append_Nil replicate_0)
  then show abs: "\<not> IsAbs (join_with slash es)" using IsAbs_join assms(1) by blast
  have "split_on slash (join_with slash es) = es" using assms by (intro split_on_join) (auto simp: proper_def)
  then show els: "elements (join_with slash es) = es" using abs assms(2) by (simp add: elements_def clean_proper)
  then show "Clean (join_with slash es) = join_with slash es" using abs assms(1) by (simp add: Clean_def)
qed

lemma Join_nested: "d \<noteq> '''' \<Longrightarrow> Join (d # a # es) = Join [d, join_with slash (a # es)]"
  by (simp add: Join_def)

lemma Join_names:
  assumes "clean_abs dir" "es \<noteq> []" "\<forall>c \<in> set es. proper c"
  shows "elements (Join (dir # es)) = elements dir @ es"
proof -
  have dir: "IsAbs dir" "dir \<noteq> ''''" using assms(1) by (auto simp: clean_abs_def IsAbs_def)
  obtain a rest where es: "es = a # rest" using assms(2) by (cases es) auto
  note j = elements_join [OF assms(2,3)]
  have "elements (Join [dir, Clean (join_with slash es)]) = elements dir @ es"
    using elements_below(1) [OF dir(1) j(3)] j(1) assms(3) by simp
  then show ?thesis using Join_nested [OF dir(2)] j(2) es by simp
qed

lemma tar_path_below:
  assumes "clean_abs dir" "secureTarPath dir name = Inr (Some target)"
  shows "clean_abs target" "\<exists>rest. rest \<noteq> [] \<and> elements target = elements dir @ rest \<and> list_all proper rest"
proof -
  let ?q = "trim_prefix name ''./''"
  have c: "Clean ?q \<noteq> ''.''" "\<not> IsAbs ?q" "\<not> leaves_root (Clean ?q)" "target = Join [dir, Clean ?q]"
    using assms(2) by (auto simp: secureTarPath_def leaves_root_def Let_def split: if_splits sum.splits)
  have dir: "IsAbs dir" using assms(1) by (simp add: clean_abs_def)
  note p = relative_proper [OF c(2,3)]
  have "elements ?q \<noteq> []" using c(1,2) by (auto simp: Clean_def)
  then show "\<exists>rest. rest \<noteq> [] \<and> elements target = elements dir @ rest \<and> list_all proper rest"
    using elements_below(1) [OF dir c(2) p] p c(4) by (auto simp: list_all_iff)
  show "clean_abs target" unfolding c(4) using IsAbs_Join dir by blast
qed

text \<open>
  Paths that come from outside stay below their directory. For an absolute clean directory: a
  version that is accepted is a single name, so that a release lies directly below \<open>releases\<close>; an
  archive entry that is accepted gets a place below the destination; and a path of a manifest that
  is accepted for the runtime stays below the release when it is joined to it.
\<close>
theorem paths_stay_below:
  assumes "clean_abs dir"
  shows "(ValidateOpenClawVersion v = Inr () \<longrightarrow>
      elements (Join [dir, ''releases'', trim_space v]) = elements dir @ [''releases'', trim_space v] \<and> proper (trim_space v)) \<and>
    (secureTarPath dir name = Inr (Some target) \<longrightarrow>
      clean_abs target \<and> (\<exists>rest. rest \<noteq> [] \<and> elements target = elements dir @ rest \<and> list_all proper rest)) \<and>
    (sanitizeRuntimeRelpath value \<noteq> '''' \<longrightarrow>
      below (elements dir) (elements (Join [dir, sanitizeRuntimeRelpath value])))"
proof -
  have dir: "IsAbs dir" using assms by (simp add: clean_abs_def)
  have "proper ''releases''" by code_simp
  then have version: "elements (Join [dir, ''releases'', trim_space v]) = elements dir @ [''releases'', trim_space v] \<and> proper (trim_space v)"
    if "ValidateOpenClawVersion v = Inr ()"
    using Join_names [OF assms, of "[''releases'', trim_space v]"] version_proper [OF that] by simp
  have rel: "below (elements dir) (elements (Join [dir, sanitizeRuntimeRelpath value]))" if s: "sanitizeRuntimeRelpath value \<noteq> ''''"
  proof -
    have c: "sanitizeRuntimeRelpath value = Clean (trim_space value)" "\<not> IsAbs (trim_space value)" "\<not> leaves_root (Clean (trim_space value))"
      using s by (auto simp: sanitizeRuntimeRelpath_def Let_def split: if_splits)
    show ?thesis using elements_below(1) [OF dir c(2) relative_proper [OF c(2,3)]] unfolding c(1) by (simp add: below_def)
  qed
  show ?thesis using version rel tar_path_below [OF assms] by blast
qed

theorem paths_stay_below_witness:
  "elements (Join [''/var/lib/ocm'', ''releases'', ''2026.3.1'']) = [''var'', ''lib'', ''ocm'', ''releases'', ''2026.3.1'']"
proof -
  have abs: "clean_abs ''/var/lib/ocm''" and v: "ValidateOpenClawVersion ''2026.3.1'' = Inr ()"
    and t: "trim_space ''2026.3.1'' = ''2026.3.1''" and e: "elements ''/var/lib/ocm'' = [''var'', ''lib'', ''ocm'']"
    by code_simp+
  show ?thesis using paths_stay_below [OF abs, of "''2026.3.1''"] v t e by simp
qed

section \<open>Unpacking stays in the root\<close>

text \<open>
  \<open>confined root fs fs'\<close>: outside of the root no node is changed or removed, and new nodes are
  directories.
\<close>

definition confined :: "names \<Rightarrow> file_system \<Rightarrow> file_system \<Rightarrow> bool" where
  "confined root fs fs' \<longleftrightarrow> (\<forall>p. below root p \<or> fs' p = fs p \<or> fs p = None \<and> fs' p = Some Directory)"

lemma confined_refl: "confined root fs fs"
  by (simp add: confined_def)

lemma confined_trans: "confined root a b \<Longrightarrow> confined root b c \<Longrightarrow> confined root a c"
  unfolding confined_def by metis

lemma dirs_only_confined: "dirs_only a b \<Longrightarrow> confined root a b"
  unfolding dirs_only_def confined_def by blast

lemma confined_update: "below root p \<Longrightarrow> confined root fs (fs(p \<mapsto> n))"
  by (simp add: confined_def)

lemma grows_dir: "grows a b \<Longrightarrow> a p = Some Directory \<Longrightarrow> b p = Some Directory"
  unfolding grows_def by (drule spec [of _ p]) simp

lemma grows_dirs_to: "grows a b \<Longrightarrow> dirs_to a p \<Longrightarrow> dirs_to b p"
  unfolding dirs_to_def using grows_dir by blast

text \<open>A root and a target as the loop has them: clean paths, the last name of the target apart.\<close>

definition unpack_paths :: "string \<Rightarrow> names \<Rightarrow> string \<Rightarrow> names \<Rightarrow> string \<Rightarrow> bool" where
  "unpack_paths dstDir root target dir name \<longleftrightarrow> dstDir = path_of root \<and> list_all proper root \<and>
     target = path_of (dir @ [name]) \<and> list_all proper dir \<and> proper name"

lemma unpackD:
  assumes "unpack_paths dstDir root target dir name"
  shows "dstDir = path_of root" "\<forall>c \<in> set root. proper c" "target = path_of (dir @ [name])" "\<forall>c \<in> set (dir @ [name]). proper c"
    "\<forall>c \<in> set dir. proper c" "ordinary name" "Dir target = path_of dir"
  using assms proper_ordinary Dir_path_of [of dir name] by (auto simp: unpack_paths_def list_all_iff)

text \<open>After the check the parent is resolved to a place below the root.\<close>

lemma parent_checked:
  assumes u: "unpack_paths dstDir root target dir name"
    and "ensureParentResolvedWithinRoot fs dstDir target = Inr ()" "dirs_to fs root"
  shows "\<exists>p. walk False 255 fs [] dir = Some p \<and> below root p"
proof -
  have "EvalSymlinks fs dstDir = Some root"
    using assms(3) unpackD(1,2) [OF u] proper_ordinary walk_dirs [of fs "[]" root False 255] by (simp add: EvalSymlinks_def walk_path_of)
  then obtain p rel where p: "EvalSymlinks fs (path_of dir) = Some p" "Rel (path_of root) (path_of p) = Inr rel" "\<not> leaves_root rel"
    using assms(2) by (auto simp: ensureParentResolvedWithinRoot_def unpackD(7) [OF u] split: option.splits sum.splits if_splits)
  have walk: "walk False 255 fs [] dir = Some p" using p(1) unpackD(5) [OF u] by (simp add: EvalSymlinks_def walk_path_of)
  then have "\<forall>c \<in> set p. proper c" using unpackD(5) [OF u] by (intro walk_proper [OF walk]) (auto simp: proper_def)
  then show ?thesis using walk Rel_below [OF unpackD(2) [OF u] _ p(2,3)] by blast
qed

lemma place_path_of:
  assumes "\<forall>c \<in> set (dir @ [name]). proper c"
  shows "place_of fs (path_of (dir @ [name])) = (case walk False 40 fs [] dir of
      None \<Rightarrow> None | Some d \<Rightarrow> if node_at fs d = Some Directory then Some (d @ [name]) else None)"
proof -
  obtain a l where al: "dir @ [name] = a # l" by (cases "dir @ [name]") auto
  then have ends: "butlast (a # l) = dir" "last (a # l) = name" by (metis butlast_snoc, metis last_snoc)
  have "elements (path_of (a # l)) = a # l" using elements_path_of [OF assms] al by simp
  then show ?thesis unfolding place_of_def al by (simp only: list.case ends)
qed

lemma same_parent: "walk False 255 fs [] dir = Some p \<Longrightarrow> walk False 40 fs [] dir = Some d \<Longrightarrow> d = p"
  using walk_more [of False 40 fs "[]" dir d 255] by simp

text \<open>A link is made below the root.\<close>

lemma link_below:
  assumes u: "unpack_paths dstDir root target dir name"
    and "walk False 255 fs [] dir = Some p" "below root p" "make_link fs l target = Some fs'"
  shows "confined root fs fs'"
proof -
  obtain q where q: "place_of fs target = Some q" "fs' = fs(q \<mapsto> SymLink l)"
    using assms(4) by (auto simp: make_link_def split: option.splits if_splits)
  then have "q = p @ [name]" using same_parent [OF assms(2)]
    unfolding unpackD(3) [OF u] place_path_of [OF unpackD(4) [OF u]] by (auto split: option.splits if_splits)
  then show ?thesis using q(2) assms(3) below_snoc confined_update by simp
qed

text \<open>A file is written below the root if its last name is no link.\<close>

lemma write_walk:
  assumes u: "unpack_paths dstDir root target dir name"
    and "walk False 255 fs [] dir = Some p" "write_file fs target c = Some fs'"
  shows "\<exists>q j. fs' = fs(q \<mapsto> RegularFile c) \<and> walk True j fs p [name] = Some q" "dirs_to fs p" "place_of fs target = Some (p @ [name])"
proof -
  obtain q where q: "walk True 40 fs [] (dir @ [name]) = Some q" "fs' = fs(q \<mapsto> RegularFile c)"
    using assms(3) unpackD(4) [OF u] by (auto simp: unpackD(3) [OF u] write_file_def walk_path_of split: option.splits node.splits)
  obtain j d where d: "walk False 40 fs [] dir = Some d" "dirs_to fs d" "walk True j fs d [name] = Some q"
    using walk_append [OF q(1)] by auto
  then have "d = p" using same_parent assms(2) by blast
  then show "\<exists>q j. fs' = fs(q \<mapsto> RegularFile c) \<and> walk True j fs p [name] = Some q" "dirs_to fs p" using d q by auto
  then show "place_of fs target = Some (p @ [name])" using d(1) dirs_to_node \<open>d = p\<close>
    unfolding unpackD(3) [OF u] place_path_of [OF unpackD(4) [OF u]] by simp
qed

lemma write_below:
  assumes u: "unpack_paths dstDir root target dir name"
    and "walk False 255 fs [] dir = Some p" "write_file fs target c = Some fs'" "\<And>l. fs (p @ [name]) \<noteq> Some (SymLink l)"
  shows "fs' = fs(p @ [name] \<mapsto> RegularFile c)"
proof -
  obtain q j where q: "fs' = fs(q \<mapsto> RegularFile c)" "walk True j fs p [name] = Some q" using write_walk(1) [OF assms(1-3)] by blast
  then have "q = p @ [name]" using assms(4) unpackD(6) [OF u]
    by (cases "fs (p @ [name])"; cases "the (fs (p @ [name]))") (auto simp: walk_none walk_dir walk_file)
  then show ?thesis using q(1) by simp
qed

text \<open>What \<open>Lstat\<close> does not report as a link is none.\<close>

lemma not_a_link:
  assumes u: "unpack_paths dstDir root target dir name"
    and "walk False 255 fs [] dir = Some p" "write_file fs target c = Some fs'" "\<And>l. Lstat fs target \<noteq> Some (SymLink l)"
  shows "fs (p @ [name]) \<noteq> Some (SymLink l)"
  using write_walk(3) [OF assms(1-3)] assms(4) by (auto simp: Lstat_def node_at_def)

text \<open>
  What every entry keeps: the directories above the root, the confinement, and, as long as there are
  none, that no link is below the root.
\<close>

definition no_links :: "names \<Rightarrow> file_system \<Rightarrow> bool" where
  "no_links root fs \<longleftrightarrow> (\<forall>p l. below root p \<longrightarrow> fs p \<noteq> Some (SymLink l))"

lemma dirs_only_no_links: "dirs_only a b \<Longrightarrow> no_links root a \<Longrightarrow> no_links root b"
  unfolding dirs_only_def no_links_def by (metis node.distinct(3) option.inject)

definition entry_keeps :: "bool \<Rightarrow> names \<Rightarrow> file_system \<Rightarrow> file_system \<Rightarrow> bool" where
  "entry_keeps linkfree root fs fs' \<longleftrightarrow> grows fs fs' \<and> confined root fs fs' \<and> (linkfree \<and> no_links root fs \<longrightarrow> no_links root fs')"

lemma keeps_refl: "entry_keeps b root fs fs"
  by (simp add: entry_keeps_def grows_refl confined_refl)

lemma keeps_trans: "entry_keeps b root x y \<Longrightarrow> entry_keeps b root y z \<Longrightarrow> entry_keeps b root x z"
  unfolding entry_keeps_def using grows_trans confined_trans by blast

lemma keeps_dirs: "dirs_only x y \<Longrightarrow> entry_keeps b root x y"
  unfolding entry_keeps_def using dirs_only_grows dirs_only_confined dirs_only_no_links by blast

text \<open>The common start: the body runs in a file system in which the parent is below the root.\<close>

lemma with_parent_keeps:
  assumes u: "unpack_paths dstDir root target dir name"
    and run: "with_parent dstDir target st body = (r, st')" "dirs_to (fst st) root"
    and body: "\<And>fs p r st'. dirs_to fs root \<Longrightarrow> walk False 255 fs [] dir = Some p \<Longrightarrow> below root p \<Longrightarrow>
       (b \<and> no_links root (fst st) \<longrightarrow> no_links root fs) \<Longrightarrow>
       body (fs, snd st) = (r, st') \<Longrightarrow> entry_keeps b root fs (fst st')"
  shows "entry_keeps b root (fst st) (fst st')"
proof (cases "MkdirAll (fst st) (Dir target)")
  case None
  then show ?thesis using run by (auto simp: with_parent_def io_fail_def keeps_refl)
next
  case (Some fs)
  then have d: "dirs_only (fst st) fs" by (rule MkdirAll_dirs)
  then have root: "dirs_to fs root" using run(2) dirs_only_grows grows_dirs_to by blast
  show ?thesis
  proof (cases "ensureParentResolvedWithinRoot fs dstDir target")
    case (Inl e)
    then show ?thesis using run Some keeps_dirs [OF d] by (auto simp: with_parent_def)
  next
    case (Inr x)
    then have ok: "ensureParentResolvedWithinRoot fs dstDir target = Inr ()" by simp
    obtain p where p: "walk False 255 fs [] dir = Some p" "below root p" using parent_checked [OF u ok root] by blast
    have "body (fs, snd st) = (r, st')" using run(1) Some Inr by (simp add: with_parent_def)
    then have "entry_keeps b root fs (fst st')" using body [OF root p] dirs_only_no_links [OF d] by blast
    then show ?thesis using keeps_trans keeps_dirs [OF d] by blast
  qed
qed

lemma place_dir_keeps: "place_dir target (fs, n) = (r, st) \<Longrightarrow> entry_keeps b root fs (fst st)"
  using MkdirAll_dirs keeps_dirs keeps_refl by (auto simp: place_dir_def io_fail_def split: option.splits)

lemma written_keeps:
  assumes "below root p" "write_file fs target c = Some fs'" "fs' = fs(p @ [name] \<mapsto> RegularFile c)"
  shows "entry_keeps b root fs fs'"
  using assms write_file_grows [OF assms(2)] below_snoc [OF assms(1)]
  by (auto simp: entry_keeps_def confined_def no_links_def)

lemma place_file_keeps:
  assumes u: "unpack_paths dstDir root target dir name" and p: "walk False 255 fs [] dir = Some p" "below root p"
    and run: "place_file target content (fs, n) = (r, st)"
  shows "entry_keeps b root fs (fst st)"
proof (cases "(\<exists>l. Lstat fs target = Some (SymLink l)) \<or> write_file fs target content = None")
  case True
  then show ?thesis using run by (auto simp: place_file_def io_fail_def keeps_refl split: option.splits node.splits)
next
  case False
  then obtain fs' where w: "write_file fs target content = Some fs'" "fst st = fs'"
    using run by (auto simp: place_file_def split: option.splits node.splits)
  have "fs' = fs(p @ [name] \<mapsto> RegularFile content)"
    using write_below [OF u p(1) w(1)] not_a_link [OF u p(1) w(1)] False by blast
  then show ?thesis using written_keeps [OF p(2) w(1)] w(2) by simp
qed

lemma place_symlink_keeps:
  assumes u: "unpack_paths dstDir root target dir name" and p: "walk False 255 fs [] dir = Some p" "below root p"
    and run: "place_symlink dstDir target l (fs, n) = (r, st)"
  shows "entry_keeps False root fs (fst st)"
  using run link_below [OF u p] make_link_grows
  by (auto simp: place_symlink_def io_fail_def entry_keeps_def grows_refl confined_refl split: sum.splits option.splits)

text \<open>A copy of a hard link follows a link at its target; it stays below the root only if there is none.\<close>

lemma place_copy_keeps:
  assumes u: "unpack_paths dstDir root target dir name" and p: "walk False 255 fs [] dir = Some p" "below root p"
    and "no_links root fs" and run: "place_copy lt target (fs, n) = (r, st)"
  shows "entry_keeps b root fs (fst st)"
proof -
  have "fs (p @ [name]) \<noteq> Some (SymLink k)" for k using assms(4) below_snoc [OF p(2)] unfolding no_links_def by blast
  then have "entry_keeps b root fs fs'" if "write_file fs target c = Some fs'" for c fs'
    using written_keeps [OF p(2) that] write_below [OF u p(1) that] by blast
  then show ?thesis using run by (auto simp: place_copy_def io_fail_def keeps_refl split: option.splits)
qed

text \<open>An entry that is no hard link, or a hard link where there are no symbolic links.\<close>

fun is_hardlink :: "tar_entry \<Rightarrow> bool" where
  "is_hardlink (TarLink _ _) \<longleftrightarrow> True"
| "is_hardlink _ \<longleftrightarrow> False"

fun is_symlink :: "tar_entry \<Rightarrow> bool" where
  "is_symlink (TarSymlink _ _) \<longleftrightarrow> True"
| "is_symlink _ \<longleftrightarrow> False"

lemma target_paths:
  assumes "dstDir = path_of root" "\<forall>c \<in> set root. proper c" "secureTarPath dstDir nm = Inr (Some target)"
  shows "\<exists>dir name. unpack_paths dstDir root target dir name"
proof -
  have abs: "clean_abs dstDir" using path_of_abs assms(1,2) by simp
  obtain rest where t: "clean_abs target" "rest \<noteq> []" "elements target = root @ rest" "list_all proper rest"
    using tar_path_below [OF abs assms(3)] assms(1,2) elements_path_of by auto
  then have "target = path_of ((root @ butlast rest) @ [last rest])" using clean_abs_path [OF t(1)] by simp
  moreover have "list_all proper (butlast rest)" "proper (last rest)"
    using t(2,4) in_set_butlastD by (fastforce simp: list_all_iff)+
  ultimately show ?thesis using assms(1,2) unfolding unpack_paths_def by (metis list_all_append list_all_iff)
qed

lemma extract_entry_keeps:
  assumes root: "dstDir = path_of root" "\<forall>c \<in> set root. proper c" and st: "dirs_to (fst st) root"
    and run: "extract_entry dstDir limit e st = (r, st')"
    and kind: "if b then \<not> is_symlink e \<and> no_links root (fst st) else \<not> is_hardlink e"
  shows "entry_keeps b root (fst st) (fst st')"
proof (cases "\<exists>target. secureTarPath dstDir (entry_name e) = Inr (Some target)")
  case False
  then show ?thesis using run by (cases e) (auto simp: extract_entry_def io_fail_def keeps_refl split: sum.splits option.splits)
next
  case True
  then obtain target where t: "secureTarPath dstDir (entry_name e) = Inr (Some target)" by blast
  obtain dir name where u: "unpack_paths dstDir root target dir name" using target_paths [OF root t] by blast
  have wp: "entry_keeps b root (fst st) (fst st')"
    if "with_parent dstDir target st body = (r, st')"
      "\<And>fs p r t. walk False 255 fs [] dir = Some p \<Longrightarrow> below root p \<Longrightarrow> (b \<longrightarrow> no_links root fs) \<Longrightarrow>
         body (fs, snd st) = (r, t) \<Longrightarrow> entry_keeps b root fs (fst t)" for body
    using with_parent_keeps [OF u that(1) st] that(2) kind by (metis (full_types))
  show ?thesis
  proof (cases e)
    case (TarDir n)
    then have "with_parent dstDir target st (place_dir target) = (r, st')" using run t by (simp add: extract_entry_def)
    then show ?thesis by (rule wp) (rule place_dir_keeps)
  next
    case (TarReg n content)
    show ?thesis
    proof (cases "maxSingleFileBytes < content_size content \<or> limit < snd st + content_size content")
      case True
      then show ?thesis using run TarReg t by (auto simp: extract_entry_def extract_reg_def io_fail_def keeps_refl split: if_splits)
    next
      case False
      then show ?thesis using run TarReg t place_file_keeps [OF u] by (intro wp) (auto simp: extract_entry_def extract_reg_def)
    qed
  next
    case (TarLink n l)
    then have b: "b" using kind by (cases b) auto
    show ?thesis
    proof (cases "ensureParentResolvedWithinRoot (fst st) dstDir (Join [dstDir, Clean l])")
      case (Inl x)
      then show ?thesis using run TarLink t by (auto simp: extract_entry_def extract_link_def keeps_refl Let_def)
    next
      case (Inr x)
      then show ?thesis using run TarLink t place_copy_keeps [OF u] b by (intro wp) (auto simp: extract_entry_def extract_link_def Let_def)
    qed
  next
    case (TarSymlink n l)
    then have b: "\<not> b" using kind by (cases b) auto
    then show ?thesis using run TarSymlink t place_symlink_keeps [OF u] by (intro wp) (auto simp: extract_entry_def)
  next
    case (TarOther n)
    then show ?thesis using run t by (auto simp: extract_entry_def io_fail_def keeps_refl)
  next
    case (TarBroken x)
    then show ?thesis using run by (auto simp: extract_entry_def keeps_refl)
  qed
qed

lemma extract_entries_keep:
  assumes root: "dstDir = path_of root" "\<forall>c \<in> set root. proper c"
  shows "dirs_to (fst st) root \<Longrightarrow> extract_entries dstDir limit es st = (r, st') \<Longrightarrow>
    (if b then list_all (\<lambda>e. \<not> is_symlink e) es \<and> no_links root (fst st) else list_all (\<lambda>e. \<not> is_hardlink e) es) \<Longrightarrow>
    entry_keeps b root (fst st) (fst st')"
proof (induction es arbitrary: st)
  case Nil
  then show ?case by (auto simp: keeps_refl)
next
  case (Cons e es)
  obtain r1 st1 where one: "extract_entry dstDir limit e st = (r1, st1)" by (metis prod.exhaust)
  have k: "entry_keeps b root (fst st) (fst st1)"
    using extract_entry_keeps [OF root Cons.prems(1) one, of b] Cons.prems(3) by (auto split: if_splits)
  then have d: "dirs_to (fst st1) root" using Cons.prems(1) grows_dirs_to unfolding entry_keeps_def by blast
  show ?case
  proof (cases r1)
    case (Inl x)
    then show ?thesis using Cons.prems(2) one k by auto
  next
    case (Inr x)
    have "if b then list_all (\<lambda>e. \<not> is_symlink e) es \<and> no_links root (fst st1) else list_all (\<lambda>e. \<not> is_hardlink e) es"
      using Cons.prems(3) k by (auto simp: entry_keeps_def split: if_splits)
    then have "entry_keeps b root (fst st1) (fst st')" using Cons.IH [OF d] Cons.prems(2) one Inr by auto
    then show ?thesis using k keeps_trans by blast
  qed
qed

text \<open>
  C36: unpacking an archive stays in its directory. If the directory is reached without links, and
  the archive has no hard links, or has no symbolic links and none are there before, then whatever
  else the archive holds, also when the unpacking fails half-way: outside of the directory no file,
  directory or link is changed or removed, and nothing but directories is new.
\<close>
theorem extraction_confined:
  assumes "clean_abs dstDir" "dirs_to fs (elements dstDir)"
    and "extractOpenClawTarZstd (es, got) manifest dstDir fs = (r, fs')"
    and "list_all (\<lambda>e. \<not> is_hardlink e) es \<or> list_all (\<lambda>e. \<not> is_symlink e) es \<and> no_links (elements dstDir) fs"
    and "\<not> below (elements dstDir) p"
  shows "fs' p = fs p \<or> fs p = None \<and> fs' p = Some Directory"
proof -
  have root: "dstDir = path_of (elements dstDir)" "\<forall>c \<in> set (elements dstDir). proper c"
    using clean_abs_path clean_abs_proper assms(1) by blast+
  obtain r1 st where run: "extract_entries dstDir (extract_limit manifest) es (fs, 0) = (r1, st)" by (metis prod.exhaust)
  have "fs' = fst st" using assms(3) run
    by (auto simp: extractOpenClawTarZstd_def split: prod.splits sum.splits if_splits option.splits node.splits)
  moreover obtain b where "if b then list_all (\<lambda>e. \<not> is_symlink e) es \<and> no_links (elements dstDir) fs else list_all (\<lambda>e. \<not> is_hardlink e) es"
    using assms(4) by (metis (full_types))
  then have "entry_keeps b (elements dstDir) fs (fst st)"
    using extract_entries_keep [OF root, of "(fs, 0)"] assms(2) run by auto
  ultimately show ?thesis using assms(5) by (auto simp: entry_keeps_def confined_def)
qed

section \<open>Archives\<close>

definition host_files :: file_system where
  "host_files = [[''s''] \<mapsto> Directory, [''s'', ''d''] \<mapsto> Directory, [''etc''] \<mapsto> Directory]"

definition small_manifest :: release_manifest where
  "small_manifest = \<lparr>rm_SchemaVersion = 1, rm_Kind = ''openclaw'', rm_Version = ''1.0'', rm_Channel = '''', rm_GitCommit = '''',
     rm_ArtifactURL = ''gs://b/o'', rm_Compression = ''zstd'', rm_SizeBytes = 2, rm_SHA256 = ''h'',
     rm_Runtime = \<lparr>rp_EntrypointRelpath = ''bin'', rp_BundledPluginsRelpath = ''ext''\<rparr>\<rparr>"

definition plain_archive :: "tar_entry list" where
  "plain_archive = [TarDir ''ext'', TarReg ''bin'' (Bytes ''run''), TarSymlink ''b'' ''bin'']"

lemma plain_extracted:
  "fst (extractOpenClawTarZstd (plain_archive, ''h'') small_manifest ''/s/d'' host_files) = Inr ()"
  by code_simp

theorem extraction_confined_witness:
  "snd (extractOpenClawTarZstd (plain_archive, ''h'') small_manifest ''/s/d'' host_files) [''etc'', ''cron''] = None \<or>
   snd (extractOpenClawTarZstd (plain_archive, ''h'') small_manifest ''/s/d'' host_files) [''etc'', ''cron''] = Some Directory"
proof -
  have dst: "clean_abs ''/s/d''" "elements ''/s/d'' = [''s'', ''d'']" "list_all (\<lambda>e. \<not> is_hardlink e) plain_archive"
    "\<not> below [''s'', ''d''] [''etc'', ''cron'']" "host_files [''etc'', ''cron''] = None" by code_simp+
  have "dirs_to host_files [''s'', ''d'']" using dirs_to_snoc [of host_files "[''s'']" "''d''"] dirs_to_snoc [of host_files "[]" "''s''"]
    by (simp add: host_files_def)
  then show ?thesis
    using extraction_confined [OF dst(1) _ surjective_pairing, where fs = host_files and es = plain_archive and got = "''h''" and
        manifest = small_manifest and p = "[''etc'', ''cron'']"] dst
    by simp
qed

text \<open>Links that lie inside by their names and lead outside, and a hard link onto one of them.\<close>

definition evil_archive :: "tar_entry list" where
  "evil_archive = [TarDir ''a/b'', TarSymlink ''a/b/up'' ''../..'', TarSymlink ''a/b/up/m'' ''../../../etc/cron'',
     TarReg ''x'' (Bytes ''evil''), TarLink ''m'' ''x'']"

text \<open>
  With both kinds of links an archive can write outside of its directory. A symbolic link is
  checked by its names only, so one that is made through another link can lead out of the directory;
  and the copy of a hard link, unlike a regular file, is written through a link at its place. The
  file lies outside before the hash of the archive is even looked at.
\<close>
theorem hard_link_escapes:
  "\<exists>es. \<forall>got. snd (extractOpenClawTarZstd (es, got) small_manifest ''/s/d'' host_files) [''etc'', ''cron''] = Some (RegularFile (Bytes ''evil'')) \<and>
     host_files [''etc'', ''cron''] = None"
proof -
  have run: "fst (snd (extract_entries ''/s/d'' (extract_limit small_manifest) evil_archive (host_files, 0))) [''etc'', ''cron''] =
      Some (RegularFile (Bytes ''evil''))" by code_simp
  have "snd (extractOpenClawTarZstd (evil_archive, got) small_manifest ''/s/d'' host_files) =
      fst (snd (extract_entries ''/s/d'' (extract_limit small_manifest) evil_archive (host_files, 0)))" for got
    by (auto simp: extractOpenClawTarZstd_def split: prod.splits sum.splits option.splits node.splits)
  moreover have "host_files [''etc'', ''cron''] = None" by (simp add: host_files_def)
  ultimately show ?thesis using run by metis
qed

section \<open>The size of what is unpacked\<close>

lemma with_parent_total:
  assumes "with_parent dstDir target st body = (r, st')"
    "\<And>fs r st'. body (fs, snd st) = (r, st') \<Longrightarrow> snd st' \<le> snd st + n" "0 \<le> n"
  shows "snd st' \<le> snd st + n"
  using assms by (auto simp: with_parent_def io_fail_def split: option.splits sum.splits)

lemma place_totals:
  "place_file target c (fs, n) = (r, st) \<Longrightarrow> snd st \<le> n + content_size c"
  "place_dir target (fs, n) = (r, st) \<Longrightarrow> snd st \<le> n + 0"
  "place_symlink dstDir target l (fs, n) = (r, st) \<Longrightarrow> snd st \<le> n + 0"
proof -
  have "0 \<le> content_size c" by (cases c) auto
  then show "place_file target c (fs, n) = (r, st) \<Longrightarrow> snd st \<le> n + content_size c"
    by (auto simp: place_file_def io_fail_def split: option.splits node.splits)
qed (auto simp: place_dir_def place_symlink_def io_fail_def split: option.splits sum.splits)

lemma extract_entry_total:
  assumes "extract_entry dstDir limit e st = (r, st')" "\<not> is_hardlink e" "snd st \<le> max 0 limit"
  shows "snd st' \<le> max 0 limit"
proof (cases e)
  case (TarReg n c)
  have "content_size c \<ge> 0" by (cases c) auto
  then have "snd st' \<le> snd st + content_size c" if "with_parent dstDir target st (place_file target c) = (r, st')" for target
    by (intro with_parent_total [OF that]) (auto dest: place_totals)
  then show ?thesis using assms TarReg
    by (fastforce simp: extract_entry_def extract_reg_def io_fail_def split: sum.splits option.splits if_splits)
next
  case (TarDir n)
  have "snd st' \<le> snd st + 0" if "with_parent dstDir target st (place_dir target) = (r, st')" for target
    by (intro with_parent_total [OF that]) (auto dest: place_totals)
  then show ?thesis using assms TarDir by (fastforce simp: extract_entry_def split: sum.splits option.splits)
next
  case (TarSymlink n l)
  have "snd st' \<le> snd st + 0" if "with_parent dstDir target st (place_symlink dstDir target l) = (r, st')" for target
    by (intro with_parent_total [OF that]) (auto dest: place_totals)
  then show ?thesis using assms TarSymlink by (fastforce simp: extract_entry_def split: sum.splits option.splits)
qed (use assms in \<open>auto simp: extract_entry_def io_fail_def split: sum.splits option.splits\<close>)

text \<open>
  The size of what is unpacked from an archive without hard links is bounded by the limit that the
  manifest gives, which is at most two gigabytes, also when the product with the size of the manifest
  overflows.
\<close>
theorem extraction_bounded:
  assumes "list_all (\<lambda>e. \<not> is_hardlink e) es" "extract_entries dstDir (extract_limit manifest) es (fs, 0) = (r, fs', bytes)"
  shows "bytes \<le> max 0 (extract_limit manifest) \<and> extract_limit manifest \<le> 2 * 2 ^ 30"
proof -
  have "list_all (\<lambda>e. \<not> is_hardlink e) es \<Longrightarrow> extract_entries dstDir limit es st = (r, st') \<Longrightarrow> snd st \<le> max 0 limit \<Longrightarrow>
      snd st' \<le> max 0 limit" for limit st st'
  proof (induction es arbitrary: st)
    case (Cons e es)
    obtain r1 st1 where one: "extract_entry dstDir limit e st = (r1, st1)" by (metis prod.exhaust)
    have "snd st1 \<le> max 0 limit" using extract_entry_total [OF one] Cons.prems by simp
    then show ?case using Cons one by (cases r1) auto
  qed auto
  from this [of "extract_limit manifest" "(fs, 0)" "(fs', bytes)"] show ?thesis using assms by (simp add: extract_limit_def)
qed

theorem extraction_bounded_witness:
  "snd (snd (extract_entries ''/s/d'' (extract_limit small_manifest) plain_archive (host_files, 0))) \<le> 20"
proof -
  have "extract_limit small_manifest = 20" "list_all (\<lambda>e. \<not> is_hardlink e) plain_archive" by code_simp+
  then show ?thesis
    using extraction_bounded [of plain_archive "''/s/d''" small_manifest host_files] by (metis prod.collapse max_def zero_le_numeral)
qed

text \<open>
  The copies of hard links are counted but never checked: an archive of sixteen bytes with a limit of
  twenty leaves forty-eight.
\<close>

definition bomb_archive :: "tar_entry list" where
  "bomb_archive = [TarReg ''x'' (Bytes ''0123456789abcdef''), TarLink ''y'' ''x'', TarLink ''z'' ''x'']"

lemma hard_links_uncounted:
  "extract_limit small_manifest = 20 \<and>
   (case extract_entries ''/s/d'' (extract_limit small_manifest) bomb_archive (host_files, 0) of (r, fs, n) \<Rightarrow> r = Inr () \<and> n = 48)"
  by code_simp

section \<open>Only checked archives are published\<close>

definition checked_at :: "release_source \<Rightarrow> nat \<Rightarrow> string \<Rightarrow> bool" where
  "checked_at src i version \<longleftrightarrow> (\<exists>manifest es dstDir fs1 fs2.
     fetchReleaseManifest src i version = Inr manifest \<and> rm_Version manifest = version \<and>
     rs_archive src i (rm_ArtifactURL manifest) = Inr (es, rm_SHA256 manifest) \<and>
     extractOpenClawTarZstd (es, rm_SHA256 manifest) manifest dstDir fs1 = (Inr (), fs2))"

lemma extracted_hash: "extractOpenClawTarZstd arc manifest dstDir fs = (Inr x, fs') \<Longrightarrow> snd arc = rm_SHA256 manifest"
  by (auto simp: extractOpenClawTarZstd_def split: prod.splits sum.splits if_splits)

lemma stage_checked:
  assumes "stage_release src i manifest dstDir path fs = (Inr x, fs')"
  shows "\<exists>es fs2. rs_archive src i (rm_ArtifactURL manifest) = Inr (es, rm_SHA256 manifest) \<and>
     extractOpenClawTarZstd (es, rm_SHA256 manifest) manifest dstDir fs = (Inr (), fs2)"
proof -
  obtain arc y fs2 where a: "rs_archive src i (rm_ArtifactURL manifest) = Inr arc" "extractOpenClawTarZstd arc manifest dstDir fs = (Inr y, fs2)"
    using assms by (auto simp: stage_release_def split: sum.splits prod.splits)
  then have "arc = (fst arc, rm_SHA256 manifest)" using extracted_hash [OF a(2)] by (cases arc) simp
  then show ?thesis using a by (metis unit_eq)
qed

lemma once_checked: "ensureReleaseOnce src i runtimeDir version path fs = (Inr x, fs') \<Longrightarrow> checked_at src i version"
  unfolding ensureReleaseOnce_def checked_at_def
  by (auto simp: Let_def split: sum.splits if_splits option.splits prod.splits dest!: stage_checked)

lemma try_checked:
  "try_releases src n i lastErr runtimeDir version path fs = (Inr q, fs') \<Longrightarrow>
   q = path \<and> (\<exists>j. i \<le> j \<and> j < i + n \<and> checked_at src j version)"
proof (induction n arbitrary: i lastErr fs)
  case (Suc n)
  obtain r fs1 where once: "ensureReleaseOnce src i runtimeDir version path fs = (r, fs1)" by (metis prod.exhaust)
  show ?case
  proof (cases r)
    case (Inl e)
    then have "try_releases src n (Suc i) e runtimeDir version path fs1 = (Inr q, fs')" using Suc.prems once by (simp split: if_splits)
    from Suc.IH [OF this] show ?thesis by (metis Suc_leD add_Suc_shift)
  next
    case (Inr x)
    then show ?thesis using Suc.prems once once_checked [of src i runtimeDir version path fs x fs1] by (auto split: if_splits)
  qed
qed simp

text \<open>
  A release that is reported as staged was checked. If \<open>EnsureRelease\<close> succeeds, it returns the
  path of the release of the version that was asked for, and either the release was there and ready,
  or some attempt, of which there are at most as many as configured, read a manifest of exactly this
  version and an archive whose hash is the one of the manifest, and unpacked it without an error.
\<close>
theorem staged_release_checked:
  assumes "EnsureRelease src runtimeDir version fs = (Inr path, fs')"
  shows "path = Join [trim_space runtimeDir, ''releases'', trim_space version] \<and> ValidateOpenClawVersion (trim_space version) = Inr () \<and>
    ((\<exists>fs1. MkdirAll fs (trim_space runtimeDir) = Some fs1 \<and> openClawReleaseReady (rs_time_ok src) fs1 path \<and> fs' = fs1) \<or>
     (\<exists>i \<ge> 1. int i \<le> max 1 (rs_attempts src) \<and> checked_at src i (trim_space version)))"
proof -
  obtain fs1 where v: "ValidateOpenClawVersion (trim_space version) = Inr ()" and m: "MkdirAll fs (trim_space runtimeDir) = Some fs1"
    using assms by (auto simp: EnsureRelease_def Let_def split: sum.splits if_splits option.splits)
  let ?path = "Join [trim_space runtimeDir, ''releases'', trim_space version]"
  let ?n = "if rs_attempts src \<le> 0 then 1 else nat (rs_attempts src)"
  show ?thesis
  proof (cases "openClawReleaseReady (rs_time_ok src) fs1 ?path")
    case True
    then show ?thesis using assms v m by (auto simp: EnsureRelease_def Let_def split: if_splits)
  next
    case False
    then obtain fs3 where "try_releases src ?n 1 (ErrText '''') (trim_space runtimeDir) (trim_space version) ?path fs3 = (Inr path, fs')"
      using assms v m by (auto simp: EnsureRelease_def Let_def split: if_splits sum.splits option.splits)
    from try_checked [OF this] obtain j where j: "path = ?path" "1 \<le> j" "j < 1 + ?n" "checked_at src j (trim_space version)" by blast
    then have "int j \<le> max 1 (rs_attempts src)" by (auto split: if_splits)
    then show ?thesis using j v by blast
  qed
qed

definition sample_source :: release_source where
  "sample_source = \<lparr>rs_manifestURI = ''gs://b/openclaw/manifest.json'', rs_attempts = 2, rs_time_ok = (\<lambda>_. True),
     rs_url_path = (\<lambda>u. Inr u),
     rs_document = (\<lambda>i u. if i = 1 then Inl (ErrRemote ''reset'') else Inr (Some (JObj [(''version'', JStr ''1.0''),
        (''artifact_url'', JStr ''gs://b/o''), (''sha256'', JStr ''h'')]))),
     rs_archive = (\<lambda>i u. Inr ([TarReg ''bin/openclaw'' (Bytes ''run''), TarDir ''dist/extensions''], ''h'')),
     rs_lock = Inr (), rs_txn = (\<lambda>i. Inr ''t''), rs_cancelled = (\<lambda>_. False), rs_marshal = (\<lambda>m. (JNull, 4))\<rparr>"

lemma sample_staged: "fst (EnsureRelease sample_source ''/r'' ''1.0'' Map.empty) = Inr ''/r/releases/1.0''"
  by code_simp

theorem staged_release_checked_witness:
  "fst (EnsureRelease sample_source ''/r'' ''1.0'' Map.empty) = Inr ''/r/releases/1.0'' \<and>
   (\<exists>i. i \<le> 2 \<and> checked_at sample_source i ''1.0'')"
proof -
  have "EnsureRelease sample_source ''/r'' ''1.0'' Map.empty = (Inr ''/r/releases/1.0'', snd (EnsureRelease sample_source ''/r'' ''1.0'' Map.empty))"
    using sample_staged by (metis prod.collapse)
  note res = staged_release_checked [OF this]
  have t: "trim_space ''/r'' = ''/r''" "trim_space ''1.0'' = ''1.0''" by code_simp+
  have "case MkdirAll Map.empty ''/r'' of Some fs1 \<Rightarrow> \<not> openClawReleaseReady (\<lambda>_. True) fs1 ''/r/releases/1.0'' | None \<Rightarrow> False" by code_simp
  then have "\<not> (\<exists>fs1. MkdirAll Map.empty ''/r'' = Some fs1 \<and> openClawReleaseReady (rs_time_ok sample_source) fs1 ''/r/releases/1.0'')"
    by (auto simp: sample_source_def)
  then obtain i where "int i \<le> max 1 (rs_attempts sample_source)" "checked_at sample_source i ''1.0''" using res unfolding t by blast
  then show ?thesis using sample_staged by (intro conjI exI [of _ i]) (simp_all add: sample_source_def)
qed

end
