(* ===== verification/Api_Proxy.thy ===== *)
theory Api_Proxy
  imports Metadata_Server Go_Url
begin

text \<open>
  \<open>internal/apiproxy\<close>: the proxy through which VMs call language-model and messaging APIs. A VM sends
  its nonce instead of a key; the proxy finds the VM by address and nonce (\<open>internal/metadata\<close>), puts
  the real key of its account into the request, forwards it and counts what was used. What a text
  parses to as JSON and what a time stamp means are arguments (\<open>parse\<close>, \<open>rfc3339\<close>).
\<close>

section \<open>Usage (usage.go, pricing.go)\<close>

record usage_record =
  ur_AccountID :: int
  ur_MachineID :: string
  ur_Provider :: string
  ur_Model :: string
  ur_InputTokens :: int
  ur_OutputTokens :: int
  ur_CostMicrocents :: int
  ur_Source :: string
  ur_Timestamp :: time

record usage_tracker =
  ut_records :: "string \<rightharpoonup> usage_record list"
  ut_spend :: "string \<rightharpoonup> int"

definition NewUsageTracker :: usage_tracker where
  "NewUsageTracker = \<lparr>ut_records = Map.empty, ut_spend = Map.empty\<rparr>"

text \<open>Addition of \<open>int64\<close>.\<close>

definition wrap64 :: "int \<Rightarrow> int" where
  "wrap64 x = (x + 2 ^ 63) mod 2 ^ 64 - 2 ^ 63"

definition GetSpend :: "string \<Rightarrow> usage_tracker \<Rightarrow> int" where
  "GetSpend machineID t = deref_or 0 (ut_spend t machineID)"

definition GetRecords :: "string \<Rightarrow> usage_tracker \<Rightarrow> usage_record list" where
  "GetRecords machineID t = deref_or [] (ut_records t machineID)"

definition GetAllRecords :: "usage_tracker \<Rightarrow> (string \<rightharpoonup> usage_record list)" where
  "GetAllRecords t = ut_records t"

definition Record :: "usage_record \<Rightarrow> usage_tracker \<Rightarrow> usage_tracker" where
  "Record rec t = (let m = ur_MachineID rec in
     t\<lparr>ut_records := (ut_records t)(m \<mapsto> GetRecords m t @ [rec]),
       ut_spend := (ut_spend t)(m \<mapsto> wrap64 (GetSpend m t + ur_CostMicrocents rec))\<rparr>)"

definition RemoveMachine :: "string \<Rightarrow> usage_tracker \<Rightarrow> usage_tracker" where
  "RemoveMachine machineID t = t\<lparr>ut_records := (ut_records t)(machineID := None), ut_spend := (ut_spend t)(machineID := None)\<rparr>"

definition FlushUsage :: "string \<Rightarrow> usage_tracker \<Rightarrow> usage_record list \<times> usage_tracker" where
  "FlushUsage machineID t = (GetRecords machineID t, RemoveMachine machineID t)"

definition CalculateCost :: "string \<Rightarrow> int \<Rightarrow> int \<Rightarrow> int" where
  "CalculateCost model inputTokens outputTokens = 0"

definition usageSource :: "string \<Rightarrow> string" where
  "usageSource name = (if name = ''nebius'' then ''platform'' else if name = ''openai-codex'' then ''subscription'' else ''byok'')"

section \<open>Requests\<close>

text \<open>A header by the lower-case form of its name; its values in order.\<close>

type_synonym header = "string \<Rightarrow> string list"

definition header_get :: "string \<Rightarrow> header \<Rightarrow> string" where
  "header_get k h = (case h (map lower k) of v # _ \<Rightarrow> v | [] \<Rightarrow> '''')"

definition header_set :: "string \<Rightarrow> string \<Rightarrow> header \<Rightarrow> header" where
  "header_set k v h = h(map lower k := [v])"

text \<open>
  A body is bytes that were passed on or a document that was marshalled; a body that cannot be read
  to its end breaks the request that it is sent with.
\<close>

datatype payload = Bytes string | Document json

datatype out_body = Sends payload | Breaks

fun parsed :: "(string \<Rightarrow> json option) \<Rightarrow> payload \<Rightarrow> json option" where
  "parsed parse (Bytes s) = parse s"
| "parsed parse (Document j) = Some j"

record upstream_request =
  uq_Method :: string
  uq_URL :: url
  uq_Header :: header
  uq_Body :: out_body

text \<open>
  A request of a VM. The path is unescaped and the names in the header are unique up to case, as the server makes them; the body
  may end in a read error. \<open>px_Accepts\<close> is the number of lines of a stream that the client stays for.
\<close>

record proxy_request =
  px_RemoteAddr :: string
  px_Method :: string
  px_Path :: string
  px_RawQuery :: string
  px_Header :: header
  px_Body :: string
  px_BodyFails :: bool
  px_Accepts :: nat

section \<open>Providers (providers.go)\<close>

datatype mutation = Mutated payload | MutateFails | MutatePanics

type_synonym usage = "string \<times> int \<times> int"

record provider =
  pv_Name :: string
  pv_UpstreamHost :: string
  pv_Scheme :: string
  pv_PathPrefix :: string
  pv_UpstreamPathPrefix :: string
  pv_AllowedHosts :: "string list"
  pv_ResolveHost :: "(string \<Rightarrow> string) option"
  pv_KeyOptional :: bool
  pv_InjectKey :: "string \<Rightarrow> string \<Rightarrow> upstream_request \<Rightarrow> upstream_request"
  pv_MutateBody :: "(string \<Rightarrow> string \<Rightarrow> mutation) option"
  pv_ExtractToken :: "header \<Rightarrow> string"
  pv_ParseJSONUsage :: "(payload \<Rightarrow> usage) option"
  pv_ParseSSEEvent :: "(string \<Rightarrow> string \<Rightarrow> usage \<times> bool) option"

definition extractBearerOrXAPIKey :: "header \<Rightarrow> string" where
  "extractBearerOrXAPIKey h = (let auth = trim_space (header_get ''Authorization'' h);
       token = (if has_prefix auth ''Bearer '' then trim_space (drop 7 auth) else '''')
     in if token \<noteq> '''' then token else trim_space (header_get ''x-api-key'' h))"

text \<open>
  A document decoded into \<open>interface{}\<close> and marshalled again: of the values of a key the last counts,
  keys are sorted, and numbers go through \<open>float64\<close>, which keeps 53 bits of an integer.
\<close>

fun excess_bits :: "nat \<Rightarrow> nat" where
  "excess_bits n = (if n < 2 ^ 53 then 0 else Suc (excess_bits (n div 2)))"

definition float_nat :: "nat \<Rightarrow> nat" where
  "float_nat n = (let u = 2 ^ excess_bits n; q = n div u; r = n mod u in
     (if 2 * r < u \<or> (2 * r = u \<and> even q) then q else q + 1) * u)"

definition float64 :: "int \<Rightarrow> int" where
  "float64 i = (if i < 0 then - int (float_nat (nat (- i))) else int (float_nat (nat i)))"

fun last_values :: "(string \<times> 'a) list \<Rightarrow> (string \<times> 'a) list" where
  "last_values [] = []"
| "last_values ((k, v) # kvs) = (if k \<in> fst ` set kvs then last_values kvs else (k, v) # last_values kvs)"

definition map_entries :: "(string \<times> 'a) list \<Rightarrow> (string \<times> 'a) list" where
  "map_entries kvs = sort_by (\<lambda>a b. byte_less (fst a) (fst b)) (last_values kvs)"

primrec go_value :: "json \<Rightarrow> json" where
  "go_value JNull = JNull"
| "go_value (JBool b) = JBool b"
| "go_value (JNum n) = JNum (float64 n)"
| "go_value (JStr s) = JStr s"
| "go_value (JArr xs) = JArr (map go_value xs)"
| "go_value (JObj kvs) = JObj (map_entries (map (map_prod id go_value) kvs))"

text \<open>The entries of a body that is decoded into a map: \<open>null\<close> gives a nil map.\<close>

definition decode_map :: "(string \<Rightarrow> json option) \<Rightarrow> string \<Rightarrow> (string \<times> json) list option result" where
  "decode_map parse body = (case parse body of
      Some JNull \<Rightarrow> Inr None
    | Some (JObj kvs) \<Rightarrow> (case go_value (JObj kvs) of JObj es \<Rightarrow> Inr (Some es) | _ \<Rightarrow> Inr None)
    | _ \<Rightarrow> Inl json_error)"

text \<open>Assignment to a key of a map.\<close>

definition put_entry :: "string \<Rightarrow> json \<Rightarrow> (string \<times> json) list \<Rightarrow> json" where
  "put_entry k v es = JObj (map_entries (es @ [(k, v)]))"

definition stripJSONFields :: "(string \<Rightarrow> json option) \<Rightarrow> string list \<Rightarrow> string \<Rightarrow> mutation" where
  "stripJSONFields parse names body =
     (if names = [] then Mutated (Bytes body)
      else (case decode_map parse body of
          Inl _ \<Rightarrow> MutateFails
        | Inr None \<Rightarrow> Mutated (Bytes body)
        | Inr (Some es) \<Rightarrow>
            if list_ex (\<lambda>f. f \<in> fst ` set es) names
            then Mutated (Document (JObj (filter (\<lambda>(k, v). k \<notin> set names) es))) else Mutated (Bytes body)))"

definition anthropicSubscriptionIdentity :: string where
  "anthropicSubscriptionIdentity = ''You are Claude Code, Anthropic's official CLI for Claude.''"

definition text_block :: "string \<Rightarrow> json" where
  "text_block t = JObj [(''text'', JStr t), (''type'', JStr ''text'')]"

text \<open>Assigning to the nil map that \<open>null\<close> decodes to panics.\<close>

definition injectAnthropicSubscriptionIdentity :: "(string \<Rightarrow> json option) \<Rightarrow> string \<Rightarrow> mutation" where
  "injectAnthropicSubscriptionIdentity parse body = (case decode_map parse body of
      Inl _ \<Rightarrow> MutateFails
    | Inr None \<Rightarrow> MutatePanics
    | Inr (Some es) \<Rightarrow>
        (let identity = text_block anthropicSubscriptionIdentity;
             system = (case map_of es ''system'' of
                 Some (JArr existing) \<Rightarrow> identity # existing
               | Some (JStr existing) \<Rightarrow> [identity, text_block existing]
               | _ \<Rightarrow> [identity])
         in Mutated (Document (put_entry ''system'' (JArr system) es))))"

definition request_stream_usage :: "(string \<Rightarrow> json option) \<Rightarrow> string \<Rightarrow> mutation" where
  "request_stream_usage parse body = (case decode_map parse body of
      Inr (Some es) \<Rightarrow> if ''stream'' \<in> fst ` set es
        then Mutated (Document (put_entry ''stream_options'' (JObj [(''include_usage'', JBool True)]) es)) else Mutated (Bytes body)
    | _ \<Rightarrow> Mutated (Bytes body))"

subsection \<open>What a reply tells about usage\<close>

text \<open>A struct of two token counts, and one with the model and the counts.\<close>

fun decode_counts :: "string \<Rightarrow> string \<Rightarrow> (int \<times> int) decoder" where
  "decode_counts a b (x, y) (JObj kvs) =
     (let (x', bad) = decode_field decode_int a x kvs; (y', bad') = decode_field decode_int b y kvs in ((x', y'), bad \<or> bad'))"
| "decode_counts a b old JNull = (old, False)"
| "decode_counts a b old _ = (old, True)"

definition json_usage :: "string \<Rightarrow> string \<Rightarrow> (string \<Rightarrow> json option) \<Rightarrow> payload \<Rightarrow> usage" where
  "json_usage a b parse body = (case parsed parse body of
      Some (JObj kvs) \<Rightarrow>
        (let (model, bad) = decode_field decode_string ''model'' '''' kvs;
             ((x, y), bad') = decode_field (decode_counts a b) ''usage'' (0, 0) kvs
         in if bad \<or> bad' then ('''', 0, 0) else (model, x, y))
    | _ \<Rightarrow> ('''', 0, 0))"

text \<open>A chunk of a stream in the style of OpenAI: the usage is a pointer.\<close>

definition chunk_usage :: "string \<Rightarrow> string \<Rightarrow> (string \<Rightarrow> json option) \<Rightarrow> string \<Rightarrow> string \<Rightarrow> usage \<times> bool" where
  "chunk_usage a b parse event data0 = (let data = trim_space data0 in
     if data = ''[DONE]'' then (('''', 0, 0), True)
     else (case parse data of
         Some (JObj kvs) \<Rightarrow>
           (let (model, bad) = decode_field decode_string ''model'' '''' kvs;
                (counts, bad') = decode_field (decode_pointer (0, 0) (decode_counts a b)) ''usage'' None kvs
            in if bad \<or> bad' then (('''', 0, 0), False)
               else (case counts of Some (x, y) \<Rightarrow> ((model, x, y), True) | None \<Rightarrow> ((model, 0, 0), False)))
       | _ \<Rightarrow> (('''', 0, 0), False)))"

text \<open>A struct with one count, and the message of \<open>message_start\<close>.\<close>

fun decode_count :: "string \<Rightarrow> int decoder" where
  "decode_count name x (JObj kvs) = decode_field decode_int name x kvs"
| "decode_count name x JNull = (x, False)"
| "decode_count name x _ = (x, True)"

fun decode_message :: "(string \<times> int) decoder" where
  "decode_message (m, x) (JObj kvs) =
     (let (m', bad) = decode_field decode_string ''model'' m kvs;
          (x', bad') = decode_field (decode_count ''input_tokens'') ''usage'' x kvs in ((m', x'), bad \<or> bad'))"
| "decode_message old JNull = (old, False)"
| "decode_message old _ = (old, True)"

definition anthropic_event :: "(string \<Rightarrow> json option) \<Rightarrow> string \<Rightarrow> string \<Rightarrow> usage \<times> bool" where
  "anthropic_event parse event data =
     (if event = ''message_start'' then (case parse data of
          Some (JObj kvs) \<Rightarrow> (case decode_field decode_message ''message'' ('''', 0) kvs of
            ((model, x), bad) \<Rightarrow> if bad then (('''', 0, 0), False) else ((model, x, 0), False))
        | _ \<Rightarrow> (('''', 0, 0), False))
      else if event = ''message_delta'' then (case parse data of
          Some (JObj kvs) \<Rightarrow> (case decode_field (decode_count ''output_tokens'') ''usage'' 0 kvs of
            (x, bad) \<Rightarrow> if bad then (('''', 0, 0), False) else (('''', 0, x), True))
        | Some JNull \<Rightarrow> (('''', 0, 0), True)
        | _ \<Rightarrow> (('''', 0, 0), False))
      else (('''', 0, 0), False))"

subsection \<open>The built-in providers\<close>

definition map_header :: "(header \<Rightarrow> header) \<Rightarrow> upstream_request \<Rightarrow> upstream_request" where
  "map_header f rq = rq\<lparr>uq_Header := f (uq_Header rq)\<rparr>"

definition bearer :: "string \<Rightarrow> string \<Rightarrow> upstream_request \<Rightarrow> upstream_request" where
  "bearer key credentialType = map_header (header_set ''Authorization'' (''Bearer '' @ key))"

definition bearer_token :: "header \<Rightarrow> string" where
  "bearer_token h = trim_prefix (header_get ''Authorization'' h) ''Bearer ''"

text \<open>A provider with what most of them have in common.\<close>

definition plain_provider :: "string \<Rightarrow> string \<Rightarrow> provider" where
  "plain_provider name host = \<lparr>pv_Name = name, pv_UpstreamHost = host, pv_Scheme = ''https'', pv_PathPrefix = ''/'' @ name,
     pv_UpstreamPathPrefix = '''', pv_AllowedHosts = [host], pv_ResolveHost = None, pv_KeyOptional = False,
     pv_InjectKey = bearer, pv_MutateBody = None, pv_ExtractToken = header_get ''x-api-key'',
     pv_ParseJSONUsage = None, pv_ParseSSEEvent = None\<rparr>"

definition openai_style :: "(string \<Rightarrow> json option) \<Rightarrow> string \<Rightarrow> string \<Rightarrow> provider \<Rightarrow> provider" where
  "openai_style parse a b p = p\<lparr>pv_ParseJSONUsage := Some (json_usage a b parse), pv_ParseSSEEvent := Some (chunk_usage a b parse)\<rparr>"

definition anthropic_inject :: "string \<Rightarrow> string \<Rightarrow> upstream_request \<Rightarrow> upstream_request" where
  "anthropic_inject key credentialType = map_header (\<lambda>h.
     (let h' = (if credentialType = ''subscription_key'' \<or> credentialType = ''oauth''
                then header_set ''anthropic-beta'' ''oauth-2025-04-20'' (header_set ''Authorization'' (''Bearer '' @ key) h)
                else header_set ''x-api-key'' key h)
      in if header_get ''anthropic-version'' h' = '''' then header_set ''anthropic-version'' ''2023-06-01'' h' else h'))"

definition anthropicProvider :: "(string \<Rightarrow> json option) \<Rightarrow> provider" where
  "anthropicProvider parse = (plain_provider ''anthropic'' ''api.anthropic.com'')
     \<lparr>pv_InjectKey := anthropic_inject,
      pv_MutateBody := Some (\<lambda>body credentialType. if credentialType \<noteq> ''subscription_key'' then Mutated (Bytes body)
        else injectAnthropicSubscriptionIdentity parse body),
      pv_ParseJSONUsage := Some (json_usage ''input_tokens'' ''output_tokens'' parse),
      pv_ParseSSEEvent := Some (anthropic_event parse)\<rparr>"

definition openaiProvider :: "(string \<Rightarrow> json option) \<Rightarrow> provider" where
  "openaiProvider parse = openai_style parse ''prompt_tokens'' ''completion_tokens''
     ((plain_provider ''openai'' ''api.openai.com'')\<lparr>pv_ExtractToken := bearer_token\<rparr>)"

definition openaiCodexProvider :: "(string \<Rightarrow> json option) \<Rightarrow> provider" where
  "openaiCodexProvider parse = openai_style parse ''input_tokens'' ''output_tokens'' (plain_provider ''openai-codex'' ''chatgpt.com'')"

definition openrouterProvider :: "(string \<Rightarrow> json option) \<Rightarrow> provider" where
  "openrouterProvider parse = openai_style parse ''prompt_tokens'' ''completion_tokens''
     ((plain_provider ''openrouter'' ''openrouter.ai'')\<lparr>pv_UpstreamPathPrefix := ''/api'', pv_ExtractToken := bearer_token\<rparr>)"

definition nebiusProvider :: "(string \<Rightarrow> json option) \<Rightarrow> provider" where
  "nebiusProvider parse = openai_style parse ''prompt_tokens'' ''completion_tokens''
     ((plain_provider ''nebius'' ''api.tokenfactory.nebius.com'')
       \<lparr>pv_ExtractToken := bearer_token, pv_MutateBody := Some (\<lambda>body credentialType. request_stream_usage parse body)\<rparr>)"

definition telegram_inject :: "string \<Rightarrow> string \<Rightarrow> upstream_request \<Rightarrow> upstream_request" where
  "telegram_inject key credentialType rq = (let path = trim_prefix (u_Path (uq_URL rq)) ''/telegram'' in
     rq\<lparr>uq_URL := (uq_URL rq)\<lparr>u_Path :=
       (if has_prefix path ''/file/'' then ''/file/bot'' @ key @ trim_prefix path ''/file'' else ''/bot'' @ key @ path)\<rparr>\<rparr>)"

definition telegramProvider :: provider where
  "telegramProvider = (plain_provider ''telegram'' ''api.telegram.org'')\<lparr>pv_InjectKey := telegram_inject\<rparr>"

definition discord_host :: "string \<Rightarrow> string" where
  "discord_host path =
     (if has_prefix path ''/cdn/'' \<or> has_prefix path ''/attachments/'' then ''cdn.discordapp.com''
      else if has_prefix path ''/media/'' \<or> has_prefix path ''/stickers/'' then ''media.discordapp.net'' else ''discord.com'')"

definition discord_inject :: "string \<Rightarrow> string \<Rightarrow> upstream_request \<Rightarrow> upstream_request" where
  "discord_inject key credentialType rq =
     (if u_Host (uq_URL rq) = ''cdn.discordapp.com'' \<or> u_Host (uq_URL rq) = ''media.discordapp.net'' then rq
      else map_header (header_set ''Authorization'' (''Bot '' @ key)) rq)"

definition discordBotProvider :: provider where
  "discordBotProvider = (plain_provider ''discord_bot'' ''discord.com'')
     \<lparr>pv_PathPrefix := ''/discord'',
      pv_AllowedHosts := [''discord.com'', ''gateway.discord.gg'', ''cdn.discordapp.com'', ''media.discordapp.net''],
      pv_ResolveHost := Some discord_host, pv_InjectKey := discord_inject\<rparr>"

definition whatsapp_host :: "string \<Rightarrow> string" where
  "whatsapp_host path = (if has_prefix path ''/media/'' then ''lookaside.fbsbx.com'' else ''graph.facebook.com'')"

definition whatsappProvider :: provider where
  "whatsappProvider = (plain_provider ''whatsapp'' ''graph.facebook.com'')
     \<lparr>pv_AllowedHosts := [''graph.facebook.com'', ''lookaside.fbsbx.com''], pv_ResolveHost := Some whatsapp_host\<rparr>"

definition googleProvider :: "(string \<Rightarrow> json option) \<Rightarrow> provider" where
  "googleProvider parse = openai_style parse ''prompt_tokens'' ''completion_tokens''
     ((plain_provider ''google'' ''generativelanguage.googleapis.com'')
       \<lparr>pv_UpstreamPathPrefix := ''/v1beta/openai'', pv_ExtractToken := extractBearerOrXAPIKey,
        pv_MutateBody := Some (\<lambda>body credentialType. stripJSONFields parse [''store''] body)\<rparr>)"

definition initProviders :: "(string \<Rightarrow> json option) \<Rightarrow> (string \<rightharpoonup> provider)" where
  "initProviders parse = [''anthropic'' \<mapsto> anthropicProvider parse, ''openai'' \<mapsto> openaiProvider parse,
     ''openai-codex'' \<mapsto> openaiCodexProvider parse, ''google'' \<mapsto> googleProvider parse,
     ''openrouter'' \<mapsto> openrouterProvider parse, ''nebius'' \<mapsto> nebiusProvider parse, ''telegram'' \<mapsto> telegramProvider,
     ''discord_bot'' \<mapsto> discordBotProvider, ''whatsapp'' \<mapsto> whatsappProvider]"

subsection \<open>Providers of an account (proxy.go)\<close>

text \<open>\<open>url.ParseQuery\<close>, which leaves out what it cannot read, and \<open>Values.Encode\<close>.\<close>

definition query_pairs :: "string \<Rightarrow> (string \<times> string) list" where
  "query_pairs raw = List.map_filter (\<lambda>part.
     if part = '''' \<or> CHR '';'' \<in> set part then None
     else (case (unescape True (before (CHR ''='') part), unescape True (after (CHR ''='') part)) of
       (Some k, Some v) \<Rightarrow> Some (k, v) | _ \<Rightarrow> None)) (split_on (CHR ''&'') raw)"

definition query_encode :: "(string \<times> string) list \<Rightarrow> string" where
  "query_encode kvs = join_with (CHR ''&'') (map (\<lambda>(k, v). query_escape k @ ''='' @ query_escape v)
     (sort_by (\<lambda>a b. byte_less (fst a) (fst b)) kvs))"

definition query_set :: "string \<Rightarrow> string \<Rightarrow> string \<Rightarrow> string" where
  "query_set k v raw = query_encode (filter (\<lambda>kv. fst kv \<noteq> k) (query_pairs raw) @ [(k, v)])"

definition makeInjectKey :: "string \<Rightarrow> string \<Rightarrow> string \<Rightarrow> string \<Rightarrow> upstream_request \<Rightarrow> upstream_request" where
  "makeInjectKey authMethod authHeader key credentialType rq =
     (let or_default = (\<lambda>d. if authHeader = '''' then d else authHeader) in
      if authMethod = ''bearer_header'' then map_header (header_set (or_default ''Authorization'') (''Bearer '' @ key)) rq
      else if authMethod = ''api_key_header'' then map_header (header_set (or_default ''x-api-key'') key) rq
      else if authMethod = ''query_param''
      then rq\<lparr>uq_URL := (uq_URL rq)\<lparr>u_RawQuery := query_set (or_default ''key'') key (u_RawQuery (uq_URL rq))\<rparr>\<rparr>
      else rq)"

definition CustomProviderToProxy :: "custom_provider_config \<Rightarrow> provider" where
  "CustomProviderToProxy cfg = (plain_provider (cp_Name cfg) (cp_UpstreamHost cfg))
     \<lparr>pv_Scheme := (if cp_Scheme cfg = '''' then ''https'' else cp_Scheme cfg),
      pv_AllowedHosts := (if cp_AllowedHosts cfg = [] then [cp_UpstreamHost cfg]
        else if cp_UpstreamHost cfg \<in> set (cp_AllowedHosts cfg) then cp_AllowedHosts cfg
        else cp_AllowedHosts cfg @ [cp_UpstreamHost cfg]),
      pv_KeyOptional := (cp_AuthMethod cfg = ''none''),
      pv_InjectKey := makeInjectKey (cp_AuthMethod cfg) (cp_AuthHeader cfg),
      pv_ExtractToken := extractBearerOrXAPIKey\<rparr>"

definition AddProvider :: "provider \<Rightarrow> (string \<rightharpoonup> provider) \<Rightarrow> (string \<rightharpoonup> provider)" where
  "AddProvider p ps = ps(pv_Name p \<mapsto> p)"

definition RegisterCustomProviders :: "custom_provider_config list \<Rightarrow> (string \<rightharpoonup> provider) \<Rightarrow> (string \<rightharpoonup> provider)" where
  "RegisterCustomProviders cfgs ps =
     foldl (\<lambda>m cfg. if m (cp_Name cfg) = None then m(cp_Name cfg \<mapsto> CustomProviderToProxy cfg) else m) ps cfgs"

section \<open>The proxy and its peers (proxy.go)\<close>

type_synonym llm_keys = "string \<rightharpoonup> credential_entry"

datatype outgoing = ToUpstream upstream_request | ToBackend http_request

text \<open>
  A reply has a status, a header and a body, which may end in a read error. While a request is
  under way other parts of the host act: they may change the registry and, since maps are shared,
  the map of keys that the handler holds. The tape has both for every request.
\<close>

datatype upstream_reply = UpFails string | UpReply int header string bool

type_synonym interference = "meta_server \<times> llm_keys \<Rightarrow> meta_server \<times> llm_keys"

record proxy_world =
  pw_meta :: meta_server
  pw_refreshURL :: string
  pw_providers :: "string \<rightharpoonup> provider"
  pw_usage :: usage_tracker
  pw_tape :: "(interference \<times> upstream_reply) list"
  pw_log :: "outgoing list"
  pw_reports :: "usage_record list"
  pw_now :: time

definition read_proxy :: "(proxy_world \<Rightarrow> 'a) \<Rightarrow> (proxy_world, 'a) state" where
  "read_proxy f = State (\<lambda>w. (f w, w))"

definition exchange :: "outgoing \<Rightarrow> llm_keys \<Rightarrow> (proxy_world, llm_keys \<times> upstream_reply) state" where
  "exchange out ks = State (\<lambda>w.
     (let w1 = w\<lparr>pw_log := pw_log w @ [out]\<rparr> in
      case pw_tape w of
        [] \<Rightarrow> ((ks, UpFails ''connection refused''), w1)
      | (f, reply) # tape \<Rightarrow> (case f (pw_meta w, ks) of
          (s, ks') \<Rightarrow> ((ks', reply), w1\<lparr>pw_meta := s, pw_tape := tape\<rparr>))))"

text \<open>\<open>client.Do\<close> for a request to a provider: only HTTP is supported, and a body that breaks fails the request.\<close>

definition client_do :: "upstream_request \<Rightarrow> llm_keys \<Rightarrow> (proxy_world, llm_keys \<times> upstream_reply) state" where
  "client_do rq ks =
     (if \<not> (equal_fold (u_Scheme (uq_URL rq)) ''http'' \<or> equal_fold (u_Scheme (uq_URL rq)) ''https'')
      then ret (ks, UpFails ''unsupported protocol scheme'')
      else do {
        (ks', reply) \<leftarrow> exchange (ToUpstream rq) ks;
        ret (ks', if uq_Body rq = Breaks then UpFails ''http: invalid Read on closed Body'' else reply)
      })"

text \<open>The fields of the answer of the control plane: token, expiry, error and whether the failure is permanent.\<close>

definition decode_refresh :: "json option \<Rightarrow> (string \<times> string \<times> string \<times> bool) option" where
  "decode_refresh body = (case body of
      Some (JObj kvs) \<Rightarrow>
        (let (token, b1) = decode_field decode_string ''access_token'' '''' kvs;
             (ctype, b2) = decode_field decode_string ''credential_type'' '''' kvs;
             (expires, b3) = decode_field decode_string ''expires_at'' '''' kvs;
             (err, b4) = decode_field decode_string ''error'' '''' kvs;
             (permanent, b5) = decode_field decode_bool ''permanent'' False kvs
         in if b1 \<or> b2 \<or> b3 \<or> b4 \<or> b5 then None else Some (token, expires, err, permanent))
    | Some JNull \<Rightarrow> Some ('''', '''', '''', False)
    | _ \<Rightarrow> None)"

abbreviation zero_time :: time where
  "zero_time \<equiv> - 62135596800 * second"

definition refresh_url :: "string \<Rightarrow> string \<Rightarrow> string" where
  "refresh_url base machineID = base @ ''/api/agent/machines/'' @ machineID @ ''/refresh-credential''"

text \<open>A failure comes with whether it is permanent. An expiry that cannot be read is the zero time.\<close>

definition refreshCredential :: "(string \<Rightarrow> json option) \<Rightarrow> (string \<Rightarrow> time option) \<Rightarrow> string \<Rightarrow> string \<Rightarrow> llm_keys \<Rightarrow>
    (proxy_world, llm_keys \<times> ((bool \<times> go_error) + (string \<times> time))) state" where
  "refreshCredential parse rfc3339 machineID name ks = do {
     base \<leftarrow> read_proxy pw_refreshURL;
     token \<leftarrow> read_proxy (\<lambda>w. mt_AgentToken (pw_meta w));
     if base = '''' then ret (ks, Inl (False, ErrText ''no refresh URL configured''))
     else if \<not> url_ok (refresh_url base machineID) then ret (ks, Inl (False, wrap ''create refresh request'' (ErrRemote ''net/url: invalid URL'')))
     else do {
       (ks', reply) \<leftarrow> exchange (ToBackend \<lparr>rq_Method = ''POST'', rq_URL = refresh_url base machineID, rq_Token = token,
         rq_Body = Some (JObj [(''provider'', JStr name)])\<rparr>) ks;
       ret (ks', case reply of
           UpFails e \<Rightarrow> Inl (False, wrap ''refresh request failed'' (ErrRemote e))
         | UpReply status _ text _ \<Rightarrow> (case decode_refresh (parse text) of
             None \<Rightarrow> Inl (False, wrap ''decode refresh response'' json_error)
           | Some (tok, expires, err, permanent) \<Rightarrow>
               if status \<noteq> 200 then Inl (permanent, ErrText err)
               else Inr (tok, if expires = '''' then zero_time else deref_or zero_time (rfc3339 expires))))
     }
   }"

text \<open>The new credential is put into the map that the handler holds, and that map is merged into the registry.\<close>

definition store_credential :: "string \<Rightarrow> string \<Rightarrow> string \<Rightarrow> time \<Rightarrow> llm_keys \<Rightarrow> (proxy_world, llm_keys) state" where
  "store_credential srcIP name tok expiry ks =
     (let ks' = ks(name \<mapsto> \<lparr>ce_Value = tok, ce_CredentialType = ''oauth'', ce_ExpiresAt = Some expiry\<rparr>) in
      State (\<lambda>w. (ks', w\<lparr>pw_meta := UpdateMachineLLMKeys srcIP ks' (pw_meta w)\<rparr>)))"

definition usage_url :: "string \<Rightarrow> string \<Rightarrow> string" where
  "usage_url backend machineID = backend @ ''/api/agent/machines/'' @ machineID @ ''/usage''"

definition usage_report :: "usage_record \<Rightarrow> json" where
  "usage_report rec = JObj [(''input_tokens'', JNum (ur_InputTokens rec)), (''model'', JStr (ur_Model rec)),
     (''output_tokens'', JNum (ur_OutputTokens rec)), (''provider'', JStr (ur_Provider rec)), (''source'', JStr (ur_Source rec))]"

text \<open>The goroutine that reports a record; what the control plane answers is only logged.\<close>

definition reportUsageToBackend :: "usage_record \<Rightarrow> (proxy_world, unit) state" where
  "reportUsageToBackend rec = do {
     s \<leftarrow> read_proxy pw_meta;
     if mt_BackendURL s = '''' \<or> mt_AgentToken s = '''' \<or> \<not> url_ok (usage_url (mt_BackendURL s) (ur_MachineID rec)) then ret ()
     else do {
       _ \<leftarrow> exchange (ToBackend \<lparr>rq_Method = ''POST'', rq_URL = usage_url (mt_BackendURL s) (ur_MachineID rec),
         rq_Token = mt_AgentToken s, rq_Body = Some (usage_report rec)\<rparr>) Map.empty;
       ret ()
     }
   }"

section \<open>Replies (streaming.go)\<close>

datatype proxy_reply =
    PxError int string
  | PxJson int "(string \<times> json) list"
  | PxForward int header payload
  | PxStream int header "string list"
  | PxRedirect string
  | PxPanic

record call_context =
  cx_MachineID :: string
  cx_AccountID :: int
  cx_Provider :: provider

definition usage_of_call :: "call_context \<Rightarrow> usage \<Rightarrow> time \<Rightarrow> usage_record" where
  "usage_of_call cx u now = (case u of (model, x, y) \<Rightarrow>
     \<lparr>ur_AccountID = cx_AccountID cx, ur_MachineID = cx_MachineID cx, ur_Provider = pv_Name (cx_Provider cx), ur_Model = model,
      ur_InputTokens = x, ur_OutputTokens = y, ur_CostMicrocents = CalculateCost model x y,
      ur_Source = usageSource (pv_Name (cx_Provider cx)), ur_Timestamp = now\<rparr>)"

definition has_usage :: "usage \<Rightarrow> bool" where
  "has_usage u = (case u of (model, x, y) \<Rightarrow> model \<noteq> '''' \<or> 0 < x \<or> 0 < y)"

definition recordAndLogUsage :: "call_context \<Rightarrow> usage \<Rightarrow> (proxy_world, unit) state" where
  "recordAndLogUsage cx u = State (\<lambda>w. ((),
     if has_usage u then (let rec = usage_of_call cx u (pw_now w) in
       w\<lparr>pw_usage := Record rec (pw_usage w), pw_reports := pw_reports w @ [rec]\<rparr>) else w))"

text \<open>
  \<open>bufio.Scanner\<close> over lines: a carriage return before the newline is dropped, a last line without a
  newline counts, and a line that does not fit the buffer ends the scan.
\<close>

definition drop_cr :: "string \<Rightarrow> string" where
  "drop_cr l = (if l \<noteq> [] \<and> last l = CHR 0x0D then butlast l else l)"

function scan_lines :: "nat \<Rightarrow> string \<Rightarrow> string list" where
  "scan_lines cap text = (let l = takeWhile (\<lambda>c. c \<noteq> newline) text in
     if text = [] \<or> cap \<le> length l then []
     else if length l < length text then drop_cr l # scan_lines cap (drop (Suc (length l)) text) else [drop_cr l])"
  by auto
termination by (relation "measure (\<lambda>(cap, text). length text)") auto

record sse_state =
  ss_event :: string
  ss_data :: "string list"
  ss_usage :: usage

definition sse_start :: sse_state where
  "sse_start = \<lparr>ss_event = '''', ss_data = [], ss_usage = ('''', 0, 0)\<rparr>"

text \<open>A later value of the stream replaces an earlier one.\<close>

definition merge_usage :: "usage \<Rightarrow> usage \<Rightarrow> usage" where
  "merge_usage old new = (case (old, new) of ((m, x, y), (m', x', y')) \<Rightarrow>
     (if m' \<noteq> '''' then m' else m, if 0 < x' then x' else x, if 0 < y' then y' else y))"

definition sse_line :: "provider \<Rightarrow> sse_state \<Rightarrow> string \<Rightarrow> sse_state" where
  "sse_line p c line =
     (if has_prefix line ''event:'' then c\<lparr>ss_event := trim_space (trim_prefix line ''event:''), ss_data := []\<rparr>
      else if has_prefix line ''data:'' then c\<lparr>ss_data := ss_data c @ [trim_prefix line ''data:'']\<rparr>
      else if line = '''' then
        (let c' = (if ss_data c = [] then c else (case pv_ParseSSEEvent p of
               None \<Rightarrow> c
             | Some f \<Rightarrow> c\<lparr>ss_usage := merge_usage (ss_usage c) (fst (f (ss_event c) (trim_space (join_with newline (ss_data c)))))\<rparr>))
         in c'\<lparr>ss_event := '''', ss_data := []\<rparr>)
      else c)"

definition max_line :: nat where
  "max_line = 1024 * 1024"

text \<open>\<open>SSECopier.Copy\<close>: the lines that reached the client and the state after them.\<close>

definition sse_copy :: "provider \<Rightarrow> nat \<Rightarrow> string \<Rightarrow> string list \<times> sse_state" where
  "sse_copy p accepts text = (let ls = take accepts (scan_lines max_line text) in (ls, foldl (sse_line p) sse_start ls))"

definition streamSSE :: "call_context \<Rightarrow> nat \<Rightarrow> int \<Rightarrow> header \<Rightarrow> string \<Rightarrow> (proxy_world, proxy_reply) state" where
  "streamSSE cx accepts status h text = (case sse_copy (cx_Provider cx) accepts text of (ls, c) \<Rightarrow> do {
     _ \<leftarrow> recordAndLogUsage cx (ss_usage c);
     ret (PxStream status h ls)
   })"

definition normalizeErrorResponseBody :: "(string \<Rightarrow> json option) \<Rightarrow> string \<Rightarrow> payload" where
  "normalizeErrorResponseBody parse body = (let trimmed = trim_space body in
     if trimmed = [] \<or> hd trimmed \<noteq> CHR ''['' then Bytes body
     else (case parse trimmed of
         Some (JArr [JObj kvs]) \<Rightarrow> if ''error'' \<in> fst ` set kvs then Document (go_value (JObj kvs)) else Bytes body
       | _ \<Rightarrow> Bytes body))"

definition max_body :: nat where
  "max_body = 10 * 1024 * 1024"

definition forwardJSON :: "(string \<Rightarrow> json option) \<Rightarrow> call_context \<Rightarrow> int \<Rightarrow> header \<Rightarrow> string \<Rightarrow> bool \<Rightarrow> (proxy_world, proxy_reply) state" where
  "forwardJSON parse cx status h text fails =
     (if fails \<and> length text < max_body then ret (PxError 502 ''failed to read upstream response'')
      else (let raw = take max_body text;
                body = (if 400 \<le> status then normalizeErrorResponseBody parse raw else Bytes raw);
                u = (case pv_ParseJSONUsage (cx_Provider cx) of Some f \<Rightarrow> f body | None \<Rightarrow> ('''', 0, 0))
            in do { _ \<leftarrow> recordAndLogUsage cx u; ret (PxForward status h body) }))"

section \<open>The handler (handler.go)\<close>

definition extractIP :: "string \<Rightarrow> string" where
  "extractIP remoteAddr = (if CHR '':'' \<in> set remoteAddr
     then (case SplitHost remoteAddr of Some host \<Rightarrow> host | None \<Rightarrow> remoteAddr) else remoteAddr)"

definition isHostAllowed :: "string \<Rightarrow> string list \<Rightarrow> bool" where
  "isHostAllowed host allowed \<longleftrightarrow> list_ex (\<lambda>h. equal_fold h host) allowed"

text \<open>The provider and the rest of the path, with its slash.\<close>

definition split_path :: "string \<Rightarrow> string \<times> string" where
  "split_path p = (let path = trim_prefix p ''/'' in (before (CHR ''/'') path, drop (length (before (CHR ''/'') path)) path))"

definition find_provider :: "string \<Rightarrow> meta_config \<Rightarrow> provider option \<Rightarrow> provider option" where
  "find_provider name cfg built_in = (case built_in of
      Some p \<Rightarrow> Some p
    | None \<Rightarrow> map_option CustomProviderToProxy (find (\<lambda>cp. cp_Name cp = name) (mc_CustomProviders cfg)))"

definition upstream_host :: "provider \<Rightarrow> string \<Rightarrow> string" where
  "upstream_host p remaining = (case pv_ResolveHost p of Some f \<Rightarrow> f remaining | None \<Rightarrow> pv_UpstreamHost p)"

definition upstream_rest :: "provider \<Rightarrow> string \<Rightarrow> string \<Rightarrow> string" where
  "upstream_rest p remaining rawQuery = upstream_host p remaining @ pv_UpstreamPathPrefix p @ remaining @
     (if rawQuery = '''' then '''' else ''?'' @ rawQuery)"

text \<open>What is not passed on: the headers of the connection, the credentials of the VM, and the encoding.\<close>

definition skipped_headers :: "string list" where
  "skipped_headers = [''host'', ''connection'', ''authorization'', ''x-api-key'', ''accept-encoding'']"

definition client_headers :: "header \<Rightarrow> header" where
  "client_headers h k = (if k \<in> set skipped_headers then [] else h k)"

definition reply_headers :: "header \<Rightarrow> header" where
  "reply_headers h k = (if k \<in> set [''content-encoding'', ''content-length''] then [] else h k)"

definition preflight :: "(string \<Rightarrow> json option) \<Rightarrow> (string \<Rightarrow> time option) \<Rightarrow> string \<Rightarrow> meta_config \<Rightarrow> string \<Rightarrow> string \<Rightarrow> string \<Rightarrow> time option \<Rightarrow>
    (proxy_world, string \<times> llm_keys) state" where
  "preflight parse rfc3339 srcIP cfg name realKey credType expiresAt = do {
     now \<leftarrow> read_proxy pw_now;
     if credType = ''oauth'' \<and> (case expiresAt of Some e \<Rightarrow> e - now < 10 * minute | None \<Rightarrow> False)
     then do {
       (ks, r) \<leftarrow> refreshCredential parse rfc3339 (mc_MachineID cfg) name (mc_LLMKeys cfg);
       case r of
         Inl _ \<Rightarrow> ret (realKey, ks)
       | Inr (tok, expiry) \<Rightarrow> do { ks' \<leftarrow> store_credential srcIP name tok expiry ks; ret (tok, ks') }
     }
     else ret (realKey, mc_LLMKeys cfg)
   }"

text \<open>The body of the request, or the reply that ends the call; and whether it was read for a change.\<close>

definition request_body :: "provider \<Rightarrow> bool \<Rightarrow> string \<Rightarrow> proxy_request \<Rightarrow> proxy_reply + (out_body \<times> bool)" where
  "request_body p isLLM credType r = (case (if isLLM then pv_MutateBody p else None) of
      None \<Rightarrow> Inr (if px_BodyFails r then Breaks else Sends (Bytes (px_Body r)), False)
    | Some f \<Rightarrow>
        if px_BodyFails r then Inl (PxError 500 ''internal error'')
        else (case f (px_Body r) credType of
            Mutated b \<Rightarrow> Inr (Sends b, True)
          | MutateFails \<Rightarrow> Inr (Sends (Bytes (px_Body r)), True)
          | MutatePanics \<Rightarrow> Inl PxPanic))"

text \<open>
  The body of the retry is read from the request again. By then it has been read to its end, and it
  was closed with the first attempt if it was sent as it came; an empty body has nothing to read.
\<close>

definition retry_body :: "proxy_request \<Rightarrow> bool \<Rightarrow> out_body" where
  "retry_body r was_read = (if was_read \<or> px_Body r = '''' then Sends (Bytes '''') else Breaks)"

definition respond :: "(string \<Rightarrow> json option) \<Rightarrow> call_context \<Rightarrow> nat \<Rightarrow> int \<Rightarrow> header \<Rightarrow> string \<Rightarrow> bool \<Rightarrow> (proxy_world, proxy_reply) state" where
  "respond parse cx accepts status h text fails =
     (if contains_text (header_get ''Content-Type'' h) ''text/event-stream''
      then streamSSE cx accepts status (reply_headers h) text
      else forwardJSON parse cx status (reply_headers h) text fails)"

text \<open>From the first reply on: a 401 for an OAuth credential is answered with a refresh and one retry.\<close>

definition after_reply :: "(string \<Rightarrow> json option) \<Rightarrow> (string \<Rightarrow> time option) \<Rightarrow> proxy_request \<Rightarrow> call_context \<Rightarrow> string \<Rightarrow> bool \<Rightarrow>
    upstream_request \<Rightarrow> llm_keys \<Rightarrow> upstream_reply \<Rightarrow> (proxy_world, proxy_reply) state" where
  "after_reply parse rfc3339 r cx credType was_read rq ks reply = (case reply of
      UpFails _ \<Rightarrow> ret (PxError 502 ''upstream request failed'')
    | UpReply status h text fails \<Rightarrow>
        if status = 401 \<and> credType = ''oauth''
        then do {
          (ks1, res) \<leftarrow> refreshCredential parse rfc3339 (cx_MachineID cx) (pv_Name (cx_Provider cx)) ks;
          case res of
            Inl (permanent, e) \<Rightarrow> ret (PxJson 502
              [(''detail'', JStr (error_text e)), (''error'', JStr (if permanent then ''oauth_reauth_required'' else ''oauth_refresh_failed'')),
               (''provider'', JStr (pv_Name (cx_Provider cx)))])
          | Inr (tok, expiry) \<Rightarrow> do {
              ks2 \<leftarrow> store_credential (extractIP (px_RemoteAddr r)) (pv_Name (cx_Provider cx)) tok expiry ks1;
              (_, reply2) \<leftarrow> client_do (pv_InjectKey (cx_Provider cx) tok credType (rq\<lparr>uq_Body := retry_body r was_read\<rparr>)) ks2;
              case reply2 of
                UpFails _ \<Rightarrow> ret (PxError 502 ''upstream request failed after token refresh'')
              | UpReply status2 h2 text2 fails2 \<Rightarrow> respond parse cx (px_Accepts r) status2 h2 text2 fails2
            }
        }
        else respond parse cx (px_Accepts r) status h text fails)"

text \<open>
  From the checked credential on. The request that is sent first is rebuilt for the retry from the
  same URL, with the headers as they are after the first key was put in.
\<close>

definition forward_call :: "(string \<Rightarrow> json option) \<Rightarrow> (string \<Rightarrow> time option) \<Rightarrow> proxy_request \<Rightarrow> call_context \<Rightarrow> bool \<Rightarrow> string \<Rightarrow> string \<Rightarrow>
    llm_keys \<Rightarrow> (proxy_world, proxy_reply) state" where
  "forward_call parse rfc3339 r cx isLLM credType realKey ks =
     (let p = cx_Provider cx; remaining = snd (split_path (px_Path r)) in
      if \<not> isHostAllowed (upstream_host p remaining) (pv_AllowedHosts p)
      then ret (PxError 403 (''host '' @ quoted (upstream_host p remaining) @ '' is not allowed for provider '' @ pv_Name p))
      else (case request_body p isLLM credType r of
          Inl reply \<Rightarrow> ret reply
        | Inr (body, was_read) \<Rightarrow> (case ParseURL (pv_Scheme p) (upstream_rest p remaining (px_RawQuery r)) of
            None \<Rightarrow> ret (PxError 500 ''internal error'')
          | Some url \<Rightarrow>
              (let plain = \<lparr>uq_Method = px_Method r, uq_URL = url, uq_Header = client_headers (px_Header r), uq_Body = body\<rparr>;
                   rq = (if realKey = '''' then plain else pv_InjectKey p realKey credType plain)
               in do {
                 (ks', reply) \<leftarrow> client_do rq ks;
                 after_reply parse rfc3339 r cx credType was_read (rq\<lparr>uq_URL := url\<rparr>) ks' reply
               }))))"

definition handleProxy :: "(string \<Rightarrow> json option) \<Rightarrow> (string \<Rightarrow> time option) \<Rightarrow> proxy_request \<Rightarrow> (proxy_world, proxy_reply) state" where
  "handleProxy parse rfc3339 r = (let name = fst (split_path (px_Path r)); srcIP = extractIP (px_RemoteAddr r) in
     if name = '''' then ret (PxError 404 ''missing provider in path'')
     else do {
       built_in \<leftarrow> read_proxy (\<lambda>w. pw_providers w name);
       s \<leftarrow> read_proxy pw_meta;
       tracker \<leftarrow> read_proxy pw_usage;
       let token = (case built_in of Some p \<Rightarrow> pv_ExtractToken p (px_Header r) | None \<Rightarrow> header_get ''x-api-key'' (px_Header r));
       case GetConfigWithNonce srcIP token s of
         None \<Rightarrow> ret (PxError 401 ''unauthorized'')
       | Some cfg \<Rightarrow> (case find_provider name cfg built_in of
           None \<Rightarrow> ret (PxError 404 (''unknown provider: '' @ name))
         | Some p \<Rightarrow>
             (let entry = mc_LLMKeys cfg (pv_Name p); isLLM = (entry \<noteq> None);
                  realKey = (case entry of Some e \<Rightarrow> ce_Value e | None \<Rightarrow> '''');
                  credType = (case entry of Some e \<Rightarrow> ce_CredentialType e | None \<Rightarrow> '''');
                  expiresAt = (case entry of Some e \<Rightarrow> ce_ExpiresAt e | None \<Rightarrow> None);
                  spend = GetSpend (mc_MachineID cfg) tracker
              in if \<not> pv_KeyOptional p \<and> realKey = ''''
                 then ret (PxError 403 (''no API key configured for provider '' @ pv_Name p))
                 else if isLLM \<and> (case mc_BudgetMicrocents cfg of Some b \<Rightarrow> b \<le> spend | None \<Rightarrow> False)
                 then ret (PxJson 402 [(''budget_microcents'', JNum (the (mc_BudgetMicrocents cfg))), (''error'', JStr ''budget exceeded''),
                   (''spend_microcents'', JNum spend)])
                 else do {
                   (key, ks) \<leftarrow> preflight parse rfc3339 srcIP cfg (pv_Name p) realKey credType expiresAt;
                   forward_call parse rfc3339 r \<lparr>cx_MachineID = mc_MachineID cfg, cx_AccountID = mc_AccountID cfg, cx_Provider = p\<rparr>
                     isLLM credType key ks
                 }))
     })"

definition proxy_health :: "(proxy_world, proxy_reply) state" where
  "proxy_health = ret (PxForward 200 ((\<lambda>_. [])(''content-type'' := [''application/json''])) (Document (JObj [(''status'', JStr ''ok'')])))"

definition proxy_serve :: "(string \<Rightarrow> json option) \<Rightarrow> (string \<Rightarrow> time option) \<Rightarrow> proxy_request \<Rightarrow> (proxy_world, proxy_reply) state" where
  "proxy_serve parse rfc3339 r = (let p = px_Path r in
     if px_Method r \<noteq> ''CONNECT'' \<and> mux_clean p \<noteq> p then ret (PxRedirect (mux_clean p))
     else if p = ''/health'' then proxy_health else handleProxy parse rfc3339 r)"

definition new_proxy :: "(string \<Rightarrow> json option) \<Rightarrow> meta_server \<Rightarrow> string \<Rightarrow> (interference \<times> upstream_reply) list \<Rightarrow> time \<Rightarrow> proxy_world" where
  "new_proxy parse s refreshURL tape now = \<lparr>pw_meta = s, pw_refreshURL = refreshURL, pw_providers = initProviders parse,
     pw_usage = NewUsageTracker, pw_tape = tape, pw_log = [], pw_reports = [], pw_now = now\<rparr>"

end
