(* ===== verification/Provider_Api.thy ===== *)
theory Provider_Api
  imports Api_Proxy
begin

text \<open>
  The providers that an account registers (\<open>internal/api/providers.go\<close>), their table
  (\<open>internal/store/postgres.go\<close>), and how they reach the proxy of a host
  (\<open>buildCustomProviders\<close> of \<open>internal/machines/runtime.go\<close>). What a name resolves to is the argument
  \<open>lookup\<close>.
\<close>

section \<open>The check of the upstream host\<close>

definition blockedHostnames :: "string list" where
  "blockedHostnames = [''localhost'', ''metadata.google.internal'']"

definition isPrivateOrBlockedIP :: "ip \<Rightarrow> bool" where
  "isPrivateOrBlockedIP x \<longleftrightarrow> IsLoopback x \<or> IsLinkLocalUnicast x \<or> IsLinkLocalMulticast x \<or> IsPrivate x \<or> IsUnspecified x"

definition blocked_text :: "string \<Rightarrow> bool" where
  "blocked_text a = (case ParseIP a of Some x \<Rightarrow> isPrivateOrBlockedIP x | None \<Rightarrow> False)"

definition host_name :: "string \<Rightarrow> string" where
  "host_name host = (case SplitHost host of Some h \<Rightarrow> h | None \<Rightarrow> host)"

definition validateUpstreamHost :: "(string \<Rightarrow> string list result) \<Rightarrow> string \<Rightarrow> unit result" where
  "validateUpstreamHost lookup host = (let hostname = host_name host in
     if map lower hostname \<in> set blockedHostnames then Inl (ErrText (''upstream_host '' @ quoted host @ '' is not allowed''))
     else (case ParseIP hostname of
         Some x \<Rightarrow> if isPrivateOrBlockedIP x
           then Inl (ErrText (''upstream_host '' @ quoted host @ '' points to a private or reserved IP address'')) else Inr ()
       | None \<Rightarrow> (case lookup hostname of
           Inl e \<Rightarrow> Inl (Wrap (''upstream_host '' @ quoted host @ '' could not be resolved: '') e '''')
         | Inr addrs \<Rightarrow> (case find blocked_text addrs of
             Some a \<Rightarrow> Inl (ErrText (''upstream_host '' @ quoted host @ '' resolves to private or reserved IP '' @ a))
           | None \<Rightarrow> Inr ()))))"

definition builtinProviders :: "string list" where
  "builtinProviders = [''anthropic'', ''openai'', ''google'', ''openrouter'', ''telegram'', ''discord_bot'', ''whatsapp'']"

definition name_char :: "char \<Rightarrow> bool" where
  "name_char c \<longleftrightarrow> is_digit c \<or> c \<in> set ''abcdefghijklmnopqrstuvwxyz''"

text \<open>\<open>validProviderNameRe\<close>.\<close>

definition valid_provider_name :: "string \<Rightarrow> bool" where
  "valid_provider_name n \<longleftrightarrow> 2 \<le> length n \<and> length n \<le> 100 \<and> name_char (hd n) \<and> name_char (last n) \<and>
     list_all (\<lambda>c. name_char c \<or> c \<in> set ''_-'') n"

definition validAuthMethods :: "string list" where
  "validAuthMethods = [''bearer_header'', ''api_key_header'', ''query_param'', ''none'']"

definition validSchemes :: "string list" where
  "validSchemes = [''https'', ''http'']"

section \<open>The table\<close>

record custom_provider =
  cr_ID :: string
  cr_AccountID :: int
  cr_Name :: string
  cr_UpstreamHost :: string
  cr_Scheme :: string
  cr_AuthMethod :: string
  cr_AuthHeader :: "string option"
  cr_PathPrefix :: string
  cr_AllowedHosts :: "string list"
  cr_IsLLM :: bool
  cr_CreatedAt :: time

definition same_provider :: "int \<Rightarrow> string \<Rightarrow> custom_provider \<Rightarrow> bool" where
  "same_provider accountID name p \<longleftrightarrow> cr_AccountID p = accountID \<and> cr_Name p = name"

text \<open>The widths of the columns.\<close>

definition fits_columns :: "custom_provider \<Rightarrow> bool" where
  "fits_columns p \<longleftrightarrow> length (cr_Name p) \<le> 100 \<and> length (cr_UpstreamHost p) \<le> 255 \<and> length (cr_Scheme p) \<le> 10 \<and>
     length (cr_AuthMethod p) \<le> 50 \<and> length (deref_or '''' (cr_AuthHeader p)) \<le> 100 \<and> length (cr_PathPrefix p) \<le> 255"

text \<open>
  An insert that becomes an update on conflict; the identifier and the time of a row that exists stay.
  \<open>fault\<close> is an error that the driver reports before anything is changed.
\<close>

definition CreateCustomProvider :: "go_error option \<Rightarrow> string \<Rightarrow> time \<Rightarrow> custom_provider \<Rightarrow> custom_provider list \<Rightarrow>
    custom_provider result \<times> custom_provider list" where
  "CreateCustomProvider fault uuid now p rows = (case fault of
      Some e \<Rightarrow> (Inl e, rows)
    | None \<Rightarrow>
        if \<not> fits_columns p then (Inl (ErrRemote ''value too long for type character varying''), rows)
        else (case find (same_provider (cr_AccountID p) (cr_Name p)) rows of
            Some old \<Rightarrow> (let new = p\<lparr>cr_ID := cr_ID old, cr_CreatedAt := cr_CreatedAt old\<rparr> in
              (Inr new, update_where (same_provider (cr_AccountID p) (cr_Name p)) (\<lambda>_. new) rows))
          | None \<Rightarrow> (let new = p\<lparr>cr_ID := uuid, cr_CreatedAt := now\<rparr> in (Inr new, rows @ [new]))))"

definition DeleteCustomProvider :: "go_error option \<Rightarrow> int \<Rightarrow> string \<Rightarrow> custom_provider list \<Rightarrow> unit result \<times> custom_provider list" where
  "DeleteCustomProvider fault accountID name rows = (case fault of
      Some e \<Rightarrow> (Inl e, rows) | None \<Rightarrow> (Inr (), delete_where (same_provider accountID name) rows))"

definition ListCustomProviders :: "go_error option \<Rightarrow> int \<Rightarrow> custom_provider list \<Rightarrow> custom_provider list result" where
  "ListCustomProviders fault accountID rows = (case fault of
      Some e \<Rightarrow> Inl e
    | None \<Rightarrow> Inr (sort_by (\<lambda>a b. byte_less (cr_Name a) (cr_Name b)) (filter (\<lambda>p. cr_AccountID p = accountID) rows)))"

definition GetCustomProvider :: "go_error option \<Rightarrow> int \<Rightarrow> string \<Rightarrow> custom_provider list \<Rightarrow> custom_provider result" where
  "GetCustomProvider fault accountID name rows = (case fault of
      Some e \<Rightarrow> Inl e | None \<Rightarrow> one_row (filter (same_provider accountID name) rows))"

section \<open>The handlers\<close>

datatype provider_reply = PrError int string | PrCreated custom_provider | PrListed "(string \<times> custom_provider option) list" | PrNoContent

text \<open>The decoded body; a slice that is absent is empty.\<close>

definition decode_registration :: "json option \<Rightarrow> custom_provider option" where
  "decode_registration body = (case body of
      Some (JObj kvs) \<Rightarrow>
        (let (name, b1) = decode_field decode_string ''name'' '''' kvs;
             (host, b2) = decode_field decode_string ''upstream_host'' '''' kvs;
             (scheme, b3) = decode_field decode_string ''scheme'' '''' kvs;
             (auth, b4) = decode_field decode_string ''auth_method'' '''' kvs;
             (header, b5) = decode_field (decode_pointer '''' decode_string) ''auth_header'' None kvs;
             (prefix, b6) = decode_field decode_string ''path_prefix'' '''' kvs;
             (allowed, b7) = decode_field (decode_slice '''' decode_string) ''allowed_hosts'' [] kvs;
             (llm, b8) = decode_field decode_bool ''is_llm'' False kvs
         in if b1 \<or> b2 \<or> b3 \<or> b4 \<or> b5 \<or> b6 \<or> b7 \<or> b8 then None
            else Some \<lparr>cr_ID = '''', cr_AccountID = 0, cr_Name = name, cr_UpstreamHost = host, cr_Scheme = scheme,
              cr_AuthMethod = auth, cr_AuthHeader = header, cr_PathPrefix = prefix, cr_AllowedHosts = allowed, cr_IsLLM = llm,
              cr_CreatedAt = zero_time\<rparr>)
    | Some JNull \<Rightarrow> Some \<lparr>cr_ID = '''', cr_AccountID = 0, cr_Name = '''', cr_UpstreamHost = '''', cr_Scheme = '''',
        cr_AuthMethod = '''', cr_AuthHeader = None, cr_PathPrefix = '''', cr_AllowedHosts = [], cr_IsLLM = False,
        cr_CreatedAt = zero_time\<rparr>
    | _ \<Rightarrow> None)"

text \<open>The checks of \<open>handleRegisterProvider\<close> in their order: the message of a bad request, or the provider.\<close>

definition check_registration :: "(string \<Rightarrow> string list result) \<Rightarrow> custom_provider \<Rightarrow> string + custom_provider" where
  "check_registration lookup q =
     (if cr_Name q = '''' then Inl ''name is required''
      else if \<not> valid_provider_name (cr_Name q)
      then Inl ''name must be 2-100 lowercase alphanumeric characters, hyphens, or underscores''
      else if cr_Name q \<in> set builtinProviders then Inl (''cannot override built-in provider: '' @ cr_Name q)
      else if cr_UpstreamHost q = '''' then Inl ''upstream_host is required''
      else (case validateUpstreamHost lookup (cr_UpstreamHost q) of
          Inl e \<Rightarrow> Inl (error_text e)
        | Inr _ \<Rightarrow>
            if cr_AuthMethod q = '''' then Inl ''auth_method is required''
            else if cr_AuthMethod q \<notin> set validAuthMethods
            then Inl ''auth_method must be one of: bearer_header, api_key_header, query_param, none''
            else (let scheme = (if cr_Scheme q = '''' then ''https'' else cr_Scheme q) in
              if scheme \<notin> set validSchemes then Inl (''scheme must be either '' @ quoted ''https'' @ '' or '' @ quoted ''http'')
              else Inr (q\<lparr>cr_Scheme := scheme\<rparr>))))"

definition handleRegisterProvider :: "(string \<Rightarrow> string list result) \<Rightarrow> go_error option \<Rightarrow> string \<Rightarrow> time \<Rightarrow> int \<Rightarrow> json option \<Rightarrow>
    custom_provider list \<Rightarrow> provider_reply \<times> custom_provider list" where
  "handleRegisterProvider lookup fault uuid now accountID body rows = (case decode_registration body of
      None \<Rightarrow> (PrError 400 ''invalid request body'', rows)
    | Some q \<Rightarrow> (case check_registration lookup q of
        Inl msg \<Rightarrow> (PrError 400 msg, rows)
      | Inr p \<Rightarrow> (case CreateCustomProvider fault uuid now (p\<lparr>cr_AccountID := accountID\<rparr>) rows of
          (Inl e, rows') \<Rightarrow> (PrError 500 (error_text e), rows')
        | (Inr new, rows') \<Rightarrow> (PrCreated new, rows'))))"

definition handleListProviders :: "go_error option \<Rightarrow> int \<Rightarrow> custom_provider list \<Rightarrow> provider_reply" where
  "handleListProviders fault accountID rows = (case ListCustomProviders fault accountID rows of
      Inl e \<Rightarrow> PrError 500 (error_text e)
    | Inr ps \<Rightarrow> PrListed (map (\<lambda>n. (n, None)) builtinProviders @ map (\<lambda>p. (cr_Name p, Some p)) ps))"

definition handleUnregisterProvider :: "go_error option \<Rightarrow> int \<Rightarrow> string \<Rightarrow> custom_provider list \<Rightarrow> provider_reply \<times> custom_provider list" where
  "handleUnregisterProvider fault accountID name rows =
     (if name = '''' then (PrError 400 ''provider name is required'', rows)
      else if name \<in> set builtinProviders then (PrError 400 (''cannot unregister built-in provider: '' @ name), rows)
      else (case DeleteCustomProvider fault accountID name rows of
          (Inl e, rows') \<Rightarrow> (PrError 500 (error_text e), rows')
        | (Inr _, rows') \<Rightarrow> (PrNoContent, rows')))"

section \<open>The way to the proxy\<close>

record catalog_entry =
  ca_ID :: string
  ca_UpstreamHost :: "string option"
  ca_UpstreamPathPrefix :: string
  ca_Scheme :: string
  ca_AuthMethod :: "string option"
  ca_AuthHeader :: "string option"
  ca_AllowedHosts :: "string list"
  ca_RuntimeProviderID :: "string option"

definition provider_config :: "custom_provider \<Rightarrow> custom_provider_config" where
  "provider_config p = \<lparr>cp_Name = cr_Name p, cp_UpstreamHost = cr_UpstreamHost p, cp_Scheme = cr_Scheme p,
     cp_AuthMethod = cr_AuthMethod p, cp_AuthHeader = deref_or '''' (cr_AuthHeader p), cp_PathPrefix = cr_PathPrefix p,
     cp_AllowedHosts = cr_AllowedHosts p, cp_IsLLM = cr_IsLLM p\<rparr>"

definition runtime_id :: "catalog_entry \<Rightarrow> string" where
  "runtime_id e = (case ca_RuntimeProviderID e of Some r \<Rightarrow> if r = '''' then ca_ID e else r | None \<Rightarrow> ca_ID e)"

definition search_config :: "catalog_entry \<Rightarrow> custom_provider_config" where
  "search_config e = \<lparr>cp_Name = runtime_id e, cp_UpstreamHost = deref_or '''' (ca_UpstreamHost e), cp_Scheme = ca_Scheme e,
     cp_AuthMethod = deref_or ''bearer_header'' (ca_AuthMethod e), cp_AuthHeader = deref_or '''' (ca_AuthHeader e),
     cp_PathPrefix = ca_UpstreamPathPrefix e, cp_AllowedHosts = ca_AllowedHosts e, cp_IsLLM = False\<rparr>"

text \<open>The catalog of search providers is left out when it cannot be read.\<close>

definition buildCustomProviders :: "custom_provider list \<Rightarrow> catalog_entry list result \<Rightarrow> custom_provider_config list" where
  "buildCustomProviders stored catalog =
     map provider_config stored @ (case catalog of Inr es \<Rightarrow> map search_config es | Inl _ \<Rightarrow> [])"

end
