(* ===== verification/Api_Proxy_Properties.thy ===== *)
theory Api_Proxy_Properties
  imports Provider_Api
begin


section \<open>Steps of the proxy\<close>

lemma run_read_proxy [simp]: "run_state (read_proxy f) w = (f w, w)"
  by (simp add: read_proxy_def)

definition token_given :: "proxy_request \<Rightarrow> proxy_world \<Rightarrow> string" where
  "token_given r w = (case pw_providers w (fst (split_path (px_Path r))) of
      Some p \<Rightarrow> pv_ExtractToken p (px_Header r) | None \<Rightarrow> header_get ''x-api-key'' (px_Header r))"

text \<open>The configuration of the caller, and the provider that the path names.\<close>

definition caller :: "proxy_request \<Rightarrow> proxy_world \<Rightarrow> meta_config option" where
  "caller r w = GetConfigWithNonce (extractIP (px_RemoteAddr r)) (token_given r w) (pw_meta w)"

definition named_provider :: "proxy_request \<Rightarrow> proxy_world \<Rightarrow> meta_config \<Rightarrow> provider option" where
  "named_provider r w cfg = find_provider (fst (split_path (px_Path r))) cfg (pw_providers w (fst (split_path (px_Path r))))"

lemma handleProxy_refused:
  assumes "caller r w = None"
  shows "run_state (handleProxy parse rfc3339 r) w =
    (if fst (split_path (px_Path r)) = '''' then PxError 404 ''missing provider in path'' else PxError 401 ''unauthorized'', w)"
  using assms by (simp add: handleProxy_def caller_def token_given_def Let_def)

text \<open>
  The proxy does nothing without the nonce. A call from an address that is not registered, or
  with a token other than the nonce of the VM that is registered there, is answered with 401 (404
  if its path names no provider); nothing is sent to anyone, and neither the registry nor the usage
  changes.
\<close>
theorem proxy_needs_nonce:
  assumes "case mt_configs (pw_meta w) (extractIP (px_RemoteAddr r)) of
      None \<Rightarrow> True | Some cfg \<Rightarrow> mc_Nonce cfg \<noteq> '''' \<and> token_given r w \<noteq> mc_Nonce cfg"
  shows "final_state (handleProxy parse rfc3339 r) w = w \<and>
    outcome (handleProxy parse rfc3339 r) w \<in> {PxError 404 ''missing provider in path'', PxError 401 ''unauthorized''}"
proof -
  have "caller r w = None" using assms by (auto simp: caller_def GetConfigWithNonce_def split: option.splits)
  then show ?thesis by (simp add: handleProxy_refused)
qed

section \<open>What is sent\<close>

text \<open>The tokens that the control plane hands out on the tape.\<close>

definition token_in :: "(string \<Rightarrow> json option) \<Rightarrow> upstream_reply \<Rightarrow> string option" where
  "token_in parse reply = (case reply of
      UpReply status _ text _ \<Rightarrow> if status = 200 then map_option fst (decode_refresh (parse text)) else None
    | UpFails _ \<Rightarrow> None)"

definition granted :: "(string \<Rightarrow> json option) \<Rightarrow> (interference \<times> upstream_reply) list \<Rightarrow> string set" where
  "granted parse tape = {tok. Some tok \<in> set (map (\<lambda>(f, reply). token_in parse reply) tape)}"

lemma granted_simps [simp]: "granted parse [] = {}"
  "granted parse ((f, reply) # tape) = set_option (token_in parse reply) \<union> granted parse tape"
  by (auto simp: granted_def)














definition stored_key :: "meta_config \<Rightarrow> string \<Rightarrow> string" where
  "stored_key cfg name = (case mc_LLMKeys cfg name of Some e \<Rightarrow> ce_Value e | None \<Rightarrow> '''')"


section \<open>Where it goes and with which key\<close>










text \<open>The built-in providers.\<close>

lemmas provider_defs = anthropicProvider_def openaiProvider_def openaiCodexProvider_def openrouterProvider_def nebiusProvider_def
  telegramProvider_def discordBotProvider_def whatsappProvider_def googleProvider_def openai_style_def plain_provider_def




lemma lower_names [simp]: "map lower ''Authorization'' = ''authorization''" "map lower ''x-api-key'' = ''x-api-key''"
  "map lower ''anthropic-beta'' = ''anthropic-beta''" "map lower ''anthropic-version'' = ''anthropic-version''"
  by code_simp+









section \<open>A host with two VMs\<close>

text \<open>Documents by their text, enough for the runs below.\<close>

definition sample_parse :: "string \<Rightarrow> json option" where
  "sample_parse s = (if s = ''granted'' then Some (JObj [(''access_token'', JStr ''new-token''), (''expires_at'', JStr ''later'')]) else None)"

definition sample_time :: "string \<Rightarrow> time option" where
  "sample_time s = Some (3600 * second)"

definition proxy_config :: "string \<Rightarrow> llm_keys \<Rightarrow> meta_config" where
  "proxy_config mid ks = \<lparr>mc_MachineID = mid, mc_MachineKind = ''openclaw'', mc_MachineSlug = mid, mc_GatewayToken = '''',
     mc_OpenClawConf = '''', mc_HermesConfigYAML = '''', mc_HermesEnv = '''', mc_HermesAuthJSON = '''', mc_HermesSoul = '''',
     mc_Secrets = Map.empty, mc_LLMKeys = ks, mc_Nonce = ''n-'' @ mid, mc_AccountID = 1, mc_BudgetMicrocents = None,
     mc_SigningKey = '''', mc_VmHostname = '''', mc_TunnelToken = '''', mc_OwnerEmails = [], mc_CfCaPubKey = '''',
     mc_CustomProviders = [], mc_SecretCache = \<lparr>sc_Secrets = None, sc_FetchedAt = 0\<rparr>, mc_RuntimeSelection = None\<rparr>"

definition oauth_key :: "string \<Rightarrow> time \<Rightarrow> credential_entry" where
  "oauth_key v expires = \<lparr>ce_Value = v, ce_CredentialType = ''oauth'', ce_ExpiresAt = Some expires\<rparr>"

definition host_of :: "meta_config \<Rightarrow> meta_server" where
  "host_of cfg = RegisterMachine ''10.0.0.10'' cfg (new_server ''https://cp'' ''tok'' ''v1'' True True)"

definition vm_call :: "string \<Rightarrow> string \<Rightarrow> string \<Rightarrow> proxy_request" where
  "vm_call path nonce body = \<lparr>px_RemoteAddr = ''10.0.0.10:4321'', px_Method = ''POST'', px_Path = path, px_RawQuery = '''',
     px_Header = (\<lambda>_. [])(''x-api-key'' := [nonce]), px_Body = body, px_BodyFails = False, px_Accepts = 100\<rparr>"

text \<open>An expired token is refused; the control plane grants a new one; the retry is accepted.\<close>

definition refresh_tape :: "(interference \<times> upstream_reply) list" where
  "refresh_tape = [(\<lambda>x. x, UpReply 401 (\<lambda>_. []) ''denied'' False), (\<lambda>x. x, UpReply 200 (\<lambda>_. []) ''granted'' False),
     (\<lambda>x. x, UpReply 200 (\<lambda>_. []) ''done'' False)]"

definition refresh_world :: "string \<Rightarrow> proxy_world" where
  "refresh_world name = new_proxy sample_parse (host_of (proxy_config ''a'' [name \<mapsto> oauth_key ''old-token'' (3600 * second)])) ''https://cp''
     refresh_tape 0"

fun sent_body :: "outgoing \<Rightarrow> out_body option" where
  "sent_body (ToUpstream rq) = Some (uq_Body rq)"
| "sent_body (ToBackend rq) = None"

fun reply_status :: "proxy_reply \<Rightarrow> int" where
  "reply_status (PxError s m) = s"
| "reply_status (PxJson s kvs) = s"
| "reply_status (PxForward s h b) = s"
| "reply_status (PxStream s h ls) = s"
| "reply_status (PxRedirect l) = 301"
| "reply_status PxPanic = 0"

text \<open>Answering the client sends nothing.\<close>

lemma respond_log [simp]: "pw_log (final_state (respond parse cx accepts status h text fails) w) = pw_log w"
  "pw_meta (final_state (respond parse cx accepts status h text fails) w) = pw_meta w"
proof -
  let ?f = "\<lambda>w. (pw_log w, pw_meta w)"
  have "state_io_rel (same ?f) (recordAndLogUsage cx u)" for u
    by (rule sameI) (simp add: recordAndLogUsage_def Let_def)
  then have "state_io_rel (same ?f) (respond parse cx accepts status h text fails)"
    unfolding respond_def streamSSE_def forwardJSON_def Let_def
    by (intro same_preorder.io_rules)
  from sameD [OF this, of w] show "pw_log (final_state (respond parse cx accepts status h text fails) w) = pw_log w"
    "pw_meta (final_state (respond parse cx accepts status h text fails) w) = pw_meta w" by simp_all
qed

text \<open>A call whose credential is refused and refreshed, with nothing else going on.\<close>

lemma oauth_retry_run:
  assumes cfg: "caller r w = Some cfg" "named_provider r w cfg = Some p" "fst (split_path (px_Path r)) \<noteq> ''''"
    and entry: "mc_LLMKeys cfg (pv_Name p) = Some (oauth_key key expires)"
      "key \<noteq> ''''" "10 * minute \<le> expires - pw_now w" "mc_BudgetMicrocents cfg = None"
    and url: "ParseURL (pv_Scheme p) (upstream_rest p (snd (split_path (px_Path r))) (px_RawQuery r)) = Some url"
      "isHostAllowed (upstream_host p (snd (split_path (px_Path r)))) (pv_AllowedHosts p)"
      "\<And>k rq. u_Scheme (uq_URL (pv_InjectKey p k ''oauth'' rq)) = u_Scheme (uq_URL rq) \<and> uq_Body (pv_InjectKey p k ''oauth'' rq) = uq_Body rq"
      "u_Scheme url = ''https''"
    and body: "request_body p True ''oauth'' r = Inr (Sends b, was_read)"
    and refresh: "pw_refreshURL w \<noteq> ''''" "url_ok (refresh_url (pw_refreshURL w) (mc_MachineID cfg))"
      "decode_refresh (parse t2) = Some (tok, exp, err, perm)"
    and tape: "pw_tape w = (\<lambda>x. x, UpReply 401 h1 t1 fa) # (\<lambda>x. x, UpReply 200 h2 t2 fb) # (\<lambda>x. x, UpReply 200 h3 t3 fc) # tape"
  shows "map sent_body (pw_log (final_state (handleProxy parse stamp r) w)) =
      map sent_body (pw_log w) @ [Some (Sends b), None, Some (retry_body r was_read)] \<and>
    (retry_body r was_read = Breaks \<longrightarrow>
      outcome (handleProxy parse stamp r) w = PxError 502 ''upstream request failed after token refresh'')"
  using cfg entry url body refresh tape
  by (simp add: handleProxy_def preflight_def forward_call_def client_do_def exchange_def after_reply_def refreshCredential_def
      store_credential_def caller_def token_given_def named_provider_def oauth_key_def Let_def)

lemma vm_call_source [simp]: "extractIP (px_RemoteAddr (vm_call path nonce body)) = ''10.0.0.10''"
proof -
  have "extractIP ''10.0.0.10:4321'' = ''10.0.0.10''" by code_simp
  then show ?thesis by (simp add: vm_call_def)
qed

lemma header_get_key: "header_get ''x-api-key'' h = (case h ''x-api-key'' of v # _ \<Rightarrow> v | [] \<Rightarrow> '''')"
  by (simp only: header_get_def lower_names)

lemma vm_call_simps [simp]: "px_Path (vm_call path nonce body) = path" "px_RawQuery (vm_call path nonce body) = ''''"
  "px_Body (vm_call path nonce body) = body" "\<not> px_BodyFails (vm_call path nonce body)"
  "header_get ''x-api-key'' (px_Header (vm_call path nonce body)) = nonce"
  by (simp_all add: vm_call_def header_get_key)

lemma host_of_simps [simp]: "mt_configs (host_of cfg) ''10.0.0.10'' = Some cfg" "mt_AgentToken (host_of cfg) = ''tok''"
  by (simp_all add: host_of_def RegisterMachine_def new_server_def)

lemma proxy_config_simps [simp]: "mc_Nonce (proxy_config mid ks) = ''n-'' @ mid" "mc_LLMKeys (proxy_config mid ks) = ks"
  "mc_MachineID (proxy_config mid ks) = mid" "mc_BudgetMicrocents (proxy_config mid ks) = None" "mc_CustomProviders (proxy_config mid ks) = []"
  by (simp_all add: proxy_config_def)

lemma new_proxy_simps [simp]: "pw_meta (new_proxy parse s url tape now) = s" "pw_refreshURL (new_proxy parse s url tape now) = url"
  "pw_providers (new_proxy parse s url tape now) = initProviders parse" "pw_tape (new_proxy parse s url tape now) = tape"
  "pw_log (new_proxy parse s url tape now) = []" "pw_now (new_proxy parse s url tape now) = now"
  by (simp_all add: new_proxy_def)

lemma sample_paths: "split_path ''/anthropic/v1/messages'' = (''anthropic'', ''/v1/messages'')"
  "split_path ''/openai-codex/v1/responses'' = (''openai-codex'', ''/v1/responses'')"
  by code_simp+

lemma sample_urls:
  "ParseURL ''https'' ''api.anthropic.com/v1/messages'' =
     Some \<lparr>u_Scheme = ''https'', u_Host = ''api.anthropic.com'', u_Path = ''/v1/messages'', u_RawQuery = ''''\<rparr>"
  "ParseURL ''https'' ''chatgpt.com/v1/responses'' =
     Some \<lparr>u_Scheme = ''https'', u_Host = ''chatgpt.com'', u_Path = ''/v1/responses'', u_RawQuery = ''''\<rparr>"
  "url_ok (refresh_url ''https://cp'' ''a'')"
  by code_simp+

lemma sample_grant: "decode_refresh (sample_parse ''granted'') = Some (''new-token'', ''later'', '''', False)"
  by code_simp

lemmas sample_run_simps = caller_def token_given_def named_provider_def find_provider_def GetConfigWithNonce_def refresh_world_def sample_paths
    initProviders_def provider_defs upstream_rest_def upstream_host_def isHostAllowed_def request_body_def sample_urls sample_grant refresh_tape_def retry_body_def

lemma anthropic_retry:
  "map sent_body (pw_log (final_state (handleProxy sample_parse sample_time (vm_call ''/anthropic/v1/messages'' ''n-a'' body)) (refresh_world ''anthropic''))) =
      [Some (Sends (Bytes body)), None, Some (Sends (Bytes ''''))]"
  using oauth_retry_run [where r = "vm_call ''/anthropic/v1/messages'' ''n-a'' body" and w = "refresh_world ''anthropic''" and p = "anthropicProvider sample_parse"
        and cfg = "proxy_config ''a'' [''anthropic'' \<mapsto> oauth_key ''old-token'' (3600 * second)]" and key = "''old-token''" and expires = "3600 * second"
        and parse = sample_parse and stamp = sample_time and perm = False and fa = False and fb = False and fc = False
        and url = "\<lparr>u_Scheme = ''https'', u_Host = ''api.anthropic.com'', u_Path = ''/v1/messages'', u_RawQuery = ''''\<rparr>"
        and b = "Bytes body" and was_read = True]
    by (simp add: sample_run_simps anthropic_inject_def map_header_def)

text \<open>
  The retry after a refreshed OAuth token does not carry the request. The body of the call is
  read again for the retry although the first attempt has consumed it. With Anthropic, whose body
  was read for a possible change, the provider accepts the new token but gets an empty body; with
  Codex, whose body was passed on and closed by the first attempt, the retry fails and the VM gets
  a 502, for every request that has a body at all.
\<close>
theorem retry_loses_body:
  assumes "body \<noteq> ''''"
  shows "map sent_body (pw_log (final_state (handleProxy sample_parse sample_time (vm_call ''/anthropic/v1/messages'' ''n-a'' body)) (refresh_world ''anthropic''))) =
      [Some (Sends (Bytes body)), None, Some (Sends (Bytes ''''))] \<and>
    outcome (handleProxy sample_parse sample_time (vm_call ''/openai-codex/v1/responses'' ''n-a'' body)) (refresh_world ''openai-codex'') =
      PxError 502 ''upstream request failed after token refresh''"
  using assms anthropic_retry [of body] oauth_retry_run [where r = "vm_call ''/openai-codex/v1/responses'' ''n-a'' body" and w = "refresh_world ''openai-codex''" and p = "openaiCodexProvider sample_parse"
        and cfg = "proxy_config ''a'' [''openai-codex'' \<mapsto> oauth_key ''old-token'' (3600 * second)]" and key = "''old-token''" and expires = "3600 * second"
        and parse = sample_parse and stamp = sample_time and perm = False and fa = False and fb = False and fc = False
        and url = "\<lparr>u_Scheme = ''https'', u_Host = ''chatgpt.com'', u_Path = ''/v1/responses'', u_RawQuery = ''''\<rparr>"
        and b = "Bytes body" and was_read = False]
    by (simp add: sample_run_simps bearer_def map_header_def)

theorem retry_loses_body_witness:
  "map sent_body (pw_log (final_state (handleProxy sample_parse sample_time (vm_call ''/anthropic/v1/messages'' ''n-a'' ''question'')) (refresh_world ''anthropic''))) =
      [Some (Sends (Bytes ''question'')), None, Some (Sends (Bytes ''''))]"
  using retry_loses_body [of "''question''"] by simp

section \<open>A VM that is replaced during a refresh\<close>

text \<open>The key of one provider is about to expire; while it is refreshed, the address is given to machine \<open>b\<close>.\<close>

definition reuse_address :: interference where
  "reuse_address x = (RegisterMachine ''10.0.0.10'' (proxy_config ''b'' Map.empty) (UnregisterMachine ''10.0.0.10'' (fst x)), snd x)"

definition reuse_world :: proxy_world where
  "reuse_world = new_proxy sample_parse
     (host_of (proxy_config ''a'' [''anthropic'' \<mapsto> oauth_key ''old-token'' (60 * second),
       ''openai'' \<mapsto> \<lparr>ce_Value = ''key-of-a'', ce_CredentialType = ''api_key'', ce_ExpiresAt = None\<rparr>])) ''https://cp''
     [(reuse_address, UpReply 200 (\<lambda>_. []) ''granted'' False), (\<lambda>x. x, UpReply 200 (\<lambda>_. []) ''done'' False)] 0"

text \<open>
  A refresh that ends after its VM was replaced hands the keys of the old machine to the new
  one. The whole map of keys that the call holds is merged into whatever is registered under the
  address by then: machine \<open>b\<close>, which had no credentials, ends up with the refreshed token and with
  the key for another provider of machine \<open>a\<close>, and its calls are sent with them.
\<close>
theorem stale_refresh_leaks_keys:
  "\<exists>cfg. mt_configs (pw_meta (final_state (handleProxy sample_parse sample_time (vm_call ''/anthropic/v1/messages'' ''n-a'' '''')) reuse_world))
      ''10.0.0.10'' = Some cfg \<and>
     mc_MachineID cfg = ''b'' \<and> mc_Nonce cfg = ''n-b'' \<and> stored_key cfg ''openai'' = ''key-of-a'' \<and> stored_key cfg ''anthropic'' = ''new-token''"
  by (simp add: handleProxy_def preflight_def forward_call_def client_do_def exchange_def after_reply_def refreshCredential_def
      store_credential_def reuse_world_def reuse_address_def oauth_key_def Let_def sample_paths GetConfigWithNonce_def find_provider_def
      initProviders_def provider_defs upstream_rest_def upstream_host_def isHostAllowed_def request_body_def sample_urls sample_grant
      anthropic_inject_def map_header_def UpdateMachineLLMKeys_def update_config_def RegisterMachine_def UnregisterMachine_def stored_key_def)

section \<open>A registered host in disguise\<close>

definition disguised_registration :: json where
  "disguised_registration = JObj [(''name'', JStr ''mirror''), (''upstream_host'', JStr ''example.com:x@169.254.169.254''),
     (''scheme'', JStr ''http''), (''auth_method'', JStr ''none'')]"

definition public_lookup :: "string \<Rightarrow> string list result" where
  "public_lookup name = (if name = ''example.com'' then Inr [''93.184.216.34''] else Inl (ErrText ''no such host''))"

definition mirror_row :: custom_provider where
  "mirror_row = \<lparr>cr_ID = ''id'', cr_AccountID = 1, cr_Name = ''mirror'', cr_UpstreamHost = ''example.com:x@169.254.169.254'', cr_Scheme = ''http'',
     cr_AuthMethod = ''none'', cr_AuthHeader = None, cr_PathPrefix = '''', cr_AllowedHosts = [], cr_IsLLM = False, cr_CreatedAt = 0\<rparr>"

lemma disguised_decoded: "decode_registration (Some disguised_registration) = Some (mirror_row\<lparr>cr_ID := '''', cr_AccountID := 0, cr_CreatedAt := zero_time\<rparr>)"
proof -
  have "equal_fold a b = (map lower a = map lower b)" for a b by (rule equal_fold_def)
  have names: "map lower ''name'' = ''name''" "map lower ''upstream_host'' = ''upstream_host''" "map lower ''scheme'' = ''scheme''"
    "map lower ''auth_method'' = ''auth_method''" "map lower ''auth_header'' = ''auth_header''" "map lower ''path_prefix'' = ''path_prefix''"
    "map lower ''allowed_hosts'' = ''allowed_hosts''" "map lower ''is_llm'' = ''is_llm''"
    by code_simp+
  show ?thesis
    by (simp add: decode_registration_def disguised_registration_def decode_field_def equal_fold_def names mirror_row_def del: list.map)
qed

lemma public_ip: "parse_ipv4 ''93.184.216.34'' = Some (93, 184, 216, 34)"
proof -
  have "split_on (CHR ''.'') ''93.184.216.34'' = [''93'', ''184'', ''216'', ''34'']" by simp
  moreover have "is_digit (CHR ''0'')" "is_digit (CHR ''1'')" "is_digit (CHR ''2'')" "is_digit (CHR ''3'')" "is_digit (CHR ''4'')"
    "is_digit (CHR ''6'')" "is_digit (CHR ''8'')" "is_digit (CHR ''9'')" by code_simp+
  ultimately show ?thesis by (simp add: parse_ipv4_def octet_def digits_value_def)
qed

lemma disguised_valid: "validateUpstreamHost public_lookup ''example.com:x@169.254.169.254'' = Inr ()"
proof -
  have "host_name ''example.com:x@169.254.169.254'' = ''example.com''" by code_simp
  moreover have "map lower ''example.com'' = ''example.com''" by code_simp
  moreover have "ParseIP ''example.com'' = None" by code_simp
  moreover have "blocked_text ''93.184.216.34'' = False"
    by (simp add: blocked_text_def ParseIP_def public_ip mapped_def isPrivateOrBlockedIP_def IsLoopback_def IsLinkLocalUnicast_def
        IsLinkLocalMulticast_def IsPrivate_def IsUnspecified_def to4_def)
  ultimately show ?thesis by (simp add: validateUpstreamHost_def Let_def blockedHostnames_def public_lookup_def del: list.map)
qed

lemma disguised_accepted:
  "handleRegisterProvider public_lookup None ''id'' 0 1 (Some disguised_registration) [] = (PrCreated mirror_row, [mirror_row])"
proof -
  have "valid_provider_name ''mirror''" by code_simp
  then show ?thesis
    by (simp add: handleRegisterProvider_def disguised_decoded check_registration_def mirror_row_def disguised_valid builtinProviders_def
        validAuthMethods_def validSchemes_def CreateCustomProvider_def fits_columns_def deref_or_def Let_def)
qed

definition disguised_world :: proxy_world where
  "disguised_world = new_proxy sample_parse
     (host_of ((proxy_config ''a'' Map.empty)\<lparr>mc_CustomProviders := buildCustomProviders [mirror_row] (Inr [])\<rparr>)) '''' [] 0"

lemma metadata_ip: "parse_ipv4 ''169.254.169.254'' = Some (169, 254, 169, 254)"
proof -
  have "split_on (CHR ''.'') ''169.254.169.254'' = [''169'', ''254'', ''169'', ''254'']" by simp
  moreover have "is_digit (CHR ''1'')" "is_digit (CHR ''2'')" "is_digit (CHR ''4'')" "is_digit (CHR ''5'')"
    "is_digit (CHR ''6'')" "is_digit (CHR ''9'')" by code_simp+
  ultimately show ?thesis by (simp add: parse_ipv4_def octet_def digits_value_def)
qed

lemma metadata_blocked: "blocked_text ''169.254.169.254''"
  by (simp add: blocked_text_def ParseIP_def metadata_ip mapped_def isPrivateOrBlockedIP_def IsLinkLocalUnicast_def to4_def)

lemma disguised_url: "ParseURL ''http'' ''example.com:x@169.254.169.254/computeMetadata/v1/token'' =
    Some \<lparr>u_Scheme = ''http'', u_Host = ''169.254.169.254'', u_Path = ''/computeMetadata/v1/token'', u_RawQuery = ''''\<rparr>"
  "split_path ''/mirror/computeMetadata/v1/token'' = (''mirror'', ''/computeMetadata/v1/token'')"
  by code_simp+

text \<open>
  The check of the upstream host can be evaded. It looks at what stands before the last colon,
  whatever the part after it is, while the URL that the proxy builds takes what stands before an at
  sign for user information. So \<open>example.com:x@169.254.169.254\<close> is accepted as a host, because
  \<open>example.com\<close> resolves to a public address, and the proxy sends the calls of the VM, with the
  headers that the VM chose, to the link-local metadata address of the host, which the check is
  there to refuse.
\<close>
theorem disguised_host_reached:
  "handleRegisterProvider public_lookup None ''id'' 0 1 (Some disguised_registration) [] = (PrCreated mirror_row, [mirror_row]) \<and>
   blocked_text ''169.254.169.254'' \<and>
   (\<exists>rq. pw_log (final_state (handleProxy sample_parse sample_time (vm_call ''/mirror/computeMetadata/v1/token'' ''n-a'' '''')) disguised_world) =
      [ToUpstream rq] \<and> u_Host (uq_URL rq) = ''169.254.169.254'' \<and> uq_Header rq = client_headers (px_Header (vm_call ''/mirror/computeMetadata/v1/token'' ''n-a'' '''')))"
proof -
  have http: "equal_fold ''http'' ''http''" by simp
  show ?thesis
    by (simp add: disguised_accepted metadata_blocked handleProxy_def preflight_def forward_call_def client_do_def exchange_def after_reply_def
        disguised_world_def Let_def disguised_url GetConfigWithNonce_def find_provider_def initProviders_def
        buildCustomProviders_def provider_config_def mirror_row_def CustomProviderToProxy_def plain_provider_def
        upstream_rest_def upstream_host_def isHostAllowed_def request_body_def http)
qed

section \<open>Streams\<close>















section \<open>Usage\<close>

datatype usage_op = Use usage_record | Flush string | Remove string

fun usage_step :: "usage_op \<Rightarrow> usage_tracker \<Rightarrow> usage_tracker" where
  "usage_step (Use rec) t = Record rec t"
| "usage_step (Flush m) t = snd (FlushUsage m t)"
| "usage_step (Remove m) t = RemoveMachine m t"

text \<open>The specification: one list of the records that were not flushed yet.\<close>

fun history_step :: "usage_op \<Rightarrow> usage_record list \<Rightarrow> usage_record list" where
  "history_step (Use rec) rs = rs @ [rec]"
| "history_step (Flush m) rs = filter (\<lambda>rec. ur_MachineID rec \<noteq> m) rs"
| "history_step (Remove m) rs = filter (\<lambda>rec. ur_MachineID rec \<noteq> m) rs"

definition records_of :: "string \<Rightarrow> usage_record list \<Rightarrow> usage_record list" where
  "records_of m rs = filter (\<lambda>rec. ur_MachineID rec = m) rs"

definition implements :: "usage_tracker \<Rightarrow> usage_record list \<Rightarrow> bool" where
  "implements t rs \<longleftrightarrow> (\<forall>m. GetRecords m t = records_of m rs \<and>
     GetSpend m t = wrap64 (sum_list (map ur_CostMicrocents (records_of m rs))))"

lemma wrap64_add [simp]: "wrap64 (wrap64 x + y) = wrap64 (x + y)"
proof -
  have "wrap64 x + y + 2 ^ 63 = (x + 2 ^ 63) mod 2 ^ 64 + y" by (simp add: wrap64_def)
  then show ?thesis unfolding wrap64_def [of "wrap64 x + y"] by (simp add: mod_simps wrap64_def algebra_simps)
qed

lemma wrap64_0 [simp]: "wrap64 0 = 0"
  by (simp add: wrap64_def)

lemma records_of_removed:
  "records_of m (filter (\<lambda>rec. ur_MachineID rec \<noteq> x) rs) = (if m = x then [] else records_of m rs)"
  by (induction rs) (auto simp: records_of_def)

lemma removed_implements: "implements t rs \<Longrightarrow> implements (RemoveMachine x t) (filter (\<lambda>rec. ur_MachineID rec \<noteq> x) rs)"
  by (simp add: implements_def records_of_removed RemoveMachine_def GetRecords_def GetSpend_def deref_or_def)

lemma usage_step_implements: "implements t rs \<Longrightarrow> implements (usage_step op t) (history_step op rs)"
proof (cases op)
  case (Use rec)
  assume "implements t rs"
  then show ?thesis
    by (simp add: Use implements_def Record_def Let_def GetRecords_def GetSpend_def records_of_def deref_or_def)
qed (simp_all add: FlushUsage_def removed_implements)

text \<open>
  C34: the usage tracker, with its map of records and its separate map of totals, implements a
  single history of records: after any sequence of records and flushes the records of a machine are
  those of the history in their order, a flush returns exactly these, and the total is the sum of
  their costs, in the arithmetic of 64 bits.
\<close>
theorem usage_refines_history:
  "GetRecords m (fold usage_step ops NewUsageTracker) = records_of m (fold history_step ops []) \<and>
   fst (FlushUsage m (fold usage_step ops NewUsageTracker)) = records_of m (fold history_step ops []) \<and>
   GetSpend m (fold usage_step ops NewUsageTracker) = wrap64 (sum_list (map ur_CostMicrocents (records_of m (fold history_step ops []))))"
proof -
  have "implements t rs \<Longrightarrow> implements (fold usage_step ops t) (fold history_step ops rs)" for t rs
    by (induction ops arbitrary: t rs) (simp_all add: usage_step_implements)
  moreover have "implements NewUsageTracker []"
    by (simp add: implements_def NewUsageTracker_def GetRecords_def GetSpend_def records_of_def deref_or_def wrap64_def)
  ultimately show ?thesis by (simp add: implements_def FlushUsage_def)
qed

section \<open>Witnesses\<close>

theorem proxy_needs_nonce_witness:
  "final_state (handleProxy sample_parse sample_time (vm_call ''/anthropic/v1/messages'' ''guess'' '''')) (refresh_world ''anthropic'') = refresh_world ''anthropic''"
  using proxy_needs_nonce [where w = "refresh_world ''anthropic''" and r = "vm_call ''/anthropic/v1/messages'' ''guess'' ''''"
      and parse = sample_parse]
  by (simp add: refresh_world_def token_given_def sample_paths initProviders_def provider_defs)



end
