(* ===== verification/Backup.thy ===== *)
theory Backup
  imports Prelude "HOL-Library.Word"
begin

text \<open>
  \<open>internal/backup\<close>: encrypted backups of the data volume of a machine. \<open>crypto.go\<close> encrypts and
  authenticates a stream that is read in chunks of any size; \<open>gcs.go\<close> puts compressed and encrypted
  volumes into an object store and restores them. The ciphers, the compression and the outcome of
  system calls are arguments.
\<close>

unbundle bit_operations_syntax

section \<open>Streams of bytes\<close>

type_synonym bytes = "8 word list"

text \<open>A reader is what its \<open>Read\<close> calls return; after the last one it is at its end.\<close>

datatype read_status = More | AtEnd | ReadFails go_error

type_synonym reader = "(bytes \<times> read_status) list"

text \<open>A writer accepts a number of calls, or all of them.\<close>

type_synonym writer = "nat option"

section \<open>Encryption (crypto.go)\<close>

text \<open>The key stream of AES in counter mode, HMAC-SHA256, and AES-GCM with its 12-byte nonce.\<close>

record crypto =
  keystream :: "bytes \<Rightarrow> bytes \<Rightarrow> nat \<Rightarrow> 8 word"
  hmac_sum :: "bytes \<Rightarrow> bytes \<Rightarrow> bytes"
  gcm_seal :: "bytes \<Rightarrow> bytes \<Rightarrow> bytes \<Rightarrow> bytes"
  gcm_open :: "bytes \<Rightarrow> bytes \<Rightarrow> bytes \<Rightarrow> bytes option"

definition NewCipher :: "bytes \<Rightarrow> unit result" where
  "NewCipher key = (if length key \<in> {16, 24, 32} then Inr () else Inl (ErrText (''crypto/aes: invalid key size '' @ show_nat (length key))))"

abbreviation gcm_nonce_size :: nat where
  "gcm_nonce_size \<equiv> 12"

abbreviation ctr_block_size :: nat where
  "ctr_block_size \<equiv> 16"

text \<open>The random bytes that the call draws are an argument.\<close>

definition GenerateKey :: "bytes result \<Rightarrow> bytes result" where
  "GenerateKey random = (case random of Inl e \<Rightarrow> Inl (wrap ''generate key'' e) | Inr key \<Rightarrow> Inr key)"

definition EncryptKey :: "crypto \<Rightarrow> bytes result \<Rightarrow> bytes \<Rightarrow> bytes \<Rightarrow> bytes result" where
  "EncryptKey cr random machineKey masterKey = (case NewCipher masterKey of
      Inl e \<Rightarrow> Inl e
    | Inr _ \<Rightarrow> (case random of
        Inl e \<Rightarrow> Inl e
      | Inr nonce \<Rightarrow> Inr (nonce @ gcm_seal cr masterKey nonce machineKey)))"

definition DecryptKey :: "crypto \<Rightarrow> bytes \<Rightarrow> bytes \<Rightarrow> bytes result" where
  "DecryptKey cr encrypted masterKey = (case NewCipher masterKey of
      Inl e \<Rightarrow> Inl e
    | Inr _ \<Rightarrow>
        if length encrypted < gcm_nonce_size then Inl (ErrText ''ciphertext too short'')
        else (case gcm_open cr masterKey (take gcm_nonce_size encrypted) (drop gcm_nonce_size encrypted) of
            None \<Rightarrow> Inl (ErrText ''cipher: message authentication failed'')
          | Some key \<Rightarrow> Inr key))"

text \<open>\<open>XORKeyStream\<close> continues where the previous call ended.\<close>

definition xor_at :: "(nat \<Rightarrow> 8 word) \<Rightarrow> nat \<Rightarrow> bytes \<Rightarrow> bytes" where
  "xor_at ks pos data = map (\<lambda>(i, b). b XOR ks i) (zip [pos..<pos + length data] data)"

text \<open>
  The loop of both directions: read, change, write. \<open>what\<close> and \<open>source\<close> are the prefixes of its errors;
  the result is what was written and the error, if there was one.
\<close>

fun cipher_loop :: "string \<Rightarrow> string \<Rightarrow> (nat \<Rightarrow> 8 word) \<Rightarrow> nat \<Rightarrow> reader \<Rightarrow> writer \<Rightarrow> bytes \<times> go_error option" where
  "cipher_loop what source ks pos [] w = ([], None)"
| "cipher_loop what source ks pos ((buf, st) # r) w =
     (if buf \<noteq> [] \<and> w = Some 0 then ([], Some (wrap what (ErrRemote ''write'')))
      else (let out = xor_at ks pos buf in
        (case st of
           AtEnd \<Rightarrow> (out, None)
         | ReadFails e \<Rightarrow> (out, Some (wrap source e))
         | More \<Rightarrow> (case cipher_loop what source ks (pos + length buf) r (if buf = [] then w else map_option (\<lambda>n. n - 1) w) of
             (rest, err) \<Rightarrow> (out @ rest, err)))))"

text \<open>What was written, and the nonce with the authentication code or the error.\<close>

definition StreamEncrypt :: "crypto \<Rightarrow> bytes result \<Rightarrow> reader \<Rightarrow> writer \<Rightarrow> bytes \<Rightarrow> bytes \<times> (bytes \<times> bytes) result" where
  "StreamEncrypt cr random r w key = (case NewCipher key of
      Inl e \<Rightarrow> ([], Inl e)
    | Inr _ \<Rightarrow> (case random of
        Inl e \<Rightarrow> ([], Inl e)
      | Inr nonce \<Rightarrow> (case cipher_loop ''write encrypted'' ''read plaintext'' (keystream cr key nonce) 0 r w of
          (out, Some e) \<Rightarrow> (out, Inl e)
        | (out, None) \<Rightarrow> (out, Inr (nonce, hmac_sum cr key (nonce @ out))))))"

text \<open>The system calls on the temporary file that can fail, and what the second pass reads from it.\<close>

record temp_file =
  tf_create :: "go_error option"
  tf_copy :: "go_error option"
  tf_seek :: "go_error option"
  tf_read :: "bytes \<Rightarrow> reader"

text \<open>\<open>io.Copy\<close> of a reader: its content, or its error.\<close>

fun read_all :: "reader \<Rightarrow> bytes result" where
  "read_all [] = Inr []"
| "read_all ((buf, st) # r) = (case st of
     AtEnd \<Rightarrow> Inr buf
   | ReadFails e \<Rightarrow> Inl e
   | More \<Rightarrow> (case read_all r of Inl e \<Rightarrow> Inl e | Inr rest \<Rightarrow> Inr (buf @ rest)))"

text \<open>
  How a call ends: well, with an error, or in a panic, which ends the process. \<open>cipher.NewCTR\<close> panics
  on a nonce that is not one block long.
\<close>

datatype ended = Done | Failed go_error | Panicked

fun ended_of :: "go_error option \<Rightarrow> ended" where
  "ended_of None = Done"
| "ended_of (Some e) = Failed e"

definition StreamDecrypt :: "crypto \<Rightarrow> temp_file \<Rightarrow> reader \<Rightarrow> writer \<Rightarrow> bytes \<Rightarrow> bytes \<Rightarrow> bytes \<Rightarrow> bytes \<times> ended" where
  "StreamDecrypt cr tf r w key nonce expectedHMAC = (case tf_create tf of
      Some e \<Rightarrow> ([], Failed (wrap ''create temp file'' e))
    | None \<Rightarrow> (case (case tf_copy tf of Some e \<Rightarrow> Inl e | None \<Rightarrow> read_all r) of
        Inl e \<Rightarrow> ([], Failed (wrap ''read ciphertext'' e))
      | Inr data \<Rightarrow>
          if hmac_sum cr key (nonce @ data) \<noteq> expectedHMAC
          then ([], Failed (ErrText ''HMAC verification failed: backup may be corrupted or tampered''))
          else (case tf_seek tf of
              Some e \<Rightarrow> ([], Failed (wrap ''seek temp file'' e))
            | None \<Rightarrow> (case NewCipher key of
                Inl e \<Rightarrow> ([], Failed e)
              | Inr _ \<Rightarrow>
                  if length nonce \<noteq> ctr_block_size then ([], Panicked)
                  else (case cipher_loop ''write decrypted'' ''read temp file'' (keystream cr key nonce) 0 (tf_read tf data) w of
                    (out, err) \<Rightarrow> (out, ended_of err))))))"

section \<open>The store (gcs.go)\<close>

record backup_info =
  bi_GCSPath :: string
  bi_SizeBytes :: int
  bi_CompressedBytes :: int
  bi_ChecksumSHA256 :: string
  bi_HMAC :: bytes
  bi_Nonce :: bytes
  bi_Timestamp :: time

text \<open>
  Zstandard: compression, and decompression of a stream into what it produced and its error; SHA-256 in
  hexadecimal; \<open>20060102T150405Z\<close>, the format of a time in UTC.
\<close>

record backup_lib =
  bl_crypto :: crypto
  bl_compress :: "bytes \<Rightarrow> bytes"
  bl_decompress :: "bytes \<Rightarrow> bytes \<times> go_error option"
  bl_sha256 :: "bytes \<Rightarrow> string"
  bl_stamp :: "time \<Rightarrow> string"

text \<open>
  How the calls of the operating system and of the object store turn out: which fail, and in which
  chunks readers deliver their bytes. \<open>io_copy\<close> is an error of writing what was decompressed.
\<close>

record backup_io =
  io_open :: "go_error option"
  io_compressed :: "bytes \<Rightarrow> reader"
  io_writer :: writer
  io_close :: "go_error option"
  io_attrs :: "go_error option"
  io_object :: "bytes \<Rightarrow> reader"
  io_temp :: temp_file
  io_create :: "go_error option"
  io_copy :: "go_error option"
  io_rename :: "go_error option"

text \<open>The state is the object store and the file system.\<close>

record backup_world =
  bw_objects :: "string \<rightharpoonup> bytes"
  bw_files :: "string \<rightharpoonup> bytes"

definition gcsPath :: "backup_lib \<Rightarrow> string \<Rightarrow> string \<Rightarrow> time \<Rightarrow> string" where
  "gcsPath lib prefix machineID ts = prefix @ ''/'' @ machineID @ ''/'' @ bl_stamp lib ts @ ''.ext4.zst.enc''"

text \<open>
  Closing the writer of an object makes what was written its content, also after an error: the
  context of the writer is not cancelled. The volume does not change during the call. It is read
  while it is compressed, and an error of reading or compressing arrives through the pipe, so the
  check of \<open>compressErr\<close> after a successful \<open>StreamEncrypt\<close> never fires.
\<close>

definition Upload :: "backup_lib \<Rightarrow> backup_io \<Rightarrow> string \<Rightarrow> string \<Rightarrow> string \<Rightarrow> bytes \<Rightarrow> bytes result \<Rightarrow> time \<Rightarrow> backup_world \<Rightarrow>
    backup_info result \<times> backup_world" where
  "Upload lib io prefix machineID path key random ts st = (case bw_files st path of
      None \<Rightarrow> (Inl (wrap ''stat data volume'' (ErrRemote ''no such file or directory'')), st)
    | Some volume \<Rightarrow> (case io_open io of
        Some e \<Rightarrow> (Inl (wrap ''open data volume'' e), st)
      | None \<Rightarrow>
          (let obj = gcsPath lib prefix machineID ts;
               enc = StreamEncrypt (bl_crypto lib) random (io_compressed io (bl_compress lib volume)) (io_writer io) key;
               out = fst enc;
               stored = st\<lparr>bw_objects := (bw_objects st)(obj \<mapsto> out)\<rparr>
           in case snd enc of
               Inl e \<Rightarrow> (Inl (wrap ''encrypt and upload'' e), if io_close io = None then stored else st)
             | Inr (nonce, mac) \<Rightarrow> (case io_close io of
                 Some e \<Rightarrow> (Inl (wrap ''close GCS writer'' e), st)
               | None \<Rightarrow> (case io_attrs io of
                   Some e \<Rightarrow> (Inl (wrap ''get object attrs'' e), stored)
                 | None \<Rightarrow> (Inr \<lparr>bi_GCSPath = obj, bi_SizeBytes = int (length volume), bi_CompressedBytes = int (length out),
                     bi_ChecksumSHA256 = bl_sha256 lib volume, bi_HMAC = mac, bi_Nonce = nonce, bi_Timestamp = ts\<rparr>, stored))))))"

text \<open>
  The pipe between decryption and decompression: the decompressed bytes, and how the two sides ended.
  An error of the decryption reaches the decompression as an error of its reader.
\<close>

datatype restored = Restored | DecryptFails go_error | DecompressFails go_error | RestorePanics

definition restore_stream :: "backup_lib \<Rightarrow> backup_io \<Rightarrow> bytes \<Rightarrow> bytes \<Rightarrow> bytes \<Rightarrow> bytes \<Rightarrow> bytes \<times> restored" where
  "restore_stream lib io object key nonce mac =
     (case StreamDecrypt (bl_crypto lib) (io_temp io) (io_object io object) None key nonce mac of
        (plain, e) \<Rightarrow> (case bl_decompress lib plain of
          (out, zerr) \<Rightarrow> (out, case e of
              Panicked \<Rightarrow> RestorePanics
            | Failed err \<Rightarrow> DecryptFails err
            | Done \<Rightarrow> (case zerr of Some err \<Rightarrow> DecompressFails err | None \<Rightarrow>
                (case io_copy io of Some err \<Rightarrow> DecompressFails err | None \<Rightarrow> Restored)))))"

text \<open>\<open>None\<close> is the end of the process, which leaves the temporary file behind.\<close>

definition Download :: "backup_lib \<Rightarrow> backup_io \<Rightarrow> string \<Rightarrow> string \<Rightarrow> bytes \<Rightarrow> bytes \<Rightarrow> bytes \<Rightarrow> backup_world \<Rightarrow>
    unit result option \<times> backup_world" where
  "Download lib io path dest key nonce mac st = (case bw_objects st path of
      None \<Rightarrow> (Some (Inl (wrap ''open GCS object'' (ErrRemote ''storage: object does not exist''))), st)
    | Some object \<Rightarrow> (case io_create io of
        Some e \<Rightarrow> (Some (Inl (wrap ''create temp file'' e)), st)
      | None \<Rightarrow>
          (let tmp = dest @ ''.tmp'';
               cleaned = st\<lparr>bw_files := (bw_files st)(tmp := None)\<rparr>
           in case restore_stream lib io object key nonce mac of
                (out, RestorePanics) \<Rightarrow> (None, st\<lparr>bw_files := (bw_files st)(tmp \<mapsto> out)\<rparr>)
              | (_, DecryptFails e) \<Rightarrow> (Some (Inl (wrap ''decompress to file'' e)), cleaned)
              | (_, DecompressFails e) \<Rightarrow> (Some (Inl (wrap ''decompress to file'' e)), cleaned)
              | (out, Restored) \<Rightarrow> (case io_rename io of
                  Some e \<Rightarrow> (Some (Inl (wrap ''rename'' e)), cleaned)
                | None \<Rightarrow> (Some (Inr ()), st\<lparr>bw_files := (bw_files st)(tmp := None, dest \<mapsto> out)\<rparr>)))))"

text \<open>What was written to the client, and the result.\<close>

definition StreamDecrypted :: "backup_lib \<Rightarrow> backup_io \<Rightarrow> string \<Rightarrow> bytes \<Rightarrow> bytes \<Rightarrow> bytes \<Rightarrow> backup_world \<Rightarrow> bytes \<times> unit result option" where
  "StreamDecrypted lib io path key nonce mac st = (case bw_objects st path of
      None \<Rightarrow> ([], Some (Inl (wrap ''open GCS object'' (ErrRemote ''storage: object does not exist''))))
    | Some object \<Rightarrow> (case restore_stream lib io object key nonce mac of
        (out, e) \<Rightarrow> (out, case e of
            RestorePanics \<Rightarrow> None
          | DecryptFails err \<Rightarrow> Some (Inl (wrap ''decrypt'' err))
          | DecompressFails err \<Rightarrow> Some (Inl (wrap ''stream decrypted'' err))
          | Restored \<Rightarrow> Some (Inr ()))))"

definition DeleteBackup :: "go_error option \<Rightarrow> string \<Rightarrow> backup_world \<Rightarrow> unit result \<times> backup_world" where
  "DeleteBackup fault path st = (case fault of
      Some e \<Rightarrow> (Inl e, st)
    | None \<Rightarrow>
        if bw_objects st path = None then (Inl (ErrRemote ''storage: object does not exist''), st)
        else (Inr (), st\<lparr>bw_objects := (bw_objects st)(path := None)\<rparr>))"

end
