(* ===== verification/Backup_Properties.thy ===== *)
theory Backup_Properties
  imports Backup
begin

text \<open>
  Backups: what was stored is what is restored, however the streams are cut into chunks; nothing is
  restored that does not carry its authentication code; a failed restore leaves the volume alone.
  A failed backup, however, leaves an object behind.
\<close>

section \<open>The cipher over a stream\<close>

lemma xor_at_Nil [simp]: "xor_at ks pos [] = []"
  by (simp add: xor_at_def)

lemma xor_at_Cons [simp]: "xor_at ks pos (b # data) = (b XOR ks pos) # xor_at ks (Suc pos) data"
  by (simp add: xor_at_def upt_rec)

lemma length_xor_at [simp]: "length (xor_at ks pos data) = length data"
  by (simp add: xor_at_def)

lemma xor_at_append: "xor_at ks pos (a @ b) = xor_at ks pos a @ xor_at ks (pos + length a) b"
  by (induction a arbitrary: pos) simp_all

lemma xor_at_twice [simp]: "xor_at ks pos (xor_at ks pos data) = data"
  by (induction data arbitrary: pos) (simp_all add: xor.assoc)

text \<open>The loop does not depend on the chunks: if it succeeds it treated the whole content.\<close>

lemma cipher_loop_success:
  assumes "cipher_loop what source ks pos r w = (out, None)"
  shows "\<exists>data. read_all r = Inr data \<and> out = xor_at ks pos data"
  using assms
proof (induction what source ks pos r w arbitrary: out rule: cipher_loop.induct)
  case (2 what source ks pos buf st r w)
  show ?case
  proof (cases st)
    case More
    with "2.prems" obtain rest where
      "cipher_loop what source ks (pos + length buf) r (if buf = [] then w else map_option (\<lambda>n. n - 1) w) = (rest, None)"
      and out: "out = xor_at ks pos buf @ rest"
      by (auto simp: Let_def split: if_splits prod.splits)
    then obtain data where "read_all r = Inr data" "rest = xor_at ks (pos + length buf) data"
      using "2.IH" "2.prems" More by (auto split: if_splits)
    with More out show ?thesis by (simp add: xor_at_append)
  qed (use "2.prems" in \<open>auto simp: Let_def split: if_splits\<close>)
qed simp

lemma cipher_loop_total:
  assumes "read_all r = Inr data"
  shows "cipher_loop what source ks pos r None = (xor_at ks pos data, None)"
  using assms
proof (induction r arbitrary: data pos)
  case (Cons c r)
  then show ?case
    by (cases c; cases "snd c") (auto simp: Let_def xor_at_append split: sum.splits)
qed simp

lemma StreamEncrypt_success:
  assumes "snd (StreamEncrypt cr random r w key) = Inr (nonce, mac)"
  shows "\<exists>data. NewCipher key = Inr () \<and> random = Inr nonce \<and> read_all r = Inr data \<and>
    fst (StreamEncrypt cr random r w key) = xor_at (keystream cr key nonce) 0 data \<and>
    mac = hmac_sum cr key (nonce @ xor_at (keystream cr key nonce) 0 data)"
proof -
  obtain out where "NewCipher key = Inr ()" "random = Inr nonce"
    and loop: "cipher_loop ''write encrypted'' ''read plaintext'' (keystream cr key nonce) 0 r w = (out, None)"
    and "mac = hmac_sum cr key (nonce @ out)" "fst (StreamEncrypt cr random r w key) = out"
    using assms by (auto simp: StreamEncrypt_def split: sum.splits prod.splits option.splits)
  with cipher_loop_success [OF loop] show ?thesis by auto
qed

text \<open>The calls on the temporary file succeed and it gives back what was written to it.\<close>

definition temp_works :: "temp_file \<Rightarrow> bytes \<Rightarrow> bool" where
  "temp_works tf data \<longleftrightarrow> tf_create tf = None \<and> tf_copy tf = None \<and> tf_seek tf = None \<and> read_all (tf_read tf data) = Inr data"

lemma StreamDecrypt_verified:
  assumes "temp_works tf data" "read_all r = Inr data" "NewCipher key = Inr ()" "length nonce = ctr_block_size"
    "hmac_sum cr key (nonce @ data) = mac"
  shows "StreamDecrypt cr tf r None key nonce mac = (xor_at (keystream cr key nonce) 0 data, Done)"
  using assms by (simp add: StreamDecrypt_def temp_works_def cipher_loop_total)

lemma StreamDecrypt_writes:
  assumes "StreamDecrypt cr tf r w key nonce mac = (out, e)" "out \<noteq> [] \<or> e = Done"
  shows "\<exists>data. read_all r = Inr data \<and> hmac_sum cr key (nonce @ data) = mac \<and> length nonce = ctr_block_size"
  using assms by (auto simp: StreamDecrypt_def split: option.splits sum.splits if_splits)

section \<open>Keys\<close>

text \<open>
  The key of a machine, encrypted with the master key of the platform, is recovered with this
  master key; AES-GCM opens what it sealed.
\<close>
lemma key_roundtrip:
  assumes "\<And>k n t. gcm_open cr k n (gcm_seal cr k n t) = Some t" "length nonce = gcm_nonce_size"
    "EncryptKey cr (Inr nonce) machineKey masterKey = Inr sealed"
  shows "DecryptKey cr sealed masterKey = Inr machineKey"
  using assms by (auto simp: EncryptKey_def DecryptKey_def split: sum.splits)

section \<open>Backup and restore\<close>

lemma Upload_success:
  assumes "Upload lib io prefix machineID path key random ts st = (Inr info, st1)" "bw_files st path = Some volume"
  shows "\<exists>data. NewCipher key = Inr () \<and> random = Inr (bi_Nonce info) \<and>
    read_all (io_compressed io (bl_compress lib volume)) = Inr data \<and>
    bi_GCSPath info = gcsPath lib prefix machineID ts \<and> bi_SizeBytes info = int (length volume) \<and>
    bi_HMAC info = hmac_sum (bl_crypto lib) key (bi_Nonce info @ xor_at (keystream (bl_crypto lib) key (bi_Nonce info)) 0 data) \<and>
    st1 = st\<lparr>bw_objects := (bw_objects st)(bi_GCSPath info \<mapsto> xor_at (keystream (bl_crypto lib) key (bi_Nonce info)) 0 data)\<rparr>"
proof -
  let ?enc = "StreamEncrypt (bl_crypto lib) random (io_compressed io (bl_compress lib volume)) (io_writer io) key"
  obtain nonce mac where enc: "snd ?enc = Inr (nonce, mac)"
    and "bi_Nonce info = nonce" "bi_HMAC info = mac" "bi_GCSPath info = gcsPath lib prefix machineID ts"
    "bi_SizeBytes info = int (length volume)"
    "st1 = st\<lparr>bw_objects := (bw_objects st)(bi_GCSPath info \<mapsto> fst ?enc)\<rparr>"
    using assms by (auto simp: Upload_def Let_def split: option.splits sum.splits prod.splits)
  with StreamEncrypt_success [OF enc] show ?thesis by auto
qed

text \<open>The reads and writes of a restore succeed, in whatever chunks.\<close>

definition restore_works :: "backup_io \<Rightarrow> bytes \<Rightarrow> bool" where
  "restore_works io object \<longleftrightarrow> read_all (io_object io object) = Inr object \<and> temp_works (io_temp io) object \<and>
     io_create io = None \<and> io_copy io = None \<and> io_rename io = None"

text \<open>
  C38: a backup is restored. After an upload that succeeded, whatever objects were stored or deleted
  since then except this one, a download with the nonce and the authentication code that the upload
  returned puts the volume of the upload at the destination and changes nothing else but the
  temporary file beside it. The streams of both directions may be cut into chunks in any way;
  decompression undoes compression, and the pipe delivers what was compressed.
\<close>
theorem backup_roundtrip:
  assumes "Upload lib io prefix machineID path key (Inr nonce) ts st = (Inr info, st1)" "bw_files st path = Some volume"
    and "length nonce = ctr_block_size"
    and "\<And>d. read_all (io_compressed io d) = Inr d"
    and "bl_decompress lib (bl_compress lib volume) = (volume, None)"
    and "bw_objects st2 (bi_GCSPath info) = bw_objects st1 (bi_GCSPath info)"
    and "\<And>d. restore_works io2 d"
  shows "Download lib io2 (bi_GCSPath info) dest key (bi_Nonce info) (bi_HMAC info) st2 =
    (Some (Inr ()), st2\<lparr>bw_files := (bw_files st2)(dest @ ''.tmp'' := None, dest \<mapsto> volume)\<rparr>)"
proof -
  let ?ks = "keystream (bl_crypto lib) key nonce" and ?z = "bl_compress lib volume"
  have n: "bi_Nonce info = nonce" "NewCipher key = Inr ()"
    and mac: "hmac_sum (bl_crypto lib) key (nonce @ xor_at ?ks 0 ?z) = bi_HMAC info"
    and obj: "bw_objects st2 (bi_GCSPath info) = Some (xor_at ?ks 0 ?z)"
    using Upload_success [OF assms(1,2)] assms(4,6) by auto
  have "StreamDecrypt (bl_crypto lib) (io_temp io2) (io_object io2 (xor_at ?ks 0 ?z)) None key nonce (bi_HMAC info) = (?z, Done)"
    using assms(7) by (subst StreamDecrypt_verified [OF _ _ n(2) assms(3) mac]) (auto simp: restore_works_def)
  with assms(5,7) obj n show ?thesis
    by (simp add: Download_def restore_stream_def restore_works_def)
qed

text \<open>
  A restore is all or nothing, and checked. Unless it reports success, a download leaves every
  file but the temporary one beside the destination as it was, and every object in any case. If it
  reports success, the bytes that were read from the object carry, with the nonce, the
  authentication code that was asked for, and the destination is what they decompress to.
\<close>
theorem restore_checked:
  assumes "Download lib io path dest key nonce mac st = (res, st1)"
  shows "bw_objects st1 = bw_objects st \<and>
    (\<forall>p. p \<noteq> dest @ ''.tmp'' \<and> (res = Some (Inr ()) \<longrightarrow> p \<noteq> dest) \<longrightarrow> bw_files st1 p = bw_files st p) \<and>
    (res = Some (Inr ()) \<longrightarrow> (\<exists>object data. bw_objects st path = Some object \<and> read_all (io_object io object) = Inr data \<and>
       hmac_sum (bl_crypto lib) key (nonce @ data) = mac \<and>
       bw_files st1 dest = Some (fst (restore_stream lib io object key nonce mac))))"
proof (cases "res = Some (Inr ())")
  case False
  then show ?thesis using assms by (auto simp: Download_def Let_def split: option.splits prod.splits restored.splits)
next
  case True
  then obtain object out where "bw_objects st path = Some object"
    and rs: "restore_stream lib io object key nonce mac = (out, Restored)"
    and st1: "st1 = st\<lparr>bw_files := (bw_files st)(dest @ ''.tmp'' := None, dest \<mapsto> out)\<rparr>"
    using assms by (auto simp: Download_def Let_def split: option.splits prod.splits restored.splits)
  moreover obtain plain where
    "StreamDecrypt (bl_crypto lib) (io_temp io) (io_object io object) None key nonce mac = (plain, Done)"
    using rs by (auto simp: restore_stream_def split: prod.splits ended.splits option.splits)
  then have "\<exists>data. read_all (io_object io object) = Inr data \<and> hmac_sum (bl_crypto lib) key (nonce @ data) = mac"
    using StreamDecrypt_writes by blast
  ultimately show ?thesis using True by auto
qed

text \<open>
  A failed backup leaves an object. When encrypting and sending fails half-way (the volume cannot
  be read to its end, say) the writer is closed, which makes the part that was sent the content of the
  object. The name has the granularity of a second, so this can also replace a good backup.
\<close>
theorem failed_upload_leaves_object:
  assumes "bw_files st path = Some volume" "io_open io = None" "io_close io = None"
    "snd (StreamEncrypt (bl_crypto lib) random (io_compressed io (bl_compress lib volume)) (io_writer io) key) = Inl e"
  shows "Upload lib io prefix machineID path key random ts st = (Inl (wrap ''encrypt and upload'' e),
    st\<lparr>bw_objects := (bw_objects st)(gcsPath lib prefix machineID ts \<mapsto>
      fst (StreamEncrypt (bl_crypto lib) random (io_compressed io (bl_compress lib volume)) (io_writer io) key))\<rparr>)"
  using assms by (simp add: Upload_def Let_def)

section \<open>Samples\<close>

definition sample_crypto :: crypto where
  "sample_crypto = \<lparr>keystream = (\<lambda>k n i. of_nat (i + 5)), hmac_sum = (\<lambda>k t. [sum_list t]),
     gcm_seal = (\<lambda>k n t. t @ [7]), gcm_open = (\<lambda>k n t. if t \<noteq> [] \<and> last t = 7 then Some (butlast t) else None)\<rparr>"

text \<open>A compression that marks the end of its text; a stream without the mark is cut off.\<close>

definition sample_lib :: backup_lib where
  "sample_lib = \<lparr>bl_crypto = sample_crypto, bl_compress = (\<lambda>t. t @ [9]),
     bl_decompress = (\<lambda>t. if t \<noteq> [] \<and> last t = 9 then (butlast t, None) else (t, Some (ErrText ''unexpected EOF''))),
     bl_sha256 = (\<lambda>t. ''ab''), bl_stamp = show_int\<rparr>"

definition byte_reader :: "bytes \<Rightarrow> reader" where
  "byte_reader t = map (\<lambda>b. ([b], More)) t @ [([], AtEnd)]"

definition sample_io :: backup_io where
  "sample_io = \<lparr>io_open = None, io_compressed = byte_reader, io_writer = None, io_close = None, io_attrs = None,
     io_object = (\<lambda>t. [(t, AtEnd)]), io_temp = \<lparr>tf_create = None, tf_copy = None, tf_seek = None, tf_read = byte_reader\<rparr>,
     io_create = None, io_copy = None, io_rename = None\<rparr>"

definition broken_io :: backup_io where
  "broken_io = sample_io\<lparr>io_compressed := (\<lambda>t. [(take 2 t, More), ([], ReadFails (ErrRemote ''input/output error''))])\<rparr>"

definition sample_backups :: backup_world where
  "sample_backups = \<lparr>bw_objects = Map.empty, bw_files = [''data.ext4'' \<mapsto> [1, 2, 3]]\<rparr>"

abbreviation sample_key :: bytes where
  "sample_key \<equiv> replicate 32 4"

abbreviation sample_nonce :: bytes where
  "sample_nonce \<equiv> replicate 16 6"

definition stored_backup :: "backup_info result \<times> backup_world" where
  "stored_backup = Upload sample_lib sample_io ''backups'' ''m1'' ''data.ext4'' sample_key (Inr sample_nonce) 17 sample_backups"

lemmas backup_samples = sample_crypto_def sample_lib_def sample_io_def broken_io_def sample_backups_def stored_backup_def

lemma read_all_byte_reader [simp]: "read_all (byte_reader t) = Inr t"
  by (induction t) (simp_all add: byte_reader_def)

lemma sample_restore_works: "restore_works sample_io t"
  by (simp add: restore_works_def temp_works_def sample_io_def)

lemma NewCipher_32 [simp]: "length key = 32 \<Longrightarrow> NewCipher key = Inr ()"
  by (simp add: NewCipher_def)

lemma stored_backup_ok: "\<exists>info. stored_backup = (Inr info, snd stored_backup)"
  by (simp add: backup_samples Upload_def StreamEncrypt_def cipher_loop_total Let_def)

theorem backup_roundtrip_witness:
  "\<exists>info. stored_backup = (Inr info, snd stored_backup) \<and>
     Download sample_lib sample_io (bi_GCSPath info) ''new.ext4'' sample_key (bi_Nonce info) (bi_HMAC info) (snd stored_backup) =
     (Some (Inr ()), (snd stored_backup)\<lparr>bw_files :=
        (bw_files (snd stored_backup))(''new.ext4'' @ ''.tmp'' := None, ''new.ext4'' \<mapsto> [1, 2, 3])\<rparr>)"
proof -
  obtain info where up: "stored_backup = (Inr info, snd stored_backup)" using stored_backup_ok by blast
  have "bw_files sample_backups ''data.ext4'' = Some [1, 2, 3]" by (simp add: sample_backups_def)
  moreover have "\<And>d. read_all (io_compressed sample_io d) = Inr d" by (simp add: sample_io_def)
  moreover have "bl_decompress sample_lib (bl_compress sample_lib [1, 2, 3]) = ([1, 2, 3], None)" by (simp add: sample_lib_def)
  ultimately show ?thesis
    using up backup_roundtrip [OF up [unfolded stored_backup_def], where volume = "[1, 2, 3]" and dest = "''new.ext4''" and ?st2.0 = "snd stored_backup"
        and ?io2.0 = sample_io] sample_restore_works
    unfolding stored_backup_def by auto
qed

text \<open>A code that does not match: nothing is restored.\<close>

theorem restore_checked_witness:
  "fst (Download sample_lib sample_io ''x'' ''data.ext4'' sample_key sample_nonce [1] (sample_backups\<lparr>bw_objects := [''x'' \<mapsto> [8]]\<rparr>)) \<noteq> Some (Inr ()) \<and>
   bw_files (snd (Download sample_lib sample_io ''x'' ''data.ext4'' sample_key sample_nonce [1] (sample_backups\<lparr>bw_objects := [''x'' \<mapsto> [8]]\<rparr>)))
     ''data.ext4'' = Some [1, 2, 3]"
proof -
  have fails: "fst (Download sample_lib sample_io ''x'' ''data.ext4'' sample_key sample_nonce [1] (sample_backups\<lparr>bw_objects := [''x'' \<mapsto> [8]]\<rparr>)) \<noteq> Some (Inr ())"
    by (simp add: Download_def restore_stream_def StreamDecrypt_def backup_samples sum_list_replicate Let_def)
  with restore_checked [OF surjective_pairing, of sample_lib sample_io "''x''" "''data.ext4''" sample_key sample_nonce "[1]"
      "sample_backups\<lparr>bw_objects := [''x'' \<mapsto> [8]]\<rparr>"]
  show ?thesis by (simp add: sample_backups_def)
qed

theorem failed_upload_leaves_object_witness:
  "bw_objects (snd (Upload sample_lib broken_io ''backups'' ''m1'' ''data.ext4'' sample_key (Inr sample_nonce) 17 sample_backups))
     ''backups/m1/17.ext4.zst.enc'' = Some [4, 4]"
proof -
  have "gcsPath sample_lib ''backups'' ''m1'' 17 = ''backups/m1/17.ext4.zst.enc''"
    by (simp add: gcsPath_def sample_lib_def) code_simp
  then show ?thesis
    using failed_upload_leaves_object [where st = sample_backups and path = "''data.ext4''" and volume = "[1, 2, 3]" and io = broken_io
        and lib = sample_lib and random = "Inr sample_nonce" and key = sample_key and prefix = "''backups''" and machineID = "''m1''" and ts = 17
        and e = "wrap ''read plaintext'' (ErrRemote ''input/output error'')"]
    by (simp add: backup_samples StreamEncrypt_def Let_def)
qed

end
