(* ===== verification/Store_Accounts.thy ===== *)
theory Store_Accounts
  imports Store_Machines Go_Json
begin

text \<open>
  The methods of \<open>PostgresStore\<close> on users, accounts, their members and invitations
  (\<open>internal/store/postgres.go\<close>). Each is one statement or one transaction; the transaction that accepts
  an invitation holds the lock of its row.
\<close>

section \<open>Errors (errors.go)\<close>

definition ErrAlreadyMember :: go_error where
  "ErrAlreadyMember = ErrText ''account member already exists''"

text \<open>\<open>errors.As\<close> for a violation of a unique index.\<close>

definition IsConflict :: "go_error \<Rightarrow> bool" where
  "IsConflict e \<longleftrightarrow> errors_is e ErrUnique"

section \<open>Users\<close>

text \<open>
  The indexes of the table: \<open>email\<close>, \<open>cf_sub\<close> and the pair of \<open>identity_issuer\<close> and \<open>identity_subject\<close>
  are unique, the last two where they are not null.
\<close>

definition user_conflict :: "user \<Rightarrow> user \<Rightarrow> bool" where
  "user_conflict a b \<longleftrightarrow> u_Email a = u_Email b \<or> (u_CfSub a \<noteq> None \<and> u_CfSub a = u_CfSub b) \<or>
     (u_IdentityIssuer a \<noteq> None \<and> u_IdentitySubject a \<noteq> None \<and>
      u_IdentityIssuer a = u_IdentityIssuer b \<and> u_IdentitySubject a = u_IdentitySubject b)"

definition CreateUser :: "user \<Rightarrow> (db, user result) state" where
  "CreateUser user = tx (\<lambda>s.
     let row = user\<lparr>u_ID := db_serial s, u_CfSub := (case u_CfSub user of Some c \<Rightarrow> nullif_empty c | None \<Rightarrow> None),
                    u_Status := (if u_Status user = '''' then ''active'' else u_Status user), u_CreatedAt := db_now s\<rparr>
     in if \<exists>x \<in> set (users s). user_conflict row x then (Inl ErrUnique, s)
        else (Inr (user\<lparr>u_ID := db_serial s, u_CreatedAt := db_now s\<rparr>),
              s\<lparr>users := users s @ [row], db_serial := db_serial s + 1\<rparr>))"

definition GetUser :: "int \<Rightarrow> (db, user result) state" where
  "GetUser i = query (\<lambda>s. one_row (matching (\<lambda>u. u_ID u = i) (users s)))"

definition GetUserByEmail :: "string \<Rightarrow> (db, user result) state" where
  "GetUserByEmail email = query (\<lambda>s. one_row (matching (\<lambda>u. u_Email u = email) (users s)))"

definition GetUserByProvider :: "string \<Rightarrow> string \<Rightarrow> (db, user result) state" where
  "GetUserByProvider provider providerID = query (\<lambda>s. one_row
     (matching (\<lambda>u. u_AuthProvider u = provider \<and> u_AuthProviderID u = providerID) (users s)))"

definition GetUserByCfSub :: "string \<Rightarrow> (db, user result) state" where
  "GetUserByCfSub cfSub = query (\<lambda>s. one_row (matching (\<lambda>u. u_CfSub u = Some cfSub) (users s)))"

definition GetUserByIdentity :: "string \<Rightarrow> string \<Rightarrow> (db, user result) state" where
  "GetUserByIdentity issuer subject = query (\<lambda>s. one_row
     (matching (\<lambda>u. u_IdentityIssuer u = Some issuer \<and> u_IdentitySubject u = Some subject) (users s)))"

definition UpdateUserCfSub :: "int \<Rightarrow> string \<Rightarrow> (db, unit result) state" where
  "UpdateUserCfSub userID cfSub = tx (\<lambda>s.
     if \<exists>u \<in> set (users s). u_ID u = userID \<and> (\<exists>x \<in> set (users s). u_ID x \<noteq> userID \<and> u_CfSub x = Some cfSub)
     then (Inl ErrUnique, s)
     else (Inr (), s\<lparr>users := update_where (\<lambda>u. u_ID u = userID) (\<lambda>u. u\<lparr>u_CfSub := Some cfSub\<rparr>) (users s)\<rparr>))"

definition UpdateUserProvider :: "int \<Rightarrow> string \<Rightarrow> string \<Rightarrow> string option \<Rightarrow> (db, unit result) state" where
  "UpdateUserProvider userID provider providerID avatarURL = exec (\<lambda>s.
     s\<lparr>users := update_where (\<lambda>u. u_ID u = userID) (\<lambda>u. u\<lparr>u_AuthProvider := provider, u_AuthProviderID := providerID,
          u_AvatarURL := coalesce avatarURL (u_AvatarURL u)\<rparr>) (users s)\<rparr>)"

section \<open>Accounts\<close>

definition has_user :: "int \<Rightarrow> db \<Rightarrow> bool" where
  "has_user i s \<longleftrightarrow> (\<exists>u \<in> set (users s). u_ID u = i)"

definition insert_account :: "account \<Rightarrow> db \<Rightarrow> account result \<times> db" where
  "insert_account a s =
     (if \<exists>x \<in> set (accounts s). a_Slug x = a_Slug a then (Inl ErrUnique, s)
      else if \<not> has_user (a_CreatedBy a) s then (Inl ErrForeignKey, s)
      else (let row = a\<lparr>a_ID := db_serial s, a_CreatedAt := db_now s\<rparr> in
        (Inr row, s\<lparr>accounts := accounts s @ [row], db_serial := db_serial s + 1\<rparr>)))"

definition CreateAccount :: "account \<Rightarrow> (db, account result) state" where
  "CreateAccount a = tx (insert_account a)"

definition CreateAccountWithOwner :: "account \<Rightarrow> int \<Rightarrow> (db, account result) state" where
  "CreateAccountWithOwner a ownerUserID = tx (\<lambda>s. case insert_account a s of
       (Inl e, _) \<Rightarrow> (Inl e, s)
     | (Inr row, s1) \<Rightarrow>
         if \<not> has_user ownerUserID s1 then (Inl (wrap ''create owner membership'' ErrForeignKey), s)
         else (Inr row, s1\<lparr>account_members := account_members s1 @
           [\<lparr>am_AccountID = a_ID row, am_UserID = ownerUserID, am_Role = ''owner'', am_CreatedAt = db_now s1\<rparr>]\<rparr>))"

definition UpdateAccountName :: "int \<Rightarrow> string \<Rightarrow> (db, unit result) state" where
  "UpdateAccountName accountID name = tx (\<lambda>s.
     if matching (\<lambda>a. a_ID a = accountID) (accounts s) = [] then (Inl (ErrText ''account not found''), s)
     else (Inr (), s\<lparr>accounts := update_where (\<lambda>a. a_ID a = accountID) (\<lambda>a. a\<lparr>a_Name := name\<rparr>) (accounts s)\<rparr>))"

definition GetAccountBySlug :: "string \<Rightarrow> (db, account result) state" where
  "GetAccountBySlug slug = query (\<lambda>s. one_row (matching (\<lambda>a. a_Slug a = slug) (accounts s)))"

definition ListAccountsByUser :: "int \<Rightarrow> (db, account list result) state" where
  "ListAccountsByUser userID = query (\<lambda>s. Inr (sort_by (\<lambda>a b. a_CreatedAt a < a_CreatedAt b)
     (concat (map (\<lambda>a. map (\<lambda>_. a) (matching (\<lambda>m. am_AccountID m = a_ID a \<and> am_UserID m = userID) (account_members s)))
        (accounts s)))))"

section \<open>Members\<close>

definition is_row :: "int \<Rightarrow> int \<Rightarrow> account_member \<Rightarrow> bool" where
  "is_row accountID userID m \<longleftrightarrow> am_AccountID m = accountID \<and> am_UserID m = userID"

definition insert_member :: "account_member \<Rightarrow> db \<Rightarrow> unit result \<times> db" where
  "insert_member m s =
     (if \<exists>x \<in> set (account_members s). is_row (am_AccountID m) (am_UserID m) x then (Inl ErrUnique, s)
      else if \<not> (\<exists>a \<in> set (accounts s). a_ID a = am_AccountID m) \<or> \<not> has_user (am_UserID m) s then (Inl ErrForeignKey, s)
      else (Inr (), s\<lparr>account_members := account_members s @ [m\<lparr>am_CreatedAt := db_now s\<rparr>]\<rparr>))"

definition AddAccountMember :: "account_member \<Rightarrow> (db, unit result) state" where
  "AddAccountMember m = tx (insert_member m)"

definition RemoveAccountMember :: "int \<Rightarrow> int \<Rightarrow> (db, unit result) state" where
  "RemoveAccountMember accountID userID = exec (\<lambda>s.
     s\<lparr>account_members := delete_where (is_row accountID userID) (account_members s)\<rparr>)"

text \<open>A member with the e-mail address and the name of the user.\<close>

definition ListAccountMembers :: "int \<Rightarrow> (db, (account_member \<times> string \<times> string) list result) state" where
  "ListAccountMembers accountID = query (\<lambda>s. Inr (sort_by (\<lambda>a b. am_CreatedAt (fst a) < am_CreatedAt (fst b))
     (concat (map (\<lambda>m. map (\<lambda>u. (m, u_Email u, u_Name u)) (matching (\<lambda>u. u_ID u = am_UserID m) (users s)))
        (matching (\<lambda>m. am_AccountID m = accountID) (account_members s))))))"

definition GetAccountMember :: "int \<Rightarrow> int \<Rightarrow> (db, account_member result) state" where
  "GetAccountMember accountID userID = query (\<lambda>s. one_row (matching (is_row accountID userID) (account_members s)))"

definition UpdateAccountMemberRole :: "int \<Rightarrow> int \<Rightarrow> string \<Rightarrow> (db, unit result) state" where
  "UpdateAccountMemberRole accountID userID role = exec (\<lambda>s.
     s\<lparr>account_members := update_where (is_row accountID userID) (\<lambda>m. m\<lparr>am_Role := role\<rparr>) (account_members s)\<rparr>)"

section \<open>Invitations\<close>

text \<open>The token is a random UUID that the database draws.\<close>

definition CreateInvitation :: "account_invitation \<Rightarrow> (db, account_invitation result) state" where
  "CreateInvitation iv = tx (\<lambda>s.
     if \<not> (\<exists>a \<in> set (accounts s). a_ID a = iv_AccountID iv) \<or> \<not> has_user (iv_InvitedBy iv) s then (Inl ErrForeignKey, s)
     else (let row = iv\<lparr>iv_ID := db_serial s, iv_Token := uuid_of (db_uuids s), iv_Status := ''pending'',
                 iv_AcceptedBy := None, iv_CreatedAt := db_now s, iv_RespondedAt := None\<rparr>
           in (Inr row, s\<lparr>account_invitations := account_invitations s @ [row],
                 db_serial := db_serial s + 1, db_uuids := db_uuids s + 1\<rparr>)))"

definition GetInvitationByToken :: "string \<Rightarrow> (db, account_invitation result) state" where
  "GetInvitationByToken token = query (\<lambda>s. one_row (matching (\<lambda>i. iv_Token i = token) (account_invitations s)))"

text \<open>The token is not among the columns that the two listings read.\<close>

definition ListInvitationsByAccount :: "int \<Rightarrow> (db, account_invitation list result) state" where
  "ListInvitationsByAccount accountID = query (\<lambda>s. Inr (map (iv_Token_update (\<lambda>_. ''''))
     (sort_by (\<lambda>a b. iv_CreatedAt b < iv_CreatedAt a) (matching (\<lambda>i. iv_AccountID i = accountID) (account_invitations s)))))"

definition pending_for :: "string \<Rightarrow> time \<Rightarrow> account_invitation \<Rightarrow> bool" where
  "pending_for email now i \<longleftrightarrow> map lower (iv_Email i) = map lower email \<and> iv_Status i = ''pending'' \<and> now < iv_ExpiresAt i"

definition ListPendingInvitationsByEmail :: "string \<Rightarrow> (db, (account_invitation \<times> string) list result) state" where
  "ListPendingInvitationsByEmail email = query (\<lambda>s. Inr (sort_by (\<lambda>a b. iv_CreatedAt (fst b) < iv_CreatedAt (fst a))
     (concat (map (\<lambda>i. map (\<lambda>a. (i\<lparr>iv_Token := ''''\<rparr>, a_Name a)) (matching (\<lambda>a. a_ID a = iv_AccountID i) (accounts s)))
        (matching (pending_for email (db_now s)) (account_invitations s))))))"

text \<open>Number of rows: none if the invitation is gone or no longer pending. The expiry is not looked at.\<close>

definition AcceptInvitation :: "string \<Rightarrow> int \<Rightarrow> (db, int result) state" where
  "AcceptInvitation token userID = tx (\<lambda>s. case one_row (matching (\<lambda>i. iv_Token i = token) (account_invitations s)) of
       Inl _ \<Rightarrow> (Inr 0, s)
     | Inr iv \<Rightarrow>
         if iv_Status iv \<noteq> ''pending'' then (Inr 0, s)
         else if \<exists>m \<in> set (account_members s). is_row (iv_AccountID iv) userID m then (Inl ErrAlreadyMember, s)
         else (let s1 = s\<lparr>account_invitations := update_where (\<lambda>i. iv_ID i = iv_ID iv \<and> iv_Status i = ''pending'')
                   (\<lambda>i. i\<lparr>iv_Status := ''accepted'', iv_AcceptedBy := Some userID, iv_RespondedAt := Some (db_now s)\<rparr>)
                   (account_invitations s)\<rparr>
               in case insert_member \<lparr>am_AccountID = iv_AccountID iv, am_UserID = userID, am_Role = iv_Role iv, am_CreatedAt = 0\<rparr> s1 of
                   (Inl e, _) \<Rightarrow> (Inl (if IsConflict e then ErrAlreadyMember else wrap ''add account member'' e), s)
                 | (Inr _, s2) \<Rightarrow> (Inr 1, s2)))"

definition respond_pending :: "(account_invitation \<Rightarrow> bool) \<Rightarrow> (account_invitation \<Rightarrow> account_invitation) \<Rightarrow> db \<Rightarrow> db" where
  "respond_pending p f s = s\<lparr>account_invitations :=
     update_where (\<lambda>i. p i \<and> iv_Status i = ''pending'') f (account_invitations s)\<rparr>"

definition DeclineInvitation :: "string \<Rightarrow> (db, unit result) state" where
  "DeclineInvitation token = exec (\<lambda>s. respond_pending (\<lambda>i. iv_Token i = token)
     (\<lambda>i. i\<lparr>iv_Status := ''declined'', iv_RespondedAt := Some (db_now s)\<rparr>) s)"

definition RevokeInvitation :: "int \<Rightarrow> int \<Rightarrow> (db, unit result) state" where
  "RevokeInvitation accountID i = exec (\<lambda>s. s\<lparr>account_invitations :=
     delete_where (\<lambda>v. iv_ID v = i \<and> iv_AccountID v = accountID \<and> iv_Status v = ''pending'') (account_invitations s)\<rparr>)"

definition ExpireOldInvitations :: "(db, int result) state" where
  "ExpireOldInvitations = tx (\<lambda>s. (Inr (int (length (matching (\<lambda>i. iv_Status i = ''pending'' \<and> iv_ExpiresAt i < db_now s)
       (account_invitations s)))),
     respond_pending (\<lambda>i. iv_ExpiresAt i < db_now s) (\<lambda>i. i\<lparr>iv_Status := ''expired''\<rparr>) s))"

end
