(* ===== verification/Auth.thy ===== *)
theory Auth
  imports Go_Json "HOL-Library.Word" "HOL-Library.AList"
begin

text \<open>
  \<open>internal/auth\<close>: the tokens of the control plane. Sessions, machine tokens, the tokens of the Composio
  proxy and of the workspace integrations are signed with a shared secret; Cloudflare Access and Firebase
  sign with RSA keys that are fetched and cached. The JWT library is an argument: it reads the header of a
  token, checks signature, times, issuer and audience with a key, and signs.
\<close>

unbundle bit_operations_syntax

section \<open>Tokens\<close>

datatype jwt_method = MethodHMAC | MethodRSA | MethodOther

datatype jwt_key = SecretKey string | PublicKey nat "64 word"

text \<open>
  \<open>jl_header\<close> is the method and the \<open>kid\<close> of a well-formed token. \<open>jl_check\<close> gives the payload if the signature
  fits the key, the token is valid at the time, and issuer and audience are those asked for.
\<close>

record jwt_lib =
  jl_header :: "string \<Rightarrow> (jwt_method \<times> string option) option"
  jl_check :: "jwt_key \<Rightarrow> string option \<Rightarrow> string option \<Rightarrow> time \<Rightarrow> string \<Rightarrow> json result"
  jl_sign :: "string \<Rightarrow> json \<Rightarrow> string result"

abbreviation malformed :: go_error where
  "malformed \<equiv> ErrText ''token is malformed''"

abbreviation unexpected_method :: go_error where
  "unexpected_method \<equiv> ErrText ''unexpected signing method''"

text \<open>\<open>ParseWithClaims\<close> with the key function of the HMAC validators.\<close>

definition parse_hmac :: "jwt_lib \<Rightarrow> string \<Rightarrow> string option \<Rightarrow> time \<Rightarrow> string \<Rightarrow> json result" where
  "parse_hmac lib secret issuer now token = (case jl_header lib token of
      None \<Rightarrow> Inl malformed
    | Some (m, _) \<Rightarrow> if m \<noteq> MethodHMAC then Inl unexpected_method else jl_check lib (SecretKey secret) issuer None now token)"

definition numeric_date :: "time \<Rightarrow> json" where
  "numeric_date t = JNum (t div second)"

text \<open>Decoding of a payload: a document that is not an object is an error.\<close>

definition decode_payload :: "((string \<times> json) list \<Rightarrow> 'a \<times> bool) \<Rightarrow> json \<Rightarrow> 'a result" where
  "decode_payload d j = (case j of
      JObj kvs \<Rightarrow> (case d kvs of (c, bad) \<Rightarrow> if bad then Inl json_error else Inr c)
    | JNull \<Rightarrow> Inr (fst (d []))
    | _ \<Rightarrow> Inl json_error)"

section \<open>Sessions (auth.go)\<close>

record claims =
  cl_UserID :: int
  cl_Email :: string
  cl_AccountID :: int
  cl_CfSub :: string

definition decode_claims :: "(string \<times> json) list \<Rightarrow> claims \<times> bool" where
  "decode_claims kvs =
     (let (i, b1) = decode_field decode_int ''user_id'' 0 kvs;
          (e, b2) = decode_field decode_string ''email'' '''' kvs;
          (a, b3) = decode_field decode_int ''account_id'' 0 kvs;
          (c, b4) = decode_field decode_string ''cf_sub'' '''' kvs
      in (\<lparr>cl_UserID = i, cl_Email = e, cl_AccountID = a, cl_CfSub = c\<rparr>, b1 \<or> b2 \<or> b3 \<or> b4))"

definition session_payload :: "int \<Rightarrow> string \<Rightarrow> int list \<Rightarrow> time \<Rightarrow> json" where
  "session_payload userID email accountIDs now = JObj ([(''user_id'', JNum userID), (''email'', JStr email)] @
     (case accountIDs of a # _ \<Rightarrow> if a = 0 then [] else [(''account_id'', JNum a)] | [] \<Rightarrow> []) @
     [(''exp'', numeric_date (now + 24 * 60 * minute)), (''iat'', numeric_date now)])"

definition GenerateToken :: "jwt_lib \<Rightarrow> string \<Rightarrow> int \<Rightarrow> string \<Rightarrow> int list \<Rightarrow> time \<Rightarrow> string result" where
  "GenerateToken lib secret userID email accountIDs now = jl_sign lib secret (session_payload userID email accountIDs now)"

definition ValidateToken :: "jwt_lib \<Rightarrow> string \<Rightarrow> time \<Rightarrow> string \<Rightarrow> claims result" where
  "ValidateToken lib secret now token = (case parse_hmac lib secret None now token of
      Inl e \<Rightarrow> Inl e | Inr payload \<Rightarrow> decode_payload decode_claims payload)"

section \<open>Machine tokens (tokens.go)\<close>

record machine_claims =
  mk_UserID :: int
  mk_Email :: string
  mk_MachineID :: string
  mk_AccountID :: int
  mk_Scopes :: "string list"

definition machine_payload :: "int \<Rightarrow> string \<Rightarrow> string \<Rightarrow> int \<Rightarrow> string list \<Rightarrow> time \<Rightarrow> json" where
  "machine_payload userID email machineID accountID scopes now = JObj [(''user_id'', JNum userID), (''email'', JStr email),
     (''machine_id'', JStr machineID), (''account_id'', JNum accountID), (''scopes'', JArr (map JStr scopes)),
     (''sub'', JStr (''user:'' @ show_int userID)), (''exp'', numeric_date (now + 5 * minute)), (''iat'', numeric_date now)]"

definition IssueMachineToken :: "jwt_lib \<Rightarrow> int \<Rightarrow> string \<Rightarrow> string \<Rightarrow> int \<Rightarrow> string list \<Rightarrow> string \<Rightarrow> time \<Rightarrow> (string \<times> time) result" where
  "IssueMachineToken lib userID email machineID accountID scopes signingKey now =
     (case jl_sign lib signingKey (machine_payload userID email machineID accountID scopes now) of
        Inl e \<Rightarrow> Inl (wrap ''sign machine token'' e)
      | Inr t \<Rightarrow> Inr (t, now + 5 * minute))"

definition decode_machine_claims :: "(string \<times> json) list \<Rightarrow> machine_claims \<times> bool" where
  "decode_machine_claims kvs =
     (let (i, b1) = decode_field decode_int ''user_id'' 0 kvs;
          (e, b2) = decode_field decode_string ''email'' '''' kvs;
          (m, b3) = decode_field decode_string ''machine_id'' '''' kvs;
          (a, b4) = decode_field decode_int ''account_id'' 0 kvs;
          (sc, b5) = decode_field (decode_slice '''' decode_string) ''scopes'' [] kvs
      in (\<lparr>mk_UserID = i, mk_Email = e, mk_MachineID = m, mk_AccountID = a, mk_Scopes = sc\<rparr>, b1 \<or> b2 \<or> b3 \<or> b4 \<or> b5))"

definition ValidateMachineToken :: "jwt_lib \<Rightarrow> string \<Rightarrow> string \<Rightarrow> time \<Rightarrow> string \<Rightarrow> machine_claims result" where
  "ValidateMachineToken lib signingKey expectedMachineID now token = (case parse_hmac lib signingKey None now token of
      Inl e \<Rightarrow> Inl e
    | Inr payload \<Rightarrow> (case decode_payload decode_machine_claims payload of
        Inl e \<Rightarrow> Inl e
      | Inr c \<Rightarrow> if mk_MachineID c \<noteq> expectedMachineID
          then Inl (ErrText (''machine ID mismatch: got '' @ mk_MachineID c @ '', expected '' @ expectedMachineID)) else Inr c))"

definition HasScope :: "machine_claims \<Rightarrow> string \<Rightarrow> bool" where
  "HasScope c scope \<longleftrightarrow> (\<exists>x \<in> set (mk_Scopes c). x = scope \<or> x = ''all'')"

section \<open>Tokens of plugins in a VM\<close>

abbreviation composioProxyTokenIssuer :: string where
  "composioProxyTokenIssuer \<equiv> ''ocm-composio-proxy''"

abbreviation workspaceIntegrationTokenIssuer :: string where
  "workspaceIntegrationTokenIssuer \<equiv> ''ocm-workspace-integrations''"

definition composio_payload :: "string \<Rightarrow> time \<Rightarrow> time \<Rightarrow> json" where
  "composio_payload machineID ttl now = JObj [(''machine_id'', JStr machineID), (''iss'', JStr composioProxyTokenIssuer),
     (''sub'', JStr machineID), (''exp'', numeric_date (now + ttl)), (''iat'', numeric_date now)]"

definition IssueComposioProxyToken :: "jwt_lib \<Rightarrow> string option \<Rightarrow> string \<Rightarrow> time \<Rightarrow> time \<Rightarrow> string result" where
  "IssueComposioProxyToken lib auth machineID ttl now =
     (if auth \<in> {None, Some ''''} then Inl (ErrText ''auth not configured'')
      else if machineID = '''' then Inl (ErrText ''machine_id is required'')
      else (case jl_sign lib (the auth) (composio_payload machineID ttl now) of
          Inl e \<Rightarrow> Inl (wrap ''sign composio proxy token'' e) | Inr t \<Rightarrow> Inr t))"

definition decode_machine_id :: "(string \<times> json) list \<Rightarrow> string \<times> bool" where
  "decode_machine_id kvs = decode_field decode_string ''machine_id'' '''' kvs"

definition ValidateComposioProxyToken :: "jwt_lib \<Rightarrow> string option \<Rightarrow> time \<Rightarrow> string \<Rightarrow> string result" where
  "ValidateComposioProxyToken lib auth now token =
     (if auth \<in> {None, Some ''''} then Inl (ErrText ''auth not configured'')
      else (case parse_hmac lib (the auth) (Some composioProxyTokenIssuer) now token of
          Inl e \<Rightarrow> Inl e
        | Inr payload \<Rightarrow> (case decode_payload decode_machine_id payload of
            Inl e \<Rightarrow> Inl e
          | Inr m \<Rightarrow> if m = '''' then Inl (ErrText ''composio proxy token missing machine_id claim'') else Inr m)))"

definition validateWorkspaceIntegrationSecret :: "string option \<Rightarrow> unit result" where
  "validateWorkspaceIntegrationSecret auth =
     (if auth \<in> {None, Some ''''} then Inl (ErrText ''auth not configured'')
      else if length (the auth) < 16 then Inl (ErrText ''workspace integration jwt secret is too weak'') else Inr ())"

record integration_claims =
  ic_MachineID :: string
  ic_IssuedAtUnixNano :: int
  ic_ID :: string
  ic_IssuedAt :: "int option"

definition integration_payload :: "string \<Rightarrow> string \<Rightarrow> time \<Rightarrow> time \<Rightarrow> json" where
  "integration_payload machineID tokenID ttl now = JObj [(''machine_id'', JStr machineID), (''iat_ns'', JNum now),
     (''iss'', JStr workspaceIntegrationTokenIssuer), (''sub'', JStr machineID), (''jti'', JStr tokenID),
     (''exp'', numeric_date (now + ttl)), (''iat'', numeric_date now)]"

text \<open>The random identifier of the token is an argument.\<close>

definition IssueWorkspaceIntegrationToken :: "jwt_lib \<Rightarrow> string option \<Rightarrow> string \<Rightarrow> time \<Rightarrow> string result \<Rightarrow> time \<Rightarrow> string result" where
  "IssueWorkspaceIntegrationToken lib auth machineID ttl random now = (case validateWorkspaceIntegrationSecret auth of
      Inl e \<Rightarrow> Inl e
    | Inr _ \<Rightarrow>
        if machineID = '''' then Inl (ErrText ''machine_id is required'')
        else if ttl \<le> 0 then Inl (ErrText ''ttl must be positive'')
        else (case random of
            Inl e \<Rightarrow> Inl (wrap ''generate workspace integration token id'' e)
          | Inr tokenID \<Rightarrow> (case jl_sign lib (the auth) (integration_payload machineID tokenID ttl now) of
              Inl e \<Rightarrow> Inl (wrap ''sign workspace integration token'' e) | Inr t \<Rightarrow> Inr t)))"

definition decode_integration_claims :: "(string \<times> json) list \<Rightarrow> integration_claims \<times> bool" where
  "decode_integration_claims kvs =
     (let (m, b1) = decode_field decode_string ''machine_id'' '''' kvs;
          (n, b2) = decode_field decode_int ''iat_ns'' 0 kvs;
          (j, b3) = decode_field decode_string ''jti'' '''' kvs;
          (t, b4) = decode_field (decode_pointer 0 decode_int) ''iat'' None kvs
      in (\<lparr>ic_MachineID = m, ic_IssuedAtUnixNano = n, ic_ID = j, ic_IssuedAt = t\<rparr>, b1 \<or> b2 \<or> b3 \<or> b4))"

definition ValidateWorkspaceIntegrationToken :: "jwt_lib \<Rightarrow> string option \<Rightarrow> time \<Rightarrow> string \<Rightarrow> integration_claims result" where
  "ValidateWorkspaceIntegrationToken lib auth now token = (case validateWorkspaceIntegrationSecret auth of
      Inl e \<Rightarrow> Inl e
    | Inr _ \<Rightarrow> (case parse_hmac lib (the auth) (Some workspaceIntegrationTokenIssuer) now token of
        Inl e \<Rightarrow> Inl e
      | Inr payload \<Rightarrow> (case decode_payload decode_integration_claims payload of
          Inl e \<Rightarrow> Inl e
        | Inr c \<Rightarrow>
            if ic_MachineID c = '''' then Inl (ErrText ''workspace integration token missing machine_id claim'')
            else if ic_ID c = '''' then Inl (ErrText ''workspace integration token missing jti claim'')
            else if ic_IssuedAt c = None then Inl (ErrText ''workspace integration token missing iat claim'')
            else if ic_IssuedAtUnixNano c \<le> 0 then Inl (ErrText ''workspace integration token missing high precision issued-at claim'')
            else Inr c)))"

section \<open>Keys of the identity providers (cfaccess.go, firebase.go)\<close>

text \<open>\<open>base64.RawURLEncoding\<close>: line breaks are skipped, and the last group may be short but not a single character.\<close>

definition sextet :: "char \<Rightarrow> nat option" where
  "sextet c = (let n = (of_char c :: nat) in
     if 65 \<le> n \<and> n \<le> 90 then Some (n - 65) else if 97 \<le> n \<and> n \<le> 122 then Some (n - 71)
     else if 48 \<le> n \<and> n \<le> 57 then Some (n + 4) else if n = 45 then Some 62 else if n = 95 then Some 63 else None)"

fun sextet_bytes :: "nat list \<Rightarrow> nat list option" where
  "sextet_bytes [] = Some []"
| "sextet_bytes [a] = None"
| "sextet_bytes [a, b] = Some [4 * a + b div 16]"
| "sextet_bytes [a, b, c] = Some [4 * a + b div 16, 16 * (b mod 16) + c div 4]"
| "sextet_bytes (a # b # c # d # r) = map_option (\<lambda>bs. (4 * a + b div 16) # (16 * (b mod 16) + c div 4) # (64 * (c mod 4) + d) # bs) (sextet_bytes r)"

definition raw_url_decode :: "string \<Rightarrow> nat list option" where
  "raw_url_decode s = Option.bind (those (map sextet (filter (\<lambda>c. c \<notin> {CHR 0x0D, CHR 0x0A}) s))) sextet_bytes"

text \<open>The exponent is computed in a 64-bit \<open>int\<close>.\<close>

definition parseRSAPublicKey :: "string \<Rightarrow> string \<Rightarrow> jwt_key result" where
  "parseRSAPublicKey nBase64 eBase64 = (case raw_url_decode nBase64 of
      None \<Rightarrow> Inl (wrap ''decode n'' (ErrText ''illegal base64 data''))
    | Some nBytes \<Rightarrow> (case raw_url_decode eBase64 of
        None \<Rightarrow> Inl (wrap ''decode e'' (ErrText ''illegal base64 data''))
      | Some eBytes \<Rightarrow> Inr (PublicKey (foldl (\<lambda>n b. 256 * n + b) 0 nBytes) (foldl (\<lambda>e b. push_bit 8 e + of_nat b) 0 eBytes))))"

text \<open>A fetch of the key set: no answer, or a status with a document.\<close>

datatype jwks_reply = JwksFails go_error | JwksReply int "json option"

record jwk_entry =
  jk_Kid :: string
  jk_Kty :: string
  jk_N :: string
  jk_E :: string

definition decode_jwk :: "jwk_entry decoder" where
  "decode_jwk old j = (case j of
      JObj kvs \<Rightarrow>
        (let (kid, b1) = decode_field decode_string ''kid'' (jk_Kid old) kvs;
             (kty, b2) = decode_field decode_string ''kty'' (jk_Kty old) kvs;
             (n, b3) = decode_field decode_string ''n'' (jk_N old) kvs;
             (e, b4) = decode_field decode_string ''e'' (jk_E old) kvs
         in (\<lparr>jk_Kid = kid, jk_Kty = kty, jk_N = n, jk_E = e\<rparr>, b1 \<or> b2 \<or> b3 \<or> b4))
    | JNull \<Rightarrow> (old, False)
    | _ \<Rightarrow> (old, True))"

definition decode_jwks :: "json option \<Rightarrow> jwk_entry list result" where
  "decode_jwks doc = (case doc of
      None \<Rightarrow> Inl (ErrText ''invalid character'')
    | Some j \<Rightarrow> decode_payload (decode_field (decode_slice \<lparr>jk_Kid = '''', jk_Kty = '''', jk_N = '''', jk_E = ''''\<rparr> decode_jwk) ''keys'' []) j)"

text \<open>Keys of another type and keys that cannot be parsed are left out; the last one of a name counts.\<close>

fun collect_keys :: "jwk_entry list \<Rightarrow> (string \<times> jwt_key) list \<Rightarrow> (string \<times> jwt_key) list" where
  "collect_keys [] keys = keys"
| "collect_keys (k # ks) keys = collect_keys ks
     (if jk_Kty k \<noteq> ''RSA'' then keys
      else (case parseRSAPublicKey (jk_N k) (jk_E k) of Inl _ \<Rightarrow> keys | Inr pub \<Rightarrow> AList.update (jk_Kid k) pub keys))"

record key_cache =
  kc_keys :: "(string \<times> jwt_key) list"
  kc_lastFetch :: time

text \<open>\<open>what\<close> is how the provider is called in messages: empty for Cloudflare, \<open>Firebase \<close> otherwise.\<close>

definition FetchJWKS :: "string \<Rightarrow> jwks_reply \<Rightarrow> time \<Rightarrow> key_cache \<Rightarrow> unit result \<times> key_cache" where
  "FetchJWKS what reply now c = (case reply of
      JwksFails e \<Rightarrow> (Inl (wrap (''fetch '' @ what @ ''JWKS'') e), c)
    | JwksReply status doc \<Rightarrow>
        if status \<noteq> 200 then (Inl (ErrText (''fetch '' @ what @ ''JWKS: status '' @ show_int status)), c)
        else (case decode_jwks doc of
            Inl e \<Rightarrow> (Inl (wrap (''parse '' @ what @ ''JWKS'') e), c)
          | Inr ks \<Rightarrow> (let keys = collect_keys ks [] in
              if keys = [] then (Inl (ErrText (map lower what @ ''JWKS contains no valid RSA keys'')), c)
              else (Inr (), c\<lparr>kc_keys := keys, kc_lastFetch := now\<rparr>))))"

abbreviation hour :: int where
  "hour \<equiv> 60 * minute"

definition getKey :: "string \<Rightarrow> jwks_reply \<Rightarrow> time \<Rightarrow> string \<Rightarrow> key_cache \<Rightarrow> jwt_key result \<times> key_cache" where
  "getKey what reply now kid c = (case map_of (kc_keys c) kid of
      Some key \<Rightarrow>
        if now - kc_lastFetch c \<le> hour then (Inr key, c)
        else (case FetchJWKS what reply now c of
            (Inl e, c1) \<Rightarrow> (Inl (wrap ''JWKS stale and refresh failed'' e), c1)
          | (Inr _, c1) \<Rightarrow> (case map_of (kc_keys c1) kid of Some k \<Rightarrow> (Inr k, c1) | None \<Rightarrow> (Inl (ErrText (''unknown kid: '' @ kid)), c1)))
    | None \<Rightarrow> (case FetchJWKS what reply now c of
        (Inl e, c1) \<Rightarrow> (Inl (wrap ''JWKS fetch failed'' e), c1)
      | (Inr _, c1) \<Rightarrow> (case map_of (kc_keys c1) kid of Some k \<Rightarrow> (Inr k, c1) | None \<Rightarrow> (Inl (ErrText (''unknown kid: '' @ kid)), c1))))"

text \<open>\<open>ParseWithClaims\<close> with the key function of the RSA validators.\<close>

definition parse_rsa :: "jwt_lib \<Rightarrow> string \<Rightarrow> jwks_reply \<Rightarrow> string \<Rightarrow> string \<Rightarrow> time \<Rightarrow> string \<Rightarrow> key_cache \<Rightarrow> json result \<times> key_cache" where
  "parse_rsa lib what reply issuer audience now token c = (case jl_header lib token of
      None \<Rightarrow> (Inl malformed, c)
    | Some (m, kid) \<Rightarrow>
        if m \<noteq> MethodRSA then (Inl unexpected_method, c)
        else (case kid of
            None \<Rightarrow> (Inl (ErrText ''missing kid in token header''), c)
          | Some k \<Rightarrow> (case getKey what reply now k c of
              (Inl e, c1) \<Rightarrow> (Inl e, c1)
            | (Inr key, c1) \<Rightarrow> (jl_check lib key (Some issuer) (Some audience) now token, c1))))"

record idp_claims =
  ip_Email :: string
  ip_EmailVerified :: bool
  ip_Name :: string
  ip_Picture :: string
  ip_Subject :: string

definition decode_idp_claims :: "(string \<times> json) list \<Rightarrow> idp_claims \<times> bool" where
  "decode_idp_claims kvs =
     (let (e, b1) = decode_field decode_string ''email'' '''' kvs;
          (v, b2) = decode_field decode_bool ''email_verified'' False kvs;
          (n, b3) = decode_field decode_string ''name'' '''' kvs;
          (p, b4) = decode_field decode_string ''picture'' '''' kvs;
          (sub, b5) = decode_field decode_string ''sub'' '''' kvs
      in (\<lparr>ip_Email = e, ip_EmailVerified = v, ip_Name = n, ip_Picture = p, ip_Subject = sub\<rparr>, b1 \<or> b2 \<or> b3 \<or> b4 \<or> b5))"

text \<open>The claims of Cloudflare Access are the e-mail address and the registered ones.\<close>

definition decode_cf_claims :: "(string \<times> json) list \<Rightarrow> (string \<times> string) \<times> bool" where
  "decode_cf_claims kvs =
     (let (e, b1) = decode_field decode_string ''email'' '''' kvs;
          (sub, b2) = decode_field decode_string ''sub'' '''' kvs
      in ((e, sub), b1 \<or> b2))"

definition ValidateCfJWT :: "jwt_lib \<Rightarrow> string \<Rightarrow> string \<Rightarrow> jwks_reply \<Rightarrow> time \<Rightarrow> string \<Rightarrow> key_cache \<Rightarrow> (string \<times> string) result \<times> key_cache" where
  "ValidateCfJWT lib teamDomain audTag reply now token c =
     (case parse_rsa lib '''' reply (''https://'' @ teamDomain @ ''.cloudflareaccess.com'') audTag now token c of
        (Inl e, c1) \<Rightarrow> (Inl e, c1)
      | (Inr payload, c1) \<Rightarrow> (decode_payload decode_cf_claims payload, c1))"

definition firebase_issuer :: "string \<Rightarrow> string" where
  "firebase_issuer projectID = ''https://securetoken.google.com/'' @ projectID"

definition firebase_ValidateToken :: "jwt_lib \<Rightarrow> string \<Rightarrow> jwks_reply \<Rightarrow> time \<Rightarrow> string \<Rightarrow> key_cache \<Rightarrow> idp_claims result \<times> key_cache" where
  "firebase_ValidateToken lib projectID reply now token c =
     (case parse_rsa lib ''Firebase '' reply (firebase_issuer projectID) projectID now token c of
        (Inl e, c1) \<Rightarrow> (Inl e, c1)
      | (Inr payload, c1) \<Rightarrow> (case decode_payload decode_idp_claims payload of
          Inl e \<Rightarrow> (Inl e, c1)
        | Inr cl \<Rightarrow> if ip_Subject cl = '''' then (Inl (ErrText ''token missing sub claim''), c1) else (Inr cl, c1)))"

end
