(* ===== verification/Concurrent.thy ===== *)
theory Concurrent
  imports Prelude
begin

text \<open>
  Requests that run side by side. A request is a resumption: it makes one call on the shared state,
  goes on with its result, and ends with a reply; between two calls of a request others may make any
  number of calls. The locale \<open>rely_guarantee\<close> holds the argument by which a relation between states,
  which each request keeps as long as the others keep it, holds of every interleaving.
\<close>

section \<open>Programs\<close>

datatype ('s, 'r) prog = Finished 'r | Step "'s \<Rightarrow> ('s, 'r) prog \<times> 's"

text \<open>One call, and what follows it.\<close>

definition call :: "('s, 'a) state \<Rightarrow> ('a \<Rightarrow> ('s, 'r) prog) \<Rightarrow> ('s, 'r) prog" where
  "call m k = Step (\<lambda>s. (k (outcome m s), final_state m s))"

fun reply_of :: "('s, 'r) prog \<Rightarrow> 'r option" where
  "reply_of (Finished r) = Some r"
| "reply_of (Step f) = None"

text \<open>A program that runs alone.\<close>

primrec run_alone :: "('s, 'r) prog \<Rightarrow> 's \<Rightarrow> 'r \<times> 's" where
  "run_alone (Finished r) = (\<lambda>s. (r, s))"
| "run_alone (Step f) = (\<lambda>s. case map_prod run_alone id (f s) of (g, t) \<Rightarrow> g t)"

lemma run_alone_call [simp]: "run_alone (call m k) s = run_alone (k (outcome m s)) (final_state m s)"
  by (simp add: call_def)

text \<open>
  \<open>guards R G p s\<close>: from the state \<open>s\<close> on, and with steps of others in between that satisfy \<open>R\<close>, each
  call of \<open>p\<close> satisfies \<open>G\<close>.
\<close>

primrec guards :: "('s \<Rightarrow> 's \<Rightarrow> bool) \<Rightarrow> ('s \<Rightarrow> 's \<Rightarrow> bool) \<Rightarrow> ('s, 'r) prog \<Rightarrow> 's \<Rightarrow> bool" where
  "guards R G (Finished r) = (\<lambda>s. True)"
| "guards R G (Step f) = (\<lambda>s. \<forall>t. R s t \<longrightarrow> (case map_prod (guards R G) id (f t) of (g, u) \<Rightarrow> G t u \<and> g u))"

lemma guards_Step:
  "guards R G (Step f) s \<longleftrightarrow> (\<forall>t. R s t \<longrightarrow> G t (snd (f t)) \<and> guards R G (fst (f t)) (snd (f t)))"
  by (simp add: map_prod_def split_beta)

lemma guards_call:
  "guards R G (call m k) s \<longleftrightarrow> (\<forall>t. R s t \<longrightarrow> G t (final_state m t) \<and> guards R G (k (outcome m t)) (final_state m t))"
  by (simp add: call_def)

lemma guards_callI:
  "(\<And>t. R s t \<Longrightarrow> G t (final_state m t)) \<Longrightarrow>
   (\<And>t. R s t \<Longrightarrow> guards R G (k (outcome m t)) (final_state m t)) \<Longrightarrow> guards R G (call m k) s"
  by (simp add: guards_call)

lemma guards_if: "(b \<Longrightarrow> guards R G p s) \<Longrightarrow> (\<not> b \<Longrightarrow> guards R G q s) \<Longrightarrow> guards R G (if b then p else q) s"
  by simp

lemma guards_case_sum:
  "(\<And>e. x = Inl e \<Longrightarrow> guards R G (f e) s) \<Longrightarrow> (\<And>a. x = Inr a \<Longrightarrow> guards R G (g a) s) \<Longrightarrow>
   guards R G (case x of Inl e \<Rightarrow> f e | Inr a \<Rightarrow> g a) s"
  by (cases x) auto

lemma guards_case_option:
  "(x = None \<Longrightarrow> guards R G p s) \<Longrightarrow> (\<And>a. x = Some a \<Longrightarrow> guards R G (g a) s) \<Longrightarrow>
   guards R G (case x of None \<Rightarrow> p | Some a \<Rightarrow> g a) s"
  by (cases x) auto

lemma guards_case_prod:
  "(\<And>a b. x = (a, b) \<Longrightarrow> guards R G (f a b) s) \<Longrightarrow> guards R G (case x of (a, b) \<Rightarrow> f a b) s"
  by (cases x) auto

lemmas guards_rules = guards_if guards_case_sum guards_case_option guards_case_prod

text \<open>\<open>replies R Q p s\<close>: with steps of others in between that satisfy \<open>R\<close>, the reply satisfies \<open>Q\<close>.\<close>

primrec replies :: "('s \<Rightarrow> 's \<Rightarrow> bool) \<Rightarrow> ('r \<Rightarrow> bool) \<Rightarrow> ('s, 'r) prog \<Rightarrow> 's \<Rightarrow> bool" where
  "replies R Q (Finished r) = (\<lambda>s. Q r)"
| "replies R Q (Step f) = (\<lambda>s. \<forall>t. R s t \<longrightarrow> (case map_prod (replies R Q) id (f t) of (g, u) \<Rightarrow> g u))"

lemma replies_call:
  "replies R Q (call m k) s \<longleftrightarrow> (\<forall>t. R s t \<longrightarrow> replies R Q (k (outcome m t)) (final_state m t))"
  by (simp add: call_def)

section \<open>Interleavings\<close>

text \<open>
  The requests in progress are the elements of a list. A step lets one of them make its next call, or
  lets a new request of the set \<open>P\<close> arrive.
\<close>

inductive pool_step :: "('s, 'r) prog set \<Rightarrow> 's \<times> ('s, 'r) prog list \<Rightarrow> 's \<times> ('s, 'r) prog list \<Rightarrow> bool" for P where
  arrive: "p \<in> P \<Longrightarrow> pool_step P (s, ps) (s, ps @ [p])"
| advance: "i < length ps \<Longrightarrow> ps ! i = Step f \<Longrightarrow> f s = (p, t) \<Longrightarrow> pool_step P (s, ps) (t, ps[i := p])"

inductive_cases pool_stepE: "pool_step P (s, ps) (t, qs)"

abbreviation pool_run :: "('s, 'r) prog set \<Rightarrow> 's \<times> ('s, 'r) prog list \<Rightarrow> 's \<times> ('s, 'r) prog list \<Rightarrow> bool" where
  "pool_run P \<equiv> (pool_step P)\<^sup>*\<^sup>*"

text \<open>A request that arrives and runs to its end undisturbed is such a run.\<close>

lemma pool_run_alone:
  assumes "run_alone p s = (r, t)"
  shows "pool_run P (s, ps @ [p]) (t, ps @ [Finished r])"
  using assms
proof (induction p arbitrary: s)
  case (Finished r')
  then show ?case by simp
next
  case (Step f)
  obtain q u where f: "f s = (q, u)" by force
  then have "run_alone q u = (r, t)" using Step.prems by simp
  moreover have "q \<in> Basic_BNFs.fsts (f s)" by (simp add: f)
  ultimately have "pool_run P (u, ps @ [q]) (t, ps @ [Finished r])" using Step.IH by (meson rangeI)
  moreover have "pool_step P (s, ps @ [Step f]) (u, (ps @ [Step f])[length ps := q])"
    by (rule pool_step.advance [where f = f]) (simp_all add: f)
  then have "pool_step P (s, ps @ [Step f]) (u, ps @ [q])" by simp
  ultimately show ?case by (rule converse_rtranclp_into_rtranclp [rotated])
qed

lemma pool_run_request:
  assumes "p \<in> P" "run_alone p s = (r, t)"
  shows "pool_run P (s, ps) (t, ps @ [Finished r])"
  using pool_step.arrive [OF assms(1)] pool_run_alone [OF assms(2)] by (rule converse_rtranclp_into_rtranclp)

text \<open>Requests one after the other.\<close>

definition run_all :: "('s, 'r) prog list \<Rightarrow> 's \<Rightarrow> 's" where
  "run_all ps s = fold (\<lambda>p s. snd (run_alone p s)) ps s"

lemma pool_run_all: "set ps \<subseteq> P \<Longrightarrow> \<exists>rs. pool_run P (s, qs) (run_all ps s, rs)"
proof (induction ps arbitrary: s qs)
  case (Cons p ps)
  have "pool_run P (s, qs) (snd (run_alone p s), qs @ [Finished (fst (run_alone p s))])"
    using Cons.prems by (intro pool_run_request) auto
  moreover have "\<exists>rs. pool_run P (snd (run_alone p s), qs @ [Finished (fst (run_alone p s))]) (run_all ps (snd (run_alone p s)), rs)"
    using Cons by auto
  ultimately show ?case by (auto simp: run_all_def intro: rtranclp_trans)
qed (auto simp: run_all_def)

text \<open>A schedule names the requests that make their next call, one after the other.\<close>

fun advance_at :: "nat \<Rightarrow> 's \<times> ('s, 'r) prog list \<Rightarrow> 's \<times> ('s, 'r) prog list" where
  "advance_at i (s, ps) = (if i < length ps then (case ps ! i of
       Finished r \<Rightarrow> (s, ps) | Step f \<Rightarrow> (case f s of (p, t) \<Rightarrow> (t, ps[i := p]))) else (s, ps))"

lemma pool_run_advance: "pool_run P c (advance_at i c)"
proof (cases c)
  case (Pair s ps)
  show ?thesis
    by (auto simp: Pair split: prog.split prod.split intro!: r_into_rtranclp pool_step.advance)
qed

lemma pool_run_schedule: "pool_run P c (fold advance_at is c)"
proof (induction "is" arbitrary: c)
  case (Cons i "is")
  show ?case using rtranclp_trans [OF pool_run_advance Cons.IH] by simp
qed simp

lemma pool_run_arrive: "set ps \<subseteq> P \<Longrightarrow> pool_run P (s, qs) (s, qs @ ps)"
proof (induction ps arbitrary: qs)
  case (Cons p ps)
  then have "pool_step P (s, qs) (s, qs @ [p])" "pool_run P (s, (qs @ [p])) (s, (qs @ [p]) @ ps)"
    using Cons.IH [of "qs @ [p]"] by (auto intro: pool_step.arrive simp del: append_assoc)
  then show ?case by (simp add: converse_rtranclp_into_rtranclp)
qed simp

section \<open>What all interleavings keep\<close>

text \<open>A step between states that satisfy an invariant.\<close>

definition within :: "('s \<Rightarrow> bool) \<Rightarrow> ('s \<Rightarrow> 's \<Rightarrow> bool) \<Rightarrow> 's \<Rightarrow> 's \<Rightarrow> bool" where
  "within I R s t \<longleftrightarrow> I s \<and> I t \<and> R s t"

locale invariant_preorder = state_preorder R for R :: "'s \<Rightarrow> 's \<Rightarrow> bool" +
  fixes I :: "'s \<Rightarrow> bool"
begin

abbreviation kept :: "'s \<Rightarrow> 's \<Rightarrow> bool" where
  "kept \<equiv> within I R"

lemma kept_refl: "I s \<Longrightarrow> kept s s"
  by (simp add: within_def R_refl)

lemma kept_trans: "kept s t \<Longrightarrow> kept t u \<Longrightarrow> kept s u"
  unfolding within_def using R_trans by blast

text \<open>A program does not mind what others have done before its first call.\<close>

lemma guards_stable: "guards kept G p s \<Longrightarrow> kept s t \<Longrightarrow> guards kept G p t"
  by (cases p) (auto intro: kept_trans)

text \<open>
  A call that keeps the relation from every state; a program that consists of such calls needs no
  knowledge of the state.
\<close>

definition calm :: "('s, 'a) state \<Rightarrow> bool" where
  "calm m \<longleftrightarrow> (\<forall>s. I s \<longrightarrow> kept s (final_state m s))"

lemma guards_calm:
  assumes "calm m" "\<And>a t. guards kept kept (k a) t"
  shows "guards kept kept (call m k) s"
  using assms by (auto simp: guards_call calm_def within_def)

text \<open>A call whose result tells something about the state that others cannot undo.\<close>

lemma guards_calm_read:
  assumes "calm m" "\<And>t. I t \<Longrightarrow> guards kept kept (k (outcome m t)) (final_state m t)"
  shows "guards kept kept (call m k) s"
  using assms by (auto simp: guards_call calm_def within_def)

end

locale rely_guarantee = invariant_preorder R I for R :: "'s \<Rightarrow> 's \<Rightarrow> bool" and I :: "'s \<Rightarrow> bool" +
  fixes P :: "('s, 'r) prog set"
  assumes requests_guard: "p \<in> P \<Longrightarrow> guards kept kept p s"
begin

lemma pool_step_keeps:
  assumes "pool_step P (s, ps) (t, qs)" "I s" "\<forall>p \<in> set ps. guards kept kept p s"
  shows "kept s t \<and> (\<forall>p \<in> set qs. guards kept kept p t)"
proof -
  consider (new) p where "p \<in> P" "t = s" "qs = ps @ [p]"
    | (next_call) i f p where "i < length ps" "ps ! i = Step f" "f s = (p, t)" "qs = ps[i := p]"
    using assms(1) by (auto elim: pool_stepE)
  then show ?thesis
  proof cases
    case new
    then show ?thesis using assms(2,3) requests_guard by (auto intro: kept_refl)
  next
    case next_call
    then have "guards kept kept (Step f) s" using assms(3) nth_mem by metis
    then have st: "kept s t" "guards kept kept p t"
      using next_call(3) kept_refl [OF assms(2)] unfolding guards_Step by (metis fst_conv snd_conv)+
    moreover have "guards kept kept q t" if "q \<in> set qs" for q
      using that next_call(4) set_update_subset_insert st assms(3) guards_stable by fast
    ultimately show ?thesis by blast
  qed
qed

lemma pool_run_keeps:
  assumes "pool_run P c d" "I (fst c)" "\<forall>p \<in> set (snd c). guards kept kept p (fst c)"
  shows "kept (fst c) (fst d) \<and> (\<forall>p \<in> set (snd d). guards kept kept p (fst d))"
  using assms
proof (induction rule: rtranclp_induct)
  case base
  then show ?case by (simp add: kept_refl)
next
  case (step d e)
  then have "kept (fst c) (fst d)" "\<forall>p \<in> set (snd d). guards kept kept p (fst d)" by auto
  moreover from this have "I (fst d)" by (simp add: within_def)
  ultimately show ?case using pool_step_keeps [of "fst d" "snd d" "fst e" "snd e"] step(2) kept_trans by auto
qed

lemma run_keeps: "pool_run P (s, []) (t, ps) \<Longrightarrow> I s \<Longrightarrow> kept s t"
  using pool_run_keeps by fastforce

end

section \<open>Entries of a table that a request owns\<close>

text \<open>
  A table that all requests share, \<open>view\<close>. A request may create an entry that is \<open>live\<close>, if no other live
  entry is in the same \<open>lane\<close>; from then on it owns the entry, alone changes it, and gives it up when it is
  \<open>settled\<close>. \<open>moves\<close> tells what a call may do to the table when its request owns the first entry before and
  the second after it.
\<close>

definition moves ::
  "('s \<Rightarrow> 'k \<Rightarrow> 'v option) \<Rightarrow> ('v \<Rightarrow> bool) \<Rightarrow> ('v \<Rightarrow> bool) \<Rightarrow> ('v \<Rightarrow> 'g) \<Rightarrow> 'k option \<Rightarrow> 'k option \<Rightarrow> 's \<Rightarrow> 's \<Rightarrow> bool" where
  "moves view live settled lane x y s t = (case x of
      None \<Rightarrow> (case y of
          None \<Rightarrow> view t = view s
        | Some k \<Rightarrow> view s k = None \<and> (\<exists>w. view t = (view s)(k \<mapsto> w) \<and> live w \<and>
            (\<forall>j v. view s j = Some v \<longrightarrow> live v \<longrightarrow> lane v \<noteq> lane w)))
    | Some k \<Rightarrow> (\<exists>v w. view s k = Some v \<and> view t = (view s)(k \<mapsto> w) \<and> lane w = lane v \<and>
        (case y of None \<Rightarrow> settled w | Some j \<Rightarrow> j = k \<and> live w)))"

text \<open>
  \<open>owned view live settled lane p x s\<close>: from \<open>s\<close> on, where \<open>p\<close> owns \<open>x\<close>, and as long as others leave that
  entry alone, the calls of \<open>p\<close> make such moves, and \<open>p\<close> owns nothing when it ends.
\<close>

primrec owned ::
  "('s \<Rightarrow> 'k \<Rightarrow> 'v option) \<Rightarrow> ('v \<Rightarrow> bool) \<Rightarrow> ('v \<Rightarrow> bool) \<Rightarrow> ('v \<Rightarrow> 'g) \<Rightarrow> ('s, 'r) prog \<Rightarrow> 'k option \<Rightarrow> 's \<Rightarrow> bool" where
  "owned view live settled lane (Finished r) = (\<lambda>x s. x = None)"
| "owned view live settled lane (Step f) = (\<lambda>x s. \<forall>t. (\<forall>k. x = Some k \<longrightarrow> view t k = view s k) \<longrightarrow>
     (case map_prod (owned view live settled lane) id (f t) of (g, u) \<Rightarrow> \<exists>y. moves view live settled lane x y t u \<and> g y u))"

lemma owned_call:
  "owned view live settled lane (call m k) x s \<longleftrightarrow> (\<forall>t. (\<forall>j. x = Some j \<longrightarrow> view t j = view s j) \<longrightarrow>
     (\<exists>y. moves view live settled lane x y t (final_state m t) \<and> owned view live settled lane (k (outcome m t)) y (final_state m t)))"
  by (simp add: call_def)

lemma owned_Step:
  "owned view live settled lane (Step f) x s \<longleftrightarrow> (\<forall>t. (\<forall>j. x = Some j \<longrightarrow> view t j = view s j) \<longrightarrow>
     (\<exists>y. moves view live settled lane x y t (snd (f t)) \<and> owned view live settled lane (fst (f t)) y (snd (f t))))"
  by (simp add: map_prod_def split_beta)

lemma owned_stable:
  "owned view live settled lane p x s \<Longrightarrow> \<forall>k. x = Some k \<longrightarrow> view t k = view s k \<Longrightarrow> owned view live settled lane p x t"
  by (cases p) (auto simp: owned_Step)

locale ownership =
  fixes view :: "'s \<Rightarrow> 'k \<Rightarrow> 'v option" and live settled :: "'v \<Rightarrow> bool" and lane :: "'v \<Rightarrow> 'g"
    and P :: "('s, 'r) prog set"
  assumes requests_own: "p \<in> P \<Longrightarrow> owned view live settled lane p None s"
    and settled_not_live: "settled v \<Longrightarrow> \<not> live v"
begin

abbreviation owns :: "('s, 'r) prog \<Rightarrow> 'k option \<Rightarrow> 's \<Rightarrow> bool" where
  "owns \<equiv> owned view live settled lane"

text \<open>Every live entry has its owner, and each entry is live or settled.\<close>

definition tended :: "'s \<Rightarrow> ('s, 'r) prog list \<Rightarrow> 'k option list \<Rightarrow> bool" where
  "tended s ps own \<longleftrightarrow> length own = length ps \<and> (\<forall>i < length ps. owns (ps ! i) (own ! i) s) \<and>
     (\<forall>i < length ps. \<forall>j < length ps. own ! i = own ! j \<longrightarrow> own ! i \<noteq> None \<longrightarrow> i = j) \<and>
     (\<forall>k v. view s k = Some v \<longrightarrow> (if Some k \<in> set own then live v else settled v)) \<and>
     (\<forall>k. Some k \<in> set own \<longrightarrow> view s k \<noteq> None) \<and>
     (\<forall>j k v w. view s j = Some v \<longrightarrow> view s k = Some w \<longrightarrow> live v \<longrightarrow> live w \<longrightarrow> lane v = lane w \<longrightarrow> j = k)"

lemma tended_arrive: "tended s ps own \<Longrightarrow> p \<in> P \<Longrightarrow> tended s (ps @ [p]) (own @ [None])"
  unfolding tended_def by (auto simp: nth_append less_Suc_eq requests_own split: if_splits)

lemma set_own_update:
  assumes "i < length own" "\<forall>a < length own. \<forall>b < length own. own ! a = own ! b \<longrightarrow> own ! a \<noteq> None \<longrightarrow> a = b"
  shows "Some k \<in> set (own[i := y]) \<longleftrightarrow> y = Some k \<or> (Some k \<in> set own \<and> own ! i \<noteq> Some k)"
  using assms by (auto simp: in_set_conv_nth nth_list_update split: if_splits)

lemma tended_advance:
  assumes "tended s ps own" "i < length ps" "ps ! i = Step f" "f s = (p, t)"
  shows "\<exists>y. tended t (ps[i := p]) (own[i := y])"
proof -
  have len: "length own = length ps"
    and own: "\<And>j. j < length ps \<Longrightarrow> owns (ps ! j) (own ! j) s"
    and sole_owner: "\<forall>a < length ps. \<forall>b < length ps. own ! a = own ! b \<longrightarrow> own ! a \<noteq> None \<longrightarrow> a = b"
    and state: "\<And>k v. view s k = Some v \<Longrightarrow> if Some k \<in> set own then live v else settled v"
    and there: "\<And>k. Some k \<in> set own \<Longrightarrow> view s k \<noteq> None"
    and same_lane: "\<And>j k v w. view s j = Some v \<Longrightarrow> view s k = Some w \<Longrightarrow> live v \<Longrightarrow> live w \<Longrightarrow> lane v = lane w \<Longrightarrow> j = k"
    using assms(1) unfolding tended_def by blast+
  obtain y where y: "moves view live settled lane (own ! i) y s t" "owns p y t"
    using own [OF assms(2)] assms(3,4) by (auto simp: owned_Step)
  have touched: "view t k = view s k" if "own ! i \<noteq> Some k" "y \<noteq> Some k" for k
    using y(1) that by (cases "own ! i"; cases y) (auto simp: moves_def)
  have fresh: "Some k \<notin> set own" if "own ! i = None" "y = Some k" for k
    using y(1) that there [of k] by (auto simp: moves_def)
  have in_own: "Some k \<in> set (own[i := y]) \<longleftrightarrow> y = Some k \<or> (Some k \<in> set own \<and> own ! i \<noteq> Some k)" for k
    using set_own_update [of i own] assms(2) sole_owner len by simp
  have mine: "Some k \<in> set own" if "own ! i = Some k" for k
    using that assms(2) len by (metis nth_mem)
  have others: "own ! j \<noteq> Some k" if "j < length ps" "j \<noteq> i" "own ! i = Some k \<or> y = Some k" for j k
  proof
    assume j: "own ! j = Some k"
    then have k: "Some k \<in> set own" using that(1) len by (metis nth_mem)
    show False
    proof (cases "own ! i = Some k")
      case True
      then show False using j that(1,2) assms(2) sole_owner by (metis option.distinct(1))
    next
      case False
      then have "y = Some k" using that(3) by simp
      then show False using False k fresh y(1) by (cases "own ! i") (auto simp: moves_def)
    qed
  qed
  have "owns (ps[i := p] ! j) (own[i := y] ! j) t" if "j < length ps" for j
  proof (cases "j = i")
    case True
    then show ?thesis using y(2) that len by simp
  next
    case False
    have "view t k = view s k" if "own ! j = Some k" for k
      using touched others [OF \<open>j < length ps\<close> False] that by metis
    then show ?thesis using False owned_stable [OF own [OF that]] by simp
  qed
  moreover have "a = b" if both: "a < length ps" "b < length ps" "own[i := y] ! a = own[i := y] ! b" "own[i := y] ! a \<noteq> None" for a b
  proof -
    obtain k where k: "own[i := y] ! a = Some k" "own[i := y] ! b = Some k" using both(3,4) by (metis option.exhaust)
    then show ?thesis
    proof (cases "a = i \<or> b = i")
      case True
      then show ?thesis using k both(1,2) len others by (metis nth_list_update_eq nth_list_update_neq)
    next
      case False
      then show ?thesis using k both(1,2) sole_owner by simp
    qed
  qed
  moreover have "if Some k \<in> set (own[i := y]) then live v else settled v" if "view t k = Some v" for k v
  proof (cases "own ! i = Some k \<or> y = Some k")
    case True
    then show ?thesis
      using y(1) that mine [of k] in_own [of k] by (cases "own ! i"; cases y) (auto simp: moves_def)
  next
    case False
    then have "view s k = Some v" "Some k \<in> set (own[i := y]) \<longleftrightarrow> Some k \<in> set own"
      using touched [of k] that by (simp_all add: in_own)
    then show ?thesis using state [of k v] by presburger
  qed
  moreover have "view t k \<noteq> None" if "Some k \<in> set (own[i := y])" for k
    using y(1) that there [of k] touched [of k] in_own [of k]
    by (cases "own ! i"; cases y) (auto simp: moves_def)
  moreover have "j = k" if "view t j = Some v" "view t k = Some w" "live v" "live w" "lane v = lane w" for j k v w
  proof (cases "own ! i")
    case None
    show ?thesis
    proof (cases y)
      case None
      then show ?thesis using \<open>own ! i = None\<close> y(1) that same_lane [of j v k w] by (simp add: moves_def)
    next
      case (Some m)
      then obtain w0 where "view s m = None" "view t = (view s)(m \<mapsto> w0)"
          and new: "\<And>j v. view s j = Some v \<Longrightarrow> live v \<Longrightarrow> lane v \<noteq> lane w0"
        using None y(1) by (auto simp: moves_def)
      then show ?thesis
        using that same_lane [of j v k w] new [of j v] new [of k w] by (auto split: if_split_asm)
    qed
  next
    case (Some n)
    then obtain v0 w0 where n: "view s n = Some v0" "view t = (view s)(n \<mapsto> w0)" "lane w0 = lane v0"
      using y(1) by (auto simp: moves_def)
    have "live v0" using state [OF n(1)] mine [OF Some] by simp
    then show ?thesis
      using n that \<open>live v0\<close> same_lane [of n v0 k w] same_lane [of j v n v0] same_lane [of j v k w]
      by (auto split: if_split_asm)
  qed
  ultimately have "tended t (ps[i := p]) (own[i := y])"
    unfolding tended_def using len by (intro conjI allI impI) simp_all
  then show ?thesis by blast
qed

lemma pool_run_tended:
  assumes "pool_run P c d" "tended (fst c) (snd c) own"
  shows "\<exists>own'. tended (fst d) (snd d) own'"
  using assms
proof (induction rule: rtranclp_induct)
  case (step d e)
  then obtain own' where "tended (fst d) (snd d) own'" by blast
  moreover obtain s ps t qs where "d = (s, ps)" "e = (t, qs)" by (cases d, cases e)
  ultimately show ?case
    using step(2) by (auto elim!: pool_stepE dest: tended_arrive tended_advance)
qed auto

text \<open>One live entry in a lane, and none that is left when the requests have ended.\<close>

lemma run_tended:
  assumes "pool_run P (s, []) (t, qs)" "\<forall>k. view s k = None"
  shows "\<exists>own. tended t qs own"
  using pool_run_tended [OF assms(1), of "[]"] assms(2) by (simp add: tended_def)

lemma one_live:
  assumes "pool_run P (s, []) (t, qs)" "\<forall>k. view s k = None" "view t j = Some v" "view t k = Some w"
    "live v" "live w" "lane v = lane w"
  shows "j = k"
  using run_tended [OF assms(1,2)] assms(3-) unfolding tended_def by blast

lemma all_settled:
  assumes "pool_run P (s, []) (t, qs)" "\<forall>k. view s k = None" "\<forall>q \<in> set qs. reply_of q \<noteq> None" "view t k = Some v"
  shows "settled v"
proof -
  obtain own where own: "tended t qs own" using run_tended [OF assms(1,2)] by blast
  have "own ! i = None" if "i < length qs" for i
    using own assms(3) that nth_mem [OF that] by (cases "qs ! i") (auto simp: tended_def)
  then have "Some k \<notin> set own" using own by (auto simp: tended_def in_set_conv_nth)
  then show ?thesis using own assms(4) by (auto simp: tended_def)
qed

end

text \<open>Requests always can end.\<close>

lemma run_to_end: "\<exists>r t. run_alone p s = (r, t)"
  by (cases "run_alone p s") blast

lemma pool_finish_at:
  assumes "i < length ps"
  shows "\<exists>r t. pool_run P (s, ps) (t, ps[i := Finished r])"
proof -
  have "\<exists>r t. pool_run P (s, ps) (t, ps[i := Finished r])" if "i < length ps" "ps ! i = p" for p s ps
    using that
  proof (induction p arbitrary: s ps)
    case (Finished r)
    then show ?case by (metis list_update_id rtranclp.rtrancl_refl)
  next
    case (Step f)
    obtain q u where f: "f s = (q, u)" by force
    then have "q \<in> Basic_BNFs.fsts (f s)" by simp
    then have "\<exists>r t. pool_run P (u, ps[i := q]) (t, (ps[i := q])[i := Finished r])"
      using Step.prems by (intro Step.IH) auto
    moreover have "pool_step P (s, ps) (u, ps[i := q])" using pool_step.advance [OF Step.prems f] .
    ultimately show ?case by (metis converse_rtranclp_into_rtranclp list_update_overwrite)
  qed
  then show ?thesis using assms by blast
qed

lemma pool_finish: "\<exists>t rs. pool_run P (s, ps) (t, rs) \<and> (\<forall>q \<in> set rs. reply_of q \<noteq> None)"
proof -
  have "\<exists>t rs. pool_run P (s, ps) (t, rs) \<and> length rs = length ps \<and> (\<forall>i < n. reply_of (rs ! i) \<noteq> None)" if "n \<le> length ps" for n
    using that
  proof (induction n)
    case 0
    then show ?case by auto
  next
    case (Suc n)
    then obtain t rs where rs: "pool_run P (s, ps) (t, rs)" "length rs = length ps" "\<forall>i < n. reply_of (rs ! i) \<noteq> None"
      by auto
    moreover from this Suc.prems obtain r u where "pool_run P (t, rs) (u, rs[n := Finished r])"
      using pool_finish_at [of n rs P t] by auto
    ultimately show ?case
      using Suc.prems by (intro exI [of _ u] exI [of _ "rs[n := Finished r]"]) (auto simp: nth_list_update less_Suc_eq)
  qed
  from this [OF order.refl] show ?thesis by (metis in_set_conv_nth)
qed

end
