(* ===== verification/Account_Api.thy ===== *)
theory Account_Api
  imports Store_Accounts Auth Concurrent
begin

text \<open>
  Who may do what: the middleware that authenticates a request and finds the membership of its caller, and
  the handlers of sessions, accounts, members and invitations (\<open>internal/api\<close>: \<open>auth_handlers.go\<close>,
  \<open>accounts.go\<close>, \<open>members.go\<close>, \<open>invitations.go\<close>, and the middleware of \<open>server.go\<close>). A request is a program
  whose steps are its calls of the database and of the cache, so requests can be interleaved. The activity
  log and the e-mail of an invitation are left out.
\<close>

section \<open>The state and the configuration\<close>

text \<open>
  \<open>aw_cache\<close> is what accepted writes have left in the route cache under the key \<open>account:\<close> of a slug: the
  number of the account and its users. \<open>aw_kv_faults\<close> tells which writes fail in all their tries, \<open>aw_jwks\<close>
  what the identity providers answer.
\<close>

record access_world =
  aw_db :: db
  aw_cache :: "string \<rightharpoonup> int \<times> int list"
  aw_kv_faults :: "bool list"
  aw_cf :: key_cache
  aw_fb :: key_cache
  aw_jwks :: "jwks_reply list"

record access_config =
  ac_lib :: jwt_lib
  ac_authMode :: string
  ac_auth :: "string option"
  ac_teamDomain :: string
  ac_audTag :: string
  ac_firebase :: "string option"
  ac_devUserEmail :: string
  ac_superusers :: "string list"
  ac_kv :: bool
  ac_cookieDomain :: string
  ac_dataPlaneDomain :: string

definition dbm :: "(db, 'a) state \<Rightarrow> (access_world, 'a) state" where
  "dbm m = zoom aw_db (\<lambda>d w. w\<lparr>aw_db := d\<rparr>) m"

definition read_clock :: "(access_world, time) state" where
  "read_clock = State (\<lambda>w. (db_now (aw_db w), w))"

definition put_account :: "string \<Rightarrow> int \<Rightarrow> int list \<Rightarrow> (access_world, unit result) state" where
  "put_account slug accountID userIDs = State (\<lambda>w. case aw_kv_faults w of
       True # fs \<Rightarrow> (Inl (ErrRemote ''KV PUT''), w\<lparr>aw_kv_faults := fs\<rparr>)
     | fs \<Rightarrow> (Inr (), w\<lparr>aw_cache := (aw_cache w)(slug \<mapsto> (accountID, userIDs)), aw_kv_faults := drop 1 fs\<rparr>))"

text \<open>A validation that may fetch keys takes the next answer of the tape; without one the fetch fails.\<close>

definition next_jwks :: "access_world \<Rightarrow> jwks_reply" where
  "next_jwks w = (case aw_jwks w of r # _ \<Rightarrow> r | [] \<Rightarrow> JwksFails (ErrRemote ''connection refused''))"

section \<open>Requests and replies\<close>

record api_request =
  rq_Header :: "string \<Rightarrow> string"
  rq_Cookie :: "string \<Rightarrow> string option"
  rq_TLS :: bool
  rq_Body :: "json option"

record session_cookie =
  sc_Value :: string
  sc_Domain :: string
  sc_MaxAge :: int
  sc_Secure :: bool
  sc_SameSiteNone :: bool

datatype api_reply =
    ApiError int string
  | ApiUser user "session_cookie option"
  | ApiToken string string
  | ApiLoggedOut session_cookie
  | ApiAccounts "account list"
  | ApiAccount int account
  | ApiMembers "(account_member \<times> string \<times> string) list"
  | ApiRole string
  | ApiNoContent
  | ApiInvited account_invitation
  | ApiInvitations "account_invitation list"
  | ApiPending "(account_invitation \<times> string) list"
  | ApiAccepted int string
  | ApiInvitation account_invitation string string string
  | ApiInvitationPublic string string string string time

type_synonym api = "(access_world, api_reply) prog"

abbreviation deny :: "int \<Rightarrow> string \<Rightarrow> api" where
  "deny status msg \<equiv> Finished (ApiError status msg)"

text \<open>\<open>fmt.Sscanf(s, "%d", &id)\<close> reads a number at the beginning; what follows it is ignored.\<close>

definition parseIntParam :: "string \<Rightarrow> int option" where
  "parseIntParam s = (let t = dropWhile is_space s;
       neg = (case t of c # _ \<Rightarrow> c = CHR ''-'' | [] \<Rightarrow> False);
       u = (case t of c # cs \<Rightarrow> if c = CHR ''-'' \<or> c = CHR ''+'' then cs else t | [] \<Rightarrow> []);
       ds = takeWhile is_digit u;
       v = (if neg then - digits_value ds else digits_value ds)
     in if ds = [] \<or> v < - (2 ^ 63) \<or> 2 ^ 63 \<le> v then None else Some v)"

definition requestIsSecure :: "api_request \<Rightarrow> bool" where
  "requestIsSecure r \<longleftrightarrow> rq_TLS r \<or> equal_fold (rq_Header r ''X-Forwarded-Proto'') ''https'' \<or>
     equal_fold (rq_Header r ''X-Forwarded-Ssl'') ''on''"

definition normalizeDomain :: "string \<Rightarrow> string" where
  "normalizeDomain d = trim_where (\<lambda>c. c = CHR ''.'') (trim_space d)"

definition dataPlaneDomainOrLocal :: "access_config \<Rightarrow> string" where
  "dataPlaneDomainOrLocal cfg = (let d = normalizeDomain (ac_dataPlaneDomain cfg) in if d \<noteq> '''' then d else ''localhost'')"

definition cookieDomain :: "access_config \<Rightarrow> string" where
  "cookieDomain cfg = (let domain = normalizeDomain (ac_cookieDomain cfg);
       d = (if domain \<noteq> '''' then domain else dataPlaneDomainOrLocal cfg)
     in if d = ''localhost'' \<or> d = ''127.0.0.1'' then '''' else ''.'' @ d)"

definition sessionCookie :: "access_config \<Rightarrow> api_request \<Rightarrow> string \<Rightarrow> int \<Rightarrow> session_cookie" where
  "sessionCookie cfg r v maxAge = \<lparr>sc_Value = v, sc_Domain = cookieDomain cfg, sc_MaxAge = maxAge,
     sc_Secure = requestIsSecure r, sc_SameSiteNone = requestIsSecure r\<rparr>"

text \<open>Messages with a dash outside ASCII are given up to it.\<close>

abbreviation role_message :: string where
  "role_message \<equiv> ''role must be '' @ [CHR 0x27] @ ''admin'' @ [CHR 0x27] @ '' or '' @ [CHR 0x27] @ ''member'' @ [CHR 0x27]"

section \<open>Authentication\<close>

definition session_token :: "api_request \<Rightarrow> string" where
  "session_token r = (if rq_Header r ''Authorization'' \<noteq> '''' then trim_prefix (rq_Header r ''Authorization'') ''Bearer ''
     else (case rq_Cookie r ''ocm_token'' of Some v \<Rightarrow> v | None \<Rightarrow> ''''))"

definition legacy_claims :: "access_config \<Rightarrow> api_request \<Rightarrow> time \<Rightarrow> claims option" where
  "legacy_claims cfg r now = (case ac_auth cfg of
      None \<Rightarrow> None
    | Some secret \<Rightarrow>
        if session_token r = '''' then None
        else (case ValidateToken (ac_lib cfg) secret now (session_token r) of Inr c \<Rightarrow> Some c | Inl _ \<Rightarrow> None))"

definition cf_token :: "api_request \<Rightarrow> string" where
  "cf_token r = (if rq_Header r ''Cf-Access-Jwt-Assertion'' \<noteq> '''' then rq_Header r ''Cf-Access-Jwt-Assertion''
     else if rq_Header r ''X-Cf-Access-Jwt'' \<noteq> '''' then rq_Header r ''X-Cf-Access-Jwt''
     else (case rq_Cookie r ''CF_Authorization'' of Some v \<Rightarrow> v | None \<Rightarrow> ''''))"

definition DualModeMiddleware :: "access_config \<Rightarrow> api_request \<Rightarrow> (access_world, claims option) state" where
  "DualModeMiddleware cfg r = State (\<lambda>w. let now = db_now (aw_db w) in
     if cf_token r \<noteq> '''' then
       (case ValidateCfJWT (ac_lib cfg) (ac_teamDomain cfg) (ac_audTag cfg) (next_jwks w) now (cf_token r) (aw_cf w) of
          (Inl _, c) \<Rightarrow> (None, w\<lparr>aw_cf := c, aw_jwks := drop 1 (aw_jwks w)\<rparr>)
        | (Inr (email, sub), c) \<Rightarrow> (Some \<lparr>cl_UserID = 0, cl_Email = email, cl_AccountID = 0, cl_CfSub = sub\<rparr>,
            w\<lparr>aw_cf := c, aw_jwks := drop 1 (aw_jwks w)\<rparr>))
     else (legacy_claims cfg r now, w))"

definition FirebaseMiddleware :: "access_config \<Rightarrow> api_request \<Rightarrow> (access_world, claims option) state" where
  "FirebaseMiddleware cfg r = State (\<lambda>w. (legacy_claims cfg r (db_now (aw_db w)), w))"

definition DevBypassMiddleware :: "access_config \<Rightarrow> (access_world, claims option) state" where
  "DevBypassMiddleware cfg = ret (Some \<lparr>cl_UserID = 0,
     cl_Email = (if ac_devUserEmail cfg = '''' then ''dev@localhost'' else ac_devUserEmail cfg), cl_AccountID = 0, cl_CfSub = ''dev-bypass''\<rparr>)"

text \<open>The server does not start in another mode.\<close>

definition authenticate :: "access_config \<Rightarrow> api_request \<Rightarrow> (access_world, claims option) state" where
  "authenticate cfg r =
     (if ac_authMode cfg = ''dev'' then DevBypassMiddleware cfg
      else if ac_authMode cfg = ''cfaccess'' then DualModeMiddleware cfg r
      else if ac_authMode cfg = ''firebase'' then FirebaseMiddleware cfg r
      else ret None)"

definition userResolverMiddleware :: "claims \<Rightarrow> (claims \<Rightarrow> api) \<Rightarrow> api" where
  "userResolverMiddleware cl k =
     (let by_email = (if cl_Email cl = '''' then k cl
            else call (dbm (GetUserByEmail (cl_Email cl))) (\<lambda>res. case res of
                Inl _ \<Rightarrow> k cl | Inr u \<Rightarrow> k (cl\<lparr>cl_UserID := u_ID u\<rparr>)))
      in if cl_UserID cl \<noteq> 0 then k cl
         else if cl_CfSub cl = '''' then by_email
         else call (dbm (GetUserByCfSub (cl_CfSub cl))) (\<lambda>res. case res of
             Inl _ \<Rightarrow> by_email | Inr u \<Rightarrow> k (cl\<lparr>cl_UserID := u_ID u\<rparr>)))"

definition emailInEnvList :: "string \<Rightarrow> string list \<Rightarrow> bool" where
  "emailInEnvList email envs = (let e = map lower (trim_space email) in
     e \<noteq> '''' \<and> (\<exists>env \<in> set envs. \<exists>c \<in> set (split_on (CHR '','') env). map lower (trim_space c) = e))"

definition isSuperuser :: "access_config \<Rightarrow> claims option \<Rightarrow> bool" where
  "isSuperuser cfg cl = (case cl of None \<Rightarrow> False | Some c \<Rightarrow> emailInEnvList (cl_Email c) (ac_superusers cfg))"

definition requireSuperuser :: "access_config \<Rightarrow> claims \<Rightarrow> api \<Rightarrow> api" where
  "requireSuperuser cfg cl next = (if isSuperuser cfg (Some cl) then next else deny 403 ''admin access required'')"

definition AccountMiddleware :: "string \<Rightarrow> claims \<Rightarrow> (int \<Rightarrow> account_member \<Rightarrow> api) \<Rightarrow> api" where
  "AccountMiddleware param cl k = (case parseIntParam param of
      None \<Rightarrow> deny 400 ''invalid account id''
    | Some accountID \<Rightarrow> call (dbm (GetAccountMember accountID (cl_UserID cl))) (\<lambda>res. case res of
        Inl _ \<Rightarrow> deny 403 ''access denied to this account''
      | Inr member \<Rightarrow> k accountID member))"

definition requireRole :: "string list \<Rightarrow> account_member \<Rightarrow> api \<Rightarrow> api" where
  "requireRole roles member next = (if am_Role member \<in> set roles then next else deny 403 ''insufficient permissions'')"

definition requireOwnerRole :: "account_member \<Rightarrow> bool" where
  "requireOwnerRole member \<longleftrightarrow> am_Role member \<noteq> ''owner''"

definition may_manage :: "account_member \<Rightarrow> bool" where
  "may_manage member \<longleftrightarrow> am_Role member = ''owner'' \<or> am_Role member = ''admin''"

section \<open>Sessions (auth_handlers.go)\<close>

definition session_of :: "access_config \<Rightarrow> api_request \<Rightarrow> user \<Rightarrow> time \<Rightarrow> session_cookie option" where
  "session_of cfg r u now = (case ac_auth cfg of
      None \<Rightarrow> None
    | Some secret \<Rightarrow> (case GenerateToken (ac_lib cfg) secret (u_ID u) (u_Email u) [] now of
        Inl _ \<Rightarrow> None | Inr t \<Rightarrow> Some (sessionCookie cfg r t 86400)))"

definition personal_account :: "user \<Rightarrow> string \<Rightarrow> account" where
  "personal_account u name = \<lparr>a_ID = 0, a_Name = name @ [CHR 0x27] @ ''s Account'', a_Slug = ''user-'' @ show_int (u_ID u),
     a_CreatedBy = u_ID u, a_CreatedAt = 0\<rparr>"

text \<open>A failure to create the personal account is only logged.\<close>

definition create_with_account :: "user \<Rightarrow> (user \<Rightarrow> api) \<Rightarrow> api" where
  "create_with_account new k = call (dbm (CreateUser new)) (\<lambda>res. case res of
      Inl _ \<Rightarrow> deny 500 ''failed to create user''
    | Inr u \<Rightarrow> call (dbm (CreateAccountWithOwner (personal_account u (u_Name u)) (u_ID u))) (\<lambda>_. k u))"

definition cf_user :: "claims \<Rightarrow> user" where
  "cf_user cl = \<lparr>u_ID = 0, u_Email = cl_Email cl, u_Name = cl_Email cl, u_AvatarURL = None, u_AuthProvider = ''cfaccess'',
     u_AuthProviderID = '''', u_CfSub = Some (cl_CfSub cl), u_IdentityIssuer = None, u_IdentitySubject = None,
     u_Status = ''active'', u_CreatedAt = 0\<rparr>"

definition handleAuthMe :: "access_config \<Rightarrow> api_request \<Rightarrow> claims \<Rightarrow> api" where
  "handleAuthMe cfg r cl =
     (let answer = (\<lambda>u. call read_clock (\<lambda>now. Finished (ApiUser u (session_of cfg r u now))))
      in if cl_UserID cl \<noteq> 0 then call (dbm (GetUser (cl_UserID cl))) (\<lambda>res. case res of
            Inl _ \<Rightarrow> deny 401 ''user not found'' | Inr u \<Rightarrow> Finished (ApiUser u None))
         else if cl_CfSub cl = '''' then deny 401 ''unauthorized''
         else call (dbm (GetUserByCfSub (cl_CfSub cl))) (\<lambda>res. case res of
            Inr u \<Rightarrow> answer u
          | Inl _ \<Rightarrow> call (dbm (GetUserByEmail (cl_Email cl))) (\<lambda>res. case res of
              Inr u \<Rightarrow> call (dbm (UpdateUserCfSub (u_ID u) (cl_CfSub cl))) (\<lambda>_. answer u)
            | Inl _ \<Rightarrow> create_with_account (cf_user cl) answer)))"

definition handleCliToken :: "access_config \<Rightarrow> claims \<Rightarrow> api" where
  "handleCliToken cfg cl = (case ac_auth cfg of
      None \<Rightarrow> deny 500 ''token signing not configured''
    | Some secret \<Rightarrow>
        (let missing = deny 404 ''user not found'';
             issue = (\<lambda>u. call read_clock (\<lambda>now. case GenerateToken (ac_lib cfg) secret (u_ID u) (u_Email u) [] now of
                 Inl _ \<Rightarrow> deny 500 ''failed to generate token'' | Inr t \<Rightarrow> Finished (ApiToken t (u_Email u))))
         in if cl_UserID cl \<noteq> 0 then call (dbm (GetUser (cl_UserID cl))) (\<lambda>res. case res of Inl _ \<Rightarrow> missing | Inr u \<Rightarrow> issue u)
            else if cl_CfSub cl \<noteq> '''' then call (dbm (GetUserByCfSub (cl_CfSub cl))) (\<lambda>res. case res of
                Inr u \<Rightarrow> issue u
              | Inl _ \<Rightarrow> call (dbm (GetUserByEmail (cl_Email cl))) (\<lambda>res. case res of Inl _ \<Rightarrow> missing | Inr u \<Rightarrow> issue u))
            else missing))"

definition body_string :: "string \<Rightarrow> json option \<Rightarrow> string option" where
  "body_string name body = (case body of
      Some (JObj kvs) \<Rightarrow> (case decode_field decode_string name '''' kvs of (v, bad) \<Rightarrow> if bad then None else Some v)
    | Some JNull \<Rightarrow> Some ''''
    | _ \<Rightarrow> None)"

definition firebase_user :: "string \<Rightarrow> idp_claims \<Rightarrow> user" where
  "firebase_user issuer c = \<lparr>u_ID = 0, u_Email = ip_Email c, u_Name = (if ip_Name c = '''' then ip_Email c else ip_Name c),
     u_AvatarURL = nullif_empty (ip_Picture c), u_AuthProvider = ''firebase'', u_AuthProviderID = ip_Subject c, u_CfSub = None,
     u_IdentityIssuer = Some issuer, u_IdentitySubject = Some (ip_Subject c), u_Status = ''active'', u_CreatedAt = 0\<rparr>"

definition validate_firebase :: "access_config \<Rightarrow> string \<Rightarrow> string \<Rightarrow> (access_world, idp_claims result) state" where
  "validate_firebase cfg project token = State (\<lambda>w.
     case firebase_ValidateToken (ac_lib cfg) project (next_jwks w) (db_now (aw_db w)) token (aw_fb w) of
       (res, c) \<Rightarrow> (res, w\<lparr>aw_fb := c, aw_jwks := drop 1 (aw_jwks w)\<rparr>))"

definition handleSessionExchange :: "access_config \<Rightarrow> api_request \<Rightarrow> api" where
  "handleSessionExchange cfg r = (case ac_firebase cfg of
      None \<Rightarrow> deny 503 ''Firebase auth not configured''
    | Some project \<Rightarrow> (case body_string ''id_token'' (rq_Body r) of
        None \<Rightarrow> deny 400 ''id_token required''
      | Some token \<Rightarrow>
          if token = '''' then deny 400 ''id_token required''
          else call (validate_firebase cfg project token) (\<lambda>res. case res of
              Inl _ \<Rightarrow> deny 401 ''invalid Firebase token''
            | Inr c \<Rightarrow>
                if \<not> ip_EmailVerified c then deny 403 ''email not verified''
                else (let issuer = firebase_issuer project;
                    finish = (\<lambda>u. case ac_auth cfg of
                        None \<Rightarrow> deny 500 ''token signing not configured''
                      | Some secret \<Rightarrow> call read_clock (\<lambda>now. case GenerateToken (ac_lib cfg) secret (u_ID u) (u_Email u) [] now of
                          Inl _ \<Rightarrow> deny 500 ''failed to generate session''
                        | Inr t \<Rightarrow> Finished (ApiUser u (Some (sessionCookie cfg r t 86400)))))
                  in call (dbm (GetUserByIdentity issuer (ip_Subject c))) (\<lambda>res. case res of
                      Inr u \<Rightarrow> finish u
                    | Inl _ \<Rightarrow> call (dbm (GetUserByEmail (ip_Email c))) (\<lambda>res. case res of
                        Inr u \<Rightarrow> call (dbm (UpdateUserProvider (u_ID u) ''firebase'' (ip_Subject c) None)) (\<lambda>_. finish u)
                      | Inl _ \<Rightarrow> create_with_account (firebase_user issuer c) finish))))))"

definition handleLogout :: "access_config \<Rightarrow> api_request \<Rightarrow> api" where
  "handleLogout cfg r = Finished (ApiLoggedOut (sessionCookie cfg r '''' (- 1)))"

section \<open>Accounts (accounts.go)\<close>

definition handleListAccounts :: "claims \<Rightarrow> api" where
  "handleListAccounts cl = call (dbm (ListAccountsByUser (cl_UserID cl))) (\<lambda>res. case res of
      Inl e \<Rightarrow> deny 500 (error_text e) | Inr as \<Rightarrow> Finished (ApiAccounts as))"

definition slug_char :: "char \<Rightarrow> bool" where
  "slug_char c \<longleftrightarrow> (97 \<le> (of_char c :: nat) \<and> (of_char c :: nat) \<le> 122) \<or> is_digit c"

text \<open>\<open>^[a-z0-9][a-z0-9-]{0,61}[a-z0-9]$\<close>\<close>

definition isValidSlug :: "string \<Rightarrow> bool" where
  "isValidSlug s \<longleftrightarrow> 2 \<le> length s \<and> length s \<le> 63 \<and> slug_char (hd s) \<and> slug_char (last s) \<and>
     list_all (\<lambda>c. slug_char c \<or> c = CHR ''-'') s"

definition handleCreateAccount :: "access_config \<Rightarrow> api_request \<Rightarrow> claims \<Rightarrow> api" where
  "handleCreateAccount cfg r cl = (case (body_string ''name'' (rq_Body r), body_string ''slug'' (rq_Body r)) of
      (Some name, Some slug) \<Rightarrow>
        if \<not> isValidSlug slug then deny 400 ''invalid slug: must be 2-63 lowercase alphanumeric characters or hyphens, cannot start or end with a hyphen''
        else call (dbm (CreateAccountWithOwner \<lparr>a_ID = 0, a_Name = name, a_Slug = slug, a_CreatedBy = cl_UserID cl, a_CreatedAt = 0\<rparr> (cl_UserID cl)))
          (\<lambda>res. case res of
             Inl e \<Rightarrow> if IsConflict e then deny 409 ''an account with this slug already exists'' else deny 500 ''failed to create account''
           | Inr a \<Rightarrow> if ac_kv cfg then call (put_account (a_Slug a) (a_ID a) [cl_UserID cl]) (\<lambda>_. Finished (ApiAccount 201 a))
               else Finished (ApiAccount 201 a))
    | _ \<Rightarrow> deny 400 ''invalid request body'')"

definition refreshAccountKVCache :: "access_config \<Rightarrow> int \<Rightarrow> api \<Rightarrow> api" where
  "refreshAccountKVCache cfg accountID k =
     (if \<not> ac_kv cfg then k
      else call (dbm (GetAccount accountID)) (\<lambda>res. case res of
          Inl _ \<Rightarrow> k
        | Inr a \<Rightarrow> call (dbm (ListAccountMembers accountID)) (\<lambda>res. case res of
            Inl _ \<Rightarrow> k
          | Inr ms \<Rightarrow> call (put_account (a_Slug a) (a_ID a) (map (\<lambda>m. am_UserID (fst m)) ms)) (\<lambda>_. k))))"

definition handleGetAccount :: "int \<Rightarrow> api" where
  "handleGetAccount accountID = call (dbm (GetAccount accountID)) (\<lambda>res. case res of
      Inl _ \<Rightarrow> deny 404 ''account not found'' | Inr a \<Rightarrow> Finished (ApiAccount 200 a))"

definition handleUpdateAccount :: "api_request \<Rightarrow> int \<Rightarrow> account_member \<Rightarrow> api" where
  "handleUpdateAccount r accountID member =
     (if am_Role member \<noteq> ''owner'' then deny 403 ''only account owners can update account settings''
      else (case body_string ''name'' (rq_Body r) of
          None \<Rightarrow> deny 400 ''invalid request body''
        | Some raw \<Rightarrow> (let name = trim_space raw in
            if name = '''' \<or> 100 < length name then deny 400 ''name must be 1-100 characters''
            else call (dbm (UpdateAccountName accountID name)) (\<lambda>res. case res of
                Inl _ \<Rightarrow> deny 500 ''failed to update account''
              | Inr _ \<Rightarrow> call (dbm (GetAccount accountID)) (\<lambda>res. case res of
                  Inl _ \<Rightarrow> deny 500 ''failed to fetch updated account'' | Inr a \<Rightarrow> Finished (ApiAccount 200 a))))))"

section \<open>Members (members.go)\<close>

definition handleListMembers :: "int \<Rightarrow> api" where
  "handleListMembers accountID = call (dbm (ListAccountMembers accountID)) (\<lambda>res. case res of
      Inl e \<Rightarrow> deny 500 (error_text e) | Inr ms \<Rightarrow> Finished (ApiMembers ms))"

definition handleUpdateMemberRole :: "api_request \<Rightarrow> int \<Rightarrow> account_member \<Rightarrow> string \<Rightarrow> api" where
  "handleUpdateMemberRole r accountID member param =
     (if requireOwnerRole member then deny 403 ''owner role required for this action''
      else (case parseIntParam param of
          None \<Rightarrow> deny 400 ''invalid user id''
        | Some target \<Rightarrow>
            if am_UserID member = target then deny 400 ''cannot change your own role''
            else (case body_string ''role'' (rq_Body r) of
                None \<Rightarrow> deny 400 ''invalid request body''
              | Some role \<Rightarrow>
                  if role \<noteq> ''admin'' \<and> role \<noteq> ''member'' then deny 400 role_message
                  else call (dbm (GetAccountMember accountID target)) (\<lambda>res. case res of
                      Inl _ \<Rightarrow> deny 404 ''member not found''
                    | Inr t \<Rightarrow>
                        if am_Role t = ''owner'' then deny 403 (''cannot change the owner'' @ [CHR 0x27] @ ''s role'')
                        else call (dbm (UpdateAccountMemberRole accountID target role)) (\<lambda>res. case res of
                            Inl _ \<Rightarrow> deny 500 ''failed to update role'' | Inr _ \<Rightarrow> Finished (ApiRole role))))))"

definition handleRemoveMember :: "access_config \<Rightarrow> int \<Rightarrow> account_member \<Rightarrow> string \<Rightarrow> api" where
  "handleRemoveMember cfg accountID member param =
     (if \<not> may_manage member then deny 403 ''insufficient permissions''
      else (case parseIntParam param of
          None \<Rightarrow> deny 400 ''invalid user id''
        | Some target \<Rightarrow>
            if am_UserID member = target then deny 400 ''use the leave endpoint to remove yourself''
            else call (dbm (GetAccountMember accountID target)) (\<lambda>res. case res of
                Inl _ \<Rightarrow> deny 404 ''member not found''
              | Inr t \<Rightarrow>
                  if am_Role t = ''owner'' then deny 403 ''cannot remove the account owner''
                  else if am_Role member = ''admin'' \<and> am_Role t = ''admin'' then deny 403 ''admins cannot remove other admins''
                  else call (dbm (RemoveAccountMember accountID target)) (\<lambda>res. case res of
                      Inl _ \<Rightarrow> deny 500 ''failed to remove member''
                    | Inr _ \<Rightarrow> refreshAccountKVCache cfg accountID (Finished ApiNoContent)))))"

definition handleLeaveAccount :: "access_config \<Rightarrow> int \<Rightarrow> account_member \<Rightarrow> api" where
  "handleLeaveAccount cfg accountID member =
     (if am_Role member = ''owner'' then deny 403 ''owners cannot leave''
      else call (dbm (RemoveAccountMember accountID (am_UserID member))) (\<lambda>res. case res of
          Inl _ \<Rightarrow> deny 500 ''failed to leave account''
        | Inr _ \<Rightarrow> refreshAccountKVCache cfg accountID (Finished ApiNoContent)))"

section \<open>Invitations (invitations.go)\<close>

abbreviation week :: int where
  "week \<equiv> 7 * 24 * hour"

text \<open>Whether the user is a member already; the errors of both lookups count as no.\<close>

definition already_member :: "int \<Rightarrow> string \<Rightarrow> (bool \<Rightarrow> api) \<Rightarrow> api" where
  "already_member accountID email k = call (dbm (GetUserByEmail email)) (\<lambda>res. case res of
      Inl _ \<Rightarrow> k False
    | Inr u \<Rightarrow> call (dbm (GetAccountMember accountID (u_ID u))) (\<lambda>res. case res of Inl _ \<Rightarrow> k False | Inr _ \<Rightarrow> k True))"

definition new_invitation :: "int \<Rightarrow> string \<Rightarrow> string \<Rightarrow> int \<Rightarrow> time \<Rightarrow> account_invitation" where
  "new_invitation accountID email role invitedBy now = \<lparr>iv_ID = 0, iv_AccountID = accountID, iv_Email = email, iv_Role = role,
     iv_Token = '''', iv_Status = '''', iv_InvitedBy = invitedBy, iv_AcceptedBy = None, iv_ExpiresAt = now + week,
     iv_CreatedAt = 0, iv_RespondedAt = None\<rparr>"

definition handleCreateInvitation :: "api_request \<Rightarrow> claims \<Rightarrow> int \<Rightarrow> account_member \<Rightarrow> api" where
  "handleCreateInvitation r cl accountID member =
     (if \<not> may_manage member then deny 403 ''insufficient permissions''
      else (case (body_string ''email'' (rq_Body r), body_string ''role'' (rq_Body r)) of
          (Some raw, Some role) \<Rightarrow> (let email = map lower (trim_space raw) in
            if email = '''' then deny 400 ''email is required''
            else if role \<noteq> ''admin'' \<and> role \<noteq> ''member'' then deny 400 role_message
            else if equal_fold email (cl_Email cl) then deny 400 ''cannot invite yourself''
            else already_member accountID email (\<lambda>yes.
              if yes then deny 409 ''user is already a member of this account''
              else call (dbm (ListInvitationsByAccount accountID)) (\<lambda>res. case res of
                  Inl _ \<Rightarrow> deny 500 ''failed to check existing invitations''
                | Inr ivs \<Rightarrow>
                    if \<exists>i \<in> set ivs. iv_Status i = ''pending'' \<and> equal_fold (iv_Email i) email
                    then deny 409 ''a pending invitation already exists for this email''
                    else call read_clock (\<lambda>now. call (dbm (CreateInvitation (new_invitation accountID email role (cl_UserID cl) now)))
                      (\<lambda>res. case res of Inl _ \<Rightarrow> deny 500 ''failed to create invitation'' | Inr i \<Rightarrow> Finished (ApiInvited i))))))
        | _ \<Rightarrow> deny 400 ''invalid request body''))"

definition handleListInvitations :: "int \<Rightarrow> account_member \<Rightarrow> api" where
  "handleListInvitations accountID member =
     (if \<not> may_manage member then deny 403 ''insufficient permissions''
      else call (dbm (ListInvitationsByAccount accountID)) (\<lambda>res. case res of
          Inl _ \<Rightarrow> deny 500 ''failed to list invitations'' | Inr ivs \<Rightarrow> Finished (ApiInvitations ivs)))"

definition handleRevokeInvitation :: "int \<Rightarrow> account_member \<Rightarrow> string \<Rightarrow> api" where
  "handleRevokeInvitation accountID member param =
     (if \<not> may_manage member then deny 403 ''insufficient permissions''
      else (case parseIntParam param of
          None \<Rightarrow> deny 400 ''invalid invitation id''
        | Some i \<Rightarrow> call (dbm (RevokeInvitation accountID i)) (\<lambda>res. case res of
            Inl _ \<Rightarrow> deny 500 ''failed to revoke invitation'' | Inr _ \<Rightarrow> Finished ApiNoContent)))"

text \<open>The newest invitation of each account, unless the caller is a member of it.\<close>

fun newest_pending :: "int \<Rightarrow> int list \<Rightarrow> (account_invitation \<times> string) list \<Rightarrow> (account_invitation \<times> string) list \<Rightarrow> api" where
  "newest_pending userID seen kept [] = Finished (ApiPending kept)"
| "newest_pending userID seen kept (p # ps) =
     (if iv_AccountID (fst p) \<in> set seen then newest_pending userID seen kept ps
      else call (dbm (GetAccountMember (iv_AccountID (fst p)) userID)) (\<lambda>res. case res of
          Inr _ \<Rightarrow> newest_pending userID (iv_AccountID (fst p) # seen) kept ps
        | Inl _ \<Rightarrow> newest_pending userID (iv_AccountID (fst p) # seen) (kept @ [p]) ps))"

definition handleListPendingInvitations :: "claims \<Rightarrow> api" where
  "handleListPendingInvitations cl = call (dbm (ListPendingInvitationsByEmail (cl_Email cl))) (\<lambda>res. case res of
      Inl _ \<Rightarrow> deny 500 ''failed to list pending invitations''
    | Inr ps \<Rightarrow> newest_pending (cl_UserID cl) [] [] (sort_by (\<lambda>a b. iv_CreatedAt (fst b) < iv_CreatedAt (fst a)) ps))"

definition handleAcceptInvitation :: "access_config \<Rightarrow> claims \<Rightarrow> string \<Rightarrow> api" where
  "handleAcceptInvitation cfg cl token = call (dbm (GetInvitationByToken token)) (\<lambda>res. case res of
      Inl _ \<Rightarrow> deny 404 ''invitation not found or already used''
    | Inr i \<Rightarrow>
        if iv_Status i \<noteq> ''pending'' then deny 410 (''invitation has already been '' @ iv_Status i)
        else call read_clock (\<lambda>now.
          if iv_ExpiresAt i < now then deny 410 ''invitation has expired''
          else if \<not> equal_fold (cl_Email cl) (iv_Email i) then deny 403 ''this invitation was sent to a different email address''
          else call (dbm (AcceptInvitation token (cl_UserID cl))) (\<lambda>res. case res of
              Inl e \<Rightarrow> if errors_is e ErrAlreadyMember then deny 409 ''you are already a member of this account''
                else deny 500 ''failed to update invitation''
            | Inr rows \<Rightarrow>
                if rows = 0 then deny 410 ''invitation is no longer available''
                else refreshAccountKVCache cfg (iv_AccountID i) (Finished (ApiAccepted (iv_AccountID i) (iv_Role i))))))"

definition handleDeclineInvitation :: "claims \<Rightarrow> string \<Rightarrow> api" where
  "handleDeclineInvitation cl token = call (dbm (GetInvitationByToken token)) (\<lambda>res. case res of
      Inl _ \<Rightarrow> deny 404 ''invitation not found''
    | Inr i \<Rightarrow>
        if iv_Status i \<noteq> ''pending'' then deny 410 (''invitation has already been '' @ iv_Status i)
        else if \<not> equal_fold (cl_Email cl) (iv_Email i) then deny 403 ''this invitation was sent to a different email address''
        else call (dbm (DeclineInvitation token)) (\<lambda>res. case res of
            Inl _ \<Rightarrow> deny 500 ''failed to decline invitation'' | Inr _ \<Rightarrow> Finished ApiNoContent))"

definition with_names :: "account_invitation \<Rightarrow> (string \<Rightarrow> string \<Rightarrow> api) \<Rightarrow> api" where
  "with_names i k = call (dbm (GetAccount (iv_AccountID i))) (\<lambda>a. call (dbm (GetUser (iv_InvitedBy i))) (\<lambda>u.
     k (case a of Inl _ \<Rightarrow> '''' | Inr x \<Rightarrow> a_Name x) (case u of Inl _ \<Rightarrow> '''' | Inr x \<Rightarrow> u_Email x)))"

definition handleGetInvitation :: "claims \<Rightarrow> string \<Rightarrow> api" where
  "handleGetInvitation cl token = call (dbm (GetInvitationByToken token)) (\<lambda>res. case res of
      Inl _ \<Rightarrow> deny 404 ''invitation not found''
    | Inr i \<Rightarrow> with_names i (\<lambda>account inviter.
        if equal_fold (cl_Email cl) (iv_Email i) then Finished (ApiInvitation i account (iv_Email i) inviter)
        else Finished (ApiInvitation i account '''' '''')))"

definition handleGetInvitationPublic :: "string \<Rightarrow> api" where
  "handleGetInvitationPublic token = call (dbm (GetInvitationByToken token)) (\<lambda>res. case res of
      Inl _ \<Rightarrow> deny 404 ''invitation not found''
    | Inr i \<Rightarrow> with_names i (\<lambda>account inviter.
        Finished (ApiInvitationPublic account (iv_Role i) (iv_Status i) inviter (iv_ExpiresAt i))))"

section \<open>The router\<close>

datatype account_route =
    GetTheAccount
  | UpdateTheAccount
  | ListMembers
  | UpdateMemberRole string
  | RemoveMember string
  | LeaveAccount
  | CreateInvitationIn
  | ListInvitations
  | RevokeInvitationIn string

datatype user_route =
    AuthMe
  | CliToken
  | ListAccounts
  | CreateAnAccount
  | PendingInvitations
  | GetInvitation string
  | AcceptAnInvitation string
  | DeclineAnInvitation string
  | InAccount string account_route

datatype api_route =
    PublicInvitation string
  | SessionExchange
  | Logout
  | Authenticated user_route

fun account_handler :: "access_config \<Rightarrow> api_request \<Rightarrow> claims \<Rightarrow> int \<Rightarrow> account_member \<Rightarrow> account_route \<Rightarrow> api" where
  "account_handler cfg r cl acct m GetTheAccount = handleGetAccount acct"
| "account_handler cfg r cl acct m UpdateTheAccount = handleUpdateAccount r acct m"
| "account_handler cfg r cl acct m ListMembers = handleListMembers acct"
| "account_handler cfg r cl acct m (UpdateMemberRole u) = handleUpdateMemberRole r acct m u"
| "account_handler cfg r cl acct m (RemoveMember u) = handleRemoveMember cfg acct m u"
| "account_handler cfg r cl acct m LeaveAccount = handleLeaveAccount cfg acct m"
| "account_handler cfg r cl acct m CreateInvitationIn = handleCreateInvitation r cl acct m"
| "account_handler cfg r cl acct m ListInvitations = handleListInvitations acct m"
| "account_handler cfg r cl acct m (RevokeInvitationIn i) = handleRevokeInvitation acct m i"

fun user_handler :: "access_config \<Rightarrow> api_request \<Rightarrow> claims \<Rightarrow> user_route \<Rightarrow> api" where
  "user_handler cfg r cl AuthMe = handleAuthMe cfg r cl"
| "user_handler cfg r cl CliToken = handleCliToken cfg cl"
| "user_handler cfg r cl ListAccounts = handleListAccounts cl"
| "user_handler cfg r cl CreateAnAccount = handleCreateAccount cfg r cl"
| "user_handler cfg r cl PendingInvitations = handleListPendingInvitations cl"
| "user_handler cfg r cl (GetInvitation t) = handleGetInvitation cl t"
| "user_handler cfg r cl (AcceptAnInvitation t) = handleAcceptInvitation cfg cl t"
| "user_handler cfg r cl (DeclineAnInvitation t) = handleDeclineInvitation cl t"
| "user_handler cfg r cl (InAccount a rt) = AccountMiddleware a cl (\<lambda>acct m. account_handler cfg r cl acct m rt)"

fun serve_api :: "access_config \<Rightarrow> api_request \<Rightarrow> api_route \<Rightarrow> api" where
  "serve_api cfg r (PublicInvitation t) = handleGetInvitationPublic t"
| "serve_api cfg r SessionExchange = (if ac_firebase cfg = None then deny 404 ''404 page not found'' else handleSessionExchange cfg r)"
| "serve_api cfg r Logout = handleLogout cfg r"
| "serve_api cfg r (Authenticated rt) = call (authenticate cfg r) (\<lambda>c. case c of
     None \<Rightarrow> deny 401 ''unauthorized''
   | Some cl \<Rightarrow> userResolverMiddleware cl (\<lambda>cl'. user_handler cfg r cl' rt))"

text \<open>The loop that expires invitations, and the clock.\<close>

definition expiry_pass :: api where
  "expiry_pass = call (dbm ExpireOldInvitations) (\<lambda>_. Finished ApiNoContent)"

definition clock_tick :: "time \<Rightarrow> api" where
  "clock_tick d = call (dbm (State (\<lambda>s. ((), s\<lparr>db_now := db_now s + \<bar>d\<bar>\<rparr>)))) (\<lambda>_. Finished ApiNoContent)"

definition api_programs :: "access_config \<Rightarrow> api set" where
  "api_programs cfg = {serve_api cfg r rt | r rt. True} \<union> {expiry_pass} \<union> range clock_tick"

end
