(* ===== verification/Account_Properties.thy ===== *)
theory Account_Properties
  imports Account_Api
begin

text \<open>
  Accounts and their members under all interleavings of requests: owners, invitations, and what a
  caller without rights can do; and where the tokens, the cache of members and the first login fall
  short.
\<close>

section \<open>The tables\<close>

text \<open>The owner of an account is the user who created it, and there is such a member.\<close>

definition roles_fit :: "account list \<Rightarrow> account_member list \<Rightarrow> bool" where
  "roles_fit as ms \<longleftrightarrow> (\<forall>m \<in> set ms. \<exists>a \<in> set as. a_ID a = am_AccountID m \<and> (am_Role m = ''owner'' \<longleftrightarrow> am_UserID m = a_CreatedBy a))"

definition have_owner :: "account list \<Rightarrow> account_member list \<Rightarrow> bool" where
  "have_owner as ms \<longleftrightarrow> (\<forall>a \<in> set as. \<exists>m \<in> set ms. am_AccountID m = a_ID a \<and> am_Role m = ''owner'')"

definition invited :: "account_invitation list \<Rightarrow> account_member \<Rightarrow> bool" where
  "invited ivs m \<longleftrightarrow> (\<exists>i \<in> set ivs. iv_AccountID i = am_AccountID m \<and> iv_Status i = ''accepted'' \<and> iv_AcceptedBy i = Some (am_UserID m))"

definition all_invited :: "account_invitation list \<Rightarrow> account_member list \<Rightarrow> bool" where
  "all_invited ivs ms \<longleftrightarrow> (\<forall>m \<in> set ms. am_Role m \<noteq> ''owner'' \<longrightarrow> invited ivs m)"

definition invite_roles :: "account_invitation list \<Rightarrow> bool" where
  "invite_roles ivs \<longleftrightarrow> (\<forall>i \<in> set ivs. iv_Role i \<in> {''admin'', ''member''})"

definition accounts_fresh :: "account list \<Rightarrow> int \<Rightarrow> bool" where
  "accounts_fresh as n \<longleftrightarrow> distinct (map a_ID as) \<and> (\<forall>a \<in> set as. a_ID a < n)"

abbreviation member_key :: "account_member \<Rightarrow> int \<times> int" where
  "member_key m \<equiv> (am_AccountID m, am_UserID m)"

definition members_ok :: "db \<Rightarrow> bool" where
  "members_ok s \<longleftrightarrow> accounts_fresh (accounts s) (db_serial s) \<and> distinct (map member_key (account_members s)) \<and>
     roles_fit (accounts s) (account_members s) \<and> have_owner (accounts s) (account_members s) \<and>
     invite_roles (account_invitations s) \<and> all_invited (account_invitations s) (account_members s)"

lemma members_okD:
  assumes "members_ok s"
  shows "accounts_fresh (accounts s) (db_serial s)" "distinct (map member_key (account_members s))"
    "roles_fit (accounts s) (account_members s)" "have_owner (accounts s) (account_members s)"
    "invite_roles (account_invitations s)" "all_invited (account_invitations s) (account_members s)"
  using assms by (simp_all add: members_ok_def)

text \<open>What no request undoes: accounts stay, with slug and creator, and answered invitations stay as they are.\<close>

definition accounts_stay :: "account list \<Rightarrow> account list \<Rightarrow> bool" where
  "accounts_stay as bs \<longleftrightarrow> (\<forall>a \<in> set as. \<exists>b \<in> set bs. a_ID b = a_ID a \<and> a_Slug b = a_Slug a \<and> a_CreatedBy b = a_CreatedBy a)"

definition answers_stay :: "account_invitation list \<Rightarrow> account_invitation list \<Rightarrow> bool" where
  "answers_stay is js \<longleftrightarrow> (\<forall>i \<in> set is. iv_Status i \<noteq> ''pending'' \<longrightarrow> i \<in> set js)"

definition accounts_grow :: "db \<Rightarrow> db \<Rightarrow> bool" where
  "accounts_grow s t \<longleftrightarrow> accounts_stay (accounts s) (accounts t) \<and> answers_stay (account_invitations s) (account_invitations t)"

lemma stay_refl [simp]: "accounts_stay as as" "answers_stay is is"
  by (auto simp: accounts_stay_def answers_stay_def)

lemma accounts_grow_refl: "accounts_grow s s"
  by (simp add: accounts_grow_def)

lemma accounts_stay_trans: "accounts_stay as bs \<Longrightarrow> accounts_stay bs cs \<Longrightarrow> accounts_stay as cs"
  unfolding accounts_stay_def by metis

lemma answers_stay_trans: "answers_stay is js \<Longrightarrow> answers_stay js ks \<Longrightarrow> answers_stay is ks"
  by (simp add: answers_stay_def)

lemma accounts_grow_trans: "accounts_grow s t \<Longrightarrow> accounts_grow t u \<Longrightarrow> accounts_grow s u"
  unfolding accounts_grow_def using accounts_stay_trans answers_stay_trans by blast

text \<open>The account exists and the user did not create it.\<close>

definition not_creator :: "int \<Rightarrow> int \<Rightarrow> account list \<Rightarrow> bool" where
  "not_creator acct uid as \<longleftrightarrow> (\<exists>a \<in> set as. a_ID a = acct \<and> a_CreatedBy a \<noteq> uid)"

lemma not_creator_stay: "not_creator acct uid as \<Longrightarrow> accounts_stay as bs \<Longrightarrow> not_creator acct uid bs"
  unfolding not_creator_def accounts_stay_def by metis

lemma one_account:
  "accounts_fresh as n \<Longrightarrow> a \<in> set as \<Longrightarrow> b \<in> set as \<Longrightarrow> a_ID a = a_ID b \<Longrightarrow> a = b"
  by (auto simp: accounts_fresh_def distinct_map inj_on_def)

lemma owner_is_creator:
  assumes "accounts_fresh as n" "roles_fit as ms" "m \<in> set ms" "not_creator (am_AccountID m) (am_UserID m) as"
  shows "am_Role m \<noteq> ''owner''"
proof -
  obtain a where a: "a \<in> set as" "a_ID a = am_AccountID m" "am_Role m = ''owner'' \<longleftrightarrow> am_UserID m = a_CreatedBy a"
    using assms(2,3) by (auto simp: roles_fit_def)
  obtain b where b: "b \<in> set as" "a_ID b = am_AccountID m" "a_CreatedBy b \<noteq> am_UserID m"
    using assms(4) by (auto simp: not_creator_def)
  have "a = b" using one_account [OF assms(1) a(1) b(1)] a(2) b(2) by simp
  with a(3) b(3) show ?thesis by simp
qed

lemma non_owner_not_creator:
  "roles_fit as ms \<Longrightarrow> m \<in> set ms \<Longrightarrow> am_Role m \<noteq> ''owner'' \<Longrightarrow> not_creator (am_AccountID m) (am_UserID m) as"
  by (fastforce simp: roles_fit_def not_creator_def)

lemma one_row_member:
  assumes "one_row (matching (is_row acct uid) ms) = Inr m"
  shows "m \<in> set ms \<and> am_AccountID m = acct \<and> am_UserID m = uid"
  using one_row_Inr [OF assms] by (simp add: matching_def is_row_def)

section \<open>What the statements keep\<close>

definition keeps_members :: "db \<Rightarrow> db \<Rightarrow> bool" where
  "keeps_members s t \<longleftrightarrow> members_ok t \<and> accounts_grow s t"

lemma keeps_same:
  assumes "members_ok s" "accounts t = accounts s" "account_members t = account_members s"
    "account_invitations t = account_invitations s" "db_serial s \<le> db_serial t"
  shows "keeps_members s t"
  using assms by (auto simp: keeps_members_def members_ok_def accounts_grow_def accounts_fresh_def)

lemma CreateAccount_keeps:
  assumes ok: "members_ok s" and ins: "insert_account a s = (Inr row, t)"
  shows "keeps_members s (t\<lparr>account_members := account_members t @
      [\<lparr>am_AccountID = a_ID row, am_UserID = a_CreatedBy a, am_Role = ''owner'', am_CreatedAt = now\<rparr>]\<rparr>)"
proof -
  have t: "t = s\<lparr>accounts := accounts s @ [row], db_serial := db_serial s + 1\<rparr>" and
    row: "a_ID row = db_serial s" "a_CreatedBy row = a_CreatedBy a"
    using ins by (auto simp: insert_account_def Let_def split: if_splits)
  have fresh: "\<forall>x \<in> set (accounts s). a_ID x \<noteq> db_serial s"
    using ok by (auto simp: members_ok_def accounts_fresh_def)
  then have "\<forall>m \<in> set (account_members s). am_AccountID m \<noteq> db_serial s"
    using members_okD(3) [OF ok] by (fastforce simp: roles_fit_def)
  then have "distinct (map member_key (account_members s) @ [(a_ID row, a_CreatedBy a)])"
    using members_okD(2) [OF ok] row by auto
  moreover have "accounts_fresh (accounts s @ [row]) (db_serial s + 1)"
    using members_okD(1) [OF ok] fresh row by (auto simp: accounts_fresh_def)
  ultimately show ?thesis
    using members_okD [OF ok] row
    by (auto simp: keeps_members_def t members_ok_def accounts_grow_def accounts_stay_def roles_fit_def have_owner_def all_invited_def)
qed

lemma rename_stay: "accounts_stay as (update_where p (\<lambda>a. a\<lparr>a_Name := name\<rparr>) as)"
  by (induction as) (auto simp: accounts_stay_def)

lemma UpdateAccountName_keeps:
  assumes "members_ok s"
  shows "keeps_members s (s\<lparr>accounts := update_where p (\<lambda>a. a\<lparr>a_Name := name\<rparr>) (accounts s)\<rparr>)"
proof -
  let ?bs = "update_where p (\<lambda>a. a\<lparr>a_Name := name\<rparr>) (accounts s)"
  have "roles_fit ?bs (account_members s)"
    using members_okD(3) [OF assms] rename_stay [of "accounts s" p name]
    unfolding roles_fit_def accounts_stay_def by metis
  moreover have "have_owner ?bs (account_members s)" "accounts_fresh ?bs (db_serial s)"
    using members_okD(1,4) [OF assms] by (auto simp: have_owner_def accounts_fresh_def ball_update_where)
  ultimately show ?thesis
    using assms rename_stay by (simp add: keeps_members_def members_ok_def accounts_grow_def)
qed

lemma others_not_row:
  assumes "members_ok s" "not_creator acct uid (accounts s)" "m \<in> set (account_members s)" "is_row acct uid m"
  shows "am_Role m \<noteq> ''owner''"
  using owner_is_creator [OF members_okD(1,3) [OF assms(1)] assms(3)] assms(2,4) by (simp add: is_row_def)

lemma RemoveMember_keeps:
  assumes "members_ok s" "not_creator acct uid (accounts s)"
  shows "keeps_members s (s\<lparr>account_members := delete_where (is_row acct uid) (account_members s)\<rparr>)"
proof -
  have "have_owner (accounts s) (delete_where (is_row acct uid) (account_members s))"
    unfolding have_owner_def
  proof
    fix a assume "a \<in> set (accounts s)"
    then obtain m where "m \<in> set (account_members s)" "am_AccountID m = a_ID a" "am_Role m = ''owner''"
      using members_okD(4) [OF assms(1)] by (auto simp: have_owner_def)
    with others_not_row [OF assms] show "\<exists>m \<in> set (delete_where (is_row acct uid) (account_members s)). am_AccountID m = a_ID a \<and> am_Role m = ''owner''"
      by auto
  qed
  then show ?thesis
    using members_okD [OF assms(1)]
    by (auto simp: keeps_members_def members_ok_def accounts_grow_def roles_fit_def all_invited_def distinct_map_delete_where)
qed

lemma UpdateRole_keeps:
  assumes "members_ok s" "not_creator acct uid (accounts s)" "role \<noteq> ''owner''"
  shows "keeps_members s (s\<lparr>account_members := update_where (is_row acct uid) (\<lambda>m. m\<lparr>am_Role := role\<rparr>) (account_members s)\<rparr>)"
proof -
  let ?ms = "update_where (is_row acct uid) (\<lambda>m. m\<lparr>am_Role := role\<rparr>) (account_members s)"
  note other = others_not_row [OF assms(1,2)]
  have "m \<in> set ?ms" if "m \<in> set (account_members s)" "am_Role m = ''owner''" for m
    using that other [of m] by (auto simp: set_update_where)
  then have "have_owner (accounts s) ?ms"
    using members_okD(4) [OF assms(1)] unfolding have_owner_def by blast
  moreover have "roles_fit (accounts s) ?ms"
    using members_okD(3) [OF assms(1)] other assms(3) by (auto simp: roles_fit_def ball_update_where)
  moreover have "all_invited (account_invitations s) ?ms"
    using members_okD(6) [OF assms(1)] other by (auto simp: all_invited_def ball_update_where invited_def)
  ultimately show ?thesis
    using members_okD [OF assms(1)] by (simp add: keeps_members_def members_ok_def accounts_grow_def)
qed

lemma all_invited_stay: "all_invited is ms \<Longrightarrow> answers_stay is js \<Longrightarrow> all_invited js ms"
  by (fastforce simp: all_invited_def invited_def answers_stay_def)

text \<open>Changes of the invitations that leave the answered ones alone.\<close>

lemma invitations_keep:
  assumes "members_ok s" "answers_stay (account_invitations s) ivs" "invite_roles ivs" "db_serial s \<le> n"
    "accounts t = accounts s" "account_members t = account_members s" "account_invitations t = ivs" "db_serial t = n"
  shows "keeps_members s t"
  using assms all_invited_stay [OF members_okD(6) [OF assms(1)] assms(2)] members_okD [OF assms(1)]
  by (auto simp: keeps_members_def members_ok_def accounts_grow_def accounts_fresh_def)

lemma respond_stay: "answers_stay is (update_where (\<lambda>i. p i \<and> iv_Status i = ''pending'') f is)"
  by (induction "is") (auto simp: answers_stay_def)

lemma respond_keeps:
  assumes "members_ok s" "\<And>i. iv_Role (f i) = iv_Role i"
  shows "keeps_members s (respond_pending p f s)"
  by (rule invitations_keep [OF assms(1) respond_stay])
    (use assms members_okD(5) [OF assms(1)] in \<open>auto simp: respond_pending_def invite_roles_def ball_update_where\<close>)

lemma CreateInvitation_keeps:
  assumes "members_ok s" "iv_Role row \<in> {''admin'', ''member''}"
  shows "keeps_members s (s\<lparr>account_invitations := account_invitations s @ [row], db_serial := db_serial s + 1, db_uuids := n\<rparr>)"
  by (rule invitations_keep [OF assms(1)])
    (use assms members_okD(5) [OF assms(1)] in \<open>auto simp: answers_stay_def invite_roles_def\<close>)

lemma Revoke_keeps:
  assumes "members_ok s"
  shows "keeps_members s (s\<lparr>account_invitations := delete_where (\<lambda>v. p v \<and> q v \<and> iv_Status v = ''pending'') (account_invitations s)\<rparr>)"
  by (rule invitations_keep [OF assms])
    (use members_okD(5) [OF assms] in \<open>auto simp: answers_stay_def invite_roles_def\<close>)

lemma Accept_keeps:
  assumes ok: "members_ok s" and i: "i \<in> set (account_invitations s)" "iv_Status i = ''pending''"
    and no: "\<not> (\<exists>m \<in> set (account_members s). is_row (iv_AccountID i) uid m)"
    and t: "t = s\<lparr>account_invitations := update_where (\<lambda>x. iv_ID x = iv_ID i \<and> iv_Status x = ''pending'')
        (\<lambda>x. x\<lparr>iv_Status := ''accepted'', iv_AcceptedBy := Some uid, iv_RespondedAt := Some now\<rparr>) (account_invitations s)\<rparr>"
    and ins: "insert_member \<lparr>am_AccountID = iv_AccountID i, am_UserID = uid, am_Role = iv_Role i, am_CreatedAt = 0\<rparr> t = (Inr x, u)"
  shows "keeps_members s u"
proof -
  let ?m = "\<lparr>am_AccountID = iv_AccountID i, am_UserID = uid, am_Role = iv_Role i, am_CreatedAt = db_now s\<rparr>"
  have u: "u = t\<lparr>account_members := account_members s @ [?m]\<rparr>" and acct: "\<exists>a \<in> set (accounts s). a_ID a = iv_AccountID i"
    using ins by (auto simp: insert_member_def t split: if_splits)
  have role: "iv_Role i \<noteq> ''owner''" using members_okD(5) [OF ok] i by (auto simp: invite_roles_def)
  have stay: "answers_stay (account_invitations s) (account_invitations t)" by (simp add: t respond_stay)
  let ?i = "i\<lparr>iv_Status := ''accepted'', iv_AcceptedBy := Some uid, iv_RespondedAt := Some now\<rparr>"
  have "?i \<in> set (account_invitations t)" using i by (auto simp: t set_update_where intro!: bexI [of _ i])
  then have "invited (account_invitations t) ?m" unfolding invited_def by (intro bexI [of _ ?i]) simp_all
  then have inv: "all_invited (account_invitations t) (account_members s @ [?m])"
    using all_invited_stay [OF members_okD(6) [OF ok] stay] by (auto simp: all_invited_def)
  have creator: "a_CreatedBy a \<noteq> uid" if a: "a \<in> set (accounts s)" "a_ID a = iv_AccountID i" for a
  proof
    assume "a_CreatedBy a = uid"
    moreover obtain m where m: "m \<in> set (account_members s)" "am_AccountID m = a_ID a" "am_Role m = ''owner''"
      using members_okD(4) [OF ok] a(1) by (auto simp: have_owner_def)
    moreover obtain b where "b \<in> set (accounts s)" "a_ID b = am_AccountID m" "am_UserID m = a_CreatedBy b"
      using members_okD(3) [OF ok] m by (auto simp: roles_fit_def)
    ultimately have "am_UserID m = uid" using one_account [OF members_okD(1) [OF ok]] a(1) by metis
    with no m a(2) show False by (auto simp: is_row_def)
  qed
  have "roles_fit (accounts s) (account_members s @ [?m])"
    using members_okD(3) [OF ok] acct creator role by (fastforce simp: roles_fit_def)
  moreover have "distinct (map member_key (account_members s @ [?m]))"
    using members_okD(2) [OF ok] no by (auto simp: is_row_def)
  moreover have "have_owner (accounts s) (account_members s @ [?m])"
    using members_okD(4) [OF ok] by (auto simp: have_owner_def)
  moreover have "invite_roles (account_invitations t)"
    using members_okD(5) [OF ok] by (auto simp: t invite_roles_def ball_update_where)
  ultimately show ?thesis
    using members_okD(1) [OF ok] inv stay by (simp add: keeps_members_def members_ok_def u t accounts_grow_def)
qed

section \<open>Calls that can be made at any time\<close>

lemma members_ok_tape [simp]: "members_ok (s\<lparr>db_faults := fs\<rparr>) = members_ok s"
  by (simp add: members_ok_def)

lemma keeps_members_tape [simp]:
  "keeps_members s (t\<lparr>db_faults := fs\<rparr>) = keeps_members s t" "keeps_members (s\<lparr>db_faults := fs\<rparr>) t = keeps_members s t"
  by (simp_all add: keeps_members_def accounts_grow_def)

lemma keeps_members_refl: "members_ok s \<Longrightarrow> keeps_members s s"
  by (simp add: keeps_members_def accounts_grow_refl)

lemma db_call_keeps:
  assumes "\<And>s. members_ok s \<Longrightarrow> keeps_members s (snd (f s))" "members_ok s"
  shows "keeps_members s (final_state (db_call f) s)"
proof -
  have "keeps_members s (snd (f (s\<lparr>db_faults := fs\<rparr>)))" for fs
    using assms(1) [of "s\<lparr>db_faults := fs\<rparr>"] assms(2) by simp
  then show ?thesis using assms by (auto simp: db_call_def keeps_members_refl split: list.splits bool.splits)
qed

lemma query_keeps: "members_ok s \<Longrightarrow> keeps_members s (final_state (query f) s)"
  unfolding query_def by (rule db_call_keeps) (simp_all add: keeps_members_refl)

lemma exec_keeps:
  "(\<And>s. members_ok s \<Longrightarrow> keeps_members s (f s)) \<Longrightarrow> members_ok s \<Longrightarrow> keeps_members s (final_state (exec f) s)"
  unfolding exec_def by (rule db_call_keeps) simp_all

lemma tx_keeps:
  "(\<And>s a t. members_ok s \<Longrightarrow> f s = (Inr a, t) \<Longrightarrow> keeps_members s t) \<Longrightarrow> members_ok s \<Longrightarrow>
   keeps_members s (final_state (tx f) s)"
  unfolding tx_def by (rule db_call_keeps) (auto simp: keeps_members_refl split: prod.splits sum.splits)

definition world_ok :: "access_world \<Rightarrow> bool" where
  "world_ok w \<longleftrightarrow> members_ok (aw_db w)"

definition world_grow :: "access_world \<Rightarrow> access_world \<Rightarrow> bool" where
  "world_grow v w \<longleftrightarrow> accounts_grow (aw_db v) (aw_db w)"

interpretation acc: invariant_preorder world_grow world_ok
  by unfold_locales (auto simp: world_grow_def accounts_grow_refl intro: accounts_grow_trans)

lemma calm_dbm:
  assumes "\<And>s. members_ok s \<Longrightarrow> keeps_members s (final_state m s)"
  shows "acc.calm (dbm m)"
  using assms by (simp add: acc.calm_def within_def world_ok_def world_grow_def dbm_def keeps_members_def)

lemma calm_other:
  assumes "\<And>w. aw_db (final_state m w) = aw_db w"
  shows "acc.calm m"
  using assms by (simp add: acc.calm_def within_def world_ok_def world_grow_def accounts_grow_refl)

lemma calm_read_clock: "acc.calm read_clock"
  by (rule calm_other) (simp add: read_clock_def)

lemma calm_put_account: "acc.calm (put_account slug a us)"
  by (rule calm_other) (auto simp: put_account_def split: list.splits bool.splits)

lemma calm_authenticate: "acc.calm (authenticate cfg r)"
  by (rule calm_other)
    (auto simp: authenticate_def DevBypassMiddleware_def DualModeMiddleware_def FirebaseMiddleware_def Let_def split: prod.splits sum.splits)

lemma calm_validate_firebase: "acc.calm (validate_firebase cfg project token)"
  by (rule calm_other) (simp add: validate_firebase_def split: prod.splits)

lemma calm_reads:
  "acc.calm (dbm (GetUser i))" "acc.calm (dbm (GetUserByEmail e))" "acc.calm (dbm (GetUserByCfSub c))"
  "acc.calm (dbm (GetUserByIdentity x y))" "acc.calm (dbm (GetAccount a))" "acc.calm (dbm (ListAccountsByUser i))"
  "acc.calm (dbm (ListAccountMembers a))" "acc.calm (dbm (GetAccountMember a i))" "acc.calm (dbm (GetInvitationByToken t))"
  "acc.calm (dbm (ListInvitationsByAccount a))" "acc.calm (dbm (ListPendingInvitationsByEmail e))"
  by (rule calm_dbm, simp add: GetUser_def GetUserByEmail_def GetUserByCfSub_def GetUserByIdentity_def GetAccount_def
      ListAccountsByUser_def ListAccountMembers_def GetAccountMember_def GetInvitationByToken_def
      ListInvitationsByAccount_def ListPendingInvitationsByEmail_def query_keeps)+

lemma calm_users:
  "acc.calm (dbm (CreateUser u))" "acc.calm (dbm (UpdateUserCfSub i c))" "acc.calm (dbm (UpdateUserProvider i p q av))"
  unfolding CreateUser_def UpdateUserCfSub_def UpdateUserProvider_def
  by (rule calm_dbm, (rule tx_keeps exec_keeps; (auto simp: Let_def split: if_splits)?); auto intro!: keeps_same)+

lemma calm_accounts:
  "acc.calm (dbm (CreateAccountWithOwner a (a_CreatedBy a)))" "acc.calm (dbm (UpdateAccountName i name))"
proof -
  show "acc.calm (dbm (CreateAccountWithOwner a (a_CreatedBy a)))"
    unfolding CreateAccountWithOwner_def
    by (rule calm_dbm, rule tx_keeps) (auto split: prod.splits sum.splits if_splits intro: CreateAccount_keeps)
  show "acc.calm (dbm (UpdateAccountName i name))"
    unfolding UpdateAccountName_def
    by (rule calm_dbm, rule tx_keeps) (auto split: if_splits intro: UpdateAccountName_keeps)
qed

lemma calm_invitations:
  "iv_Role i \<in> {''admin'', ''member''} \<Longrightarrow> acc.calm (dbm (CreateInvitation i))" "acc.calm (dbm (AcceptInvitation t u))"
  "acc.calm (dbm (DeclineInvitation t))" "acc.calm (dbm (RevokeInvitation a n))" "acc.calm (dbm ExpireOldInvitations)"
proof -
  show "acc.calm (dbm (CreateInvitation i))" if "iv_Role i \<in> {''admin'', ''member''}"
    unfolding CreateInvitation_def
    by (rule calm_dbm, rule tx_keeps) (use that in \<open>auto simp: Let_def split: if_splits intro!: CreateInvitation_keeps\<close>)
  show "acc.calm (dbm (AcceptInvitation t u))"
    unfolding AcceptInvitation_def
    by (rule calm_dbm, rule tx_keeps)
      (auto simp: Let_def matching_def dest!: one_row_Inr split: if_splits sum.splits prod.splits intro: keeps_members_refl Accept_keeps)
  show "acc.calm (dbm (DeclineInvitation t))"
    unfolding DeclineInvitation_def by (rule calm_dbm, rule exec_keeps) (auto intro: respond_keeps)
  show "acc.calm (dbm (RevokeInvitation a n))"
    unfolding RevokeInvitation_def by (rule calm_dbm, rule exec_keeps) (auto intro: Revoke_keeps)
  show "acc.calm (dbm ExpireOldInvitations)"
    unfolding ExpireOldInvitations_def by (rule calm_dbm, rule tx_keeps) (auto intro: respond_keeps)
qed

lemmas calm_calls = calm_read_clock calm_put_account calm_authenticate calm_validate_firebase calm_reads calm_users
  calm_accounts calm_invitations

section \<open>Requests\<close>

abbreviation safe :: "api \<Rightarrow> access_world \<Rightarrow> bool" where
  "safe \<equiv> guards acc.kept acc.kept"

lemma safe_finished [simp]: "safe (Finished r) w"
  by simp

lemma safe_refresh: "(\<And>w. safe k w) \<Longrightarrow> safe (refreshAccountKVCache cfg a k) w"
  unfolding refreshAccountKVCache_def by (intro guards_rules acc.guards_calm calm_calls)

lemma safe_create_with_account: "(\<And>u w. safe (k u) w) \<Longrightarrow> safe (create_with_account new k) w"
  unfolding create_with_account_def
  using calm_accounts(1) [of "personal_account u name" for u name]
  by (intro guards_rules acc.guards_calm calm_calls) (simp_all add: personal_account_def)

lemma safe_resolver: "(\<And>c w. safe (k c) w) \<Longrightarrow> safe (userResolverMiddleware cl k) w"
  unfolding userResolverMiddleware_def Let_def by (intro guards_rules acc.guards_calm calm_calls)

lemma safe_sessions:
  "safe (handleAuthMe cfg r cl) w" "safe (handleCliToken cfg cl) w" "safe (handleSessionExchange cfg r) w" "safe (handleLogout cfg r) w"
  unfolding handleAuthMe_def handleCliToken_def handleSessionExchange_def handleLogout_def Let_def
  by (intro guards_rules acc.guards_calm calm_calls safe_create_with_account safe_finished)+

lemma safe_accounts:
  "safe (handleListAccounts cl) w" "safe (handleCreateAccount cfg r cl) w" "safe (handleGetAccount a) w"
  "safe (handleUpdateAccount r a m) w" "safe (handleListMembers a) w"
proof -
  have "acc.calm (dbm (CreateAccountWithOwner \<lparr>a_ID = 0, a_Name = name, a_Slug = slug, a_CreatedBy = u, a_CreatedAt = 0\<rparr> u))" for name slug u
    using calm_accounts(1) [of "\<lparr>a_ID = 0, a_Name = name, a_Slug = slug, a_CreatedBy = u, a_CreatedAt = 0\<rparr>"] by simp
  then show "safe (handleCreateAccount cfg r cl) w"
    unfolding handleCreateAccount_def
    by (auto split: option.splits intro!: guards_rules acc.guards_calm calm_calls)
qed (unfold handleListAccounts_def handleGetAccount_def handleUpdateAccount_def handleListMembers_def Let_def,
    (intro guards_rules acc.guards_calm calm_calls safe_finished)+)

lemma safe_newest: "safe (newest_pending u seen kept ps) w"
  by (induction u seen kept ps arbitrary: w rule: newest_pending.induct)
    (auto split: sum.splits intro!: acc.guards_calm calm_calls)

lemma safe_invitations:
  "safe (handleCreateInvitation r cl a m) w" "safe (handleListInvitations a m) w" "safe (handleRevokeInvitation a m p) w"
  "safe (handleListPendingInvitations cl) w" "safe (handleAcceptInvitation cfg cl t) w" "safe (handleDeclineInvitation cl t) w"
  "safe (handleGetInvitation cl t) w" "safe (handleGetInvitationPublic t) w"
proof -
  show "safe (handleCreateInvitation r cl a m) w"
    unfolding handleCreateInvitation_def already_member_def Let_def
    by (auto simp: new_invitation_def split: option.splits sum.splits intro!: acc.guards_calm calm_calls)
qed (unfold handleListInvitations_def handleRevokeInvitation_def handleListPendingInvitations_def handleAcceptInvitation_def
    handleDeclineInvitation_def handleGetInvitation_def handleGetInvitationPublic_def with_names_def,
    (intro guards_rules acc.guards_calm calm_calls safe_finished safe_newest safe_refresh)+)

text \<open>
  Changing and removing a member needs that the member is not the owner; that was read earlier, and
  stays true because accounts do not change their creator.
\<close>

abbreviation other_user :: "int \<Rightarrow> int \<Rightarrow> access_world \<Rightarrow> bool" where
  "other_user a u w \<equiv> not_creator a u (accounts (aw_db w))"

lemma other_user_kept: "other_user a u w \<Longrightarrow> acc.kept w v \<Longrightarrow> other_user a u v"
  by (auto simp: within_def world_grow_def accounts_grow_def intro: not_creator_stay)

lemma exec_keeps_other:
  assumes "\<And>s. members_ok s \<Longrightarrow> not_creator a u (accounts s) \<Longrightarrow> keeps_members s (f s)"
    "members_ok s" "not_creator a u (accounts s)"
  shows "keeps_members s (final_state (exec f) s)"
proof -
  have "keeps_members s (f (s\<lparr>db_faults := fs\<rparr>))" for fs
    using assms(1) [of "s\<lparr>db_faults := fs\<rparr>"] assms(2,3) by simp
  then show ?thesis using assms
    by (auto simp: exec_def db_call_def keeps_members_refl split: list.splits bool.splits)
qed

lemma safe_with_other:
  assumes "other_user a u w"
    "\<And>s. members_ok s \<Longrightarrow> not_creator a u (accounts s) \<Longrightarrow> keeps_members s (f s)" "\<And>x v. safe (k x) v"
  shows "safe (call (dbm (exec f)) k) w"
proof (rule guards_callI)
  fix v assume v: "acc.kept w v"
  then have "members_ok (aw_db v)" "not_creator a u (accounts (aw_db v))"
    using other_user_kept [OF assms(1)] by (simp_all add: within_def world_ok_def)
  then show "acc.kept v (final_state (dbm (exec f)) v)"
    using exec_keeps_other [OF assms(2), where s = "aw_db v"] by (simp add: within_def world_ok_def world_grow_def dbm_def keeps_members_def)
  show "safe (k (outcome (dbm (exec f)) v)) (final_state (dbm (exec f)) v)" by (rule assms(3))
qed

lemma read_member_other:
  assumes "world_ok v" "outcome (dbm (GetAccountMember a u)) v = Inr m" "am_Role m \<noteq> ''owner''"
  shows "other_user a u (final_state (dbm (GetAccountMember a u)) v)"
proof -
  have "one_row (matching (is_row a u) (account_members (aw_db v))) = Inr m"
    using assms(2) by (auto simp: dbm_def GetAccountMember_def query_def db_call_def split: list.splits bool.splits)
  from one_row_member [OF this] have "not_creator a u (accounts (aw_db v))"
    using non_owner_not_creator [OF members_okD(3)] assms(1,3) by (auto simp: world_ok_def)
  then show ?thesis
    by (auto simp: dbm_def GetAccountMember_def query_def db_call_def split: list.splits bool.splits)
qed

lemma safe_role_change: "safe (handleUpdateMemberRole r a m p) w"
proof -
  have set_role: "safe (call (dbm (UpdateAccountMemberRole a u role)) k) v"
    if "other_user a u v" "role \<noteq> ''owner''" "\<And>x v. safe (k x) v" for u role k v
    unfolding UpdateAccountMemberRole_def using that by (intro safe_with_other [OF that(1)] UpdateRole_keeps) auto
  show ?thesis
    unfolding handleUpdateMemberRole_def
    by (intro guards_rules acc.guards_calm_read calm_calls safe_finished set_role)
      (auto intro: read_member_other split: sum.splits)
qed

lemma safe_remove:
  assumes "other_user a u w" "\<And>v. safe k v"
  shows "safe (call (dbm (RemoveAccountMember a u)) (\<lambda>res. case res of Inl _ \<Rightarrow> deny st msg | Inr _ \<Rightarrow> refreshAccountKVCache cfg a k)) w"
  unfolding RemoveAccountMember_def
  by (intro safe_with_other [OF assms(1)] RemoveMember_keeps guards_case_sum safe_finished safe_refresh assms(2))

lemma safe_removal: "safe (handleRemoveMember cfg a m p) w"
  unfolding handleRemoveMember_def
  by (intro guards_rules acc.guards_calm_read calm_calls safe_finished safe_remove) (auto intro: read_member_other)

lemma safe_leave: "(am_Role m \<noteq> ''owner'' \<Longrightarrow> other_user a (am_UserID m) w) \<Longrightarrow> safe (handleLeaveAccount cfg a m) w"
  unfolding handleLeaveAccount_def by (intro guards_rules safe_finished safe_remove) auto

lemma safe_account_handler:
  "(am_Role m \<noteq> ''owner'' \<Longrightarrow> other_user a (am_UserID m) w) \<Longrightarrow> safe (account_handler cfg r cl a m rt) w"
  by (cases rt) (simp_all add: safe_accounts safe_invitations safe_role_change safe_removal safe_leave)

lemma safe_in_account: "safe (AccountMiddleware p cl (\<lambda>a m. account_handler cfg r cl a m rt)) w"
proof -
  have same: "am_UserID m = cl_UserID cl" if "outcome (dbm (GetAccountMember a (cl_UserID cl))) v = Inr m" for a m v
    using that one_row_member by (fastforce simp: dbm_def GetAccountMember_def query_def db_call_def split: list.splits bool.splits)
  show ?thesis
    unfolding AccountMiddleware_def
    by (intro guards_case_option guards_case_sum acc.guards_calm_read calm_calls safe_finished safe_account_handler)
      (auto simp: same intro: read_member_other)
qed

lemma safe_programs:
  assumes "p \<in> api_programs cfg"
  shows "safe p w"
proof -
  have user: "safe (user_handler cfg r cl rt) v" for r cl rt v
    by (cases rt) (simp_all add: safe_sessions safe_accounts safe_invitations safe_in_account)
  have "safe (serve_api cfg r rt) v" for r rt v
    by (cases rt) (auto simp: safe_sessions safe_invitations user
        intro!: acc.guards_calm calm_calls guards_case_option safe_resolver)
  moreover have "safe expiry_pass v" for v
    unfolding expiry_pass_def by (intro acc.guards_calm calm_calls) simp
  moreover have "safe (clock_tick d) v" for d v
    unfolding clock_tick_def by (intro acc.guards_calm calm_dbm) (auto intro: keeps_same)
  ultimately show ?thesis using assms by (auto simp: api_programs_def)
qed

interpretation acc_run: rely_guarantee world_grow world_ok "api_programs cfg" for cfg
  by unfold_locales (rule safe_programs)

section \<open>Owners and members\<close>

lemma empty_members_ok: "members_ok (empty_db\<lparr>db_faults := fs\<rparr>)"
  by (simp add: members_ok_def empty_db_def accounts_fresh_def roles_fit_def have_owner_def invite_roles_def all_invited_def)

text \<open>From an empty database: the invariant holds at every time, and later states extend earlier ones.\<close>

lemma run_states:
  assumes "aw_db w = empty_db\<lparr>db_faults := fs\<rparr>" "pool_run (api_programs cfg) (w, []) (v, qs)" "pool_run (api_programs cfg) (v, qs) (u, rs)"
  shows "members_ok (aw_db v)" "members_ok (aw_db u)" "accounts_grow (aw_db v) (aw_db u)"
proof -
  have "world_ok w" by (simp only: world_ok_def assms(1) empty_members_ok)
  then have v: "world_ok v" "\<forall>p \<in> set qs. guards acc.kept acc.kept p v"
    using acc_run.pool_run_keeps [OF assms(2)] by (auto simp: within_def)
  then have "acc.kept v u" using acc_run.pool_run_keeps [OF assms(3)] by simp
  with v show "members_ok (aw_db v)" "members_ok (aw_db u)" "accounts_grow (aw_db v) (aw_db u)"
    by (simp_all add: within_def world_ok_def world_grow_def)
qed

text \<open>
  C19: an account has one owner for ever. However requests of all users interleave, with database calls
  failing at any point: once an account exists it stays, and at every later time its owners are exactly
  the user who created it. The owner cannot be removed, demoted or joined by a second one, although
  the handlers check the role of a member in one statement and change it in another.
\<close>
theorem owner_is_permanent:
  assumes "aw_db w = empty_db\<lparr>db_faults := fs\<rparr>" "pool_run (api_programs cfg) (w, []) (v, qs)"
    "pool_run (api_programs cfg) (v, qs) (u, rs)" "a \<in> set (accounts (aw_db v))"
  shows "(\<exists>b \<in> set (accounts (aw_db u)). a_ID b = a_ID a \<and> a_Slug b = a_Slug a \<and> a_CreatedBy b = a_CreatedBy a) \<and>
    am_UserID ` {m \<in> set (account_members (aw_db u)). am_AccountID m = a_ID a \<and> am_Role m = ''owner''} = {a_CreatedBy a}"
proof -
  note run = run_states [OF assms(1-3)]
  obtain b where b: "b \<in> set (accounts (aw_db u))" "a_ID b = a_ID a" "a_Slug b = a_Slug a" "a_CreatedBy b = a_CreatedBy a"
    using run(3) assms(4) by (auto simp: accounts_grow_def accounts_stay_def)
  have creator: "am_UserID m = a_CreatedBy a"
    if m: "m \<in> set (account_members (aw_db u))" "am_AccountID m = a_ID a" "am_Role m = ''owner''" for m
  proof -
    obtain c where "c \<in> set (accounts (aw_db u))" "a_ID c = am_AccountID m" "am_UserID m = a_CreatedBy c"
      using members_okD(3) [OF run(2)] m by (auto simp: roles_fit_def)
    with one_account [OF members_okD(1) [OF run(2)], of c b] b m(2) show ?thesis by auto
  qed
  obtain m where m: "m \<in> set (account_members (aw_db u))" "am_AccountID m = a_ID a" "am_Role m = ''owner''"
    using members_okD(4) [OF run(2)] b by (auto simp: have_owner_def)
  have "a_CreatedBy a \<in> am_UserID ` {m \<in> set (account_members (aw_db u)). am_AccountID m = a_ID a \<and> am_Role m = ''owner''}"
    using m creator [OF m] by (intro image_eqI [of _ _ m]) auto
  with creator b show ?thesis by auto
qed

text \<open>
  C20: nobody joins uninvited. At every time each member who is not the owner has accepted an invitation
  of this account, as an admin or a member; and an invitation that was answered or has expired is never
  changed, revoked or used again.
\<close>
theorem members_were_invited:
  assumes "aw_db w = empty_db\<lparr>db_faults := fs\<rparr>" "pool_run (api_programs cfg) (w, []) (v, qs)" "pool_run (api_programs cfg) (v, qs) (u, rs)"
  shows "(\<forall>m \<in> set (account_members (aw_db u)). am_Role m \<noteq> ''owner'' \<longrightarrow>
      (\<exists>i \<in> set (account_invitations (aw_db u)). iv_AccountID i = am_AccountID m \<and> iv_AcceptedBy i = Some (am_UserID m) \<and>
         iv_Status i = ''accepted'' \<and> iv_Role i \<in> {''admin'', ''member''})) \<and>
    (\<forall>i \<in> set (account_invitations (aw_db v)). iv_Status i \<noteq> ''pending'' \<longrightarrow> i \<in> set (account_invitations (aw_db u)))"
proof -
  note run = run_states [OF assms]
  show ?thesis
    using members_okD(5,6) [OF run(2)] run(3)
    by (auto simp: all_invited_def invited_def invite_roles_def accounts_grow_def answers_stay_def)
qed

section \<open>Callers without rights\<close>














section \<open>Tokens\<close>

text \<open>A token is valid until the second of its expiry, if it has one.\<close>

definition unexpired :: "time \<Rightarrow> json \<Rightarrow> bool" where
  "unexpired now payload = (case json_get ''exp'' payload of Some (JNum e) \<Rightarrow> now < e * second | _ \<Rightarrow> True)"

text \<open>The library accepts what was signed with the secret, as long as it has not expired.\<close>

definition accepts_own :: "jwt_lib \<Rightarrow> string \<Rightarrow> bool" where
  "accepts_own lib secret \<longleftrightarrow> (\<forall>payload token now. jl_sign lib secret payload = Inr token \<longrightarrow>
     jl_header lib token = Some (MethodHMAC, None) \<and>
     (unexpired now payload \<longrightarrow> jl_check lib (SecretKey secret) None None now token = Inr payload))"

lemma decode_composio:
  "decode_payload decode_claims (composio_payload m ttl now) = Inr \<lparr>cl_UserID = 0, cl_Email = '''', cl_AccountID = 0, cl_CfSub = ''''\<rparr>"
proof -
  have "decode_field decode_int ''user_id'' 0 kvs = (0, False)" "decode_field decode_string ''email'' '''' kvs = ('''', False)"
    "decode_field decode_int ''account_id'' 0 kvs = (0, False)" "decode_field decode_string ''cf_sub'' '''' kvs = ('''', False)"
    if "map fst kvs = [''machine_id'', ''iss'', ''sub'', ''exp'', ''iat'']" for kvs
    using that by (intro decode_field_none; auto simp: equal_fold_def lower_def)+
  then show ?thesis by (simp add: composio_payload_def decode_payload_def decode_claims_def)
qed

text \<open>
  The token of a plugin opens a session. Composio proxy tokens are signed with the secret of the
  sessions, and a session is accepted without a look at the issuer, so the token that a VM holds for its
  plugin authenticates requests to the control plane, as a caller without user and address. What such a
  caller may do is then left to each handler.
\<close>
theorem plugin_token_authenticates:
  assumes "accepts_own (ac_lib cfg) secret" "ac_auth cfg = Some secret" "ac_authMode cfg = ''firebase''"
    "IssueComposioProxyToken (ac_lib cfg) (Some secret) machineID ttl issued = Inr token"
    "rq_Header r ''Authorization'' = ''Bearer '' @ token" "token \<noteq> ''''" "db_now (aw_db w) < (issued + ttl) div second * second"
  shows "outcome (authenticate cfg r) w = Some \<lparr>cl_UserID = 0, cl_Email = '''', cl_AccountID = 0, cl_CfSub = ''''\<rparr>"
proof -
  have signed: "jl_sign (ac_lib cfg) secret (composio_payload machineID ttl issued) = Inr token"
    using assms(4) by (auto simp: IssueComposioProxyToken_def split: if_splits sum.splits)
  have "unexpired (db_now (aw_db w)) (composio_payload machineID ttl issued)"
    using assms(7) by (simp add: unexpired_def composio_payload_def json_get_def numeric_date_def)
  then have "ValidateToken (ac_lib cfg) secret (db_now (aw_db w)) token = Inr \<lparr>cl_UserID = 0, cl_Email = '''', cl_AccountID = 0, cl_CfSub = ''''\<rparr>"
    using assms(1) signed by (simp add: accepts_own_def ValidateToken_def parse_hmac_def decode_composio)
  moreover have "session_token r = token"
    using assms(5) by (simp add: session_token_def trim_prefix_def)
  ultimately show ?thesis using assms(2,3,6) by (simp add: authenticate_def FirebaseMiddleware_def legacy_claims_def)
qed

section \<open>First logins\<close>

text \<open>
  A taken slug leaves a new user without an account. The personal account of a new user gets the
  slug \<open>user-\<close> followed by the number of the user, which anybody may have registered before. Then the login
  succeeds and creates the user, but no account, and later logins, which find the user, do not create it
  either.
\<close>
theorem squatted_slug_blocks_account:
  assumes "cl_UserID cl = 0" "cl_CfSub cl \<noteq> ''''" "db_faults (aw_db w) = []"
    "\<forall>u \<in> set (users (aw_db w)). u_CfSub u \<noteq> Some (cl_CfSub cl) \<and> u_Email u \<noteq> cl_Email cl"
    "a \<in> set (accounts (aw_db w))" "a_Slug a = ''user-'' @ show_int (db_serial (aw_db w))"
  shows "\<exists>u c v. run_alone (handleAuthMe cfg r cl) w = (ApiUser u c, v) \<and> u_ID u = db_serial (aw_db w) \<and>
    accounts (aw_db v) = accounts (aw_db w) \<and> account_members (aw_db v) = account_members (aw_db w) \<and>
    (\<exists>u' c'. run_alone (handleAuthMe cfg r cl) v = (ApiUser u' c', v) \<and> u_ID u' = u_ID u)"
proof -
  let ?s = "aw_db w" and ?row = "(cf_user cl)\<lparr>u_ID := db_serial (aw_db w), u_CreatedAt := db_now (aw_db w)\<rparr>"
  let ?t = "?s\<lparr>users := users ?s @ [?row], db_serial := db_serial ?s + 1\<rparr>"
  have none: "filter (\<lambda>u. u_CfSub u = Some (cl_CfSub cl)) (users ?s) = []" "filter (\<lambda>u. u_Email u = cl_Email cl) (users ?s) = []"
    using assms(4) by (auto simp: filter_empty_conv)
  then have missing: "run_state (GetUserByCfSub (cl_CfSub cl)) ?s = (Inl ErrNoRows, ?s)" "run_state (GetUserByEmail (cl_Email cl)) ?s = (Inl ErrNoRows, ?s)"
    using assms(3) by (simp_all add: GetUserByCfSub_def GetUserByEmail_def matching_def one_row_def)
  have create: "run_state (CreateUser (cf_user cl)) ?s = (Inr ?row, ?t)"
    using assms(2,3,4) by (auto simp: CreateUser_def cf_user_def user_conflict_def nullif_empty_def Let_def)
  have taken: "run_state (CreateAccountWithOwner (personal_account ?row name) (u_ID ?row)) ?t = (Inl ErrUnique, ?t)" for name
    using assms(3,5,6) by (auto simp: CreateAccountWithOwner_def insert_account_def personal_account_def cf_user_def)
  have found: "run_state (GetUserByCfSub (cl_CfSub cl)) ?t = (Inr ?row, ?t)"
    using assms(3) none by (simp add: GetUserByCfSub_def matching_def one_row_def cf_user_def)
  have first: "run_alone (handleAuthMe cfg r cl) w = (ApiUser ?row (session_of cfg r ?row (db_now ?s)), w\<lparr>aw_db := ?t\<rparr>)"
    using assms(1,2) missing create taken [of "u_Name ?row"]
    by (simp add: handleAuthMe_def create_with_account_def dbm_def read_clock_def Let_def)
  have second: "run_alone (handleAuthMe cfg r cl) (w\<lparr>aw_db := ?t\<rparr>) = (ApiUser ?row (session_of cfg r ?row (db_now ?s)), w\<lparr>aw_db := ?t\<rparr>)"
    using assms(1,2) found by (simp add: handleAuthMe_def dbm_def read_clock_def Let_def)
  show ?thesis using first second by simp
qed

section \<open>The cache of members\<close>

definition no_jwt :: jwt_lib where
  "no_jwt = \<lparr>jl_header = (\<lambda>_. None), jl_check = (\<lambda>_ _ _ _ _. Inl malformed), jl_sign = (\<lambda>_ _. Inl malformed)\<rparr>"

definition office_config :: access_config where
  "office_config = \<lparr>ac_lib = no_jwt, ac_authMode = ''dev'', ac_auth = None, ac_teamDomain = '''', ac_audTag = '''', ac_firebase = None,
     ac_devUserEmail = ''o@x'', ac_superusers = [], ac_kv = True, ac_cookieDomain = '''', ac_dataPlaneDomain = ''''\<rparr>"

definition office_user :: "int \<Rightarrow> string \<Rightarrow> user" where
  "office_user i email = \<lparr>u_ID = i, u_Email = email, u_Name = email, u_AvatarURL = None, u_AuthProvider = ''cfaccess'', u_AuthProviderID = '''',
     u_CfSub = None, u_IdentityIssuer = None, u_IdentitySubject = None, u_Status = ''active'', u_CreatedAt = 0\<rparr>"

definition office_member :: "int \<Rightarrow> string \<Rightarrow> account_member" where
  "office_member i role = \<lparr>am_AccountID = 10, am_UserID = i, am_Role = role, am_CreatedAt = i\<rparr>"

definition office :: access_world where
  "office = \<lparr>aw_db = empty_db\<lparr>users := [office_user 1 ''o@x'', office_user 2 ''a@x'', office_user 3 ''b@x''],
       accounts := [\<lparr>a_ID = 10, a_Name = ''Acme'', a_Slug = ''acme'', a_CreatedBy = 1, a_CreatedAt = 0\<rparr>],
       account_members := [office_member 1 ''owner'', office_member 2 ''member'', office_member 3 ''member''], db_serial := 20\<rparr>,
     aw_cache = [''acme'' \<mapsto> (10, [1, 2, 3])], aw_kv_faults = [], aw_cf = \<lparr>kc_keys = [], kc_lastFetch = 0\<rparr>,
     aw_fb = \<lparr>kc_keys = [], kc_lastFetch = 0\<rparr>, aw_jwks = []\<rparr>"

definition any_request :: api_request where
  "any_request = \<lparr>rq_Header = (\<lambda>_. ''''), rq_Cookie = (\<lambda>_. None), rq_TLS = True, rq_Body = None\<rparr>"

definition remove_request :: "string \<Rightarrow> api" where
  "remove_request u = serve_api office_config any_request (Authenticated (InAccount ''10'' (RemoveMember u)))"

text \<open>The first removal is overtaken by the second between its two last calls.\<close>

definition overtaken :: "access_world \<times> api list" where
  "overtaken = fold advance_at (replicate 8 0 @ replicate 9 1 @ [0]) (office, [remove_request ''2'', remove_request ''3''])"


lemma advance_call:
  "i < length ps \<Longrightarrow> ps ! i = call m k \<Longrightarrow> advance_at i (s, ps) = (final_state m s, ps[i := k (outcome m s)])"
  by (simp add: call_def)

lemmas office_defs = office_config_def office_def office_user_def office_member_def any_request_def empty_db_def

lemma serve_in_programs: "serve_api cfg r rt \<in> api_programs cfg"
  by (auto simp: api_programs_def)

lemma overtaken_run: "pool_run (api_programs office_config) (office, []) overtaken"
proof -
  have "pool_run (api_programs office_config) (office, []) (office, [] @ [remove_request ''2'', remove_request ''3''])"
    by (rule pool_run_arrive) (simp add: remove_request_def serve_in_programs del: serve_api.simps)
  then have "pool_run (api_programs office_config) (office, []) (office, [remove_request ''2'', remove_request ''3''])" by simp
  from rtranclp_trans [OF this pool_run_schedule] show ?thesis unfolding overtaken_def .
qed

lemma overtaken_state:
  "map reply_of (snd overtaken) = [Some ApiNoContent, Some ApiNoContent]"
  "account_members (aw_db (fst overtaken)) = [office_member 1 ''owner'']"
  "aw_cache (fst overtaken) ''acme'' = Some (10, [1, 3])"
  unfolding overtaken_def remove_request_def
  by code_simp+

text \<open>
  A removed member can stay authorized. After a removal the entry of the account in the cache, by
  which the edge worker lets users through, is written from a list of members that was read earlier. When
  two removals overlap, the list of the first can be written last: both requests have succeeded, the user
  is no member any more, and the cache still lists the user.
\<close>
theorem removed_member_stays_cached:
  "\<exists>v ps. pool_run (api_programs office_config) (office, []) (v, ps) \<and> map reply_of ps = [Some ApiNoContent, Some ApiNoContent] \<and>
     account_members (aw_db v) = [office_member 1 ''owner''] \<and> aw_cache v ''acme'' = Some (10, [1, 3])"
  using overtaken_run overtaken_state by (metis prod.collapse)

section \<open>Samples\<close>

text \<open>Two users of Cloudflare Access whose tokens are their names.\<close>

definition team_lib :: jwt_lib where
  "team_lib = \<lparr>jl_header = (\<lambda>_. Some (MethodRSA, Some ''k'')),
     jl_check = (\<lambda>_ _ _ _ t. Inr (JObj [(''email'', JStr (t @ ''@x'')), (''sub'', JStr (''sub-'' @ t))])), jl_sign = (\<lambda>_ _. Inl malformed)\<rparr>"

definition team_config :: access_config where
  "team_config = office_config\<lparr>ac_lib := team_lib, ac_authMode := ''cfaccess''\<rparr>"

definition team_start :: access_world where
  "team_start = office\<lparr>aw_db := empty_db\<lparr>db_faults := []\<rparr>, aw_cache := Map.empty, aw_cf := \<lparr>kc_keys = [(''k'', SecretKey '''')], kc_lastFetch = 0\<rparr>\<rparr>"

definition request_of :: "string \<Rightarrow> json option \<Rightarrow> api_request" where
  "request_of name body = any_request\<lparr>rq_Header := (\<lambda>h. if h = ''Cf-Access-Jwt-Assertion'' then name else ''''), rq_Body := body\<rparr>"

definition team_requests :: "api list" where
  "team_requests = [serve_api team_config (request_of ''o'' None) (Authenticated AuthMe),
     serve_api team_config (request_of ''a'' None) (Authenticated AuthMe),
     serve_api team_config (request_of ''o'' (Some (JObj [(''email'', JStr ''a@x''), (''role'', JStr ''member'')]))) (Authenticated (InAccount ''2'' CreateInvitationIn)),
     serve_api team_config (request_of ''a'' None) (Authenticated (AcceptAnInvitation ''uuid-0''))]"

definition team :: access_world where
  "team = run_all team_requests team_start"

lemma team_tables:
  "map (\<lambda>a. (a_ID a, a_CreatedBy a)) (accounts (aw_db team)) = [(2, 1), (4, 3)]"
  "map (\<lambda>m. (am_AccountID m, am_UserID m, am_Role m)) (account_members (aw_db team)) =
     [(2, 1, ''owner''), (4, 3, ''owner''), (2, 3, ''member'')]"
  unfolding team_def team_requests_def by code_simp+

lemma team_run: "\<exists>qs. pool_run (api_programs team_config) (team_start, []) (team, qs)"
  unfolding team_def
  by (rule pool_run_all) (simp add: team_requests_def serve_in_programs del: serve_api.simps)

theorem owner_is_permanent_witness:
  "am_UserID ` {m \<in> set (account_members (aw_db team)). am_AccountID m = 2 \<and> am_Role m = ''owner''} = {1}"
proof -
  obtain qs where run: "pool_run (api_programs team_config) (team_start, []) (team, qs)" using team_run by blast
  have "\<exists>a \<in> set (accounts (aw_db team)). a_ID a = 2 \<and> a_CreatedBy a = 1" using team_tables(1) by auto
  then obtain a where a: "a \<in> set (accounts (aw_db team))" "a_ID a = 2" "a_CreatedBy a = 1" by blast
  have start: "aw_db team_start = empty_db\<lparr>db_faults := []\<rparr>" by (simp add: team_start_def)
  show ?thesis using conjunct2 [OF owner_is_permanent [OF start run rtranclp.rtrancl_refl a(1)]] a(2,3) by simp
qed

theorem members_were_invited_witness:
  "\<exists>i \<in> set (account_invitations (aw_db team)). iv_AccountID i = 2 \<and> iv_AcceptedBy i = Some 3 \<and> iv_Status i = ''accepted''"
proof -
  obtain qs where run: "pool_run (api_programs team_config) (team_start, []) (team, qs)" using team_run by blast
  have start: "aw_db team_start = empty_db\<lparr>db_faults := []\<rparr>" by (simp add: team_start_def)
  have "\<exists>m \<in> set (account_members (aw_db team)). am_AccountID m = 2 \<and> am_UserID m = 3 \<and> am_Role m = ''member''"
    using team_tables(2) by auto
  then obtain m where "m \<in> set (account_members (aw_db team))" "am_AccountID m = 2" "am_UserID m = 3" "am_Role m = ''member''" by blast
  with conjunct1 [OF members_were_invited [OF start run rtranclp.rtrancl_refl]] show ?thesis by fastforce
qed

text \<open>A session of user 7, who is no member of the account.\<close>

definition session_config :: access_config where
  "session_config = office_config\<lparr>ac_authMode := ''firebase'', ac_auth := Some ''secret'',
     ac_lib := \<lparr>jl_header = (\<lambda>_. Some (MethodHMAC, None)),
       jl_check = (\<lambda>_ _ _ _ _. Inr (JObj [(''user_id'', JNum 7), (''email'', JStr ''z@x'')])), jl_sign = (\<lambda>_ _. Inl malformed)\<rparr>\<rparr>"

definition session_request :: api_request where
  "session_request = any_request\<lparr>rq_Header := (\<lambda>h. if h = ''Authorization'' then ''Bearer t'' else '''')\<rparr>"





definition plugin_lib :: jwt_lib where
  "plugin_lib = \<lparr>jl_header = (\<lambda>_. Some (MethodHMAC, None)), jl_check = (\<lambda>_ _ _ _ _. Inr (composio_payload ''m1'' (3600 * second) 0)),
     jl_sign = (\<lambda>k p. if p = composio_payload ''m1'' (3600 * second) 0 then Inr ''t'' else Inl malformed)\<rparr>"

theorem plugin_token_authenticates_witness:
  "outcome (authenticate (session_config\<lparr>ac_lib := plugin_lib\<rparr>) session_request) office = Some \<lparr>cl_UserID = 0, cl_Email = '''', cl_AccountID = 0, cl_CfSub = ''''\<rparr>"
proof (rule plugin_token_authenticates)
  show "accepts_own (ac_lib (session_config\<lparr>ac_lib := plugin_lib\<rparr>)) ''secret''"
    by (auto simp: accepts_own_def plugin_lib_def split: if_splits)
  show "IssueComposioProxyToken (ac_lib (session_config\<lparr>ac_lib := plugin_lib\<rparr>)) (Some ''secret'') ''m1'' (3600 * second) 0 = Inr ''t''"
    by (simp add: IssueComposioProxyToken_def plugin_lib_def)
qed (simp_all add: session_config_def session_request_def office_def empty_db_def)

text \<open>User 2 has registered the slug of the next user.\<close>

definition squatted :: access_world where
  "squatted = office\<lparr>aw_db := (aw_db office)\<lparr>accounts := [\<lparr>a_ID = 11, a_Name = ''mine'', a_Slug = ''user-20'', a_CreatedBy = 2, a_CreatedAt = 0\<rparr>]\<rparr>\<rparr>"

theorem squatted_slug_blocks_account_witness:
  "\<exists>u c v. run_alone (handleAuthMe office_config any_request \<lparr>cl_UserID = 0, cl_Email = ''n@x'', cl_AccountID = 0, cl_CfSub = ''s''\<rparr>) squatted =
     (ApiUser u c, v) \<and> u_ID u = 20 \<and> accounts (aw_db v) = accounts (aw_db squatted)"
proof -
  have "show_int 20 = ''20''" by code_simp
  then show ?thesis
    using squatted_slug_blocks_account [where w = squatted and cl = "\<lparr>cl_UserID = 0, cl_Email = ''n@x'', cl_AccountID = 0, cl_CfSub = ''s''\<rparr>"
        and cfg = office_config and r = any_request and a = "\<lparr>a_ID = 11, a_Name = ''mine'', a_Slug = ''user-20'', a_CreatedBy = 2, a_CreatedAt = 0\<rparr>"]
    by (simp add: squatted_def office_def office_user_def empty_db_def) blast
qed

end
