(* ===== verification/Self_Update.thy ===== *)
theory Self_Update
  imports Artifact Net
begin

text \<open>
  \<open>internal/selfupdate\<close>: how the agent of a host replaces its own binary. The manifest and the binary come from
  an object store; the hash function, what a binary reports when it is asked for its version, and the
  outcome of system calls are arguments. A file is its content.
\<close>

section \<open>The manifest (manifest.go)\<close>

record agent_manifest =
  gm_Version :: string
  gm_SHA256 :: string
  gm_SizeBytes :: int
  gm_URL :: string
  gm_BuiltAt :: time
  gm_OpenClawVersion :: string

text \<open>A time in a document is a text in RFC 3339, which an argument reads.\<close>

fun decode_time :: "(string \<Rightarrow> time option) \<Rightarrow> time decoder" where
  "decode_time rfc3339 old (JStr s) = (case rfc3339 s of Some t \<Rightarrow> (t, False) | None \<Rightarrow> (old, True))"
| "decode_time rfc3339 old JNull = (old, False)"
| "decode_time rfc3339 old _ = (old, True)"

abbreviation no_manifest :: agent_manifest where
  "no_manifest \<equiv> \<lparr>gm_Version = '''', gm_SHA256 = '''', gm_SizeBytes = 0, gm_URL = '''', gm_BuiltAt = - 62135596800 * second, gm_OpenClawVersion = ''''\<rparr>"

definition decode_manifest :: "(string \<Rightarrow> time option) \<Rightarrow> json option \<Rightarrow> agent_manifest result" where
  "decode_manifest rfc3339 doc = (case doc of
      Some (JObj kvs) \<Rightarrow>
        (let (v, b1) = decode_field decode_string ''version'' '''' kvs;
             (h, b2) = decode_field decode_string ''sha256'' '''' kvs;
             (n, b3) = decode_field decode_int ''size_bytes'' 0 kvs;
             (u, b4) = decode_field decode_string ''url'' '''' kvs;
             (t, b5) = decode_field (decode_time rfc3339) ''built_at'' (gm_BuiltAt no_manifest) kvs;
             (c, b6) = decode_field decode_string ''openclaw_version'' '''' kvs
         in if b1 \<or> b2 \<or> b3 \<or> b4 \<or> b5 \<or> b6 then Inl json_error
            else Inr \<lparr>gm_Version = v, gm_SHA256 = h, gm_SizeBytes = n, gm_URL = u, gm_BuiltAt = t, gm_OpenClawVersion = c\<rparr>)
    | Some JNull \<Rightarrow> Inr no_manifest
    | _ \<Rightarrow> Inl json_error)"

definition validateSHA256 :: "string \<Rightarrow> unit result" where
  "validateSHA256 s = (if length s \<noteq> 64 then Inl (ErrText (''expected 64 hex chars, got '' @ show_nat (length s)))
     else if \<not> list_all is_hex s then Inl (wrap ''not valid hex'' (ErrText ''encoding/hex: invalid byte'')) else Inr ())"

text \<open>The two environment variables.\<close>

definition trustedArtifactBuckets :: "string \<Rightarrow> string \<Rightarrow> string list" where
  "trustedArtifactBuckets ocm plain = filter (\<lambda>b. b \<noteq> '''') (map trim_space (split_on (CHR '','') (if ocm = '''' then plain else ocm)))"

definition validateTrustedURL :: "string list \<Rightarrow> string \<Rightarrow> unit result" where
  "validateTrustedURL trusted url =
     (if \<not> has_prefix url ''gs://'' then Inl (ErrText (''manifest url must be a gs:// URI: '' @ url))
      else (case ParseGCSURI url of
          Inl e \<Rightarrow> Inl (wrap ''manifest url invalid'' e)
        | Inr (bucket, _) \<Rightarrow>
            if trusted = [] then Inl (ErrText ''no trusted artifact buckets configured'')
            else if bucket \<in> set trusted then Inr ()
            else Inl (ErrText (''manifest url points to untrusted bucket '' @ quoted bucket))))"

definition ParseManifest :: "(string \<Rightarrow> time option) \<Rightarrow> string list \<Rightarrow> json option \<Rightarrow> agent_manifest result" where
  "ParseManifest rfc3339 trusted doc = (case decode_manifest rfc3339 doc of
      Inl e \<Rightarrow> Inl (wrap ''decode manifest'' e)
    | Inr m \<Rightarrow>
        if gm_Version m = '''' then Inl (ErrText ''manifest missing required field: version'')
        else if gm_SHA256 m = '''' then Inl (ErrText ''manifest missing required field: sha256'')
        else (case validateSHA256 (gm_SHA256 m) of
            Inl e \<Rightarrow> Inl (wrap ''manifest has invalid sha256'' e)
          | Inr _ \<Rightarrow>
              if gm_URL m = '''' then Inl (ErrText ''manifest missing required field: url'')
              else (case validateTrustedURL trusted (gm_URL m) of Inl e \<Rightarrow> Inl e | Inr _ \<Rightarrow> Inr m)))"

text \<open>The objects of the store: a document by bucket and name, or an error.\<close>

definition FetchManifest :: "(string \<Rightarrow> time option) \<Rightarrow> string list \<Rightarrow> (string \<times> string \<Rightarrow> json option result) \<Rightarrow> string \<Rightarrow> agent_manifest result" where
  "FetchManifest rfc3339 trusted documents uri = (case ParseGCSURI uri of
      Inl e \<Rightarrow> Inl e
    | Inr at \<Rightarrow> (case documents at of
        Inl e \<Rightarrow> Inl (wrap ''open manifest object'' e) | Inr doc \<Rightarrow> ParseManifest rfc3339 trusted doc))"

section \<open>The updater (updater.go)\<close>

text \<open>\<open>ul_reports\<close> is the output of a binary for \<open>--version\<close>, or the error of running it.\<close>

record update_lib =
  ul_rfc3339 :: "string \<Rightarrow> time option"
  ul_sha256 :: "string \<Rightarrow> string"
  ul_reports :: "string \<Rightarrow> string result"

datatype rename_outcome = Renamed | CrossDevice | RenameFails go_error

text \<open>
  \<open>ui_body\<close> is the content of an object with the error that ends it, if there is one; the other fields are
  errors of system calls.
\<close>

record update_io =
  ui_documents :: "string \<times> string \<Rightarrow> json option result"
  ui_open :: "string \<times> string \<Rightarrow> go_error option"
  ui_body :: "string \<times> string \<Rightarrow> string \<times> go_error option"
  ui_create :: "go_error option"
  ui_write :: "go_error option"
  ui_close :: "go_error option"
  ui_rename :: rename_outcome
  ui_copy_open :: "go_error option"
  ui_copy_create :: "go_error option"
  ui_copy :: "go_error option"
  ui_copy_close :: "go_error option"
  ui_copy_rename :: "go_error option"
  ui_hash :: "string \<Rightarrow> go_error option"
  ui_restart :: "go_error option"

record update_config =
  uc_manifestURI :: string
  uc_trusted :: "string list"
  uc_installed :: string

record agent_host =
  ah_files :: "string \<rightharpoonup> string"
  ah_running :: string
  ah_restarts :: nat

definition sanitize_char :: "char \<Rightarrow> char" where
  "sanitize_char c = (let n = (of_char c :: nat) in
     if is_digit c \<or> (65 \<le> n \<and> n \<le> 90) \<or> (97 \<le> n \<and> n \<le> 122) \<or> c \<in> set ''._-'' then c else CHR ''_'')"

text \<open>Characters outside ASCII count as one in the source and as their bytes here.\<close>

definition sanitizeVersion :: "string \<Rightarrow> string" where
  "sanitizeVersion v = (let s = take 64 (map sanitize_char v) in Base (if s = '''' then ''unknown'' else s))"

function fields_of :: "string \<Rightarrow> string list" where
  "fields_of s = (case dropWhile is_space s of
      [] \<Rightarrow> []
    | c # cs \<Rightarrow> (c # takeWhile (\<lambda>x. \<not> is_space x) cs) # fields_of (dropWhile (\<lambda>x. \<not> is_space x) cs))"
  by pat_completeness auto

termination fields_of
proof (relation "measure length")
  fix s c cs
  assume "dropWhile is_space s = c # cs"
  then have "length (c # cs) \<le> length s" by (metis length_dropWhile_le)
  then show "(dropWhile (\<lambda>x. \<not> is_space x) cs, s) \<in> measure length"
    using length_dropWhile_le [of "\<lambda>x. \<not> is_space x" cs] by simp
qed simp

declare fields_of.simps [simp del]

lemma fields_of_code [simp]:
  "fields_of [] = []"
  "is_space c \<Longrightarrow> fields_of (c # cs) = fields_of cs"
  "\<not> is_space c \<Longrightarrow> fields_of (c # cs) = (c # takeWhile (\<lambda>x. \<not> is_space x) cs) # fields_of (dropWhile (\<lambda>x. \<not> is_space x) cs)"
  using fields_of.simps [of "[]"] fields_of.simps [of "c # cs"] fields_of.simps [of cs] by simp_all

definition verifyBinaryVersionImpl :: "update_lib \<Rightarrow> string \<Rightarrow> string \<Rightarrow> string \<Rightarrow> unit result" where
  "verifyBinaryVersionImpl lib binaryPath binary expectedVersion = (case ul_reports lib binary of
      Inl e \<Rightarrow> Inl (wrap (''exec '' @ binaryPath @ '' --version'') e)
    | Inr out \<Rightarrow> (case fields_of out of
        _ # reported # _ \<Rightarrow>
          if reported \<noteq> expectedVersion
          then Inl (ErrText (''binary reports version '' @ quoted reported @ '', manifest expects '' @ quoted expectedVersion)) else Inr ()
      | _ \<Rightarrow> Inl (ErrText (''unexpected --version output: '' @ out))))"

definition hashFile :: "update_lib \<Rightarrow> update_io \<Rightarrow> (string \<rightharpoonup> string) \<Rightarrow> string \<Rightarrow> string result" where
  "hashFile lib io files path = (case files path of
      None \<Rightarrow> Inl (ErrRemote ''no such file or directory'')
    | Some content \<Rightarrow> (case ui_hash io path of Some e \<Rightarrow> Inl e | None \<Rightarrow> Inr (ul_sha256 lib content)))"

text \<open>The new files, and the error.\<close>

definition atomicReplace :: "update_io \<Rightarrow> string \<Rightarrow> string \<Rightarrow> (string \<rightharpoonup> string) \<Rightarrow> unit result \<times> (string \<rightharpoonup> string)" where
  "atomicReplace io src dst files = (case ui_rename io of
      Renamed \<Rightarrow> (Inr (), files(dst := files src, src := None))
    | RenameFails e \<Rightarrow> (Inl e, files)
    | CrossDevice \<Rightarrow> (let tmpDst = dst @ ''.new'' in
        case ui_copy_open io of
          Some e \<Rightarrow> (Inl (wrap ''open source for copy'' e), files)
        | None \<Rightarrow> (case ui_copy_create io of
            Some e \<Rightarrow> (Inl (wrap ''create copy target'' e), files)
          | None \<Rightarrow> (case ui_copy io of
              Some e \<Rightarrow> (Inl (wrap ''copy binary'' e), files(tmpDst := None))
            | None \<Rightarrow> (case ui_copy_close io of
                Some e \<Rightarrow> (Inl (wrap ''close copy target'' e), files(tmpDst := None))
              | None \<Rightarrow> (case ui_copy_rename io of
                  Some e \<Rightarrow> (Inl (wrap ''rename copy'' e), files(tmpDst := None))
                | None \<Rightarrow> (Inr (), files(tmpDst := None, dst := files src, src := None))))))))"

abbreviation maxDownloadSize :: int where
  "maxDownloadSize \<equiv> 268435456"

definition download_limit :: "agent_manifest \<Rightarrow> nat" where
  "download_limit m = nat (if 0 < gm_SizeBytes m \<and> gm_SizeBytes m < maxDownloadSize then gm_SizeBytes m + 1048576 else maxDownloadSize)"

definition temp_path :: "update_config \<Rightarrow> agent_manifest \<Rightarrow> string" where
  "temp_path cfg m = uc_installed cfg @ ''-'' @ sanitizeVersion (gm_Version m) @ ''.tmp''"

text \<open>
  The reader stops at the limit, so an error that comes later is not seen. The temporary file is
  removed in any case (the removal is taken to succeed); after a rename it is gone already.
\<close>

definition downloadVerifyAndInstall :: "update_lib \<Rightarrow> update_io \<Rightarrow> update_config \<Rightarrow> agent_manifest \<Rightarrow> agent_host \<Rightarrow> unit result \<times> agent_host" where
  "downloadVerifyAndInstall lib io cfg m h = (case ParseGCSURI (gm_URL m) of
      Inl e \<Rightarrow> (Inl (wrap ''open agent object'' e), h)
    | Inr at \<Rightarrow> (case ui_open io at of
        Some e \<Rightarrow> (Inl (wrap ''open agent object'' e), h)
      | None \<Rightarrow> (case ui_create io of
          Some e \<Rightarrow> (Inl (wrap ''create temp file'' e), h)
        | None \<Rightarrow>
            (let tmp = temp_path cfg m;
                 cleaned = h\<lparr>ah_files := (ah_files h)(tmp := None)\<rparr>;
                 content = take (download_limit m) (fst (ui_body io at));
                 readErr = (if length (fst (ui_body io at)) < download_limit m then snd (ui_body io at) else None)
             in case (case ui_write io of Some e \<Rightarrow> Some e | None \<Rightarrow> readErr) of
                  Some e \<Rightarrow> (Inl (wrap ''download agent binary'' e), cleaned)
                | None \<Rightarrow> (case ui_close io of
                    Some e \<Rightarrow> (Inl (wrap ''close temp file'' e), cleaned)
                  | None \<Rightarrow>
                      if ul_sha256 lib content \<noteq> gm_SHA256 m
                      then (Inl (ErrText (''SHA256 mismatch: got '' @ ul_sha256 lib content @ '', want '' @ gm_SHA256 m)), cleaned)
                      else (case verifyBinaryVersionImpl lib tmp content (gm_Version m) of
                          Inl e \<Rightarrow> (Inl (wrap ''pre-install verification failed'' e), cleaned)
                        | Inr _ \<Rightarrow> (case atomicReplace io tmp (uc_installed cfg) ((ah_files h)(tmp \<mapsto> content)) of
                            (Inl e, fs) \<Rightarrow> (Inl (wrap ''replace binary'' e), h\<lparr>ah_files := fs(tmp := None)\<rparr>)
                          | (Inr _, fs) \<Rightarrow> (Inr (), h\<lparr>ah_files := fs(tmp := None)\<rparr>))))))))"

definition restartAgent :: "update_io \<Rightarrow> agent_host \<Rightarrow> (bool \<times> go_error option) \<times> agent_host" where
  "restartAgent io h = (case ui_restart io of
      Some e \<Rightarrow> ((True, Some (wrap ''restart agent'' e)), h)
    | None \<Rightarrow> ((True, None), h\<lparr>ah_restarts := ah_restarts h + 1\<rparr>))"

text \<open>Whether an update was applied, the error, and the host.\<close>

definition CheckAndUpdate :: "update_lib \<Rightarrow> update_io \<Rightarrow> update_config \<Rightarrow> agent_host \<Rightarrow> (bool \<times> go_error option) \<times> agent_host" where
  "CheckAndUpdate lib io cfg h =
     (case FetchManifest (ul_rfc3339 lib) (uc_trusted cfg) (ui_documents io) (uc_manifestURI cfg) of
        Inl e \<Rightarrow> ((False, Some (wrap ''fetch manifest'' e)), h)
      | Inr m \<Rightarrow>
          (let runningMatches = (ul_sha256 lib (ah_running h) = gm_SHA256 m \<and> ui_hash io ''/proc/self/exe'' = None);
               installedMatches = (hashFile lib io (ah_files h) (uc_installed cfg) = Inr (gm_SHA256 m))
           in if runningMatches \<and> installedMatches then ((False, None), h)
              else if runningMatches then
                (case downloadVerifyAndInstall lib io cfg m h of
                   (Inl e, h1) \<Rightarrow> ((False, Some (wrap ''repair installed binary'' e)), h1)
                 | (Inr _, h1) \<Rightarrow> ((False, None), h1))
              else if installedMatches then
                (case verifyBinaryVersionImpl lib (uc_installed cfg) (the (ah_files h (uc_installed cfg))) (gm_Version m) of
                   Inl e \<Rightarrow> ((False, Some (wrap ''installed binary verification failed'' e)), h)
                 | Inr _ \<Rightarrow> restartAgent io h)
              else
                (case downloadVerifyAndInstall lib io cfg m h of
                   (Inl e, h1) \<Rightarrow> ((False, Some (wrap ''download and install'' e)), h1)
                 | (Inr _, h1) \<Rightarrow> restartAgent io h1)))"

end
