(* ===== verification/Self_Update_Properties.thy ===== *)
theory Self_Update_Properties
  imports Self_Update
begin

text \<open>What the self-update of the host agent installs, and when it is done.\<close>

section \<open>Manifests\<close>

lemma ParseManifest_checked:
  assumes "ParseManifest rfc3339 trusted doc = Inr m"
  shows "gm_Version m \<noteq> ''''" "length (gm_SHA256 m) = 64" "list_all is_hex (gm_SHA256 m)"
    "\<exists>bucket object. ParseGCSURI (gm_URL m) = Inr (bucket, object) \<and> bucket \<in> set trusted"
  using assms by (auto simp: ParseManifest_def validateSHA256_def validateTrustedURL_def split: sum.splits if_splits)

lemma FetchManifest_checked:
  assumes "FetchManifest rfc3339 trusted documents uri = Inr m"
  shows "\<exists>doc. ParseManifest rfc3339 trusted doc = Inr m"
  using assms by (auto simp: FetchManifest_def split: sum.splits)

lemmas manifest_checked = FetchManifest_checked [THEN exE, OF _ ParseManifest_checked(4)]

section \<open>Installing\<close>

text \<open>The files an installation works on; no two of them are the same.\<close>

definition new_path :: "update_config \<Rightarrow> string" where
  "new_path cfg = uc_installed cfg @ ''.new''"

lemma work_paths [simp]: "temp_path cfg m \<noteq> uc_installed cfg" "uc_installed cfg \<noteq> temp_path cfg m"
  "new_path cfg \<noteq> uc_installed cfg" "uc_installed cfg \<noteq> new_path cfg" "temp_path cfg m \<noteq> new_path cfg" "new_path cfg \<noteq> temp_path cfg m"
  by (auto simp: temp_path_def new_path_def)

text \<open>A binary is approved by a manifest: its hash and the version it reports are those of the manifest.\<close>

definition reports_version :: "update_lib \<Rightarrow> string \<Rightarrow> string \<Rightarrow> bool" where
  "reports_version lib binary v = (\<exists>out rest name. ul_reports lib binary = Inr out \<and> fields_of out = name # v # rest)"

definition approved :: "update_lib \<Rightarrow> agent_manifest \<Rightarrow> string \<Rightarrow> bool" where
  "approved lib m binary = (ul_sha256 lib binary = gm_SHA256 m \<and> reports_version lib binary (gm_Version m))"

lemma verifyBinaryVersion_ok: "\<not> isl (verifyBinaryVersionImpl lib path binary v) \<Longrightarrow> reports_version lib binary v"
  by (auto simp: verifyBinaryVersionImpl_def reports_version_def split: sum.splits list.splits if_splits)

lemma atomicReplace_cases:
  assumes "atomicReplace io (temp_path cfg m) (uc_installed cfg) files = (r, fs)"
  shows "fs (uc_installed cfg) = (if isl r then files (uc_installed cfg) else files (temp_path cfg m))"
    "fs (new_path cfg) \<in> {None, files (new_path cfg)}"
    "f \<notin> {uc_installed cfg, temp_path cfg m, new_path cfg} \<Longrightarrow> fs f = files f"
  using assms by (auto simp: atomicReplace_def Let_def new_path_def [symmetric] split: rename_outcome.splits option.splits)

text \<open>What an installation leaves: the restart counter and the running image as they were, and every other file too.\<close>

definition only_works_on :: "update_config \<Rightarrow> agent_manifest \<Rightarrow> agent_host \<Rightarrow> agent_host \<Rightarrow> bool" where
  "only_works_on cfg m h h' = (ah_running h' = ah_running h \<and>
     (\<forall>f. f \<noteq> uc_installed cfg \<longrightarrow> ah_files h' f = ah_files h f \<or> f \<in> {temp_path cfg m, new_path cfg} \<and> ah_files h' f = None))"

lemma only_works_on_other:
  assumes "only_works_on cfg m h h'" "f \<noteq> uc_installed cfg" "f \<noteq> temp_path cfg m" "f \<noteq> new_path cfg"
  shows "ah_files h' f = ah_files h f"
  using assms by (auto simp: only_works_on_def)

abbreviation downloaded :: "update_io \<Rightarrow> agent_manifest \<Rightarrow> string \<times> string \<Rightarrow> string" where
  "downloaded io m at \<equiv> take (download_limit m) (fst (ui_body io at))"

text \<open>Either nothing but the temporary file was touched, or an approved binary came to the replacement.\<close>

lemma install_split:
  assumes "downloadVerifyAndInstall lib io cfg m h = (r, h')"
  obtains "isl r" "h' = h" | "isl r" "h' = h\<lparr>ah_files := (ah_files h)(temp_path cfg m := None)\<rparr>"
  | at r' fs where "ParseGCSURI (gm_URL m) = Inr at" "approved lib m (downloaded io m at)"
      "atomicReplace io (temp_path cfg m) (uc_installed cfg) ((ah_files h)(temp_path cfg m \<mapsto> downloaded io m at)) = (r', fs)"
      "isl r = isl r'" "h' = h\<lparr>ah_files := fs(temp_path cfg m := None)\<rparr>"
proof (cases "ParseGCSURI (gm_URL m)")
  case (Inr at)
  note download = assms [unfolded downloadVerifyAndInstall_def Let_def Inr, simplified]
  show ?thesis
  proof (cases "atomicReplace io (temp_path cfg m) (uc_installed cfg) ((ah_files h)(temp_path cfg m \<mapsto> downloaded io m at))")
    case (Pair r' fs)
    consider "isl r \<and> h' = h" | "isl r \<and> h' = h\<lparr>ah_files := (ah_files h)(temp_path cfg m := None)\<rparr>"
      | "ul_sha256 lib (downloaded io m at) = gm_SHA256 m"
        "\<not> isl (verifyBinaryVersionImpl lib (temp_path cfg m) (downloaded io m at) (gm_Version m))"
        "isl r = isl r'" "h' = h\<lparr>ah_files := fs(temp_path cfg m := None)\<rparr>"
      using download unfolding Pair by (auto split: sum.split_asm option.split_asm if_split_asm) (metis sum.disc(2))+
    then show ?thesis
    proof cases
      case 3
      then show ?thesis using that(3) [OF Inr _ Pair] by (simp add: approved_def verifyBinaryVersion_ok)
    qed (use that in auto)
  qed
qed (use assms that(1) in \<open>auto simp: downloadVerifyAndInstall_def\<close>)

lemma install_cases:
  assumes "downloadVerifyAndInstall lib io cfg m h = (r, h')"
  shows "only_works_on cfg m h h' \<and> ah_restarts h' = ah_restarts h \<and>
    (if isl r then ah_files h' (uc_installed cfg) = ah_files h (uc_installed cfg)
     else \<exists>at. ParseGCSURI (gm_URL m) = Inr at \<and> ah_files h' (uc_installed cfg) = Some (downloaded io m at) \<and>
       approved lib m (downloaded io m at))"
  using assms
proof (cases rule: install_split)
  case (3 at r' fs)
  from atomicReplace_cases [OF 3(3)] 3 show ?thesis by (auto simp: only_works_on_def)
qed (simp_all add: only_works_on_def)

lemma hashFile_ok: "hashFile lib io files path = Inr d \<Longrightarrow> \<exists>content. files path = Some content \<and> ul_sha256 lib content = d"
  by (auto simp: hashFile_def split: option.splits)

section \<open>The check\<close>

abbreviation running_is :: "update_lib \<Rightarrow> update_io \<Rightarrow> agent_manifest \<Rightarrow> agent_host \<Rightarrow> bool" where
  "running_is lib io m h \<equiv> ul_sha256 lib (ah_running h) = gm_SHA256 m \<and> ui_hash io ''/proc/self/exe'' = None"

text \<open>
  The ways a check can end once the manifest is read: nothing new is installed and nothing restarted,
  the installed binary was repaired, or there is an approved installed binary and a restart was tried.
\<close>

lemma check_split:
  assumes "CheckAndUpdate lib io cfg h = ((applied, err), h')"
    and "FetchManifest (ul_rfc3339 lib) (uc_trusted cfg) (ui_documents io) (uc_manifestURI cfg) = Inr m"
  obtains "\<not> applied" "err = None" "h' = h" "running_is lib io m h" "hashFile lib io (ah_files h) (uc_installed cfg) = Inr (gm_SHA256 m)"
  | "\<not> applied" "err \<noteq> None" "h' = h"
  | r where "\<not> applied" "downloadVerifyAndInstall lib io cfg m h = (r, h')" "isl r = (err \<noteq> None)" "isl r \<or> running_is lib io m h"
  | hi where "applied" "\<not> running_is lib io m h" "(err = None \<and> h' = hi\<lparr>ah_restarts := ah_restarts hi + 1\<rparr>) \<or> (err \<noteq> None \<and> h' = hi)"
      "hi = h \<and> (\<exists>binary. ah_files h (uc_installed cfg) = Some binary \<and> approved lib m binary) \<or> downloadVerifyAndInstall lib io cfg m h = (Inr (), hi)"
proof -
  obtain r hi where install: "downloadVerifyAndInstall lib io cfg m h = (r, hi)" by fastforce
  note check = assms(1) [unfolded CheckAndUpdate_def assms(2) install Let_def restartAgent_def, simplified]
  show ?thesis
  proof (cases "running_is lib io m h")
    case True
    then show ?thesis using check that(1) that(3) [of r]
      by (auto split: if_split_asm sum.split_asm simp: install)
  next
    case stale: False
    show ?thesis
    proof (cases "hashFile lib io (ah_files h) (uc_installed cfg) = Inr (gm_SHA256 m)")
      case True
      from hashFile_ok [OF this] obtain binary where b: "ah_files h (uc_installed cfg) = Some binary" "ul_sha256 lib binary = gm_SHA256 m" by blast
      show ?thesis
      proof (cases "verifyBinaryVersionImpl lib (uc_installed cfg) binary (gm_Version m)")
        case (Inr u)
        then have "approved lib m binary" using b(2) verifyBinaryVersion_ok [of lib "uc_installed cfg" binary] by (simp add: approved_def)
        then show ?thesis using check that(4) [of h] stale True b Inr by (auto split: option.split_asm)
      qed (use check stale True b that(2) in auto)
    next
      case False
      then show ?thesis using check stale that(3) [of r] that(4) [of hi] install
        by (cases r) (auto split: option.split_asm)
    qed
  qed
qed

text \<open>
  C39: what an update installs. A check leaves every file but the installed binary as it was, apart from
  its two work files, which it removes. The installed binary stays unless a manifest was read whose hash
  is well formed, whose address lies in a trusted bucket, and whose hash and version are those of the
  object there; then it is that object. The agent is restarted, at most once, only if the installed binary is approved
  by such a manifest and the running one does not have its hash. A check that reports an error has
  left the installed binary alone, unless only the restart failed.
\<close>
theorem self_update_safe:
  assumes "CheckAndUpdate lib io cfg h = ((applied, err), h')"
  shows "h' = h \<and> \<not> applied \<or>
    (\<exists>m bucket object.
       FetchManifest (ul_rfc3339 lib) (uc_trusted cfg) (ui_documents io) (uc_manifestURI cfg) = Inr m \<and>
       list_all is_hex (gm_SHA256 m) \<and> length (gm_SHA256 m) = 64 \<and>
       ParseGCSURI (gm_URL m) = Inr (bucket, object) \<and> bucket \<in> set (uc_trusted cfg) \<and>
       only_works_on cfg m h h' \<and>
       (ah_files h' (uc_installed cfg) = ah_files h (uc_installed cfg) \<or>
        ah_files h' (uc_installed cfg) = Some (downloaded io m (bucket, object)) \<and> approved lib m (downloaded io m (bucket, object))) \<and>
       ah_restarts h' = ah_restarts h + (if applied \<and> err = None then 1 else 0) \<and>
       (if applied then (\<exists>binary. ah_files h' (uc_installed cfg) = Some binary \<and> approved lib m binary) \<and>
            (ul_sha256 lib (ah_running h) \<noteq> gm_SHA256 m \<or> ui_hash io ''/proc/self/exe'' \<noteq> None)
        else err = None \<or> ah_files h' (uc_installed cfg) = ah_files h (uc_installed cfg)))"
proof (cases "FetchManifest (ul_rfc3339 lib) (uc_trusted cfg) (ui_documents io) (uc_manifestURI cfg)")
  case (Inr m)
  obtain bucket object where at: "ParseGCSURI (gm_URL m) = Inr (bucket, object)" "bucket \<in> set (uc_trusted cfg)"
    and sha: "list_all is_hex (gm_SHA256 m)" "length (gm_SHA256 m) = 64"
    using FetchManifest_checked [OF Inr] ParseManifest_checked by blast
  let ?installed = "\<lambda>k. ah_files k (uc_installed cfg)"
  have "h' = h \<and> \<not> applied \<or> only_works_on cfg m h h' \<and>
      (?installed h' = ?installed h \<or> ?installed h' = Some (downloaded io m (bucket, object)) \<and> approved lib m (downloaded io m (bucket, object))) \<and>
      ah_restarts h' = ah_restarts h + (if applied \<and> err = None then 1 else 0) \<and>
      (if applied then (\<exists>binary. ?installed h' = Some binary \<and> approved lib m binary) \<and> \<not> running_is lib io m h
       else err = None \<or> ?installed h' = ?installed h)"
    using assms Inr
  proof (cases rule: check_split)
    case (3 r)
    then show ?thesis using install_cases [OF 3(2)] at(1) by (auto split: if_split_asm)
  next
    case (4 hi)
    have "only_works_on cfg m h hi \<and> ah_restarts hi = ah_restarts h \<and> (\<exists>binary. ?installed hi = Some binary \<and> approved lib m binary \<and>
        (?installed hi = ?installed h \<or> binary = downloaded io m (bucket, object)))"
      using 4(4) install_cases [of lib io cfg m h "Inr ()" hi] at(1) by (auto simp: only_works_on_def)
    then show ?thesis using 4(1-3) by (auto simp: only_works_on_def)
  qed simp_all
  then show ?thesis using Inr at sha by auto
qed (use assms in \<open>simp add: CheckAndUpdate_def\<close>)

text \<open>A check without error leaves the binary of the manifest installed, and is idempotent from then on.\<close>

lemma check_current:
  assumes "CheckAndUpdate lib io cfg h = ((applied, None), h')" "ui_hash io = (\<lambda>_. None)"
    and "FetchManifest (ul_rfc3339 lib) (uc_trusted cfg) (ui_documents io) (uc_manifestURI cfg) = Inr m"
  shows "(\<exists>binary. ah_files h' (uc_installed cfg) = Some binary \<and> ul_sha256 lib binary = gm_SHA256 m) \<and>
    applied = (ul_sha256 lib (ah_running h) \<noteq> gm_SHA256 m)"
  using assms(1,3)
proof (cases rule: check_split)
  case 1
  then show ?thesis using hashFile_ok [OF 1(5)] by blast
next
  case (3 r)
  then show ?thesis using install_cases [OF 3(2)] by (auto simp: approved_def)
next
  case (4 hi)
  then have "\<exists>binary. ah_files hi (uc_installed cfg) = Some binary \<and> approved lib m binary"
    using install_cases [of lib io cfg m h "Inr ()" hi] by auto
  then show ?thesis using 4(1-3) assms(2) by (auto simp: approved_def)
qed simp_all

lemma current_skips:
  assumes "FetchManifest (ul_rfc3339 lib) (uc_trusted cfg) (ui_documents io) (uc_manifestURI cfg) = Inr m" "ui_hash io = (\<lambda>_. None)"
    "ah_files h (uc_installed cfg) = Some binary" "ul_sha256 lib binary = gm_SHA256 m" "ul_sha256 lib (ah_running h) = gm_SHA256 m"
  shows "CheckAndUpdate lib io cfg h = ((False, None), h)"
  using assms by (simp add: CheckAndUpdate_def hashFile_def)

text \<open>No system call fails and the object can be read.\<close>

definition calls_succeed :: "update_io \<Rightarrow> string \<times> string \<Rightarrow> bool" where
  "calls_succeed io at = (ui_hash io = (\<lambda>_. None) \<and>
     {ui_open io at, snd (ui_body io at), ui_create io, ui_write io, ui_close io, ui_restart io,
      ui_copy_open io, ui_copy_create io, ui_copy io, ui_copy_close io, ui_copy_rename io} = {None} \<and>
     ui_rename io \<in> {Renamed, CrossDevice})"

lemma reports_version_accepted: "reports_version lib binary v \<Longrightarrow> verifyBinaryVersionImpl lib path binary v = Inr ()"
  by (auto simp: reports_version_def verifyBinaryVersionImpl_def)

lemma atomicReplace_succeeds: "calls_succeed io at \<Longrightarrow> \<exists>fs. atomicReplace io src dst files = (Inr (), fs)"
  by (auto simp: calls_succeed_def atomicReplace_def Let_def)

lemma install_succeeds:
  assumes "ParseGCSURI (gm_URL m) = Inr at" "calls_succeed io at" "approved lib m (downloaded io m at)"
  shows "\<exists>hi. downloadVerifyAndInstall lib io cfg m h = (Inr (), hi)"
proof -
  obtain fs where "atomicReplace io (temp_path cfg m) (uc_installed cfg) ((ah_files h)(temp_path cfg m \<mapsto> downloaded io m at)) = (Inr (), fs)"
    using atomicReplace_succeeds [OF assms(2)] by blast
  moreover have "verifyBinaryVersionImpl lib (temp_path cfg m) (downloaded io m at) (gm_Version m) = Inr ()"
    using assms(3) by (simp add: approved_def reports_version_accepted)
  ultimately show ?thesis using assms
    by (simp add: downloadVerifyAndInstall_def Let_def calls_succeed_def approved_def del: take_all take_all_iff)
qed

text \<open>
  C40: updates converge. When the manifest can be read, the object at its address has its hash and
  reports its version (as do all binaries with this hash) and no system call fails, the check reports no error, the
  binary of the manifest is installed, an update is reported exactly if another binary was running,
  and the next check of the process that runs the installed binary finds nothing to do.
\<close>
theorem self_update_converges:
  assumes "FetchManifest (ul_rfc3339 lib) (uc_trusted cfg) (ui_documents io) (uc_manifestURI cfg) = Inr m"
    and "ParseGCSURI (gm_URL m) = Inr at" "calls_succeed io at"
    and "ul_sha256 lib (downloaded io m at) = gm_SHA256 m"
    and "\<And>b. ul_sha256 lib b = gm_SHA256 m \<Longrightarrow> reports_version lib b (gm_Version m)"
  shows "\<exists>binary h'. CheckAndUpdate lib io cfg h = ((ul_sha256 lib (ah_running h) \<noteq> gm_SHA256 m, None), h') \<and>
    ah_files h' (uc_installed cfg) = Some binary \<and> ul_sha256 lib binary = gm_SHA256 m \<and>
    CheckAndUpdate lib io cfg (h'\<lparr>ah_running := binary\<rparr>) = ((False, None), h'\<lparr>ah_running := binary\<rparr>)"
proof -
  have io: "ui_hash io = (\<lambda>_. None)" "ui_restart io = None" using assms(3) by (auto simp: calls_succeed_def)
  obtain hi where "downloadVerifyAndInstall lib io cfg m h = (Inr (), hi)"
    using install_succeeds assms by (metis approved_def)
  moreover have "ah_files h (uc_installed cfg) = Some b \<Longrightarrow> ul_sha256 lib b = gm_SHA256 m \<Longrightarrow>
      verifyBinaryVersionImpl lib (uc_installed cfg) b (gm_Version m) = Inr ()" for b
    using assms(5) by (blast intro: reports_version_accepted)
  ultimately have "\<exists>applied h'. CheckAndUpdate lib io cfg h = ((applied, None), h')"
    using assms(1) io by (auto simp: CheckAndUpdate_def Let_def restartAgent_def hashFile_def split: option.split)
  then obtain applied h' where check: "CheckAndUpdate lib io cfg h = ((applied, None), h')" by blast
  from check_current [OF check io(1) assms(1)] check current_skips [OF assms(1) io(1)] show ?thesis by fastforce
qed

text \<open>
  An upper-case digit in the hash of a manifest passes the validation, but no digest is written
  with one, so the check fails for ever, although the object is the one that was meant.
\<close>
lemma upper_case_never_installs:
  assumes "FetchManifest (ul_rfc3339 lib) (uc_trusted cfg) (ui_documents io) (uc_manifestURI cfg) = Inr m"
    and "set (gm_SHA256 m) \<inter> set ''ABCDEF'' \<noteq> {}" "\<And>b. set (ul_sha256 lib b) \<inter> set ''ABCDEF'' = {}"
    and "CheckAndUpdate lib io cfg h = ((applied, err), h')"
  shows "err \<noteq> None \<and> \<not> applied \<and> ah_files h' (uc_installed cfg) = ah_files h (uc_installed cfg)"
proof -
  have other: "ul_sha256 lib b \<noteq> gm_SHA256 m" for b using assms(2,3) by metis
  show ?thesis using assms(4,1)
  proof (cases rule: check_split)
    case (3 r)
    then show ?thesis using install_cases [OF 3(2)] other by (auto simp: approved_def split: if_split_asm)
  next
    case (4 hi)
    then show ?thesis using install_cases [of lib io cfg m h "Inr ()" hi] other by (auto simp: approved_def)
  qed (use other in auto)
qed

section \<open>Witnesses\<close>

definition update_sha :: "string \<Rightarrow> string" where
  "update_sha binary = (if binary = ''new'' then replicate 64 (CHR ''a'') else replicate 64 (CHR ''0''))"

definition update_doc :: json where
  "update_doc = JObj [(''version'', JStr ''1.2''), (''sha256'', JStr (replicate 64 (CHR ''a''))), (''url'', JStr ''gs://releases/agent'')]"

definition update_sample_lib :: update_lib where
  "update_sample_lib = \<lparr>ul_rfc3339 = (\<lambda>_. None), ul_sha256 = update_sha,
     ul_reports = (\<lambda>b. Inr (if b = ''new'' then ''ocm-agent 1.2 (commit=x)'' else ''ocm-agent 1.1''))\<rparr>"

definition update_sample_io :: update_io where
  "update_sample_io = \<lparr>ui_documents = (\<lambda>_. Inr (Some update_doc)), ui_open = (\<lambda>_. None), ui_body = (\<lambda>_. (''new'', None)),
     ui_create = None, ui_write = None, ui_close = None, ui_rename = CrossDevice, ui_copy_open = None, ui_copy_create = None,
     ui_copy = None, ui_copy_close = None, ui_copy_rename = None, ui_hash = (\<lambda>_. None), ui_restart = None\<rparr>"

definition update_sample_config :: update_config where
  "update_sample_config = \<lparr>uc_manifestURI = ''gs://releases/manifest.json'', uc_trusted = [''releases''], uc_installed = ''/bin/agent''\<rparr>"

definition update_sample_host :: agent_host where
  "update_sample_host = \<lparr>ah_files = [''/bin/agent'' \<mapsto> ''old''], ah_running = ''old'', ah_restarts = 0\<rparr>"

definition update_sample_manifest :: agent_manifest where
  "update_sample_manifest = no_manifest\<lparr>gm_Version := ''1.2'', gm_SHA256 := replicate 64 (CHR ''a''), gm_URL := ''gs://releases/agent''\<rparr>"

lemmas update_sample_defs = update_sample_lib_def update_sample_io_def update_sample_config_def update_sample_host_def update_sample_manifest_def

lemma update_sample_fetch:
  "FetchManifest (ul_rfc3339 update_sample_lib) (uc_trusted update_sample_config) (ui_documents update_sample_io)
     (uc_manifestURI update_sample_config) = Inr update_sample_manifest"
  by code_simp

lemma update_sample_at: "ParseGCSURI (gm_URL update_sample_manifest) = Inr (''releases'', ''agent'')"
  by code_simp

lemma update_sample_download: "downloaded update_sample_io update_sample_manifest (''releases'', ''agent'') = ''new''"
  by (simp add: update_sample_defs download_limit_def)

lemma update_sample_approved:
  assumes "ul_sha256 update_sample_lib b = gm_SHA256 update_sample_manifest"
  shows "reports_version update_sample_lib b (gm_Version update_sample_manifest)"
proof -
  have "(replicate 64 (CHR ''0'') :: string) \<noteq> replicate 64 (CHR ''a'')" by (simp add: replicate_eq_replicate)
  then have "b = ''new''" using assms by (simp add: update_sample_defs update_sha_def split: if_split_asm)
  then show ?thesis by (simp add: reports_version_def update_sample_defs is_space_def)
qed

theorem self_update_converges_witness:
  "\<exists>binary h'. CheckAndUpdate update_sample_lib update_sample_io update_sample_config update_sample_host = ((True, None), h') \<and>
     ah_files h' ''/bin/agent'' = Some binary \<and> ul_sha256 update_sample_lib binary = replicate 64 (CHR ''a'') \<and>
     CheckAndUpdate update_sample_lib update_sample_io update_sample_config (h'\<lparr>ah_running := binary\<rparr>) = ((False, None), h'\<lparr>ah_running := binary\<rparr>)"
proof -
  have "calls_succeed update_sample_io (''releases'', ''agent'')" by (simp add: calls_succeed_def update_sample_defs)
  moreover have "ul_sha256 update_sample_lib (downloaded update_sample_io update_sample_manifest (''releases'', ''agent'')) = gm_SHA256 update_sample_manifest"
    by (simp only: update_sample_download) (simp add: update_sample_defs update_sha_def)
  moreover have "ul_sha256 update_sample_lib (ah_running update_sample_host) \<noteq> gm_SHA256 update_sample_manifest"
    "gm_SHA256 update_sample_manifest = replicate 64 (CHR ''a'')" "uc_installed update_sample_config = ''/bin/agent''"
    by (simp_all add: update_sample_defs update_sha_def replicate_eq_replicate)
  ultimately show ?thesis
    using self_update_converges [OF update_sample_fetch update_sample_at, of update_sample_host] update_sample_approved by simp
qed

theorem self_update_safe_witness:
  "\<exists>applied err h'. CheckAndUpdate update_sample_lib update_sample_io update_sample_config update_sample_host = ((applied, err), h') \<and>
     (ah_files h' ''/etc/passwd'' = ah_files update_sample_host ''/etc/passwd'')"
proof -
  obtain applied err h' where check: "CheckAndUpdate update_sample_lib update_sample_io update_sample_config update_sample_host = ((applied, err), h')"
    by (metis prod.exhaust)
  have "only_works_on update_sample_config m update_sample_host h' \<Longrightarrow> ah_files h' ''/etc/passwd'' = ah_files update_sample_host ''/etc/passwd''" for m
    by (erule only_works_on_other) (simp_all add: new_path_def temp_path_def update_sample_defs)
  then show ?thesis using self_update_safe [OF check] check by blast
qed

end
