(* ===== verification/Migration.thy ===== *)
theory Migration
  imports Machine_Runtime Backup Go_Url
begin

text \<open>
  \<open>internal/api/admin_migrate_workflow.go\<close> and the helpers of \<open>admin_migrate.go\<close>: moving a machine to
  another host as a workflow of steps. The workflow engine is an argument: how many times it repeats a
  failing step when the source asks for a number of retries. A worker that dies during a workflow is not
  modelled. The agent client is configured.
\<close>

section \<open>Data\<close>

record migration_request =
  mr_MachineID :: string
  mr_TargetHostID :: int
  mr_Force :: bool

record migration_input =
  mi_Request :: migration_request
  mi_OperationID :: string
  mi_RequestedByUserID :: "int option"
  mi_AccountID :: int

record migration_result =
  mx_WorkflowID :: string
  mx_Status :: string
  mx_MachineID :: string
  mx_TargetHostID :: int
  mx_BackupID :: "int option"

record migration_plan =
  pn_SourceHostID :: "int option"
  pn_ReleaseCapacity :: bool
  pn_CanBackup :: bool

record backup_snapshot =
  bs_ID :: int
  bs_GCSPath :: string
  bs_Nonce :: "string option"
  bs_HMACSHA256 :: "string option"

record start_snapshot =
  ss_HostID :: int
  ss_PlacementID :: string

text \<open>A request that cannot be carried out, and an error on the way.\<close>

datatype migration_error = Invalid string | Failed go_error

text \<open>\<open>ms_domain\<close> is the domain of the data plane.\<close>

record migration_server =
  ms_machines :: runtime_service
  ms_agent :: agent_client
  ms_placement :: placement_config
  ms_kv :: "kv_store option"
  ms_tunnel :: "tunnel_manager option"
  ms_domain :: string
  ms_masterKey :: string
  ms_crypto :: crypto
  ms_rfc3339 :: "string \<Rightarrow> time option"

text \<open>
  The inputs of one run: the engine, the polls that fit before the deadlines of the three waits, and the
  random bytes and boot configurations of the two starts.
\<close>

record migration_env =
  me_retries :: "nat \<Rightarrow> nat"
  me_targetPolls :: nat
  me_stopPolls :: nat
  me_restoredPolls :: nat
  me_targetEntropy :: entropy
  me_targetBoot :: boot_phases
  me_restoredEntropy :: entropy
  me_restoredBoot :: boot_phases

section \<open>Helpers (admin_migrate.go)\<close>

fun hex_bytes :: "string \<Rightarrow> nat list option" where
  "hex_bytes [] = Some []"
| "hex_bytes [a] = None"
| "hex_bytes (a # b # r) = (if is_hex a \<and> is_hex b
     then map_option (\<lambda>bs. (16 * hex_value a + hex_value b) # bs) (hex_bytes r) else None)"

text \<open>The key of the backups of a machine, which is stored encrypted with the master key.\<close>

definition machine_backup_key :: "migration_server \<Rightarrow> string \<Rightarrow> machine \<Rightarrow> string result" where
  "machine_backup_key ms what m = (case hex_bytes (ms_masterKey ms) of
      None \<Rightarrow> Inl (wrap what (ErrText ''encoding/hex: invalid byte''))
    | Some masterKey \<Rightarrow> (case DecryptKey (ms_crypto ms) (map of_char (deref_or '''' (m_BackupKey m))) (map of_nat masterKey) of
        Inl e \<Rightarrow> Inl (wrap ''failed to decrypt backup key'' e)
      | Inr key \<Rightarrow> Inr (map (\<lambda>w. char_of (unat w)) key)))"

definition migration_record :: "string \<Rightarrow> int \<Rightarrow> time \<Rightarrow> backup_response \<Rightarrow> backup_record" where
  "migration_record mid sourceHostID ts b =
     \<lparr>br_ID = 0, br_MachineID = mid, br_Timestamp = ts, br_GCSPath = bk_GCSPath b, br_SizeBytes = bk_SizeBytes b,
       br_CompressedBytes = bk_CompressedBytes b, br_ChecksumSHA256 = bk_ChecksumSHA256 b, br_HMACSHA256 = bk_HMAC b,
       br_Nonce = bk_Nonce b, br_Trigger = ''migration'', br_HostID = Some sourceHostID, br_CreatedAt = 0\<rparr>"

text \<open>A time that cannot be read is replaced by the current one.\<close>

definition createMigrationBackup :: "migration_server \<Rightarrow> machine \<Rightarrow> int \<Rightarrow> (world, backup_record result) state" where
  "createMigrationBackup ms m sourceHostID = do {
     g \<leftarrow> in_db (GetHost sourceHostID);
     case g of
       Inl e \<Rightarrow> fail (wrap ''failed to get source host'' e)
     | Inr sourceHost \<Rightarrow> (case machine_backup_key ms ''invalid backup master key'' m of
         Inl e \<Rightarrow> fail e
       | Inr key \<Rightarrow> do {
           r \<leftarrow> in_net (BackupVM (ms_agent ms) sourceHost (m_ID m) (Some key));
           case r of
             Inl e \<Rightarrow> fail (wrap ''backup VM failed'' e)
           | Inr b \<Rightarrow> do {
               now \<leftarrow> in_db clock;
               c \<leftarrow> in_db (CreateBackupRecord (migration_record (m_ID m) sourceHostID
                      (deref_or now (ms_rfc3339 ms (bk_Timestamp b))) b));
               case c of Inl e \<Rightarrow> fail (wrap ''failed to save backup record'' e) | Inr rec \<Rightarrow> ok rec
             }
         })
   }"

definition dataPlaneHostname :: "migration_server \<Rightarrow> string \<Rightarrow> string \<Rightarrow> string" where
  "dataPlaneHostname ms prefix slug = prefix @ ''-'' @ slug @ ''.'' @ ms_domain ms"

definition cleanupMachineIngress :: "migration_server \<Rightarrow> machine \<Rightarrow> (world, unit) state" where
  "cleanupMachineIngress ms m = do {
     _ \<leftarrow> (case ms_kv ms of
        None \<Rightarrow> ret ()
      | Some kv \<Rightarrow> do {
          a \<leftarrow> in_db (GetAccount (m_AccountID m));
          case a of
            Inl _ \<Rightarrow> ret ()
          | Inr account \<Rightarrow> do { _ \<leftarrow> in_net (DeleteRouteSync kv (a_Slug account) (m_Slug m)); ret () }
        });
     case (ms_tunnel ms, m_TunnelID m) of
       (Some tm, Some tid) \<Rightarrow> do {
         _ \<leftarrow> in_net (DeleteTunnelAndDNS tm tid [dataPlaneHostname ms ''m'' (m_Slug m), dataPlaneHostname ms ''ssh'' (m_Slug m)]);
         _ \<leftarrow> in_db (ClearMachineTunnel (m_ID m));
         ret ()
       }
     | _ \<Rightarrow> ret ()
   }"

definition finalizeStoppedSourceAfterMigrationAbort :: "migration_server \<Rightarrow> machine \<Rightarrow> int \<Rightarrow> (world, unit result) state" where
  "finalizeStoppedSourceAfterMigrationAbort ms m sourceHostID = do {
     r \<leftarrow> in_db (SoftStopMachine (m_ID m) sourceHostID (m_VCPUs m) (m_MemoryMB m) 0);
     case r of
       Inl e \<Rightarrow> fail (wrap ''soft stop source machine'' e)
     | Inr _ \<Rightarrow> do {
         u \<leftarrow> in_db (UpdateMachineHomeHost (m_ID m) (Some sourceHostID));
         case u of
           Inl e \<Rightarrow> fail (wrap ''set home host'' e)
         | Inr _ \<Rightarrow> do {
             p \<leftarrow> in_db (ReleasePlacement (m_ID m));
             case p of
               Inl e \<Rightarrow> fail (wrap ''release placement record'' e)
             | Inr _ \<Rightarrow> do { _ \<leftarrow> cleanupMachineIngress ms m; ok () }
           }
       }
   }"

definition releaseMigrationSource :: "migration_server \<Rightarrow> machine \<Rightarrow> int \<Rightarrow> bool \<Rightarrow> (world, unit result) state" where
  "releaseMigrationSource ms m sourceHostID releaseCapacity = do {
     r \<leftarrow> in_db (ReleaseMigrationSource (m_ID m) sourceHostID (m_VCPUs m) (m_MemoryMB m) releaseCapacity);
     case r of
       Inl e \<Rightarrow> fail (wrap ''release migration source'' e)
     | Inr _ \<Rightarrow> do { _ \<leftarrow> cleanupMachineIngress ms m; ok () }
   }"

fun waitForMachineStatus :: "nat \<Rightarrow> string \<Rightarrow> string \<Rightarrow> (world, unit result) state" where
  "waitForMachineStatus 0 mid desired = fail (ErrText (''timed out waiting for status '' @ desired))"
| "waitForMachineStatus (Suc n) mid desired = do {
     g \<leftarrow> in_db (GetMachine mid);
     case g of
       Inl e \<Rightarrow> fail (wrap ''failed to get machine'' e)
     | Inr m \<Rightarrow>
         if m_Status m = desired then ok ()
         else if m_Status m = ''error'' then fail (ErrText ''machine entered error state'')
         else waitForMachineStatus n mid desired
   }"

section \<open>Waiting for a VM (admin_migrate_workflow.go)\<close>

definition syncMachineRouteToKV :: "migration_server \<Rightarrow> string \<Rightarrow> host \<Rightarrow> (world, unit result) state" where
  "syncMachineRouteToKV ms mid h = (case ms_kv ms of
      None \<Rightarrow> ok ()
    | Some kv \<Rightarrow> (case h_TunnelURL h of
        None \<Rightarrow> fail (ErrText ''host has no tunnel URL'')
      | Some url \<Rightarrow> do {
          g \<leftarrow> in_db (GetMachine mid);
          case g of
            Inl e \<Rightarrow> fail (wrap ''failed to get machine'' e)
          | Inr m \<Rightarrow> do {
              a \<leftarrow> in_db (GetAccount (m_AccountID m));
              case a of
                Inl e \<Rightarrow> fail (wrap ''failed to get account'' e)
              | Inr account \<Rightarrow> in_net (PutRouteSync kv (a_Slug account) (m_Slug m)
                  \<lparr>kr_MachineID = m_ID m, kr_HostHostname = url, kr_ProxyToken = deref_or '''' (m_ProxyToken m)\<rparr>)
            }
        }))"

definition wait_failed :: "string \<Rightarrow> string \<Rightarrow> string \<Rightarrow> (world, unit result) state" where
  "wait_failed mid status msg = do {
     _ \<leftarrow> in_db (UpdateMachineStatus mid status (Some msg));
     fail (ErrText msg)
   }"

definition target_running :: "migration_server \<Rightarrow> string \<Rightarrow> host \<Rightarrow> string \<Rightarrow> (world, unit result) state" where
  "target_running ms mid h placementID = do {
     k \<leftarrow> syncMachineRouteToKV ms mid h;
     case k of
       Inl e \<Rightarrow> wait_failed mid ''error'' (''KV sync failed: '' @ error_text e)
     | Inr _ \<Rightarrow> do {
         a \<leftarrow> (if placementID = '''' then ok True else in_db (ActivatePlacement placementID));
         case a of
           Inl e \<Rightarrow> fail (wrap ''activate placement'' e)
         | Inr _ \<Rightarrow> do { _ \<leftarrow> in_db (UpdateMachineStatus mid ''running'' None); ok () }
       }
   }"

fun waitForMachineRunningOnHost ::
  "migration_server \<Rightarrow> nat \<Rightarrow> nat \<Rightarrow> go_error option \<Rightarrow> string \<Rightarrow> host \<Rightarrow> string \<Rightarrow> (world, unit result) state" where
  "waitForMachineRunningOnHost ms 0 errs lastErr mid h placementID = wait_failed mid ''error''
     (case lastErr of
        None \<Rightarrow> ''timeout waiting for VM to become running''
      | Some e \<Rightarrow> ''timeout waiting for VM to become running: '' @ error_text e)"
| "waitForMachineRunningOnHost ms (Suc n) errs lastErr mid h placementID = do {
     v \<leftarrow> in_net (GetVM (ms_agent ms) h mid);
     case v of
       Inl e \<Rightarrow>
         if 30 \<le> Suc errs then wait_failed mid ''error'' (''failed to poll VM status: '' @ error_text e)
         else waitForMachineRunningOnHost ms n (Suc errs) (Some e) mid h placementID
     | Inr vm \<Rightarrow>
         if vr_Status vm = ''running'' then target_running ms mid h placementID
         else if vr_Status vm = ''error''
         then wait_failed mid ''error'' (if vr_ErrorMessage vm = '''' then ''VM creation failed'' else vr_ErrorMessage vm)
         else if vr_Status vm = ''stopped''
         then wait_failed mid ''stopped'' ''VM stopped unexpectedly during creation''
         else waitForMachineRunningOnHost ms n 0 lastErr mid h placementID
   }"

definition currentMigrationStartSnapshot :: "string \<Rightarrow> int \<Rightarrow> (world, start_snapshot result) state" where
  "currentMigrationStartSnapshot mid hostID = do {
     p \<leftarrow> in_db (GetActivePlacement mid);
     ok \<lparr>ss_HostID = hostID, ss_PlacementID = (case p of Inl _ \<Rightarrow> '''' | Inr x \<Rightarrow> p_ID x)\<rparr>
   }"

definition cleanupFailedMigrationTarget :: "migration_server \<Rightarrow> string \<Rightarrow> (world, unit) state" where
  "cleanupFailedMigrationTarget ms mid = do {
     g \<leftarrow> in_db (GetMachine mid);
     case g of
       Inl _ \<Rightarrow> ret ()
     | Inr m \<Rightarrow> do {
         _ \<leftarrow> (case m_HostID m of
            None \<Rightarrow> ret ()
          | Some hid \<Rightarrow> do {
              h \<leftarrow> in_db (GetHost hid);
              case h of
                Inl _ \<Rightarrow> ret ()
              | Inr host \<Rightarrow> do { _ \<leftarrow> in_net (DestroyVM (ms_agent ms) host mid); ret () }
            });
         _ \<leftarrow> in_db (Release (ms_placement ms) mid ReleaseHard);
         cleanupMachineIngress ms m
       }
   }"

section \<open>The workflow (admin_migrate_workflow.go)\<close>

text \<open>A step of the workflow: it is repeated while it fails and the engine allows it.\<close>

fun run_attempts :: "nat \<Rightarrow> (world, 'a result) state \<Rightarrow> (world, 'a result) state" where
  "run_attempts 0 step = step"
| "run_attempts (Suc n) step = do { r \<leftarrow> step; case r of Inl _ \<Rightarrow> run_attempts n step | Inr x \<Rightarrow> ok x }"

definition RunAsStep :: "migration_env \<Rightarrow> nat \<Rightarrow> (world, 'a result) state \<Rightarrow> (world, 'a result) state" where
  "RunAsStep env retries step = run_attempts (me_retries env retries) step"

text \<open>\<open>json.Marshal\<close> of a map sorts the keys; empty fields of the result are left out where the tags say so.\<close>

definition summary_json :: "string \<Rightarrow> migration_result \<Rightarrow> json" where
  "summary_json wid x = JObj [(''backup_id'', case mx_BackupID x of None \<Rightarrow> JNull | Some n \<Rightarrow> JNum n),
     (''machine_id'', JStr (mx_MachineID x)), (''status'', JStr (mx_Status x)), (''target_host_id'', JNum (mx_TargetHostID x)),
     (''workflow_id'', JStr wid)]"

definition result_json :: "migration_result \<Rightarrow> json" where
  "result_json x = JObj (str_field ''workflow_id'' (mx_WorkflowID x) @
     [(''status'', JStr (mx_Status x)), (''machine_id'', JStr (mx_MachineID x)), (''target_host_id'', JNum (mx_TargetHostID x))] @
     opt_field ''backup_id'' (map_option JNum (mx_BackupID x)))"

definition workflow_event_of :: "string \<Rightarrow> string option \<Rightarrow> string \<Rightarrow> string \<Rightarrow> json option \<Rightarrow> workflow_event" where
  "workflow_event_of wid phase eventType message details =
     \<lparr>we_ID = 0, we_WorkflowID = wid, we_Phase = phase, we_Level = ''info'', we_EventType = eventType, we_Message = message,
       we_DetailsJSON = details, we_CreatedAt = 0\<rparr>"

definition updateMigrationWorkflowState ::
  "string \<Rightarrow> string \<Rightarrow> string \<Rightarrow> migration_result \<Rightarrow> string \<Rightarrow> json option \<Rightarrow> (world, unit) state" where
  "updateMigrationWorkflowState wid status phase x message details = do {
     _ \<leftarrow> in_db (UpdateWorkflowRunStatus wid status (Some phase) (Some (summary_json wid x)) None None);
     _ \<leftarrow> in_db (CreateWorkflowEvent (workflow_event_of wid (Some phase) ''workflow.phase'' message details));
     ret ()
   }"

definition validateMigrationRequest ::
  "migration_server \<Rightarrow> migration_request \<Rightarrow> (world, migration_error + (machine \<times> host \<times> int option \<times> bool)) state" where
  "validateMigrationRequest ms req = do {
     g \<leftarrow> in_db (GetMachine (mr_MachineID req));
     case g of
       Inl e \<Rightarrow> ret (Inl (Failed (if errors_is e ErrNoRows then e else wrap ''machine lookup failed'' e)))
     | Inr m \<Rightarrow> do {
         t \<leftarrow> in_db (GetHost (mr_TargetHostID req));
         case t of
           Inl e \<Rightarrow> ret (Inl (Failed (if errors_is e ErrNoRows then e else wrap ''target host lookup failed'' e)))
         | Inr target \<Rightarrow>
             (let canBackup = (m_HostID m \<noteq> None \<and> m_BackupsEnabled m \<and> ms_masterKey ms \<noteq> '''')
              in ret (
                if h_Status target \<noteq> ''ready'' then Inl (Invalid (''target host is '' @ h_Status target @ '', must be ready''))
                else if m_HostID m = Some (mr_TargetHostID req) then Inl (Invalid ''machine is already on the target host'')
                else if m_HostID m \<noteq> None \<and> \<not> canBackup \<and> \<not> mr_Force req
                then Inl (Invalid ''machine has a source host but backups are not enabled or configured - data volume will be lost. Pass force=true to proceed anyway.'')
                else Inr (m, target, m_HostID m, canBackup)))
       }
   }"

fun migration_error_of :: "migration_error \<Rightarrow> go_error" where
  "migration_error_of (Invalid msg) = ErrText msg"
| "migration_error_of (Failed e) = e"

definition prepare_step :: "migration_server \<Rightarrow> migration_request \<Rightarrow> (world, migration_plan result) state" where
  "prepare_step ms req = do {
     v \<leftarrow> validateMigrationRequest ms req;
     case v of
       Inl e \<Rightarrow> fail (migration_error_of e)
     | Inr (_, _, source, canBackup) \<Rightarrow> do {
         g \<leftarrow> in_db (GetMachine (mr_MachineID req));
         case g of
           Inl e \<Rightarrow> fail e
         | Inr m \<Rightarrow> ok \<lparr>pn_SourceHostID = source, pn_ReleaseCapacity = (m_Status m \<in> {''running'', ''provisioning'', ''error''}),
                          pn_CanBackup = canBackup\<rparr>
       }
   }"

definition stop_source_step :: "migration_server \<Rightarrow> migration_request \<Rightarrow> int \<Rightarrow> (world, bool result) state" where
  "stop_source_step ms req source = do {
     g \<leftarrow> in_db (GetMachine (mr_MachineID req));
     case g of
       Inl e \<Rightarrow> fail e
     | Inr m \<Rightarrow>
         if m_Status m \<noteq> ''running'' then ok False
         else do {
           h \<leftarrow> in_db (GetHost source);
           case h of
             Inl e \<Rightarrow> fail e
           | Inr sourceHost \<Rightarrow> do {
               s \<leftarrow> in_net (StopVM (ms_agent ms) sourceHost (m_ID m));
               case s of Inl e \<Rightarrow> fail (wrap ''failed to stop machine'' e) | Inr _ \<Rightarrow> ok True
             }
         }
   }"

definition snapshot_of :: "backup_record \<Rightarrow> backup_snapshot" where
  "snapshot_of b = \<lparr>bs_ID = br_ID b, bs_GCSPath = br_GCSPath b, bs_Nonce = br_Nonce b, bs_HMACSHA256 = br_HMACSHA256 b\<rparr>"

text \<open>A forced migration goes on without a backup when it cannot be made.\<close>

definition backup_source_step :: "migration_server \<Rightarrow> migration_request \<Rightarrow> int \<Rightarrow> (world, backup_snapshot option result) state" where
  "backup_source_step ms req source = do {
     g \<leftarrow> in_db (GetMachine (mr_MachineID req));
     case g of
       Inl e \<Rightarrow> fail e
     | Inr m \<Rightarrow> do {
         b \<leftarrow> createMigrationBackup ms m source;
         case b of
           Inl e \<Rightarrow> if mr_Force req then ok None else fail e
         | Inr rec \<Rightarrow> ok (Some (snapshot_of rec))
       }
   }"

definition abort_step :: "migration_server \<Rightarrow> migration_request \<Rightarrow> int \<Rightarrow> (world, bool result) state" where
  "abort_step ms req source = do {
     g \<leftarrow> in_db (GetMachine (mr_MachineID req));
     case g of
       Inl e \<Rightarrow> fail (wrap ''abort cleanup: failed to get machine'' e)
     | Inr m \<Rightarrow> do {
         f \<leftarrow> finalizeStoppedSourceAfterMigrationAbort ms m source;
         case f of Inl e \<Rightarrow> fail (wrap ''abort cleanup'' e) | Inr _ \<Rightarrow> ok True
       }
   }"

definition destroy_source_step :: "migration_server \<Rightarrow> migration_request \<Rightarrow> int \<Rightarrow> (world, bool result) state" where
  "destroy_source_step ms req source = do {
     h \<leftarrow> in_db (GetHost source);
     case h of
       Inl e \<Rightarrow> fail (wrap ''destroy_source_vm: failed to get host'' e)
     | Inr sourceHost \<Rightarrow> do { _ \<leftarrow> in_net (DestroyVM (ms_agent ms) sourceHost (mr_MachineID req)); ok True }
   }"

definition release_source_step :: "migration_server \<Rightarrow> migration_request \<Rightarrow> int \<Rightarrow> bool \<Rightarrow> (world, bool result) state" where
  "release_source_step ms req source releaseCapacity = do {
     g \<leftarrow> in_db (GetMachine (mr_MachineID req));
     case g of
       Inl e \<Rightarrow> fail e
     | Inr m \<Rightarrow> do {
         r \<leftarrow> releaseMigrationSource ms m source releaseCapacity;
         case r of Inl e \<Rightarrow> fail e | Inr _ \<Rightarrow> ok True
       }
   }"

definition start_target_step :: "migration_server \<Rightarrow> migration_env \<Rightarrow> migration_input \<Rightarrow> (world, start_snapshot result) state" where
  "start_target_step ms env input = (let req = mi_Request input in do {
     g \<leftarrow> in_db (GetMachine (mr_MachineID req));
     case g of
       Inl e \<Rightarrow> fail e
     | Inr m \<Rightarrow>
         if m_HostID m = Some (mr_TargetHostID req) then currentMigrationStartSnapshot (m_ID m) (mr_TargetHostID req)
         else do {
           s \<leftarrow> start (ms_machines ms) (me_targetEntropy env) (me_targetBoot env) m (mi_OperationID input)
                  \<lparr>so_TargetHostID = mr_TargetHostID req, so_SkipPoll = True, so_SkipVersionPersist = False\<rparr>;
           case s of
             Inl e \<Rightarrow> fail (wrap (''failed to start on target host '' @ show_int (mr_TargetHostID req)) e)
           | Inr (h, _) \<Rightarrow> currentMigrationStartSnapshot (m_ID m) (h_ID h)
         }
   })"

definition wait_running_step :: "migration_server \<Rightarrow> nat \<Rightarrow> string \<Rightarrow> start_snapshot \<Rightarrow> (world, bool result) state" where
  "wait_running_step ms polls mid st = do {
     h \<leftarrow> in_db (GetHost (ss_HostID st));
     case h of
       Inl e \<Rightarrow> fail e
     | Inr host \<Rightarrow> do {
         w \<leftarrow> waitForMachineRunningOnHost ms polls 0 None mid host (ss_PlacementID st);
         case w of Inl e \<Rightarrow> fail e | Inr _ \<Rightarrow> ok True
       }
   }"

definition stop_for_restore_step :: "migration_server \<Rightarrow> migration_input \<Rightarrow> (world, bool result) state" where
  "stop_for_restore_step ms input = do {
     g \<leftarrow> in_db (GetMachine (mr_MachineID (mi_Request input)));
     case g of
       Inl e \<Rightarrow> fail e
     | Inr m \<Rightarrow>
         if m_Status m = ''stopped'' then ok False
         else do {
           s \<leftarrow> stop (ms_machines ms) m (mi_OperationID input);
           case s of Inl e \<Rightarrow> fail (wrap ''failed to stop for restore'' e) | Inr _ \<Rightarrow> ok True
         }
   }"

definition restore_step :: "migration_server \<Rightarrow> string \<Rightarrow> backup_snapshot \<Rightarrow> (world, bool result) state" where
  "restore_step ms mid snap = do {
     g \<leftarrow> in_db (GetMachine mid);
     case g of
       Inl e \<Rightarrow> fail e
     | Inr m \<Rightarrow> (case m_HostID m of
         None \<Rightarrow> fail (ErrText ''machine has no host after stop'')
       | Some hid \<Rightarrow> do {
           h \<leftarrow> in_db (GetHost hid);
           case h of
             Inl e \<Rightarrow> fail (wrap ''failed to get restore host'' e)
           | Inr host \<Rightarrow> (case machine_backup_key ms ''invalid backup master key config'' m of
               Inl e \<Rightarrow> fail e
             | Inr key \<Rightarrow> do {
                 r \<leftarrow> in_net (RestoreVM (ms_agent ms) host (m_ID m) (bs_GCSPath snap) (Some key) (bs_Nonce snap) (bs_HMACSHA256 snap));
                 case r of Inl e \<Rightarrow> fail (wrap ''restore failed'' e) | Inr _ \<Rightarrow> ok True
               })
         })
   }"

definition restart_step :: "migration_server \<Rightarrow> migration_env \<Rightarrow> migration_input \<Rightarrow> (world, start_snapshot result) state" where
  "restart_step ms env input = do {
     g \<leftarrow> in_db (GetMachine (mr_MachineID (mi_Request input)));
     case g of
       Inl e \<Rightarrow> fail e
     | Inr m \<Rightarrow> do {
         s \<leftarrow> start (ms_machines ms) (me_restoredEntropy env) (me_restoredBoot env) m (mi_OperationID input)
                \<lparr>so_TargetHostID = 0, so_SkipPoll = True, so_SkipVersionPersist = False\<rparr>;
         case s of
           Inl e \<Rightarrow> fail (wrap ''restore succeeded but failed to restart'' e)
         | Inr (h, _) \<Rightarrow> currentMigrationStartSnapshot (m_ID m) (h_ID h)
       }
   }"

text \<open>The phases; each announces itself in the row of the workflow and in its events.\<close>

definition source_details :: "int \<Rightarrow> json option" where
  "source_details source = Some (JObj [(''source_host_id'', JNum source)])"

definition stop_source_phase ::
  "migration_server \<Rightarrow> migration_env \<Rightarrow> migration_request \<Rightarrow> string \<Rightarrow> migration_result \<Rightarrow> migration_plan \<Rightarrow> (world, bool result) state" where
  "stop_source_phase ms env req wid x plan = (case pn_SourceHostID plan of
      None \<Rightarrow> ok False
    | Some source \<Rightarrow> do {
        _ \<leftarrow> updateMigrationWorkflowState wid ''running'' ''stop_source'' x ''stopping source machine'' (source_details source);
        RunAsStep env 3 (stop_source_step ms req source)
      })"

text \<open>When the backup fails, the source is recorded as stopped; an error of this cleanup is only logged.\<close>

definition backup_phase ::
  "migration_server \<Rightarrow> migration_env \<Rightarrow> migration_request \<Rightarrow> string \<Rightarrow> migration_result \<Rightarrow> migration_plan \<Rightarrow>
   (world, backup_snapshot option result) state" where
  "backup_phase ms env req wid x plan = (case pn_SourceHostID plan of
      None \<Rightarrow> ok None
    | Some source \<Rightarrow>
        if \<not> pn_CanBackup plan then ok None
        else do {
          _ \<leftarrow> updateMigrationWorkflowState wid ''running'' ''backup_source'' x ''creating migration backup'' None;
          b \<leftarrow> RunAsStep env 1 (backup_source_step ms req source);
          case b of
            Inr snap \<Rightarrow> ok snap
          | Inl e \<Rightarrow> do { _ \<leftarrow> RunAsStep env 0 (abort_step ms req source); fail e }
        })"

definition leave_source_phase ::
  "migration_server \<Rightarrow> migration_env \<Rightarrow> migration_request \<Rightarrow> string \<Rightarrow> migration_result \<Rightarrow> migration_plan \<Rightarrow> (world, bool result) state" where
  "leave_source_phase ms env req wid x plan = (case pn_SourceHostID plan of
      None \<Rightarrow> ok False
    | Some source \<Rightarrow> do {
        _ \<leftarrow> updateMigrationWorkflowState wid ''running'' ''destroy_source_vm'' x ''destroying source VM handle'' None;
        d \<leftarrow> RunAsStep env 0 (destroy_source_step ms req source);
        case d of
          Inl e \<Rightarrow> fail e
        | Inr _ \<Rightarrow> do {
            _ \<leftarrow> updateMigrationWorkflowState wid ''running'' ''release_source'' x ''releasing source placement'' None;
            RunAsStep env 3 (release_source_step ms req source (pn_ReleaseCapacity plan))
          }
      })"

text \<open>A start that does not come up is taken back.\<close>

definition wait_phase ::
  "migration_server \<Rightarrow> migration_env \<Rightarrow> nat \<Rightarrow> string \<Rightarrow> start_snapshot \<Rightarrow> (world, bool result) state" where
  "wait_phase ms env polls mid st = do {
     w \<leftarrow> RunAsStep env 0 (wait_running_step ms polls mid st);
     case w of
       Inr b \<Rightarrow> ok b
     | Inl e \<Rightarrow> do { _ \<leftarrow> cleanupFailedMigrationTarget ms mid; fail e }
   }"

definition target_phase ::
  "migration_server \<Rightarrow> migration_env \<Rightarrow> migration_input \<Rightarrow> string \<Rightarrow> migration_result \<Rightarrow> (world, bool result) state" where
  "target_phase ms env input wid x = do {
     _ \<leftarrow> updateMigrationWorkflowState wid ''running'' ''start_target'' x ''starting on target host'' None;
     s \<leftarrow> RunAsStep env 0 (start_target_step ms env input);
     case s of
       Inl e \<Rightarrow> fail e
     | Inr st \<Rightarrow> do {
         _ \<leftarrow> updateMigrationWorkflowState wid ''waiting'' ''wait_target_running'' x ''waiting for target machine to become running''
                (Some (JObj [(''host_id'', JNum (ss_HostID st))]));
         wait_phase ms env (me_targetPolls env) (mr_MachineID (mi_Request input)) st
       }
   }"

definition backup_details :: "backup_snapshot \<Rightarrow> json option" where
  "backup_details snap = Some (JObj [(''backup_id'', JNum (bs_ID snap))])"

definition stop_restore_phase ::
  "migration_server \<Rightarrow> migration_env \<Rightarrow> migration_input \<Rightarrow> string \<Rightarrow> migration_result \<Rightarrow> backup_snapshot \<Rightarrow> (world, bool result) state" where
  "stop_restore_phase ms env input wid x snap = (let mid = mr_MachineID (mi_Request input) in do {
     _ \<leftarrow> updateMigrationWorkflowState wid ''running'' ''stop_for_restore'' x ''stopping target machine for restore'' (backup_details snap);
     s \<leftarrow> RunAsStep env 3 (stop_for_restore_step ms input);
     case s of
       Inl e \<Rightarrow> fail e
     | Inr _ \<Rightarrow> do {
         _ \<leftarrow> updateMigrationWorkflowState wid ''waiting'' ''wait_stopped'' x ''waiting for machine to stop before restore'' None;
         w \<leftarrow> RunAsStep env 0 (waitForMachineStatus (me_stopPolls env) mid ''stopped'');
         case w of
           Inl e \<Rightarrow> fail e
         | Inr _ \<Rightarrow> do {
             _ \<leftarrow> updateMigrationWorkflowState wid ''running'' ''restore_backup'' x ''restoring backup on target host'' (backup_details snap);
             RunAsStep env 0 (restore_step ms mid snap)
           }
       }
   })"

definition restart_phase ::
  "migration_server \<Rightarrow> migration_env \<Rightarrow> migration_input \<Rightarrow> string \<Rightarrow> migration_result \<Rightarrow> (world, bool result) state" where
  "restart_phase ms env input wid x = do {
     _ \<leftarrow> updateMigrationWorkflowState wid ''running'' ''restart_restored'' x ''restarting restored machine'' None;
     s \<leftarrow> RunAsStep env 0 (restart_step ms env input);
     case s of
       Inl e \<Rightarrow> fail e
     | Inr st \<Rightarrow> do {
         _ \<leftarrow> updateMigrationWorkflowState wid ''waiting'' ''wait_restored_running'' x ''waiting for restored machine to become running'' None;
         wait_phase ms env (me_restoredPolls env) (mr_MachineID (mi_Request input)) st
       }
   }"

definition restore_phase ::
  "migration_server \<Rightarrow> migration_env \<Rightarrow> migration_input \<Rightarrow> string \<Rightarrow> migration_result \<Rightarrow> backup_snapshot option \<Rightarrow> (world, string result) state" where
  "restore_phase ms env input wid x snap = (case snap of
      None \<Rightarrow> ok ''migrated''
    | Some b \<Rightarrow> do {
        s \<leftarrow> stop_restore_phase ms env input wid x b;
        case s of
          Inl e \<Rightarrow> fail e
        | Inr _ \<Rightarrow> do {
            r \<leftarrow> restart_phase ms env input wid x;
            case r of Inl e \<Rightarrow> fail e | Inr _ \<Rightarrow> ok ''migrated_and_restored''
          }
      })"

text \<open>What follows the backup, and the whole body: they return the result as far as it was filled in, and the error.\<close>

definition move_machine ::
  "migration_server \<Rightarrow> migration_env \<Rightarrow> migration_input \<Rightarrow> string \<Rightarrow> migration_plan \<Rightarrow> migration_result \<Rightarrow> backup_snapshot option \<Rightarrow>
   (world, migration_result \<times> go_error option) state" where
  "move_machine ms env input wid plan x snap = do {
     l \<leftarrow> leave_source_phase ms env (mi_Request input) wid x plan;
     case l of
       Inl e \<Rightarrow> ret (x, Some e)
     | Inr _ \<Rightarrow> do {
         t \<leftarrow> target_phase ms env input wid x;
         case t of
           Inl e \<Rightarrow> ret (x, Some e)
         | Inr _ \<Rightarrow> do {
             r \<leftarrow> restore_phase ms env input wid x snap;
             case r of
               Inl e \<Rightarrow> ret (x, Some e)
             | Inr status \<Rightarrow> (let x2 = x\<lparr>mx_Status := status\<rparr> in do {
                 _ \<leftarrow> updateMigrationWorkflowState wid ''running'' ''complete'' x2
                        (if snap = None then ''migration completed'' else ''migration and restore completed'') None;
                 ret (x2, None)
               })
           }
       }
   }"

definition migration_body ::
  "migration_server \<Rightarrow> migration_env \<Rightarrow> migration_input \<Rightarrow> string \<Rightarrow> (world, migration_result \<times> go_error option) state" where
  "migration_body ms env input wid =
     (let req = mi_Request input;
          x = \<lparr>mx_WorkflowID = wid, mx_Status = '''', mx_MachineID = mr_MachineID req, mx_TargetHostID = mr_TargetHostID req, mx_BackupID = None\<rparr>
      in do {
        _ \<leftarrow> updateMigrationWorkflowState wid ''running'' ''prepare'' x ''migration started'' None;
        p \<leftarrow> RunAsStep env 3 (prepare_step ms req);
        case p of
          Inl e \<Rightarrow> ret (x, Some e)
        | Inr plan \<Rightarrow> do {
            s \<leftarrow> stop_source_phase ms env req wid x plan;
            case s of
              Inl e \<Rightarrow> ret (x, Some e)
            | Inr _ \<Rightarrow> do {
                b \<leftarrow> backup_phase ms env req wid x plan;
                case b of
                  Inl e \<Rightarrow> ret (x, Some e)
                | Inr snap \<Rightarrow> move_machine ms env input wid plan (x\<lparr>mx_BackupID := map_option bs_ID snap\<rparr>) snap
              }
          }
      })"

definition finalizeMigrationWorkflow ::
  "string \<Rightarrow> string \<Rightarrow> migration_result \<Rightarrow> go_error option \<Rightarrow> (world, unit) state" where
  "finalizeMigrationWorkflow wid opid x err = (case err of
      Some e \<Rightarrow> do {
        _ \<leftarrow> updateMigrationWorkflowState wid ''failed'' ''complete'' x ''migration failed'' (Some (JObj [(''error'', JStr (error_text e))]));
        _ \<leftarrow> in_db (CompleteWorkflowRun wid ''failed'' (Some (result_json x)) (Some ''migration_failed'') (Some (error_text e)));
        _ \<leftarrow> in_db (CompleteMachineOperation opid ''failed'' (Some (error_text e)));
        ret ()
      }
    | None \<Rightarrow> do {
        _ \<leftarrow> in_db (CompleteWorkflowRun wid ''completed'' (Some (result_json x)) None None);
        _ \<leftarrow> in_db (CompleteMachineOperation opid ''completed'' None);
        ret ()
      })"

definition runMigrationWorkflow ::
  "migration_server \<Rightarrow> migration_env \<Rightarrow> migration_input \<Rightarrow> string result \<Rightarrow> (world, migration_result \<times> go_error option) state" where
  "runMigrationWorkflow ms env input workflowID = (case workflowID of
      Inl e \<Rightarrow> ret (\<lparr>mx_WorkflowID = '''', mx_Status = '''', mx_MachineID = '''', mx_TargetHostID = 0, mx_BackupID = None\<rparr>, Some e)
    | Inr wid \<Rightarrow> do {
        b \<leftarrow> migration_body ms env input wid;
        _ \<leftarrow> finalizeMigrationWorkflow wid (mi_OperationID input) (fst b) (snd b);
        ret b
      })"

section \<open>Queueing a migration (internal/workflows/service.go, admin_migrate_workflow.go)\<close>

definition generateWorkflowID :: "nat list result \<Rightarrow> string result" where
  "generateWorkflowID random = (case random of
      Inl e \<Rightarrow> Inl (wrap ''generating workflow ID'' e) | Inr bs \<Rightarrow> Inr (''wf_'' @ hex_of bs))"

record run_params =
  rp_ID :: string
  rp_Kind :: string
  rp_ScopeType :: string
  rp_ScopeID :: string
  rp_RequestedBy :: "int option"
  rp_AccountID :: "int option"
  rp_Priority :: string
  rp_InputJSON :: "json option"

definition run_of :: "run_params \<Rightarrow> workflow_run" where
  "run_of p = \<lparr>wr_ID = rp_ID p, wr_Kind = rp_Kind p, wr_ScopeType = rp_ScopeType p, wr_ScopeID = rp_ScopeID p, wr_Status = ''queued'',
     wr_CurrentPhase = None, wr_RequestedBy = rp_RequestedBy p, wr_AccountID = rp_AccountID p,
     wr_Priority = (if rp_Priority p = '''' then ''normal'' else rp_Priority p),
     wr_InputJSON = (case rp_InputJSON p of None \<Rightarrow> Some (JObj []) | Some j \<Rightarrow> Some j), wr_OutputJSON = None, wr_SummaryJSON = None,
     wr_ErrorCode = None, wr_ErrorMessage = None, wr_StartedAt = None, wr_CompletedAt = None, wr_CreatedAt = 0, wr_UpdatedAt = 0\<rparr>"

definition CreateRun :: "nat list result \<Rightarrow> run_params \<Rightarrow> (world, workflow_run result) state" where
  "CreateRun random p = (case (if rp_ID p = '''' then generateWorkflowID random else Inr (rp_ID p)) of
      Inl e \<Rightarrow> fail e
    | Inr wid \<Rightarrow> in_db (CreateWorkflowRun (run_of (p\<lparr>rp_ID := wid\<rparr>))))"

text \<open>A reply is a status with a document.\<close>

type_synonym api_reply = "int \<times> json"

definition error_reply :: "int \<Rightarrow> string \<Rightarrow> api_reply" where
  "error_reply st msg = (st, JObj [(''error'', JStr msg)])"

definition input_json :: "migration_input \<Rightarrow> json" where
  "input_json i = JObj ([(''request'', JObj [(''machine_id'', JStr (mr_MachineID (mi_Request i))),
       (''target_host_id'', JNum (mr_TargetHostID (mi_Request i))), (''force'', JBool (mr_Force (mi_Request i)))]),
     (''operation_id'', JStr (mi_OperationID i))] @ opt_field ''requested_by_user_id'' (map_option JNum (mi_RequestedByUserID i)) @
     [(''account_id'', JNum (mi_AccountID i))])"

definition queued_details :: "migration_input \<Rightarrow> json" where
  "queued_details i = JObj [(''machine_id'', JStr (mr_MachineID (mi_Request i))), (''machine_op_id'', JStr (mi_OperationID i)),
     (''requested_by_id'', case mi_RequestedByUserID i of None \<Rightarrow> JNull | Some u \<Rightarrow> JNum u),
     (''target_host_id'', JNum (mr_TargetHostID (mi_Request i)))]"

text \<open>Queueing failed after the workflow was recorded: both rows are closed.\<close>

definition queue_failed :: "string \<Rightarrow> string \<Rightarrow> string \<Rightarrow> go_error \<Rightarrow> (world, unit) state" where
  "queue_failed wid opid code e = do {
     _ \<leftarrow> in_db (CompleteWorkflowRun wid ''failed'' None (Some code) (Some (error_text e)));
     _ \<leftarrow> in_db (CompleteMachineOperation opid ''failed'' (Some (error_text e)));
     ret ()
   }"

text \<open>
  What the engine makes of the request to enqueue is the argument \<open>enqueue\<close>, and whether there is an engine the
  argument \<open>runtime\<close>. The reply comes with the input of the queued workflow, if there is one.
\<close>

definition enqueue_run ::
  "unit result \<Rightarrow> migration_input \<Rightarrow> machine \<Rightarrow> string \<Rightarrow> (world, api_reply \<times> migration_input option) state" where
  "enqueue_run enqueue input m wid = do {
     o1 \<leftarrow> in_db (CreateMachineOperation ((new_operation (m_ID m) ''migrate'')\<lparr>o_IdempotencyKey := Some wid\<rparr>));
     case o1 of
       Inl e \<Rightarrow> ret (error_reply 409 (''machine has an in-flight operation: '' @ error_text e), None)
     | Inr op \<Rightarrow> (let i = input\<lparr>mi_OperationID := o_ID op\<rparr> in do {
         r \<leftarrow> CreateRun (Inr []) \<lparr>rp_ID = wid, rp_Kind = ''migration'', rp_ScopeType = ''machine'', rp_ScopeID = m_ID m,
                rp_RequestedBy = mi_RequestedByUserID i, rp_AccountID = Some (m_AccountID m), rp_Priority = ''high'',
                rp_InputJSON = Some (input_json i)\<rparr>;
         case r of
           Inl e \<Rightarrow> do {
             _ \<leftarrow> in_db (CompleteMachineOperation (o_ID op) ''failed'' (Some ''failed to create migration workflow''));
             ret (error_reply 500 ''failed to create migration workflow'', None)
           }
         | Inr run \<Rightarrow> do {
             ev \<leftarrow> in_db (CreateWorkflowEvent (workflow_event_of wid None ''workflow.queued'' ''migration queued'' (Some (queued_details i))));
             case ev of
               Inl e \<Rightarrow> do {
                 _ \<leftarrow> queue_failed wid (o_ID op) ''workflow_queue_failed'' e;
                 ret (error_reply 500 ''failed to queue migration workflow'', None)
               }
             | Inr _ \<Rightarrow> (case enqueue of
                 Inl e \<Rightarrow> do {
                   _ \<leftarrow> queue_failed wid (o_ID op) ''workflow_enqueue_failed'' e;
                   ret (error_reply 500 ''failed to enqueue migration workflow'', None)
                 }
               | Inr _ \<Rightarrow> ret ((202, JObj [(''status'', JStr ''queued''), (''workflow_id'', JStr wid),
                     (''machine_id'', JStr (mr_MachineID (mi_Request i))), (''target_host_id'', JNum (mr_TargetHostID (mi_Request i)))]), Some i))
           }
       })
   }"

definition enqueueAdminMigrationWorkflow ::
  "migration_server \<Rightarrow> bool \<Rightarrow> nat list result \<Rightarrow> unit result \<Rightarrow> int option \<Rightarrow> migration_request \<Rightarrow>
   (world, api_reply \<times> migration_input option) state" where
  "enqueueAdminMigrationWorkflow ms runtime random enqueue userID req = do {
     v \<leftarrow> validateMigrationRequest ms req;
     case v of
       Inl (Invalid msg) \<Rightarrow> ret (error_reply 400 msg, None)
     | Inl (Failed e) \<Rightarrow> ret (error_reply (if errors_is e ErrNoRows then 404 else 500) (error_text e), None)
     | Inr (m, _) \<Rightarrow>
         if \<not> runtime then ret (error_reply 503 ''workflow runtime not configured'', None)
         else (case generateWorkflowID random of
            Inl e \<Rightarrow> ret (error_reply 500 ''failed to generate workflow ID'', None)
          | Inr wid \<Rightarrow> enqueue_run enqueue
              \<lparr>mi_Request = req, mi_OperationID = '''', mi_RequestedByUserID = userID, mi_AccountID = m_AccountID m\<rparr> m wid)
   }"

section \<open>What a migration keeps\<close>

text \<open>The calls of a migration beyond those of the services.\<close>

locale migration_session = vm_session +
  assumes ReleaseMigration_keeps: "S v m 0 \<Longrightarrow> triple I (ReleaseMigrationSource mid hid v m rel) (\<lambda>_. True)"
    and RunStatus_keeps: "triple I (UpdateWorkflowRunStatus wid st ph sm ec em) (\<lambda>_. True)"
    and CompleteRun_keeps: "triple I (CompleteWorkflowRun wid st out ec em) (\<lambda>_. True)"
    and WorkflowEvent_keeps: "triple I (CreateWorkflowEvent ev) (\<lambda>_. True)"
    and CreateBackup_keeps: "triple I (CreateBackupRecord b) (\<lambda>_. True)"
begin

lemma migration_reads_keep: "triple I (GetActivePlacement mid) (\<lambda>_. True)"
  by (simp add: GetActivePlacement_def inv_query)

lemmas migration_keeps = keeps_in_db [OF RunStatus_keeps] keeps_in_db [OF CompleteRun_keeps] keeps_in_db [OF WorkflowEvent_keeps]
  keeps_in_db [OF CreateBackup_keeps] keeps_in_db [OF migration_reads_keep] keeps_in_db [OF clock_keeps] world_keeps

lemma run_attempts_keeps: "triple J step (\<lambda>_. True) \<Longrightarrow> triple J (run_attempts n step) (\<lambda>_. True)"
  by (induction n) (auto intro!: triple_rules)

lemma RunAsStep_keeps: "triple J step (\<lambda>_. True) \<Longrightarrow> triple J (RunAsStep env n step) (\<lambda>_. True)"
  by (simp add: RunAsStep_def run_attempts_keeps)

lemma state_keeps: "triple (\<lambda>w. I (w_db w)) (updateMigrationWorkflowState wid st ph x msg d) (\<lambda>_. True)"
  unfolding updateMigrationWorkflowState_def by (rule migration_keeps | simp)+

lemma ingress_keeps: "triple (\<lambda>w. I (w_db w)) (cleanupMachineIngress ms m) (\<lambda>_. True)"
  unfolding cleanupMachineIngress_def by (rule migration_keeps | simp)+

lemma createMigrationBackup_keeps: "triple (\<lambda>w. I (w_db w)) (createMigrationBackup ms m source) (\<lambda>_. True)"
  unfolding createMigrationBackup_def by (rule migration_keeps | simp)+

text \<open>Steps that read the machine and then give resources of its size back.\<close>

lemmas sized_read = triple_bind [OF keeps_in_db [OF GetMachine_sizes]]

lemma abort_step_keeps: "triple (\<lambda>w. I (w_db w)) (abort_step ms req source) (\<lambda>_. True)"
  unfolding abort_step_def finalizeStoppedSourceAfterMigrationAbort_def
  by (rule sized_read keeps_in_db [OF SoftStop_keeps] ingress_keeps migration_keeps | simp)+

lemma release_source_step_keeps: "triple (\<lambda>w. I (w_db w)) (release_source_step ms req source rel) (\<lambda>_. True)"
  unfolding release_source_step_def releaseMigrationSource_def
  by (rule sized_read keeps_in_db [OF ReleaseMigration_keeps] ingress_keeps migration_keeps | simp)+

lemma validate_keeps: "triple (\<lambda>w. I (w_db w)) (validateMigrationRequest ms req) (\<lambda>_. True)"
  unfolding validateMigrationRequest_def by (rule migration_keeps | simp)+

lemma prepare_step_keeps: "triple (\<lambda>w. I (w_db w)) (prepare_step ms req) (\<lambda>_. True)"
  unfolding prepare_step_def by (rule validate_keeps migration_keeps | simp)+

lemma stop_source_step_keeps: "triple (\<lambda>w. I (w_db w)) (stop_source_step ms req source) (\<lambda>_. True)"
  unfolding stop_source_step_def by (rule migration_keeps | simp)+

lemma backup_source_step_keeps: "triple (\<lambda>w. I (w_db w)) (backup_source_step ms req source) (\<lambda>_. True)"
  unfolding backup_source_step_def by (rule createMigrationBackup_keeps migration_keeps | simp)+

lemma destroy_source_step_keeps: "triple (\<lambda>w. I (w_db w)) (destroy_source_step ms req source) (\<lambda>_. True)"
  unfolding destroy_source_step_def by (rule migration_keeps | simp)+

lemma snapshot_keeps: "triple (\<lambda>w. I (w_db w)) (currentMigrationStartSnapshot mid hid) (\<lambda>_. True)"
  unfolding currentMigrationStartSnapshot_def by (rule migration_keeps | simp)+

lemma wait_exits_keep:
  "triple (\<lambda>w. I (w_db w)) (wait_failed mid st msg) (\<lambda>_. True)"
  "triple (\<lambda>w. I (w_db w)) (target_running ms mid h pid) (\<lambda>_. True)"
  unfolding wait_failed_def target_running_def syncMachineRouteToKV_def by (rule migration_keeps | simp)+

lemma wait_running_keeps:
  "triple (\<lambda>w. I (w_db w)) (waitForMachineRunningOnHost ms n errs lastErr mid h pid) (\<lambda>_. True)"
  by (induction n arbitrary: errs lastErr)
     (simp_all only: waitForMachineRunningOnHost.simps wait_exits_keep,
      (rule triple_rules keeps_in_net wait_exits_keep | assumption)+)

lemma wait_status_keeps: "triple (\<lambda>w. I (w_db w)) (waitForMachineStatus n mid st) (\<lambda>_. True)"
  by (induction n) (simp_all only: waitForMachineStatus.simps, (rule migration_keeps | assumption | simp)+)

text \<open>The steps that start and stop machines need a disk size for machines that have none.\<close>

lemma service_steps_keep:
  assumes "0 \<le> pc_DefaultDiskPerVM (rt_placement (ms_machines ms))" "mi_OperationID input \<noteq> ''''"
  shows "triple (\<lambda>w. I (w_db w)) (start_target_step ms env input) (\<lambda>_. True)"
    and "triple (\<lambda>w. I (w_db w)) (restart_step ms env input) (\<lambda>_. True)"
    and "triple (\<lambda>w. I (w_db w)) (stop_for_restore_step ms input) (\<lambda>_. True)"
  unfolding start_target_step_def restart_step_def stop_for_restore_step_def Let_def
  by (rule sized_read start_under_operation_keeps [OF assms] stop_under_operation_keeps [OF assms] snapshot_keeps
      migration_keeps | simp)+

lemma restore_step_keeps: "triple (\<lambda>w. I (w_db w)) (restore_step ms mid snap) (\<lambda>_. True)"
  unfolding restore_step_def by (rule migration_keeps | simp)+

lemma wait_phase_keeps:
  assumes "0 \<le> pc_DefaultDiskPerVM (ms_placement ms)"
  shows "triple (\<lambda>w. I (w_db w)) (wait_phase ms env polls mid st) (\<lambda>_. True)"
  unfolding wait_phase_def cleanupFailedMigrationTarget_def wait_running_step_def
  by (rule RunAsStep_keeps wait_running_keeps ingress_keeps Release_keeps [OF assms] migration_keeps | simp)+

lemmas phase_rules = state_keeps RunAsStep_keeps

lemma source_phases_keep:
  "triple (\<lambda>w. I (w_db w)) (stop_source_phase ms env req wid x plan) (\<lambda>_. True)"
  "triple (\<lambda>w. I (w_db w)) (backup_phase ms env req wid x plan) (\<lambda>_. True)"
  "triple (\<lambda>w. I (w_db w)) (leave_source_phase ms env req wid x plan) (\<lambda>_. True)"
  unfolding stop_source_phase_def backup_phase_def leave_source_phase_def
  by (rule phase_rules stop_source_step_keeps backup_source_step_keeps abort_step_keeps destroy_source_step_keeps
      release_source_step_keeps triple_rules | simp)+

lemma target_phases_keep:
  assumes "0 \<le> pc_DefaultDiskPerVM (rt_placement (ms_machines ms))" "0 \<le> pc_DefaultDiskPerVM (ms_placement ms)"
    and "mi_OperationID input \<noteq> ''''"
  shows "triple (\<lambda>w. I (w_db w)) (target_phase ms env input wid x) (\<lambda>_. True)"
    and "triple (\<lambda>w. I (w_db w)) (restore_phase ms env input wid x snap) (\<lambda>_. True)"
  unfolding target_phase_def restore_phase_def stop_restore_phase_def restart_phase_def Let_def
  by (rule phase_rules service_steps_keep [OF assms(1,3)] wait_phase_keeps [OF assms(2)] wait_status_keeps
      restore_step_keeps triple_rules | simp)+

lemma migration_body_keeps:
  assumes "0 \<le> pc_DefaultDiskPerVM (rt_placement (ms_machines ms))" "0 \<le> pc_DefaultDiskPerVM (ms_placement ms)"
    and "mi_OperationID input \<noteq> ''''"
  shows "triple (\<lambda>w. I (w_db w)) (migration_body ms env input wid) (\<lambda>_. True)"
  unfolding migration_body_def move_machine_def Let_def
  by (rule phase_rules prepare_step_keeps source_phases_keep target_phases_keep [OF assms] triple_rules | simp)+

lemma finalize_keeps: "triple (\<lambda>w. I (w_db w)) (finalizeMigrationWorkflow wid opid x err) (\<lambda>_. True)"
  unfolding finalizeMigrationWorkflow_def by (rule state_keeps migration_keeps | simp)+

lemma runMigrationWorkflow_keeps:
  assumes "0 \<le> pc_DefaultDiskPerVM (rt_placement (ms_machines ms))" "0 \<le> pc_DefaultDiskPerVM (ms_placement ms)"
    and "mi_OperationID input \<noteq> ''''"
  shows "triple (\<lambda>w. I (w_db w)) (runMigrationWorkflow ms env input wid) (\<lambda>_. True)"
  unfolding runMigrationWorkflow_def by (rule migration_body_keeps [OF assms] finalize_keeps triple_rules | simp)+

end

end
