(* ===== verification/Migration_Properties.thy ===== *)
theory Migration_Properties
  imports Migration Lifecycle_Properties Backup_Properties
begin

text \<open>What a migration leaves: the invariants of the database, its operation, and the data of the machine.\<close>

section \<open>Invariants\<close>

lemma db_ok_migration_calls:
  "0 \<le> v \<and> 0 \<le> m \<and> 0 \<le> d \<Longrightarrow> triple db_ok (ReleaseMigrationSource mid hid v m rel) (\<lambda>_. True)"
  "triple db_ok (UpdateWorkflowRunStatus wid st ph sm ec em) (\<lambda>_. True)"
  "triple db_ok (CompleteWorkflowRun wid st out ec em) (\<lambda>_. True)"
  "triple db_ok (CreateWorkflowEvent ev) (\<lambda>_. True)"
  "triple db_ok (CreateBackupRecord b) (\<lambda>_. True)"
  by (rule db_ok_triple, rule schema_triples, rule capacity_triples; simp)+

interpretation live_migration: migration_session db_ok "\<lambda>v m d. 0 \<le> v \<and> 0 \<le> m \<and> 0 \<le> d"
  by unfold_locales (rule db_ok_migration_calls; assumption)+

text \<open>
  C13: a migration keeps the database well formed. From a database in which the unique indexes and the
  capacities hold, a migration ends in such a database, whatever step fails or is repeated,
  whatever the agents and Cloudflare answer and whichever database calls fail.
\<close>
theorem migration_keeps_db_ok:
  assumes "db_ok (w_db w)" "mi_OperationID input \<noteq> ''''"
    and "0 \<le> pc_DefaultDiskPerVM (rt_placement (ms_machines ms))" "0 \<le> pc_DefaultDiskPerVM (ms_placement ms)"
  shows "db_ok (w_db (final_state (runMigrationWorkflow ms env input workflowID) w))"
  using live_migration.runMigrationWorkflow_keeps [OF assms(3,4,2)] assms(1) by (rule tripleD)

section \<open>The operation of a migration\<close>















section \<open>The data of the machine\<close>

text \<open>Requests that do no harm to a VM: those to Cloudflare, and to stop it or to back it up.\<close>

definition spares_vm :: "string \<Rightarrow> http_request \<Rightarrow> bool" where
  "spares_vm mid rq = ((\<exists>r. rq_URL rq = ''https://api.cloudflare.com/client/v4/'' @ r) \<or>
     rq_Method rq = ''POST'' \<and> (\<exists>h. rq_URL rq = agentURL h @ ''/vms/'' @ mid @ ''/stop'' \<or> rq_URL rq = agentURL h @ backup_path mid))"

definition spared_since :: "string \<Rightarrow> (http_request \<times> http_reply) list \<Rightarrow> net \<Rightarrow> bool" where
  "spared_since mid log n = (\<exists>more. net_log n = log @ more \<and> (\<forall>e \<in> set more. spares_vm mid (fst e)))"

lemma http_do_spares: "spares_vm mid rq \<Longrightarrow> triple (spared_since mid log) (http_do rq) (\<lambda>_. True)"
  by (rule tripleI) (auto simp: http_do_def spared_since_def Let_def)

lemma cloudflare_spares:
  "spares_vm mid \<lparr>rq_Method = me, rq_URL = kv_del_url kv key, rq_Token = t, rq_Body = b\<rparr>"
  "spares_vm mid (cf_request tm me (api_accounts tm @ r) body)"
  "spares_vm mid (cf_request tm me (dns_records_url tm @ r) body)"
  by (simp_all add: spares_vm_def kv_del_url_def kv_base_def cf_request_def api_accounts_def dns_records_url_def)

lemma delete_route_spares: "triple (spared_since mid log) (DeleteRouteSync kv a m) (\<lambda>_. True)"
proof -
  have "triple (spared_since mid log) (kv_del kv key) (\<lambda>_. True)" for key
    unfolding kv_del_def by (rule triple_rules http_do_spares cloudflare_spares | simp)+
  then have "triple (spared_since mid log) (with_retry n (kv_del kv key) e) (\<lambda>_. True)" for n key e
    by (induction n arbitrary: e) (auto intro!: triple_rules)
  then show ?thesis by (simp add: DeleteRouteSync_def delWithRetry_def)
qed

lemma cf_send_spares:
  "triple (spared_since mid log) (cf_send tm act me (api_accounts tm @ r) body) (\<lambda>_. True)"
  "triple (spared_since mid log) (cf_send tm act me (dns_records_url tm @ r) body) (\<lambda>_. True)"
  unfolding cf_send_def by (rule triple_rules http_do_spares cloudflare_spares | simp)+

lemma delete_tunnel_spares: "triple (spared_since mid log) (DeleteTunnelAndDNS tm tid hs) (\<lambda>_. True)"
proof -
  have records: "triple (spared_since mid log) (delete_records tm rids) (\<lambda>_. True)" for rids
    by (induction rids) (auto intro!: triple_rules cf_send_spares)
  have routes: "triple (spared_since mid log) (delete_dns_routes tm hs) (\<lambda>_. True)"
    by (induction hs) (auto simp: DeleteDNSRoute_def intro!: triple_rules cf_send_spares records)
  have tunnel: "triple (spared_since mid log) (DeleteTunnel tm tid) (\<lambda>_. True)"
    unfolding DeleteTunnel_def delete_tunnel_as_def by (rule triple_rules cf_send_spares | simp)+
  show ?thesis unfolding DeleteTunnelAndDNS_def by (rule triple_rules routes tunnel | simp)+
qed

lemma agent_requests_spare:
  "spares_vm mid \<lparr>rq_Method = ''POST'', rq_URL = agentURL h @ ''/vms/'' @ mid @ ''/stop'', rq_Token = t, rq_Body = b\<rparr>"
  "spares_vm mid \<lparr>rq_Method = ''POST'', rq_URL = agentURL h @ backup_path mid, rq_Token = t, rq_Body = b\<rparr>"
  by (auto simp: spares_vm_def)

lemma agent_calls_spare:
  "triple (spared_since mid log) (StopVM c h mid) (\<lambda>_. True)"
  "triple (spared_since mid log) (BackupVM c h mid key) (\<lambda>_. True)"
  unfolding StopVM_def BackupVM_def agent_exec_def doRequest_def
  by (rule triple_rules http_do_spares agent_requests_spare | simp)+

text \<open>The machine is still on its host and its VM was spared.\<close>

definition on_source :: "string \<Rightarrow> int \<Rightarrow> db \<Rightarrow> bool" where
  "on_source mid source s = (\<exists>m. find_machine mid s = Some m \<and> m_HostID m = Some source)"

interpretation source_inv: db_invariant "on_source mid source" for mid source
  by unfold_locales (simp add: on_source_def find_machine_def)

lemma on_source_updates [simp]:
  "on_source mid source (on_host k g s) = on_source mid source s"
  "on_source mid source (s\<lparr>machine_placements := ps\<rparr>) = on_source mid source s"
  "on_source mid source (s\<lparr>workflow_runs := rs\<rparr>) = on_source mid source s"
  "on_source mid source (s\<lparr>workflow_events := es\<rparr>) = on_source mid source s"
  "on_source mid source (s\<lparr>machine_operations := os\<rparr>) = on_source mid source s"
  "on_source mid source (s\<lparr>machine_backups := bs\<rparr>) = on_source mid source s"
  "on_source mid source (s\<lparr>db_serial := n\<rparr>) = on_source mid source s"
  by (simp_all add: on_source_def find_machine_def on_host_def)

lemma on_source_on_machine:
  "on_source mid source s \<Longrightarrow> (\<And>m. m_ID (f m) = m_ID m \<and> m_HostID (f m) = m_HostID m) \<Longrightarrow> on_source mid source (on_machine k f s)"
  by (auto simp: on_source_def)

lemma source_statements:
  "triple (on_source mid source) (UpdateWorkflowRunStatus wid st ph sm ec em) (\<lambda>_. True)"
  "triple (on_source mid source) (CompleteWorkflowRun wid st out ec em) (\<lambda>_. True)"
  "triple (on_source mid source) (CreateWorkflowEvent ev) (\<lambda>_. True)"
  "triple (on_source mid source) (CompleteMachineOperation opid st msg) (\<lambda>_. True)"
  "triple (on_source mid source) (CreateBackupRecord b) (\<lambda>_. True)"
  "triple (on_source mid source) (SoftStopMachine k hid v m d) (\<lambda>_. True)"
  "triple (on_source mid source) (UpdateMachineHomeHost k home) (\<lambda>_. True)"
  unfolding UpdateWorkflowRunStatus_def CompleteWorkflowRun_def CreateWorkflowEvent_def CompleteMachineOperation_def
    CreateBackupRecord_def SoftStopMachine_def UpdateMachineHomeHost_def
  by (rule source_inv.inv_tx, auto simp: Let_def complete_operation_def create_backup_def stop_machine_def split: if_splits option.splits
      intro!: on_source_on_machine)+

lemma source_execs:
  "triple (on_source mid source) (ReleasePlacement k) (\<lambda>_. True)"
  "triple (on_source mid source) (ClearMachineTunnel k) (\<lambda>_. True)"
  unfolding ReleasePlacement_def ClearMachineTunnel_def
  by (rule source_inv.inv_exec, auto simp: release_placements_def intro!: on_source_on_machine)+

lemma source_reads:
  "triple (on_source mid source) (GetHost hid) (\<lambda>_. True)" "triple (on_source mid source) (GetAccount a) (\<lambda>_. True)"
  "triple (on_source mid source) (GetMachine k) (\<lambda>_. True)" "triple (on_source mid source) clock (\<lambda>_. True)"
  by (simp_all add: GetHost_def GetAccount_def GetMachine_def source_inv.inv_query) (simp add: clock_def triple_def)

definition source_kept :: "string \<Rightarrow> int \<Rightarrow> (http_request \<times> http_reply) list \<Rightarrow> world \<Rightarrow> bool" where
  "source_kept mid source log w = (on_source mid source (w_db w) \<and> spared_since mid log (w_net w))"

lemma source_kept_db: "triple (on_source mid source) m Q \<Longrightarrow> triple (source_kept mid source log) (in_db m) Q"
  by (simp add: triple_def source_kept_def)

lemma source_kept_net: "triple (spared_since mid log) m Q \<Longrightarrow> triple (source_kept mid source log) (in_net m) Q"
  by (simp add: triple_def source_kept_def)

lemmas source_rules = triple_rules source_kept_db [OF source_statements(1)] source_kept_db [OF source_statements(2)]
  source_kept_db [OF source_statements(3)] source_kept_db [OF source_statements(4)] source_kept_db [OF source_statements(5)]
  source_kept_db [OF source_statements(6)] source_kept_db [OF source_statements(7)] source_kept_db [OF source_execs(1)]
  source_kept_db [OF source_execs(2)] source_kept_db [OF source_reads(1)] source_kept_db [OF source_reads(2)]
  source_kept_db [OF source_reads(3)] source_kept_db [OF source_reads(4)] source_kept_net [OF delete_route_spares]
  source_kept_net [OF delete_tunnel_spares] source_kept_net [OF agent_calls_spare(1)] source_kept_net [OF agent_calls_spare(2)]

text \<open>Reading the machine while it is on its source.\<close>

lemma read_on_source:
  "triple (on_source mid source) (GetMachine mid) (\<lambda>r. \<forall>m. r = Inr m \<longrightarrow> m_ID m = mid \<and> m_HostID m = Some source)"
  unfolding GetMachine_def
  by (rule source_inv.inv_query_post) (auto simp: on_source_def dest: find_machine_Some)

lemmas source_read = triple_bind [OF source_kept_db [OF read_on_source]]

lemma run_attempts_post: "triple J step Q \<Longrightarrow> triple J (run_attempts n step) Q"
  by (induction n) (auto intro!: triple_return triple_case_sum elim!: triple_bind)

lemma RunAsStep_post: "triple J step Q \<Longrightarrow> triple J (RunAsStep env n step) Q"
  by (simp add: RunAsStep_def run_attempts_post)

abbreviation good_plan :: "migration_request \<Rightarrow> int \<Rightarrow> migration_plan \<Rightarrow> bool" where
  "good_plan req source plan \<equiv> pn_SourceHostID plan = Some source \<and> (mr_Force req \<or> pn_CanBackup plan)"

lemma validate_on_source:
  "triple (source_kept (mr_MachineID req) source log) (validateMigrationRequest ms req)
     (\<lambda>r. \<forall>m t src can. r = Inr (m, t, src, can) \<longrightarrow> src = Some source \<and> (mr_Force req \<or> can))"
  unfolding validateMigrationRequest_def
  by (rule source_read source_rules | auto simp: Let_def intro!: triple_return)+

lemma prepare_on_source:
  "triple (source_kept (mr_MachineID req) source log) (prepare_step ms req) (\<lambda>r. \<forall>plan. r = Inr plan \<longrightarrow> good_plan req source plan)"
  unfolding prepare_step_def
  by (rule triple_bind [OF validate_on_source] source_rules | auto intro!: triple_return)+

lemma ingress_on_source: "triple (source_kept mid source log) (cleanupMachineIngress ms m) (\<lambda>_. True)"
  unfolding cleanupMachineIngress_def by (rule source_rules | simp)+

lemma state_on_source: "triple (source_kept mid source log) (updateMigrationWorkflowState wid st ph x msg d) (\<lambda>_. True)"
  unfolding updateMigrationWorkflowState_def by (rule source_rules | simp)+

lemma steps_on_source:
  "triple (source_kept (mr_MachineID req) source log) (stop_source_step ms req k) (\<lambda>_. True)"
  "triple (source_kept (mr_MachineID req) source log) (backup_source_step ms req k) (\<lambda>_. True)"
  "triple (source_kept (mr_MachineID req) source log) (abort_step ms req k) (\<lambda>_. True)"
  unfolding stop_source_step_def backup_source_step_def abort_step_def createMigrationBackup_def
    finalizeStoppedSourceAfterMigrationAbort_def
  by (rule source_read ingress_on_source source_rules | simp)+

lemma finalize_on_source: "triple (source_kept mid source log) (finalizeMigrationWorkflow wid opid x err) (\<lambda>_. True)"
  unfolding finalizeMigrationWorkflow_def by (rule state_on_source source_rules | simp)+

lemma phases_on_source:
  "triple (source_kept (mr_MachineID req) source log) (stop_source_phase ms env req wid x plan) (\<lambda>_. True)"
  "triple (source_kept (mr_MachineID req) source log) (backup_phase ms env req wid x plan) (\<lambda>_. True)"
  unfolding stop_source_phase_def backup_phase_def
  by (rule state_on_source RunAsStep_post steps_on_source triple_rules | simp)+

text \<open>A recorded backup stays, whatever the services and the migration do afterwards.\<close>

definition backup_kept :: "backup_record \<Rightarrow> db \<Rightarrow> bool" where
  "backup_kept row s = (row \<in> set (machine_backups s))"

interpretation kept_inv: db_invariant "backup_kept row" for row
  by unfold_locales (simp add: backup_kept_def)

lemma backup_kept_updates [simp]:
  "backup_kept row (on_machine k f s) = backup_kept row s"
  "backup_kept row (on_host j g s) = backup_kept row s"
  "backup_kept row (s\<lparr>machines := ms\<rparr>) = backup_kept row s"
  "backup_kept row (s\<lparr>machine_placements := ps\<rparr>) = backup_kept row s"
  "backup_kept row (s\<lparr>browser_vm_placements := bs\<rparr>) = backup_kept row s"
  "backup_kept row (s\<lparr>machine_operations := ops\<rparr>) = backup_kept row s"
  "backup_kept row (s\<lparr>workflow_runs := rs\<rparr>) = backup_kept row s"
  "backup_kept row (s\<lparr>workflow_events := es\<rparr>) = backup_kept row s"
  "backup_kept row (s\<lparr>db_uuids := u\<rparr>) = backup_kept row s"
  "backup_kept row (s\<lparr>db_serial := n\<rparr>) = backup_kept row s"
  by (simp_all add: backup_kept_def on_machine_def on_host_def)

lemma kept_transactions:
  "triple (backup_kept row) (PlaceOnHost hid k v m d) (\<lambda>_. True)"
  "triple (backup_kept row) (ReAllocateHostCapacity k hid v m d) (\<lambda>_. True)"
  "triple (backup_kept row) (SoftStopMachine k hid v m d) (\<lambda>_. True)"
  "triple (backup_kept row) (PlaceBrowserVMOnHost hid bid v m) (\<lambda>_. True)"
  "triple (backup_kept row) (ReleaseBrowserVMPlacement bid) (\<lambda>_. True)"
  "triple (backup_kept row) (ReservePlacement k hid ip op) (\<lambda>_. True)"
  "triple (backup_kept row) (ActivatePlacement pid) (\<lambda>_. True)"
  "triple (backup_kept row) (UpdateMachineHomeHost k home) (\<lambda>_. True)"
  "triple (backup_kept row) (MarkMachinesOnHostError hid txt) (\<lambda>_. True)"
  unfolding held_txs
  by (rule kept_inv.inv_tx, auto simp: Let_def split: if_splits option.splits sum.splits list.splits)+

lemma kept_statements:
  "triple (backup_kept row) (ReleaseHostCapacityWithDisk hid v m d) (\<lambda>_. True)"
  "triple (backup_kept row) (ReleasePlacement k) (\<lambda>_. True)"
  "triple (backup_kept row) (UnassignMachineFromHost k) (\<lambda>_. True)"
  "triple (backup_kept row) (UpdateMachineStatus k st msg) (\<lambda>_. True)"
  "triple (backup_kept row) (SetMachineTokens k gw px) (\<lambda>_. True)"
  "triple (backup_kept row) (UpdateMachineVersion k snap ver) (\<lambda>_. True)"
  "triple (backup_kept row) (UpdateMachineTunnel k tid key) (\<lambda>_. True)"
  "triple (backup_kept row) (ClearMachineTunnel k) (\<lambda>_. True)"
  "triple (backup_kept row) (UnpairBrowserVM k) (\<lambda>_. True)"
  unfolding ReleaseHostCapacityWithDisk_def ReleasePlacement_def UnassignMachineFromHost_def UpdateMachineStatus_def
    SetMachineTokens_def UpdateMachineVersion_def UpdateMachineTunnel_def ClearMachineTunnel_def UnpairBrowserVM_def
  by (rule kept_inv.inv_exec, simp add: release_placements_def)+

lemma kept_operations:
  "triple (backup_kept row) (CompleteMachineOperation j st msg) (\<lambda>_. True)"
  "triple (backup_kept row) (ExpireStaleOperations old) (\<lambda>_. True)"
  "triple (backup_kept row) (ReleaseMigrationSource mid hid v m rel) (\<lambda>_. True)"
  "triple (backup_kept row) (UpdateWorkflowRunStatus wid st ph sm ec em) (\<lambda>_. True)"
  "triple (backup_kept row) (CompleteWorkflowRun wid st out ec em) (\<lambda>_. True)"
  "triple (backup_kept row) (CreateWorkflowEvent ev) (\<lambda>_. True)"
  unfolding CompleteMachineOperation_def ExpireStaleOperations_def ReleaseMigrationSource_def UpdateWorkflowRunStatus_def
    CompleteWorkflowRun_def CreateWorkflowEvent_def release_migration_source_def release_placements_def
  by (rule kept_inv.inv_tx, auto simp: complete_operation_def Let_def split: if_splits option.splits)+

lemma kept_create: "triple (backup_kept row) (CreateBackupRecord b) (\<lambda>_. True)"
  unfolding CreateBackupRecord_def
  by (rule kept_inv.inv_tx) (auto simp: create_backup_def backup_kept_def Let_def split: if_splits option.splits)

interpretation kept: migration_session "backup_kept row" "\<lambda>_ _ _. True" for row
  by unfold_locales (simp_all add: kept_transactions kept_statements kept_operations kept_create)

text \<open>A backup that succeeds is recorded.\<close>

definition backup_of :: "string \<Rightarrow> int \<Rightarrow> backup_snapshot \<Rightarrow> backup_record \<Rightarrow> bool" where
  "backup_of mid source b row = (snapshot_of row = b \<and> br_MachineID row = mid \<and> br_HostID row = Some source \<and> br_Trigger row = ''migration'')"

lemma create_recorded:
  assumes "outcome (CreateBackupRecord r) s = Inr row"
  shows "backup_kept row (final_state (CreateBackupRecord r) s)" "br_MachineID row = br_MachineID r"
    "br_HostID row = br_HostID r" "br_Trigger row = br_Trigger r"
  using assms
  by (auto simp: CreateBackupRecord_def create_backup_def tx_def db_call_def backup_kept_def Let_def
      split: list.split_asm bool.split_asm if_split_asm option.split_asm)

lemma backup_recorded:
  assumes "run_state (createMigrationBackup ms m source) w = (Inr row, w')"
  shows "backup_kept row (w_db w') \<and> backup_of (m_ID m) source (snapshot_of row) row"
  using assms unfolding createMigrationBackup_def
  by (auto simp: split_beta backup_of_def migration_record_def split: sum.split_asm dest: create_recorded)

lemma GetMachine_id: "outcome (GetMachine mid) s = Inr m \<Longrightarrow> m_ID m = mid"
  by (auto simp: GetMachine_def query_def db_call_def dest!: find_machine_Some split: list.split_asm bool.split_asm option.split_asm)

lemma run_attempts_last:
  "outcome (run_attempts n step) w = Inr x \<Longrightarrow> \<exists>w0. run_state step w0 = (Inr x, final_state (run_attempts n step) w)"
proof (induction n arbitrary: w)
  case (Suc n)
  then show ?case by (cases "outcome step w") (auto simp: split_beta prod_eq_iff)
qed (auto simp: prod_eq_iff)

lemma backup_phase_recorded:
  assumes "outcome (backup_phase ms env req wid x plan) w = Inr snap" "good_plan req source plan" "\<not> mr_Force req"
    and "w' = final_state (backup_phase ms env req wid x plan) w"
  shows "\<exists>b row. snap = Some b \<and> backup_kept row (w_db w') \<and> backup_of (mr_MachineID req) source b row"
proof -
  let ?w = "final_state (updateMigrationWorkflowState wid ''running'' ''backup_source'' x ''creating migration backup'' None) w"
  have b: "outcome (RunAsStep env 1 (backup_source_step ms req source)) ?w = Inr snap"
    "w' = final_state (RunAsStep env 1 (backup_source_step ms req source)) ?w"
    using assms by (auto simp: backup_phase_def split_beta split: sum.split_asm)
  then obtain w0 where "run_state (backup_source_step ms req source) w0 = (Inr snap, w')"
    unfolding RunAsStep_def using run_attempts_last by metis
  then obtain m row where "snap = Some (snapshot_of row)" "m_ID m = mr_MachineID req"
    "run_state (createMigrationBackup ms m source) (w0\<lparr>w_db := final_state (GetMachine (mr_MachineID req)) (w_db w0)\<rparr>) = (Inr row, w')"
    using assms(3) unfolding backup_source_step_def
    by (auto simp: split_beta prod_eq_iff split: sum.split_asm dest!: GetMachine_id)
  then show ?thesis using backup_recorded by metis
qed

lemma move_machine_keeps_backup:
  assumes "0 \<le> pc_DefaultDiskPerVM (rt_placement (ms_machines ms))" "0 \<le> pc_DefaultDiskPerVM (ms_placement ms)"
    and "mi_OperationID input \<noteq> ''''"
  shows "triple (\<lambda>w. backup_kept row (w_db w)) (move_machine ms env input wid plan x snap) (\<lambda>r. mx_BackupID (fst r) = mx_BackupID x)"
  unfolding move_machine_def Let_def
  by (rule kept.state_keeps kept.source_phases_keep kept.target_phases_keep [OF assms] triple_rules | simp)+

lemma migration_body_cases:
  assumes "source_kept (mr_MachineID (mi_Request input)) source log w" "\<not> mr_Force (mi_Request input)" "mi_OperationID input \<noteq> ''''"
    and "0 \<le> pc_DefaultDiskPerVM (rt_placement (ms_machines ms))" "0 \<le> pc_DefaultDiskPerVM (ms_placement ms)"
    and "run_state (migration_body ms env input wid) w = ((x, err), w')"
  shows "(\<exists>b row. mx_BackupID x = Some (bs_ID b) \<and> backup_kept row (w_db w') \<and> backup_of (mr_MachineID (mi_Request input)) source b row) \<or>
    mx_BackupID x = None \<and> err \<noteq> None \<and> source_kept (mr_MachineID (mi_Request input)) source log w'"
proof -
  let ?req = "mi_Request input"
  let ?x = "\<lparr>mx_WorkflowID = wid, mx_Status = '''', mx_MachineID = mr_MachineID ?req, mx_TargetHostID = mr_TargetHostID ?req, mx_BackupID = None\<rparr>"
  let ?w1 = "final_state (updateMigrationWorkflowState wid ''running'' ''prepare'' ?x ''migration started'' None) w"
  let ?p = "RunAsStep env 3 (prepare_step ms ?req)"
  let ?w2 = "final_state ?p ?w1"
  have w1: "source_kept (mr_MachineID ?req) source log ?w1" using state_on_source assms(1) by (rule tripleD)
  have prepare: "triple (source_kept (mr_MachineID ?req) source log) ?p (\<lambda>r. \<forall>plan. r = Inr plan \<longrightarrow> good_plan ?req source plan)"
    by (rule RunAsStep_post, rule prepare_on_source)
  have w2: "source_kept (mr_MachineID ?req) source log ?w2" using prepare w1 by (rule tripleD)
  show ?thesis
  proof (cases "outcome ?p ?w1")
    case (Inl e)
    then show ?thesis using assms(6) w2 by (auto simp: migration_body_def Let_def split_beta)
  next
    case (Inr plan)
    then have plan: "good_plan ?req source plan" using triple_post [OF prepare, OF w1] by simp
    let ?s = "stop_source_phase ms env ?req wid ?x plan" and ?b = "backup_phase ms env ?req wid ?x plan"
    let ?w3 = "final_state ?s ?w2"
    let ?w4 = "final_state ?b ?w3"
    have w3: "source_kept (mr_MachineID ?req) source log ?w3" using phases_on_source(1) w2 by (rule tripleD)
    have w4: "source_kept (mr_MachineID ?req) source log ?w4" using phases_on_source(2) w3 by (rule tripleD)
    show ?thesis
    proof (cases "\<exists>u snap. outcome ?s ?w2 = Inr u \<and> outcome ?b ?w3 = Inr snap")
      case False
      then show ?thesis using assms(6) Inr w3 w4 by (auto simp: migration_body_def Let_def split_beta split: sum.split_asm)
    next
      case True
      then obtain u snap where s: "outcome ?s ?w2 = Inr u" and b: "outcome ?b ?w3 = Inr snap" by blast
      from backup_phase_recorded [OF b plan assms(2) refl] obtain bs row
        where snap: "snap = Some bs" and row: "backup_kept row (w_db ?w4)" "backup_of (mr_MachineID ?req) source bs row" by blast
      note move = move_machine_keeps_backup [OF assms(4,5,3), of row env wid plan "?x\<lparr>mx_BackupID := Some (bs_ID bs)\<rparr>" snap]
      have "((x, err), w') = run_state (move_machine ms env input wid plan (?x\<lparr>mx_BackupID := Some (bs_ID bs)\<rparr>) snap) ?w4"
        using assms(6) Inr s b snap by (simp add: migration_body_def Let_def split_beta)
      then show ?thesis using tripleD [OF move, OF row(1)] triple_post [OF move, OF row(1)] row(2) by (auto simp: split_beta prod_eq_iff)
    qed
  qed
qed

text \<open>
  C11: a migration does not lose the data of its machine. Unless it is forced, then, when it returns, whatever step failed or was
  repeated and whichever database calls failed, a backup of the machine that was made on the source host is recorded and named in
  the result, or the migration failed, the machine is still on its source host, and of the host agents
  nothing was asked but to stop the VM and to back it up.
\<close>
theorem migration_keeps_data:
  assumes "find_machine (mr_MachineID (mi_Request input)) (w_db w) = Some m" "m_HostID m = Some source"
    and "\<not> mr_Force (mi_Request input)" "mi_OperationID input \<noteq> ''''"
    and "0 \<le> pc_DefaultDiskPerVM (rt_placement (ms_machines ms))" "0 \<le> pc_DefaultDiskPerVM (ms_placement ms)"
    and "run_state (runMigrationWorkflow ms env input (Inr wid)) w = ((x, err), w')"
  shows "(\<exists>row \<in> set (machine_backups (w_db w')). mx_BackupID x = Some (br_ID row) \<and>
      br_MachineID row = mr_MachineID (mi_Request input) \<and> br_HostID row = Some source \<and> br_Trigger row = ''migration'') \<or>
    mx_BackupID x = None \<and> err \<noteq> None \<and> on_source (mr_MachineID (mi_Request input)) source (w_db w') \<and>
      spared_since (mr_MachineID (mi_Request input)) (net_log (w_net w)) (w_net w')"
proof -
  let ?mid = "mr_MachineID (mi_Request input)"
  have start: "source_kept ?mid source (net_log (w_net w)) w"
    using assms(1,2) by (simp add: source_kept_def on_source_def spared_since_def)
  obtain y er wb where body: "run_state (migration_body ms env input wid) w = ((y, er), wb)" by (metis prod.exhaust)
  have fin: "x = y" "err = er" "w' = final_state (finalizeMigrationWorkflow wid (mi_OperationID input) x err) wb"
    using assms(7) body by (auto simp: runMigrationWorkflow_def split_beta)
  from migration_body_cases [OF start assms(3,4,5,6) body]
  consider b row where "mx_BackupID y = Some (bs_ID b)" "backup_kept row (w_db wb)" "backup_of ?mid source b row"
    | "mx_BackupID y = None" "er \<noteq> None" "source_kept ?mid source (net_log (w_net w)) wb" by (elim disjE exE conjE) simp_all
  then show ?thesis
  proof cases
    case (1 b row)
    then have "backup_kept row (w_db w')" using tripleD [OF kept.finalize_keeps, OF 1(2)] fin(3) by simp
    then show ?thesis using 1 fin(1) by (auto simp: backup_kept_def backup_of_def snapshot_of_def)
  next
    case 2
    then have "source_kept ?mid source (net_log (w_net w)) w'" using tripleD [OF finalize_on_source, OF 2(3)] fin(3) by simp
    then show ?thesis using 2 fin(1,2) by (simp add: source_kept_def)
  qed
qed

section \<open>An abort that counts twice\<close>

text \<open>The rows of machines and hosts, in a world in which the database answers and nobody else does.\<close>

definition rows_are :: "machine list \<Rightarrow> host list \<Rightarrow> world \<Rightarrow> bool" where
  "rows_are M H w = (machines (w_db w) = M \<and> hosts (w_db w) = H \<and> db_faults (w_db w) = [] \<and> net_tape (w_net w) = [])"

lemma rows_are_state: "triple (rows_are M H) (updateMigrationWorkflowState wid st ph x msg d) (\<lambda>_. True)"
  by (simp add: triple_def rows_are_def updateMigrationWorkflowState_def UpdateWorkflowRunStatus_def CreateWorkflowEvent_def split_beta Let_def)

lemma rows_are_attempts:
  assumes "\<And>w. rows_are M H w \<Longrightarrow> rows_are M H (final_state step w) \<and> outcome step w = r"
  shows "triple (rows_are M H) (RunAsStep env n step) (\<lambda>x. x = r)"
  unfolding RunAsStep_def by (rule run_attempts_post) (simp add: triple_def assms)

definition abortable :: "migration_server \<Rightarrow> migration_request \<Rightarrow> machine \<Rightarrow> int \<Rightarrow> host \<Rightarrow> db \<Rightarrow> bool" where
  "abortable ms req m source t s =
     (find_machine (mr_MachineID req) s = Some m \<and> m_HostID m = Some source \<and> m_Status m = ''stopped'' \<and> m_BackupsEnabled m \<and>
      find_host source s \<noteq> None \<and> find_host (mr_TargetHostID req) s = Some t \<and> h_Status t = ''ready'' \<and> source \<noteq> mr_TargetHostID req \<and>
      \<not> mr_Force req \<and> ms_masterKey ms \<noteq> '''')"

lemma abortable_rows:
  assumes "abortable ms req m source t (w_db w)" "rows_are M H w" "rows_are M H w'"
  shows "abortable ms req m source t (w_db w')"
  using assms by (simp add: abortable_def rows_are_def find_machine_def find_host_def)

lemma prepare_run:
  assumes "abortable ms req m source t (w_db w)" "rows_are M H w"
  shows "run_state (prepare_step ms req) w = (Inr \<lparr>pn_SourceHostID = Some source, pn_ReleaseCapacity = False, pn_CanBackup = True\<rparr>, w)"
  using assms by (simp add: prepare_step_def validateMigrationRequest_def abortable_def rows_are_def GetMachine_def GetHost_def Let_def)

lemma stop_source_run:
  assumes "abortable ms req m source t (w_db w)" "rows_are M H w"
  shows "run_state (stop_source_step ms req source) w = (Inr False, w)"
  using assms by (simp add: stop_source_step_def abortable_def rows_are_def GetMachine_def)

lemma silent_backup:
  assumes "net_tape n = []"
  shows "outcome (BackupVM c h mid key) n = Inl (if url_ok (agentURL h @ backup_path mid)
      then wrap ''backup VM on agent'' (ErrRemote ''connection refused'') else wrap ''create backup request'' (ErrRemote ''net/url: invalid URL''))"
    and "net_tape (final_state (BackupVM c h mid key) n) = []"
  using assms by (simp_all add: BackupVM_def doRequest_def http_do_def Let_def)

lemma backup_run:
  assumes "abortable ms req m source t (w_db w)" "rows_are M H w"
  shows "isl (outcome (backup_source_step ms req source) w) \<and> rows_are M H (final_state (backup_source_step ms req source) w)"
  using assms
  by (auto simp: backup_source_step_def createMigrationBackup_def abortable_def rows_are_def GetMachine_def GetHost_def silent_backup
      split: sum.splits option.splits)

lemma abort_run:
  assumes "abortable ms req m source t (w_db w)" "rows_are M H w" "ms_kv ms = None" "ms_tunnel ms = None"
  shows "outcome (abort_step ms req source) w = Inr True"
    and "hosts (w_db (final_state (abort_step ms req source) w)) =
      update_where (\<lambda>h. h_ID h = source) (credit_cpu_mem (m_VCPUs m) (m_MemoryMB m)) H"
    and "db_faults (w_db (final_state (abort_step ms req source) w)) = []"
proof -
  have "\<exists>h \<in> set H. h_ID h = source"
    using assms(1,2) by (auto simp: abortable_def rows_are_def find_host_def find_Some_iff)
  then have "\<exists>h \<in> set (update_where (\<lambda>h. h_ID h = source) (credit_cpu_mem v n) H). h_ID h = source" for v n
    using ball_update_where [of "\<lambda>h. h_ID h = source" "credit_cpu_mem v n" H "\<lambda>h. h_ID h \<noteq> source"] by auto
  then have "run_state (abort_step ms req source) w = (Inr True, final_state (abort_step ms req source) w) \<and>
      hosts (w_db (final_state (abort_step ms req source) w)) =
        update_where (\<lambda>h. h_ID h = source) (credit_cpu_mem (m_VCPUs m) (m_MemoryMB m)) H \<and>
      db_faults (w_db (final_state (abort_step ms req source) w)) = []"
    using assms
    by (simp add: abort_step_def finalizeStoppedSourceAfterMigrationAbort_def abortable_def rows_are_def GetMachine_def SoftStopMachine_def
        UpdateMachineHomeHost_def ReleasePlacement_def release_placements_def cleanupMachineIngress_def on_machine_def on_host_def prod_eq_iff)
  then show "outcome (abort_step ms req source) w = Inr True"
    "hosts (w_db (final_state (abort_step ms req source) w)) =
      update_where (\<lambda>h. h_ID h = source) (credit_cpu_mem (m_VCPUs m) (m_MemoryMB m)) H"
    "db_faults (w_db (final_state (abort_step ms req source) w)) = []"
    by (simp_all add: prod_eq_iff)
qed

lemma run_attempts_first: "outcome step w = Inr x \<Longrightarrow> run_state (run_attempts n step) w = (Inr x, final_state step w)"
  by (cases n) (simp_all add: prod_eq_iff split_beta)

definition hosts_are :: "host list \<Rightarrow> db \<Rightarrow> bool" where
  "hosts_are H s = (hosts s = H \<and> db_faults s = [])"

lemma hosts_are_statements:
  "triple (hosts_are H) (UpdateWorkflowRunStatus wid st ph sm ec em) (\<lambda>_. True)"
  "triple (hosts_are H) (CreateWorkflowEvent ev) (\<lambda>_. True)"
  "triple (hosts_are H) (CompleteWorkflowRun wid st out ec em) (\<lambda>_. True)"
  "triple (hosts_are H) (CompleteMachineOperation opid st msg) (\<lambda>_. True)"
  by (simp_all add: triple_def hosts_are_def UpdateWorkflowRunStatus_def CreateWorkflowEvent_def CompleteWorkflowRun_def
      CompleteMachineOperation_def complete_operation_def Let_def)

lemma finalize_hosts:
  assumes "db_faults (w_db w) = []"
  shows "hosts (w_db (final_state (finalizeMigrationWorkflow wid opid x err) w)) = hosts (w_db w)"
proof -
  have "triple (\<lambda>w. hosts_are H (w_db w)) (finalizeMigrationWorkflow wid opid x err) (\<lambda>_. True)" for H
    unfolding finalizeMigrationWorkflow_def updateMigrationWorkflowState_def
    by (rule triple_rules triple_in_db [OF hosts_are_statements(1)] triple_in_db [OF hosts_are_statements(2)]
        triple_in_db [OF hosts_are_statements(3)] triple_in_db [OF hosts_are_statements(4)] | simp)+
  from tripleD [OF this, of "hosts (w_db w)" w] assms show ?thesis by (simp add: hosts_are_def)
qed

text \<open>
  Aborting the migration of a stopped machine returns its vCPUs and memory a second time. The workflow records the source as
  stopped whenever the backup fails, without looking at whether it stopped the VM: a
  machine that was stopped before, and whose resources were returned then, is credited to its host again. The
  synchronous handler checks this.
\<close>
theorem aborted_migration_credits_twice:
  assumes "abortable ms (mi_Request input) m source t (w_db w)" "db_faults (w_db w) = []" "net_tape (w_net w) = []"
    and "ms_kv ms = None" "ms_tunnel ms = None"
  shows "hosts (w_db (final_state (runMigrationWorkflow ms env input (Inr wid)) w)) =
    update_where (\<lambda>h. h_ID h = source) (credit_cpu_mem (m_VCPUs m) (m_MemoryMB m)) (hosts (w_db w))"
proof -
  let ?req = "mi_Request input"
  let ?R = "rows_are (machines (w_db w)) (hosts (w_db w))"
  let ?plan = "\<lparr>pn_SourceHostID = Some source, pn_ReleaseCapacity = False, pn_CanBackup = True\<rparr>"
  have R: "?R w" using assms by (simp add: rows_are_def)
  have ab: "?R v \<Longrightarrow> abortable ms ?req m source t (w_db v)" for v using abortable_rows [OF assms(1) R] .
  have runs: "?R v \<Longrightarrow> run_state (prepare_step ms ?req) v = (Inr ?plan, v)" "?R v \<Longrightarrow> run_state (stop_source_step ms ?req source) v = (Inr False, v)" for v
    using prepare_run [OF ab] stop_source_run [OF ab] by blast+
  have prepare: "triple ?R (RunAsStep env n (prepare_step ms ?req)) (\<lambda>r. r = Inr ?plan)" for n
    by (rule rows_are_attempts) (simp add: runs)
  have stop: "triple ?R (stop_source_phase ms env ?req wid x ?plan) (\<lambda>r. r = Inr False)" for x
    unfolding stop_source_phase_def
    by (rule triple_seq [OF rows_are_state] rows_are_attempts | simp add: runs)+
  have backup: "triple ?R (RunAsStep env n (backup_source_step ms ?req source)) isl" for n
    unfolding RunAsStep_def by (rule run_attempts_post) (simp add: triple_def backup_run [OF ab])
  have abort: "\<exists>e. outcome (backup_phase ms env ?req wid x ?plan) v = Inl e \<and>
      hosts (w_db (final_state (backup_phase ms env ?req wid x ?plan) v)) =
        update_where (\<lambda>h. h_ID h = source) (credit_cpu_mem (m_VCPUs m) (m_MemoryMB m)) (hosts (w_db w)) \<and>
      db_faults (w_db (final_state (backup_phase ms env ?req wid x ?plan) v)) = []" if v: "?R v" for x v
  proof -
    let ?v = "final_state (updateMigrationWorkflowState wid ''running'' ''backup_source'' x ''creating migration backup'' None) v"
    let ?b = "RunAsStep env 1 (backup_source_step ms ?req source)"
    have "?R ?v" by (rule tripleD [OF rows_are_state v])
    then have b: "isl (outcome ?b ?v)" "?R (final_state ?b ?v)" using backup unfolding triple_def by blast+
    then show ?thesis using abort_run [OF ab [OF b(2)] b(2) assms(4,5)]
      by (auto simp: backup_phase_def split_beta RunAsStep_def run_attempts_first split: sum.splits)
  qed
  let ?x = "\<lparr>mx_WorkflowID = wid, mx_Status = '''', mx_MachineID = mr_MachineID ?req, mx_TargetHostID = mr_TargetHostID ?req, mx_BackupID = None\<rparr>"
  let ?w1 = "final_state (updateMigrationWorkflowState wid ''running'' ''prepare'' ?x ''migration started'' None) w"
  let ?w2 = "final_state (RunAsStep env 3 (prepare_step ms ?req)) ?w1"
  let ?w3 = "final_state (stop_source_phase ms env ?req wid ?x ?plan) ?w2"
  have w1: "?R ?w1" by (rule tripleD [OF rows_are_state R])
  have w2: "?R ?w2" "outcome (RunAsStep env 3 (prepare_step ms ?req)) ?w1 = Inr ?plan"
    using w1 prepare unfolding triple_def by blast+
  have w3: "?R ?w3" "outcome (stop_source_phase ms env ?req wid ?x ?plan) ?w2 = Inr False"
    using w2(1) stop unfolding triple_def by blast+
  from abort [OF w3(1), of ?x] show ?thesis using w2(2) w3(2)
    by (auto simp: runMigrationWorkflow_def migration_body_def Let_def split_beta finalize_hosts)
qed

section \<open>Samples\<close>

text \<open>Two hosts, and on the first a stopped machine with backups. The agents do not answer.\<close>

definition movable_machine :: machine where
  "movable_machine = sample_machine\<lparr>m_HostID := Some 1, m_BackupsEnabled := True, m_BackupKey := Some ''key''\<rparr>"

definition movable_db :: db where
  "movable_db = sample_db\<lparr>hosts := [placed_host\<lparr>h_UsedVCPUs := 4\<rparr>, sample_host\<lparr>h_ID := 2\<rparr>], machines := [movable_machine],
     machine_operations := [(new_operation (uuid_of 0) ''migrate'')\<lparr>o_ID := uuid_of 0, o_State := ''in_progress''\<rparr>], db_serial := 3\<rparr>"

definition movable_world :: world where
  "movable_world = \<lparr>w_db = movable_db, w_net = quiet_net\<rparr>"

definition sample_mover :: migration_server where
  "sample_mover = \<lparr>ms_machines = sample_service, ms_agent = sample_agent, ms_placement = sample_config, ms_kv = None, ms_tunnel = None,
     ms_domain = ''example.org'', ms_masterKey = ''00ff'', ms_crypto = sample_crypto, ms_rfc3339 = (\<lambda>_. None)\<rparr>"

definition sample_engine :: migration_env where
  "sample_engine = \<lparr>me_retries = (\<lambda>n. n), me_targetPolls = 2, me_stopPolls = 2, me_restoredPolls = 2, me_targetEntropy = sample_entropy,
     me_targetBoot = sample_boot, me_restoredEntropy = sample_entropy, me_restoredBoot = sample_boot\<rparr>"

definition sample_migration :: migration_input where
  "sample_migration = \<lparr>mi_Request = \<lparr>mr_MachineID = uuid_of 0, mr_TargetHostID = 2, mr_Force = False\<rparr>, mi_OperationID = uuid_of 0,
     mi_RequestedByUserID = None, mi_AccountID = 7\<rparr>"

definition moved_result :: "migration_result \<times> go_error option" where
  "moved_result = outcome (runMigrationWorkflow sample_mover sample_engine sample_migration (Inr ''wf_1'')) movable_world"

definition moved_world :: world where
  "moved_world = final_state (runMigrationWorkflow sample_mover sample_engine sample_migration (Inr ''wf_1'')) movable_world"

lemma moved_run:
  "run_state (runMigrationWorkflow sample_mover sample_engine sample_migration (Inr ''wf_1'')) movable_world =
     ((fst moved_result, snd moved_result), moved_world)"
  by (simp add: moved_result_def moved_world_def)

lemma movable_sizes [simp]:
  "rt_placement (ms_machines sample_mover) = sample_config" "ms_placement sample_mover = sample_config"
  "ms_kv sample_mover = None" "ms_tunnel sample_mover = None"
  "mi_OperationID sample_migration = uuid_of 0" "w_db movable_world = movable_db" "w_net movable_world = quiet_net"
  "mr_MachineID (mi_Request sample_migration) = uuid_of 0" "\<not> mr_Force (mi_Request sample_migration)" "uuid_of 0 \<noteq> []"
  by (simp_all add: sample_mover_def sample_migration_def movable_world_def uuid_of_def)

lemma movable_rows:
  "find_machine (uuid_of 0) movable_db = Some movable_machine" "m_HostID movable_machine = Some 1"
  "no_op_but (uuid_of 0) (uuid_of 0) movable_db" "db_ok movable_db"
  by (simp_all add: movable_db_def movable_machine_def find_machine_def no_op_but_def new_operation_def db_ok_def schema_ok_def
      capacity_ok_def sized_rows_def machines_ok_def operations_ok_def placements_ok_def keyed_def browser_placements_ok_def hosts_ok_def
      not_overcommitted_def placed_defs sample_defs)

lemma movable_abortable:
  "abortable sample_mover (mi_Request sample_migration) movable_machine 1 ((sample_host\<lparr>h_ID := 2\<rparr>)) movable_db"
  by (simp add: abortable_def movable_db_def movable_machine_def find_machine_def find_host_def sample_mover_def sample_migration_def
      placed_defs sample_defs)

section \<open>Instances\<close>

theorem migration_keeps_db_ok_witness: "db_ok (w_db moved_world)"
  using migration_keeps_db_ok [of movable_world sample_migration sample_mover sample_engine "Inr ''wf_1''"] movable_rows
  by (simp add: moved_world_def)




theorem migration_keeps_data_witness:
  "(\<exists>row \<in> set (machine_backups (w_db moved_world)). mx_BackupID (fst moved_result) = Some (br_ID row) \<and>
      br_MachineID row = uuid_of 0 \<and> br_HostID row = Some 1 \<and> br_Trigger row = ''migration'') \<or>
   mx_BackupID (fst moved_result) = None \<and> snd moved_result \<noteq> None \<and> on_source (uuid_of 0) 1 (w_db moved_world) \<and>
      spared_since (uuid_of 0) [] (w_net moved_world)"
  using migration_keeps_data [OF _ _ _ _ _ _ moved_run, of movable_machine 1] movable_rows by (simp add: quiet_net_def)

theorem aborted_migration_credits_twice_witness:
  "map h_UsedVCPUs (hosts (w_db moved_world)) = [2, 0]"
  using aborted_migration_credits_twice [of sample_mover sample_migration movable_machine 1 "sample_host\<lparr>h_ID := 2\<rparr>" movable_world
      sample_engine "''wf_1''"] movable_abortable
  by (simp add: moved_world_def quiet_net_def movable_db_def credit_cpu_mem_def movable_machine_def placed_defs sample_defs)

end
