(* ===== verification/Store_Typing.thy ===== *)
theory Store_Typing
  imports Store_Steps
begin

text \<open>
  What the checks and the foreign keys of the schema stand for: every column with a closed set of values has one
  of them, and every reference points to a row. Deleting a row either cascades, clears the references, or is refused.
\<close>

section \<open>Well-typed rows\<close>

text \<open>A column that may be null, and refers to one of the given rows otherwise.\<close>

fun refers :: "'k option \<Rightarrow> 'k set \<Rightarrow> bool" where
  "refers None K = True"
| "refers (Some k) K = (k \<in> K)"

lemma refers_iff: "refers x K \<longleftrightarrow> (\<forall>k. x = Some k \<longrightarrow> k \<in> K)"
  by (cases x) auto

text \<open>The arguments are the identifiers of the rows that may be referred to.\<close>

definition machine_typed :: "int set \<Rightarrow> int set \<Rightarrow> string set \<Rightarrow> machine \<Rightarrow> bool" where
  "machine_typed A H B m \<longleftrightarrow> m_AccountID m \<in> A \<and> refers (m_HostID m) H \<and> refers (m_HomeHostID m) H \<and>
     refers (m_BrowserVMID m) B \<and> m_RuntimeSource m = Some ''artifact'' \<and> channel_check (m_DesiredChannel m) \<and>
     ValidMachineKind (m_Kind m)"

definition placement_typed :: "string set \<Rightarrow> int set \<Rightarrow> placement \<Rightarrow> bool" where
  "placement_typed M H p \<longleftrightarrow> p_MachineID p \<in> M \<and> p_HostID p \<in> H \<and>
     (if p_ReleasedAt p = None then p_State p \<in> {''reserved'', ''active''} else p_State p = ''released'')"

definition browser_typed :: "int set \<Rightarrow> int set \<Rightarrow> browser_vm \<Rightarrow> bool" where
  "browser_typed A H b \<longleftrightarrow> b_AccountID b \<in> A \<and> refers (b_HostID b) H \<and>
     b_Status b \<in> {''stopped'', ''provisioning'', ''running'', ''error''}"

definition browser_placement_typed :: "string set \<Rightarrow> int set \<Rightarrow> browser_placement \<Rightarrow> bool" where
  "browser_placement_typed B H p \<longleftrightarrow> bp_BrowserVMID p \<in> B \<and> bp_HostID p \<in> H \<and>
     (if bp_ReleasedAt p = None then bp_State p \<in> {''reserved'', ''active''} else bp_State p = ''released'')"

definition run_typed :: "int set \<Rightarrow> workflow_run \<Rightarrow> bool" where
  "run_typed A r \<longleftrightarrow> refers (wr_AccountID r) A \<and> workflow_status_check (wr_Status r) \<and> wr_Priority r \<noteq> ''''"

definition event_typed :: "string set \<Rightarrow> workflow_event \<Rightarrow> bool" where
  "event_typed W e \<longleftrightarrow> we_WorkflowID e \<in> W \<and> we_Level e \<in> {''info'', ''warn'', ''error''}"

definition backup_typed :: "string set \<Rightarrow> int set \<Rightarrow> backup_record \<Rightarrow> bool" where
  "backup_typed M H b \<longleftrightarrow> br_MachineID b \<in> M \<and> refers (br_HostID b) H \<and> br_HMACSHA256 b \<noteq> None \<and> br_Nonce b \<noteq> None"

definition token_typed :: "int set \<Rightarrow> enrollment_token \<Rightarrow> bool" where
  "token_typed H t \<longleftrightarrow> refers (et_UsedByHostID t) H"

definition artifact_state_typed :: "int set \<Rightarrow> host_artifact_state \<Rightarrow> bool" where
  "artifact_state_typed H a \<longleftrightarrow> has_HostID a \<in> H \<and> has_Kind a \<in> {''rootfs'', ''openclaw'', ''hermes-rootfs'', ''hermes''}"

lemmas typed_defs = machine_typed_def placement_typed_def browser_typed_def browser_placement_typed_def run_typed_def event_typed_def
  backup_typed_def token_typed_def artifact_state_typed_def

lemma typed_insert:
  "machine_typed A H B m \<Longrightarrow> machine_typed A (insert h H) B m" "machine_typed A H B m \<Longrightarrow> machine_typed A H (insert x B) m"
  "machine_typed A H B m \<Longrightarrow> machine_typed (insert a A) H B m"
  "placement_typed M H p \<Longrightarrow> placement_typed (insert y M) H p" "placement_typed M H p \<Longrightarrow> placement_typed M (insert h H) p"
  "browser_typed A H b \<Longrightarrow> browser_typed (insert a A) H b" "browser_typed A H b \<Longrightarrow> browser_typed A (insert h H) b"
  "browser_placement_typed B H q \<Longrightarrow> browser_placement_typed (insert x B) H q"
  "browser_placement_typed B H q \<Longrightarrow> browser_placement_typed B (insert h H) q"
  "run_typed A r \<Longrightarrow> run_typed (insert a A) r" "event_typed W e \<Longrightarrow> event_typed (insert w W) e"
  "backup_typed M H k \<Longrightarrow> backup_typed (insert y M) H k" "backup_typed M H k \<Longrightarrow> backup_typed M (insert h H) k"
  "token_typed H t \<Longrightarrow> token_typed (insert h H) t"
  "artifact_state_typed H z \<Longrightarrow> artifact_state_typed (insert h H) z"
  by (auto simp: typed_defs refers_iff)

text \<open>Rows that do not refer to what is removed.\<close>

lemma typed_remove:
  "machine_typed A H B m \<Longrightarrow> m_HostID m \<noteq> Some h \<Longrightarrow> m_HomeHostID m \<noteq> Some h \<Longrightarrow> machine_typed A (H - {h}) B m"
  "machine_typed A H B m \<Longrightarrow> m_BrowserVMID m \<noteq> Some x \<Longrightarrow> machine_typed A H (B - {x}) m"
  "placement_typed M H p \<Longrightarrow> p_MachineID p \<noteq> y \<Longrightarrow> placement_typed (M - {y}) H p"
  "placement_typed M H p \<Longrightarrow> p_HostID p \<noteq> h \<Longrightarrow> placement_typed M (H - {h}) p"
  "browser_typed A H b \<Longrightarrow> b_HostID b \<noteq> Some h \<Longrightarrow> browser_typed A (H - {h}) b"
  "browser_placement_typed B H q \<Longrightarrow> bp_BrowserVMID q \<noteq> x \<Longrightarrow> browser_placement_typed (B - {x}) H q"
  "browser_placement_typed B H q \<Longrightarrow> bp_HostID q \<noteq> h \<Longrightarrow> browser_placement_typed B (H - {h}) q"
  "backup_typed M H k \<Longrightarrow> br_MachineID k \<noteq> y \<Longrightarrow> backup_typed (M - {y}) H k"
  "backup_typed M H k \<Longrightarrow> br_HostID k \<noteq> Some h \<Longrightarrow> backup_typed M (H - {h}) k"
  "token_typed H t \<Longrightarrow> et_UsedByHostID t \<noteq> Some h \<Longrightarrow> token_typed (H - {h}) t"
  "artifact_state_typed H z \<Longrightarrow> has_HostID z \<noteq> h \<Longrightarrow> artifact_state_typed (H - {h}) z"
  by (auto simp: typed_defs refers_iff)

lemma typed_clear:
  "machine_typed A H B m \<Longrightarrow> m_HostID m \<noteq> Some h \<Longrightarrow> machine_typed A (H - {h}) B (m\<lparr>m_HomeHostID := None\<rparr>)"
  "machine_typed A H B m \<Longrightarrow> machine_typed A H (B - {x}) (m\<lparr>m_BrowserVMID := None\<rparr>)"
  "browser_typed A H b \<Longrightarrow> browser_typed A (H - {h}) (b\<lparr>b_HostID := None\<rparr>)"
  by (auto simp: typed_defs refers_iff)

abbreviation account_ids :: "db \<Rightarrow> int set" where
  "account_ids s \<equiv> a_ID ` set (accounts s)"

abbreviation host_ids :: "db \<Rightarrow> int set" where
  "host_ids s \<equiv> h_ID ` set (hosts s)"

abbreviation machine_ids :: "db \<Rightarrow> string set" where
  "machine_ids s \<equiv> m_ID ` set (machines s)"

abbreviation browser_ids :: "db \<Rightarrow> string set" where
  "browser_ids s \<equiv> b_ID ` set (browser_vms s)"

abbreviation run_ids :: "db \<Rightarrow> string set" where
  "run_ids s \<equiv> wr_ID ` set (workflow_runs s)"

definition well_typed :: "db \<Rightarrow> bool" where
  "well_typed s \<longleftrightarrow>
     (\<forall>m \<in> set (machines s). machine_typed (account_ids s) (host_ids s) (browser_ids s) m) \<and>
     (\<forall>p \<in> set (machine_placements s). placement_typed (machine_ids s) (host_ids s) p) \<and>
     (\<forall>x \<in> set (machine_operations s). o_MachineID x \<in> machine_ids s) \<and>
     (\<forall>b \<in> set (browser_vms s). browser_typed (account_ids s) (host_ids s) b) \<and>
     (\<forall>p \<in> set (browser_vm_placements s). browser_placement_typed (browser_ids s) (host_ids s) p) \<and>
     (\<forall>r \<in> set (workflow_runs s). run_typed (account_ids s) r) \<and>
     (\<forall>e \<in> set (workflow_events s). event_typed (run_ids s) e) \<and>
     (\<forall>l \<in> set (workflow_locks s). wl_WorkflowID l \<in> run_ids s) \<and>
     (\<forall>b \<in> set (machine_backups s). backup_typed (machine_ids s) (host_ids s) b) \<and>
     (\<forall>t \<in> set (host_enrollment_tokens s). token_typed (host_ids s) t) \<and>
     (\<forall>a \<in> set (host_artifact_states s). artifact_state_typed (host_ids s) a)"

interpretation typed_inv: db_invariant well_typed
  by unfold_locales (simp add: well_typed_def)

section \<open>Statements keep the database well typed\<close>

lemma keys_update_where [simp]:
  assumes "\<And>r. k (f r) = k r"
  shows "k ` set (update_where p f rows) = k ` set rows"
  by (metis assms list.set_map map_update_where)

lemma keys_delete_where [simp]: "k ` {r \<in> set rows. k r \<noteq> x} = k ` set rows - {x}"
  by auto

lemma key_iff: "x \<in> k ` set rows \<longleftrightarrow> (\<exists>r \<in> set rows. k r = x)"
  by auto

text \<open>A statement on one machine, host or browser VM.\<close>

lemma typed_on_machine [intro]:
  assumes "well_typed s" "\<And>m. m_ID (f m) = m_ID m"
    and "\<And>m. m \<in> set (machines s) \<Longrightarrow> m_ID m = mid \<Longrightarrow> machine_typed (account_ids s) (host_ids s) (browser_ids s) m \<Longrightarrow>
      machine_typed (account_ids s) (host_ids s) (browser_ids s) (f m)"
  shows "well_typed (on_machine mid f s)"
  using assms by (simp add: well_typed_def on_machine_def ball_update_where)

lemma typed_on_host [intro]: "well_typed s \<Longrightarrow> (\<And>h. h_ID (f h) = h_ID h) \<Longrightarrow> well_typed (on_host hid f s)"
  by (simp add: well_typed_def on_host_def)

lemma typed_on_browser [intro]:
  assumes "well_typed s" "\<And>b. b_ID (f b) = b_ID b"
    and "\<And>b. b \<in> set (browser_vms s) \<Longrightarrow> b_ID b = bid \<Longrightarrow> browser_typed (account_ids s) (host_ids s) b \<Longrightarrow>
      browser_typed (account_ids s) (host_ids s) ((f b)\<lparr>b_UpdatedAt := db_now s\<rparr>)"
  shows "well_typed (on_browser_vm bid f s)"
  using assms by (simp add: well_typed_def on_browser_vm_def ball_update_where)

text \<open>A statement on one of the tables to which nothing refers.\<close>

lemma typed_tables [simp]:
  "well_typed s \<Longrightarrow> well_typed (s\<lparr>machine_operations := ops\<rparr>) \<longleftrightarrow> (\<forall>x \<in> set ops. o_MachineID x \<in> machine_ids s)"
  "well_typed s \<Longrightarrow> well_typed (s\<lparr>machine_placements := ps\<rparr>) \<longleftrightarrow> (\<forall>p \<in> set ps. placement_typed (machine_ids s) (host_ids s) p)"
  "well_typed s \<Longrightarrow> well_typed (s\<lparr>browser_vm_placements := qs\<rparr>) \<longleftrightarrow>
     (\<forall>q \<in> set qs. browser_placement_typed (browser_ids s) (host_ids s) q)"
  "well_typed s \<Longrightarrow> well_typed (s\<lparr>workflow_events := es\<rparr>) \<longleftrightarrow> (\<forall>e \<in> set es. event_typed (run_ids s) e)"
  "well_typed s \<Longrightarrow> well_typed (s\<lparr>workflow_locks := ls\<rparr>) \<longleftrightarrow> (\<forall>l \<in> set ls. wl_WorkflowID l \<in> run_ids s)"
  "well_typed s \<Longrightarrow> well_typed (s\<lparr>machine_backups := bs\<rparr>) \<longleftrightarrow> (\<forall>b \<in> set bs. backup_typed (machine_ids s) (host_ids s) b)"
  "well_typed s \<Longrightarrow> well_typed (s\<lparr>host_enrollment_tokens := ts\<rparr>) \<longleftrightarrow> (\<forall>t \<in> set ts. token_typed (host_ids s) t)"
  "well_typed s \<Longrightarrow> well_typed (s\<lparr>host_artifact_states := zs\<rparr>) \<longleftrightarrow> (\<forall>a \<in> set zs. artifact_state_typed (host_ids s) a)"
  "well_typed (s\<lparr>db_uuids := n\<rparr>) \<longleftrightarrow> well_typed s" "well_typed (s\<lparr>db_serial := i\<rparr>) \<longleftrightarrow> well_typed s"
  by (simp_all add: well_typed_def)

lemma typed_rows:
  assumes "well_typed s"
  shows "\<forall>m \<in> set (machines s). machine_typed (account_ids s) (host_ids s) (browser_ids s) m"
    "\<forall>p \<in> set (machine_placements s). placement_typed (machine_ids s) (host_ids s) p"
    "\<forall>x \<in> set (machine_operations s). o_MachineID x \<in> machine_ids s"
    "\<forall>p \<in> set (browser_vm_placements s). browser_placement_typed (browser_ids s) (host_ids s) p"
    "\<forall>r \<in> set (workflow_runs s). run_typed (account_ids s) r"
    "\<forall>e \<in> set (workflow_events s). event_typed (run_ids s) e"
    "\<forall>l \<in> set (workflow_locks s). wl_WorkflowID l \<in> run_ids s"
    "\<forall>b \<in> set (machine_backups s). backup_typed (machine_ids s) (host_ids s) b"
    "\<forall>t \<in> set (host_enrollment_tokens s). token_typed (host_ids s) t"
    "\<forall>a \<in> set (host_artifact_states s). artifact_state_typed (host_ids s) a"
  using assms by (simp_all add: well_typed_def)

lemma typed_run_rows:
  assumes "well_typed s" "wr_ID ` set (workflow_runs s) \<subseteq> wr_ID ` set rs" "\<forall>r \<in> set rs. run_typed (account_ids s) r"
  shows "well_typed (s\<lparr>workflow_runs := rs\<rparr>)"
  using assms by (auto simp: well_typed_def event_typed_def)

lemma typed_machine_columns:
  "triple well_typed (UpdateMachineStatus mid st msg) (\<lambda>_. True)"
  "triple well_typed (SetMachineTokens mid gw px) (\<lambda>_. True)"
  "triple well_typed (UpdateMachineVersion mid snap ver) (\<lambda>_. True)"
  "triple well_typed (UpdateMachineTunnel mid tid key) (\<lambda>_. True)"
  "triple well_typed (ClearMachineTunnel mid) (\<lambda>_. True)"
  "triple well_typed (UnassignMachineFromHost mid) (\<lambda>_. True)"
  "triple well_typed (UnpairBrowserVM mid) (\<lambda>_. True)"
  "triple well_typed (EnableBackups mid bkey) (\<lambda>_. True)"
  unfolding UpdateMachineStatus_def SetMachineTokens_def UpdateMachineVersion_def UpdateMachineTunnel_def ClearMachineTunnel_def
    UnassignMachineFromHost_def UnpairBrowserVM_def EnableBackups_def
  by (rule typed_inv.inv_exec, rule typed_on_machine, assumption,
      auto simp: machine_typed_def set_machine_status_def unassign_machine_def)+

lemma typed_machine_updates:
  "triple well_typed (UpdateMachine u) (\<lambda>_. True)"
  "triple well_typed (UpdateMachineHomeHost mid home) (\<lambda>_. True)"
  "triple well_typed (PairBrowserVM mid bid) (\<lambda>_. True)"
  unfolding UpdateMachine_def UpdateMachineHomeHost_def PairBrowserVM_def
  by (rule typed_inv.inv_tx,
      auto simp: machine_typed_def find_machine_def find_None_iff image_iff split: if_splits option.splits intro!: typed_on_machine)+

lemma typed_machine_rows:
  "triple well_typed (UpdateMachineStatusCAS mid old new msg) (\<lambda>_. True)"
  "triple well_typed (UpdateMachineActualVersions hid mid r v) (\<lambda>_. True)"
  "triple well_typed (MarkMachinesOnHostError hid txt) (\<lambda>_. True)"
  unfolding UpdateMachineStatusCAS_def UpdateMachineActualVersions_def MarkMachinesOnHostError_def
  by (rule typed_inv.inv_tx typed_inv.inv_exec,
      auto simp: well_typed_def Let_def ball_update_where machine_typed_def set_machine_status_def)+

lemma typed_CreateMachine: "triple well_typed (CreateMachine m) (\<lambda>_. True)"
  unfolding CreateMachine_def
proof (rule typed_inv.inv_tx)
  fix s r t assume ok: "well_typed s" and run: "insert_machine m s = (Inr r, t)"
  obtain wsid s1 where dw: "default_workspace (m_AccountID m) s = (wsid, s1)" by force
  have "s1 = s \<or> (\<exists>ws. s1 = s\<lparr>workspaces := ws, db_uuids := Suc (db_uuids s)\<rparr>)"
    using dw by (rule default_workspace_frame)
  then have s1: "well_typed s1" using ok by (elim disjE exE) (simp_all add: well_typed_def)
  have t: "t = s1\<lparr>machines := machines s1 @ [machine_row m wsid s1], db_uuids := Suc (db_uuids s1)\<rparr>"
    and row: "machine_typed (account_ids s1) (host_ids s1) (browser_ids s1) (machine_row m wsid s1)"
    using run by (auto simp: insert_machine_def dw Let_def machine_typed_def machine_row_def zero_machine_def split: if_splits
        intro: rev_image_eqI)
  show "well_typed t" using s1 row unfolding t by (auto simp: well_typed_def intro: typed_insert)
qed

lemma typed_DeleteMachine: "triple well_typed (DeleteMachine mid) (\<lambda>_. True)"
  unfolding DeleteMachine_def
  by (rule typed_inv.inv_exec) (auto simp: well_typed_def intro: typed_remove)

lemma typed_hosts:
  "triple well_typed (CreateHost h) (\<lambda>_. True)"
  "triple well_typed (CreateRegisteredHost h) (\<lambda>_. True)"
proof -
  have "well_typed s \<Longrightarrow> well_typed (add_host row s)" for s row
    by (auto simp: well_typed_def add_host_def intro: typed_insert)
  then show "triple well_typed (CreateHost h) (\<lambda>_. True)" "triple well_typed (CreateRegisteredHost h) (\<lambda>_. True)"
    unfolding CreateHost_def CreateRegisteredHost_def by (intro typed_inv.inv_tx; auto simp: Let_def)+
qed

lemma typed_host_updates:
  "triple well_typed (SetHostMaintenanceMode hid b) (\<lambda>_. True)"
  "triple well_typed (UpdateHostStatus hid st) (\<lambda>_. True)"
  "triple well_typed (UpdateHostStatusMessage hid st txt) (\<lambda>_. True)"
  "triple well_typed (UpdateHostDetails h) (\<lambda>_. True)"
  "triple well_typed (ReleaseHostCapacityWithDisk hid v m d) (\<lambda>_. True)"
  "triple well_typed (UpdateHostAgentEndpoint hid ep kind) (\<lambda>_. True)"
  "triple well_typed (UpdateHostProviderMetadata hid md) (\<lambda>_. True)"
  "triple well_typed (UpdateHostSourceImage hid img) (\<lambda>_. True)"
  unfolding SetHostMaintenanceMode_def UpdateHostStatus_def UpdateHostStatusMessage_def UpdateHostDetails_def
    ReleaseHostCapacityWithDisk_def UpdateHostAgentEndpoint_def UpdateHostProviderMetadata_def UpdateHostSourceImage_def
  by (rule typed_inv.inv_exec, rule typed_on_host, assumption, simp add: credit_def)+

lemma typed_Heartbeat: "triple well_typed (UpdateHostHeartbeat hid ip ag rf br oc caps) (\<lambda>_. True)"
  unfolding UpdateHostHeartbeat_def
  by (rule typed_inv.inv_tx) (auto simp: heartbeat_host_def Let_def split: option.splits)

text \<open>What may not refer to a deleted host does not, since the deletion is refused or the host is not there.\<close>

lemma typed_DeleteHost: "triple well_typed (DeleteHost hid) (\<lambda>_. True)"
  unfolding DeleteHost_def
proof (rule typed_inv.inv_tx, goal_cases)
  case (1 s r t)
  let ?refs = "(\<exists>m \<in> set (machines s). m_HostID m = Some hid) \<or> (\<exists>p \<in> set (machine_placements s). p_HostID p = hid) \<or>
     (\<exists>t \<in> set (host_enrollment_tokens s). et_UsedByHostID t = Some hid) \<or> (\<exists>b \<in> set (machine_backups s). br_HostID b = Some hid)"
  have "?refs \<Longrightarrow> hid \<in> host_ids s" using 1(1) unfolding well_typed_def typed_defs refers_iff by fastforce
  then have "?refs \<Longrightarrow> \<exists>h \<in> set (hosts s). h_ID h = hid" by auto
  moreover have "\<not> ((\<exists>h \<in> set (hosts s). h_ID h = hid) \<and> ?refs)" using 1(2) by (simp split: if_split_asm)
  ultimately have free: "\<not> ?refs" by blast
  then have t: "t = s\<lparr>hosts := delete_where (\<lambda>h. h_ID h = hid) (hosts s),
      machines := update_where (\<lambda>m. m_HomeHostID m = Some hid) (\<lambda>m. m\<lparr>m_HomeHostID := None\<rparr>) (machines s),
      browser_vms := update_where (\<lambda>b. b_HostID b = Some hid) (\<lambda>b. b\<lparr>b_HostID := None\<rparr>) (browser_vms s),
      browser_vm_placements := delete_where (\<lambda>p. bp_HostID p = hid) (browser_vm_placements s),
      host_artifact_states := delete_where (\<lambda>a. has_HostID a = hid) (host_artifact_states s)\<rparr>"
    using 1(2) by (simp split: if_splits)
  show ?case
    using 1(1) free unfolding t well_typed_def
    by (simp add: ball_update_where typed_remove typed_clear)
qed

lemma typed_browsers:
  "triple well_typed (CreateBrowserVM b) (\<lambda>_. True)"
  "triple well_typed (UpdateBrowserVMStatus bid st msg) (\<lambda>_. True)"
  "triple well_typed (AssignBrowserVMToHost bid hid ip) (\<lambda>_. True)"
  "triple well_typed (UnassignBrowserVMFromHost bid) (\<lambda>_. True)"
proof -
  show "triple well_typed (CreateBrowserVM b) (\<lambda>_. True)"
    unfolding CreateBrowserVM_def
    by (rule typed_inv.inv_tx)
       (auto simp: well_typed_def browser_typed_def Let_def split: if_splits intro: typed_insert rev_image_eqI)
  show "triple well_typed (UpdateBrowserVMStatus bid st msg) (\<lambda>_. True)"
    "triple well_typed (AssignBrowserVMToHost bid hid ip) (\<lambda>_. True)"
    "triple well_typed (UnassignBrowserVMFromHost bid) (\<lambda>_. True)"
    unfolding UpdateBrowserVMStatus_def AssignBrowserVMToHost_def UnassignBrowserVMFromHost_def
    by (rule typed_inv.inv_tx typed_inv.inv_exec,
        auto simp: browser_typed_def find_browser_vm_def find_host_def find_None_iff find_Some_iff image_iff split: if_splits
          intro!: typed_on_browser)+
qed

lemma typed_DeleteBrowserVM: "triple well_typed (DeleteBrowserVM bid) (\<lambda>_. True)"
  unfolding DeleteBrowserVM_def
  by (rule typed_inv.inv_exec) (simp add: well_typed_def ball_update_where typed_remove typed_clear)

text \<open>Placements.\<close>

lemma typed_assign:
  assumes "well_typed s" "\<exists>h \<in> set (hosts s). h_ID h = hid" "\<And>h. h_ID (f h) = h_ID h"
  shows "well_typed (on_machine mid (assign_machine now hid ip) (on_host hid f s))"
proof (rule typed_on_machine)
  show "well_typed (on_host hid f s)" using assms by blast
  show "machine_typed (account_ids (on_host hid f s)) (host_ids (on_host hid f s)) (browser_ids (on_host hid f s))
      (assign_machine now hid ip m)"
    if "machine_typed (account_ids (on_host hid f s)) (host_ids (on_host hid f s)) (browser_ids (on_host hid f s)) m" for m
    using that assms(2,3) by (auto simp: machine_typed_def assign_machine_def on_host_def)
qed (simp add: assign_machine_def)

lemma typed_placement_rows:
  "triple well_typed (ReservePlacement mid hid ip op) (\<lambda>_. True)"
  "triple well_typed (ActivatePlacement pid) (\<lambda>_. True)"
  "triple well_typed (ReleasePlacement mid) (\<lambda>_. True)"
  "triple well_typed (ActivateBrowserVMPlacement bid) (\<lambda>_. True)"
  unfolding ReservePlacement_def reserve_placement_def ActivatePlacement_def ReleasePlacement_def release_placements_def
    ActivateBrowserVMPlacement_def
  by (rule typed_inv.inv_tx typed_inv.inv_exec, frule typed_rows(2), frule typed_rows(4),
      auto simp: placement_typed_def browser_placement_typed_def Let_def ball_update_where key_iff split: if_splits)+

lemma typed_SoftStop: "triple well_typed (SoftStopMachine mid hid v m d) (\<lambda>_. True)"
  unfolding SoftStopMachine_def
  by (rule typed_inv.inv_tx) (auto simp: stop_machine_def credit_cpu_mem_def machine_typed_def intro!: typed_on_machine typed_on_host)

lemma typed_release: "well_typed s \<Longrightarrow> well_typed (release_placements mid s)"
  by (auto simp: release_placements_def well_typed_def ball_update_where placement_typed_def)

lemma typed_ReleaseMigration: "triple well_typed (ReleaseMigrationSource mid hid v m rel) (\<lambda>_. True)"
  unfolding ReleaseMigrationSource_def
  by (rule typed_inv.inv_tx)
     (auto simp: release_migration_source_def unassign_machine_def credit_cpu_mem_def machine_typed_def Let_def
       split: option.splits if_splits intro!: typed_release typed_on_machine typed_on_host)

text \<open>The records of operations, workflows, backups and enrollments.\<close>

lemma typed_operations:
  "triple well_typed (CreateMachineOperation opn) (\<lambda>_. True)"
  "triple well_typed (CompleteMachineOperation opid st msg) (\<lambda>_. True)"
  "triple well_typed (ExpireStaleOperations old) (\<lambda>_. True)"
  unfolding CreateMachineOperation_def create_operation_def CompleteMachineOperation_def complete_operation_def ExpireStaleOperations_def
  by (rule typed_inv.inv_tx, frule typed_rows(3),
      auto simp: Let_def key_iff ball_update_where finish_operation_def split: if_splits)+

lemma typed_backups:
  "triple well_typed (CreateBackupRecord bk) (\<lambda>_. True)"
  "triple well_typed (DeleteBackupRecord k) (\<lambda>_. True)"
  "triple well_typed (DeleteAllBackupRecords mid) (\<lambda>_. True)"
  unfolding CreateBackupRecord_def create_backup_def DeleteBackupRecord_def DeleteAllBackupRecords_def
  by (rule typed_inv.inv_tx typed_inv.inv_exec, frule typed_rows(8),
      auto simp: Let_def key_iff backup_typed_def split: if_splits option.splits)+

lemma typed_tokens:
  "triple well_typed (CreateEnrollmentToken random tok) (\<lambda>_. True)"
  "triple well_typed (MarkEnrollmentTokenUsed token hid) (\<lambda>_. True)"
  unfolding CreateEnrollmentToken_def MarkEnrollmentTokenUsed_def
  by ((rule triple_case_sum, rule triple_return, simp)?, rule typed_inv.inv_tx, frule typed_rows(9),
      auto simp: Let_def key_iff ball_update_where token_typed_def split: if_splits)+

lemma typed_artifact_state: "triple well_typed (UpsertHostArtifactState a) (\<lambda>_. True)"
  unfolding UpsertHostArtifactState_def upsert_artifact_state_def
  by (rule typed_inv.inv_tx, frule typed_rows(10))
     (auto simp: Let_def key_iff set_update_where artifact_state_typed_def split: if_splits list.splits, metis+)

lemma typed_runs:
  "triple well_typed (CreateWorkflowRun run) (\<lambda>_. True)"
  "triple well_typed (UpdateWorkflowRunStatus wid st ph sm ec em) (\<lambda>_. True)"
  "triple well_typed (CompleteWorkflowRun wid st out ec em) (\<lambda>_. True)"
  unfolding CreateWorkflowRun_def UpdateWorkflowRunStatus_def CompleteWorkflowRun_def
  by (rule typed_inv.inv_tx, frule typed_rows(5),
      auto simp: Let_def set_update_where run_typed_def split: if_splits option.splits intro!: typed_run_rows)+

lemma typed_event: "triple well_typed (CreateWorkflowEvent ev) (\<lambda>_. True)"
  unfolding CreateWorkflowEvent_def
  by (rule typed_inv.inv_tx, frule typed_rows(6))
     (auto simp: Let_def key_iff event_typed_def split: if_splits)

lemma typed_locks:
  "triple well_typed (AcquireWorkflowLock l) (\<lambda>_. True)"
  "triple well_typed (RenewWorkflowLock wid rt rid k until) (\<lambda>_. True)"
  "triple well_typed (ReleaseWorkflowLocks wid) (\<lambda>_. True)"
  unfolding AcquireWorkflowLock_def acquire_lock_def RenewWorkflowLock_def ReleaseWorkflowLocks_def
  by (rule typed_inv.inv_tx typed_inv.inv_exec, frule typed_rows(7),
      auto simp: Let_def key_iff ball_update_where split: if_splits list.splits)+

lemma typed_placing:
  "triple well_typed (PlaceOnHost hid mid v m d) (\<lambda>_. True)"
  "triple well_typed (ReAllocateHostCapacity mid hid v m d) (\<lambda>_. True)"
  unfolding PlaceOnHost_def place_on_host_def ReAllocateHostCapacity_def reallocate_def
  by (rule typed_inv.inv_tx,
      auto simp: charge_def matching_def dest!: one_row_Inr split: if_splits option.splits sum.splits intro!: typed_assign)+

lemma found_ids:
  "find_host hid s = Some h \<Longrightarrow> hid \<in> host_ids s" "find_browser_vm bid s = Some b \<Longrightarrow> bid \<in> browser_ids s"
  by (auto simp: find_host_def find_browser_vm_def find_Some_iff)

lemma browser_placement_rows:
  "bid \<in> B \<Longrightarrow> hid \<in> H \<Longrightarrow> browser_placement_typed B H
     \<lparr>bp_BrowserVMID = bid, bp_HostID = hid, bp_VMIP = ip, bp_State = ''reserved'', bp_ActivatedAt = a, bp_ReleasedAt = None\<rparr>"
  "browser_placement_typed B H q \<Longrightarrow> browser_placement_typed B H (q\<lparr>bp_State := ''released'', bp_ReleasedAt := Some t\<rparr>)"
  by (auto simp: browser_placement_typed_def split: if_splits)

lemma typed_browser_placing:
  "triple well_typed (PlaceBrowserVMOnHost hid bid v m) (\<lambda>_. True)"
  "triple well_typed (ReleaseBrowserVMPlacement bid) (\<lambda>_. True)"
  unfolding PlaceBrowserVMOnHost_def place_browser_vm_def ReleaseBrowserVMPlacement_def release_browser_placement_def
  by (rule typed_inv.inv_tx, frule typed_rows(4),
      auto simp: charge_def credit_exact_def Let_def set_update_where found_ids browser_placement_rows
        split: if_splits option.splits list.splits intro!: typed_on_host)+

section \<open>Reachable states\<close>

lemmas typed_triples = typed_machine_columns typed_machine_updates typed_machine_rows typed_CreateMachine typed_DeleteMachine typed_hosts
  typed_host_updates typed_Heartbeat typed_DeleteHost typed_browsers typed_DeleteBrowserVM typed_placement_rows typed_SoftStop
  typed_ReleaseMigration typed_operations typed_backups typed_artifact_state typed_tokens typed_runs typed_event typed_locks typed_placing typed_browser_placing

lemma store_step_typed: "store_step s t \<Longrightarrow> well_typed s \<Longrightarrow> well_typed t"
proof (induction rule: store_step.induct)
  case (time_passes s t fs)
  then show ?case by (simp add: well_typed_def)
next
  case (create_account s a)
  then show ?case by (simp add: well_typed_def typed_insert)
qed (rule tripleD, rule typed_triples, assumption)+

end
