(* ===== verification/Fleet_Api.thy ===== *)
theory Fleet_Api
  imports Machine_Runtime Api_Proxy Account_Api
begin

text \<open>
  How hosts join, report and leave (\<open>internal/api\<close>: \<open>enrollment.go\<close>, \<open>agent_heartbeat.go\<close>, the gate of
  \<open>agent_auth.go\<close>, \<open>request_security.go\<close>, and from \<open>admin_hosts.go\<close> maintenance, the refresh of root file
  systems and the restart of machines). A handler is a step on the database and the network. A goroutine that
  a handler starts is returned with the reply, as the list of machines that it will start again.
\<close>

section \<open>Configuration and replies\<close>

record fleet_server =
  fl_backendURL :: string
  fl_dataPlaneDomain :: string
  fl_agentToken :: string
  fl_cfServiceTokenID :: string
  fl_cfServiceTokenSec :: string
  fl_backupMasterKey :: string
  fl_vcpuOversubRatio :: int
  fl_placement :: "placement_config option"
  fl_tunnelCreator :: "tunnel_manager option"
  fl_routing :: "routing_service option"
  fl_agentClient :: "agent_client option"

datatype fleet_reply =
    FrError int string
  | FrToken string time string
  | FrTokens "enrollment_token list"
  | FrScript string
  | FrRegistered int string string
  | FrStatus string
  | FrHeartbeat bool bool
  | FrRoute resolved_route
  | FrHosts "host list"
  | FrRefreshed nat nat

definition bearer :: "api_request \<Rightarrow> string option" where
  "bearer r = (if has_prefix (rq_Header r ''Authorization'') ''Bearer ''
     then Some (trim_prefix (rq_Header r ''Authorization'') ''Bearer '') else None)"

text \<open>\<open>isLoopbackHost\<close> (\<open>request_security.go\<close>).\<close>

definition isLoopbackHost :: "string \<Rightarrow> bool" where
  "isLoopbackHost host = (let t = trim_space host in
     t \<noteq> '''' \<and>
     (let h = trim_where (\<lambda>c. c \<in> set ''[]'') (deref_or t (SplitHost t))
      in equal_fold h ''localhost'' \<or> (case ParseIP h of None \<Rightarrow> False | Some ip \<Rightarrow> IsLoopback ip)))"

section \<open>Enrollment (enrollment.go)\<close>

definition installBackendURLIsAllowed :: "string \<Rightarrow> bool" where
  "installBackendURLIsAllowed raw = (case url_host raw of
      None \<Rightarrow> False
    | Some (scheme, host) \<Rightarrow> host \<noteq> '''' \<and> (scheme = ''https'' \<or> scheme = ''http'' \<and> isLoopbackHost host))"

definition trim_slashes :: "string \<Rightarrow> string" where
  "trim_slashes s = rev (dropWhile (\<lambda>c. c = CHR ''/'') (rev s))"

text \<open>The second component of the result of the source, \<open>false\<close>, is \<open>None\<close>.\<close>

definition installBackendURL :: "fleet_server \<Rightarrow> string \<Rightarrow> api_request \<Rightarrow> string option" where
  "installBackendURL fs reqHost r = (let url = trim_slashes (trim_space (fl_backendURL fs)) in
     if url \<noteq> '''' then (if installBackendURLIsAllowed url then Some url else None)
     else if \<not> isLoopbackHost reqHost then None
     else Some ((if requestIsSecure r then ''https'' else ''http'') @ ''://'' @ reqHost))"

record token_request =
  tq_Provider :: string
  tq_ProviderClass :: string
  tq_Labels :: "json option"
  tq_ExpiresInHours :: int

definition decode_token_request :: "json option \<Rightarrow> token_request option" where
  "decode_token_request body = (case body of
      Some (JObj kvs) \<Rightarrow>
        (let (provider, b1) = decode_field decode_string ''provider'' '''' kvs;
             (class, b2) = decode_field decode_string ''provider_class'' '''' kvs;
             (labels, b3) = decode_field decode_raw ''labels'' None kvs;
             (hours, b4) = decode_field decode_int ''expires_in_hours'' 0 kvs
         in if b1 \<or> b2 \<or> b3 \<or> b4 then None
            else Some \<lparr>tq_Provider = provider, tq_ProviderClass = class, tq_Labels = labels, tq_ExpiresInHours = hours\<rparr>)
    | Some JNull \<Rightarrow> Some \<lparr>tq_Provider = '''', tq_ProviderClass = '''', tq_Labels = None, tq_ExpiresInHours = 0\<rparr>
    | _ \<Rightarrow> None)"

text \<open>The number of hours is multiplied as a \<open>time.Duration\<close>, which wraps around.\<close>

definition new_enrollment_token :: "token_request \<Rightarrow> time \<Rightarrow> enrollment_token" where
  "new_enrollment_token q now =
     (let hours = (if tq_ExpiresInHours q \<le> 0 then 24 else tq_ExpiresInHours q)
      in \<lparr>et_ID = '''', et_Token = '''', et_Provider = (if tq_Provider q = '''' then ''ovhcloud'' else tq_Provider q),
           et_ProviderClass = (if tq_ProviderClass q = '''' then ''registered'' else tq_ProviderClass q),
           et_Labels = coalesce (tq_Labels q) (Some (JObj [])), et_UsedByHostID = None,
           et_ExpiresAt = now + wrap64 (hours * hour), et_CreatedAt = 0\<rparr>)"

definition handleCreateEnrollmentToken ::
  "fleet_server \<Rightarrow> string \<Rightarrow> nat list result \<Rightarrow> api_request \<Rightarrow> (world, fleet_reply) state" where
  "handleCreateEnrollmentToken fs reqHost random r = (case decode_token_request (rq_Body r) of
      None \<Rightarrow> ret (FrError 400 ''invalid request body'')
    | Some q \<Rightarrow> (case installBackendURL fs reqHost r of
        None \<Rightarrow> ret (FrError 500 ''BACKEND_URL is required to generate enrollment install command'')
      | Some url \<Rightarrow> do {
          now \<leftarrow> in_db clock;
          c \<leftarrow> in_db (CreateEnrollmentToken random (new_enrollment_token q now));
          case c of
            Inl _ \<Rightarrow> ret (FrError 500 ''failed to create enrollment token'')
          | Inr t \<Rightarrow> ret (FrToken (et_Token t) (et_ExpiresAt t)
              (''curl -sL '' @ url @ ''/api/agent/install | bash -s -- '' @ et_Token t))
        }))"

definition handleListEnrollmentTokens :: "(world, fleet_reply) state" where
  "handleListEnrollmentTokens = do {
     l \<leftarrow> in_db ListEnrollmentTokens;
     case l of Inl _ \<Rightarrow> ret (FrError 500 ''failed to list enrollment tokens'') | Inr ts \<Rightarrow> ret (FrTokens ts)
   }"

text \<open>The script is the template, an argument, with the URL of the control plane filled in.\<close>

definition handleInstallScript :: "(string \<Rightarrow> string) \<Rightarrow> fleet_server \<Rightarrow> string \<Rightarrow> api_request \<Rightarrow> fleet_reply" where
  "handleInstallScript template fs reqHost r = (case installBackendURL fs reqHost r of
      None \<Rightarrow> FrError 500 ''BACKEND_URL is required to serve the install script''
    | Some url \<Rightarrow> FrScript (template url))"

record register_request =
  rg_EnrollmentToken :: string
  rg_AgentEndpoint :: string
  rg_AgentEndpointType :: string
  rg_Capabilities :: "json option"
  rg_Labels :: "json option"

definition decode_register_request :: "json option \<Rightarrow> register_request option" where
  "decode_register_request body = (case body of
      Some (JObj kvs) \<Rightarrow>
        (let (token, b1) = decode_field decode_string ''enrollment_token'' '''' kvs;
             (endpoint, b2) = decode_field decode_string ''agent_endpoint'' '''' kvs;
             (kind, b3) = decode_field decode_string ''agent_endpoint_type'' '''' kvs;
             (caps, b4) = decode_field decode_raw ''capabilities'' None kvs;
             (labels, b5) = decode_field decode_raw ''labels'' None kvs
         in if b1 \<or> b2 \<or> b3 \<or> b4 \<or> b5 then None
            else Some \<lparr>rg_EnrollmentToken = token, rg_AgentEndpoint = endpoint, rg_AgentEndpointType = kind,
              rg_Capabilities = caps, rg_Labels = labels\<rparr>)
    | Some JNull \<Rightarrow> Some \<lparr>rg_EnrollmentToken = '''', rg_AgentEndpoint = '''', rg_AgentEndpointType = '''',
        rg_Capabilities = None, rg_Labels = None\<rparr>
    | _ \<Rightarrow> None)"

text \<open>The threads, the memory and the disk that the capabilities report; a document of another shape reports none.\<close>

definition capacity_of :: "json \<Rightarrow> (int \<times> int \<times> int) option" where
  "capacity_of caps = (case caps of
      JObj kvs \<Rightarrow>
        (let (threads, b1) = decode_field decode_int ''cpu_threads'' 0 kvs;
             (memory, b2) = decode_field decode_int ''memory_mb'' 0 kvs;
             (disk, b3) = decode_field decode_int ''disk_mb'' 0 kvs
         in if b1 \<or> b2 \<or> b3 then None else Some (threads, memory, disk))
    | JNull \<Rightarrow> Some (0, 0, 0)
    | _ \<Rightarrow> None)"

definition with_capacity :: "int \<Rightarrow> json \<Rightarrow> host \<Rightarrow> host" where
  "with_capacity ratio caps h = (case capacity_of caps of
      None \<Rightarrow> h
    | Some (threads, memory, disk) \<Rightarrow> h\<lparr>
        h_CapacityVCPUs := (if 0 < threads then wrap64 (threads * ratio) else h_CapacityVCPUs h),
        h_CapacityMemoryMB := (if 0 < memory then memory else h_CapacityMemoryMB h),
        h_CapacityDiskMB := (if 0 < disk then disk else h_CapacityDiskMB h)\<rparr>)"

definition source_image :: "fleet_server \<Rightarrow> string option" where
  "source_image fs = (case fl_placement fs of None \<Rightarrow> None | Some pc \<Rightarrow> nullif_empty (pc_ExpectedImage pc))"

definition registered_host :: "fleet_server \<Rightarrow> register_request \<Rightarrow> enrollment_token \<Rightarrow> string \<Rightarrow> time \<Rightarrow> host" where
  "registered_host fs q t agentToken now =
     (let caps = deref_or (JObj []) (rg_Capabilities q)
      in with_capacity (fl_vcpuOversubRatio fs) caps (zero_host\<lparr>
           h_VMName := ''ocm-host-'' @ show_int (now div 1000000), h_Zone := ''external'', h_Region := ''external'',
           h_MachineType := ''registered'', h_Status := ''provisioning'', h_SourceImage := source_image fs,
           h_Provider := et_Provider t, h_ProviderClass := et_ProviderClass t, h_LifecycleMode := ''registered'',
           h_AgentEndpoint := Some (rg_AgentEndpoint q),
           h_AgentEndpointType := (if rg_AgentEndpointType q = '''' then ''public_http'' else rg_AgentEndpointType q),
           h_ProviderMetadata := Some (JObj []), h_Capabilities := Some caps,
           h_Labels := Some (deref_or (JObj []) (rg_Labels q)), h_AgentToken := Some agentToken\<rparr>))"

text \<open>
  The tunnel of a new host: its token, or the reply with which the registration ends. What cannot be stored
  afterwards is only logged. The metadata of a new host are empty.
\<close>

definition enroll_tunnel :: "fleet_server \<Rightarrow> host \<Rightarrow> (world, fleet_reply + string) state" where
  "enroll_tunnel fs h = (case fl_tunnelCreator fs of
      None \<Rightarrow> ret (Inr '''')
    | Some tm \<Rightarrow>
        if normalizeDomain (fl_dataPlaneDomain fs) = '''' then ret (Inl (FrError 400 ''DATA_PLANE_DOMAIN is required for tunnel enrollment''))
        else (let hostname = h_VMName h @ ''.'' @ normalizeDomain (fl_dataPlaneDomain fs) in do {
          c \<leftarrow> in_net (CreateTunnel tm (h_VMName h));
          case c of
            Inl _ \<Rightarrow> ret (Inl (FrError 500 ''failed to create tunnel''))
          | Inr (tid, token) \<Rightarrow> do {
              g \<leftarrow> in_net (ConfigureTunnel tm tid hostname);
              case g of
                Inl _ \<Rightarrow> do { _ \<leftarrow> in_net (DeleteTunnel tm tid); ret (Inl (FrError 500 ''failed to configure tunnel'')) }
              | Inr _ \<Rightarrow> do {
                  d \<leftarrow> in_net (CreateDNSRoute tm tid hostname);
                  case d of
                    Inl _ \<Rightarrow> do { _ \<leftarrow> in_net (DeleteTunnel tm tid); ret (Inl (FrError 500 ''failed to create DNS route'')) }
                  | Inr _ \<Rightarrow> do {
                      _ \<leftarrow> in_db (UpdateHostDetails (h\<lparr>h_TunnelURL := Some hostname\<rparr>));
                      _ \<leftarrow> in_db (UpdateHostProviderMetadata (h_ID h) (Some (JObj [(''tunnel_id'', JStr tid)])));
                      ret (Inr token)
                    }
                }
            }
        }))"

text \<open>The host is recorded, gets its tunnel, and the token is used up; that this can fail is only logged.\<close>

definition record_registration :: "fleet_server \<Rightarrow> string \<Rightarrow> host \<Rightarrow> string \<Rightarrow> (world, fleet_reply) state" where
  "record_registration fs token new agentToken = do {
     c \<leftarrow> in_db (CreateRegisteredHost new);
     case c of
       Inl _ \<Rightarrow> ret (FrError 500 ''failed to create host record'')
     | Inr h \<Rightarrow> do {
         e \<leftarrow> enroll_tunnel fs h;
         case e of
           Inl reply \<Rightarrow> ret reply
         | Inr tunnelToken \<Rightarrow> do {
             _ \<leftarrow> in_db (MarkEnrollmentTokenUsed token (h_ID h));
             ret (FrRegistered (h_ID h) agentToken tunnelToken)
           }
       }
   }"

definition handleAgentRegister :: "fleet_server \<Rightarrow> nat list result \<Rightarrow> api_request \<Rightarrow> (world, fleet_reply) state" where
  "handleAgentRegister fs random r = (case decode_register_request (rq_Body r) of
      None \<Rightarrow> ret (FrError 400 ''invalid request body'')
    | Some q \<Rightarrow>
        if rg_EnrollmentToken q = '''' then ret (FrError 400 ''enrollment_token is required'')
        else do {
          g \<leftarrow> in_db (GetEnrollmentToken (rg_EnrollmentToken q));
          case g of
            Inl _ \<Rightarrow> ret (FrError 401 ''invalid enrollment token'')
          | Inr t \<Rightarrow>
              if et_UsedByHostID t \<noteq> None then ret (FrError 409 ''enrollment token already used'')
              else do {
                now \<leftarrow> in_db clock;
                if et_ExpiresAt t < now then ret (FrError 401 ''enrollment token expired'')
                else (case random of
                    Inl _ \<Rightarrow> ret (FrError 500 ''failed to generate agent token'')
                  | Inr bytes \<Rightarrow> (let agentToken = ''ocm_agent_'' @ hex_of bytes
                      in record_registration fs (rg_EnrollmentToken q) (registered_host fs q t agentToken now) agentToken))
              }
        })"

definition tunnel_of_host :: "host \<Rightarrow> string option" where
  "tunnel_of_host h = (case h_ProviderMetadata h of
      Some j \<Rightarrow> (case json_get ''tunnel_id'' j of Some (JStr tid) \<Rightarrow> nullif_empty tid | _ \<Rightarrow> None)
    | None \<Rightarrow> None)"

definition handleDeregisterHost :: "fleet_server \<Rightarrow> string \<Rightarrow> (world, fleet_reply) state" where
  "handleDeregisterHost fs param = (case parseIntParam param of
      None \<Rightarrow> ret (FrError 400 ''invalid host id'')
    | Some hid \<Rightarrow> do {
        g \<leftarrow> in_db (GetHost hid);
        case g of
          Inl _ \<Rightarrow> ret (FrError 404 ''host not found'')
        | Inr h \<Rightarrow> do {
            _ \<leftarrow> (case (fl_tunnelCreator fs, tunnel_of_host h) of
               (Some tm, Some tid) \<Rightarrow> do {
                 _ \<leftarrow> in_net (DeleteTunnelAndDNS tm tid (case h_TunnelURL h of None \<Rightarrow> [] | Some url \<Rightarrow> [url]));
                 ret ()
               }
             | _ \<Rightarrow> ret ());
            _ \<leftarrow> in_db (MarkMachinesOnHostError hid ''host deregistered'');
            u \<leftarrow> in_db (UpdateHostStatus hid ''terminated'');
            case u of Inl _ \<Rightarrow> ret (FrError 500 ''failed to update host status'') | Inr _ \<Rightarrow> ret (FrStatus ''deregistered'')
          }
      })"

section \<open>Who reports (agent_heartbeat.go, agent_auth.go)\<close>

definition authenticateAgent :: "fleet_server \<Rightarrow> api_request \<Rightarrow> int \<Rightarrow> (world, unit result) state" where
  "authenticateAgent fs r hid = (case bearer r of
      None \<Rightarrow> fail (ErrText ''missing bearer token'')
    | Some token \<Rightarrow>
        (let fleet = (if fl_agentToken fs = '''' then fail (ErrText ''agent token not configured'')
                      else if token \<noteq> fl_agentToken fs then fail (ErrText ''invalid agent token'') else ok ())
         in if hid = 0 then fleet
            else do {
              g \<leftarrow> in_db (GetHost hid);
              case g of
                Inl _ \<Rightarrow> fleet
              | Inr h \<Rightarrow> (case nullif_empty (deref_or '''' (h_AgentToken h)) of
                    None \<Rightarrow> fleet
                  | Some own \<Rightarrow> if token = own then ok () else fail (ErrText ''invalid agent token for host''))
            }))"

definition auth_refusal :: "go_error \<Rightarrow> fleet_reply" where
  "auth_refusal e = FrError (if error_text e = ''missing bearer token'' then 401 else 403) (error_text e)"

text \<open>The number of the host, or 0 for the token of the whole fleet.\<close>

definition authenticateAgentToken :: "fleet_server \<Rightarrow> api_request \<Rightarrow> (world, string + int) state" where
  "authenticateAgentToken fs r = (case bearer r of
      None \<Rightarrow> ret (Inl ''missing bearer token'')
    | Some token \<Rightarrow> do {
        g \<leftarrow> in_db (GetHostByAgentToken token);
        case g of
          Inr h \<Rightarrow> ret (Inr (h_ID h))
        | Inl _ \<Rightarrow> ret (if fl_agentToken fs \<noteq> '''' \<and> token = fl_agentToken fs then Inr 0 else Inl ''invalid agent token'')
      })"

definition validateMachinePlacement :: "string \<Rightarrow> int \<Rightarrow> (world, unit result) state" where
  "validateMachinePlacement mid hid = (if hid = 0 then ok () else do {
     g \<leftarrow> in_db (GetMachine mid);
     case g of
       Inl _ \<Rightarrow> fail (ErrText ''machine not found'')
     | Inr m \<Rightarrow> if m_HostID m = Some hid then ok () else fail (ErrText ''machine is not placed on this host'')
   })"

text \<open>How every endpoint for the agents begins: the endpoint itself is \<open>k\<close>, which gets the machine.\<close>

definition agent_endpoint ::
  "fleet_server \<Rightarrow> api_request \<Rightarrow> string \<Rightarrow> (world, fleet_reply) state \<Rightarrow> (world, fleet_reply) state" where
  "agent_endpoint fs r mid k = do {
     a \<leftarrow> authenticateAgentToken fs r;
     case a of
       Inl msg \<Rightarrow> ret (FrError 401 msg)
     | Inr hid \<Rightarrow> do {
         v \<leftarrow> validateMachinePlacement mid hid;
         case v of Inl e \<Rightarrow> ret (FrError 403 (error_text e)) | Inr _ \<Rightarrow> k
       }
   }"

section \<open>Heartbeats (agent_heartbeat.go)\<close>

text \<open>The literal of a \<open>json.Number\<close>: a sign, an integer without leading zeros, a fraction and an exponent.\<close>

definition skip_fraction :: "string \<Rightarrow> string" where
  "skip_fraction s = (case s of
      c # d # cs \<Rightarrow> if c = CHR ''.'' \<and> is_digit d then dropWhile is_digit cs else s
    | _ \<Rightarrow> s)"

definition skip_exponent :: "string \<Rightarrow> string" where
  "skip_exponent s = (case s of
      c # cs \<Rightarrow> if c = CHR ''e'' \<or> c = CHR ''E''
        then (let t = (if cs \<noteq> [] \<and> hd cs \<in> set ''+-'' then tl cs else cs)
              in if t \<noteq> [] \<and> is_digit (hd t) then dropWhile is_digit t else s)
        else s
    | [] \<Rightarrow> s)"

definition valid_number :: "string \<Rightarrow> bool" where
  "valid_number s = (case trim_prefix s ''-'' of
      [] \<Rightarrow> False
    | c # cs \<Rightarrow> is_digit c \<and> skip_exponent (skip_fraction (if c = CHR ''0'' then cs else dropWhile is_digit cs)) = [])"

fun decode_number :: "string decoder" where
  "decode_number old (JNum n) = (show_int n, False)"
| "decode_number old (JStr s) = (if valid_number s then (s, False) else (old, True))"
| "decode_number old JNull = (old, False)"
| "decode_number old _ = (old, True)"

text \<open>A VM and the versions it runs.\<close>

type_synonym vm_version = "string \<times> string \<times> string"

definition decode_vm_version :: "string \<times> json \<Rightarrow> vm_version \<times> bool" where
  "decode_vm_version kv = (case snd kv of
      JObj kvs \<Rightarrow>
        (let (rootfs, b1) = decode_field decode_string ''rootfs'' '''' kvs;
             (openclaw, b2) = decode_field decode_string ''openclaw'' '''' kvs
         in ((fst kv, rootfs, openclaw), b1 \<or> b2))
    | JNull \<Rightarrow> ((fst kv, '''', ''''), False)
    | _ \<Rightarrow> ((fst kv, '''', ''''), True))"

text \<open>A Go map: of entries with equal keys the last one counts.\<close>

fun last_wins :: "(string \<times> 'a) list \<Rightarrow> (string \<times> 'a) list" where
  "last_wins [] = []"
| "last_wins (kv # kvs) = (if fst kv \<in> fst ` set kvs then last_wins kvs else kv # last_wins kvs)"

fun decode_vm_versions :: "vm_version list decoder" where
  "decode_vm_versions old JNull = ([], False)"
| "decode_vm_versions old (JObj kvs) =
     (last_wins (map (\<lambda>kv. fst (decode_vm_version kv)) kvs), list_ex (\<lambda>kv. snd (decode_vm_version kv)) kvs)"
| "decode_vm_versions old _ = (old, True)"

record heartbeat_request =
  hb_HostID :: string
  hb_ExternalIP :: string
  hb_AgentVersion :: string
  hb_VMCount :: int
  hb_RootfsVersion :: string
  hb_BrowserRootfsVersion :: string
  hb_AgentEndpoint :: string
  hb_OpenclawVersion :: string
  hb_Capabilities :: "json option"
  hb_VMVersions :: "vm_version list"

definition decode_heartbeat :: "json option \<Rightarrow> heartbeat_request option" where
  "decode_heartbeat body = (case body of
      Some (JObj kvs) \<Rightarrow>
        (let (hid, b1) = decode_field decode_number ''host_id'' '''' kvs;
             (ip, b2) = decode_field decode_string ''external_ip'' '''' kvs;
             (agent, b3) = decode_field decode_string ''agent_version'' '''' kvs;
             (count, b4) = decode_field decode_int ''vm_count'' 0 kvs;
             (rootfs, b5) = decode_field decode_string ''rootfs_version'' '''' kvs;
             (browser, b6) = decode_field decode_string ''browser_rootfs_version'' '''' kvs;
             (endpoint, b7) = decode_field decode_string ''agent_endpoint'' '''' kvs;
             (openclaw, b8) = decode_field decode_string ''openclaw_version'' '''' kvs;
             (caps, b9) = decode_field decode_raw ''capabilities'' None kvs;
             (vms, b10) = decode_field decode_vm_versions ''vm_versions'' [] kvs
         in if b1 \<or> b2 \<or> b3 \<or> b4 \<or> b5 \<or> b6 \<or> b7 \<or> b8 \<or> b9 \<or> b10 then None
            else Some \<lparr>hb_HostID = hid, hb_ExternalIP = ip, hb_AgentVersion = agent, hb_VMCount = count,
              hb_RootfsVersion = rootfs, hb_BrowserRootfsVersion = browser, hb_AgentEndpoint = endpoint,
              hb_OpenclawVersion = openclaw, hb_Capabilities = caps, hb_VMVersions = vms\<rparr>)
    | Some JNull \<Rightarrow> Some \<lparr>hb_HostID = '''', hb_ExternalIP = '''', hb_AgentVersion = '''', hb_VMCount = 0,
        hb_RootfsVersion = '''', hb_BrowserRootfsVersion = '''', hb_AgentEndpoint = '''', hb_OpenclawVersion = '''',
        hb_Capabilities = None, hb_VMVersions = []\<rparr>
    | _ \<Rightarrow> None)"

definition pair_again :: "agent_client \<Rightarrow> host \<Rightarrow> machine \<Rightarrow> browser_vm \<Rightarrow> string \<Rightarrow> string \<Rightarrow> (world, unit) state" where
  "pair_again c h m bvm vmIP browserIP = do {
     p \<leftarrow> in_net (PairBrowserVM_agent c h (b_ID bvm) vmIP);
     case p of
       Inl e \<Rightarrow>
         if errors_is e ErrBrowserVMNotFound then do {
           _ \<leftarrow> in_db (UnpairBrowserVM (m_ID m));
           _ \<leftarrow> in_db (UpdateBrowserVMStatus (b_ID bvm) ''error'' (Some ''agent reports browser VM no longer exists on host''));
           _ \<leftarrow> in_db (UnassignBrowserVMFromHost (b_ID bvm));
           _ \<leftarrow> in_db (ReleaseBrowserVMPlacement (b_ID bvm));
           ret ()
         }
         else ret ()
     | Inr _ \<Rightarrow> do { _ \<leftarrow> in_net (SetCDPTarget c h (m_ID m) (browserIP @ '':9222'')); ret () }
   }"

definition reconcile_pairing :: "agent_client \<Rightarrow> host \<Rightarrow> machine \<Rightarrow> (world, unit) state" where
  "reconcile_pairing c h m = (case (m_BrowserVMID m, m_VMIP m) of
      (Some bid, Some vmIP) \<Rightarrow>
        if m_Status m \<noteq> ''running'' then ret ()
        else do {
          g \<leftarrow> in_db (GetBrowserVM bid);
          case g of
            Inl _ \<Rightarrow> ret ()
          | Inr bvm \<Rightarrow> (case b_VMIP bvm of
                Some browserIP \<Rightarrow>
                  if b_Status bvm = ''running'' \<and> b_HostID bvm = Some (h_ID h) then pair_again c h m bvm vmIP browserIP
                  else ret ()
              | None \<Rightarrow> ret ())
        }
    | _ \<Rightarrow> ret ())"

definition reconcileHostBrowserPairings :: "fleet_server \<Rightarrow> host \<Rightarrow> (world, unit) state" where
  "reconcileHostBrowserPairings fs h = (case fl_agentClient fs of
      None \<Rightarrow> ret ()
    | Some c \<Rightarrow> do {
        l \<leftarrow> in_db (ListMachinesByHost (h_ID h));
        case l of Inl _ \<Rightarrow> ret () | Inr ms \<Rightarrow> for_each (reconcile_pairing c h) ms
      })"

definition staged :: "int \<Rightarrow> string \<Rightarrow> string \<Rightarrow> (world, unit) state" where
  "staged hid kind version = (if version = '''' then ret () else do {
     _ \<leftarrow> in_db (UpsertHostArtifactState \<lparr>has_ID = 0, has_HostID = hid, has_Kind = kind, has_StagedVersion = Some version,
            has_ActiveVersion = None, has_DefaultVersion = None, has_LastStagedAt = None, has_LastActivatedAt = None,
            has_UpdatedAt = 0\<rparr>);
     ret ()
   })"

definition actual_version :: "int \<Rightarrow> vm_version \<Rightarrow> (world, unit) state" where
  "actual_version hid v = (case v of (mid, rootfs, openclaw) \<Rightarrow>
     if trim_space mid = '''' then ret ()
     else do { _ \<leftarrow> in_db (UpdateMachineActualVersions hid (trim_space mid) (trim_space rootfs) (trim_space openclaw)); ret () })"

text \<open>\<open>json.Unmarshal\<close> of the message that an update has left, an argument, and the machines that it lists.\<close>

definition pending_restarts :: "(string \<Rightarrow> json option) \<Rightarrow> string option \<Rightarrow> string list" where
  "pending_restarts unmarshal msg = (case msg of
      None \<Rightarrow> []
    | Some text \<Rightarrow> (case unmarshal text of
        Some (JObj kvs) \<Rightarrow> (case decode_field (decode_slice '''' decode_string) ''pending_restarts'' [] kvs of
            (ids, bad) \<Rightarrow> if bad then [] else ids)
      | _ \<Rightarrow> []))"

text \<open>
  A host whose heartbeat comes back: it is ready again, and after an update it leaves maintenance and the
  machines that the update stopped are due.
\<close>

definition recover_host :: "(string \<Rightarrow> json option) \<Rightarrow> host \<Rightarrow> (world, string list) state" where
  "recover_host unmarshal h =
     (if h_Status h \<in> {''unreachable'', ''draining'', ''updating''} then do {
        _ \<leftarrow> in_db (UpdateHostStatus (h_ID h) ''ready'');
        if h_Status h = ''updating'' then do {
          _ \<leftarrow> in_db (SetHostMaintenanceMode (h_ID h) False);
          ret (pending_restarts unmarshal (h_StatusMessage h))
        } else ret []
      }
      else if h_Status h = ''provisioning'' then do { _ \<leftarrow> in_db (UpdateHostStatus (h_ID h) ''ready''); ret [] }
      else ret [])"

text \<open>What a heartbeat reports; \<open>draws\<close> gives the order in which the map of the versions is visited.\<close>

definition record_heartbeat :: "nat list \<Rightarrow> heartbeat_request \<Rightarrow> int \<Rightarrow> (world, bool result) state" where
  "record_heartbeat draws q hid = do {
     b \<leftarrow> in_db (UpdateHostHeartbeat hid (hb_ExternalIP q) (hb_AgentVersion q) (hb_RootfsVersion q)
            (hb_BrowserRootfsVersion q) (hb_OpenclawVersion q) (hb_Capabilities q));
     case b of
       Inl e \<Rightarrow> fail e
     | Inr ipChanged \<Rightarrow> do {
         _ \<leftarrow> staged hid ''rootfs'' (hb_RootfsVersion q);
         _ \<leftarrow> staged hid ''openclaw'' (hb_OpenclawVersion q);
         _ \<leftarrow> for_each (actual_version hid) (shuffle draws (hb_VMVersions q));
         _ \<leftarrow> (if hb_AgentEndpoint q = '''' then ret ()
               else do { _ \<leftarrow> in_db (UpdateHostAgentEndpoint hid (hb_AgentEndpoint q) ''public_http''); ret () });
         ok ipChanged
       }
   }"

definition accept_heartbeat ::
  "(string \<Rightarrow> json option) \<Rightarrow> fleet_server \<Rightarrow> nat list \<Rightarrow> heartbeat_request \<Rightarrow> int \<Rightarrow> (world, fleet_reply \<times> string list) state" where
  "accept_heartbeat unmarshal fs draws q hid = do {
     b \<leftarrow> record_heartbeat draws q hid;
     case b of
       Inl _ \<Rightarrow> ret (FrError 500 ''heartbeat update failed'', [])
     | Inr ipChanged \<Rightarrow> do {
         g \<leftarrow> in_db (GetHost hid);
         case g of
           Inl _ \<Rightarrow> ret (FrHeartbeat ipChanged (fl_backupMasterKey fs \<noteq> ''''), [])
         | Inr h \<Rightarrow> do {
             pending \<leftarrow> recover_host unmarshal h;
             _ \<leftarrow> (if 0 < hb_VMCount q then reconcileHostBrowserPairings fs h else ret ());
             ret (FrHeartbeat ipChanged (fl_backupMasterKey fs \<noteq> ''''), pending)
           }
       }
   }"

definition handleAgentHeartbeat ::
  "(string \<Rightarrow> json option) \<Rightarrow> fleet_server \<Rightarrow> nat list \<Rightarrow> api_request \<Rightarrow> (world, fleet_reply \<times> string list) state" where
  "handleAgentHeartbeat unmarshal fs draws r = (case decode_heartbeat (rq_Body r) of
      None \<Rightarrow> ret (FrError 400 ''invalid request body'', [])
    | Some q \<Rightarrow>
        (let bad = ret (FrError 400 ''host_id and external_ip are required'', [])
         in case atoi (trim_where (\<lambda>c. c = CHR 0x22) (hb_HostID q)) of
              None \<Rightarrow> bad
            | Some hid \<Rightarrow>
                if hid = 0 \<or> hb_ExternalIP q = '''' then bad
                else do {
                  a \<leftarrow> authenticateAgent fs r hid;
                  case a of Inl e \<Rightarrow> ret (auth_refusal e, []) | Inr _ \<Rightarrow> accept_heartbeat unmarshal fs draws q hid
                }))"

definition decode_shutdown :: "json option \<Rightarrow> string option" where
  "decode_shutdown body = (case body of
      Some (JObj kvs) \<Rightarrow>
        (let (hid, b1) = decode_field decode_string ''host_id'' '''' kvs;
             (reason, b2) = decode_field decode_string ''reason'' '''' kvs
         in if b1 \<or> b2 then None else Some hid)
    | Some JNull \<Rightarrow> Some ''''
    | _ \<Rightarrow> None)"

definition handleAgentShutdownNotify :: "fleet_server \<Rightarrow> api_request \<Rightarrow> (world, fleet_reply) state" where
  "handleAgentShutdownNotify fs r = (case decode_shutdown (rq_Body r) of
      None \<Rightarrow> ret (FrError 400 ''invalid request body'')
    | Some text \<Rightarrow> (case atoi text of
        None \<Rightarrow> ret (FrError 400 ''host_id is required'')
      | Some hid \<Rightarrow>
          if hid = 0 then ret (FrError 400 ''host_id is required'')
          else do {
            a \<leftarrow> authenticateAgent fs r hid;
            case a of
              Inl e \<Rightarrow> ret (auth_refusal e)
            | Inr _ \<Rightarrow> do {
                u \<leftarrow> in_db (UpdateHostStatus hid ''draining'');
                case u of Inl _ \<Rightarrow> ret (FrError 500 ''failed to update host status'') | Inr _ \<Rightarrow> ret (FrStatus ''ok'')
              }
          }))"

section \<open>Routes for the edge (agent_heartbeat.go)\<close>

text \<open>The token of the service, checked before its handlers.\<close>

definition ServiceTokenMiddleware ::
  "fleet_server \<Rightarrow> api_request \<Rightarrow> (world, fleet_reply) state \<Rightarrow> (world, fleet_reply) state" where
  "ServiceTokenMiddleware fs r k =
     (if fl_cfServiceTokenID fs = '''' then ret (FrError 403 ''service token not configured'')
      else if rq_Header r ''CF-Access-Client-Id'' \<noteq> fl_cfServiceTokenID fs \<or>
              rq_Header r ''CF-Access-Client-Secret'' \<noteq> fl_cfServiceTokenSec fs
      then ret (FrError 403 ''invalid service token'') else k)"

definition handleInternalResolve :: "fleet_server \<Rightarrow> api_request \<Rightarrow> (world, fleet_reply) state" where
  "handleInternalResolve fs r = (case (body_string ''account_slug'' (rq_Body r), body_string ''machine_slug'' (rq_Body r)) of
      (Some accountSlug, Some machineSlug) \<Rightarrow>
        if accountSlug = '''' \<or> machineSlug = '''' then ret (FrError 400 ''account_slug and machine_slug are required'')
        else do {
          g \<leftarrow> in_db (ResolveRoute accountSlug machineSlug);
          case g of
            Inl _ \<Rightarrow> ret (FrError 404 ''route not found'')
          | Inr rr \<Rightarrow> do {
              _ \<leftarrow> (case fl_routing fs of
                 None \<Rightarrow> ret ()
               | Some sv \<Rightarrow> do {
                   _ \<leftarrow> (if rr_HostHostname rr = '''' then ok ()
                         else SyncRouteToKV sv accountSlug machineSlug (rr_MachineID rr) (rr_HostHostname rr) (rr_ProxyToken rr));
                   _ \<leftarrow> SyncAccountToKV sv accountSlug (rr_AccountID rr) (rr_UserIDs rr);
                   ret ()
                 });
              ret (FrRoute rr)
            }
        }
    | _ \<Rightarrow> ret (FrError 400 ''invalid request body''))"

section \<open>Hosts and their machines (admin_hosts.go)\<close>

definition handleListHosts :: "(world, fleet_reply) state" where
  "handleListHosts = do {
     l \<leftarrow> in_db ListHosts;
     case l of Inl e \<Rightarrow> ret (FrError 500 (error_text e)) | Inr hs \<Rightarrow> ret (FrHosts hs)
   }"

text \<open>
  What a start draws and loads, for each machine. A machine that is not stopped any more is left alone; the
  pollers of the starts are returned.
\<close>

record start_inputs =
  si_entropy :: "string \<Rightarrow> entropy"
  si_boot :: "string \<Rightarrow> boot_phases"

definition restart_machine :: "runtime_service \<Rightarrow> start_inputs \<Rightarrow> string \<Rightarrow> (world, poll_job list) state" where
  "restart_machine rt si mid = do {
     g \<leftarrow> in_db (GetMachine mid);
     case g of
       Inl _ \<Rightarrow> ret []
     | Inr m \<Rightarrow>
         if m_Status m \<noteq> ''stopped'' then ret []
         else do {
           r \<leftarrow> start rt (si_entropy si mid) (si_boot si mid) m ''''
                  \<lparr>so_TargetHostID = 0, so_SkipPoll = False, so_SkipVersionPersist = False\<rparr>;
           case r of
             Inl e \<Rightarrow> do {
               _ \<leftarrow> in_db (UpdateMachineStatus (m_ID m) ''stopped'' (Some (''failed to restart after update: '' @ error_text e)));
               ret []
             }
           | Inr (h, vmIP, job) \<Rightarrow> ret (case job of None \<Rightarrow> [] | Some j \<Rightarrow> [j])
         }
   }"

fun restartMachinesAfterUpdate :: "runtime_service \<Rightarrow> start_inputs \<Rightarrow> string list \<Rightarrow> (world, poll_job list) state" where
  "restartMachinesAfterUpdate rt si [] = ret []"
| "restartMachinesAfterUpdate rt si (mid # mids) = do {
     js \<leftarrow> restart_machine rt si mid;
     js' \<leftarrow> restartMachinesAfterUpdate rt si mids;
     ret (js @ js')
   }"

text \<open>
  The goroutines that stop the running machines, of which each is one step here: the machines in the order in
  which they are stopped, those that were stopped and how many were not.
\<close>

fun stop_machines :: "runtime_service \<Rightarrow> machine list \<Rightarrow> (world, string list \<times> nat) state" where
  "stop_machines rt [] = ret ([], 0)"
| "stop_machines rt (m # ms) = do {
     s \<leftarrow> StopForUpdate rt m;
     rest \<leftarrow> stop_machines rt ms;
     ret (case s of Inl _ \<Rightarrow> (fst rest, Suc (snd rest)) | Inr _ \<Rightarrow> (m_ID m # fst rest, snd rest))
   }"

definition running_machines :: "nat list \<Rightarrow> machine list \<Rightarrow> machine list" where
  "running_machines draws ms = shuffle draws (filter (\<lambda>m. m_Status m = ''running'') ms)"

definition handleRefreshRootfs ::
  "runtime_service \<Rightarrow> agent_client \<Rightarrow> nat list \<Rightarrow> string \<Rightarrow> string \<Rightarrow> (world, fleet_reply \<times> string list) state" where
  "handleRefreshRootfs rt c draws param sourceImage = (case parseIntParam param of
      None \<Rightarrow> ret (FrError 400 ''invalid host id'', [])
    | Some hid \<Rightarrow> do {
        g \<leftarrow> in_db (GetHost hid);
        case g of
          Inl _ \<Rightarrow> ret (FrError 404 ''host not found'', [])
        | Inr h \<Rightarrow> do {
            _ \<leftarrow> in_db (SetHostMaintenanceMode hid True);
            l \<leftarrow> in_db (ListMachinesByHost hid);
            case l of
              Inl e \<Rightarrow> do {
                _ \<leftarrow> in_db (SetHostMaintenanceMode hid False);
                ret (FrError 500 (''failed to list machines: '' @ error_text e), [])
              }
            | Inr ms \<Rightarrow> do {
                stopped \<leftarrow> stop_machines rt (running_machines draws ms);
                f \<leftarrow> in_net (RefreshRootfs c h);
                case f of
                  Inl e \<Rightarrow> do { _ \<leftarrow> in_db (SetHostMaintenanceMode hid False); ret (FrError 500 (error_text e), fst stopped) }
                | Inr _ \<Rightarrow> do {
                    _ \<leftarrow> (if sourceImage = '''' then ok () else in_db (UpdateHostSourceImage hid sourceImage));
                    _ \<leftarrow> in_db (SetHostMaintenanceMode hid False);
                    ret (FrRefreshed (length (fst stopped)) (snd stopped), fst stopped)
                  }
              }
          }
      })"

definition decode_maintenance :: "json option \<Rightarrow> bool option" where
  "decode_maintenance body = (case body of
      Some (JObj kvs) \<Rightarrow> (case decode_field decode_bool ''enabled'' False kvs of (enabled, bad) \<Rightarrow> if bad then None else Some enabled)
    | Some JNull \<Rightarrow> Some False
    | _ \<Rightarrow> None)"

definition handleSetHostMaintenance :: "string \<Rightarrow> json option \<Rightarrow> (world, fleet_reply) state" where
  "handleSetHostMaintenance param body = (case parseIntParam param of
      None \<Rightarrow> ret (FrError 400 ''invalid host id'')
    | Some hid \<Rightarrow> (case decode_maintenance body of
        None \<Rightarrow> ret (FrError 400 ''invalid request body'')
      | Some enabled \<Rightarrow> do {
          g \<leftarrow> in_db (GetHost hid);
          case g of
            Inl _ \<Rightarrow> ret (FrError 404 ''host not found'')
          | Inr _ \<Rightarrow> do {
              u \<leftarrow> in_db (SetHostMaintenanceMode hid enabled);
              case u of
                Inl e \<Rightarrow> ret (FrError 500 (error_text e))
              | Inr _ \<Rightarrow> ret (FrStatus (if enabled then ''enabled'' else ''disabled''))
            }
        }))"

section \<open>What the handlers rely on\<close>

lemma enroll_tunnel_keeps:
  assumes "\<And>u. triple I (UpdateHostDetails u) (\<lambda>_. True)" "\<And>md. triple I (UpdateHostProviderMetadata (h_ID h) md) (\<lambda>_. True)"
  shows "triple (\<lambda>w. I (w_db w)) (enroll_tunnel fs h) (\<lambda>_. True)"
  unfolding enroll_tunnel_def Let_def by (rule triple_rules triple_in_net triple_in_db assms | simp)+

text \<open>
  \<open>report_session\<close> are the calls of a heartbeat up to the change of the status of its host;
  \<open>fleet_session\<close> adds the calls of the other handlers. \<open>Z\<close> says which hosts may be registered.
\<close>

locale report_session = db_invariant I for I :: "db \<Rightarrow> bool" +
  assumes Heartbeat_keeps: "triple I (UpdateHostHeartbeat hid ip ag rf br oc caps) (\<lambda>_. True)"
    and ArtifactState_keeps: "triple I (UpsertHostArtifactState a) (\<lambda>_. True)"
    and ActualVersions_keeps: "triple I (UpdateMachineActualVersions hid mid r v) (\<lambda>_. True)"
    and Endpoint_keeps: "triple I (UpdateHostAgentEndpoint hid ep kind) (\<lambda>_. True)"
    and Maintenance_keeps: "triple I (SetHostMaintenanceMode hid b) (\<lambda>_. True)"
    and Unpair_keeps: "triple I (UnpairBrowserVM mid) (\<lambda>_. True)"
    and BrowserStatus_keeps: "triple I (UpdateBrowserVMStatus bid st msg) (\<lambda>_. True)"
    and UnassignBrowser_keeps: "triple I (UnassignBrowserVMFromHost bid) (\<lambda>_. True)"
    and ReleaseBrowser_keeps: "triple I (ReleaseBrowserVMPlacement bid) (\<lambda>_. True)"
begin

lemma fleet_reads_keep:
  "triple I (GetHost hid) (\<lambda>_. True)" "triple I (GetMachine mid) (\<lambda>_. True)" "triple I (GetBrowserVM bid) (\<lambda>_. True)"
  "triple I (ListMachinesByHost hid) (\<lambda>_. True)" "triple I (GetHostByAgentToken token) (\<lambda>_. True)"
  "triple I (GetEnrollmentToken token) (\<lambda>_. True)" "triple I clock (\<lambda>_. True)"
  by (simp_all add: GetHost_def GetMachine_def GetBrowserVM_def ListMachinesByHost_def GetHostByAgentToken_def
      GetEnrollmentToken_def inv_query) (simp add: clock_def triple_def)

lemmas report_keeps = triple_rules triple_in_net triple_in_db Heartbeat_keeps ArtifactState_keeps ActualVersions_keeps Endpoint_keeps
  Maintenance_keeps Unpair_keeps BrowserStatus_keeps UnassignBrowser_keeps ReleaseBrowser_keeps fleet_reads_keep

lemma record_keeps: "triple (\<lambda>w. I (w_db w)) (record_heartbeat draws q hid) (\<lambda>_. True)"
  unfolding record_heartbeat_def staged_def actual_version_def by (rule report_keeps | simp split: prod.split)+

lemma pairings_keep: "triple (\<lambda>w. I (w_db w)) (reconcileHostBrowserPairings fs h) (\<lambda>_. True)"
  unfolding reconcileHostBrowserPairings_def reconcile_pairing_def pair_again_def
  by (rule report_keeps | simp split: option.split)+

lemma authenticate_keeps: "triple (\<lambda>w. I (w_db w)) (authenticateAgent fs r hid) (\<lambda>_. True)"
  unfolding authenticateAgent_def Let_def by (rule report_keeps | simp)+

end

locale fleet_session = report_session +
  fixes Z :: "host \<Rightarrow> bool"
  assumes HostStatus_keeps: "triple I (UpdateHostStatus hid st) (\<lambda>_. True)"
    and MarkError_keeps: "triple I (MarkMachinesOnHostError hid txt) (\<lambda>_. True)"
    and Register_keeps: "Z h \<Longrightarrow> triple I (CreateRegisteredHost h) (\<lambda>_. True)"
    and HostDetails_keeps: "triple I (UpdateHostDetails h) (\<lambda>_. True)"
    and Metadata_keeps: "triple I (UpdateHostProviderMetadata hid md) (\<lambda>_. True)"
    and CreateToken_keeps: "triple I (CreateEnrollmentToken random t) (\<lambda>_. True)"
    and UseToken_keeps: "triple I (MarkEnrollmentTokenUsed token hid) (\<lambda>_. True)"
begin

lemmas fleet_keeps = HostStatus_keeps MarkError_keeps HostDetails_keeps Metadata_keeps CreateToken_keeps UseToken_keeps report_keeps

lemma heartbeat_keeps: "triple (\<lambda>w. I (w_db w)) (handleAgentHeartbeat unmarshal fs draws r) (\<lambda>_. True)"
  unfolding handleAgentHeartbeat_def accept_heartbeat_def recover_host_def Let_def
  by (rule record_keeps pairings_keep authenticate_keeps fleet_keeps | simp)+

lemma shutdown_keeps: "triple (\<lambda>w. I (w_db w)) (handleAgentShutdownNotify fs r) (\<lambda>_. True)"
  unfolding handleAgentShutdownNotify_def by (rule authenticate_keeps fleet_keeps | simp)+

lemma deregister_keeps: "triple (\<lambda>w. I (w_db w)) (handleDeregisterHost fs param) (\<lambda>_. True)"
  unfolding handleDeregisterHost_def by (rule fleet_keeps | simp split: option.split)+

lemma token_keeps: "triple (\<lambda>w. I (w_db w)) (handleCreateEnrollmentToken fs reqHost random r) (\<lambda>_. True)"
  unfolding handleCreateEnrollmentToken_def by (rule fleet_keeps | simp)+

lemma maintenance_keeps: "triple (\<lambda>w. I (w_db w)) (handleSetHostMaintenance param body) (\<lambda>_. True)"
  unfolding handleSetHostMaintenance_def by (rule fleet_keeps | simp)+

lemma register_keeps:
  assumes "\<And>q t token now. decode_register_request (rq_Body r) = Some q \<Longrightarrow> Z (registered_host fs q t token now)"
  shows "triple (\<lambda>w. I (w_db w)) (handleAgentRegister fs random r) (\<lambda>_. True)"
  unfolding handleAgentRegister_def record_registration_def Let_def
  by (rule enroll_tunnel_keeps triple_in_db [OF Register_keeps] fleet_keeps assms | simp)+

end

end
