(* ===== verification/Fleet_Api_Properties.thy ===== *)
theory Fleet_Api_Properties
  imports Samples Fleet_Api
begin

text \<open>
  How hosts join, report and leave: only with their token, one host for each enrollment token as long as the
  database answers, and always with a well-formed database; and what happens when it does not answer, or when
  a host that has left reports again.
\<close>

section \<open>Reports need a token\<close>

definition answers :: "world \<Rightarrow> bool" where
  "answers w \<longleftrightarrow> db_faults (w_db w) = []"

text \<open>The token that a host must show: its own if it has one, and otherwise the one of the fleet.\<close>

definition host_token :: "fleet_server \<Rightarrow> int \<Rightarrow> db \<Rightarrow> string option" where
  "host_token fs hid s = (case find_host hid s of
      Some h \<Rightarrow> coalesce (nullif_empty (deref_or '''' (h_AgentToken h))) (nullif_empty (fl_agentToken fs))
    | None \<Rightarrow> nullif_empty (fl_agentToken fs))"

definition authentic :: "fleet_server \<Rightarrow> api_request \<Rightarrow> int \<Rightarrow> db \<Rightarrow> bool" where
  "authentic fs r hid s \<longleftrightarrow> bearer r \<noteq> None \<and> bearer r = host_token fs hid s"

lemma authenticate_run:
  assumes "answers w" "hid \<noteq> 0"
  shows "snd (run_state (authenticateAgent fs r hid) w) = w \<and>
    (outcome (authenticateAgent fs r hid) w = Inr ()) = authentic fs r hid (w_db w)"
  using assms
  by (auto simp: answers_def authenticateAgent_def authentic_def host_token_def GetHost_def query_def db_call_def Let_def
      nullif_empty_def deref_or_def with_machine_count_def split: option.splits if_splits)

definition reported_host :: "json option \<Rightarrow> int option" where
  "reported_host body = Option.bind (decode_heartbeat body) (\<lambda>q. atoi (trim_where (\<lambda>c. c = CHR 0x22) (hb_HostID q)))"

definition leaving_host :: "json option \<Rightarrow> int option" where
  "leaving_host body = Option.bind (decode_shutdown body) atoi"

text \<open>
  C23: reports need the token. As long as the database answers: a heartbeat or a notice of shutdown
  that does not show the token of the host it names (its own, or if it has none the one of the fleet) is refused,
  changes nothing and sends nothing.
\<close>
theorem reports_need_token:
  assumes "answers w"
  shows "((\<forall>hid. reported_host (rq_Body r) = Some hid \<longrightarrow> hid \<noteq> 0 \<longrightarrow> \<not> authentic fs r hid (w_db w)) \<longrightarrow>
      (\<exists>st msg. st \<in> {400, 401, 403} \<and> run_state (handleAgentHeartbeat unmarshal fs draws r) w = ((FrError st msg, []), w))) \<and>
    ((\<forall>hid. leaving_host (rq_Body r) = Some hid \<longrightarrow> hid \<noteq> 0 \<longrightarrow> \<not> authentic fs r hid (w_db w)) \<longrightarrow>
      (\<exists>st msg. st \<in> {400, 401, 403} \<and> run_state (handleAgentShutdownNotify fs r) w = (FrError st msg, w)))"
proof -
  have refused: "\<exists>e. run_state (authenticateAgent fs r hid) w = (Inl e, w)" if "hid \<noteq> 0" "\<not> authentic fs r hid (w_db w)" for hid
    using authenticate_run [OF assms that(1), of fs r] that(2)
    by (cases "run_state (authenticateAgent fs r hid) w"; cases "outcome (authenticateAgent fs r hid) w") auto
  show ?thesis
  proof (intro conjI impI)
    assume "\<forall>hid. reported_host (rq_Body r) = Some hid \<longrightarrow> hid \<noteq> 0 \<longrightarrow> \<not> authentic fs r hid (w_db w)"
    then show "\<exists>st msg. st \<in> {400, 401, 403} \<and> run_state (handleAgentHeartbeat unmarshal fs draws r) w = ((FrError st msg, []), w)"
      using refused
      by (fastforce simp: handleAgentHeartbeat_def reported_host_def auth_refusal_def Let_def split: option.splits)
  next
    assume "\<forall>hid. leaving_host (rq_Body r) = Some hid \<longrightarrow> hid \<noteq> 0 \<longrightarrow> \<not> authentic fs r hid (w_db w)"
    then show "\<exists>st msg. st \<in> {400, 401, 403} \<and> run_state (handleAgentShutdownNotify fs r) w = (FrError st msg, w)"
      using refused
      by (fastforce simp: handleAgentShutdownNotify_def leaving_host_def auth_refusal_def split: option.splits)
  qed
qed

section \<open>One host for each enrollment token\<close>

text \<open>The checks of a registration that was accepted, and its record.\<close>

lemma enroll_reply: "outcome (enroll_tunnel fs h) w \<noteq> Inl (FrRegistered i a t)"
  by (auto simp: enroll_tunnel_def Let_def split_beta split: option.splits sum.splits if_splits)

lemma checked_registration:
  assumes "answers w" "outcome (handleAgentRegister fs random r) w = FrRegistered hid agentToken tunnelToken"
  obtains q t where "decode_register_request (rq_Body r) = Some q" "rg_EnrollmentToken q \<noteq> ''''"
    "one_row (matching (\<lambda>t. et_Token t = rg_EnrollmentToken q) (host_enrollment_tokens (w_db w))) = Inr t"
    "et_UsedByHostID t = None" "db_now (w_db w) \<le> et_ExpiresAt t"
    "run_state (handleAgentRegister fs random r) w =
       run_state (record_registration fs (rg_EnrollmentToken q) (registered_host fs q t agentToken (db_now (w_db w))) agentToken) w"
proof -
  have read: "run_state (in_db (GetEnrollmentToken token)) w =
      (one_row (matching (\<lambda>t. et_Token t = token) (host_enrollment_tokens (w_db w))), w)" for token
    using assms(1) by (simp add: GetEnrollmentToken_def query_def db_call_def answers_def)
  have now: "run_state (in_db clock) w = (db_now (w_db w), w)" by (simp add: clock_def)
  have agent: "agentToken = a" if "outcome (record_registration fs token h a) w = FrRegistered hid agentToken tunnelToken" for token h a
    using that enroll_reply [of fs]
    by (auto simp: record_registration_def split_beta split: sum.splits if_splits)
  obtain q where q: "decode_register_request (rq_Body r) = Some q" "rg_EnrollmentToken q \<noteq> ''''"
    using assms(2) by (cases "decode_register_request (rq_Body r)") (auto simp: handleAgentRegister_def split: if_splits)
  obtain t where t: "one_row (matching (\<lambda>t. et_Token t = rg_EnrollmentToken q) (host_enrollment_tokens (w_db w))) = Inr t"
      "et_UsedByHostID t = None"
    using assms(2) q
    by (cases "one_row (matching (\<lambda>t. et_Token t = rg_EnrollmentToken q) (host_enrollment_tokens (w_db w)))")
       (auto simp: handleAgentRegister_def read simp del: run_in_db split: if_splits)
  obtain bytes where bytes: "random = Inr bytes" "db_now (w_db w) \<le> et_ExpiresAt t"
    using assms(2) q t by (cases random) (auto simp: handleAgentRegister_def read now simp del: run_in_db split: if_splits)
  define a where "a = ''ocm_agent_'' @ hex_of bytes"
  have run: "run_state (handleAgentRegister fs random r) w =
      run_state (record_registration fs (rg_EnrollmentToken q) (registered_host fs q t a (db_now (w_db w))) a) w"
    using q t bytes by (simp add: handleAgentRegister_def read now Let_def a_def del: run_in_db)
  then have "agentToken = a" using agent assms(2) by metis
  then show ?thesis using that [OF q t bytes(2)] run by blast
qed

text \<open>A host with a status and a token, in a database that answers.\<close>

lemma find_host_on_host [simp]:
  assumes "\<And>h. h_ID (f h) = h_ID h"
  shows "find_host hid (on_host k f s) = (if k = hid then map_option f (find_host hid s) else find_host hid s)"
proof (cases "find (\<lambda>h. h_ID h = hid) (hosts s)")
  case (Some h)
  then have "h_ID h = hid" by (auto simp: find_Some_iff)
  then show ?thesis using Some assms by (simp add: find_host_def find_update_where)
qed (simp add: find_host_def find_update_where assms)

definition host_is :: "int \<Rightarrow> string \<Rightarrow> string \<Rightarrow> db \<Rightarrow> bool" where
  "host_is hid status token s \<longleftrightarrow> db_faults s = [] \<and>
     (\<exists>h. find_host hid s = Some h \<and> h_Status h = status \<and> h_AgentToken h = Some token)"

interpretation host_inv: db_invariant "host_is hid status token" for hid status token
  by unfold_locales (simp add: host_is_def find_host_def)

lemma host_is_tables [simp]:
  "host_is hid status token (s\<lparr>machines := ms\<rparr>) = host_is hid status token s"
  "host_is hid status token (s\<lparr>browser_vms := bs\<rparr>) = host_is hid status token s"
  "host_is hid status token (s\<lparr>browser_vm_placements := ps\<rparr>) = host_is hid status token s"
  "host_is hid status token (s\<lparr>host_artifact_states := xs\<rparr>) = host_is hid status token s"
  "host_is hid status token (s\<lparr>db_serial := i\<rparr>) = host_is hid status token s"
  "host_is hid status token (on_machine mid g s) = host_is hid status token s"
  "host_is hid status token (s\<lparr>host_enrollment_tokens := ts\<rparr>) = host_is hid status token s"
  by (simp_all add: host_is_def find_host_def)

lemma host_is_on_host:
  "host_is hid status token s \<Longrightarrow>
   (\<And>h. h_ID (f h) = h_ID h \<and> h_Status (f h) = h_Status h \<and> h_AgentToken (f h) = h_AgentToken h) \<Longrightarrow>
   host_is hid status token (on_host k f s)"
  by (auto simp: host_is_def)

interpretation host_reports: report_session "host_is hid status token" for hid status token
proof unfold_locales
  fix k ip ag rf br oc caps
  show "triple (host_is hid status token) (UpdateHostHeartbeat k ip ag rf br oc caps) (\<lambda>_. True)"
    unfolding UpdateHostHeartbeat_def
    by (rule host_inv.inv_tx) (auto simp: Let_def heartbeat_host_def intro!: host_is_on_host split: option.splits)
next
  fix a
  show "triple (host_is hid status token) (UpsertHostArtifactState a) (\<lambda>_. True)"
    unfolding UpsertHostArtifactState_def upsert_artifact_state_def
    by (rule host_inv.inv_tx) (auto simp: Let_def split: if_splits list.splits)
next
  fix k mid r v
  show "triple (host_is hid status token) (UpdateMachineActualVersions k mid r v) (\<lambda>_. True)"
    unfolding UpdateMachineActualVersions_def by (rule host_inv.inv_exec host_inv.inv_tx, auto)
next
  fix k ep kind
  show "triple (host_is hid status token) (UpdateHostAgentEndpoint k ep kind) (\<lambda>_. True)"
    unfolding UpdateHostAgentEndpoint_def by (rule host_inv.inv_exec) (auto intro: host_is_on_host)
next
  fix k b
  show "triple (host_is hid status token) (SetHostMaintenanceMode k b) (\<lambda>_. True)"
    unfolding SetHostMaintenanceMode_def by (rule host_inv.inv_exec) (auto intro: host_is_on_host)
next
  fix mid
  show "triple (host_is hid status token) (UnpairBrowserVM mid) (\<lambda>_. True)"
    unfolding UnpairBrowserVM_def by (rule host_inv.inv_exec) simp
next
  fix bid st msg
  show "triple (host_is hid status token) (UpdateBrowserVMStatus bid st msg) (\<lambda>_. True)"
    "triple (host_is hid status token) (UnassignBrowserVMFromHost bid) (\<lambda>_. True)"
    unfolding UpdateBrowserVMStatus_def UnassignBrowserVMFromHost_def on_browser_vm_def
    by (rule host_inv.inv_exec host_inv.inv_tx; auto simp: Let_def split: if_splits option.splits)+
next
  fix bid
  show "triple (host_is hid status token) (ReleaseBrowserVMPlacement bid) (\<lambda>_. True)"
    unfolding ReleaseBrowserVMPlacement_def release_browser_placement_def
    by (rule host_inv.inv_tx)
       (auto simp: Let_def credit_exact_def intro!: host_is_on_host split: if_splits option.splits list.splits)
qed

lemma find_append_new: "find P xs = None \<Longrightarrow> find P (xs @ [x]) = (if P x then Some x else None)"
  by (induction xs) (auto split: if_splits)

text \<open>The record of a registration that ended with a token.\<close>

lemma recorded_host:
  assumes "db_faults s = []" "schema_ok s" "h_AgentToken new = Some agentToken"
    and "outcome (CreateRegisteredHost new) s = Inr h"
  shows "host_is (h_ID h) ''provisioning'' agentToken (final_state (CreateRegisteredHost new) s) \<and>
    host_enrollment_tokens (final_state (CreateRegisteredHost new) s) = host_enrollment_tokens s \<and>
    db_now (final_state (CreateRegisteredHost new) s) = db_now s \<and> find_host (h_ID h) s = None"
proof -
  have "find (\<lambda>h. h_ID h = db_serial s) (hosts s) = None"
    using assms(2) by (auto simp: schema_ok_def hosts_ok_def find_None_iff)
  then show ?thesis
    using assms(1,3,4)
    by (auto simp: CreateRegisteredHost_def tx_def db_call_def Let_def add_host_def host_is_def find_host_def zero_host_def
        find_append_new)
qed

definition enrolling :: "int \<Rightarrow> string \<Rightarrow> enrollment_token list \<Rightarrow> time \<Rightarrow> db \<Rightarrow> bool" where
  "enrolling hid agentToken ts now s \<longleftrightarrow>
     host_is hid ''provisioning'' agentToken s \<and> host_enrollment_tokens s = ts \<and> db_now s = now"

interpretation enrolling_inv: db_invariant "enrolling hid agentToken ts now" for hid agentToken ts now
  by unfold_locales (simp add: enrolling_def host_inv.I_faults)

lemma enrolling_tunnel: "triple (\<lambda>w. enrolling hid agentToken ts now (w_db w)) (enroll_tunnel fs h) (\<lambda>_. True)"
proof (rule enroll_tunnel_keeps)
  show "triple (enrolling hid agentToken ts now) (UpdateHostDetails u) (\<lambda>_. True)" for u
    unfolding UpdateHostDetails_def
    by (rule enrolling_inv.inv_exec) (auto simp: enrolling_def on_host_def [of _ _ s for s] intro!: host_is_on_host [unfolded on_host_def])
  show "triple (enrolling hid agentToken ts now) (UpdateHostProviderMetadata (h_ID h) md) (\<lambda>_. True)" for md
    unfolding UpdateHostProviderMetadata_def
    by (rule enrolling_inv.inv_exec) (auto simp: enrolling_def on_host_def [of _ _ s for s] intro!: host_is_on_host [unfolded on_host_def])
qed

lemma marked_first:
  "one_row (matching (\<lambda>t. et_Token t = k) ts) = Inr t \<Longrightarrow> usable_token k now t \<Longrightarrow>
   one_row (matching (\<lambda>t. et_Token t = k) (update_where (usable_token k now) (\<lambda>t. t\<lparr>et_UsedByHostID := x\<rparr>) ts)) =
     Inr (t\<lparr>et_UsedByHostID := x\<rparr>)"
  by (induction ts) (auto simp: one_row_def matching_def usable_token_def split: if_splits)

lemma recorded_registration:
  assumes "answers w" "schema_ok (w_db w)" "h_AgentToken new = Some agentToken"
    and "t \<in> set (host_enrollment_tokens (w_db w))" "usable_token token (db_now (w_db w)) t"
    and "outcome (record_registration fs token new agentToken) w = FrRegistered hid a tt"
  shows "find_host hid (w_db w) = None"
    and "host_is hid ''provisioning'' agentToken (w_db (final_state (record_registration fs token new agentToken) w))"
    and "host_enrollment_tokens (w_db (final_state (record_registration fs token new agentToken) w)) =
      update_where (usable_token token (db_now (w_db w))) (\<lambda>t. t\<lparr>et_UsedByHostID := Some hid\<rparr>) (host_enrollment_tokens (w_db w))"
proof -
  let ?s = "w_db w" and ?ts = "host_enrollment_tokens (w_db w)"
  let ?s1 = "final_state (CreateRegisteredHost new) ?s"
  obtain h where h: "outcome (CreateRegisteredHost new) ?s = Inr h"
    using assms(6) by (cases "outcome (CreateRegisteredHost new) ?s") (auto simp: record_registration_def split_beta)
  let ?e = "run_state (enroll_tunnel fs h) (w\<lparr>w_db := ?s1\<rparr>)"
  obtain tok where e: "fst ?e = Inr tok"
    using assms(6) h enroll_reply [of fs h "w\<lparr>w_db := ?s1\<rparr>"] by (cases "fst ?e") (auto simp: record_registration_def split_beta)
  have hid: "hid = h_ID h" using assms(6) h e by (simp add: record_registration_def split_beta)
  have created: "enrolling hid agentToken ?ts (db_now ?s) ?s1" and "find_host hid ?s = None"
    using recorded_host [OF _ assms(2,3) h] assms(1) hid by (simp_all add: answers_def enrolling_def)
  then show "find_host hid (w_db w) = None" by simp
  have tokens: "enrolling hid agentToken ?ts (db_now ?s) (w_db (snd ?e))"
    using tripleD [OF enrolling_tunnel, of hid agentToken ?ts "db_now ?s" "w\<lparr>w_db := ?s1\<rparr>"] created by simp
  have "db_faults (w_db (snd ?e)) = []" "db_now (w_db (snd ?e)) = db_now ?s" "host_enrollment_tokens (w_db (snd ?e)) = ?ts"
    and "\<exists>h \<in> set (hosts (w_db (snd ?e))). h_ID h = hid"
    using tokens find_host_Some by (auto simp: enrolling_def host_is_def)
  moreover have "matching (usable_token token (db_now ?s)) ?ts \<noteq> []"
    using assms(4,5) by (auto simp: matching_def filter_empty_conv)
  ultimately have final: "w_db (final_state (record_registration fs token new agentToken) w) = (w_db (snd ?e))\<lparr>host_enrollment_tokens :=
      update_where (usable_token token (db_now ?s)) (\<lambda>t. t\<lparr>et_UsedByHostID := Some hid\<rparr>) ?ts\<rparr>"
    using h e hid by (simp add: record_registration_def split_beta MarkEnrollmentTokenUsed_def tx_def db_call_def)
  then show "host_is hid ''provisioning'' agentToken (w_db (final_state (record_registration fs token new agentToken) w))"
    "host_enrollment_tokens (w_db (final_state (record_registration fs token new agentToken) w)) =
      update_where (usable_token token (db_now ?s)) (\<lambda>t. t\<lparr>et_UsedByHostID := Some hid\<rparr>) ?ts"
    using tokens by (simp_all add: enrolling_def)
qed

text \<open>
  C24: one host for each enrollment token. As long as the database answers and the token does not expire
  at this very moment: after a registration that is answered with a token for the agent, the host it names is
  new and waits for its first heartbeat with that token, and the enrollment token is used up: any other
  registration with it is refused and changes nothing.
\<close>
theorem one_host_per_enrollment:
  assumes "answers w" "schema_ok (w_db w)"
    and "outcome (handleAgentRegister fs random r) w = FrRegistered hid agentToken tunnelToken"
    and "decode_register_request (rq_Body r) = Some q" "decode_register_request (rq_Body r') = Some q'"
    and "rg_EnrollmentToken q' = rg_EnrollmentToken q"
    and "\<forall>t \<in> set (host_enrollment_tokens (w_db w)). et_Token t = rg_EnrollmentToken q \<longrightarrow> et_ExpiresAt t \<noteq> db_now (w_db w)"
  shows "let w' = final_state (handleAgentRegister fs random r) w in
    find_host hid (w_db w) = None \<and>
    (\<exists>h. find_host hid (w_db w') = Some h \<and> h_Status h = ''provisioning'' \<and> h_AgentToken h = Some agentToken) \<and>
    run_state (handleAgentRegister fs' random' r') w' = (FrError 409 ''enrollment token already used'', w')"
proof -
  let ?s = "w_db w" and ?new = "\<lambda>t. registered_host fs q t agentToken (db_now (w_db w))" and ?token = "rg_EnrollmentToken q"
  obtain t where t: "?token \<noteq> ''''" "one_row (matching (\<lambda>t. et_Token t = ?token) (host_enrollment_tokens ?s)) = Inr t"
      "et_UsedByHostID t = None" "db_now ?s \<le> et_ExpiresAt t"
      "run_state (handleAgentRegister fs random r) w = run_state (record_registration fs ?token (?new t) agentToken) w"
    using checked_registration [OF assms(1,3)] assms(4) by (metis option.inject)
  have row: "t \<in> set (host_enrollment_tokens ?s)" "usable_token ?token (db_now ?s) t"
    using one_row_Inr [OF t(2)] t(3,4) assms(7) by (fastforce simp: usable_token_def matching_def)+
  have new: "h_AgentToken (?new t) = Some agentToken"
    by (simp add: registered_host_def with_capacity_def Let_def split: option.split prod.split)
  let ?w' = "final_state (handleAgentRegister fs random r) w"
  have rec: "find_host hid ?s = None" "host_is hid ''provisioning'' agentToken (w_db ?w')"
    "host_enrollment_tokens (w_db ?w') =
      update_where (usable_token ?token (db_now ?s)) (\<lambda>t. t\<lparr>et_UsedByHostID := Some hid\<rparr>) (host_enrollment_tokens ?s)"
    using recorded_registration [OF assms(1,2) new row, of fs hid agentToken tunnelToken] assms(3) t(5) by simp_all
  have "one_row (matching (\<lambda>t. et_Token t = ?token) (host_enrollment_tokens (w_db ?w'))) = Inr (t\<lparr>et_UsedByHostID := Some hid\<rparr>)"
    unfolding rec(3) using t(2) row(2) by (rule marked_first)
  then have "run_state (handleAgentRegister fs' random' r') ?w' = (FrError 409 ''enrollment token already used'', ?w')"
    using assms(5,6) t(1) rec(2) by (simp add: handleAgentRegister_def GetEnrollmentToken_def query_def db_call_def host_is_def)
  then show ?thesis using rec(1,2) by (simp add: Let_def host_is_def)
qed

section \<open>A host that has left\<close>

lemma recovered:
  assumes "host_is hid status token (w_db w)" "status \<in> {''unreachable'', ''draining'', ''updating'', ''provisioning''}"
    and "find_host hid (w_db w) = Some h"
  shows "host_is hid ''ready'' token (w_db (final_state (recover_host unmarshal (with_machine_count s h)) w))"
  using assms find_host_Some [OF assms(3)]
  by (auto simp: recover_host_def host_is_def UpdateHostStatus_def SetHostMaintenanceMode_def exec_def db_call_def)

lemma recorded: "host_is hid status token (w_db w) \<Longrightarrow> \<exists>ch. outcome (record_heartbeat draws q hid) w = Inr ch"
  by (auto simp: record_heartbeat_def host_is_def UpdateHostHeartbeat_def tx_def db_call_def Let_def split_beta)

lemma heartbeat_revives:
  assumes "host_is hid status token (w_db w)" "status \<in> {''unreachable'', ''draining'', ''updating'', ''provisioning''}"
  shows "host_is hid ''ready'' token (w_db (final_state (accept_heartbeat unmarshal fs draws q hid) w))"
proof -
  let ?r = "run_state (record_heartbeat draws q hid) w"
  have kept: "host_is hid status token (w_db (snd ?r))"
    using tripleD [OF host_reports.record_keeps, of hid status token w] assms(1) by simp
  obtain ch where ch: "fst ?r = Inr ch" using recorded [OF assms(1)] by blast
  obtain h where h: "find_host hid (w_db (snd ?r)) = Some h" using kept by (auto simp: host_is_def)
  have get: "run_state (in_db (GetHost hid)) (snd ?r) = (Inr (with_machine_count (w_db (snd ?r)) h), snd ?r)"
    using kept h by (simp add: GetHost_def query_def db_call_def host_is_def)
  let ?m = "with_machine_count (w_db (snd ?r)) h"
  have ready: "host_is hid ''ready'' token (w_db (final_state (recover_host unmarshal ?m) (snd ?r)))"
    using recovered [OF kept assms(2) h] .
  moreover have "host_is hid ''ready'' token (w_db (final_state (reconcileHostBrowserPairings fs ?m) w1))"
    if "host_is hid ''ready'' token (w_db w1)" for w1
    using tripleD [OF host_reports.pairings_keep, of hid "''ready''" token w1] that by simp
  ultimately show ?thesis
    using ch get by (simp add: accept_heartbeat_def split_beta del: run_in_db)
qed

lemma token_accepted:
  assumes "host_is hid status token (w_db w)" "token \<noteq> ''''" "hid \<noteq> 0" "bearer r = Some token"
  shows "run_state (authenticateAgent fs r hid) w = (Inr (), w)"
proof -
  have "answers w" "authentic fs r hid (w_db w)"
    using assms by (auto simp: host_is_def answers_def authentic_def host_token_def nullif_empty_def deref_or_def)
  then show ?thesis using authenticate_run [of w hid fs r] assms(3) by (simp add: prod_eq_iff)
qed

lemma status_set:
  "host_is hid status token s \<Longrightarrow> outcome (UpdateHostStatus hid st) s = Inr () \<and>
   host_is hid st token (final_state (UpdateHostStatus hid st) s)"
  by (auto simp: UpdateHostStatus_def exec_def db_call_def host_is_def)

lemma deregistered:
  assumes "host_is hid status token (w_db w)" "parseIntParam param = Some hid"
  shows "outcome (handleDeregisterHost fs param) w = FrStatus ''deregistered'' \<and>
    host_is hid ''terminated'' token (w_db (final_state (handleDeregisterHost fs param) w))"
proof -
  obtain h where h: "find_host hid (w_db w) = Some h" using assms(1) by (auto simp: host_is_def)
  have mark: "host_is hid status token (final_state (MarkMachinesOnHostError hid msg) (w_db w))" for msg
    unfolding MarkMachinesOnHostError_def
    by (rule tripleD [OF host_inv.inv_tx assms(1)]) (auto simp: Let_def split: if_splits)
  show ?thesis
    using h status_set [OF mark, of "''terminated''"] assms
    by (simp add: handleDeregisterHost_def GetHost_def query_def db_call_def host_is_def split_beta split: option.split)
qed

text \<open>
  A host that has left comes back. A host that was deregistered keeps its token: when its agent
  then stops, as an agent does whose machine is shut down, its notice makes the terminated host a draining
  one, and the next heartbeat makes it ready. It is offered machines again, although its tunnel is gone.
\<close>
theorem deregistered_host_revives:
  assumes "answers w" "find_host hid (w_db w) = Some h" "h_AgentToken h = Some token" "token \<noteq> ''''" "hid \<noteq> 0"
    and "parseIntParam param = Some hid"
    and "leaving_host (rq_Body r1) = Some hid" "bearer r1 = Some token"
    and "decode_heartbeat (rq_Body r2) = Some q" "reported_host (rq_Body r2) = Some hid" "hb_ExternalIP q \<noteq> ''''"
    and "bearer r2 = Some token"
  shows "let w1 = final_state (handleDeregisterHost fs param) w;
      w2 = final_state (handleAgentShutdownNotify fs r1) w1;
      w3 = final_state (handleAgentHeartbeat unmarshal fs draws r2) w2
    in outcome (handleDeregisterHost fs param) w = FrStatus ''deregistered'' \<and>
      map_option h_Status (find_host hid (w_db w1)) = Some ''terminated'' \<and>
      map_option h_Status (find_host hid (w_db w3)) = Some ''ready''"
proof -
  have start: "host_is hid (h_Status h) token (w_db w)" using assms(1-3) by (simp add: answers_def host_is_def)
  let ?w1 = "final_state (handleDeregisterHost fs param) w"
  let ?w2 = "final_state (handleAgentShutdownNotify fs r1) ?w1"
  let ?w3 = "final_state (handleAgentHeartbeat unmarshal fs draws r2) ?w2"
  have w1: "outcome (handleDeregisterHost fs param) w = FrStatus ''deregistered''" "host_is hid ''terminated'' token (w_db ?w1)"
    using deregistered [OF start assms(6)] by auto
  have w2: "host_is hid ''draining'' token (w_db ?w2)"
    using token_accepted [OF w1(2) assms(4,5,8), of fs] status_set [OF w1(2), of "''draining''"] assms(5,7)
    by (auto simp: handleAgentShutdownNotify_def leaving_host_def split_beta split: option.splits bind_splits)
  have "run_state (handleAgentHeartbeat unmarshal fs draws r2) ?w2 = run_state (accept_heartbeat unmarshal fs draws q hid) ?w2"
    using token_accepted [OF w2 assms(4,5,12), of fs] assms(5,9-11)
    by (simp add: handleAgentHeartbeat_def reported_host_def Let_def split: option.splits)
  then have "host_is hid ''ready'' token (w_db ?w3)" using heartbeat_revives [OF w2] by simp
  then show ?thesis using w1 by (auto simp: Let_def host_is_def)
qed

section \<open>The database stays well formed\<close>

lemma fleet_calls_ok:
  "triple db_ok (UpsertHostArtifactState a) (\<lambda>_. True)"
  "triple db_ok (UpdateHostAgentEndpoint hid ep kind) (\<lambda>_. True)"
  "triple db_ok (UpdateHostProviderMetadata hid md) (\<lambda>_. True)"
  "triple db_ok (SetHostMaintenanceMode hid b) (\<lambda>_. True)"
  "triple db_ok (UpdateHostDetails h) (\<lambda>_. True)"
  "triple db_ok (UpdateHostHeartbeat hid ip ag rf br oc caps) (\<lambda>_. True)"
  "triple db_ok (UpdateMachineActualVersions hid mid r v) (\<lambda>_. True)"
  "triple db_ok (UpdateBrowserVMStatus bid st msg) (\<lambda>_. True)"
  "triple db_ok (UnassignBrowserVMFromHost bid) (\<lambda>_. True)"
  "triple db_ok (CreateEnrollmentToken random t) (\<lambda>_. True)"
  "triple db_ok (MarkEnrollmentTokenUsed token hid) (\<lambda>_. True)"
  by (rule db_ok_triple, rule schema_triples, rule capacity_triples)+

interpretation fleet_live: fleet_session db_ok host_size_ok
  by unfold_locales
     (rule fleet_calls_ok live.HostStatus_keeps live.MarkError_keeps live.Unpair_keeps live.ReleaseBrowserVM_keeps
       db_ok_hosts(2); assumption)+

definition fitting_threads :: "fleet_server \<Rightarrow> json \<Rightarrow> bool" where
  "fitting_threads fs caps \<longleftrightarrow> (case capacity_of caps of
      None \<Rightarrow> True | Some (threads, _, _) \<Rightarrow> threads * fl_vcpuOversubRatio fs < 2 ^ 63)"

lemma registered_size:
  assumes "0 \<le> fl_vcpuOversubRatio fs" "fitting_threads fs (deref_or (JObj []) (rg_Capabilities q))"
  shows "host_size_ok (registered_host fs q t token now)"
  using assms
  by (auto simp: registered_host_def with_capacity_def host_size_ok_def zero_host_def fitting_threads_def wrap64_def Let_def
      split: option.splits prod.splits)

text \<open>
  Joining, reporting and leaving keep the database well formed, whichever calls fail, as long as
  the number of threads that a new host reports does not overflow when it is multiplied with the
  oversubscription ratio.
\<close>
theorem fleet_keeps_db_ok:
  assumes "db_ok (w_db w)" "0 \<le> fl_vcpuOversubRatio fs"
    and "\<forall>q. decode_register_request (rq_Body r) = Some q \<longrightarrow> fitting_threads fs (deref_or (JObj []) (rg_Capabilities q))"
  shows "db_ok (w_db (final_state (handleAgentRegister fs random r) w)) \<and>
    db_ok (w_db (final_state (handleAgentHeartbeat unmarshal fs draws r) w)) \<and>
    db_ok (w_db (final_state (handleAgentShutdownNotify fs r) w)) \<and>
    db_ok (w_db (final_state (handleDeregisterHost fs param) w)) \<and>
    db_ok (w_db (final_state (handleCreateEnrollmentToken fs reqHost random r) w)) \<and>
    db_ok (w_db (final_state (handleSetHostMaintenance param (rq_Body r)) w))"
  using assms registered_size
  by (intro conjI tripleD [OF fleet_live.register_keeps] tripleD [OF fleet_live.heartbeat_keeps]
      tripleD [OF fleet_live.shutdown_keeps] tripleD [OF fleet_live.deregister_keeps] tripleD [OF fleet_live.token_keeps]
      tripleD [OF fleet_live.maintenance_keeps]) blast+

section \<open>Samples\<close>

definition sample_fleet :: fleet_server where
  "sample_fleet = \<lparr>fl_backendURL = ''https://ocm.example'', fl_dataPlaneDomain = '''', fl_agentToken = '''',
     fl_cfServiceTokenID = '''', fl_cfServiceTokenSec = '''', fl_backupMasterKey = '''', fl_vcpuOversubRatio = 2,
     fl_placement = None, fl_tunnelCreator = None, fl_routing = None, fl_agentClient = None\<rparr>"

definition sample_enrollment :: enrollment_token where
  "sample_enrollment = \<lparr>et_ID = uuid_of 9, et_Token = ''e'', et_Provider = ''ovhcloud'', et_ProviderClass = ''registered'',
     et_Labels = None, et_UsedByHostID = None, et_ExpiresAt = 5, et_CreatedAt = 0\<rparr>"

definition enrolling_world :: "bool list \<Rightarrow> world" where
  "enrolling_world fs = sample_world\<lparr>w_db := sample_db\<lparr>host_enrollment_tokens := [sample_enrollment], db_faults := fs\<rparr>\<rparr>"

definition api_call :: "string \<Rightarrow> (string \<times> json) list \<Rightarrow> api_request" where
  "api_call token kvs = \<lparr>api_request.rq_Header = (\<lambda>k. if k = ''Authorization'' then ''Bearer '' @ token else ''''),
     rq_Cookie = (\<lambda>_. None), rq_TLS = True, rq_Body = Some (JObj kvs)\<rparr>"

definition sample_registration :: api_request where
  "sample_registration = api_call '''' [(''enrollment_token'', JStr ''e''), (''capabilities'', JObj [(''cpu_threads'', JNum 8)])]"

lemmas fleet_sample_defs = sample_fleet_def sample_enrollment_def enrolling_world_def sample_world_def sample_registration_def
  api_call_def

lemma sample_register_request:
  "decode_register_request (rq_Body sample_registration) =
     Some \<lparr>rg_EnrollmentToken = ''e'', rg_AgentEndpoint = '''', rg_AgentEndpointType = '''',
       rg_Capabilities = Some (JObj [(''cpu_threads'', JNum 8)]), rg_Labels = None\<rparr>"
  by (simp add: fleet_sample_defs decode_register_request_def decode_field_def equal_fold_def lower_def decode_raw_def)

lemma sample_registers:
  "outcome (handleAgentRegister sample_fleet (Inr []) sample_registration) (enrolling_world []) =
     FrRegistered 2 ''ocm_agent_'' ''''"
  using sample_register_request
  by (simp add: handleAgentRegister_def record_registration_def GetEnrollmentToken_def CreateRegisteredHost_def query_def db_call_def
      clock_def tx_def enroll_tunnel_def one_row_def matching_def hex_of_def Let_def fleet_sample_defs sample_defs)

theorem one_host_per_enrollment_witness:
  "let w' = final_state (handleAgentRegister sample_fleet (Inr []) sample_registration) (enrolling_world []) in
    run_state (handleAgentRegister sample_fleet (Inr []) sample_registration) w' =
      (FrError 409 ''enrollment token already used'', w')"
proof -
  have "answers (enrolling_world [])" "schema_ok (w_db (enrolling_world []))"
    using sample_db_ok by (simp_all add: answers_def enrolling_world_def db_ok_def schema_ok_def sample_db_def empty_db_def unique_among_def)
  from one_host_per_enrollment [OF this sample_registers sample_register_request sample_register_request refl,
      of sample_fleet "Inr []"]
  show ?thesis by (simp add: Let_def enrolling_world_def sample_enrollment_def sample_db_def empty_db_def)
qed

text \<open>
  A token that is used twice. The database fails when the token is marked: the registration is answered
  as if nothing had happened, and the token registers a second host.
\<close>

lemma token_registers_twice:
  "let w' = final_state (handleAgentRegister sample_fleet (Inr []) sample_registration) (enrolling_world [False, False, True]) in
    outcome (handleAgentRegister sample_fleet (Inr []) sample_registration) (enrolling_world [False, False, True]) =
      FrRegistered 2 ''ocm_agent_'' '''' \<and>
    outcome (handleAgentRegister sample_fleet (Inr []) sample_registration) w' = FrRegistered 3 ''ocm_agent_'' ''''"
  using sample_register_request
  by (simp add: handleAgentRegister_def record_registration_def GetEnrollmentToken_def CreateRegisteredHost_def MarkEnrollmentTokenUsed_def
      query_def db_call_def clock_def tx_def enroll_tunnel_def one_row_def matching_def hex_of_def Let_def add_host_def
      fleet_sample_defs sample_defs)

text \<open>A host with a token of its own, and what it or somebody else reports.\<close>

definition reporting_world :: world where
  "reporting_world = sample_world\<lparr>w_db := sample_db\<lparr>hosts := [sample_host\<lparr>h_AgentToken := Some ''own''\<rparr>]\<rparr>\<rparr>"

definition sample_heartbeat :: "string \<Rightarrow> api_request" where
  "sample_heartbeat token = api_call token [(''host_id'', JStr ''1''), (''external_ip'', JStr ''10.0.0.1'')]"

definition sample_shutdown :: "string \<Rightarrow> api_request" where
  "sample_shutdown token = api_call token [(''host_id'', JStr ''1'')]"

lemma sample_bearer: "bearer (sample_heartbeat token) = Some token" "bearer (sample_shutdown token) = Some token"
  by (simp_all add: bearer_def sample_heartbeat_def sample_shutdown_def api_call_def trim_prefix_def)

lemma sample_reports:
  "decode_heartbeat (rq_Body (sample_heartbeat token)) = Some \<lparr>hb_HostID = ''1'', hb_ExternalIP = ''10.0.0.1'', hb_AgentVersion = '''',
     hb_VMCount = 0, hb_RootfsVersion = '''', hb_BrowserRootfsVersion = '''', hb_AgentEndpoint = '''', hb_OpenclawVersion = '''',
     hb_Capabilities = None, hb_VMVersions = []\<rparr>"
  "decode_shutdown (rq_Body (sample_shutdown token)) = Some ''1''"
  by (simp_all add: sample_heartbeat_def sample_shutdown_def api_call_def decode_heartbeat_def decode_shutdown_def decode_field_def
      equal_fold_def lower_def valid_number_def trim_prefix_def skip_fraction_def skip_exponent_def is_digit_def)

lemma sample_numbers: "atoi ''1'' = Some 1" "trim_where (\<lambda>c. c = CHR 0x22) ''1'' = ''1''" "parseIntParam ''1'' = Some 1"
  by (simp_all add: atoi_def digits_value_def is_digit_def trim_where_def parseIntParam_def is_space_def)

lemma sample_named:
  "reported_host (rq_Body (sample_heartbeat token)) = Some 1" "leaving_host (rq_Body (sample_shutdown token)) = Some 1"
  by (simp_all add: reported_host_def leaving_host_def sample_reports sample_numbers)

lemma reporting_host:
  "answers reporting_world" "find_host 1 (w_db reporting_world) = Some (sample_host\<lparr>h_AgentToken := Some ''own''\<rparr>)"
  by (simp_all add: answers_def reporting_world_def sample_world_def find_host_def sample_defs)

theorem reports_need_token_witness:
  "\<exists>st msg. st \<in> {400, 401, 403} \<and>
    run_state (handleAgentHeartbeat (\<lambda>_. None) sample_fleet [] (sample_heartbeat ''guess'')) reporting_world =
      ((FrError st msg, []), reporting_world)"
proof -
  have "\<not> authentic sample_fleet (sample_heartbeat ''guess'') 1 (w_db reporting_world)"
    by (simp add: authentic_def host_token_def reporting_host sample_bearer nullif_empty_def deref_or_def)
  then show ?thesis
    using reports_need_token [OF reporting_host(1), of "sample_heartbeat ''guess''" sample_fleet "\<lambda>_. None" "[]"]
    by (simp only: sample_named option.inject) blast
qed

theorem deregistered_host_revives_witness:
  "let w1 = final_state (handleDeregisterHost sample_fleet ''1'') reporting_world;
      w2 = final_state (handleAgentShutdownNotify sample_fleet (sample_shutdown ''own'')) w1;
      w3 = final_state (handleAgentHeartbeat (\<lambda>_. None) sample_fleet [] (sample_heartbeat ''own'')) w2
    in map_option h_Status (find_host 1 (w_db w1)) = Some ''terminated'' \<and>
      map_option h_Status (find_host 1 (w_db w3)) = Some ''ready''"
proof -
  have "h_AgentToken (sample_host\<lparr>h_AgentToken := Some ''own''\<rparr>) = Some ''own''" by simp
  from deregistered_host_revives [OF reporting_host this _ _ sample_numbers(3) sample_named(2) sample_bearer(2) sample_reports(1)
      sample_named(1) _ sample_bearer(1), of sample_fleet "\<lambda>_. None" "[]"]
  show ?thesis by (simp add: Let_def)
qed

theorem fleet_keeps_db_ok_witness:
  "db_ok (w_db (final_state (handleAgentRegister sample_fleet (Inr []) sample_registration) sample_world))"
proof -
  have "db_ok (w_db sample_world)" "0 \<le> fl_vcpuOversubRatio sample_fleet" by (simp_all add: sample_fleet_def)
  moreover have "\<forall>q. decode_register_request (rq_Body sample_registration) = Some q \<longrightarrow>
      fitting_threads sample_fleet (deref_or (JObj []) (rg_Capabilities q))"
    by (simp add: sample_register_request fitting_threads_def capacity_of_def decode_field_def equal_fold_def lower_def
        deref_or_def sample_fleet_def)
  ultimately show ?thesis by (rule conjunct1 [OF fleet_keeps_db_ok])
qed

end
