(* ===== verification/Host_Update.thy ===== *)
theory Host_Update
  imports Fleet_Api
begin

text \<open>
  Updates of hosts as the administrator asks for them (\<open>internal/api/admin_host_update_operations.go\<close> and the
  handlers of \<open>admin_hosts.go\<close> that start them). The operations are kept in memory under a lock. A request is
  a program: the handler, and once it has created an operation, the goroutine that carries it out; its reply is
  the one that the handler has sent by then. The clients of the agent and of the database are configured.
\<close>

section \<open>Operations\<close>

record host_update_operation =
  hu_ID :: string
  hu_HostID :: int
  hu_HostName :: string
  hu_Kind :: string
  hu_Status :: string
  hu_MachinesStopped :: nat
  hu_MachinesFailed :: nat
  hu_MachinesRestarting :: bool
  hu_Message :: string
  hu_Error :: string
  hu_CreatedAt :: time
  hu_UpdatedAt :: time
  hu_CompletedAt :: "time option"

text \<open>The map of the operations has their identifiers as its keys.\<close>

record update_world =
  uw_world :: world
  uw_ops :: "host_update_operation list"

datatype update_reply =
    UrError int string
  | UrAccepted host_update_operation
  | UrOperation host_update_operation
  | UrDone

type_synonym update_prog = "(update_world, update_reply) prog"

definition on_db :: "(db, 'a) state \<Rightarrow> (update_world, 'a) state" where
  "on_db m = zoom uw_world (\<lambda>w u. u\<lparr>uw_world := w\<rparr>) (in_db m)"

definition on_net :: "(net, 'a) state \<Rightarrow> (update_world, 'a) state" where
  "on_net m = zoom uw_world (\<lambda>w u. u\<lparr>uw_world := w\<rparr>) (in_net m)"

definition on_world :: "(world, 'a) state \<Rightarrow> (update_world, 'a) state" where
  "on_world m = zoom uw_world (\<lambda>w u. u\<lparr>uw_world := w\<rparr>) m"

definition update_now :: "update_world \<Rightarrow> time" where
  "update_now u = db_now (w_db (uw_world u))"

definition isActiveHostUpdateOperationStatus :: "string \<Rightarrow> bool" where
  "isActiveHostUpdateOperationStatus status \<longleftrightarrow> status = ''queued'' \<or> status = ''running''"

definition find_update :: "string \<Rightarrow> host_update_operation list \<Rightarrow> host_update_operation option" where
  "find_update opid ops = find (\<lambda>p. hu_ID p = opid) ops"

definition new_update :: "host \<Rightarrow> string \<Rightarrow> time \<Rightarrow> string \<Rightarrow> host_update_operation" where
  "new_update h kind now opid = \<lparr>hu_ID = opid, hu_HostID = h_ID h, hu_HostName = h_VMName h, hu_Kind = kind,
     hu_Status = ''queued'', hu_MachinesStopped = 0, hu_MachinesFailed = 0, hu_MachinesRestarting = False,
     hu_Message = '''', hu_Error = '''', hu_CreatedAt = now, hu_UpdatedAt = now, hu_CompletedAt = None\<rparr>"

definition errHostUpdateOperationActive :: go_error where
  "errHostUpdateOperationActive = ErrText ''host update operation already active''"

definition host_busy :: "int \<Rightarrow> host_update_operation list \<Rightarrow> bool" where
  "host_busy hid ops \<longleftrightarrow> (\<exists>p \<in> set ops. hu_HostID p = hid \<and> isActiveHostUpdateOperationStatus (hu_Status p))"

text \<open>\<open>ids\<close> are what \<open>generateShortID\<close> returns; of these at most five are tried.\<close>

definition update_ids :: "string list \<Rightarrow> string list" where
  "update_ids ids = map (\<lambda>i. ''hostupd-'' @ i) (take 5 ids)"

definition createHostUpdateOperation ::
  "host \<Rightarrow> string \<Rightarrow> time \<Rightarrow> string list \<Rightarrow> (update_world, host_update_operation result) state" where
  "createHostUpdateOperation h kind now ids = State (\<lambda>u.
     if host_busy (h_ID h) (uw_ops u)
     then (Inl errHostUpdateOperationActive, u)
     else (case find (\<lambda>i. find_update i (uw_ops u) = None) (update_ids ids) of
         None \<Rightarrow> (Inl (ErrText ''failed to allocate host update operation id''), u)
       | Some opid \<Rightarrow> (let p = new_update h kind now opid in (Inr p, u\<lparr>uw_ops := uw_ops u @ [p]\<rparr>))))"

definition getHostUpdateOperation :: "string \<Rightarrow> (update_world, host_update_operation option) state" where
  "getHostUpdateOperation opid = State (\<lambda>u. (find_update opid (uw_ops u), u))"

definition updateHostUpdateOperation ::
  "string \<Rightarrow> (host_update_operation \<Rightarrow> host_update_operation) \<Rightarrow> (update_world, unit) state" where
  "updateHostUpdateOperation opid f = State (\<lambda>u. ((), u\<lparr>uw_ops :=
     update_where (\<lambda>p. hu_ID p = opid) (\<lambda>p. (f p)\<lparr>hu_UpdatedAt := update_now u\<rparr>) (uw_ops u)\<rparr>))"

definition markHostUpdateOperationRunning :: "string \<Rightarrow> string \<Rightarrow> (update_world, unit) state" where
  "markHostUpdateOperationRunning opid message = updateHostUpdateOperation opid (\<lambda>p.
     p\<lparr>hu_Status := ''running'', hu_Message := message, hu_Error := ''''\<rparr>)"

definition updateHostUpdateOperationProgress ::
  "string \<Rightarrow> nat \<Rightarrow> nat \<Rightarrow> bool \<Rightarrow> string \<Rightarrow> (update_world, unit) state" where
  "updateHostUpdateOperationProgress opid stopped failed restarting message = updateHostUpdateOperation opid (\<lambda>p.
     p\<lparr>hu_MachinesStopped := stopped, hu_MachinesFailed := failed, hu_MachinesRestarting := restarting, hu_Message := message\<rparr>)"

text \<open>The time of completion is read before the lock is taken, here in the same step.\<close>

definition completeHostUpdateOperation :: "string \<Rightarrow> string \<Rightarrow> string \<Rightarrow> string \<Rightarrow> (update_world, unit) state" where
  "completeHostUpdateOperation opid status message err = State (\<lambda>u.
     run_state (updateHostUpdateOperation opid (\<lambda>p. p\<lparr>hu_Status := status, hu_Message := message, hu_Error := err,
       hu_CompletedAt := Some (update_now u)\<rparr>)) u)"

section \<open>Carrying an operation out\<close>

definition complete_update :: "string \<Rightarrow> string \<Rightarrow> string \<Rightarrow> string \<Rightarrow> update_reply \<Rightarrow> update_prog" where
  "complete_update opid status message err r = call (completeHostUpdateOperation opid status message err) (\<lambda>_. Finished r)"

text \<open>
  The waits. A poll reads the host; \<open>n\<close> is the number of polls, beyond the first, that fit before the deadline of
  seven minutes. A poll that the deadline interrupts fails.
\<close>

fun wait_for_host :: "(host \<Rightarrow> bool) \<Rightarrow> int \<Rightarrow> nat \<Rightarrow> (bool \<Rightarrow> update_prog) \<Rightarrow> update_prog" where
  "wait_for_host good hid 0 k = call (on_db (GetHost hid)) (\<lambda>g. k (case g of Inl _ \<Rightarrow> False | Inr h \<Rightarrow> good h))"
| "wait_for_host good hid (Suc n) k = call (on_db (GetHost hid)) (\<lambda>g.
     if (case g of Inl _ \<Rightarrow> False | Inr h \<Rightarrow> good h) then k True else wait_for_host good hid n k)"

definition finishHostUpdateOperationAfterWait ::
  "nat \<Rightarrow> string \<Rightarrow> int \<Rightarrow> string \<Rightarrow> nat \<Rightarrow> nat \<Rightarrow> bool \<Rightarrow> update_reply \<Rightarrow> update_prog" where
  "finishHostUpdateOperationAfterWait n opid hid name stopped failed restarting r =
     call (updateHostUpdateOperationProgress opid stopped failed restarting ''waiting for host agent to report ready'') (\<lambda>_.
       wait_for_host (\<lambda>h. h_Status h = ''ready'') hid n (\<lambda>ready.
         if ready then complete_update opid ''succeeded'' (name @ '' updated and back online'' @
           (if restarting then ''; stopped machines will restart from pending restart state'' else '''')) '''' r
         else complete_update opid ''timed_out'' ''update triggered but agent has not come back yet; check host status'' '''' r))"

text \<open>How each of the three operations begins: the host is read again and must still be ready.\<close>

definition with_ready_host :: "string \<Rightarrow> string \<Rightarrow> int \<Rightarrow> update_reply \<Rightarrow> (host \<Rightarrow> update_prog) \<Rightarrow> update_prog" where
  "with_ready_host opid message hid r k =
     call (markHostUpdateOperationRunning opid message) (\<lambda>_.
     call (on_db (GetHost hid)) (\<lambda>g. case g of
         Inl e \<Rightarrow> complete_update opid ''failed'' ''failed to look up host'' (error_text e) r
       | Inr h \<Rightarrow>
           if h_Status h \<noteq> ''ready''
           then (let msg = ''host is not ready (status: '' @ h_Status h @ '')'' in complete_update opid ''failed'' msg msg r)
           else k h))"

definition runTriggerHostUpdateOperation :: "agent_client \<Rightarrow> nat \<Rightarrow> string \<Rightarrow> int \<Rightarrow> update_reply \<Rightarrow> update_prog" where
  "runTriggerHostUpdateOperation c n opid hid r = with_ready_host opid ''triggering host update'' hid r (\<lambda>h.
     call (on_db (UpdateHostStatusMessage hid ''updating'' '''')) (\<lambda>_.
     call (on_net (TriggerUpdate c h)) (\<lambda>t. case t of
         Inl e \<Rightarrow> complete_update opid ''failed'' ''failed to trigger agent update'' (error_text e) r
       | Inr _ \<Rightarrow> finishHostUpdateOperationAfterWait n opid hid (h_VMName h) 0 0 False r)))"

text \<open>The goroutines that stop machines, each as one call, in the order in which they run.\<close>

fun stop_each :: "runtime_service \<Rightarrow> machine list \<Rightarrow> string list \<Rightarrow> nat \<Rightarrow> (string list \<Rightarrow> nat \<Rightarrow> update_prog) \<Rightarrow> update_prog" where
  "stop_each rt [] stopped failed k = k stopped failed"
| "stop_each rt (m # ms) stopped failed k = call (on_world (StopForUpdate rt m)) (\<lambda>s. case s of
      Inl _ \<Rightarrow> stop_each rt ms stopped (Suc failed) k
    | Inr _ \<Rightarrow> stop_each rt ms (stopped @ [m_ID m]) failed k)"

text \<open>\<open>json.Marshal\<close>, whose text is an argument, of a slice that is nil when no machine was stopped.\<close>

definition pending_json :: "string list \<Rightarrow> json" where
  "pending_json ids = JObj [(''pending_restarts'', if ids = [] then JNull else JArr (map JStr ids))]"

definition drained :: "(json \<Rightarrow> string) \<Rightarrow> agent_client \<Rightarrow> nat \<Rightarrow> string \<Rightarrow> host \<Rightarrow> update_reply \<Rightarrow> string list \<Rightarrow> nat \<Rightarrow> update_prog" where
  "drained marshal c n opid h r stopped failed =
     call (updateHostUpdateOperationProgress opid (length stopped) failed True ''triggering host update'') (\<lambda>_.
     call (on_db (UpdateHostStatusMessage (h_ID h) ''updating'' (marshal (pending_json stopped)))) (\<lambda>_.
     call (on_db (SetHostMaintenanceMode (h_ID h) True)) (\<lambda>_.
     call (on_net (TriggerUpdate c h)) (\<lambda>t. case t of
         Inl e \<Rightarrow> complete_update opid ''failed'' ''failed to trigger agent update'' (error_text e) r
       | Inr _ \<Rightarrow> finishHostUpdateOperationAfterWait n opid (h_ID h) (h_VMName h) (length stopped) failed True r))))"

definition runDrainHostUpdateOperation ::
  "(json \<Rightarrow> string) \<Rightarrow> runtime_service option \<Rightarrow> agent_client \<Rightarrow> nat list \<Rightarrow> nat \<Rightarrow> string \<Rightarrow> int \<Rightarrow> update_reply \<Rightarrow> update_prog" where
  "runDrainHostUpdateOperation marshal machinesSvc c draws n opid hid r =
     with_ready_host opid ''draining host before update'' hid r (\<lambda>h.
     call (on_db (ListMachinesByHost hid)) (\<lambda>l. case l of
         Inl e \<Rightarrow> complete_update opid ''failed'' ''failed to list machines'' (error_text e) r
       | Inr ms \<Rightarrow> (let running = running_machines draws ms in case machinesSvc of
           None \<Rightarrow>
             if running \<noteq> []
             then complete_update opid ''failed'' ''failed to stop running machines'' ''machine runtime not configured'' r
             else drained marshal c n opid h r [] 0
         | Some rt \<Rightarrow> stop_each rt running [] 0 (drained marshal c n opid h r))))"

fun decode_reported_storage :: "(string \<times> string \<times> bool) decoder" where
  "decode_reported_storage (dir, browser, reflink) (JObj kvs) =
     (let (dir', b1) = decode_field decode_string ''state_dir'' dir kvs;
          (browser', b2) = decode_field decode_string ''browser_state_dir'' browser kvs;
          (reflink', b3) = decode_field decode_bool ''reflink_supported'' reflink kvs
      in ((dir', browser', reflink'), b1 \<or> b2 \<or> b3))"
| "decode_reported_storage old JNull = (old, False)"
| "decode_reported_storage old _ = (old, True)"

definition hostReportsBrowserStorageReady :: "string \<Rightarrow> host \<Rightarrow> bool" where
  "hostReportsBrowserStorageReady expected h = (case h_Capabilities h of
      Some (JObj kvs) \<Rightarrow> (case decode_field decode_reported_storage ''browser_storage'' ('''', '''', False) kvs of
          ((dir, browser, reflink), bad) \<Rightarrow> \<not> bad \<and> reflink \<and> (if browser = '''' then dir else browser) = expected)
    | _ \<Rightarrow> False)"

definition expected_state_dir :: "string \<Rightarrow> string" where
  "expected_state_dir mountPoint =
     (if trim_space mountPoint = '''' then ''/var/lib/ocm-browser'' else trim_space mountPoint)"

definition finishBrowserStorageOperationAfterWait :: "nat \<Rightarrow> string \<Rightarrow> int \<Rightarrow> string \<Rightarrow> string \<Rightarrow> update_reply \<Rightarrow> update_prog" where
  "finishBrowserStorageOperationAfterWait n opid hid name mountPoint r =
     call (updateHostUpdateOperationProgress opid 0 0 False ''waiting for host agent to report browser storage ready'') (\<lambda>_.
       wait_for_host (\<lambda>h. h_Status h = ''ready'' \<and> hostReportsBrowserStorageReady (expected_state_dir mountPoint) h) hid n (\<lambda>ready.
         if ready then complete_update opid ''succeeded'' (name @ '' browser storage configured and reflink ready'') '''' r
         else complete_update opid ''timed_out''
           ''browser storage command completed but host has not reported reflink-ready browser storage yet; check host status'' '''' r))"

definition storage_message :: string where
  "storage_message = ''{'' @ quoted ''pending_restarts'' @ '':[],'' @ quoted ''browser_storage'' @ '':true}''"

definition runConfigureHostBrowserStorageOperation ::
  "agent_client \<Rightarrow> nat \<Rightarrow> string \<Rightarrow> int \<Rightarrow> string \<Rightarrow> string \<Rightarrow> bool \<Rightarrow> update_reply \<Rightarrow> update_prog" where
  "runConfigureHostBrowserStorageOperation c n opid hid device mountPoint format r =
     with_ready_host opid ''configuring browser storage'' hid r (\<lambda>h.
     call (on_db (UpdateHostStatusMessage hid ''updating'' storage_message)) (\<lambda>_.
     call (on_db (SetHostMaintenanceMode hid True)) (\<lambda>_.
     call (on_net (ConfigureBrowserStorage c h device mountPoint format True)) (\<lambda>t. case t of
         Inl e \<Rightarrow>
           call (on_db (SetHostMaintenanceMode hid False)) (\<lambda>_.
           call (on_db (UpdateHostStatusMessage hid ''ready'' '''')) (\<lambda>_.
           complete_update opid ''failed'' ''failed to configure browser storage'' (error_text e) r))
       | Inr _ \<Rightarrow> finishBrowserStorageOperationAfterWait n opid hid (h_VMName h) mountPoint r))))"

section \<open>The handlers\<close>

text \<open>What the three handlers share: a ready host, and an operation of which there is no other on this host.\<close>

definition start_update :: "string \<Rightarrow> string list \<Rightarrow> string \<Rightarrow> (string \<Rightarrow> int \<Rightarrow> update_reply \<Rightarrow> update_prog) \<Rightarrow> update_prog" where
  "start_update kind ids param run = (case parseIntParam param of
      None \<Rightarrow> Finished (UrError 400 ''invalid host id'')
    | Some hid \<Rightarrow> call (on_db (GetHost hid)) (\<lambda>g. case g of
        Inl _ \<Rightarrow> Finished (UrError 404 ''host not found'')
      | Inr h \<Rightarrow>
          if h_Status h \<noteq> ''ready'' then Finished (UrError 409 (''host is not ready (status: '' @ h_Status h @ '')''))
          else call (on_db clock) (\<lambda>now.
               call (createHostUpdateOperation h kind now ids) (\<lambda>c. case c of
                 Inl e \<Rightarrow>
                   if e = errHostUpdateOperationActive then Finished (UrError 409 ''host update already in progress'')
                   else Finished (UrError 500 (error_text e))
               | Inr p \<Rightarrow> run (hu_ID p) hid (UrAccepted p)))))"

definition handleTriggerHostUpdate :: "agent_client \<Rightarrow> nat \<Rightarrow> string list \<Rightarrow> string \<Rightarrow> update_prog" where
  "handleTriggerHostUpdate c n ids param = start_update ''trigger_update'' ids param (runTriggerHostUpdateOperation c n)"

definition handleDrainHostUpdate ::
  "(json \<Rightarrow> string) \<Rightarrow> runtime_service option \<Rightarrow> agent_client \<Rightarrow> nat list \<Rightarrow> nat \<Rightarrow> string list \<Rightarrow> string \<Rightarrow> update_prog" where
  "handleDrainHostUpdate marshal machinesSvc c draws n ids param =
     start_update ''drain_update'' ids param (runDrainHostUpdateOperation marshal machinesSvc c draws n)"

definition decode_storage_request :: "json option \<Rightarrow> (string \<times> string \<times> bool) option" where
  "decode_storage_request body = (case body of
      Some (JObj kvs) \<Rightarrow>
        (let (device, b1) = decode_field decode_string ''device'' '''' kvs;
             (mountPoint, b2) = decode_field decode_string ''mount_point'' '''' kvs;
             (format, b3) = decode_field decode_bool ''format'' False kvs
         in if b1 \<or> b2 \<or> b3 then None else Some (trim_space device, trim_space mountPoint, format))
    | Some JNull \<Rightarrow> Some ('''', '''', False)
    | _ \<Rightarrow> None)"

definition handleConfigureHostBrowserStorage ::
  "agent_client \<Rightarrow> nat \<Rightarrow> string list \<Rightarrow> string \<Rightarrow> json option \<Rightarrow> update_prog" where
  "handleConfigureHostBrowserStorage c n ids param body =
     (if parseIntParam param = None then Finished (UrError 400 ''invalid host id'')
      else (case decode_storage_request body of
          None \<Rightarrow> Finished (UrError 400 ''invalid request body'')
        | Some (device, mountPoint, format) \<Rightarrow>
            if device = '''' then Finished (UrError 400 ''device is required'')
            else start_update ''browser_storage'' ids param
              (\<lambda>opid hid r. runConfigureHostBrowserStorageOperation c n opid hid device mountPoint format r)))"

definition handleGetHostUpdateOperation :: "string \<Rightarrow> update_prog" where
  "handleGetHostUpdateOperation opid =
     (if opid = '''' then Finished (UrError 400 ''missing operation id'')
      else call (getHostUpdateOperation opid) (\<lambda>g. Finished (case g of
          None \<Rightarrow> UrError 404 ''operation not found'' | Some p \<Rightarrow> UrOperation p)))"

text \<open>
  All requests: the handlers above, and whatever else the control plane does to the database and the network
  meanwhile, heartbeats among it.
\<close>

definition elsewhere :: "(world, 'a) state \<Rightarrow> update_prog" where
  "elsewhere m = call (on_world m) (\<lambda>_. Finished UrDone)"

inductive_set update_programs :: "update_prog set" where
  trigger: "handleTriggerHostUpdate c n ids param \<in> update_programs"
| drain: "handleDrainHostUpdate marshal machinesSvc c draws n ids param \<in> update_programs"
| storage: "handleConfigureHostBrowserStorage c n ids param body \<in> update_programs"
| lookup: "handleGetHostUpdateOperation opid \<in> update_programs"
| others: "elsewhere (m :: (world, unit) state) \<in> update_programs"

end
