(* ===== verification/Host_Update_Properties.thy ===== *)
theory Host_Update_Properties
  imports Host_Update Fleet_Api_Properties
begin

text \<open>
  Updates of hosts under all interleavings: one at a time on a host, and every operation comes to an end; and
  what the end that is reported means.
\<close>

section \<open>The table of operations\<close>

definition update_entry :: "update_world \<Rightarrow> string \<Rightarrow> host_update_operation option" where
  "update_entry u opid = find_update opid (uw_ops u)"

definition active_update :: "host_update_operation \<Rightarrow> bool" where
  "active_update p \<longleftrightarrow> isActiveHostUpdateOperationStatus (hu_Status p)"

definition ended_update :: "host_update_operation \<Rightarrow> bool" where
  "ended_update p \<longleftrightarrow> hu_Status p \<in> {''succeeded'', ''timed_out'', ''failed''} \<and> hu_CompletedAt p \<noteq> None"

lemma find_update_append:
  "find_update (hu_ID p) ops = None \<Longrightarrow> find_update k (ops @ [p]) = ((\<lambda>k. find_update k ops)(hu_ID p \<mapsto> p)) k"
  unfolding find_update_def by (induction ops) auto

lemma find_entry_where:
  assumes "\<And>p. hu_ID (f p) = hu_ID p"
  shows "find_update k (update_where (\<lambda>p. hu_ID p = opid) f ops) =
    (if k = opid then map_option f (find_update k ops) else find_update k ops)"
  unfolding find_update_def by (induction ops) (auto simp: update_where_def assms)

abbreviation owns_update :: "update_prog \<Rightarrow> string option \<Rightarrow> update_world \<Rightarrow> bool" where
  "owns_update \<equiv> owned update_entry active_update ended_update hu_HostID"

text \<open>A goroutine that is started with its operation.\<close>

definition carries :: "string \<Rightarrow> update_prog \<Rightarrow> bool" where
  "carries opid p \<longleftrightarrow> (\<forall>u v. update_entry u opid = Some v \<longrightarrow> active_update v \<longrightarrow> owns_update p (Some opid) u)"

definition idle :: "update_prog \<Rightarrow> bool" where
  "idle p \<longleftrightarrow> (\<forall>u. owns_update p None u)"

lemma carries_call:
  assumes "\<And>t v. update_entry t opid = Some v \<Longrightarrow> active_update v \<Longrightarrow>
      \<exists>w. update_entry (final_state m t) = (update_entry t)(opid \<mapsto> w) \<and> active_update w \<and> hu_HostID w = hu_HostID v"
    and "\<And>a. carries opid (k a)"
  shows "carries opid (call m k)"
  unfolding carries_def
proof (intro allI impI)
  fix u v assume v: "update_entry u opid = Some v" "active_update v"
  have "\<exists>y. moves update_entry active_update ended_update hu_HostID (Some opid) y t (final_state m t) \<and>
      owns_update (k (outcome m t)) y (final_state m t)" if t: "update_entry t opid = update_entry u opid" for t
  proof -
    obtain w where w: "update_entry (final_state m t) = (update_entry t)(opid \<mapsto> w)" "active_update w" "hu_HostID w = hu_HostID v"
      using assms(1) [of t v] t v by metis
    then have "moves update_entry active_update ended_update hu_HostID (Some opid) (Some opid) t (final_state m t)"
      using t v by (auto simp: moves_def)
    moreover have "update_entry (final_state m t) opid = Some w" using w(1) by simp
    ultimately show ?thesis using assms(2) w(2) unfolding carries_def by blast
  qed
  then show "owns_update (call m k) (Some opid) u" by (simp add: owned_call)
qed

lemma on_part_ops [simp]:
  "uw_ops (final_state (on_db m) u) = uw_ops u" "uw_ops (final_state (on_net n) u) = uw_ops u"
  "uw_ops (final_state (on_world x) u) = uw_ops u"
  by (simp_all add: on_db_def on_net_def on_world_def)

lemma carries_on_part:
  "(\<And>a. carries opid (k a)) \<Longrightarrow> carries opid (call (on_db m) k)"
  "(\<And>a. carries opid (k' a)) \<Longrightarrow> carries opid (call (on_net n) k')"
  "(\<And>a. carries opid (k'' a)) \<Longrightarrow> carries opid (call (on_world x) k'')"
  by (rule carries_call; auto simp: update_entry_def fun_eq_iff intro!: exI)+

lemma carries_update:
  assumes "\<And>p. hu_ID (f p) = hu_ID p" "\<And>p. active_update p \<Longrightarrow> active_update (f p)" "\<And>p. hu_HostID (f p) = hu_HostID p"
    and "\<And>a. carries opid (k a)"
  shows "carries opid (call (updateHostUpdateOperation opid f) k)"
  by (rule carries_call)
     (use assms in \<open>auto simp: updateHostUpdateOperation_def update_entry_def find_entry_where active_update_def fun_eq_iff intro!: exI\<close>)

lemma carries_steps:
  "(\<And>a. carries opid (k a)) \<Longrightarrow> carries opid (call (markHostUpdateOperationRunning opid msg) k)"
  "(\<And>a. carries opid (k a)) \<Longrightarrow> carries opid (call (updateHostUpdateOperationProgress opid stopped failed restarting msg) k)"
  unfolding markHostUpdateOperationRunning_def updateHostUpdateOperationProgress_def
  by (rule carries_update; simp add: active_update_def isActiveHostUpdateOperationStatus_def)+

lemma carries_complete:
  assumes "status \<in> {''succeeded'', ''timed_out'', ''failed''}"
  shows "carries opid (complete_update opid status message err r)"
  unfolding carries_def complete_update_def
proof (intro allI impI)
  fix u v assume v: "update_entry u opid = Some v" "active_update v"
  let ?m = "completeHostUpdateOperation opid status message err"
  have "moves update_entry active_update ended_update hu_HostID (Some opid) None t (final_state ?m t)"
    if "update_entry t opid = update_entry u opid" for t
    using that v assms
    by (auto simp: moves_def completeHostUpdateOperation_def updateHostUpdateOperation_def update_entry_def find_entry_where ended_update_def
        fun_eq_iff intro!: exI)
  then show "owns_update (call ?m (\<lambda>_. Finished r)) (Some opid) u" by (auto simp: owned_call)
qed

lemma carries_cases:
  "(\<And>e. x = Inl e \<Longrightarrow> carries opid (f e)) \<Longrightarrow> (\<And>a. x = Inr a \<Longrightarrow> carries opid (g a)) \<Longrightarrow>
   carries opid (case x of Inl e \<Rightarrow> f e | Inr a \<Rightarrow> g a)"
  "(b \<Longrightarrow> carries opid p) \<Longrightarrow> (\<not> b \<Longrightarrow> carries opid q) \<Longrightarrow> carries opid (if b then p else q)"
  "(z = None \<Longrightarrow> carries opid p') \<Longrightarrow> (\<And>y. z = Some y \<Longrightarrow> carries opid (h y)) \<Longrightarrow>
   carries opid (case z of None \<Rightarrow> p' | Some y \<Rightarrow> h y)"
  by (cases x; simp) (auto split: option.splits)

lemma carries_wait: "(\<And>b. carries opid (k b)) \<Longrightarrow> carries opid (wait_for_host good hid n k)"
  by (induction n) (auto intro!: carries_on_part carries_cases)

lemma carries_stop: "(\<And>xs n. carries opid (k xs n)) \<Longrightarrow> carries opid (stop_each rt ms stopped failed k)"
  by (induction ms arbitrary: stopped failed) (auto intro!: carries_on_part carries_cases)

lemmas carries_rules = carries_steps carries_on_part carries_cases carries_wait carries_stop carries_complete

lemma runs_carry:
  "carries opid (runTriggerHostUpdateOperation c n opid hid r)"
  "carries opid (runDrainHostUpdateOperation marshal svc c draws n opid hid r)"
  "carries opid (runConfigureHostBrowserStorageOperation c n opid hid device mountPoint format r)"
  unfolding runTriggerHostUpdateOperation_def runDrainHostUpdateOperation_def runConfigureHostBrowserStorageOperation_def
    with_ready_host_def drained_def finishHostUpdateOperationAfterWait_def finishBrowserStorageOperationAfterWait_def Let_def
  by (rule carries_rules | simp)+

section \<open>The requests\<close>

lemma idle_Finished: "idle (Finished r)"
  by (simp add: idle_def)

lemma idle_call: "(\<And>u. uw_ops (final_state m u) = uw_ops u) \<Longrightarrow> (\<And>a. idle (k a)) \<Longrightarrow> idle (call m k)"
  unfolding idle_def owned_call by (auto simp: moves_def update_entry_def fun_eq_iff intro!: exI [of _ None])

lemma created_update:
  assumes "outcome (createHostUpdateOperation h kind now ids) t = Inr p"
  shows "\<exists>opid. find_update opid (uw_ops t) = None \<and> p = new_update h kind now opid \<and>
    final_state (createHostUpdateOperation h kind now ids) t = t\<lparr>uw_ops := uw_ops t @ [p]\<rparr> \<and>
    (\<forall>q \<in> set (uw_ops t). active_update q \<longrightarrow> hu_HostID q \<noteq> h_ID h)"
proof (cases "host_busy (h_ID h) (uw_ops t)")
  case True
  then show ?thesis using assms by (simp add: createHostUpdateOperation_def)
next
  case False
  then obtain opid where find: "find (\<lambda>i. find_update i (uw_ops t) = None) (update_ids ids) = Some opid"
    using assms by (cases "find (\<lambda>i. find_update i (uw_ops t) = None) (update_ids ids)")
      (auto simp: createHostUpdateOperation_def)
  then have "find_update opid (uw_ops t) = None" by (metis (mono_tags, lifting) find_Some_iff)
  then show ?thesis
    using False assms find
    by (intro exI [of _ opid]) (auto simp: createHostUpdateOperation_def Let_def, auto simp: host_busy_def active_update_def)
qed

lemma idle_create:
  assumes "\<And>p. carries (hu_ID p) (run (hu_ID p) hid (UrAccepted p))" "\<And>e. idle (k e)"
  shows "idle (call (createHostUpdateOperation h kind now ids) (\<lambda>c. case c of
    Inl e \<Rightarrow> k e | Inr p \<Rightarrow> run (hu_ID p) hid (UrAccepted p)))"
  unfolding idle_def
proof (rule allI)
  fix u
  let ?m = "createHostUpdateOperation h kind now ids"
  let ?k = "\<lambda>c. case c of Inl e \<Rightarrow> k e | Inr p \<Rightarrow> run (hu_ID p) hid (UrAccepted p)"
  have "\<exists>y. moves update_entry active_update ended_update hu_HostID None y t (final_state ?m t) \<and>
      owns_update (?k (outcome ?m t)) y (final_state ?m t)" for t
  proof (cases "outcome ?m t")
    case (Inl e)
    then have "final_state ?m t = t"
      by (auto simp: createHostUpdateOperation_def Let_def split: if_splits option.splits)
    then show ?thesis using Inl assms(2) by (auto simp: moves_def idle_def intro!: exI [of _ None])
  next
    case (Inr p)
    then obtain opid where "find_update opid (uw_ops t) = None" "p = new_update h kind now opid"
        "final_state ?m t = t\<lparr>uw_ops := uw_ops t @ [p]\<rparr>"
        "\<forall>q \<in> set (uw_ops t). active_update q \<longrightarrow> hu_HostID q \<noteq> h_ID h"
      using created_update by blast
    then have p: "update_entry t (hu_ID p) = None" "final_state ?m t = t\<lparr>uw_ops := uw_ops t @ [p]\<rparr>"
      "hu_HostID p = h_ID h" "active_update p" "\<forall>q \<in> set (uw_ops t). active_update q \<longrightarrow> hu_HostID q \<noteq> h_ID h"
      by (auto simp: update_entry_def new_update_def active_update_def isActiveHostUpdateOperationStatus_def)
    have entry: "update_entry (final_state ?m t) = (update_entry t)(hu_ID p \<mapsto> p)"
      using p(1,2) by (auto simp: update_entry_def fun_eq_iff find_update_append)
    have "v \<in> set (uw_ops t)" if "update_entry t j = Some v" for j v
      using that by (auto simp: update_entry_def find_update_def find_Some_iff)
    then have "moves update_entry active_update ended_update hu_HostID None (Some (hu_ID p)) t (final_state ?m t)"
      unfolding moves_def entry using p(1,3,4,5) by auto
    moreover have "owns_update (?k (outcome ?m t)) (Some (hu_ID p)) (final_state ?m t)"
      using Inr assms(1) [of p] p(4) entry by (auto simp: carries_def)
    ultimately show ?thesis by blast
  qed
  then show "owns_update (call ?m ?k) None u" by (simp add: owned_call)
qed

lemma idle_start_update:
  assumes "\<And>opid hid r. carries opid (run opid hid r)"
  shows "idle (start_update kind ids param run)"
  unfolding start_update_def
  by (auto intro!: idle_call idle_create assms simp: idle_Finished split: option.splits sum.splits)

lemma idle_programs: "p \<in> update_programs \<Longrightarrow> idle p"
  by (induction rule: update_programs.induct)
     (auto simp: handleTriggerHostUpdate_def handleDrainHostUpdate_def handleConfigureHostBrowserStorage_def
       handleGetHostUpdateOperation_def elsewhere_def getHostUpdateOperation_def idle_Finished
       intro!: idle_start_update runs_carry idle_call split: option.splits)

interpretation updates: ownership update_entry active_update ended_update hu_HostID update_programs
proof unfold_locales
  show "owns_update p None s" if "p \<in> update_programs" for p s
    using idle_programs [OF that] by (simp add: idle_def)
  show "\<not> active_update v" if "ended_update v" for v
    using that by (auto simp: ended_update_def active_update_def isActiveHostUpdateOperationStatus_def)
qed

section \<open>One update of a host at a time, and every update ends\<close>

text \<open>
  C25: one update of a host. However requests for updates, their goroutines and everything else
  interleave, of the operations that are queued or running at any time no two are on the same host.
\<close>
theorem one_update_per_host:
  assumes "uw_ops u = []" "pool_run update_programs (u, []) (v, qs)"
    and "find_update i (uw_ops v) = Some p" "find_update j (uw_ops v) = Some q"
    and "isActiveHostUpdateOperationStatus (hu_Status p)" "isActiveHostUpdateOperationStatus (hu_Status q)"
    and "hu_HostID p = hu_HostID q"
  shows "i = j"
  using updates.one_live [OF assms(2), of i p j q] assms(1,3-7) by (simp add: update_entry_def active_update_def find_update_def)

text \<open>
  C26: every update ends. Whatever requests have arrived and however far they have come, they can
  run to their end, and as soon as all requests have ended, each operation has succeeded, timed out or failed,
  and has the time of its completion.
\<close>
theorem updates_settle:
  assumes "uw_ops u = []" "pool_run update_programs (u, []) (v, qs)"
  shows "(\<exists>w rs. pool_run update_programs (v, qs) (w, rs) \<and> (\<forall>q \<in> set rs. reply_of q \<noteq> None)) \<and>
    (\<forall>w rs opid p. pool_run update_programs (v, qs) (w, rs) \<longrightarrow> (\<forall>q \<in> set rs. reply_of q \<noteq> None) \<longrightarrow>
       find_update opid (uw_ops w) = Some p \<longrightarrow>
       hu_Status p \<in> {''succeeded'', ''timed_out'', ''failed''} \<and> hu_CompletedAt p \<noteq> None)"
proof (intro conjI allI impI)
  show "\<exists>w rs. pool_run update_programs (v, qs) (w, rs) \<and> (\<forall>q \<in> set rs. reply_of q \<noteq> None)"
    by (rule pool_finish)
next
  fix w rs opid p
  assume run: "pool_run update_programs (v, qs) (w, rs)" "\<forall>q \<in> set rs. reply_of q \<noteq> None" "find_update opid (uw_ops w) = Some p"
  have "pool_run update_programs (u, []) (w, rs)" using assms(2) run(1) by (rule rtranclp_trans)
  then have "ended_update p" using updates.all_settled [of u w rs opid p] run(2,3) assms(1) by (simp add: update_entry_def find_update_def)
  then show "hu_Status p \<in> {''succeeded'', ''timed_out'', ''failed''}" "hu_CompletedAt p \<noteq> None"
    by (auto simp: ended_update_def)
qed

section \<open>Samples\<close>

definition sample_updates :: update_world where
  "sample_updates = \<lparr>uw_world = reporting_world\<lparr>w_net := \<lparr>net_tape = [Reply 202 '''' None], net_log = []\<rparr>\<rparr>, uw_ops = []\<rparr>"

definition sample_trigger :: update_prog where
  "sample_trigger = handleTriggerHostUpdate \<lparr>ac_agentToken = ''''\<rparr> 0 [''x''] ''1''"

text \<open>A heartbeat of the agent, as one step of the rest of the control plane.\<close>

definition heartbeat_meanwhile :: update_prog where
  "heartbeat_meanwhile = elsewhere (do {
     _ \<leftarrow> handleAgentHeartbeat (\<lambda>_. None) sample_fleet [] (sample_heartbeat ''own'');
     ret ()
   })"

definition sample_requests :: "update_prog list" where
  "sample_requests = [sample_trigger, heartbeat_meanwhile]"

definition update_run :: "nat list \<Rightarrow> update_world \<times> update_prog list" where
  "update_run is = fold advance_at is (sample_updates, sample_requests)"

lemma update_run: "pool_run update_programs (sample_updates, []) (update_run is)"
proof -
  have "set sample_requests \<subseteq> update_programs"
    by (auto simp: sample_requests_def sample_trigger_def heartbeat_meanwhile_def intro: update_programs.intros)
  then have "pool_run update_programs (sample_updates, []) (sample_updates, sample_requests)"
    using pool_run_arrive [of sample_requests update_programs sample_updates "[]"] by simp
  then show ?thesis unfolding update_run_def using pool_run_schedule by (rule rtranclp_trans)
qed

lemmas update_sample_defs = update_run_def sample_updates_def sample_requests_def sample_trigger_def

lemmas update_call_defs = handleTriggerHostUpdate_def start_update_def call_def on_db_def on_net_def GetHost_def query_def db_call_def
  clock_def createHostUpdateOperation_def host_busy_def update_ids_def find_update_def new_update_def

definition queued_update :: host_update_operation where
  "queued_update = new_update (sample_host\<lparr>h_AgentToken := Some ''own''\<rparr>) ''trigger_update'' 0 ''hostupd-x''"

lemma queued_run: "uw_ops (fst (update_run [0, 0, 0])) = [queued_update]"
  by (simp add: update_sample_defs update_call_defs sample_numbers reporting_world_def sample_world_def queued_update_def
      find_host_def with_machine_count_def sample_defs matching_def Let_def)

lemma queued_entry: "find_update ''hostupd-x'' (uw_ops (fst (update_run [0, 0, 0]))) = Some queued_update"
  by (simp add: queued_run find_update_def queued_update_def new_update_def)

theorem one_update_per_host_witness:
  "\<exists>!i. \<exists>p. find_update i (uw_ops (fst (update_run [0, 0, 0]))) = Some p \<and>
     isActiveHostUpdateOperationStatus (hu_Status p) \<and> hu_HostID p = 1"
proof (rule ex_ex1I)
  have one: "isActiveHostUpdateOperationStatus (hu_Status queued_update)" "hu_HostID queued_update = 1"
    by (simp_all add: queued_update_def new_update_def isActiveHostUpdateOperationStatus_def sample_host_def)
  then show "\<exists>i p. find_update i (uw_ops (fst (update_run [0, 0, 0]))) = Some p \<and>
      isActiveHostUpdateOperationStatus (hu_Status p) \<and> hu_HostID p = 1"
    using queued_entry by blast
  have run: "pool_run update_programs (sample_updates, []) (fst (update_run [0, 0, 0]), snd (update_run [0, 0, 0]))"
    using update_run [of "[0, 0, 0]"] by simp
  have "uw_ops sample_updates = []" by (simp add: sample_updates_def)
  from one_update_per_host [OF this run]
  show "i = j" if "\<exists>p. find_update i (uw_ops (fst (update_run [0, 0, 0]))) = Some p \<and>
      isActiveHostUpdateOperationStatus (hu_Status p) \<and> hu_HostID p = 1"
    "\<exists>p. find_update j (uw_ops (fst (update_run [0, 0, 0]))) = Some p \<and>
      isActiveHostUpdateOperationStatus (hu_Status p) \<and> hu_HostID p = 1" for i j
    using that by metis
qed

theorem updates_settle_witness:
  "\<exists>w rs. pool_run update_programs (update_run [0, 0, 0]) (w, rs) \<and> (\<forall>q \<in> set rs. reply_of q \<noteq> None)"
proof -
  have run: "pool_run update_programs (sample_updates, []) (fst (update_run [0, 0, 0]), snd (update_run [0, 0, 0]))"
    using update_run [of "[0, 0, 0]"] by simp
  show ?thesis using conjunct1 [OF updates_settle [OF _ run]] by (simp add: sample_updates_def)
qed

text \<open>
  Success that no update has earned. The agent accepts the request for an update, and its next
  heartbeat, sent before it has replaced anything, makes the host ready: the poll that follows takes the host for
  updated, whichever agent runs there.
\<close>

lemmas trigger_defs = runTriggerHostUpdateOperation_def with_ready_host_def markHostUpdateOperationRunning_def
  updateHostUpdateOperation_def UpdateHostStatusMessage_def exec_def on_host_def TriggerUpdate_def agent_exec_def doRequest_def
  http_do_def agentURL_def tokenForHost_def url_ok_def finishHostUpdateOperationAfterWait_def
  updateHostUpdateOperationProgress_def complete_update_def completeHostUpdateOperation_def update_now_def

lemmas heartbeat_defs = handleAgentHeartbeat_def accept_heartbeat_def record_heartbeat_def recover_host_def authenticateAgent_def
  UpdateHostHeartbeat_def UpdateHostStatus_def SetHostMaintenanceMode_def staged_def heartbeat_host_def tx_def
  elsewhere_def heartbeat_meanwhile_def on_world_def

lemma success_without_update:
  "map_option hu_Status (find_update ''hostupd-x'' (uw_ops (fst (update_run [0, 0, 0, 0, 0, 0, 0, 1, 0, 0, 0])))) = Some ''succeeded''"
  by (simp add: update_sample_defs update_call_defs trigger_defs heartbeat_defs sample_numbers sample_reports sample_bearer
      reporting_world_def sample_world_def find_host_def with_machine_count_def sample_defs matching_def Let_def
      nullif_empty_def deref_or_def shuffle_def)

end
