(* ===== verification/Browser_Api.thy ===== *)
theory Browser_Api
  imports Fleet_Api
begin

text \<open>
  Browser VMs as their accounts use them (\<open>internal/api\<close>: \<open>browser_vms.go\<close>), and their reconciliation
  (\<open>admin_browser_vms.go\<close>). A request is a program on the database and the network, so that requests can be
  interleaved; a call of the placement service is one step. What runs in the background after a pairing
  has changed, the push of the configuration into the VM, is left out.
\<close>

section \<open>Configuration, requests and replies\<close>

record browser_server =
  bs_agentClient :: "agent_client option"
  bs_placement :: placement_config
  bs_browserRootfsGCSManifest :: string
  bs_browserRootfsVersion :: string

datatype browser_reply =
    BrError int string
  | BrVM "browser_vm option"
  | BrCreated browser_vm
  | BrVMs "browser_vm list"
  | BrDeleted
  | BrPaired string string
  | BrUnpaired string
  | BrReconciled string string string
  | BrSwept nat
  | BrDone

type_synonym browser_prog = "(world, browser_reply) prog"

text \<open>A body that may be missing; the document is absent if the text is not JSON.\<close>

datatype request_body = NoBody | Body "json option"

text \<open>\<open>strPtrValue\<close> and \<open>browserStringPtr\<close>.\<close>

definition strPtrValue :: "string option \<Rightarrow> string" where
  "strPtrValue v = (case v of None \<Rightarrow> '''' | Some s \<Rightarrow> trim_space s)"

definition browserStringPtr :: "string \<Rightarrow> string option" where
  "browserStringPtr v = nullif_empty (trim_space v)"

text \<open>The dash in the messages, in UTF-8.\<close>

definition em_dash :: string where
  "em_dash = [CHR 0xE2, CHR 0x80, CHR 0x94]"

section \<open>Which root file system a browser VM runs\<close>

definition validateRootfsVersion :: "string \<Rightarrow> go_error option" where
  "validateRootfsVersion version = (let v = trim_space version in
     if v = '''' then Some (ErrText ''rootfs version is required'')
     else if contains_text v ''..'' \<or> (\<exists>c \<in> set v. c \<in> set [CHR 0x2F, CHR 0x5C, CHR 0x20, CHR 0x09, CHR 0x0D, CHR 0x0A])
     then Some (ErrText (''invalid rootfs version '' @ quoted v))
     else None)"

text \<open>\<open>config.StableBrowserRootfsManifestURI\<close> and \<open>config.StableKernelBrowserRootfsVersion\<close> are constants.\<close>

definition StableBrowserRootfsManifestURI :: string where
  "StableBrowserRootfsManifestURI = ''''"

definition stableVersionForBrowserVM :: string where
  "stableVersionForBrowserVM = trim_space ''''"

definition browser_manifest :: "string \<Rightarrow> string \<Rightarrow> string \<Rightarrow> string \<Rightarrow> string \<Rightarrow> (string \<times> string) result" where
  "browser_manifest preset manifest version defaultManifest stableVersion =
     (let unset = Inl (ErrText ''BROWSER_ROOTFS_GCS_MANIFEST is required for browser_image presets'')
      in if preset = '''' \<or> preset = ''default'' then Inr (manifest, version)
         else if preset = ''kernel-stable'' \<or> preset = ''kernel-rollback''
         then (if defaultManifest = '''' then unset else Inr (defaultManifest, if version = '''' then stableVersion else version))
         else if preset = ''kernel-latest'' \<or> preset = ''kernel-experimental''
         then (if defaultManifest = '''' then unset else Inr (defaultManifest, version))
         else Inl (ErrText ''browser_image must be one of: default, kernel-stable, kernel-experimental''))"

definition browserRootfsSelection ::
  "string \<Rightarrow> string \<Rightarrow> string \<Rightarrow> string \<Rightarrow> string \<Rightarrow> (string option \<times> string option) result" where
  "browserRootfsSelection preset manifest version defaultManifest stableVersion =
     (let default = trim_space defaultManifest in
      if trim_space preset \<noteq> '''' \<and> trim_space manifest \<noteq> ''''
      then Inl (ErrText ''browser_image cannot be combined with rootfs_manifest'')
      else (case browser_manifest (trim_space preset) (trim_space manifest) (trim_space version) default (trim_space stableVersion) of
          Inl e \<Rightarrow> Inl e
        | Inr (mf, ver) \<Rightarrow>
            if StableBrowserRootfsManifestURI \<noteq> '''' \<and> mf = StableBrowserRootfsManifestURI
            then Inl (ErrText ''legacy CDP browser rootfs is disabled; use kernel-stable or kernel-experimental'')
            else if ver = '''' then Inr (browserStringPtr mf, None)
            else (case validateRootfsVersion ver of
                Some e \<Rightarrow> Inl e
              | None \<Rightarrow>
                  if mf = '''' \<and> default = '''' then Inl (ErrText ''rootfs_manifest is required when rootfs_version is set'')
                  else Inr (browserStringPtr (if mf = '''' then default else mf), browserStringPtr ver))))"

definition browserVMRequiresReflink :: "browser_vm \<Rightarrow> bool" where
  "browserVMRequiresReflink b = (let version = strPtrValue (b_DesiredRootfsVersion b) in
     strPtrValue (b_DesiredRootfsManifest b) \<noteq> '''' \<and>
     (version = '''' \<or> stableVersionForBrowserVM \<noteq> '''' \<and> version \<noteq> stableVersionForBrowserVM))"

definition browserVMUsesDisabledLegacyRootfs :: "browser_vm \<Rightarrow> bool" where
  "browserVMUsesDisabledLegacyRootfs b \<longleftrightarrow>
     StableBrowserRootfsManifestURI \<noteq> '''' \<and> strPtrValue (b_DesiredRootfsManifest b) = StableBrowserRootfsManifestURI"

definition browserVMMayExistOnAgent :: "browser_vm \<Rightarrow> bool" where
  "browserVMMayExistOnAgent b \<longleftrightarrow> b_HostID b \<noteq> None \<and> b_Status b \<in> {''running'', ''provisioning'', ''error''}"

section \<open>Health\<close>

text \<open>\<open>BrowserVMHealthResponse\<close> and \<open>GetBrowserVMHealth\<close> of the agent client; an error comes with the status that \<open>IsHTTPStatus\<close> finds in it.\<close>

record browser_health =
  bh_BrowserVMID :: string
  bh_VMIP :: string
  bh_Status :: string
  bh_CDPError :: string
  bh_CDPReachable :: bool
  bh_CDPVersion :: string
  bh_CDPLatencyMS :: int
  bh_LiveReachable :: bool
  bh_LiveLatencyMS :: int
  bh_LivePort :: int

definition decode_health :: "json option \<Rightarrow> browser_health option" where
  "decode_health body = (case body of
      Some (JObj kvs) \<Rightarrow>
        (let (bid, b1) = decode_field decode_string ''browser_vm_id'' '''' kvs;
             (ip, b2) = decode_field decode_string ''vm_ip'' '''' kvs;
             (status, b3) = decode_field decode_string ''status'' '''' kvs;
             (err, b4) = decode_field decode_string ''cdp_error'' '''' kvs;
             (cdp, b5) = decode_field decode_bool ''cdp_reachable'' False kvs;
             (version, b6) = decode_field decode_string ''cdp_version'' '''' kvs;
             (latency, b7) = decode_field decode_int ''cdp_latency_ms'' 0 kvs;
             (live, b8) = decode_field decode_bool ''live_reachable'' False kvs;
             (liveLatency, b9) = decode_field decode_int ''live_latency_ms'' 0 kvs;
             (port, b10) = decode_field decode_int ''live_port'' 0 kvs
         in if b1 \<or> b2 \<or> b3 \<or> b4 \<or> b5 \<or> b6 \<or> b7 \<or> b8 \<or> b9 \<or> b10 then None
            else Some \<lparr>bh_BrowserVMID = bid, bh_VMIP = ip, bh_Status = status, bh_CDPError = err, bh_CDPReachable = cdp,
              bh_CDPVersion = version, bh_CDPLatencyMS = latency, bh_LiveReachable = live, bh_LiveLatencyMS = liveLatency,
              bh_LivePort = port\<rparr>)
    | Some JNull \<Rightarrow> Some \<lparr>bh_BrowserVMID = '''', bh_VMIP = '''', bh_Status = '''', bh_CDPError = '''', bh_CDPReachable = False,
        bh_CDPVersion = '''', bh_CDPLatencyMS = 0, bh_LiveReachable = False, bh_LiveLatencyMS = 0, bh_LivePort = 0\<rparr>
    | _ \<Rightarrow> None)"

definition GetBrowserVMHealth :: "agent_client \<Rightarrow> host \<Rightarrow> string \<Rightarrow> (net, (int option \<times> go_error) + browser_health) state" where
  "GetBrowserVMHealth c h bid = do {
     r \<leftarrow> doRequest c h ''GET'' (''/browser-vms/'' @ bid @ ''/health'') None;
     ret (case r of
         Inl e \<Rightarrow> Inl (None, wrap ''browser VM health on agent'' e)
       | Inr (st, body, j) \<Rightarrow>
           if st \<noteq> 200 then Inl (Some st, wrap ''browser VM health'' (ErrText (''status '' @ show_int st @ '': '' @ body)))
           else (case decode_health j of
               None \<Rightarrow> Inl (None, wrap ''decode browser VM health'' (ErrText ''invalid JSON'')) | Some bh \<Rightarrow> Inr bh))
   }"

section \<open>Shared beginnings\<close>

definition with_own_browser :: "int \<Rightarrow> string \<Rightarrow> (browser_vm \<Rightarrow> browser_prog) \<Rightarrow> browser_prog" where
  "with_own_browser acct bid k = call (in_db (GetBrowserVM bid)) (\<lambda>g. case g of
      Inl _ \<Rightarrow> Finished (BrError 404 ''browser VM not found'')
    | Inr b \<Rightarrow>
        if b_AccountID b \<noteq> acct then Finished (BrError 403 ''browser VM does not belong to this account'') else k b)"

definition with_own_machine :: "int \<Rightarrow> string \<Rightarrow> (machine \<Rightarrow> browser_prog) \<Rightarrow> browser_prog" where
  "with_own_machine acct mid k = call (in_db (GetMachine mid)) (\<lambda>g. case g of
      Inl _ \<Rightarrow> Finished (BrError 404 ''machine not found'')
    | Inr m \<Rightarrow>
        if m_AccountID m \<noteq> acct then Finished (BrError 403 ''machine does not belong to this account'') else k m)"

text \<open>A statement whose error is at most logged.\<close>

abbreviation quietly :: "(db, 'a) state \<Rightarrow> browser_prog \<Rightarrow> browser_prog" where
  "quietly m p \<equiv> call (in_db m) (\<lambda>_. p)"

definition browser_failed :: "string \<Rightarrow> string \<Rightarrow> browser_prog \<Rightarrow> browser_prog" where
  "browser_failed bid msg p = quietly (UpdateBrowserVMStatus bid ''error'' (Some msg)) p"

text \<open>The row that a handler reads again for its reply.\<close>

definition reply_browser :: "string \<Rightarrow> browser_prog" where
  "reply_browser bid = call (in_db (GetBrowserVM bid)) (\<lambda>g. Finished (BrVM (case g of Inl _ \<Rightarrow> None | Inr b \<Rightarrow> Some b)))"

section \<open>Pairs that go away\<close>

definition cleanupBrowserPairing :: "browser_server \<Rightarrow> machine \<Rightarrow> browser_vm \<Rightarrow> browser_prog \<Rightarrow> browser_prog" where
  "cleanupBrowserPairing bs m b p =
     (let unpair = quietly (UnpairBrowserVM (m_ID m)) p
      in case (bs_agentClient bs, m_HostID m, m_VMIP m) of
           (Some c, Some hid, Some vmIP) \<Rightarrow> call (in_db (GetHost hid)) (\<lambda>g. case g of
               Inl _ \<Rightarrow> unpair
             | Inr h \<Rightarrow> (let reset = call (in_net (ResetCDPTarget c h (m_ID m))) (\<lambda>_. unpair)
                 in if b_VMIP b = None then reset
                    else call (in_net (UnpairBrowserVM_agent c h (b_ID b) vmIP)) (\<lambda>_. reset)))
         | _ \<Rightarrow> unpair)"

definition unpair_first :: "browser_server \<Rightarrow> browser_vm \<Rightarrow> string \<Rightarrow> browser_prog \<Rightarrow> browser_prog" where
  "unpair_first bs b bid p = call (in_db (GetMachineByBrowserVMID bid)) (\<lambda>g. case g of
      Inl _ \<Rightarrow> p | Inr m \<Rightarrow> cleanupBrowserPairing bs m b p)"

section \<open>Reading and creating\<close>

definition handleListBrowserVMs :: "int \<Rightarrow> browser_prog" where
  "handleListBrowserVMs acct = call (in_db (ListBrowserVMsByAccount acct)) (\<lambda>l. Finished (case l of
      Inl _ \<Rightarrow> BrError 500 ''failed to list browser VMs'' | Inr bs \<Rightarrow> BrVMs bs))"

definition handleGetBrowserVM :: "int \<Rightarrow> string \<Rightarrow> browser_prog" where
  "handleGetBrowserVM acct bid = with_own_browser acct bid (\<lambda>b.
     call (in_db (GetMachineByBrowserVMID (b_ID b))) (\<lambda>g. Finished (BrVM (Some (case g of
         Inl _ \<Rightarrow> b | Inr m \<Rightarrow> b\<lparr>b_PairedMachine := Some (m_ID m, m_Name m)\<rparr>)))))"

record create_browser_request =
  cb_Name :: string
  cb_VCPUs :: int
  cb_MemoryMB :: int
  cb_BrowserImage :: string
  cb_RootfsManifest :: string
  cb_RootfsVersion :: string

definition decode_create_browser :: "request_body \<Rightarrow> create_browser_request option" where
  "decode_create_browser body = (case body of
      Body (Some (JObj kvs)) \<Rightarrow>
        (let (name, b1) = decode_field decode_string ''name'' '''' kvs;
             (vcpus, b2) = decode_field decode_int ''vcpus'' 0 kvs;
             (memory, b3) = decode_field decode_int ''memory_mb'' 0 kvs;
             (preset, b4) = decode_field decode_string ''browser_image'' '''' kvs;
             (manifest, b5) = decode_field decode_string ''rootfs_manifest'' '''' kvs;
             (version, b6) = decode_field decode_string ''rootfs_version'' '''' kvs
         in if b1 \<or> b2 \<or> b3 \<or> b4 \<or> b5 \<or> b6 then None
            else Some \<lparr>cb_Name = name, cb_VCPUs = vcpus, cb_MemoryMB = memory, cb_BrowserImage = preset,
              cb_RootfsManifest = manifest, cb_RootfsVersion = version\<rparr>)
    | Body None \<Rightarrow> None
    | Body (Some j) \<Rightarrow> if j = JNull then Some \<lparr>cb_Name = '''', cb_VCPUs = 0, cb_MemoryMB = 0, cb_BrowserImage = '''',
        cb_RootfsManifest = '''', cb_RootfsVersion = ''''\<rparr> else None
    | NoBody \<Rightarrow> Some \<lparr>cb_Name = '''', cb_VCPUs = 0, cb_MemoryMB = 0, cb_BrowserImage = '''', cb_RootfsManifest = '''',
        cb_RootfsVersion = ''''\<rparr>)"

definition new_browser :: "int \<Rightarrow> create_browser_request \<Rightarrow> string option \<Rightarrow> string option \<Rightarrow> browser_vm" where
  "new_browser acct q manifest version = \<lparr>b_ID = '''', b_AccountID = acct, b_Slug = '''',
     b_Name = (if cb_Name q = '''' then ''Browser VM'' else cb_Name q), b_HostID = None, b_VMIP = None, b_Status = ''stopped'',
     b_VCPUs = (if cb_VCPUs q \<le> 0 then 2 else cb_VCPUs q), b_MemoryMB = (if cb_MemoryMB q \<le> 0 then 4096 else cb_MemoryMB q),
     b_CDPPort = 9222, b_DesiredRootfsManifest = manifest, b_DesiredRootfsVersion = version, b_RootfsVersion = None,
     b_ErrorMessage = None, b_CreatedAt = 0, b_UpdatedAt = 0, b_PairedMachine = None\<rparr>"

text \<open>The attempts, counted down; \<open>slugs\<close> are what \<open>generateShortID\<close> draws. The text of a decoding error is not kept.\<close>

fun create_attempts :: "(nat \<Rightarrow> string) \<Rightarrow> browser_vm \<Rightarrow> nat \<Rightarrow> browser_prog" where
  "create_attempts slugs b n = call (in_db (CreateBrowserVM (b\<lparr>b_Slug := slugs n\<rparr>))) (\<lambda>r. case r of
      Inr row \<Rightarrow> Finished (BrCreated row)
    | Inl e \<Rightarrow>
        if \<not> IsConflict e then Finished (BrError 500 ''failed to create browser VM'')
        else (case n of 0 \<Rightarrow> Finished (BrError 409 ''failed to generate unique slug, please try again'')
                | Suc k \<Rightarrow> create_attempts slugs b k))"

definition handleCreateBrowserVM :: "browser_server \<Rightarrow> (nat \<Rightarrow> string) \<Rightarrow> int \<Rightarrow> request_body \<Rightarrow> browser_prog" where
  "handleCreateBrowserVM bs slugs acct body = (case decode_create_browser body of
      None \<Rightarrow> Finished (BrError 400 ''invalid request body'')
    | Some q \<Rightarrow> (case browserRootfsSelection (cb_BrowserImage q) (cb_RootfsManifest q) (cb_RootfsVersion q)
          (bs_browserRootfsGCSManifest bs) (bs_browserRootfsVersion bs) of
        Inl e \<Rightarrow> Finished (BrError 400 (error_text e))
      | Inr (manifest, version) \<Rightarrow> create_attempts slugs (new_browser acct q manifest version) 2))"

section \<open>Deleting\<close>

definition handleDeleteBrowserVM :: "browser_server \<Rightarrow> int \<Rightarrow> string \<Rightarrow> browser_prog" where
  "handleDeleteBrowserVM bs acct bid = with_own_browser acct bid (\<lambda>b. unpair_first bs b bid
     (let delete = call (in_db (DeleteBrowserVM bid)) (\<lambda>d. Finished (case d of
            Inl _ \<Rightarrow> BrError 500 ''failed to delete browser VM'' | Inr _ \<Rightarrow> BrDeleted));
          release = quietly (ReleaseBrowserVMPlacement bid) (quietly (UnassignBrowserVMFromHost bid) delete)
      in if \<not> browserVMMayExistOnAgent b then delete
         else call (in_db (GetHost (the (b_HostID b)))) (\<lambda>g. case g of
             Inl _ \<Rightarrow> browser_failed bid (''host lookup failed '' @ em_dash @ '' retry delete later'')
               (Finished (BrError 503 (''host unavailable '' @ em_dash @ '' browser VM record kept for retry'')))
           | Inr h \<Rightarrow> (case bs_agentClient bs of
                 None \<Rightarrow> release
               | Some c \<Rightarrow> call (in_net (DestroyBrowserVM c h bid)) (\<lambda>d. case d of
                     Inl e \<Rightarrow> browser_failed bid (''agent destroy failed: '' @ error_text e)
                       (Finished (BrError 502 (''agent destroy failed '' @ em_dash @ '' browser VM record kept for retry: '' @ error_text e)))
                   | Inr _ \<Rightarrow> release)))))"

section \<open>Starting\<close>

definition decode_start_browser :: "request_body \<Rightarrow> (int \<times> string) option" where
  "decode_start_browser body = (case body of
      Body (Some (JObj kvs)) \<Rightarrow>
        (let (hid, b1) = decode_field decode_int ''host_id'' 0 kvs;
             (region, b2) = decode_field decode_string ''region'' '''' kvs
         in if b1 \<or> b2 then None else Some (hid, region))
    | Body None \<Rightarrow> None
    | Body (Some j) \<Rightarrow> if j = JNull then Some (0, '''') else None
    | NoBody \<Rightarrow> Some (0, ''''))"

definition callerOccupiesHost :: "int \<Rightarrow> machine list \<Rightarrow> bool" where
  "callerOccupiesHost hid ms \<longleftrightarrow> (\<exists>m \<in> set ms. m_HostID m = Some hid \<or> m_HomeHostID m = Some hid)"

text \<open>Who is not a superuser may ask for a host where the account runs a machine, and not for a region.\<close>

definition may_pin :: "bool \<Rightarrow> int \<Rightarrow> int \<Rightarrow> string \<Rightarrow> browser_prog \<Rightarrow> browser_prog" where
  "may_pin superuser acct hid region p =
     (let region_ok = (if region \<noteq> '''' \<and> \<not> superuser
            then Finished (BrError 403 ''region placement overrides require admin role'') else p)
      in if hid = 0 \<or> superuser then region_ok
         else call (in_db (ListMachinesByAccount acct)) (\<lambda>l. case l of
             Inl _ \<Rightarrow> Finished (BrError 500 ''failed to verify host ownership'')
           | Inr ms \<Rightarrow>
               if callerOccupiesHost hid ms then region_ok
               else Finished (BrError 403 ''host_id must reference a host where this account already runs a machine'')))"

definition show_bool :: "bool \<Rightarrow> string" where
  "show_bool v = (if v then ''true'' else ''false'')"

definition health_problem :: "(int option \<times> go_error) + browser_health \<Rightarrow> string option" where
  "health_problem r = (case r of
      Inl (st, e) \<Rightarrow> Some (error_text e)
    | Inr bh \<Rightarrow> if bh_CDPReachable bh then None
        else Some (''agent status='' @ bh_Status bh @ '' cdp_reachable='' @ show_bool (bh_CDPReachable bh) @
          '' live_reachable='' @ show_bool (bh_LiveReachable bh)))"

text \<open>
  The polls every two seconds; \<open>n\<close> is the number of polls, beyond the first, that fit before the deadline of four
  minutes. The continuation gets the text of the error, if the VM did not become ready.
\<close>

fun waitForBrowserVMReady :: "agent_client \<Rightarrow> host \<Rightarrow> string \<Rightarrow> nat \<Rightarrow> (string option \<Rightarrow> browser_prog) \<Rightarrow> browser_prog" where
  "waitForBrowserVMReady c h bid 0 k = call (in_net (GetBrowserVMHealth c h bid)) (\<lambda>r.
     k (map_option (\<lambda>e. ''context deadline exceeded: '' @ e) (health_problem r)))"
| "waitForBrowserVMReady c h bid (Suc n) k = call (in_net (GetBrowserVMHealth c h bid)) (\<lambda>r.
     if health_problem r = None then k None else waitForBrowserVMReady c h bid n k)"

definition browser_up :: "string \<Rightarrow> browser_prog" where
  "browser_up bid = quietly (ActivateBrowserVMPlacement bid) (quietly (UpdateBrowserVMStatus bid ''running'' None) (reply_browser bid))"

definition boot_browser :: "browser_server \<Rightarrow> nat \<Rightarrow> browser_vm \<Rightarrow> string \<Rightarrow> host \<Rightarrow> string \<Rightarrow> browser_prog" where
  "boot_browser bs n b bid h vmIP = (case bs_agentClient bs of
      None \<Rightarrow> browser_up bid
    | Some c \<Rightarrow> call (in_net (CreateBrowserVM_agent c h bid vmIP (b_VCPUs b) (b_MemoryMB b)
          (strPtrValue (b_DesiredRootfsManifest b)) (strPtrValue (b_DesiredRootfsVersion b)))) (\<lambda>r. case r of
        Inl e \<Rightarrow> browser_failed bid (error_text e)
          (if errors_is e ErrOutcomeUnknown
           then Finished (BrError 504 (''browser VM create outcome unknown on agent: '' @ error_text e))
           else quietly (ReleaseBrowserVMPlacement bid) (quietly (UnassignBrowserVMFromHost bid)
             (Finished (BrError 502 (''failed to create browser VM on agent: '' @ error_text e)))))
      | Inr _ \<Rightarrow> waitForBrowserVMReady c h bid n (\<lambda>problem. case problem of
          None \<Rightarrow> browser_up bid
        | Some msg \<Rightarrow> browser_failed bid msg
            (Finished (BrError 504 (''browser VM readiness timed out; agent resource ownership preserved: '' @ msg))))))"

definition browser_placement_request :: "browser_vm \<Rightarrow> int \<Rightarrow> string \<Rightarrow> placement_request" where
  "browser_placement_request b hid region = \<lparr>pr_VCPUs = b_VCPUs b, pr_MemoryMB = b_MemoryMB b, pr_DiskMB = 0,
     pr_Region = region, pr_ExpectedImage = '''', pr_OperationID = '''', pr_TargetHostID = hid,
     pr_RequireBrowserReflink = browserVMRequiresReflink b\<rparr>"

definition start_browser :: "browser_server \<Rightarrow> nat list \<Rightarrow> nat \<Rightarrow> browser_vm \<Rightarrow> string \<Rightarrow> int \<Rightarrow> string \<Rightarrow> browser_prog" where
  "start_browser bs draws n b bid hid region =
     call (in_db (UpdateBrowserVMStatus bid ''provisioning'' None)) (\<lambda>u. case u of
       Inl _ \<Rightarrow> Finished (BrError 500 ''failed to update status'')
     | Inr _ \<Rightarrow> call (in_db (ReserveBrowserVM (bs_placement bs) draws bid (browser_placement_request b hid region))) (\<lambda>p. case p of
         Inl e \<Rightarrow> browser_failed bid (error_text e) (Finished (BrError 503 (''no capacity available: '' @ error_text e)))
       | Inr (h, vmIP) \<Rightarrow> call (in_db (AssignBrowserVMToHost bid (h_ID h) vmIP)) (\<lambda>a. case a of
           Inl e \<Rightarrow> browser_failed bid (error_text e) (quietly (ReleaseBrowserVMPlacement bid)
             (Finished (BrError 500 ''failed to assign browser VM to host'')))
         | Inr _ \<Rightarrow> boot_browser bs n b bid h vmIP)))"

definition handleStartBrowserVM ::
  "browser_server \<Rightarrow> bool \<Rightarrow> nat list \<Rightarrow> nat \<Rightarrow> int \<Rightarrow> string \<Rightarrow> request_body \<Rightarrow> browser_prog" where
  "handleStartBrowserVM bs superuser draws n acct bid body = with_own_browser acct bid (\<lambda>b.
     if b_Status b \<noteq> ''stopped'' \<and> b_Status b \<noteq> ''error''
     then Finished (BrError 409 (''browser VM is '' @ b_Status b @ '', must be stopped or error to start''))
     else if b_Status b = ''error'' \<and> b_HostID b \<noteq> None
     then Finished (BrError 409 ''browser VM has an unknown agent-side resource; stop or delete it before retrying start'')
     else if browserVMUsesDisabledLegacyRootfs b
     then Finished (BrError 409 ''legacy CDP browser rootfs is disabled; create a kernel browser VM'')
     else (case decode_start_browser body of
         None \<Rightarrow> Finished (BrError 400 ''invalid request body'')
       | Some (hid, region) \<Rightarrow> may_pin superuser acct hid region (start_browser bs draws n b bid hid region)))"

section \<open>Stopping\<close>

definition stopped_browser :: "string \<Rightarrow> browser_prog" where
  "stopped_browser bid = quietly (ReleaseBrowserVMPlacement bid) (quietly (UnassignBrowserVMFromHost bid)
     (quietly (UpdateBrowserVMStatus bid ''stopped'' None) (reply_browser bid)))"

definition handleStopBrowserVM :: "browser_server \<Rightarrow> int \<Rightarrow> string \<Rightarrow> browser_prog" where
  "handleStopBrowserVM bs acct bid = with_own_browser acct bid (\<lambda>b.
     if b_Status b \<noteq> ''running'' \<and> b_Status b \<noteq> ''provisioning'' \<and> (b_Status b \<noteq> ''error'' \<or> b_HostID b = None)
     then Finished (BrError 409 (''browser VM is '' @ b_Status b @
       '', must be running, provisioning, or error with an assigned host to stop''))
     else unpair_first bs b bid (case (b_HostID b, bs_agentClient bs) of
         (Some hid, Some c) \<Rightarrow> call (in_db (GetHost hid)) (\<lambda>g. case g of
             Inl _ \<Rightarrow> browser_failed bid (''host lookup failed '' @ em_dash @ '' retry stop later'')
               (Finished (BrError 503 (''host unavailable '' @ em_dash @ '' browser VM record kept for retry'')))
           | Inr h \<Rightarrow> call (in_net (DestroyBrowserVM c h bid)) (\<lambda>d. case d of
                 Inl e \<Rightarrow> browser_failed bid (''agent destroy failed: '' @ error_text e)
                   (Finished (BrError 502 (''agent destroy failed '' @ em_dash @ '' browser VM record kept for retry: '' @ error_text e)))
               | Inr _ \<Rightarrow> stopped_browser bid))
       | _ \<Rightarrow> stopped_browser bid))"

section \<open>Pairing\<close>

definition pair_failed :: "string \<Rightarrow> int \<Rightarrow> string \<Rightarrow> browser_prog" where
  "pair_failed mid st msg = quietly (UnpairBrowserVM mid) (Finished (BrError st msg))"

text \<open>The CDP target, the second part of a pairing on the agent.\<close>

definition set_target :: "browser_server \<Rightarrow> machine \<Rightarrow> browser_vm \<Rightarrow> string \<Rightarrow> string \<Rightarrow> browser_prog" where
  "set_target bs m b mid bid = (case (bs_agentClient bs, b_VMIP b) of
      (Some c, Some browserIP) \<Rightarrow> call (in_db (GetHost (the (m_HostID m)))) (\<lambda>g. case g of
          Inl _ \<Rightarrow> pair_failed mid 500 ''failed to resolve host for CDP target''
        | Inr h \<Rightarrow> call (in_net (SetCDPTarget c h mid (browserIP @ '':9222''))) (\<lambda>t. case t of
              Inl e \<Rightarrow> (let failed = pair_failed mid 502 (''failed to set CDP proxy target: '' @ error_text e)
                in case m_VMIP m of None \<Rightarrow> failed
                   | Some vmIP \<Rightarrow> call (in_net (UnpairBrowserVM_agent c h bid vmIP)) (\<lambda>_. failed))
            | Inr _ \<Rightarrow> Finished (BrPaired mid bid)))
    | _ \<Rightarrow> Finished (BrPaired mid bid))"

definition pair_now :: "browser_server \<Rightarrow> machine \<Rightarrow> browser_vm \<Rightarrow> string \<Rightarrow> string \<Rightarrow> browser_prog" where
  "pair_now bs m b mid bid = call (in_db (PairBrowserVM mid bid)) (\<lambda>p. case p of
      Inl e \<Rightarrow>
        if contains_text (error_text e) ''duplicate key'' \<or> contains_text (error_text e) ''unique constraint''
        then Finished (BrError 409 ''browser VM is already paired to another machine'')
        else Finished (BrError 500 ''failed to pair browser VM'')
    | Inr _ \<Rightarrow> (case (bs_agentClient bs, m_VMIP m) of
          (Some c, Some vmIP) \<Rightarrow> call (in_db (GetHost (the (m_HostID m)))) (\<lambda>g. case g of
              Inl _ \<Rightarrow> pair_failed mid 503 (''failed to look up host for firewall setup '' @ em_dash @ '' retry'')
            | Inr h \<Rightarrow> call (in_net (PairBrowserVM_agent c h bid vmIP)) (\<lambda>f. case f of
                  Inl e \<Rightarrow> pair_failed mid 502 (''failed to configure firewall rules: '' @ error_text e)
                | Inr _ \<Rightarrow> set_target bs m b mid bid))
        | _ \<Rightarrow> set_target bs m b mid bid))"

text \<open>The browser VM that the machine had before is unpaired first.\<close>

definition replace_pair :: "browser_server \<Rightarrow> machine \<Rightarrow> browser_vm \<Rightarrow> string \<Rightarrow> string \<Rightarrow> browser_prog" where
  "replace_pair bs m b mid bid = (case m_BrowserVMID m of
      None \<Rightarrow> pair_now bs m b mid bid
    | Some previous \<Rightarrow>
        if previous = bid then pair_now bs m b mid bid
        else call (in_db (GetBrowserVM previous)) (\<lambda>g. case g of
            Inr prev \<Rightarrow> cleanupBrowserPairing bs m prev (pair_now bs m b mid bid)
          | Inl e \<Rightarrow>
              if errors_is e ErrNoRows then quietly (UnpairBrowserVM mid) (pair_now bs m b mid bid)
              else Finished (BrError 503 (''failed to look up previously paired browser VM '' @ em_dash @ '' retry: '' @ error_text e))))"

definition handlePairBrowser :: "browser_server \<Rightarrow> int \<Rightarrow> string \<Rightarrow> json option \<Rightarrow> browser_prog" where
  "handlePairBrowser bs acct mid body = (case body_string ''browser_vm_id'' body of
      None \<Rightarrow> Finished (BrError 400 ''browser_vm_id is required'')
    | Some bid \<Rightarrow>
        if bid = '''' then Finished (BrError 400 ''browser_vm_id is required'')
        else with_own_machine acct mid (\<lambda>m.
          if m_Status m \<noteq> ''running'' then Finished (BrError 409 ''machine must be running to pair a browser VM'')
          else with_own_browser acct bid (\<lambda>b.
            if b_Status b \<noteq> ''running'' then Finished (BrError 409 ''browser VM must be running to pair'')
            else if m_HostID m = None \<or> m_HostID m \<noteq> b_HostID b
            then Finished (BrError 409 ''machine and browser VM must be on the same host'')
            else call (in_db (GetMachineByBrowserVMID bid)) (\<lambda>g.
              if (case g of Inl _ \<Rightarrow> False | Inr other \<Rightarrow> m_ID other \<noteq> mid)
              then Finished (BrError 409 ''browser VM is already paired to another machine'')
              else replace_pair bs m b mid bid))))"

definition unpair_now :: "string \<Rightarrow> browser_prog" where
  "unpair_now mid = call (in_db (UnpairBrowserVM mid)) (\<lambda>u. Finished (case u of
      Inl _ \<Rightarrow> BrError 500 ''failed to unpair browser VM'' | Inr _ \<Rightarrow> BrUnpaired mid))"

definition handleUnpairBrowser :: "browser_server \<Rightarrow> int \<Rightarrow> string \<Rightarrow> browser_prog" where
  "handleUnpairBrowser bs acct mid = with_own_machine acct mid (\<lambda>m. case m_BrowserVMID m of
      None \<Rightarrow> Finished (BrError 409 ''machine does not have a paired browser VM'')
    | Some bid \<Rightarrow> (case (bs_agentClient bs, m_HostID m, m_VMIP m) of
        (Some c, Some hid, Some vmIP) \<Rightarrow> call (in_db (GetHost hid)) (\<lambda>g. case g of
            Inl _ \<Rightarrow> Finished (BrError 503 (''failed to look up host for unpair '' @ em_dash @ '' retry''))
          | Inr h \<Rightarrow> call (in_net (UnpairBrowserVM_agent c h bid vmIP)) (\<lambda>u. case u of
                Inl e \<Rightarrow> Finished (BrError 502 (''agent failed to remove firewall rules '' @ em_dash @ '' retry: '' @ error_text e))
              | Inr _ \<Rightarrow> call (in_net (ResetCDPTarget c h mid)) (\<lambda>t. case t of
                  Inl e \<Rightarrow> Finished (BrError 502 (''agent failed to reset CDP target '' @ em_dash @ '' retry: '' @ error_text e))
                | Inr _ \<Rightarrow> unpair_now mid)))
      | _ \<Rightarrow> unpair_now mid))"

section \<open>Reconciliation (admin_browser_vms.go)\<close>

text \<open>The absence that the agent reports: the placement goes, and the row is stopped.\<close>

definition reconcile_absent :: "string \<Rightarrow> (browser_reply \<Rightarrow> browser_prog) \<Rightarrow> browser_prog" where
  "reconcile_absent bid k = call (in_db (ReleaseBrowserVMPlacement bid)) (\<lambda>r. case r of
      Inl _ \<Rightarrow> k (BrError 500 ''failed to release browser VM placement'')
    | Inr _ \<Rightarrow> call (in_db (UnassignBrowserVMFromHost bid)) (\<lambda>u. case u of
        Inl _ \<Rightarrow> k (BrError 500 ''failed to unassign browser VM from host'')
      | Inr _ \<Rightarrow> call (in_db (UpdateBrowserVMStatus bid ''stopped'' None)) (\<lambda>s. case s of
          Inl _ \<Rightarrow> k (BrError 500 ''failed to update browser VM status'')
        | Inr _ \<Rightarrow> k (BrReconciled ''released_absent_agent_resource'' ''stopped''
            ''agent reported browser VM not found; placement released''))))"

definition reconcile_ready :: "string \<Rightarrow> (browser_reply \<Rightarrow> browser_prog) \<Rightarrow> browser_prog" where
  "reconcile_ready bid k = call (in_db (ActivateBrowserVMPlacement bid)) (\<lambda>a. case a of
      Inl _ \<Rightarrow> k (BrError 500 ''failed to activate browser VM placement'')
    | Inr _ \<Rightarrow> call (in_db (UpdateBrowserVMStatus bid ''running'' None)) (\<lambda>s. case s of
        Inl _ \<Rightarrow> k (BrError 500 ''failed to update browser VM status'')
      | Inr _ \<Rightarrow> k (BrReconciled ''marked_running'' ''running'' ''agent reported browser VM ready'')))"

definition reconcileBrowserVM :: "agent_client \<Rightarrow> string \<Rightarrow> (browser_reply \<Rightarrow> browser_prog) \<Rightarrow> browser_prog" where
  "reconcileBrowserVM c bid k = call (in_db (GetBrowserVM bid)) (\<lambda>g. case g of
      Inl _ \<Rightarrow> k (BrError 404 ''browser VM not found'')
    | Inr b \<Rightarrow> (case b_HostID b of
        None \<Rightarrow> k (BrError 409 ''browser VM has no assigned host'')
      | Some hid \<Rightarrow> call (in_db (GetHost hid)) (\<lambda>g. case g of
          Inl _ \<Rightarrow> k (BrError 503 ''host unavailable'')
        | Inr h \<Rightarrow> call (in_net (GetBrowserVMHealth c h bid)) (\<lambda>r. case r of
            Inl (st, e) \<Rightarrow>
              if st = Some 404 then reconcile_absent bid k
              else k (BrError 502 (''failed to query browser VM on agent: '' @ error_text e))
          | Inr bh \<Rightarrow>
              if bh_CDPReachable bh \<or> bh_Status bh = ''ready'' then reconcile_ready bid k
              else (let msg = ''agent still has browser VM but CDP is not ready'' @
                      (if bh_CDPError bh = '''' then '''' else '': '' @ bh_CDPError bh)
                in browser_failed bid msg (k (BrReconciled ''kept_agent_resource'' ''error'' msg)))))))"

definition handleReconcileBrowserVM :: "browser_server \<Rightarrow> string \<Rightarrow> browser_prog" where
  "handleReconcileBrowserVM bs bid = (case bs_agentClient bs of
      None \<Rightarrow> Finished (BrError 503 ''agent client not configured'')
    | Some c \<Rightarrow> reconcileBrowserVM c bid Finished)"

definition handleListBrowserVMReconcileCandidates :: browser_prog where
  "handleListBrowserVMReconcileCandidates = call (in_db ListBrowserVMsRequiringReconciliation) (\<lambda>l. Finished (case l of
      Inl _ \<Rightarrow> BrError 500 ''failed to list browser VM reconcile candidates'' | Inr bs \<Rightarrow> BrVMs bs))"

fun reconcile_each :: "agent_client \<Rightarrow> browser_vm list \<Rightarrow> nat \<Rightarrow> browser_prog" where
  "reconcile_each c [] n = Finished (BrSwept n)"
| "reconcile_each c (b # bs) n = reconcileBrowserVM c (b_ID b) (\<lambda>r. case r of
      BrReconciled action status msg \<Rightarrow> reconcile_each c bs (Suc n) | _ \<Rightarrow> reconcile_each c bs n)"

text \<open>A pass of the loop that runs every minute.\<close>

definition reconcileBrowserVMCandidatesOnce :: "browser_server \<Rightarrow> browser_prog" where
  "reconcileBrowserVMCandidatesOnce bs = (case bs_agentClient bs of
      None \<Rightarrow> Finished (BrSwept 0)
    | Some c \<Rightarrow> call (in_db ListBrowserVMsRequiringReconciliation) (\<lambda>l. case l of
        Inl e \<Rightarrow> Finished (BrError 500 (error_text e)) | Inr bs \<Rightarrow> reconcile_each c bs 0))"

end
