(* ===== verification/Browser_Properties.thy ===== *)
theory Browser_Properties
  imports Samples Browser_Api
begin

text \<open>
  Browser VMs: however the requests of the accounts and the reconciler interleave, no account touches anything of
  another, and machines are paired only with browser VMs of their account; a stop or a deletion frees nothing
  before the agent has confirmed that the VM is gone; and where requests that overlap, or a release that fails,
  leave a placement and its browser VM apart.
\<close>

section \<open>Whose rows these are\<close>

text \<open>Rows keep their account, and a new row has a new identifier.\<close>

definition rows_kept :: "('r \<Rightarrow> string) \<Rightarrow> ('r \<Rightarrow> int) \<Rightarrow> nat \<Rightarrow> 'r list \<Rightarrow> 'r list \<Rightarrow> bool" where
  "rows_kept key acc n rows rows' \<longleftrightarrow>
     (\<forall>x \<in> set rows'. (\<exists>y \<in> set rows. key y = key x \<and> acc y = acc x) \<or> (\<exists>i \<ge> n. key x = uuid_of i))"

definition tenants_kept :: "db \<Rightarrow> db \<Rightarrow> bool" where
  "tenants_kept s t \<longleftrightarrow> db_uuids s \<le> db_uuids t \<and>
     rows_kept b_ID b_AccountID (db_uuids s) (browser_vms s) (browser_vms t) \<and>
     rows_kept m_ID m_AccountID (db_uuids s) (machines s) (machines t)"

lemma rows_kept_refl [simp]: "rows_kept key acc n rows rows"
  by (auto simp: rows_kept_def)

lemma rows_kept_trans:
  assumes "rows_kept key acc n xs ys" "rows_kept key acc n' ys zs" "n \<le> n'"
  shows "rows_kept key acc n xs zs"
  unfolding rows_kept_def
proof
  fix z assume "z \<in> set zs"
  then consider y where "y \<in> set ys" "key y = key z" "acc y = acc z" | i where "i \<ge> n'" "key z = uuid_of i"
    using assms(2) by (auto simp: rows_kept_def)
  then show "(\<exists>x \<in> set xs. key x = key z \<and> acc x = acc z) \<or> (\<exists>i \<ge> n. key z = uuid_of i)"
    using assms(1,3) by cases (fastforce simp: rows_kept_def intro: order.trans)+
qed

lemma rows_kept_update [intro]:
  "(\<And>x. key (f x) = key x) \<Longrightarrow> (\<And>x. acc (f x) = acc x) \<Longrightarrow> rows_kept key acc n rows (update_where p f rows)"
  by (fastforce simp: rows_kept_def set_update_where)

lemma rows_kept_delete [intro]: "rows_kept key acc n rows (delete_where p rows)"
  by (auto simp: rows_kept_def)

lemma rows_kept_append [intro]: "key x = uuid_of n \<Longrightarrow> rows_kept key acc n rows (rows @ [x])"
  by (auto simp: rows_kept_def)

lemma tenants_kept_refl [simp]: "tenants_kept s s"
  by (simp add: tenants_kept_def)

lemma tenants_kept_trans: "tenants_kept s t \<Longrightarrow> tenants_kept t u \<Longrightarrow> tenants_kept s u"
  by (auto simp: tenants_kept_def intro: rows_kept_trans)

text \<open>A machine is paired only with a browser VM that exists and is of its account.\<close>

definition pairs_ok :: "db \<Rightarrow> bool" where
  "pairs_ok s \<longleftrightarrow> (\<forall>m \<in> set (machines s). \<forall>bid. m_BrowserVMID m = Some bid \<longrightarrow>
     (\<exists>b \<in> set (browser_vms s). b_ID b = bid \<and> b_AccountID b = m_AccountID m))"

definition tenant_ok :: "db \<Rightarrow> bool" where
  "tenant_ok s \<longleftrightarrow> db_ok s \<and> pairs_ok s"

text \<open>
  What the requests of some accounts know: these browser VMs and these machines are of one of the accounts, now
  and later. All accounts together know of nothing but that the identifiers are not new.
\<close>

definition belongs :: "('r \<Rightarrow> string) \<Rightarrow> ('r \<Rightarrow> int) \<Rightarrow> nat \<Rightarrow> 'r list \<Rightarrow> int set \<Rightarrow> string \<Rightarrow> bool" where
  "belongs key acc n rows A k \<longleftrightarrow> (\<exists>i < n. k = uuid_of i) \<and> (\<forall>x \<in> set rows. key x = k \<longrightarrow> acc x \<in> A)"

definition knows :: "int set \<Rightarrow> string set \<Rightarrow> string set \<Rightarrow> db \<Rightarrow> bool" where
  "knows A B M s \<longleftrightarrow> (\<forall>bid \<in> B. belongs b_ID b_AccountID (db_uuids s) (browser_vms s) A bid) \<and>
     (\<forall>mid \<in> M. belongs m_ID m_AccountID (db_uuids s) (machines s) A mid)"

lemma belongs_stable:
  assumes "belongs key acc n rows A k" "rows_kept key acc n rows rows'" "n \<le> n'"
  shows "belongs key acc n' rows' A k"
  using assms unfolding belongs_def rows_kept_def by (fastforce intro: order.strict_trans2)

lemma knows_stable: "knows A B M s \<Longrightarrow> tenants_kept s t \<Longrightarrow> knows A B M t"
  unfolding knows_def tenants_kept_def by (blast intro: belongs_stable)

lemma row_belongs:
  assumes "keyed n key rows" "x \<in> set rows" "acc x \<in> A"
  shows "belongs key acc n rows A (key x)"
  using assms by (auto simp: belongs_def keyed_def distinct_map inj_on_def)

text \<open>What the requests of these accounts must leave alone: the rows of others, and every other table.\<close>

definition foreign_browsers :: "int set \<Rightarrow> db \<Rightarrow> browser_vm list" where
  "foreign_browsers A s = filter (\<lambda>b. b_AccountID b \<notin> A) (browser_vms s)"

definition foreign_machines :: "int set \<Rightarrow> db \<Rightarrow> machine list" where
  "foreign_machines A s = filter (\<lambda>m. m_AccountID m \<notin> A) (machines s)"

definition foreign_slots :: "int set \<Rightarrow> db \<Rightarrow> browser_placement list" where
  "foreign_slots A s = filter (\<lambda>p. bp_BrowserVMID p \<in> b_ID ` set (foreign_browsers A s)) (browser_vm_placements s)"

definition other_tables :: "db \<Rightarrow> db" where
  "other_tables s = s\<lparr>hosts := [], machines := [], browser_vms := [], browser_vm_placements := [], db_faults := [], db_uuids := 0\<rparr>"

definition others_same :: "int set \<Rightarrow> db \<Rightarrow> db \<Rightarrow> bool" where
  "others_same A s t \<longleftrightarrow> foreign_browsers A t = foreign_browsers A s \<and>
     foreign_machines A t = foreign_machines A s \<and> foreign_slots A t = foreign_slots A s \<and>
     other_tables t = other_tables s"

text \<open>A call, whose request knows what it does, keeps the database well formed and leaves the rest alone.\<close>

definition fine :: "int set \<Rightarrow> db \<Rightarrow> db \<Rightarrow> bool" where
  "fine A s t \<longleftrightarrow> pairs_ok t \<and> tenants_kept s t \<and> others_same A s t"

definition own_call :: "int set \<Rightarrow> string set \<Rightarrow> string set \<Rightarrow> db \<Rightarrow> db \<Rightarrow> bool" where
  "own_call A B M s t \<longleftrightarrow> (tenant_ok s \<longrightarrow> knows A B M s \<longrightarrow> db_ok t \<and> fine A s t)"

lemma tenant_faults [simp]:
  "tenant_ok (s\<lparr>db_faults := fs\<rparr>) = tenant_ok s" "knows A B M (s\<lparr>db_faults := fs\<rparr>) = knows A B M s"
  "fine A (s\<lparr>db_faults := fs\<rparr>) t = fine A s t" "fine A s (t\<lparr>db_faults := fs\<rparr>) = fine A s t"
  "db_ok (s\<lparr>db_faults := fs\<rparr>) = db_ok s"
  by (simp_all add: tenant_ok_def pairs_ok_def db_ok_def schema_ok_def capacity_ok_def sized_rows_def knows_def fine_def
      tenants_kept_def others_same_def foreign_browsers_def foreign_machines_def foreign_slots_def other_tables_def)

lemma others_same_refl [simp]: "others_same A s s"
  by (simp add: others_same_def)

lemma fine_refl: "tenant_ok s \<Longrightarrow> fine A s s"
  by (simp add: fine_def tenant_ok_def)

lemma others_same_trans: "others_same A s t \<Longrightarrow> others_same A t u \<Longrightarrow> others_same A s u"
  by (simp add: others_same_def)

lemma fine_trans: "fine A s t \<Longrightarrow> fine A t u \<Longrightarrow> fine A s u"
  by (auto simp: fine_def intro: tenants_kept_trans others_same_trans)

interpretation own: db_preorder "own_call A B M" for A B M
proof unfold_locales
  show "own_call A B M s s" for s by (simp add: own_call_def fine_refl) (simp add: tenant_ok_def)
  show "own_call A B M s u" if "own_call A B M s t" "own_call A B M t u" for s t u
    unfolding own_call_def
  proof (intro impI)
    assume "tenant_ok s" "knows A B M s"
    then have t: "db_ok t" "fine A s t" using that(1) by (simp_all add: own_call_def)
    then have "tenant_ok t" "knows A B M t"
      using knows_stable [OF \<open>knows A B M s\<close>] by (simp_all add: fine_def tenant_ok_def)
    then show "db_ok u \<and> fine A s u" using that(2) t(2) by (auto simp: own_call_def intro: fine_trans)
  qed
  show "fault_blind (own_call A B M)"
    unfolding fault_blind_def own_call_def by (auto simp: fine_refl) (simp add: tenant_ok_def)?
qed

text \<open>The statement does its part, and keeps the database well formed.\<close>

lemma own_db_call:
  assumes "triple db_ok (db_call f) (\<lambda>_. True)"
    and "\<And>s. tenant_ok s \<Longrightarrow> knows A B M s \<Longrightarrow> fine A s (snd (f s))"
  shows "state_io_rel (own_call A B M) (db_call f)"
  unfolding state_io_rel_def own_call_def
proof (intro allI impI)
  fix s assume s: "tenant_ok s" "knows A B M s"
  have "fine A s (snd (f (s\<lparr>db_faults := fs\<rparr>)))" for fs
    using assms(2) [of "s\<lparr>db_faults := fs\<rparr>"] s by simp
  then have "fine A s (final_state (db_call f) s)"
    using assms(2) [OF s] fine_refl [OF s(1), of A] by (auto simp: db_call_def split: list.splits bool.splits)
  then show "db_ok (final_state (db_call f) s) \<and> fine A s (final_state (db_call f) s)"
    using tripleD [OF assms(1)] s(1) by (simp add: tenant_ok_def)
qed

lemma own_tx:
  assumes "triple db_ok (tx f) (\<lambda>_. True)"
    and "\<And>s a t. tenant_ok s \<Longrightarrow> knows A B M s \<Longrightarrow> f s = (Inr a, t) \<Longrightarrow> fine A s t"
  shows "state_io_rel (own_call A B M) (tx f)"
  using assms(1) unfolding tx_def
proof (rule own_db_call)
  fix s assume s: "tenant_ok s" "knows A B M s"
  show "fine A s (snd (case f s of (Inl e, _) \<Rightarrow> (Inl e, s) | (Inr a, s') \<Rightarrow> (Inr a, s')))"
    using assms(2) [OF s] fine_refl [OF s(1), of A] by (cases "f s"; cases "fst (f s)") auto
qed

lemma own_exec:
  assumes "triple db_ok (exec f) (\<lambda>_. True)" "\<And>s. tenant_ok s \<Longrightarrow> knows A B M s \<Longrightarrow> fine A s (f s)"
  shows "state_io_rel (own_call A B M) (exec f)"
  using assms unfolding exec_def by (intro own_db_call) auto

section \<open>Single calls\<close>

lemma filter_update_where:
  "(\<And>x. x \<in> set rows \<Longrightarrow> p x \<Longrightarrow> \<not> q x \<and> \<not> q (f x)) \<Longrightarrow> filter q (update_where p f rows) = filter q rows"
  by (induction rows) auto

lemma filter_delete_where:
  "(\<And>x. x \<in> set rows \<Longrightarrow> p x \<Longrightarrow> \<not> q x) \<Longrightarrow> filter q (delete_where p rows) = filter q rows"
  by (induction rows) (auto simp: delete_where_def)

lemma own_browser_rows:
  "knows A B M s \<Longrightarrow> bid \<in> B \<Longrightarrow> b \<in> set (browser_vms s) \<Longrightarrow> b_ID b = bid \<Longrightarrow> b_AccountID b \<in> A"
  by (auto simp: knows_def belongs_def)

lemma own_machine_rows:
  "knows A B M s \<Longrightarrow> mid \<in> M \<Longrightarrow> m \<in> set (machines s) \<Longrightarrow> m_ID m = mid \<Longrightarrow> m_AccountID m \<in> A"
  by (auto simp: knows_def belongs_def)

lemma browser_vm_columns [simp]:
  "browser_vms (s\<lparr>browser_vms := bs\<rparr>) = bs" "foreign_browsers A (s\<lparr>hosts := hs\<rparr>) = foreign_browsers A s"
  "foreign_browsers A (s\<lparr>browser_vm_placements := ps\<rparr>) = foreign_browsers A s"
  by (simp_all add: foreign_browsers_def)

lemma own_slots: "knows A B M s \<Longrightarrow> bid \<in> B \<Longrightarrow> \<forall>b \<in> set (foreign_browsers A s). b_ID b \<noteq> bid"
  by (auto simp: foreign_browsers_def dest: own_browser_rows)

text \<open>A statement on the row of a browser VM.\<close>

lemma own_on_browser:
  assumes "tenant_ok s" "knows A B M s" "bid \<in> B"
    and "\<And>b. b_ID (f b) = b_ID b" "\<And>b. b_AccountID (f b) = b_AccountID b"
  shows "fine A s (on_browser_vm bid f s)"
proof -
  have "\<exists>b' \<in> set (browser_vms (on_browser_vm bid f s)). b_ID b' = b_ID b \<and> b_AccountID b' = b_AccountID b"
    if "b \<in> set (browser_vms s)" for b
    using that assms(4,5)
    by (intro bexI [of _ "if b_ID b = bid then (f b)\<lparr>b_UpdatedAt := db_now s\<rparr> else b"])
       (auto simp: on_browser_vm_def set_update_where)
  moreover have "machines (on_browser_vm bid f s) = machines s" by (simp add: on_browser_vm_def)
  ultimately have "pairs_ok (on_browser_vm bid f s)"
    using assms(1) unfolding tenant_ok_def pairs_ok_def by metis
  moreover have "tenants_kept s (on_browser_vm bid f s)"
    using assms(4,5) by (auto simp: tenants_kept_def on_browser_vm_def)
  moreover have "foreign_browsers A (on_browser_vm bid f s) = foreign_browsers A s"
    unfolding foreign_browsers_def on_browser_vm_def browser_vm_columns
    by (rule filter_update_where) (use own_browser_rows [OF assms(2,3)] assms(5) in simp)
  then have "others_same A s (on_browser_vm bid f s)"
    by (simp add: others_same_def foreign_slots_def) (simp add: foreign_machines_def other_tables_def on_browser_vm_def)
  ultimately show ?thesis by (simp add: fine_def)
qed

lemma own_browser_calls:
  assumes "bid \<in> B"
  shows "state_io_rel (own_call A B M) (UpdateBrowserVMStatus bid st msg)"
    "state_io_rel (own_call A B M) (AssignBrowserVMToHost bid hid ip)"
    "state_io_rel (own_call A B M) (UnassignBrowserVMFromHost bid)"
proof -
  have ok: "triple db_ok (UpdateBrowserVMStatus bid st msg) (\<lambda>_. True)" "triple db_ok (AssignBrowserVMToHost bid hid ip) (\<lambda>_. True)"
      "triple db_ok (UnassignBrowserVMFromHost bid) (\<lambda>_. True)"
    by (rule db_ok_triple, rule schema_triples, rule capacity_triples)+
  show "state_io_rel (own_call A B M) (UpdateBrowserVMStatus bid st msg)"
    using ok(1) unfolding UpdateBrowserVMStatus_def
    by (rule own_tx) (auto split: if_split_asm intro!: own_on_browser [OF _ _ assms])
  show "state_io_rel (own_call A B M) (AssignBrowserVMToHost bid hid ip)"
    using ok(2) unfolding AssignBrowserVMToHost_def
    by (rule own_tx) (auto split: if_split_asm intro!: own_on_browser [OF _ _ assms])
  show "state_io_rel (own_call A B M) (UnassignBrowserVMFromHost bid)"
    using ok(3) unfolding UnassignBrowserVMFromHost_def
    by (rule own_exec) (auto intro!: own_on_browser [OF _ _ assms])
qed

text \<open>Statements on the placements of a browser VM, and on the hosts.\<close>

lemma fine_placements:
  assumes "tenant_ok s" "browser_vms t = browser_vms s" "machines t = machines s" "foreign_slots A t = foreign_slots A s"
    "other_tables t = other_tables s" "db_uuids t = db_uuids s"
  shows "fine A s t"
  using assms
  by (simp add: fine_def tenant_ok_def pairs_ok_def tenants_kept_def others_same_def foreign_browsers_def foreign_machines_def)

lemma own_slot_update:
  assumes "knows A B M s" "bid \<in> B" "\<And>p. bp_BrowserVMID (f p) = bp_BrowserVMID p"
  shows "filter (\<lambda>p. bp_BrowserVMID p \<in> b_ID ` set (foreign_browsers A s))
      (update_where (\<lambda>p. bp_BrowserVMID p = bid \<and> q p) f ps) =
    filter (\<lambda>p. bp_BrowserVMID p \<in> b_ID ` set (foreign_browsers A s)) ps"
  by (rule filter_update_where) (use own_slots [OF assms(1,2)] assms(3) in fastforce)

lemma own_placement_calls:
  assumes "bid \<in> B"
  shows "state_io_rel (own_call A B M) (ActivateBrowserVMPlacement bid)"
    "state_io_rel (own_call A B M) (ReleaseBrowserVMPlacement bid)"
    "state_io_rel (own_call A B M) (PlaceBrowserVMOnHost hid bid v m)"
proof -
  have ok: "triple db_ok (ActivateBrowserVMPlacement bid) (\<lambda>_. True)" "triple db_ok (ReleaseBrowserVMPlacement bid) (\<lambda>_. True)"
      "triple db_ok (PlaceBrowserVMOnHost hid bid v m) (\<lambda>_. True)"
    by (rule db_ok_triple, rule schema_triples, rule capacity_triples)+
  show "state_io_rel (own_call A B M) (ActivateBrowserVMPlacement bid)"
    using ok(1) unfolding ActivateBrowserVMPlacement_def
    by (rule own_exec)
       (auto simp: foreign_slots_def other_tables_def intro!: fine_placements own_slot_update [OF _ assms])
  show "state_io_rel (own_call A B M) (ReleaseBrowserVMPlacement bid)"
    using ok(2) unfolding ReleaseBrowserVMPlacement_def
    by (rule own_tx)
       (auto simp: release_browser_placement_def Let_def on_host_def foreign_slots_def other_tables_def
         intro!: fine_placements own_slot_update [OF _ assms] split: list.split_asm option.split_asm)
  show "state_io_rel (own_call A B M) (PlaceBrowserVMOnHost hid bid v m)"
    using ok(3) unfolding PlaceBrowserVMOnHost_def
    by (rule own_tx)
       (auto simp: place_browser_vm_def Let_def on_host_def foreign_slots_def other_tables_def
         intro!: fine_placements dest!: own_slots [OF _ assms] split: option.split_asm if_split_asm)
qed

lemma own_reads:
  "state_io_rel (own_call A B M) (GetHost hid)" "state_io_rel (own_call A B M) (GetBrowserVM bid)"
  "state_io_rel (own_call A B M) (GetMachine mid)" "state_io_rel (own_call A B M) (GetMachineByBrowserVMID bid)"
  "state_io_rel (own_call A B M) (ListMachinesByAccount acct)" "state_io_rel (own_call A B M) (ListBrowserVMsByAccount acct)"
  "state_io_rel (own_call A B M) ListBrowserVMsRequiringReconciliation" "state_io_rel (own_call A B M) (ListEligibleHosts q)"
  unfolding GetHost_def GetBrowserVM_def GetMachine_def GetMachineByBrowserVMID_def ListMachinesByAccount_def
    ListBrowserVMsByAccount_def ListBrowserVMsRequiringReconciliation_def ListEligibleHosts_def
  by (rule own.io_query)+

lemma own_reserve:
  assumes "bid \<in> B"
  shows "state_io_rel (own_call A B M) (ReserveBrowserVM c draws bid req)"
proof -
  have "state_io_rel (own_call A B M) (try_browser_hosts bid req hs)" for hs
    by (induction hs) (auto intro!: own.io_rules own_placement_calls assms)
  then show ?thesis
    unfolding ReserveBrowserVM_def browserOnTarget_def
    by (auto intro!: own.io_rules own_placement_calls own_reads assms)
qed

text \<open>Statements on browser VMs that come and go, and on pairs.\<close>

lemma own_create:
  assumes "b_AccountID b \<in> A" "0 \<le> b_VCPUs b" "0 \<le> b_MemoryMB b"
  shows "state_io_rel (own_call A B M) (CreateBrowserVM b)"
proof -
  have "triple db_ok (CreateBrowserVM b) (\<lambda>_. True)"
    by (rule db_ok_triple, rule schema_triples, rule capacity_triples) (use assms in simp_all)
  then show ?thesis
    unfolding CreateBrowserVM_def
  proof (rule own_tx, goal_cases)
    case (1 s a t)
    define row where "row = b\<lparr>b_ID := uuid_of (db_uuids s), b_HostID := None, b_VMIP := None, b_Status := ''stopped'',
      b_RootfsVersion := None, b_ErrorMessage := None, b_CreatedAt := db_now s, b_UpdatedAt := db_now s, b_PairedMachine := None\<rparr>"
    have "b_AccountID row = b_AccountID b" "b_ID row = uuid_of (db_uuids s)" by (simp_all add: row_def)
    moreover have "t = s\<lparr>browser_vms := browser_vms s @ [row], db_uuids := Suc (db_uuids s)\<rparr>"
      using 1(3) by (simp add: Let_def row_def [symmetric] split: if_split_asm)
    moreover have "\<forall>p \<in> set (machines s). \<forall>bid. m_BrowserVMID p = Some bid \<longrightarrow>
        (\<exists>b \<in> set (browser_vms t). b_ID b = bid \<and> b_AccountID b = m_AccountID p)"
      using 1(1) calculation by (fastforce simp: tenant_ok_def pairs_ok_def)
    ultimately show ?case
      using assms(1)
      by (auto simp: fine_def pairs_ok_def tenants_kept_def others_same_def foreign_browsers_def foreign_machines_def
          foreign_slots_def other_tables_def)
  qed
qed

lemma fine_machines:
  assumes "tenant_ok s" "t = s\<lparr>machines := ms\<rparr>" "rows_kept m_ID m_AccountID (db_uuids s) (machines s) ms"
    "filter (\<lambda>m. m_AccountID m \<notin> A) ms = filter (\<lambda>m. m_AccountID m \<notin> A) (machines s)" "pairs_ok t"
  shows "fine A s t"
  using assms
  by (simp add: fine_def tenants_kept_def others_same_def foreign_browsers_def foreign_machines_def foreign_slots_def
      other_tables_def)

lemma own_on_machine:
  assumes "tenant_ok s" "knows A B M s" "mid \<in> M" "\<And>m. m_ID (f m) = m_ID m" "\<And>m. m_AccountID (f m) = m_AccountID m"
    and "pairs_ok (on_machine mid f s)"
  shows "fine A s (on_machine mid f s)"
  using assms(1) on_machine_def
proof (rule fine_machines)
  show "filter (\<lambda>m. m_AccountID m \<notin> A) (update_where (\<lambda>m. m_ID m = mid) f (machines s)) =
      filter (\<lambda>m. m_AccountID m \<notin> A) (machines s)"
    by (rule filter_update_where) (use own_machine_rows [OF assms(2,3)] assms(5) in simp)
qed (use assms in auto)

lemma own_unpair:
  assumes "mid \<in> M"
  shows "state_io_rel (own_call A B M) (UnpairBrowserVM mid)"
proof -
  have "triple db_ok (UnpairBrowserVM mid) (\<lambda>_. True)" by (rule live.Unpair_keeps)
  then show ?thesis
    unfolding UnpairBrowserVM_def
  proof (rule own_exec)
    fix s assume s: "tenant_ok s" "knows A B M s"
    then have "pairs_ok (on_machine mid (\<lambda>m. m\<lparr>m_BrowserVMID := None\<rparr>) s)"
      by (auto simp: tenant_ok_def pairs_ok_def on_machine_def set_update_where split: if_split_asm)
    then show "fine A s (on_machine mid (\<lambda>m. m\<lparr>m_BrowserVMID := None\<rparr>) s)"
      using own_on_machine [OF s assms] by simp
  qed
qed

text \<open>A pair of a machine and a browser VM of the same account.\<close>

lemma own_pair:
  assumes "mid \<in> M" "bid \<in> B"
  shows "state_io_rel (own_call {acct} B M) (PairBrowserVM mid bid)"
proof -
  have "triple db_ok (PairBrowserVM mid bid) (\<lambda>_. True)"
    by (rule db_ok_triple, rule schema_triples, rule capacity_triples)
  then show ?thesis
    unfolding PairBrowserVM_def
  proof (rule own_tx, goal_cases)
    case (1 s a t)
    note s = 1(1,2)
    then have t: "t = on_machine mid (\<lambda>m. m\<lparr>m_BrowserVMID := Some bid\<rparr>) s"
      and there: "m \<in> set (machines s) \<Longrightarrow> m_ID m = mid \<Longrightarrow> \<exists>b \<in> set (browser_vms s). b_ID b = bid" for m
      using 1(3) by (auto split: if_split_asm)
    have "\<exists>b \<in> set (browser_vms s). b_ID b = bid \<and> b_AccountID b = m_AccountID m"
      if "m \<in> set (machines s)" "m_ID m = mid" for m
      using there [OF that] own_browser_rows [OF s(2) assms(2)] own_machine_rows [OF s(2) assms(1) that] by fastforce
    then have "pairs_ok t"
      using s(1) unfolding t by (auto simp: tenant_ok_def pairs_ok_def on_machine_def set_update_where split: if_split_asm)
    then show ?case using own_on_machine [OF s assms(1)] unfolding t by simp
  qed
qed

text \<open>The machine that is paired with a deleted browser VM is of the same account.\<close>

lemma own_delete:
  assumes "bid \<in> B"
  shows "state_io_rel (own_call A B M) (DeleteBrowserVM bid)"
proof -
  have "triple db_ok (DeleteBrowserVM bid) (\<lambda>_. True)"
    by (rule db_ok_triple, rule schema_triples, rule capacity_triples)
  then show ?thesis
    unfolding DeleteBrowserVM_def
  proof (rule own_exec)
    fix s assume s: "tenant_ok s" "knows A B M s"
    let ?bs = "delete_where (\<lambda>b. b_ID b = bid) (browser_vms s)"
      and ?ps = "delete_where (\<lambda>p. bp_BrowserVMID p = bid) (browser_vm_placements s)"
      and ?ms = "update_where (\<lambda>m. m_BrowserVMID m = Some bid) (\<lambda>m. m\<lparr>m_BrowserVMID := None\<rparr>) (machines s)"
    let ?t = "s\<lparr>browser_vms := ?bs, browser_vm_placements := ?ps, machines := ?ms\<rparr>"
    have "\<exists>b \<in> set ?bs. b_ID b = k \<and> b_AccountID b = m_AccountID m" if m: "m \<in> set ?ms" "m_BrowserVMID m = Some k" for m k
    proof -
      obtain r where "r \<in> set (machines s)" "m = (if m_BrowserVMID r = Some bid then r\<lparr>m_BrowserVMID := None\<rparr> else r)"
        using m(1) unfolding set_update_where by blast
      then have "m \<in> set (machines s)" "k \<noteq> bid" using m(2) by (cases "m_BrowserVMID r = Some bid"; simp; auto)+
      then show ?thesis using s(1) m(2) by (fastforce simp: tenant_ok_def pairs_ok_def)
    qed
    then have "pairs_ok ?t" by (simp add: pairs_ok_def)
    moreover have "tenants_kept s ?t" by (auto simp: tenants_kept_def)
    moreover have "foreign_browsers A ?t = foreign_browsers A s"
      using own_browser_rows [OF s(2) assms] by (auto simp: foreign_browsers_def intro!: filter_delete_where)
    moreover have "m_AccountID m \<in> A" if "m \<in> set (machines s)" "m_BrowserVMID m = Some bid" for m
      using s(1) that own_browser_rows [OF s(2) assms] by (fastforce simp: tenant_ok_def pairs_ok_def)
    then have "foreign_machines A ?t = foreign_machines A s"
      by (auto simp: foreign_machines_def intro!: filter_update_where)
    moreover have "foreign_slots A ?t = foreign_slots A s"
      using own_slots [OF s(2) assms] unfolding foreign_slots_def calculation(3)
      by (auto intro!: filter_delete_where)
    moreover have "other_tables ?t = other_tables s" by (simp add: other_tables_def)
    ultimately show "fine A s ?t" by (simp add: fine_def others_same_def)
  qed
qed

lemmas own_calls = own_reads own_browser_calls own_placement_calls own_reserve own_create own_unpair own_delete

section \<open>Requests\<close>

lemma guards_mono:
  assumes "guards R G p s" "\<And>x y. R' x y \<Longrightarrow> R x y" "\<And>x y. G x y \<Longrightarrow> G' x y"
  shows "guards R' G' p s"
  using assms(1)
proof (induction p arbitrary: s)
  case (Step f)
  have "guards R' G' (fst (f t)) (snd (f t))" if "R' s t" for t
    using Step.IH [of "f t" "fst (f t)"] Step.prems assms(2) [OF that] by (auto simp: guards_Step fsts.simps simp del: guards.simps)
  then show ?case using Step.prems assms(2,3) by (auto simp: guards_Step simp del: guards.simps)
qed simp

definition rel :: "int set \<Rightarrow> world \<Rightarrow> world \<Rightarrow> bool" where
  "rel A w v \<longleftrightarrow> tenants_kept (w_db w) (w_db v) \<and> others_same A (w_db w) (w_db v)"

abbreviation world_ok :: "world \<Rightarrow> bool" where
  "world_ok w \<equiv> tenant_ok (w_db w)"

interpretation tenants: invariant_preorder "rel A" world_ok for A
  by unfold_locales (auto simp: rel_def intro: tenants_kept_trans others_same_trans)

lemma others_same_mono:
  assumes "others_same A s t" "A \<subseteq> A'"
  shows "others_same A' s t"
proof -
  have browsers: "foreign_browsers A' s = filter (\<lambda>b. b_AccountID b \<notin> A') (foreign_browsers A s)"
    and machines: "foreign_machines A' s = filter (\<lambda>m. m_AccountID m \<notin> A') (foreign_machines A s)" for s
    using assms(2) by (auto simp: foreign_browsers_def foreign_machines_def intro: filter_cong)
  have slots: "foreign_slots A' s = filter (\<lambda>p. bp_BrowserVMID p \<in> b_ID ` set (foreign_browsers A' s)) (foreign_slots A s)" for s
    unfolding foreign_slots_def filter_filter by (rule filter_cong) (auto simp: browsers)
  show ?thesis
    using assms(1) slots [of s] slots [of t] unfolding others_same_def browsers machines by simp
qed

lemma kept_mono: "tenants.kept A w v \<Longrightarrow> A \<subseteq> A' \<Longrightarrow> tenants.kept A' w v"
  by (auto simp: within_def rel_def intro: others_same_mono)

text \<open>
  A program that may run when these rows are known: whatever the requests of all accounts do in between, its calls
  leave alone what is not of its accounts.
\<close>

definition safe :: "int set \<Rightarrow> string set \<Rightarrow> string set \<Rightarrow> browser_prog \<Rightarrow> bool" where
  "safe A B M p \<longleftrightarrow> (\<forall>w. knows A B M (w_db w) \<longrightarrow> guards (tenants.kept UNIV) (tenants.kept A) p w)"

lemma safe_weaken: "safe A {} {} p \<Longrightarrow> safe A B M p"
  by (simp add: safe_def knows_def)

lemma safe_end: "safe A B M (Finished r)"
  by (simp add: safe_def)

lemma knows_kept: "knows A B M (w_db w) \<Longrightarrow> tenants.kept A' w v \<Longrightarrow> knows A B M (w_db v)"
  by (auto simp: within_def rel_def intro: knows_stable)

lemma safe_call:
  assumes "\<And>w. world_ok w \<Longrightarrow> knows A B M (w_db w) \<Longrightarrow>
      tenants.kept A w (final_state m w) \<and> guards (tenants.kept UNIV) (tenants.kept A) (k (outcome m w)) (final_state m w)"
  shows "safe A B M (call m k)"
  unfolding safe_def
proof (intro allI impI guards_callI)
  fix w v assume "knows A B M (w_db w)" "tenants.kept UNIV w v"
  then have "world_ok v" "knows A B M (w_db v)" by (auto simp: within_def intro: knows_kept)
  from assms [OF this]
  show "tenants.kept A v (final_state m v)" "guards (tenants.kept UNIV) (tenants.kept A) (k (outcome m v)) (final_state m v)"
    by blast+
qed

lemma own_call_kept:
  assumes "state_io_rel (own_call A B M) m" "world_ok w" "knows A B M (w_db w)"
  shows "tenants.kept A w (final_state (in_db m) w)"
  using assms by (auto simp: state_io_rel_def own_call_def within_def rel_def fine_def tenant_ok_def)

lemma safe_db:
  assumes "state_io_rel (own_call A B M) m" "\<And>a. safe A B M (k a)"
  shows "safe A B M (call (in_db m) k)"
proof (rule safe_call)
  fix w assume w: "world_ok w" "knows A B M (w_db w)"
  note kept = own_call_kept [OF assms(1) w]
  then show "tenants.kept A w (final_state (in_db m) w) \<and>
      guards (tenants.kept UNIV) (tenants.kept A) (k (outcome (in_db m) w)) (final_state (in_db m) w)"
    using assms(2) knows_kept [OF w(2) kept] by (auto simp: safe_def)
qed

lemma safe_net: "(\<And>a. safe A B M (k a)) \<Longrightarrow> safe A B M (call (in_net m) k)"
  by (rule safe_call) (auto simp: safe_def within_def rel_def)

lemma safe_if: "(b \<Longrightarrow> safe A B M p) \<Longrightarrow> (\<not> b \<Longrightarrow> safe A B M q) \<Longrightarrow> safe A B M (if b then p else q)"
  by simp

lemma safe_case_sum:
  "(\<And>e. x = Inl e \<Longrightarrow> safe A B M (f e)) \<Longrightarrow> (\<And>a. x = Inr a \<Longrightarrow> safe A B M (g a)) \<Longrightarrow>
   safe A B M (case x of Inl e \<Rightarrow> f e | Inr a \<Rightarrow> g a)"
  by (cases x) auto

lemma safe_case_option:
  "(x = None \<Longrightarrow> safe A B M p) \<Longrightarrow> (\<And>a. x = Some a \<Longrightarrow> safe A B M (g a)) \<Longrightarrow>
   safe A B M (case x of None \<Rightarrow> p | Some a \<Rightarrow> g a)"
  by (cases x) auto

lemma safe_case_prod: "(\<And>a b. x = (a, b) \<Longrightarrow> safe A B M (f a b)) \<Longrightarrow> safe A B M (case x of (a, b) \<Rightarrow> f a b)"
  by (cases x) auto

lemma safe_let: "safe A B M (f v) \<Longrightarrow> safe A B M (let x = v in f x)"
  by simp

lemmas safe_rules = safe_end safe_net safe_if safe_case_sum safe_case_option safe_case_prod safe_let

text \<open>What a request gets to know from the rows that it reads.\<close>

lemma safe_read_browser:
  assumes "\<And>e. safe A B M (k (Inl e))" "\<And>b. b_AccountID b \<notin> A \<Longrightarrow> safe A B M (k (Inr b))"
    "\<And>b. b_ID b = bid \<Longrightarrow> b_AccountID b \<in> A \<Longrightarrow> safe A (insert bid B) M (k (Inr b))"
  shows "safe A B M (call (in_db (GetBrowserVM bid)) k)"
proof (rule safe_call)
  fix w assume w: "world_ok w" "knows A B M (w_db w)"
  let ?v = "final_state (in_db (GetBrowserVM bid)) w" and ?r = "outcome (in_db (GetBrowserVM bid)) w"
  note kept = own_call_kept [OF own_reads(2) w]
  moreover have "guards (tenants.kept UNIV) (tenants.kept A) (k ?r) ?v"
  proof (cases "\<exists>b. ?r = Inr b \<and> b_AccountID b \<in> A")
    case True
    then obtain b where b: "?r = Inr b" "b_AccountID b \<in> A" by blast
    then have "b \<in> set (browser_vms (w_db ?v))" "b_ID b = bid"
      by (auto simp: GetBrowserVM_def query_def db_call_def find_browser_vm_def find_Some_iff
          split: list.split_asm bool.split_asm option.split_asm)
    moreover have "keyed (db_uuids (w_db ?v)) b_ID (browser_vms (w_db ?v))"
      using kept by (simp add: within_def tenant_ok_def db_ok_def schema_ok_def)
    ultimately have "knows A (insert bid B) M (w_db ?v)"
      using knows_kept [OF w(2) kept] row_belongs [of _ b_ID _ b b_AccountID A] b(2) by (auto simp: knows_def)
    then show ?thesis using assms(3) \<open>b_ID b = bid\<close> b by (simp add: safe_def)
  next
    case False
    then have "safe A B M (k ?r)" using assms(1,2) by (cases ?r) auto
    then show ?thesis using knows_kept [OF w(2) kept] by (simp add: safe_def)
  qed
  ultimately show "tenants.kept A w ?v \<and> guards (tenants.kept UNIV) (tenants.kept A) (k ?r) ?v" by blast
qed

lemma machine_belongs:
  assumes "world_ok w" "m \<in> set (machines (w_db w))" "m_AccountID m \<in> A"
  shows "belongs m_ID m_AccountID (db_uuids (w_db w)) (machines (w_db w)) A (m_ID m)"
  using assms by (intro row_belongs) (auto simp: tenant_ok_def db_ok_def schema_ok_def machines_ok_def)

lemma safe_read_machine:
  assumes "\<And>e. safe A B M (k (Inl e))" "\<And>m. m_AccountID m \<notin> A \<Longrightarrow> safe A B M (k (Inr m))"
    "\<And>m. m_ID m = mid \<Longrightarrow> m_AccountID m \<in> A \<Longrightarrow> safe A B (insert mid M) (k (Inr m))"
  shows "safe A B M (call (in_db (GetMachine mid)) k)"
proof (rule safe_call)
  fix w assume w: "world_ok w" "knows A B M (w_db w)"
  let ?v = "final_state (in_db (GetMachine mid)) w" and ?r = "outcome (in_db (GetMachine mid)) w"
  note kept = own_call_kept [OF own_reads(3) w]
  moreover have "guards (tenants.kept UNIV) (tenants.kept A) (k ?r) ?v"
  proof (cases "\<exists>m. ?r = Inr m \<and> m_AccountID m \<in> A")
    case True
    then obtain m where m: "?r = Inr m" "m_AccountID m \<in> A" by blast
    then have "m \<in> set (machines (w_db ?v))" "m_ID m = mid"
      by (auto simp: GetMachine_def query_def db_call_def find_machine_def find_Some_iff
          split: list.split_asm bool.split_asm option.split_asm)
    then have "knows A B (insert mid M) (w_db ?v)"
      using knows_kept [OF w(2) kept] kept machine_belongs [of ?v m A] m(2) by (auto simp: knows_def within_def)
    then show ?thesis using assms(3) \<open>m_ID m = mid\<close> m by (simp add: safe_def)
  next
    case False
    then have "safe A B M (k ?r)" using assms(1,2) by (cases ?r) auto
    then show ?thesis using knows_kept [OF w(2) kept] by (simp add: safe_def)
  qed
  ultimately show "tenants.kept A w ?v \<and> guards (tenants.kept UNIV) (tenants.kept A) (k ?r) ?v" by blast
qed

text \<open>The machine that is paired with a browser VM of the account is of the account.\<close>

lemma safe_read_paired:
  assumes "\<And>e. safe A B M (k (Inl e))" "bid \<in> B" "\<And>m. safe A B (insert (m_ID m) M) (k (Inr m))"
  shows "safe A B M (call (in_db (GetMachineByBrowserVMID bid)) k)"
proof (rule safe_call)
  fix w assume w: "world_ok w" "knows A B M (w_db w)"
  let ?v = "final_state (in_db (GetMachineByBrowserVMID bid)) w" and ?r = "outcome (in_db (GetMachineByBrowserVMID bid)) w"
  note kept = own_call_kept [OF own_reads(4) w]
  note v = knows_kept [OF w(2) kept]
  have "guards (tenants.kept UNIV) (tenants.kept A) (k ?r) ?v"
  proof (cases ?r)
    case (Inl e)
    then show ?thesis using assms(1) v by (simp add: safe_def)
  next
    case (Inr m)
    then have m: "m \<in> set (machines (w_db ?v))" "m_BrowserVMID m = Some bid"
      by (auto simp: GetMachineByBrowserVMID_def query_def db_call_def matching_def one_row_def
          split: list.split_asm bool.split_asm) (auto simp: filter_eq_Cons_iff)
    then have "m_AccountID m \<in> A"
      using kept own_browser_rows [OF v assms(2)] unfolding within_def tenant_ok_def pairs_ok_def by metis
    then have "knows A B (insert (m_ID m) M) (w_db ?v)"
      using v kept machine_belongs [of ?v m A] m(1) by (auto simp: knows_def within_def)
    then show ?thesis using assms(3) Inr by (simp add: safe_def)
  qed
  then show "tenants.kept A w ?v \<and> guards (tenants.kept UNIV) (tenants.kept A) (k ?r) ?v" using kept by blast
qed

section \<open>Handlers\<close>

lemma safe_own_browser:
  assumes "\<And>b. b_ID b = bid \<Longrightarrow> b_AccountID b = acct \<Longrightarrow> safe {acct} (insert bid B) M (k b)"
  shows "safe {acct} B M (with_own_browser acct bid k)"
  unfolding with_own_browser_def
  by (rule safe_read_browser) (simp_all add: safe_end assms)

lemma safe_own_machine:
  assumes "\<And>m. m_ID m = mid \<Longrightarrow> m_AccountID m = acct \<Longrightarrow> safe {acct} B (insert mid M) (k m)"
  shows "safe {acct} B M (with_own_machine acct mid k)"
  unfolding with_own_machine_def
  by (rule safe_read_machine) (simp_all add: safe_end assms)

lemma safe_failed: "bid \<in> B \<Longrightarrow> safe A B M p \<Longrightarrow> safe A B M (browser_failed bid msg p)"
  unfolding browser_failed_def by (intro safe_db own_calls)

lemma safe_reply: "safe A B M (reply_browser bid)"
  unfolding reply_browser_def by (intro safe_db own_calls safe_end)

lemma safe_cleanup: "m_ID m \<in> M \<Longrightarrow> safe A B M p \<Longrightarrow> safe A B M (cleanupBrowserPairing bs m b p)"
  unfolding cleanupBrowserPairing_def Let_def by (intro safe_rules safe_db own_calls | assumption)+

lemma safe_unpair_first: "bid \<in> B \<Longrightarrow> (\<And>M. safe A B M p) \<Longrightarrow> safe A B M (unpair_first bs b bid p)"
  unfolding unpair_first_def by (rule safe_read_paired) (auto intro: safe_cleanup)

lemma safe_reads:
  "safe {acct} B M (handleListBrowserVMs acct)" "safe {acct} B M (handleGetBrowserVM acct bid)"
  unfolding handleListBrowserVMs_def handleGetBrowserVM_def
  by (intro safe_own_browser safe_db own_calls safe_end)+

lemma safe_create: "safe {acct} B M (handleCreateBrowserVM bs slugs acct body)"
proof -
  have attempts: "safe {acct} B M (create_attempts slugs b n)" if "b_AccountID b = acct" "0 \<le> b_VCPUs b" "0 \<le> b_MemoryMB b" for b n
    by (induction n)
       (use that in \<open>auto split: sum.split nat.split intro!: safe_db own_create safe_rules\<close>)
  show ?thesis
    unfolding handleCreateBrowserVM_def
    by (intro safe_rules attempts) (simp_all add: new_browser_def)
qed

lemma safe_delete: "safe {acct} B M (handleDeleteBrowserVM bs acct bid)"
  unfolding handleDeleteBrowserVM_def Let_def
  by (intro safe_own_browser safe_unpair_first safe_rules safe_db safe_failed own_calls insertI1)

lemma safe_stop: "safe {acct} B M (handleStopBrowserVM bs acct bid)"
  unfolding handleStopBrowserVM_def stopped_browser_def
  by (intro safe_own_browser safe_unpair_first safe_rules safe_db safe_failed safe_reply own_calls insertI1)

lemma safe_wait: "(\<And>r. safe A B M (k r)) \<Longrightarrow> safe A B M (waitForBrowserVMReady c h bid n k)"
  by (induction n) (auto intro!: safe_net)

lemma safe_start_browser: "bid \<in> B \<Longrightarrow> safe A B M (start_browser bs draws n b bid hid region)"
  unfolding start_browser_def boot_browser_def browser_up_def
  by (intro safe_rules safe_db safe_failed safe_reply safe_wait own_calls | assumption)+

lemma safe_start: "safe {acct} B M (handleStartBrowserVM bs superuser draws n acct bid body)"
  unfolding handleStartBrowserVM_def may_pin_def Let_def
  by (intro safe_own_browser safe_rules safe_db safe_start_browser own_calls insertI1)

lemma safe_set_target: "mid \<in> M \<Longrightarrow> safe A B M (set_target bs m b mid bid)"
  unfolding set_target_def pair_failed_def Let_def by (intro safe_rules safe_db own_calls | assumption)+

lemma safe_pair_now: "mid \<in> M \<Longrightarrow> bid \<in> B \<Longrightarrow> safe {acct} B M (pair_now bs m b mid bid)"
  unfolding pair_now_def pair_failed_def by (intro safe_rules safe_set_target safe_db own_calls own_pair | assumption)+

lemma safe_replace_pair:
  "m_ID m \<in> M \<Longrightarrow> mid \<in> M \<Longrightarrow> bid \<in> B \<Longrightarrow> safe {acct} B M (replace_pair bs m b mid bid)"
  unfolding replace_pair_def by (intro safe_rules safe_cleanup safe_pair_now safe_db own_calls | assumption)+

lemma safe_pair: "safe {acct} B M (handlePairBrowser bs acct mid body)"
  unfolding handlePairBrowser_def
  by (intro safe_rules safe_own_machine safe_own_browser safe_replace_pair safe_db own_calls; simp)

lemma safe_unpair: "safe {acct} B M (handleUnpairBrowser bs acct mid)"
  unfolding handleUnpairBrowser_def unpair_now_def
  by (intro safe_rules safe_own_machine safe_db own_calls insertI1)

lemma safe_reconcile:
  assumes "\<And>r. safe UNIV {} {} (k r)"
  shows "safe UNIV B M (reconcileBrowserVM c bid k)"
  unfolding reconcileBrowserVM_def
proof (rule safe_read_browser, goal_cases)
  case (3 b)
  then show ?case
    unfolding reconcile_absent_def reconcile_ready_def Let_def
    by (simp, intro safe_rules safe_db safe_failed own_calls safe_weaken [OF assms] insertI1)
qed (auto intro: safe_weaken [OF assms])

lemma safe_reconcile_each: "safe UNIV B M (reconcile_each c bs n)"
proof (induction bs arbitrary: n B M)
  case (Cons b bs)
  then show ?case by (auto split: browser_reply.split intro!: safe_reconcile)
qed (simp add: safe_end)

lemma safe_reconcilers:
  "safe UNIV B M (handleReconcileBrowserVM bs bid)" "safe UNIV B M handleListBrowserVMReconcileCandidates"
  "safe UNIV B M (reconcileBrowserVMCandidatesOnce bs)"
  unfolding handleReconcileBrowserVM_def handleListBrowserVMReconcileCandidates_def reconcileBrowserVMCandidatesOnce_def
  by (intro safe_rules safe_reconcile safe_reconcile_each safe_db own_calls)+

section \<open>Accounts are kept apart\<close>

inductive_set browser_requests :: "int set \<Rightarrow> browser_prog set" for A where
  list_browsers: "acct \<in> A \<Longrightarrow> handleListBrowserVMs acct \<in> browser_requests A"
| get_browser: "acct \<in> A \<Longrightarrow> handleGetBrowserVM acct bid \<in> browser_requests A"
| create_browser: "acct \<in> A \<Longrightarrow> handleCreateBrowserVM bs slugs acct body \<in> browser_requests A"
| delete_browser: "acct \<in> A \<Longrightarrow> handleDeleteBrowserVM bs acct bid \<in> browser_requests A"
| start_browser: "acct \<in> A \<Longrightarrow> handleStartBrowserVM bs superuser draws n acct bid body \<in> browser_requests A"
| stop_browser: "acct \<in> A \<Longrightarrow> handleStopBrowserVM bs acct bid \<in> browser_requests A"
| pair_browser: "acct \<in> A \<Longrightarrow> handlePairBrowser bs acct mid json \<in> browser_requests A"
| unpair_browser: "acct \<in> A \<Longrightarrow> handleUnpairBrowser bs acct mid \<in> browser_requests A"

definition browser_programs :: "browser_prog set" where
  "browser_programs = browser_requests UNIV \<union> {handleListBrowserVMReconcileCandidates} \<union>
     range (\<lambda>(bs, bid). handleReconcileBrowserVM bs bid) \<union> range reconcileBrowserVMCandidatesOnce"

lemma safe_start_any: "safe A {} {} p \<Longrightarrow> A \<subseteq> A' \<Longrightarrow> guards (tenants.kept A') (tenants.kept A') p w"
  unfolding safe_def knows_def by (elim allE impE) (simp, rule guards_mono, assumption, (erule kept_mono; simp)+)

lemma safe_requests: "p \<in> browser_requests A \<Longrightarrow> \<exists>acct \<in> A. safe {acct} {} {} p"
  by (erule browser_requests.cases)
    (blast intro: safe_reads safe_create safe_delete safe_start safe_stop safe_pair safe_unpair)+

interpretation isolated: rely_guarantee "rel A" world_ok "browser_requests A" for A
proof
  fix p :: browser_prog and w assume "p \<in> browser_requests A"
  then obtain acct where "acct \<in> A" "safe {acct} {} {} p" using safe_requests by blast
  then show "guards (tenants.kept A) (tenants.kept A) p w" using safe_start_any [of "{acct}" p A w] by simp
qed

interpretation paired: rely_guarantee "rel UNIV" world_ok browser_programs
proof
  fix p :: browser_prog and w assume "p \<in> browser_programs"
  then consider "p \<in> browser_requests UNIV" | "safe UNIV {} {} p"
    using safe_reconcilers [where B = "{}" and M = "{}"] by (auto simp: browser_programs_def)
  then show "guards (tenants.kept UNIV) (tenants.kept UNIV) p w"
    by cases (auto intro: isolated.requests_guard safe_start_any)
qed

text \<open>
  C27: accounts are kept apart. However the browser VM requests of some accounts interleave,
  whatever identifiers they name and whichever calls fail: the browser VMs, the machines and the browser
  placements of all other accounts stay as they are, row by row, and so does every other table but the hosts.
\<close>
theorem browser_requests_isolated:
  assumes "tenant_ok (w_db w)" "pool_run (browser_requests A) (w, []) (v, ps)"
  shows "tenant_ok (w_db v) \<and> others_same A (w_db w) (w_db v)"
  using isolated.run_keeps [OF assms(2,1)] by (simp add: within_def rel_def)

text \<open>
  C28: pairs stay in the account. However the requests of all accounts and the reconciler interleave, a
  machine is never paired with a browser VM that does not exist or is of another account, and no host is
  overcommitted.
\<close>
theorem pairs_stay_in_account:
  assumes "tenant_ok (w_db w)" "pool_run browser_programs (w, []) (v, ps)"
  shows "(\<forall>m \<in> set (machines (w_db v)). \<forall>bid. m_BrowserVMID m = Some bid \<longrightarrow>
      (\<exists>b \<in> set (browser_vms (w_db v)). b_ID b = bid \<and> b_AccountID b = m_AccountID m)) \<and>
    (\<forall>h \<in> set (hosts (w_db v)). not_overcommitted h)"
  using paired.run_keeps [OF assms(2,1)]
  by (simp add: within_def tenant_ok_def pairs_ok_def db_ok_def capacity_ok_def)

section \<open>Resources are freed after the VM\<close>

text \<open>
  What is held for a browser VM: the capacity of the hosts, the placements, and the host in its row. Since
  the request began, with \<open>n\<close> entries in the log, the agent has confirmed that the VM is gone.
\<close>

definition held :: "string \<Rightarrow> db \<Rightarrow> host list \<times> browser_placement list \<times> int option option" where
  "held bid s = (hosts s, browser_vm_placements s, map_option b_HostID (find_browser_vm bid s))"

definition confirms :: "string \<Rightarrow> http_request \<times> http_reply \<Rightarrow> bool" where
  "confirms bid = (\<lambda>(rq, r). rq_Method rq = ''DELETE'' \<and> (\<exists>base. rq_URL rq = base @ ''/browser-vms/'' @ bid) \<and>
     (case r of Reply st txt j \<Rightarrow> st \<in> {200, 404} | _ \<Rightarrow> False))"

definition destroyed :: "string \<Rightarrow> nat \<Rightarrow> world \<Rightarrow> bool" where
  "destroyed bid n w \<longleftrightarrow> (\<exists>x \<in> set (drop n (net_log (w_net w))). confirms bid x)"

definition on_agent :: "string \<Rightarrow> world \<Rightarrow> bool" where
  "on_agent bid w \<longleftrightarrow> (\<forall>b. find_browser_vm bid (w_db w) = Some b \<longrightarrow> browserVMMayExistOnAgent b)"

abbreviation on_agent_still :: "string \<Rightarrow> world \<Rightarrow> world \<Rightarrow> bool" where
  "on_agent_still bid w v \<equiv> log_grows (w_net w) (w_net v) \<and> on_agent bid v"

abbreviation frees_destroyed :: "string \<Rightarrow> nat \<Rightarrow> world \<Rightarrow> world \<Rightarrow> bool" where
  "frees_destroyed bid n w v \<equiv> held bid (w_db v) = held bid (w_db w) \<or> destroyed bid n w"

definition careful :: "string \<Rightarrow> nat \<Rightarrow> bool \<Rightarrow> browser_prog \<Rightarrow> bool" where
  "careful bid n d p \<longleftrightarrow> (\<forall>w. n \<le> length (net_log (w_net w)) \<longrightarrow> (d \<longrightarrow> destroyed bid n w) \<longrightarrow>
     guards (on_agent_still bid) (frees_destroyed bid n) p w)"

lemma log_grows_destroyed:
  "log_grows (w_net w) (w_net v) \<Longrightarrow> n \<le> length (net_log (w_net w)) \<Longrightarrow>
   n \<le> length (net_log (w_net v)) \<and> (destroyed bid n w \<longrightarrow> destroyed bid n v)"
  by (auto simp: log_grows_def destroyed_def)

lemma careful_finished: "careful bid n d (Finished r)"
  by (simp add: careful_def)

lemma careful_call:
  assumes "\<And>w. n \<le> length (net_log (w_net w)) \<Longrightarrow> (d \<longrightarrow> destroyed bid n w) \<Longrightarrow> on_agent bid w \<Longrightarrow>
      frees_destroyed bid n w (final_state m w) \<and>
      guards (on_agent_still bid) (frees_destroyed bid n) (k (outcome m w)) (final_state m w)"
  shows "careful bid n d (call m k)"
  unfolding careful_def
proof (intro allI impI guards_callI)
  fix w v assume "n \<le> length (net_log (w_net w))" "d \<longrightarrow> destroyed bid n w" "on_agent_still bid w v"
  then have "n \<le> length (net_log (w_net v))" "d \<longrightarrow> destroyed bid n v" "on_agent bid v"
    using log_grows_destroyed by blast+
  from assms [OF this]
  show "frees_destroyed bid n v (final_state m v)"
    "guards (on_agent_still bid) (frees_destroyed bid n) (k (outcome m v)) (final_state m v)" by blast+
qed

lemma careful_db:
  assumes "\<not> d \<Longrightarrow> state_io_rel (same (held bid)) m" "\<And>a. careful bid n d (k a)"
  shows "careful bid n d (call (in_db m) k)"
  using assms by (intro careful_call) (cases d; simp add: careful_def destroyed_def state_io_rel_def same_def)

lemma careful_net:
  assumes "state_io_rel log_grows m" "\<And>a. careful bid n d (k a)"
  shows "careful bid n d (call (in_net m) k)"
proof (rule careful_call)
  fix w :: world assume w: "n \<le> length (net_log (w_net w))" "d \<longrightarrow> destroyed bid n w"
  have "log_grows (w_net w) (w_net (final_state (in_net m) w))" using assms(1) by (simp add: state_io_rel_def)
  from log_grows_destroyed [OF this w(1)] w(2) assms(2)
  show "frees_destroyed bid n w (final_state (in_net m) w) \<and>
      guards (on_agent_still bid) (frees_destroyed bid n) (k (outcome (in_net m) w)) (final_state (in_net m) w)"
    by (simp add: careful_def)
qed

lemma agent_log:
  "state_io_rel log_grows (doRequest c h mt path body)"
  "state_io_rel log_grows (agent_exec c h mt path body doing what oks)"
  unfolding agent_exec_def doRequest_def by (auto intro!: log_preorder.io_rules http_do_log)

lemma destroy_confirmed:
  assumes "outcome (DestroyBrowserVM c h bid) (w_net w) = Inr u" "n \<le> length (net_log (w_net w))"
  shows "destroyed bid n (final_state (in_net (DestroyBrowserVM c h bid)) w)"
  using assms
  by (auto simp: DestroyBrowserVM_def agent_exec_def doRequest_def http_do_def destroyed_def confirms_def Let_def
      split: sum.split_asm if_split_asm list.split_asm http_reply.split_asm)

lemma careful_destroy:
  assumes "\<And>e. careful bid n d (k (Inl e))" "careful bid n True (k (Inr ()))"
  shows "careful bid n d (call (in_net (DestroyBrowserVM c h bid)) k)"
proof (rule careful_call)
  fix w :: world assume w: "n \<le> length (net_log (w_net w))" "d \<longrightarrow> destroyed bid n w"
  have "log_grows (w_net w) (w_net (final_state (in_net (DestroyBrowserVM c h bid)) w))"
    using agent_log(2) unfolding DestroyBrowserVM_def by (simp add: state_io_rel_def)
  from log_grows_destroyed [OF this w(1)] w assms destroy_confirmed [of c h bid w _ n]
  show "frees_destroyed bid n w (final_state (in_net (DestroyBrowserVM c h bid)) w) \<and>
      guards (on_agent_still bid) (frees_destroyed bid n) (k (outcome (in_net (DestroyBrowserVM c h bid)) w))
        (final_state (in_net (DestroyBrowserVM c h bid)) w)"
    by (cases "outcome (DestroyBrowserVM c h bid) (w_net w)") (auto simp: careful_def)
qed

interpretation held: db_preorder "same (held bid)" for bid
  by unfold_locales (rule fault_blind_same, simp add: held_def find_browser_vm_def)

lemma held_calls:
  "state_io_rel (same (held bid)) (GetHost hid)" "state_io_rel (same (held bid)) (GetMachineByBrowserVMID k)"
  "state_io_rel (same (held bid)) (GetBrowserVM k)"
  "state_io_rel (same (held bid)) (UnpairBrowserVM mid)" "state_io_rel (same (held bid)) (UpdateBrowserVMStatus k st msg)"
proof -
  have "find_browser_vm bid (on_browser_vm k (\<lambda>b. b\<lparr>b_Status := st, b_ErrorMessage := msg\<rparr>) s) =
      map_option (\<lambda>b. if b_ID b = k then b\<lparr>b_Status := st, b_ErrorMessage := msg, b_UpdatedAt := db_now s\<rparr> else b) (find_browser_vm bid s)" for s
    by (simp add: find_browser_vm_def on_browser_vm_def find_update_where)
  then have "map_option b_HostID (find_browser_vm bid (on_browser_vm k (\<lambda>b. b\<lparr>b_Status := st, b_ErrorMessage := msg\<rparr>) s)) =
      map_option b_HostID (find_browser_vm bid s)" for s
    by (cases "find_browser_vm bid s") simp_all
  then show "state_io_rel (same (held bid)) (UpdateBrowserVMStatus k st msg)"
    unfolding UpdateBrowserVMStatus_def
    by (intro held.io_tx) (auto simp: same_def held_def on_browser_vm_def split: if_split_asm)
qed (unfold GetHost_def GetMachineByBrowserVMID_def GetBrowserVM_def UnpairBrowserVM_def,
  (intro held.io_db; simp add: same_def held_def on_machine_def find_browser_vm_def)+)

lemma careful_read:
  assumes "\<And>e. careful bid n d (k (Inl e))" "\<And>b. browserVMMayExistOnAgent b \<Longrightarrow> careful bid n d (k (Inr b))"
  shows "careful bid n d (call (in_db (GetBrowserVM bid)) k)"
proof (rule careful_call)
  fix w :: world assume w: "n \<le> length (net_log (w_net w))" "d \<longrightarrow> destroyed bid n w" "on_agent bid w"
  let ?r = "outcome (GetBrowserVM bid) (w_db w)"
  have "careful bid n d (k ?r)"
    using assms w(3)
    by (cases ?r) (auto simp: GetBrowserVM_def query_def db_call_def on_agent_def find_browser_vm_def
        split: list.split_asm bool.split_asm option.split_asm)
  then show "frees_destroyed bid n w (final_state (in_db (GetBrowserVM bid)) w) \<and>
      guards (on_agent_still bid) (frees_destroyed bid n) (k (outcome (in_db (GetBrowserVM bid)) w)) (final_state (in_db (GetBrowserVM bid)) w)"
    using w held_calls(3) [of bid bid] by (simp add: careful_def destroyed_def state_io_rel_def same_def)
qed

lemma careful_cleanup: "careful bid n d p \<Longrightarrow> careful bid n d (cleanupBrowserPairing bs m b p)"
proof -
  assume p: "careful bid n d p"
  have agent: "state_io_rel log_grows (ResetCDPTarget c h mid)" "state_io_rel log_grows (UnpairBrowserVM_agent c h k ip)" for c h mid k ip
    unfolding ResetCDPTarget_def UnpairBrowserVM_agent_def by (rule agent_log)+
  have unpair: "careful bid n d (quietly (UnpairBrowserVM mid) p)" for mid
    using p held_calls by (intro careful_db)
  show ?thesis
    unfolding cleanupBrowserPairing_def Let_def
    using unpair p by (auto split: option.split sum.split intro!: careful_db careful_net agent held_calls)
qed

lemma careful_unpair_first: "careful bid n d p \<Longrightarrow> careful bid n d (unpair_first bs b bid p)"
  unfolding unpair_first_def by (intro careful_db held_calls) (auto split: sum.split intro: careful_cleanup)

lemma careful_failed: "careful bid n d p \<Longrightarrow> careful bid n d (browser_failed bid msg p)"
  unfolding browser_failed_def by (intro careful_db held_calls)

lemma careful_freed:
  "careful bid n True (stopped_browser bid)"
  "careful bid n True (quietly (ReleaseBrowserVMPlacement bid) (quietly (UnassignBrowserVMFromHost bid)
     (call (in_db (DeleteBrowserVM bid)) (\<lambda>d. Finished (r d)))))"
  unfolding stopped_browser_def reply_browser_def by (intro careful_db careful_finished; simp)+

lemma careful_stop:
  assumes "bs_agentClient bs = Some c"
  shows "careful bid n False (handleStopBrowserVM bs acct bid)"
  unfolding handleStopBrowserVM_def with_own_browser_def
proof (rule careful_read, goal_cases)
  case (2 b)
  then obtain hid where "b_HostID b = Some hid" by (auto simp: browserVMMayExistOnAgent_def)
  then show ?case
    using assms
    by (auto split: sum.split intro!: careful_finished careful_unpair_first careful_db careful_failed careful_destroy
        careful_freed held_calls)
qed (simp add: careful_finished)

lemma careful_delete:
  assumes "bs_agentClient bs = Some c"
  shows "careful bid n False (handleDeleteBrowserVM bs acct bid)"
  unfolding handleDeleteBrowserVM_def with_own_browser_def
proof (rule careful_read, goal_cases)
  case (2 b)
  then show ?case
    using assms
    by (auto simp: Let_def split: sum.split intro!: careful_finished careful_unpair_first careful_db careful_failed
        careful_destroy careful_freed held_calls)
qed (simp add: careful_finished)

text \<open>
  C29: a browser VM is destroyed before its resources are freed. As long as the row of the VM names a host and
  says that a VM may exist there, and whatever else others do in between: each step of a request to stop or to
  delete the browser VM leaves the capacity of all hosts, the placements and the host in the row as they are, or
  comes after the agent has confirmed, since the request began, that the VM is gone.
\<close>
theorem browser_destroyed_before_freed:
  assumes "bs_agentClient bs = Some c"
    and "p \<in> {handleStopBrowserVM bs acct bid, handleDeleteBrowserVM bs acct bid}"
  shows "guards (on_agent_still bid) (frees_destroyed bid (length (net_log (w_net w)))) p w"
  using careful_stop [OF assms(1)] careful_delete [OF assms(1)] assms(2) by (auto simp: careful_def)

section \<open>A sample: two accounts, a machine and two browser VMs\<close>

definition sample_browser :: "nat \<Rightarrow> int \<Rightarrow> browser_vm" where
  "sample_browser i acct = \<lparr>b_ID = uuid_of i, b_AccountID = acct, b_Slug = ''b'', b_Name = ''Browser VM'', b_HostID = Some 1,
     b_VMIP = Some (vm_ip i), b_Status = ''running'', b_VCPUs = 2, b_MemoryMB = 4096, b_CDPPort = 9222,
     b_DesiredRootfsManifest = None, b_DesiredRootfsVersion = None, b_RootfsVersion = None, b_ErrorMessage = None,
     b_CreatedAt = 0, b_UpdatedAt = 0, b_PairedMachine = None\<rparr>"

definition sample_slot :: "nat \<Rightarrow> browser_placement" where
  "sample_slot i = \<lparr>bp_BrowserVMID = uuid_of i, bp_HostID = 1, bp_VMIP = Some (vm_ip i), bp_State = ''active'',
     bp_ActivatedAt = Some 0, bp_ReleasedAt = None\<rparr>"

definition browser_db :: db where
  "browser_db = placed_db\<lparr>browser_vms := [sample_browser 1 7, sample_browser 2 8],
     browser_vm_placements := [sample_slot 1, sample_slot 2],
     hosts := [placed_host\<lparr>h_UsedVCPUs := 6, h_UsedMemoryMB := 12288\<rparr>], db_uuids := 3\<rparr>"

definition browser_world :: "http_reply list \<Rightarrow> world" where
  "browser_world tape = \<lparr>w_db = browser_db, w_net = \<lparr>net_tape = tape, net_log = []\<rparr>\<rparr>"

definition plain_server :: browser_server where
  "plain_server = \<lparr>bs_agentClient = None, bs_placement = sample_config, bs_browserRootfsGCSManifest = '''', bs_browserRootfsVersion = ''''\<rparr>"

definition agent_server :: browser_server where
  "agent_server = plain_server\<lparr>bs_agentClient := Some \<lparr>ac_agentToken = ''t''\<rparr>\<rparr>"

lemma vm_ip_sample: "vm_ip (Suc 0) \<noteq> vm_ip 2"
  by code_simp

lemma browser_db_ok: "tenant_ok browser_db"
  by (simp add: tenant_ok_def pairs_ok_def db_ok_def schema_ok_def capacity_ok_def sized_rows_def machines_ok_def operations_ok_def
      placements_ok_def keyed_def browser_placements_ok_def unique_among_def hosts_ok_def not_overcommitted_def sample_defs placed_defs
      browser_db_def sample_browser_def sample_slot_def vm_ip_sample)

text \<open>How such programs run; what is not yet called is not evaluated.\<close>

lemma call_later: "call m k = call m k"
  by (rule refl)

lemma advance_first: "advance_at 0 (s, call m k # ps) = (final_state m s, k (outcome m s) # ps)"
  and advance_second: "advance_at (Suc 0) (s, p # call m k # ps) = (final_state m s, p # k (outcome m s) # ps)"
  by (simp_all add: call_def)

lemma sample_addresses:
  "uuid_of 0 = ''uuid-0''" "uuid_of (Suc 0) = ''uuid-1''" "uuid_of 2 = ''uuid-2''" "vm_ip (Suc 0) = ''192.168.100.1''"
  "vm_ip 2 = ''192.168.100.2''" "vm_ip 3 = ''192.168.100.3''" "vm_ip 10 = ''192.168.100.10''"
  by code_simp+

lemma sample_body: "body_string ''browser_vm_id'' (Some (JObj [(''browser_vm_id'', JStr ''uuid-1'')])) = Some ''uuid-1''"
  by code_simp

lemma third_address_free:
  "''192.168.100.2'' \<in> set used \<Longrightarrow> ''192.168.100.3'' \<notin> set used \<Longrightarrow> first_free_ip 2 254 used = Some ''192.168.100.3''"
  by (simp add: first_free_ip_def upt_rec sample_addresses)

lemmas browser_samples = browser_db_def sample_browser_def sample_slot_def placed_defs sample_defs agent_server_def plain_server_def
  sample_config_def sample_addresses browser_world_def

lemmas browser_statements = GetBrowserVM_def GetHost_def GetMachine_def GetMachineByBrowserVMID_def query_def db_call_def tx_def exec_def
  find_browser_vm_def find_host_def find_machine_def with_machine_count_def UpdateBrowserVMStatus_def on_browser_vm_def
  AssignBrowserVMToHost_def UnassignBrowserVMFromHost_def ReleaseBrowserVMPlacement_def release_browser_placement_def
  ActivateBrowserVMPlacement_def DeleteBrowserVM_def PairBrowserVM_def on_machine_def on_host_def charge_def credit_exact_def
  matching_def one_row_def

lemmas browser_reserve = ReserveBrowserVM_def browser_placement_request_def ListEligibleHosts_def PlaceBrowserVMOnHost_def
  place_browser_vm_def browserVMRequiresReflink_def strPtrValue_def validateBrowserVMTargetHostEligibility_def has_room_def
  eligible_host_def fresh_heartbeat_def has_disk_def region_for_def rank_def sort_by_def shuffle_def used_ips_def machine_ips_def
  map_filter_def third_address_free

lemmas browser_handlers = with_own_browser_def with_own_machine_def handleStartBrowserVM_def handleStopBrowserVM_def handlePairBrowser_def
  handleDeleteBrowserVM_def browserVMUsesDisabledLegacyRootfs_def StableBrowserRootfsManifestURI_def decode_start_browser_def
  may_pin_def start_browser_def boot_browser_def browser_up_def browser_failed_def unpair_first_def stopped_browser_def
  reply_browser_def replace_pair_def pair_now_def set_target_def browserVMMayExistOnAgent_def Let_def

lemmas browser_eval = browser_samples browser_statements browser_reserve browser_handlers advance_first advance_second

definition pair_request :: browser_prog where
  "pair_request = handlePairBrowser plain_server 7 (uuid_of 0) (Some (JObj [(''browser_vm_id'', JStr (uuid_of 1))]))"

definition paired_world :: world where
  "paired_world = snd (run_alone pair_request (browser_world []))"

lemma pair_run:
  "run_alone pair_request (browser_world []) = (BrPaired (uuid_of 0) (uuid_of 1), paired_world)"
  "map (\<lambda>m. (m_ID m, m_BrowserVMID m)) (machines (w_db paired_world)) = [(uuid_of 0, Some (uuid_of 1))]"
proof -
  have "(\<lambda>(r, w). (r, map (\<lambda>m. (m_ID m, m_BrowserVMID m)) (machines (w_db w)))) (run_alone pair_request (browser_world [])) =
      (BrPaired (uuid_of 0) (uuid_of 1), [(uuid_of 0, Some (uuid_of 1))])"
    by (simp add: pair_request_def browser_eval sample_body cong: call_later)
  then show "run_alone pair_request (browser_world []) = (BrPaired (uuid_of 0) (uuid_of 1), paired_world)"
    "map (\<lambda>m. (m_ID m, m_BrowserVMID m)) (machines (w_db paired_world)) = [(uuid_of 0, Some (uuid_of 1))]"
    by (simp_all add: paired_world_def split_beta prod_eq_iff)
qed

definition stop_request :: browser_prog where
  "stop_request = handleStopBrowserVM agent_server 7 (uuid_of 1)"

lemmas agent_eval = DestroyBrowserVM_def agent_exec_def doRequest_def http_do_def agentURL_def url_ok_def tokenForHost_def deref_or_def

lemma stop_run:
  "map bp_State (browser_vm_placements (w_db (snd (run_alone stop_request (browser_world [Reply 200 [] None]))))) = [''released'', ''active'']"
  by (simp add: stop_request_def browser_eval agent_eval cong: call_later)

theorem browser_requests_isolated_witness:
  "\<exists>ps. pool_run (browser_requests {7}) (browser_world [], []) (paired_world, ps) \<and>
     m_BrowserVMID (hd (machines (w_db paired_world))) = Some (uuid_of 1) \<and>
     foreign_browsers {7} (w_db paired_world) = [sample_browser 2 8]"
proof -
  have "pool_run (browser_requests {7}) (browser_world [], []) (paired_world, [] @ [Finished (BrPaired (uuid_of 0) (uuid_of 1))])"
    using pair_run(1) by (intro pool_run_request) (auto simp: pair_request_def intro: browser_requests.intros)
  moreover from browser_requests_isolated [OF _ this]
  have "foreign_browsers {7} (w_db paired_world) = [sample_browser 2 8]"
    by (simp add: browser_world_def browser_db_ok) (simp add: others_same_def foreign_browsers_def browser_db_def sample_browser_def)
  ultimately show ?thesis using pair_run(2) by (auto simp: map_eq_Cons_conv)
qed

theorem pairs_stay_in_account_witness:
  "\<exists>b \<in> set (browser_vms (w_db paired_world)). b_ID b = uuid_of 1 \<and> b_AccountID b = m_AccountID (hd (machines (w_db paired_world)))"
proof -
  have "pool_run browser_programs (browser_world [], []) (paired_world, [] @ [Finished (BrPaired (uuid_of 0) (uuid_of 1))])"
    using pair_run(1)
    by (intro pool_run_request) (auto simp: browser_programs_def pair_request_def intro: browser_requests.intros)
  from pairs_stay_in_account [OF _ this] pair_run(2) show ?thesis
    by (auto simp: browser_world_def browser_db_ok map_eq_Cons_conv)
qed

theorem browser_destroyed_before_freed_witness:
  "guards (on_agent_still (uuid_of 1)) (frees_destroyed (uuid_of 1) 0) stop_request (browser_world [Reply 200 [] None]) \<and>
   on_agent (uuid_of 1) (browser_world [Reply 200 [] None]) \<and>
   held (uuid_of 1) (w_db (snd (run_alone stop_request (browser_world [Reply 200 [] None])))) \<noteq> held (uuid_of 1) browser_db"
proof (intro conjI)
  show "guards (on_agent_still (uuid_of 1)) (frees_destroyed (uuid_of 1) 0) stop_request (browser_world [Reply 200 [] None])"
    using browser_destroyed_before_freed [of agent_server "\<lparr>ac_agentToken = ''t''\<rparr>" stop_request 7 "uuid_of 1"
        "browser_world [Reply 200 [] None]"]
    by (simp add: stop_request_def agent_server_def plain_server_def browser_world_def)
  show "on_agent (uuid_of 1) (browser_world [Reply 200 [] None])"
    by (simp add: on_agent_def browser_world_def browser_db_def find_browser_vm_def sample_browser_def browserVMMayExistOnAgent_def)
  have "map bp_State (browser_vm_placements browser_db) = [''active'', ''active'']"
    by (simp add: browser_db_def sample_slot_def)
  with stop_run
  show "held (uuid_of 1) (w_db (snd (run_alone stop_request (browser_world [Reply 200 [] None])))) \<noteq> held (uuid_of 1) browser_db"
    by (auto simp: held_def)
qed

section \<open>Requests that overlap, and a release that fails\<close>

text \<open>The first browser VM is stopped; its account starts it and stops it again.\<close>

definition stopped_world :: world where
  "stopped_world = \<lparr>w_db = browser_db\<lparr>
       browser_vms := [sample_browser 1 7\<lparr>b_Status := ''stopped'', b_HostID := None, b_VMIP := None\<rparr>, sample_browser 2 8],
       browser_vm_placements := [sample_slot 2], hosts := [placed_host\<lparr>h_UsedVCPUs := 4, h_UsedMemoryMB := 8192\<rparr>]\<rparr>,
     w_net = quiet_net\<rparr>"

definition start_again :: browser_prog where
  "start_again = handleStartBrowserVM plain_server False [] 0 7 (uuid_of 1) NoBody"

definition stop_again :: browser_prog where
  "stop_again = handleStopBrowserVM plain_server 7 (uuid_of 1)"

definition overlap :: "world \<times> browser_prog list" where
  "overlap = fold advance_at [0, 0, 0, 1, 1, 1, 1, 1, 1, 0, 0, 0, 0] (stopped_world, [start_again, stop_again])"

lemma overlap_run: "pool_run (browser_requests {7}) (stopped_world, []) overlap"
proof -
  have "set [start_again, stop_again] \<subseteq> browser_requests {7}"
    by (auto simp: start_again_def stop_again_def intro: browser_requests.intros)
  then have "pool_run (browser_requests {7}) (stopped_world, []) (stopped_world, [start_again, stop_again])"
    using pool_run_arrive [of "[start_again, stop_again]" "browser_requests {7}" stopped_world "[]"] by simp
  then show ?thesis unfolding overlap_def using pool_run_schedule by (rule rtranclp_trans)
qed

lemma overlap_state:
  "(\<lambda>(w, ps). (map (\<lambda>p. reply_of p = None) ps, map (\<lambda>b. (b_Status b, b_HostID b)) (browser_vms (w_db w)),
       map (\<lambda>p. (bp_BrowserVMID p, bp_State p)) (browser_vm_placements (w_db w)), map h_UsedVCPUs (hosts (w_db w)))) overlap =
     ([False, False], [(''running'', Some 1), (''running'', Some 1)], [(uuid_of 2, ''active''), (uuid_of 1, ''released'')], [4])"
  by (simp add: overlap_def start_again_def stop_again_def stopped_world_def browser_eval cong: call_later del: advance_at.simps)

text \<open>
  A browser VM runs without a placement. A stop that arrives between the reservation and the assignment of a
  start sees no host, asks no agent, and releases the placement; the start goes on and marks the VM as running.
  Its capacity is not charged to the host any more, and its address can be given to another VM.
\<close>
theorem running_without_placement:
  "\<exists>v ps. pool_run (browser_requests {7}) (stopped_world, []) (v, ps) \<and> (\<forall>p \<in> set ps. reply_of p \<noteq> None) \<and>
     map (\<lambda>b. (b_Status b, b_HostID b)) (browser_vms (w_db v)) = [(''running'', Some 1), (''running'', Some 1)] \<and>
     map (\<lambda>p. (bp_BrowserVMID p, bp_State p)) (browser_vm_placements (w_db v)) = [(uuid_of 2, ''active''), (uuid_of 1, ''released'')] \<and>
     map h_UsedVCPUs (hosts (w_db v)) = [4]"
proof -
  obtain v ps where overlap: "overlap = (v, ps)" by force
  note state = overlap_state [unfolded overlap prod.case prod.inject]
  have "list_all (\<lambda>p. reply_of p \<noteq> None) ps" using conjunct1 [OF state] by (auto simp: map_eq_Cons_conv)
  then have "\<forall>p \<in> set ps. reply_of p \<noteq> None" by (simp add: list_all_iff)
  with overlap_run [unfolded overlap] conjunct2 [OF state] show ?thesis
    by (intro exI conjI) (assumption | elim conjE, assumption)+
qed

text \<open>
  A placement that is never released. When the release of a stop fails, the stop goes on, reports success and
  forgets the host; the placement stays. From then on every start is refused for want of capacity, and the
  deletion of the browser VM drops the placement and leaves its capacity charged to the host.
\<close>

definition failed_release :: world where
  "failed_release = snd (run_alone stop_again \<lparr>w_db = browser_db\<lparr>db_faults := [False, False, True]\<rparr>, w_net = quiet_net\<rparr>)"

definition delete_request :: browser_prog where
  "delete_request = handleDeleteBrowserVM plain_server 7 (uuid_of 1)"

lemma failed_release_state:
  "failed_release = \<lparr>w_db = browser_db\<lparr>browser_vms :=
     [sample_browser 1 7\<lparr>b_Status := ''stopped'', b_HostID := None, b_VMIP := None\<rparr>, sample_browser 2 8]\<rparr>, w_net = quiet_net\<rparr>"
  by (simp add: failed_release_def stop_again_def browser_eval cong: call_later)

theorem capacity_never_returned:
  "map (\<lambda>b. (b_Status b, b_HostID b)) (browser_vms (w_db failed_release)) = [(''stopped'', None), (''running'', Some 1)] \<and>
   map bp_State (browser_vm_placements (w_db failed_release)) = [''active'', ''active''] \<and>
   (case fst (run_alone start_again failed_release) of BrError st msg \<Rightarrow> st | _ \<Rightarrow> 0) = 503 \<and>
   fst (run_alone delete_request failed_release) = BrDeleted \<and>
   map h_UsedVCPUs (hosts (w_db (snd (run_alone delete_request failed_release)))) = [6]"
  by (simp add: failed_release_state start_again_def delete_request_def browser_eval cong: call_later)

end
