(* ===== verification/Spec2Isabelle.thy ===== *)
theory Spec2Isabelle
  imports Reconciler_Properties Routing_Properties Catalog_Properties Metrics_Properties Terminal_Properties
    Metadata_Properties Artifact_Properties Api_Proxy_Properties Backup_Properties Account_Properties Self_Update_Properties
    Migration_Properties Store_Typing Fleet_Api_Properties Host_Update_Properties Browser_Properties
begin

text \<open>
  A model of the control plane of OpenClawMachines (\<open>backend/\<close>, Go) and of the parts of the host and
  of the VM that carry logic of their own, with the theorems that make them correct.

  The program. The control plane keeps accounts, machines, hosts, placements and operations in
  PostgreSQL. Requests and background loops act on this database: the runtime service starts,
  stops, upgrades and deletes machines; the placement service picks a host and an address and
  accounts for capacity; the routing service gives a machine a Cloudflare tunnel, a DNS record and
  an entry of the route cache; the reconcilers repair what failures leave behind; migrations move a
  machine to another host through a backup. People log in, own accounts, invite others and register
  the providers that their machines may call. A host joins with an enrollment token, gets a token of its own,
  reports with heartbeats and is updated, drained or deregistered by an administrator. An account can have
  browser VMs next to its machines and pair them. The agents on the
  hosts run the VMs, are reached over HTTP, and replace their own binary when a new one is published. Inside a VM a daemon serves
  terminals; on a host a sampler reads the cgroups of the VMs, a metadata server hands each VM its
  secrets and relays its calls to the control plane, a proxy adds the credentials to the calls of a
  VM to language-model and messaging APIs, a fetcher unpacks the releases that the VMs run, and the
  backup code encrypts data volumes into an object store.

  How the theories model it.
  \<^item> \<open>Prelude\<close>, \<open>Go_Json\<close>, \<open>Go_Path\<close>, \<open>Go_Url\<close>: Go errors as values, the string, time, path and URL
    functions of the Go library that the source calls, decoding of JSON, tables as lists of rows, and
    the state monad in which a Go method is a step on the state of its component.
  \<^item> \<open>Store_Model\<close>: the entity types of \<open>internal/store/store.go\<close> as records, and the database: its
    tables, its clock, its generator of identifiers and the tape of faults. \<open>Store_Machines\<close>,
    \<open>Store_Hosts\<close>, \<open>Store_Placement\<close>, \<open>Store_Ops\<close>, \<open>Store_Accounts\<close>: the methods of \<open>PostgresStore\<close>
    (\<open>internal/store/postgres.go\<close>, \<open>postgres_artifact_releases.go\<close>,
    \<open>postgres_host_artifact_state.go\<close>, \<open>compat.go\<close>), each a step of the
    database with the rows that its SQL selects and changes, the constraints that it can violate and
    its error results.
  \<^item> \<open>Net\<close>, \<open>Kv_Store\<close>, \<open>Agent_Client\<close>, \<open>Tunnel\<close>, \<open>Routing\<close>: the HTTP requests of
    \<open>internal/kvstore/cloudflare.go\<close>, \<open>internal/agentclient/client.go\<close>, \<open>internal/tunnel\<close> and
    \<open>internal/routing\<close> with what is made of the replies, retries included.
  \<^item> \<open>Fleet_Placement\<close> (\<open>internal/fleet/placement.go\<close>), \<open>Version_Resolver\<close>
    (\<open>internal/machines/version_resolver.go\<close>, \<open>internal/openclawver\<close>), \<open>Machine_Runtime\<close>
    (\<open>internal/machines/runtime.go\<close>), \<open>Host_Reconciler\<close> (\<open>internal/reconciler\<close>): the services, over the
    \<open>World\<close> of the database and the network. \<open>Migration\<close> (\<open>internal/api/admin_migrate_workflow.go\<close>
    and the helpers of \<open>admin_migrate.go\<close>, \<open>internal/workflows\<close>): a migration as the activities of a
    workflow, over the same world.
  \<^item> \<open>Auth\<close> (\<open>internal/auth\<close>), \<open>Account_Api\<close> (\<open>internal/api\<close>: middleware, sessions, accounts, members
    and invitations), \<open>Provider_Api\<close> (\<open>internal/api/providers.go\<close>): who a caller is and what it may do.
    \<open>Concurrent\<close>: requests that run side by side, as resumptions over the shared state.
  \<^item> \<open>Fleet_Api\<close> (\<open>internal/api\<close>: \<open>enrollment.go\<close>, \<open>agent_heartbeat.go\<close>, \<open>agent_auth.go\<close>, \<open>admin_hosts.go\<close>): how
    hosts join, report and leave, as steps on the database and the network; a goroutine that restarts
    machines is returned as the list of these. \<open>Host_Update\<close> (\<open>admin_host_update_operations.go\<close>): updates of
    hosts with the table of operations that the server keeps in memory, as programs that can be interleaved.
  \<^item> \<open>Browser_Api\<close> (\<open>internal/api\<close>: \<open>browser_vms.go\<close>, \<open>admin_browser_vms.go\<close>): browser VMs as their accounts
    create, start, stop, pair and delete them, and their reconciler, as programs on the database and the
    network; a reservation by the placement service is one step of such a program.
  \<^item> \<open>Terminal\<close> (\<open>internal/ptyd/server_linux.go\<close>): the goroutines of a terminal session as a step
    relation, the session manager and the endpoints that run commands and write files.
  \<^item> \<open>Vm_Metrics\<close> (\<open>internal/vmmetrics\<close>): the cgroup reader, the sampler and the partition names.
  \<^item> \<open>Metadata_Server\<close> (\<open>internal/metadata\<close>): the registrations and their indexes, the HTTP endpoints
    with their checks of address and nonce, and the fetcher with its cache of secrets.
  \<^item> \<open>Api_Proxy\<close> (\<open>internal/apiproxy\<close>): the providers, how a call is authenticated, rewritten and sent
    upstream, the refresh of credentials and the accounting of usage.
  \<^item> \<open>File_System\<close>: a tree of directories, files and symbolic links with the calls of \<open>os\<close> and
    \<open>filepath\<close> that the source makes. \<open>Artifact\<close> (\<open>internal/rootfs/openclaw_fetcher.go\<close>,
    \<open>pkg/gcsutil\<close>): download, check and unpacking of a release on such a tree.
  \<^item> \<open>Backup\<close> (\<open>internal/backup\<close>): the encrypted stream, the upload and the restore of a volume.
    \<open>Self_Update\<close> (\<open>internal/selfupdate\<close>): the manifest, the download and the exchange of the binary.

  Failures and other parties. Every statement on the database draws from a tape of faults, which a
  theorem leaves arbitrary: any call can fail, and a transaction that fails leaves no trace. What
  agents, Cloudflare and the upstream APIs answer is a tape of replies, and every request is logged;
  a reply that is missing is a connection error. Identifiers, random bytes, the clock, the order of
  equal elements after a sort, the boot phases that load the configuration of a VM, the provider API
  that tells whether an instance exists, the object store, the names of temporary directories, the
  file system of the terminal daemon, the JSON parser and the parser of RFC 3339 times, the resolver
  of host names, the block cipher, the authentication code and the compression of backups, the
  library that reads and signs JWTs, the hash of a binary and what it prints when it is run, the text that
  JSON is written as in the message of an update, the template of the install script, and how often the
  workflow engine repeats an activity are arguments.

  Loops. The retries of the cache are bounded by their counter as in the source. The poller of a
  VM has a deadline; the number of polls that fit before it is an argument, and the theorem about
  the poller holds for every number; the waits of an update of a host and of a browser VM that boots are
  treated in the same way. An
  identifier for such an update is tried five times, as in the source. The recursion over parents in \<open>ancestor_ok\<close> has the length of
  the path as fuel, which is enough because every step shortens the path. Resolving a path follows
  at most 255 symbolic links in \<open>EvalSymlinks\<close> and 40 in the kernel, as in the implementations; the
  recursion ends because each step uses up a link of this budget or a component of the path.

  The interfaces. \<open>state_preorder\<close> (\<open>Prelude\<close>) collects the rules by which a relation between the
  states before and after holds of a composed method when it holds of its steps; \<open>db_preorder\<close> adds
  the primitive steps of the database, \<open>invariant_preorder\<close> is the case of an invariant. \<open>db_invariant\<close>
  (\<open>Store_Invariants\<close>) is an invariant that faults and the clock keep; \<open>vm_session\<close>, \<open>store_session\<close>
  and \<open>store_contract\<close> (\<open>Store_Contract\<close>) are what the services rely on: an invariant that every store
  method they call keeps. The services are verified against \<open>store_contract\<close> once, and it is
  interpreted for the unique indexes, for the bounds of capacity, for their conjunction, and
  \<open>store_session\<close> for the invariants of single theorems; \<open>migration_session\<close> is what a migration adds
  to it. \<open>rely_guarantee\<close> (\<open>Concurrent\<close>) is the argument that a relation which every call of a request
  guarantees holds under all interleavings; it is interpreted for the account database and for browser VMs. \<open>ownership\<close> is the
  argument for entries of a shared table that only the request that created them changes; it is interpreted
  for the updates of hosts. \<open>report_session\<close> and \<open>fleet_session\<close> (\<open>Fleet_Api\<close>) are what the handlers for hosts
  rely on, interpreted for the invariants of the database and for a host that keeps its status and token.
  \<open>remote_call\<close> (\<open>Kv_Store\<close>) is a request that is sent until it is accepted.

  What is shown.
  \<^item> This theory, \<open>Store_Steps\<close> and \<open>Store_Typing\<close>: in every state that interleaved store calls can
    reach, at most one operation and one placement of a machine are in flight, addresses of
    placements and slugs are unique, no host is charged more than it has, every column has a value of
    its type and every reference points to a row.
  \<^item> \<open>Placement_Properties\<close>: what placing and releasing do on every branch, their round trips, and
    that an automatic placement finds a host if one is eligible.
  \<^item> \<open>Lifecycle_Properties\<close>: the runtime service keeps the invariants, ends the operations it begins,
    runs one at a time, and what its successes and failures leave behind.
  \<^item> \<open>Migration_Properties\<close>: a migration keeps the invariants, ends its operation, and never leaves a
    machine without its data.
  \<^item> \<open>Reconciler_Properties\<close>: what a pass of the host reconciler does and must not do.
  \<^item> \<open>Routing_Properties\<close>: which requests the cache, the projector, the cache reconciler and the
    tunnel reaper send, and that retries are bounded.
  \<^item> \<open>Catalog_Properties\<close>: versions, releases, workflow locks and enrollment tokens.
  \<^item> \<open>Account_Properties\<close>: owners, invitations and the rights of members under all interleavings, and
    where tokens, the cache of members and the first login fall short.
  \<^item> \<open>Fleet_Api_Properties\<close>: reports need the token of their host, an enrollment token gives one host while
    the database answers and more when it fails, joining and leaving keep the invariants, and a host that
    was deregistered can come back.
  \<^item> \<open>Host_Update_Properties\<close>: one update of a host at a time, and every update ends; an update can be
    taken for a success because the old agent has reported.
  \<^item> \<open>Browser_Properties\<close>: under all interleavings no account touches browser VMs or machines of another, and
    pairs stay in their account; nothing is freed before the agent has confirmed that the VM is gone; and a
    stop that overlaps a start, or whose release fails, leaves a VM without a placement or a placement that
    nothing releases.
  \<^item> \<open>Terminal_Properties\<close>: the ring buffer against its specification, delivery of output under all
    interleavings, and confinement of commands and files.
  \<^item> \<open>Metrics_Properties\<close>: the sampler accounts for every point; names are read back.
  \<^item> \<open>Metadata_Properties\<close>: no VM gets anything without its nonce or anything of another VM, and what
    the cache of secrets can return, including secrets that an overtaken request left in it.
  \<^item> \<open>Api_Proxy_Properties\<close>: no upstream call without the nonce, credentials only to the hosts of their
    provider, an exact account of usage, and where the refresh of credentials and the check of
    registered hosts fall short.
  \<^item> \<open>Artifact_Properties\<close>: unpacking an archive changes nothing outside its directory as long as the
    archive has no hard link, what a hard link can do, and what a staged release was checked for.
  \<^item> \<open>Backup_Properties\<close>: a restore gives back what was stored and nothing that is not authentic.
  \<^item> \<open>Self_Update_Properties\<close>: what the agent installs was checked, and when it installs it.
  Several theorems show behaviour that the code presumably does not intend; each says so.

  Not modelled. The other HTTP handlers of \<open>internal/api\<close> (machines, files, credentials,
  channels, plugins, backups) and the integrations, which decode requests and call the services or the APIs
  of others; the endpoints that agents call for their machines, but for the checks that guard them; the push of the browser configuration into a machine after its
  pairing has changed; the synchronous migration of \<open>admin_migrate.go\<close>, and a crash of the worker in
  the middle of an activity; the assembly of the seed configuration, whose result is an argument; the
  host agent's own API, the Firecracker orchestrator and the host networking, which are
  operating-system effects; the fetcher of Hermes releases; the provisioner of cloud instances; the
  export of a volume as a tar archive; e-mail; the front end and the edge worker, which are written in
  other languages. The text of log messages and of the activity log is left out throughout.
\<close>

section \<open>Interleavings of the whole control plane\<close>

text \<open>
  C1: exclusivity. Whatever sequence of store calls the requests, the pollers and the reconcilers
  make, starting from an empty database and with any of the calls failing: a machine has at most
  one operation in flight and at most one unreleased placement, an address of a host belongs to
  at most one unreleased placement (of a machine, and of a browser VM), a browser VM has at most
  one unreleased placement and is paired with at most one machine, and no two machines of an
  account share a slug.
\<close>
theorem reachable_exclusive:
  assumes "store_run empty_db s"
  shows "unique_among active_op o_MachineID (machine_operations s) \<and>
    unique_among active_placement p_MachineID (machine_placements s) \<and>
    unique_among active_placement (\<lambda>p. (p_HostID p, p_VMIP p)) (machine_placements s) \<and>
    unique_among (\<lambda>p. bp_ReleasedAt p = None) bp_BrowserVMID (browser_vm_placements s) \<and>
    unique_among (\<lambda>p. bp_ReleasedAt p = None \<and> bp_VMIP p \<noteq> None) (\<lambda>p. (bp_HostID p, bp_VMIP p))
      (browser_vm_placements s) \<and>
    unique_among (\<lambda>m. m_BrowserVMID m \<noteq> None) m_BrowserVMID (machines s) \<and>
    unique_among (\<lambda>_. True) (\<lambda>m. (m_AccountID m, m_Slug m)) (machines s)"
  using store_run_ok [OF assms empty_db_ok]
  by (simp add: db_ok_def schema_ok_def operations_ok_def placements_ok_def browser_placements_ok_def
      machines_ok_def)

text \<open>A run: an account and a machine are created, then an operation on the machine starts.\<close>

definition run_account :: db where
  "run_account = empty_db\<lparr>accounts := [sample_account]\<rparr>"

definition run_machine :: db where
  "run_machine = final_state (CreateMachine sample_machine) run_account"

definition run_start :: db where
  "run_start = final_state (CreateMachineOperation (new_operation (uuid_of 1) ''start'')) run_machine"

lemma run_machine_machines: "machines run_machine = [machine_row sample_machine (uuid_of 0) (run_account\<lparr>db_uuids := 1\<rparr>)]"
  "db_faults run_machine = []" "machine_operations run_machine = []"
  by (simp_all add: run_machine_def run_account_def CreateMachine_def insert_machine_def default_workspace_def
      matching_def machine_row_def sample_defs ValidMachineKind_def NormalizeMachineKind_def channel_check_def
      deref_or_def)

lemma run_start_operations: "length (filter active_op (machine_operations run_start)) = 1"
  by (simp add: run_start_def CreateMachineOperation_def create_operation_def run_machine_machines
      new_operation_def active_op_def Let_def)

lemma sample_run: "store_run empty_db run_start"
proof -
  have "store_step empty_db run_account"
    using store_step.create_account [of empty_db sample_account] by (simp add: run_account_def empty_db_def)
  moreover have "store_step run_account run_machine"
    unfolding run_machine_def by (rule store_step.create_machine) (simp_all add: sample_defs)
  moreover have "store_step run_machine run_start"
    unfolding run_start_def by (rule store_step.create_operation)
  ultimately show ?thesis by (meson rtranclp.rtrancl_into_rtrancl rtranclp.rtrancl_refl)
qed

theorem reachable_exclusive_witness:
  "store_run empty_db run_start \<and> length (filter active_op (machine_operations run_start)) = 1 \<and>
   unique_among active_op o_MachineID (machine_operations run_start)"
  using reachable_exclusive [OF sample_run] sample_run run_start_operations by simp







text \<open>
  C5: the lifecycle keeps the database well formed. From a database in which the unique indexes
  and the capacities hold, a start, a stop, a stop for an update, an upgrade, a deletion and the
  poller of a start all end in such a database, whatever the agents and Cloudflare answer and
  whichever database calls fail.
\<close>
theorem lifecycle_keeps_db_ok:
  assumes "db_ok (w_db w)" "0 \<le> pc_DefaultDiskPerVM (rt_placement rt)" "0 \<le> m_VCPUs m" "0 \<le> m_MemoryMB m"
  shows "db_ok (w_db (final_state (start rt en boot m callerOp opts) w)) \<and>
    db_ok (w_db (final_state (stop rt m callerOp) w)) \<and>
    db_ok (w_db (final_state (StopForUpdate rt m) w)) \<and>
    db_ok (w_db (final_state (UpgradeWithOperation rt en boot m opid) w)) \<and>
    db_ok (w_db (final_state (Delete rt backups m) w)) \<and>
    db_ok (w_db (final_state (pollVMStatus rt c n job) w))"
  using assms
  by (intro conjI tripleD [OF live.start_keeps] tripleD [OF live.stop_keeps]
      tripleD [OF live.StopForUpdate_keeps] tripleD [OF live.Upgrade_keeps]
      tripleD [OF live.Delete_keeps] tripleD [OF live.pollVMStatus_keeps]) auto

theorem lifecycle_keeps_db_ok_witness:
  "db_ok (w_db (final_state (start sample_service sample_entropy sample_boot sample_machine '''' sample_options)
      sample_world))"
  by (rule conjunct1 [OF lifecycle_keeps_db_ok]) simp_all

text \<open>
  The reconciler's pass keeps the database well formed, whatever the provider says about the
  instances.
\<close>
theorem reconcile_keeps_db_ok:
  assumes "db_ok (w_db w)"
  shows "db_ok (w_db (final_state (reconcileOnce hr) w))"
  using live.reconcileOnce_keeps assms by (rule tripleD)

theorem reconcile_keeps_db_ok_witness:
  "db_ok (w_db (final_state (reconcileOnce sample_reconciler) sample_world))"
  by (rule reconcile_keeps_db_ok) simp

end
